(* ===== verification/Prelude.thy ===== *)
theory Prelude
  imports Main "HOL-Library.List_Lexorder" "HOL-Library.Char_ord"
begin

text \<open>
  What every component of the development shares.

  \<^item> The results of fallible code: a value of \<open>'e + 'a\<close>, with \<open>Inl\<close> for a raised
    exception, sequenced by \<open>res_bind\<close>; loops that may raise are \<open>res_fold\<close> and
    \<open>res_map\<close>.
  \<^item> Python's \<open>dict\<close> with string keys: an association list in insertion order, read by
    \<open>dget\<close> and written by \<open>dput\<close> (which replaces in place, or appends a new key).
    The laws of the two operations are the locale \<open>dict_like\<close>; the lemmas that the
    components use on loops of insertions are proved in it once.
  \<^item> \<open>dedup\<close>, Python's \<open>list(dict.fromkeys(xs))\<close>: first occurrences, in order.
\<close>

named_theorems res_simps \<open>simplification rules of the result type\<close>
named_theorems dict_simps \<open>simplification rules of Python dictionaries\<close>

section \<open>Results of fallible code\<close>

definition res_bind :: "'e + 'a \<Rightarrow> ('a \<Rightarrow> 'e + 'b) \<Rightarrow> 'e + 'b" where
  "res_bind r f = (case r of Inl e \<Rightarrow> Inl e | Inr x \<Rightarrow> f x)"

lemma res_bind_simps [simp, res_simps]:
  "res_bind (Inl e) f = Inl e"
  "res_bind (Inr x) f = f x"
  by (simp_all add: res_bind_def)

lemma res_bind_eq_Inr [res_simps]:
  "res_bind r f = Inr y \<longleftrightarrow> (\<exists>x. r = Inr x \<and> f x = Inr y)"
  by (cases r) auto

lemma res_bind_eq_Inl [res_simps]:
  "res_bind r f = Inl e \<longleftrightarrow> r = Inl e \<or> (\<exists>x. r = Inr x \<and> f x = Inl e)"
  by (cases r) auto

lemma res_bind_assoc: "res_bind (res_bind r f) g = res_bind r (\<lambda>x. res_bind (f x) g)"
  by (cases r) auto

lemma res_bind_cong [fundef_cong]:
  "r = r' \<Longrightarrow> (\<And>x. r' = Inr x \<Longrightarrow> f x = g x) \<Longrightarrow> res_bind r f = res_bind r' g"
  by (cases r') auto

definition guard_res :: "bool \<Rightarrow> 'e \<Rightarrow> 'e + unit" where
  "guard_res bad e = (if bad then Inl e else Inr ())"

lemma guard_res_simps [simp, res_simps]:
  "guard_res True e = Inl e"
  "guard_res False e = Inr ()"
  "guard_res bad e = Inr u \<longleftrightarrow> \<not> bad"
  "guard_res bad e = Inl e' \<longleftrightarrow> bad \<and> e' = e"
  by (auto simp: guard_res_def)

text \<open>A \<open>for\<close> loop over a list whose body may raise: the first error stops it.\<close>

primrec res_fold :: "('a \<Rightarrow> 's \<Rightarrow> 'e + 's) \<Rightarrow> 'a list \<Rightarrow> 's \<Rightarrow> 'e + 's" where
  "res_fold f [] s = Inr s"
| "res_fold f (x # xs) s = res_bind (f x s) (res_fold f xs)"

primrec res_map :: "('a \<Rightarrow> 'e + 'b) \<Rightarrow> 'a list \<Rightarrow> 'e + 'b list" where
  "res_map f [] = Inr []"
| "res_map f (x # xs) = res_bind (f x) (\<lambda>y. res_bind (res_map f xs) (\<lambda>ys. Inr (y # ys)))"

lemma res_fold_append:
  "res_fold f (xs @ ys) s = res_bind (res_fold f xs s) (res_fold f ys)"
  by (induction xs arbitrary: s) (auto simp: res_bind_def split: sum.split)

lemma res_fold_invariant:
  assumes "res_fold f xs s = Inr t" and "P s"
    and "\<And>x s s'. x \<in> set xs \<Longrightarrow> P s \<Longrightarrow> f x s = Inr s' \<Longrightarrow> P s'"
  shows "P t"
  using assms
proof (induction xs arbitrary: s)
  case Nil
  then show ?case by simp
next
  case (Cons x xs)
  from Cons.prems(1) obtain u where u: "f x s = Inr u" and rest: "res_fold f xs u = Inr t"
    by (auto simp: res_bind_eq_Inr)
  have "P u" using Cons.prems(2,3) u by auto
  with rest show ?case using Cons.prems(3) by (intro Cons.IH) auto
qed

lemma res_map_Inr_length: "res_map f xs = Inr ys \<Longrightarrow> length ys = length xs"
  by (induction xs arbitrary: ys) (auto simp: res_bind_eq_Inr)

lemma res_map_Inr_nth:
  "res_map f xs = Inr ys \<Longrightarrow> i < length xs \<Longrightarrow> f (xs ! i) = Inr (ys ! i)"
proof (induction xs arbitrary: ys i)
  case Nil
  then show ?case by simp
next
  case (Cons x xs)
  then show ?case by (cases i) (auto simp: res_bind_eq_Inr)
qed

lemma res_map_Inr_map: "(\<And>x. x \<in> set xs \<Longrightarrow> f x = Inr (g x)) \<Longrightarrow> res_map f xs = Inr (map g xs)"
  by (induction xs) auto

lemma res_map_Inr_set:
  "res_map f xs = Inr ys \<Longrightarrow> y \<in> set ys \<Longrightarrow> \<exists>x\<in>set xs. f x = Inr y"
  by (induction xs arbitrary: ys) (auto simp: res_bind_eq_Inr)

lemma res_map_total: "(\<And>x. x \<in> set xs \<Longrightarrow> \<exists>y. f x = Inr y) \<Longrightarrow> \<exists>ys. res_map f xs = Inr ys"
proof (induction xs)
  case (Cons x xs)
  then obtain y ys where "f x = Inr y" "res_map f xs = Inr ys" by fastforce
  then show ?case by simp
qed simp

lemma res_bind_total: "\<exists>x. r = Inr x \<Longrightarrow> \<exists>y. res_bind r (\<lambda>x. Inr (g x)) = Inr y"
  by auto

lemma res_fold_total: "(\<And>x s. \<exists>t. f x s = Inr t) \<Longrightarrow> \<exists>t. res_fold f xs s = Inr t"
proof (induction xs arbitrary: s)
  case (Cons x xs)
  then obtain u where "f x s = Inr u" by blast
  with Cons show ?case by simp
qed simp

section \<open>Dictionaries\<close>

type_synonym 'a dict = "(string \<times> 'a) list"

primrec dget :: "'a dict \<Rightarrow> string \<Rightarrow> 'a option" where
  "dget [] k = None"
| "dget (p # d) k = (if fst p = k then Some (snd p) else dget d k)"

fun dput :: "string \<Rightarrow> 'a \<Rightarrow> 'a dict \<Rightarrow> 'a dict" where
  "dput k v [] = [(k, v)]"
| "dput k v ((k', v') # d) = (if k' = k then (k, v) # d else (k', v') # dput k v d)"

definition dkeys :: "'a dict \<Rightarrow> string list" where
  "dkeys d = map fst d"

definition dhas :: "'a dict \<Rightarrow> string \<Rightarrow> bool" where
  "dhas d k \<longleftrightarrow> dget d k \<noteq> None"

definition ddel :: "string \<Rightarrow> 'a dict \<Rightarrow> 'a dict" where
  "ddel k d = filter (\<lambda>p. fst p \<noteq> k) d"

text \<open>\<open>d.update(e)\<close>, and \<open>{**d, **e}\<close>: the items of \<open>e\<close> are stored one after the other.\<close>

definition dupdate :: "'a dict \<Rightarrow> 'a dict \<Rightarrow> 'a dict" where
  "dupdate d e = fold (\<lambda>p. dput (fst p) (snd p)) e d"

text \<open>\<open>sorted(d.items())\<close>: keys are unique, so only they decide the order. UTF-8 keeps the
  code point order, so comparing the bytes of two keys is comparing the two texts.\<close>

definition dsorted :: "'a dict \<Rightarrow> 'a dict" where
  "dsorted d = sort_key fst d"

definition dict_wf :: "'a dict \<Rightarrow> bool" where
  "dict_wf d \<longleftrightarrow> distinct (map fst d)"

locale dict_like =
  fixes get :: "'d \<Rightarrow> 'k \<Rightarrow> 'v option"
    and put :: "'k \<Rightarrow> 'v \<Rightarrow> 'd \<Rightarrow> 'd"
  assumes get_put: "get (put k v d) k' = (if k' = k then Some v else get d k')"
begin

lemma get_put_same: "get (put k v d) k = Some v"
  by (simp add: get_put)

lemma get_put_other: "k' \<noteq> k \<Longrightarrow> get (put k v d) k' = get d k'"
  by (simp add: get_put)

lemma get_fold_put_other:
  "k \<notin> f ` set xs \<Longrightarrow> get (fold (\<lambda>x. put (f x) (g x)) xs d) k = get d k"
  by (induction xs arbitrary: d) (auto simp: get_put)

lemma get_fold_put_in:
  "distinct (map f xs) \<Longrightarrow> x \<in> set xs \<Longrightarrow>
    get (fold (\<lambda>x. put (f x) (g x)) xs d) (f x) = Some (g x)"
proof (induction xs arbitrary: d)
  case Nil
  then show ?case by simp
next
  case (Cons y ys)
  then show ?case by (auto simp: get_fold_put_other get_put)
qed

lemma get_fold_put_dom:
  "(get (fold (\<lambda>x. put (f x) (g x)) xs d) k \<noteq> None) = (k \<in> f ` set xs \<or> get d k \<noteq> None)"
  by (induction xs arbitrary: d) (auto simp: get_put)

end

lemma dget_dput: "dget (dput k v d) k' = (if k' = k then Some v else dget d k')"
  by (induction k v d rule: dput.induct) auto

interpretation pd: dict_like dget dput
  by unfold_locales (rule dget_dput)

lemmas dget_dput_simps [simp, dict_simps] = pd.get_put_same pd.get_put_other

lemma dget_map_of: "dget d = map_of d"
  by (rule ext, induct_tac d) auto

lemma dget_Some_in: "dget d k = Some v \<Longrightarrow> (k, v) \<in> set d"
  by (auto simp: dget_map_of dest: map_of_SomeD)

lemma dget_None_iff: "dget d k = None \<longleftrightarrow> k \<notin> fst ` set d"
  by (simp add: dget_map_of map_of_eq_None_iff)

lemma dget_in_wf: "dict_wf d \<Longrightarrow> (k, v) \<in> set d \<Longrightarrow> dget d k = Some v"
  by (simp add: dict_wf_def dget_map_of)

lemma fst_set_dput: "fst ` set (dput k v d) = insert k (fst ` set d)"
  by (induction k v d rule: dput.induct) auto

lemma snd_set_dput: "snd ` set (dput k v d) \<subseteq> insert v (snd ` set d)"
  by (induction k v d rule: dput.induct) auto

lemma set_dput: "p \<in> set (dput k v d) \<Longrightarrow> p = (k, v) \<or> p \<in> set d"
  by (induction k v d rule: dput.induct) (auto split: if_splits)

lemma dict_wf_dput [simp]: "dict_wf d \<Longrightarrow> dict_wf (dput k v d)"
proof (induction k v d rule: dput.induct)
  case (1 k v)
  then show ?case by (simp add: dict_wf_def)
next
  case (2 k v k' v' d)
  then show ?case
    using fst_set_dput [of k v d] by (auto simp: dict_wf_def)
qed

lemma dict_wf_Nil [simp]: "dict_wf []"
  by (simp add: dict_wf_def)

lemma dget_Nil [simp]: "dget [] k = None"
  by simp

lemma dget_dsorted: "dict_wf d \<Longrightarrow> dget (dsorted d) k = dget d k"
proof -
  assume wf: "dict_wf d"
  have "distinct (map fst (dsorted d))"
    using wf unfolding dict_wf_def dsorted_def
    by (metis distinct_map set_sort distinct_sort inj_on_cong)
  then show ?thesis
    using wf unfolding dict_wf_def dget_map_of
    by (intro map_of_inject_set [THEN iffD2, THEN fun_cong]) (auto simp: dsorted_def)
qed

lemma dict_wf_dsorted [simp]: "dict_wf d \<Longrightarrow> dict_wf (dsorted d)"
  unfolding dict_wf_def dsorted_def
  by (metis distinct_map distinct_sort set_sort)

lemma set_dsorted [simp]: "set (dsorted d) = set d"
  by (simp add: dsorted_def)

lemma dput_append_new: "k \<notin> fst ` set d \<Longrightarrow> dput k v d = d @ [(k, v)]"
  by (induction k v d rule: dput.induct) auto

lemma dget_append: "dget (d @ e) k = (case dget d k of None \<Rightarrow> dget e k | Some v \<Rightarrow> Some v)"
  by (induction d) auto

lemma dget_dupdate:
  "dget (dupdate d e) k = (case dget (rev e) k of None \<Rightarrow> dget d k | Some v \<Rightarrow> Some v)"
  by (induction e arbitrary: d)
    (auto simp: dupdate_def dget_dput dget_append split: option.splits)

section \<open>First occurrences\<close>

definition add_new :: "'a \<Rightarrow> 'a list \<Rightarrow> 'a list" where
  "add_new x acc = (if x \<in> set acc then acc else acc @ [x])"

definition dedup :: "'a list \<Rightarrow> 'a list" where
  "dedup xs = fold add_new xs []"

lemma fold_add_new_set: "set (fold add_new xs acc) = set acc \<union> set xs"
  by (induction xs arbitrary: acc) (auto simp: add_new_def)

lemma fold_add_new_distinct: "distinct acc \<Longrightarrow> distinct (fold add_new xs acc)"
  by (induction xs arbitrary: acc) (auto simp: add_new_def)

lemma set_dedup [simp]: "set (dedup xs) = set xs"
  by (simp add: dedup_def fold_add_new_set)

lemma distinct_dedup [simp]: "distinct (dedup xs)"
  by (simp add: dedup_def fold_add_new_distinct)

lemma fold_add_new_id:
  "distinct (acc @ xs) \<Longrightarrow> fold add_new xs acc = acc @ xs"
  by (induction xs arbitrary: acc) (auto simp: add_new_def)

lemma dedup_id: "distinct xs \<Longrightarrow> dedup xs = xs"
  by (simp add: dedup_def fold_add_new_id)

lemma dedup_idem [simp]: "dedup (dedup xs) = dedup xs"
  by (simp add: dedup_id)

text \<open>\<open>sep.join(xs)\<close>.\<close>

fun join :: "string \<Rightarrow> string list \<Rightarrow> string" where
  "join sep [] = []"
| "join sep [x] = x"
| "join sep (x # y # ys) = x @ sep @ join sep (y # ys)"

end
