(* ===== verification/Py_Text.thy ===== *)
theory Py_Text
  imports Prelude
begin

text \<open>
  Python's \<open>str\<close>. A text is the list of the bytes of its UTF-8 encoding, so that
  \<open>encode("utf-8")\<close> is the identity, equality, concatenation and the order of two texts
  (by code points, which is the order of their UTF-8 bytes) are those of the byte lists, and
  ASCII literals read as in the source. What counts code points (\<open>len\<close>, slices, \<open>strip\<close>,
  whitespace patterns) goes through \<open>uchars\<close>, which splits a text into its characters, each
  the list of its bytes. \<open>cp\<close> writes a text by its code points.

  Whitespace is the set of \<open>str.isspace\<close>, which both \<open>strip\<close> and the pattern \<open>\s\<close> use.
  \<open>ascii_digits\<close> writes the other decimal digits of Unicode as ASCII digits, for the readers of
  numbers that accept them.
\<close>

section \<open>Characters of a text\<close>

definition byte :: "char \<Rightarrow> nat" where
  "byte c = of_char c"

definition cont_byte :: "char \<Rightarrow> bool" where
  "cont_byte c \<longleftrightarrow> 128 \<le> byte c \<and> byte c < 192"

lemma length_dropWhile_less [termination_simp]: "length (dropWhile P xs) < Suc (length xs)"
  using length_dropWhile_le [of P xs] by linarith

fun uchars :: "string \<Rightarrow> string list" where
  "uchars [] = []"
| "uchars (c # cs) = (c # takeWhile cont_byte cs) # uchars (dropWhile cont_byte cs)"

lemma concat_uchars [simp]: "concat (uchars s) = s"
  by (induction s rule: uchars.induct) auto

text \<open>What a list of characters of a text looks like, and every contiguous part of it.\<close>

fun uchar_wf :: "string \<Rightarrow> bool" where
  "uchar_wf [] = False"
| "uchar_wf (c # cs) = list_all cont_byte cs"

fun uwf :: "string list \<Rightarrow> bool" where
  "uwf [] = True"
| "uwf (x # xs) = (uchar_wf x \<and> uwf xs \<and> (\<forall>y\<in>set xs. \<not> cont_byte (hd y)))"

lemma uwf_uchars: "uwf (uchars s) \<and> (\<forall>y\<in>set (tl (uchars s)). \<not> cont_byte (hd y))"
proof (induction s rule: uchars.induct)
  case 1
  then show ?case by simp
next
  case (2 c cs)
  let ?rest = "uchars (dropWhile cont_byte cs)"
  have hd: "\<forall>y\<in>set ?rest. \<not> cont_byte (hd y)"
  proof (cases "dropWhile cont_byte cs")
    case Nil
    show ?thesis unfolding Nil by simp
  next
    case (Cons d ds)
    then have "\<not> cont_byte d" by (metis hd_dropWhile list.discI list.sel(1))
    with 2 Cons show ?thesis by auto
  qed
  have "list_all cont_byte (takeWhile cont_byte cs)"
    by (auto simp: list_all_iff dest: set_takeWhileD)
  with 2 hd show ?case by auto
qed

lemma uwf_append: "uwf (xs @ ys) \<Longrightarrow> uwf xs \<and> uwf ys"
  by (induction xs) auto

lemma takeWhile_dropWhile_cont:
  assumes "list_all cont_byte cs" and "d = [] \<or> \<not> cont_byte (hd d)"
  shows "takeWhile cont_byte (cs @ d) = cs" and "dropWhile cont_byte (cs @ d) = d"
  using assms by (cases d; auto simp: list_all_iff takeWhile_append2 dropWhile_append2)+

lemma uchars_concat: "uwf xs \<Longrightarrow> uchars (concat xs) = xs"
proof (induction xs)
  case Nil
  then show ?case by simp
next
  case (Cons x xs)
  then obtain c cs where x: "x = c # cs" and cs: "list_all cont_byte cs"
    by (cases x) auto
  have d: "concat xs = [] \<or> \<not> cont_byte (hd (concat xs))"
  proof (cases xs)
    case (Cons y ys)
    with \<open>uwf (x # xs)\<close> have "y \<noteq> []" by (cases y) auto
    with Cons \<open>uwf (x # xs)\<close> show ?thesis by simp
  qed simp
  show ?case
    using Cons x takeWhile_dropWhile_cont [OF cs d] by simp
qed

section \<open>Length and slices\<close>

definition ulen :: "string \<Rightarrow> nat" where
  "ulen s = length (uchars s)"

text \<open>\<open>s[:n]\<close> and \<open>s[n:]\<close> for a constant \<open>n\<close>.\<close>

definition utake :: "nat \<Rightarrow> string \<Rightarrow> string" where
  "utake n s = concat (take n (uchars s))"

definition udrop :: "nat \<Rightarrow> string \<Rightarrow> string" where
  "udrop n s = concat (drop n (uchars s))"

lemma utake_udrop [simp]: "utake n s @ udrop n s = s"
  by (metis append_take_drop_id concat_append concat_uchars udrop_def utake_def)

lemma uchars_utake: "uchars (utake n s) = take n (uchars s)"
  unfolding utake_def
  by (metis append_take_drop_id uchars_concat uwf_append uwf_uchars)

lemma ulen_utake: "ulen (utake n s) = min n (ulen s)"
  by (simp add: ulen_def uchars_utake min.commute)

definition ascii :: "string \<Rightarrow> bool" where
  "ascii s \<longleftrightarrow> list_all (\<lambda>c. byte c < 128) s"

lemma uchars_ascii: "ascii s \<Longrightarrow> uchars s = map (\<lambda>c. [c]) s"
proof (induction s)
  case Nil
  then show ?case by simp
next
  case (Cons c cs)
  then have cs: "ascii cs" and no: "takeWhile cont_byte cs = []" "dropWhile cont_byte cs = cs"
    by (cases cs; auto simp: ascii_def cont_byte_def)+
  show ?case using Cons.IH [OF cs] no by simp
qed

lemma ulen_ascii: "ascii s \<Longrightarrow> ulen s = length s"
  by (simp add: ulen_def uchars_ascii)

lemma utake_ascii: "ascii s \<Longrightarrow> utake n s = take n s"
  by (simp add: utake_def uchars_ascii take_map concat_map_singleton)

text \<open>Texts by their code points.\<close>

definition utf8 :: "nat \<Rightarrow> string" where
  "utf8 n = map char_of
    (if n < 0x80 then [n]
     else if n < 0x800 then [0xC0 + n div 64, 0x80 + n mod 64]
     else if n < 0x10000 then [0xE0 + n div 4096, 0x80 + n div 64 mod 64, 0x80 + n mod 64]
     else [0xF0 + n div 262144, 0x80 + n div 4096 mod 64, 0x80 + n div 64 mod 64, 0x80 + n mod 64])"

definition cp :: "nat list \<Rightarrow> string" where
  "cp ns = concat (map utf8 ns)"

section \<open>Whitespace\<close>

definition uspace :: "string \<Rightarrow> bool" where
  "uspace ch \<longleftrightarrow> map byte ch \<in> set
    ([[9], [10], [11], [12], [13], [28], [29], [30], [31], [32],
      [0xC2, 0x85], [0xC2, 0xA0], [0xE1, 0x9A, 0x80],
      [0xE2, 0x80, 0xA8], [0xE2, 0x80, 0xA9], [0xE2, 0x80, 0xAF], [0xE2, 0x81, 0x9F],
      [0xE3, 0x80, 0x80]]
     @ map (\<lambda>i. [0xE2, 0x80, 0x80 + i]) [0..<11])"

definition strip_chars :: "string list \<Rightarrow> string list" where
  "strip_chars xs = rev (dropWhile uspace (rev (dropWhile uspace xs)))"

text \<open>\<open>s.strip()\<close>\<close>

definition strip :: "string \<Rightarrow> string" where
  "strip s = concat (strip_chars (uchars s))"

lemma strip_chars_part: "\<exists>as bs. xs = as @ strip_chars xs @ bs"
proof -
  have "xs = takeWhile uspace xs @ dropWhile uspace xs" by simp
  moreover have "dropWhile uspace xs =
      strip_chars xs @ rev (takeWhile uspace (rev (dropWhile uspace xs)))"
    by (metis rev_append rev_rev_ident strip_chars_def takeWhile_dropWhile_id)
  ultimately show ?thesis by metis
qed

lemma uchars_strip: "uchars (strip s) = strip_chars (uchars s)"
proof -
  obtain as bs where "uchars s = as @ strip_chars (uchars s) @ bs"
    using strip_chars_part by blast
  with uwf_uchars [of s] have "uwf (strip_chars (uchars s))"
    by (metis uwf_append)
  then show ?thesis by (simp add: strip_def uchars_concat)
qed

lemma dropWhile_rev_dropWhile_id:
  assumes "dropWhile P xs = xs"
  shows "dropWhile P (rev (dropWhile P (rev xs))) = rev (dropWhile P (rev xs))"
proof (cases "rev (dropWhile P (rev xs))")
  case Nil
  show ?thesis unfolding Nil by simp
next
  case (Cons y ys)
  obtain zs where "xs = rev (dropWhile P (rev xs)) @ zs"
    by (metis rev_append rev_rev_ident takeWhile_dropWhile_id)
  with Cons have "hd xs = y" and "xs \<noteq> []" by (metis append_Cons list.sel(1)) (use Cons \<open>xs = _ @ zs\<close> in auto)
  with assms have "\<not> P y" by (metis hd_dropWhile)
  with Cons show ?thesis by simp
qed

lemma strip_chars_idem: "strip_chars (strip_chars xs) = strip_chars xs"
proof -
  let ?l = "dropWhile uspace xs"
  have "dropWhile uspace (strip_chars xs) = strip_chars xs"
    unfolding strip_chars_def by (rule dropWhile_rev_dropWhile_id) (rule dropWhile_idem)
  then show ?thesis
    by (metis dropWhile_idem rev_rev_ident strip_chars_def)
qed

lemma strip_idem [simp]: "strip (strip s) = strip s"
  by (simp add: strip_def [of "strip s"] uchars_strip strip_chars_idem) (simp add: strip_def)

lemma strip_Nil [simp]: "strip [] = []"
  by (simp add: strip_def strip_chars_def)

text \<open>\<open>re.sub(r"\s+", " ", s)\<close>\<close>

fun collapse_chars :: "string list \<Rightarrow> string list" where
  "collapse_chars [] = []"
| "collapse_chars (x # xs) =
     (if uspace x then '' '' # collapse_chars (dropWhile uspace xs) else x # collapse_chars xs)"

definition collapse_space :: "string \<Rightarrow> string" where
  "collapse_space s = concat (collapse_chars (uchars s))"

text \<open>\<open>s.replace(a, b)\<close> for a pattern \<open>a\<close> of one character.\<close>

definition replace1 :: "string \<Rightarrow> string \<Rightarrow> string \<Rightarrow> string" where
  "replace1 a b s = concat (map (\<lambda>x. if x = a then b else x) (uchars s))"

abbreviation nbsp :: string where "nbsp \<equiv> cp [0xA0]"
abbreviation ideographic_space :: string where "ideographic_space \<equiv> cp [0x3000]"

definition starts_with :: "string \<Rightarrow> string \<Rightarrow> bool" where
  "starts_with p s \<longleftrightarrow> take (length p) s = p"

text \<open>\<open>s.removeprefix(p)\<close>\<close>

definition removeprefix :: "string \<Rightarrow> string \<Rightarrow> string" where
  "removeprefix p s = (if starts_with p s then drop (length p) s else s)"

lemma removeprefix_append [simp]: "removeprefix p (p @ s) = s"
  by (simp add: removeprefix_def starts_with_def)

section \<open>Numbers as text\<close>

definition digit_char :: "nat \<Rightarrow> char" where
  "digit_char n = char_of (48 + n)"

definition is_digit :: "char \<Rightarrow> bool" where
  "is_digit c \<longleftrightarrow> 48 \<le> byte c \<and> byte c \<le> 57"

definition digit_val :: "char \<Rightarrow> nat" where
  "digit_val c = byte c - 48"

fun nat_text :: "nat \<Rightarrow> string" where
  "nat_text n = (if n < 10 then [digit_char n] else nat_text (n div 10) @ [digit_char (n mod 10)])"

declare nat_text.simps [simp del]

definition int_text :: "int \<Rightarrow> string" where
  "int_text i = (if i < 0 then ''-'' @ nat_text (nat (- i)) else nat_text (nat i))"

definition digits_val :: "string \<Rightarrow> nat" where
  "digits_val s = foldl (\<lambda>n c. 10 * n + digit_val c) 0 s"

lemma byte_digit_char: "n < 10 \<Longrightarrow> byte (digit_char n) = 48 + n"
  by (simp add: byte_def digit_char_def)

lemma digit_val_char [simp]: "n < 10 \<Longrightarrow> digit_val (digit_char n) = n"
  by (simp add: digit_val_def byte_digit_char)

lemma is_digit_char [simp]: "n < 10 \<Longrightarrow> is_digit (digit_char n)"
  by (simp add: is_digit_def byte_digit_char)

lemma digits_val_snoc: "digits_val (s @ [c]) = 10 * digits_val s + digit_val c"
  by (simp add: digits_val_def)

lemma nat_text_digits: "list_all is_digit (nat_text n) \<and> nat_text n \<noteq> []"
proof (induction n rule: nat_text.induct)
  case (1 n)
  then show ?case by (subst (1 2) nat_text.simps) auto
qed

lemma digits_val_nat_text [simp]: "digits_val (nat_text n) = n"
proof (induction n rule: nat_text.induct)
  case (1 n)
  show ?case
  proof (cases "n < 10")
    case True
    then show ?thesis by (subst nat_text.simps) (simp add: digits_val_def)
  next
    case False
    with 1 show ?thesis by (subst nat_text.simps) (simp add: digits_val_snoc)
  qed
qed

lemma nat_text_inj: "nat_text m = nat_text n \<Longrightarrow> m = n"
  by (metis digits_val_nat_text)

lemma not_digit_minus [simp]: "\<not> is_digit (CHR ''-'')"
  by (simp add: is_digit_def byte_def)

lemma int_text_inj: "int_text i = int_text j \<Longrightarrow> i = j"
proof -
  assume eq: "int_text i = int_text j"
  have d: "hd (nat_text n) \<noteq> CHR ''-''" for n
    using nat_text_digits [of n] by (cases "nat_text n") auto
  have m: "''-'' @ nat_text m \<noteq> nat_text n" for m n
    using d [of n] by (metis append_Cons list.sel(1))
  show ?thesis
    using eq m [of "nat (- i)" "nat j"] m [of "nat (- j)" "nat i"]
    by (auto simp: int_text_def split: if_splits dest!: nat_text_inj)
qed

text \<open>
  The other decimal digits of Unicode (category Nd), by the code points of their zeros: \<open>int()\<close>,
  \<open>Decimal()\<close> and the pattern \<open>\d\<close> read them as the ASCII digits.
\<close>

definition unicode_zeros :: "nat list" where
  "unicode_zeros =
    [0x660, 0x6F0, 0x7C0, 0x966, 0x9E6, 0xA66, 0xAE6, 0xB66, 0xBE6, 0xC66, 0xCE6, 0xD66, 0xDE6,
     0xE50, 0xED0, 0xF20, 0x1040, 0x1090, 0x17E0, 0x1810, 0x1946, 0x19D0, 0x1A80, 0x1A90, 0x1B50,
     0x1BB0, 0x1C40, 0x1C50, 0xA620, 0xA8D0, 0xA900, 0xA9D0, 0xA9F0, 0xAA50, 0xABF0, 0xFF10,
     0x104A0, 0x10D30, 0x10D40, 0x11066, 0x110F0, 0x11136, 0x111D0, 0x112F0, 0x11450, 0x114D0,
     0x11650, 0x116C0, 0x116D0, 0x116DA, 0x11730, 0x118E0, 0x11950, 0x11BF0, 0x11C50, 0x11D50,
     0x11DA0, 0x11F50, 0x16130, 0x16A60, 0x16AC0, 0x16B50, 0x16D70, 0x1CCF0, 0x1D7CE, 0x1D7D8,
     0x1D7E2, 0x1D7EC, 0x1D7F6, 0x1E140, 0x1E2F0, 0x1E4F0, 0x1E5F1, 0x1E950, 0x1FBF0]"

fun code_point :: "string \<Rightarrow> nat" where
  "code_point [] = 0"
| "code_point [a] = byte a"
| "code_point [a, b] = (byte a - 0xC0) * 64 + (byte b - 0x80)"
| "code_point [a, b, c] = ((byte a - 0xE0) * 64 + (byte b - 0x80)) * 64 + (byte c - 0x80)"
| "code_point (a # b # c # d # r) =
     (((byte a - 0xF0) * 64 + (byte b - 0x80)) * 64 + (byte c - 0x80)) * 64 + (byte d - 0x80)"

definition ascii_digit :: "string \<Rightarrow> string" where
  "ascii_digit ch =
    (case find (\<lambda>z. z \<le> code_point ch \<and> code_point ch < z + 10) unicode_zeros of
       None \<Rightarrow> ch | Some z \<Rightarrow> [digit_char (code_point ch - z)])"

definition ascii_digits :: "string \<Rightarrow> string" where
  "ascii_digits s = (if ascii s then s else concat (map ascii_digit (uchars s)))"

lemma ascii_digits_ascii [simp]: "ascii s \<Longrightarrow> ascii_digits s = s"
  by (simp add: ascii_digits_def)

text \<open>
  \<open>int(s)\<close> for a text: surrounding whitespace, a sign, digits with single underscores
  between them.
\<close>

fun digits_under :: "string \<Rightarrow> string option" where
  "digits_under [] = None"
| "digits_under [c] = (if is_digit c then Some [c] else None)"
| "digits_under (c # d # cs) =
     (if \<not> is_digit c then None
      else if d = CHR ''_'' then map_option ((#) c) (digits_under cs)
      else map_option ((#) c) (digits_under (d # cs)))"

definition parse_int :: "string \<Rightarrow> int option" where
  "parse_int s =
    (case ascii_digits (strip s) of
       [] \<Rightarrow> None
     | c # cs \<Rightarrow>
         if c = CHR ''-'' then map_option (\<lambda>d. - int (digits_val d)) (digits_under cs)
         else if c = CHR ''+'' then map_option (\<lambda>d. int (digits_val d)) (digits_under cs)
         else map_option (\<lambda>d. int (digits_val d)) (digits_under (c # cs)))"

text \<open>\<open>f"{n:03d}"\<close>\<close>

definition pad_left :: "nat \<Rightarrow> string \<Rightarrow> string" where
  "pad_left w s = replicate (w - length s) CHR ''0'' @ s"

text \<open>\<open>len(s) == 64\<close> and every character a lower-case hexadecimal digit.\<close>

definition is_hex_digit :: "char \<Rightarrow> bool" where
  "is_hex_digit c \<longleftrightarrow> is_digit c \<or> (97 \<le> byte c \<and> byte c \<le> 102)"

definition is_sha256_text :: "string \<Rightarrow> bool" where
  "is_sha256_text s \<longleftrightarrow> ulen s = 64 \<and> list_all is_hex_digit s"

end
