(* ===== verification/Canonical_Json.thy ===== *)
theory Canonical_Json
  imports Py_Value
begin

text \<open>
  The canonical JSON text is injective: two values with the same text are the same value up
  to the order of dictionary keys. This is what makes a SHA-256 over the text a binding of the
  value. The proof shows that the texts are a prefix code before a delimiter, by induction on
  the value.
\<close>

lemma byte_inj: "byte c = byte d \<Longrightarrow> c = d"
  by (simp add: byte_def)

text \<open>Reading back one character: the left inverse of \<open>json_char\<close>.\<close>

definition hex_val :: "char \<Rightarrow> nat" where
  "hex_val c = (if byte c < 58 then byte c - 48 else byte c - 87)"

lemma byte_char_of [simp]: "n < 256 \<Longrightarrow> byte (char_of (n::nat)) = n"
  by (simp add: byte_def)

lemma hex_val_char [simp]: "n < 16 \<Longrightarrow> hex_val (hex_char n) = n"
  by (simp add: hex_val_def hex_char_def)

fun json_unchar :: "string \<Rightarrow> char \<times> string" where
  "json_unchar (a # b # r) =
    (if byte a \<noteq> 92 then (a, b # r)
     else if byte b = 110 then (char_of (10::nat), r)
     else if byte b = 114 then (char_of (13::nat), r)
     else if byte b = 116 then (char_of (9::nat), r)
     else if byte b = 102 then (char_of (12::nat), r)
     else if byte b = 98 then (char_of (8::nat), r)
     else if byte b = 117 then
       (case r of _ # _ # h # l # r' \<Rightarrow> (char_of (16 * hex_val h + hex_val l), r') | _ \<Rightarrow> (b, r))
     else (b, r))"
| "json_unchar [a] = (a, [])"
| "json_unchar [] = (CHR 0x00, [])"

lemma char_of_byte [simp]: "char_of (byte c) = c"
  by (simp add: byte_def)

lemma char_of_byte_eq: "byte c = n \<Longrightarrow> char_of n = c"
  by auto

lemma byte_ascii:
  "byte (CHR ''n'') = 110" "byte (CHR ''r'') = 114" "byte (CHR ''t'') = 116"
  "byte (CHR ''f'') = 102" "byte (CHR ''b'') = 98" "byte (CHR ''u'') = 117"
  "byte (CHR 0x5C) = 92"
  by (simp_all add: byte_def)

lemma json_unchar_char: "json_unchar (json_char c @ x) = (c, x)"
proof -
  have plain: "json_unchar (c # x) = (c, x)" if "byte c \<noteq> 92"
    using that by (cases x) auto
  have hex: "16 * hex_val (hex_char (byte c div 16)) + hex_val (hex_char (byte c mod 16)) = byte c"
    if "byte c < 32" using that by simp
  show ?thesis
    unfolding json_char_def hex2_def
    using plain hex by (simp add: byte_ascii char_of_byte_eq)
qed

lemma json_char_prefix: "json_char c @ x = json_char d @ y \<Longrightarrow> c = d \<and> x = y"
  by (metis json_unchar_char prod.inject)

lemma json_char_not_quote: "hd (json_char c) \<noteq> CHR 0x22 \<and> json_char c \<noteq> []"
  unfolding json_char_def by (auto simp: byte_def)

lemma json_str_prefix: "json_str s @ x = json_str t @ y \<Longrightarrow> s = t \<and> x = y"
proof -
  have "concat (map json_char s) @ CHR 0x22 # x = concat (map json_char t) @ CHR 0x22 # y
      \<Longrightarrow> s = t \<and> x = y" for x y
  proof (induction s arbitrary: t)
    case Nil
    show ?case
    proof (cases t)
      case (Cons d t')
      with Nil json_char_not_quote [of d] show ?thesis by (cases "json_char d") auto
    qed (use Nil in simp)
  next
    case (Cons c s)
    show ?case
    proof (cases t)
      case Nil
      with Cons.prems json_char_not_quote [of c] show ?thesis
        by (cases "json_char c") auto
    next
      case (Cons d t')
      with Cons.prems have "json_char c @ (concat (map json_char s) @ CHR 0x22 # x)
          = json_char d @ (concat (map json_char t') @ CHR 0x22 # y)" by simp
      then have "c = d" and "concat (map json_char s) @ CHR 0x22 # x
          = concat (map json_char t') @ CHR 0x22 # y"
        by (auto dest: json_char_prefix)
      with Cons Cons.IH show ?thesis by auto
    qed
  qed
  then show "json_str s @ x = json_str t @ y \<Longrightarrow> s = t \<and> x = y"
    by (simp add: json_str_def)
qed

text \<open>A delimiter: the end, or what can follow a value inside an array or an object.\<close>

definition delim :: "string \<Rightarrow> bool" where
  "delim r \<longleftrightarrow> r = [] \<or> hd r \<in> {CHR '','', CHR '']'', CHR ''}''}"

definition num_char :: "char \<Rightarrow> bool" where
  "num_char c \<longleftrightarrow> is_digit c \<or> c \<in> {CHR ''.'', CHR ''e'', CHR ''+'', CHR ''-''}"

lemma num_char_simps [simp]:
  "\<not> num_char CHR '',''" "\<not> num_char CHR '']''" "\<not> num_char CHR ''}''"
  "\<not> num_char CHR ''n''" "\<not> num_char CHR ''t''" "\<not> num_char CHR ''f''"
  "\<not> num_char CHR 0x22" "\<not> num_char CHR ''[''" "\<not> num_char CHR ''{''"
  by (simp_all add: num_char_def is_digit_def byte_def)

lemma num_prefix:
  assumes "list_all num_char a" "list_all num_char b" "delim r" "delim s" "a @ r = b @ s"
  shows "a = b \<and> r = s"
proof -
  have tw: "takeWhile num_char (x @ t) = x" if "list_all num_char x" "delim t" for x t
    using that by (cases t) (auto simp: delim_def takeWhile_append2 list_all_iff)
  from assms tw [of a r] tw [of b s] show ?thesis by auto
qed

lemma int_text_num: "list_all num_char (int_text i) \<and> int_text i \<noteq> []
    \<and> CHR ''.'' \<notin> set (int_text i) \<and> CHR ''e'' \<notin> set (int_text i)"
proof -
  have "is_digit c \<Longrightarrow> num_char c \<and> c \<noteq> CHR ''.'' \<and> c \<noteq> CHR ''e''" for c
    by (auto simp: num_char_def is_digit_def byte_def)
  with nat_text_digits show ?thesis
    unfolding int_text_def by (auto simp: list_all_iff num_char_def)
qed

lemma float_num: "float_ok t \<Longrightarrow> list_all num_char t \<and> t \<noteq> [] \<and> json_float t = t"
proof -
  assume ok: "float_ok t"
  then have all: "list_all num_char t" and ne: "t \<noteq> []"
    by (auto simp: float_ok_def num_char_def list_all_iff)
  have "t \<noteq> ''nan''" "t \<noteq> ''inf''" "t \<noteq> ''-inf''"
    using all by (auto simp: num_char_def is_digit_def byte_def)
  with all ne show ?thesis by (simp add: json_float_def)
qed

section \<open>Sequences\<close>

primrec tail_join :: "('a \<Rightarrow> string) \<Rightarrow> 'a list \<Rightarrow> string" where
  "tail_join f [] = []"
| "tail_join f (x # xs) = CHR '','' # f x @ tail_join f xs"

lemma join_tail: "join '','' (map f (x # xs)) = f x @ tail_join f xs"
  by (induction xs arbitrary: x) auto

lemma delim_tail_join: "c \<in> {CHR '']'', CHR ''}''} \<Longrightarrow> delim (tail_join f xs @ c # r)"
  by (cases xs) (auto simp: delim_def)

definition reads_back :: "('a \<Rightarrow> string) \<Rightarrow> ('a \<Rightarrow> 'b) \<Rightarrow> 'a set \<Rightarrow> 'a set \<Rightarrow> bool" where
  "reads_back f g A B \<longleftrightarrow> (\<forall>x\<in>A. \<forall>y\<in>B. \<forall>r s.
     delim r \<longrightarrow> delim s \<longrightarrow> f x @ r = f y @ s \<longrightarrow> g x = g y \<and> r = s)"

lemma reads_backD:
  "reads_back f g A B \<Longrightarrow> x \<in> A \<Longrightarrow> y \<in> B \<Longrightarrow> delim r \<Longrightarrow> delim s \<Longrightarrow> f x @ r = f y @ s
    \<Longrightarrow> g x = g y \<and> r = s"
  unfolding reads_back_def by blast

lemma tail_join_prefix:
  assumes "reads_back f g (set xs) (set ys)" and c: "c \<in> {CHR '']'', CHR ''}''}"
    and "tail_join f xs @ c # r = tail_join f ys @ c # s"
  shows "map g xs = map g ys \<and> r = s"
  using assms(1,3)
proof (induction xs arbitrary: ys)
  case Nil
  with c show ?case by (cases ys) auto
next
  case (Cons x xs)
  from Cons.prems c obtain y ys' where ys: "ys = y # ys'" by (cases ys) auto
  with Cons.prems have eq: "f x @ (tail_join f xs @ c # r) = f y @ (tail_join f ys' @ c # s)"
    by simp
  from reads_backD [OF Cons.prems(1) _ _ delim_tail_join [OF c] delim_tail_join [OF c] eq] ys
  have "g x = g y" and "tail_join f xs @ c # r = tail_join f ys' @ c # s" by auto
  moreover have "reads_back f g (set xs) (set ys')"
    using Cons.prems(1) ys by (simp add: reads_back_def)
  ultimately show ?case using Cons.IH [of ys'] ys by auto
qed

lemma join_prefix:
  assumes rb: "reads_back f g (set xs) (set ys)" and c: "c \<in> {CHR '']'', CHR ''}''}"
    and ne: "\<And>x. x \<in> set xs \<union> set ys \<Longrightarrow> \<not> delim (f x)"
    and eq: "join '','' (map f xs) @ c # r = join '','' (map f ys) @ c # s"
  shows "map g xs = map g ys \<and> r = s"
proof -
  have no: False if "z \<in> set xs \<union> set ys" "c # t = f z @ u" for z t u
    using ne [OF that(1)] that(2) c by (cases "f z") (auto simp: delim_def)
  show ?thesis
  proof (cases xs)
    case Nil
    show ?thesis
    proof (cases ys)
      case (Cons y ys')
      with Nil eq no [of y r "tail_join f ys' @ c # s"] show ?thesis
        by (simp add: join_tail [of f y ys', simplified])
    qed (use Nil eq in simp)
  next
    case x: (Cons x xs')
    show ?thesis
    proof (cases ys)
      case Nil
      with x eq no [of x s "tail_join f xs' @ c # r"] show ?thesis
        by (simp add: join_tail [of f x xs', simplified])
    next
      case (Cons y ys')
      with x eq have eq': "f x @ (tail_join f xs' @ c # r) = f y @ (tail_join f ys' @ c # s)"
        by (metis append.assoc join_tail)
      from reads_backD [OF rb _ _ delim_tail_join [OF c] delim_tail_join [OF c] eq'] x Cons
      have "g x = g y" and "tail_join f xs' @ c # r = tail_join f ys' @ c # s" by auto
      moreover have "reads_back f g (set xs') (set ys')"
        using rb x Cons by (simp add: reads_back_def)
      ultimately show ?thesis using tail_join_prefix [OF _ c] x Cons by fastforce
    qed
  qed
qed

section \<open>The main induction\<close>

lemma not_delim_canonical: "json_ok v \<Longrightarrow> \<not> delim (canonical_json v)"
proof -
  have num: "\<not> delim t" if "list_all num_char t" "t \<noteq> []" for t
    using that by (cases t) (auto simp: delim_def)
  assume "json_ok v"
  then show ?thesis
    using num int_text_num float_num
    by (cases v) (auto simp: delim_def json_str_def)
qed

text \<open>The first character tells the kind of a value.\<close>

definition head_kind :: "char \<Rightarrow> nat" where
  "head_kind c = (if c = CHR ''n'' then 0 else if c = CHR ''t'' \<or> c = CHR ''f'' then 1
     else if c = CHR 0x22 then 3 else if c = CHR ''['' then 4 else if c = CHR ''{'' then 5 else 2)"

fun value_kind :: "pyval \<Rightarrow> nat" where
  "value_kind VNone = 0"
| "value_kind (VBool b) = 1"
| "value_kind (VInt i) = 2"
| "value_kind (VFloat t) = 2"
| "value_kind (VStr s) = 3"
| "value_kind (VList xs) = 4"
| "value_kind (VDict d) = 5"

lemma head_kind_num: "list_all num_char t \<Longrightarrow> t \<noteq> [] \<Longrightarrow> head_kind (hd t) = 2"
  by (cases t) (auto simp: head_kind_def)

lemma head_kind_value: "json_ok v \<Longrightarrow> head_kind (hd (canonical_json v @ r)) = value_kind v"
  using int_text_num float_num head_kind_num
  by (cases v) (auto simp: head_kind_def json_str_def)

lemma same_kind:
  "json_ok a \<Longrightarrow> json_ok b \<Longrightarrow> canonical_json a @ r = canonical_json b @ s \<Longrightarrow>
    value_kind a = value_kind b"
  by (metis head_kind_value)

lemma canonical_prefix:
  "json_ok a \<Longrightarrow> json_ok b \<Longrightarrow> delim r \<Longrightarrow> delim s \<Longrightarrow>
    canonical_json a @ r = canonical_json b @ s \<Longrightarrow> sort_keys a = sort_keys b \<and> r = s"
proof (induction a arbitrary: b r s)
  case VNone
  with same_kind [OF VNone(1,2,5)] show ?case by (cases b) auto
next
  case (VBool x)
  with same_kind [OF VBool(1,2,5)] show ?case by (cases b) (auto split: if_splits)
next
  case (VInt i)
  from same_kind [OF VInt(1,2,5)] consider j where "b = VInt j" | t where "b = VFloat t"
    by (cases b) auto
  then show ?case
  proof cases
    case 1
    with VInt num_prefix [of "int_text i" "int_text j" r s] show ?thesis
      using int_text_num by (auto dest: int_text_inj)
  next
    case 2
    with VInt num_prefix [of "int_text i" t r s] float_num [of t] have "int_text i = t"
      using int_text_num by auto
    with 2 VInt int_text_num [of i] show ?thesis by (auto simp: float_ok_def)
  qed
next
  case (VFloat t)
  from same_kind [OF VFloat(1,2,5)] consider j where "b = VInt j" | u where "b = VFloat u"
    by (cases b) auto
  then show ?case
  proof cases
    case 1
    with VFloat num_prefix [of t "int_text j" r s] float_num [of t] have "int_text j = t"
      using int_text_num by auto
    with 1 VFloat int_text_num [of j] show ?thesis by (auto simp: float_ok_def)
  next
    case 2
    with VFloat num_prefix [of t u r s] float_num [of t] float_num [of u] show ?thesis by auto
  qed
next
  case (VStr x)
  from same_kind [OF VStr(1,2,5)] obtain y where "b = VStr y" by (cases b) auto
  with VStr show ?case by (auto dest: json_str_prefix)
next
  case (VList xs)
  from same_kind [OF VList.prems(1,2,5)] obtain ys where b: "b = VList ys" by (cases b) auto
  have rb: "reads_back canonical_json sort_keys (set xs) (set ys)"
    unfolding reads_back_def using VList b by (auto simp: list_all_iff)
  have "map sort_keys xs = map sort_keys ys \<and> r = s"
    using VList.prems b
    by (intro join_prefix [OF rb, of "CHR '']''"]) (auto simp: list_all_iff not_delim_canonical)
  with b show ?case by simp
next
  case (VDict d)
  from same_kind [OF VDict.prems(1,2,5)] obtain e where b: "b = VDict e" by (cases b) auto
  let ?f = "\<lambda>p. json_str (fst p) @ '':'' @ canonical_json (snd p)"
  let ?g = "\<lambda>p. (fst p, sort_keys (snd p))"
  have rb: "reads_back ?f ?g (set (dsorted d)) (set (dsorted e))"
    unfolding reads_back_def
  proof (intro ballI allI impI)
    fix p q r s
    assume p: "p \<in> set (dsorted d)" and q: "q \<in> set (dsorted e)" and dl: "delim r" "delim s"
      and eq: "(json_str (fst p) @ '':'' @ canonical_json (snd p)) @ r
        = (json_str (fst q) @ '':'' @ canonical_json (snd q)) @ s"
    from eq have k: "fst p = fst q" and v: "canonical_json (snd p) @ r = canonical_json (snd q) @ s"
      using json_str_prefix [of "fst p" "'':'' @ canonical_json (snd p) @ r"
          "fst q" "'':'' @ canonical_json (snd q) @ s"] by auto
    have ok: "json_ok (snd p)" "json_ok (snd q)"
      using VDict.prems(1,2) b p q by (auto simp: list_all_iff)
    have "sort_keys (snd p) = sort_keys (snd q) \<and> r = s"
      using p by (intro VDict.IH [OF _ _ ok dl v]) (auto simp: snds.simps)
    with k show "?g p = ?g q \<and> r = s" by simp
  qed
  have "map ?g (dsorted d) = map ?g (dsorted e) \<and> r = s"
    using VDict.prems b
    by (intro join_prefix [OF rb, of "CHR ''}''"]) (auto simp: delim_def json_str_def)
  with b show ?case by simp
qed

lemma canonical_json_injective:
  "json_ok a \<Longrightarrow> json_ok b \<Longrightarrow> canonical_json a = canonical_json b \<Longrightarrow> sort_keys a = sort_keys b"
  using canonical_prefix [of a b "[]" "[]"] by (simp add: delim_def)

lemma dsorted_map_sorted:
  "dsorted (map (\<lambda>p. (fst p, f (snd p))) (dsorted d)) = map (\<lambda>p. (fst p, f (snd p))) (dsorted d)"
proof -
  have "sorted (map fst (map (\<lambda>p. (fst p, f (snd p))) (dsorted d)))"
    by (simp add: dsorted_def comp_def)
  then show ?thesis unfolding dsorted_def by (rule sort_key_id_if_sorted)
qed

lemma canonical_json_sort_keys: "canonical_json (sort_keys v) = canonical_json v"
proof (induction v)
  case (VList xs)
  then show ?case by (simp cong: map_cong)
next
  case (VDict d)
  have "map (\<lambda>p. json_str (fst p) @ '':'' @ canonical_json (snd p))
        (map (\<lambda>p. (fst p, sort_keys (snd p))) (dsorted d))
      = map (\<lambda>p. json_str (fst p) @ '':'' @ canonical_json (snd p)) (dsorted d)"
    using VDict.IH by (auto simp: snds.simps)
  then show ?case by (simp add: dsorted_map_sorted del: map_map)
qed simp_all

lemma canonical_json_eq_iff:
  "json_ok a \<Longrightarrow> json_ok b \<Longrightarrow> canonical_json a = canonical_json b \<longleftrightarrow> sort_keys a = sort_keys b"
  by (metis canonical_json_injective canonical_json_sort_keys)

end
