(* ===== verification/Py_Decimal.thy ===== *)
theory Py_Decimal
  imports Py_Value Complex_Main
begin

text \<open>
  Python's \<open>decimal.Decimal\<close> as the money code uses it, with the default context (28 digits,
  round half even). A finite number is a sign, a coefficient and an exponent, so that the scale
  of \<open>format(x, "f")\<close> and the sign of a zero are those of Python. \<open>InvalidOperation\<close> is an
  error value. Exponents beyond the limits of the context (about a million) are outside the
  model, and so is the shortcut by which \<open>decimal\<close> bounds the exponent of a sum whose operands
  are more than 29 orders of magnitude apart: it does not change the value.

  The lemmas relate the operations to exact rational arithmetic: \<open>dval_add\<close> (addition is exact
  while the coefficient fits), \<open>quantize_cent_spec\<close> (a number that equals its quantized form is a
  whole number of cents) and \<open>parse_format_f\<close> (reading back a formatted amount).
\<close>

section \<open>Numbers\<close>

datatype dec =
    Fin bool nat int     \<comment> \<open>negative?, coefficient, exponent\<close>
  | Inf bool
  | Nan bool             \<comment> \<open>signalling?\<close>

fun is_finite :: "dec \<Rightarrow> bool" where
  "is_finite (Fin s c e) = True"
| "is_finite _ = False"

definition dint :: "bool \<Rightarrow> nat \<Rightarrow> int" where
  "dint s c = (if s then - int c else int c)"

fun dval :: "dec \<Rightarrow> rat" where
  "dval (Fin s c e) = of_int (dint s c) * 10 powi e"
| "dval _ = 0"

abbreviation dec_zero :: dec where
  "dec_zero \<equiv> Fin False 0 0"

text \<open>\<open>Decimal("0.00")\<close>\<close>

abbreviation dec_zero2 :: dec where
  "dec_zero2 \<equiv> Fin False 0 (-2)"

section \<open>Reading\<close>

definition ascii_lower :: "string \<Rightarrow> string" where
  "ascii_lower s = map (\<lambda>c. if 65 \<le> byte c \<and> byte c \<le> 90 then char_of (byte c + 32) else c) s"

fun parse_exp :: "string \<Rightarrow> int option" where
  "parse_exp [] = Some 0"
| "parse_exp (c # cs) =
     (if c \<noteq> CHR ''e'' \<and> c \<noteq> CHR ''E'' then None
      else (case cs of
          [] \<Rightarrow> None
        | d # ds \<Rightarrow>
            if d = CHR ''-'' then
              (if ds \<noteq> [] \<and> list_all is_digit ds then Some (- int (digits_val ds)) else None)
            else if d = CHR ''+'' then
              (if ds \<noteq> [] \<and> list_all is_digit ds then Some (int (digits_val ds)) else None)
            else (if list_all is_digit (d # ds) then Some (int (digits_val (d # ds))) else None)))"

definition fraction_part :: "string \<Rightarrow> string \<times> string" where
  "fraction_part r = (case r of
      [] \<Rightarrow> ([], [])
    | c # cs \<Rightarrow> if c = CHR ''.'' then (takeWhile is_digit cs, dropWhile is_digit cs) else ([], r))"

definition parse_unsigned :: "bool \<Rightarrow> string \<Rightarrow> dec option" where
  "parse_unsigned neg s =
    (let i = takeWhile is_digit s; (f, r) = fraction_part (dropWhile is_digit s)
     in if i @ f = [] then
          (let l = ascii_lower s in
           if l = ''inf'' \<or> l = ''infinity'' then Some (Inf neg)
           else if starts_with ''nan'' l \<and> list_all is_digit (drop 3 l) then Some (Nan False)
           else if starts_with ''snan'' l \<and> list_all is_digit (drop 4 l) then Some (Nan True)
           else None)
        else (case parse_exp r of None \<Rightarrow> None
          | Some x \<Rightarrow> Some (Fin neg (digits_val (i @ f)) (x - int (length f)))))"

text \<open>\<open>Decimal(s)\<close>; \<open>None\<close> is \<open>InvalidOperation\<close>.\<close>

definition parse_decimal :: "string \<Rightarrow> dec option" where
  "parse_decimal s =
    (case filter (\<lambda>c. c \<noteq> CHR ''_'') (ascii_digits (strip s)) of
       [] \<Rightarrow> None
     | c # cs \<Rightarrow> if c = CHR ''-'' then parse_unsigned True cs
                else if c = CHR ''+'' then parse_unsigned False cs
                else parse_unsigned False (c # cs))"

definition decimal_res :: "string \<Rightarrow> exc + dec" where
  "decimal_res s = (case parse_decimal s of None \<Rightarrow> Inl InvalidOperation | Some d \<Rightarrow> Inr d)"

section \<open>Comparison\<close>

definition scale_to :: "int \<Rightarrow> bool \<Rightarrow> nat \<Rightarrow> int \<Rightarrow> int" where
  "scale_to m s c e = dint s c * 10 ^ nat (e - m)"

text \<open>\<open>a == b\<close>, false on a quiet NaN, and \<open>a < b\<close>, \<open>a <= b\<close> for finite numbers.\<close>

fun dec_eq :: "dec \<Rightarrow> dec \<Rightarrow> bool" where
  "dec_eq (Fin s c e) (Fin s' c' e') =
     (let m = min e e' in scale_to m s c e = scale_to m s' c' e')"
| "dec_eq (Inf s) (Inf s') = (s = s')"
| "dec_eq _ _ = False"

fun dec_less :: "dec \<Rightarrow> dec \<Rightarrow> bool" where
  "dec_less (Fin s c e) (Fin s' c' e') =
     (let m = min e e' in scale_to m s c e < scale_to m s' c' e')"
| "dec_less (Inf s) (Inf s') = (s \<and> \<not> s')"
| "dec_less (Inf s) (Fin _ _ _) = s"
| "dec_less (Fin _ _ _) (Inf s) = (\<not> s)"
| "dec_less _ _ = False"

definition dec_le :: "dec \<Rightarrow> dec \<Rightarrow> bool" where
  "dec_le a b \<longleftrightarrow> dec_less a b \<or> dec_eq a b"

text \<open>\<open>a == b\<close> where an operand may be a signalling NaN, which raises.\<close>

definition dec_eq_res :: "dec \<Rightarrow> dec \<Rightarrow> exc + bool" where
  "dec_eq_res a b = (if a = Nan True \<or> b = Nan True then Inl InvalidOperation else Inr (dec_eq a b))"

section \<open>Arithmetic\<close>

definition prec_bound :: nat where
  "prec_bound = 10 ^ 28"

text \<open>Division by a power of ten with the two rounding modes.\<close>

definition round_half_even :: "nat \<Rightarrow> nat \<Rightarrow> nat" where
  "round_half_even c k =
    (let p = 10 ^ k; q = c div p; r = c mod p
     in if p < 2 * r \<or> (2 * r = p \<and> odd q) then q + 1 else q)"

definition round_half_up :: "nat \<Rightarrow> nat \<Rightarrow> nat" where
  "round_half_up c k =
    (let p = 10 ^ k; q = c div p; r = c mod p in if p \<le> 2 * r then q + 1 else q)"

definition fix_prec :: "bool \<Rightarrow> nat \<Rightarrow> int \<Rightarrow> dec" where
  "fix_prec s c e =
    (if c < prec_bound then Fin s c e
     else let k = length (nat_text c) - 28; q = round_half_even c k
          in if q = prec_bound then Fin s (q div 10) (e + int k + 1) else Fin s q (e + int k))"

fun dec_add :: "dec \<Rightarrow> dec \<Rightarrow> dec" where
  "dec_add (Fin s c e) (Fin s' c' e') =
     (let m = min e e'; v = scale_to m s c e + scale_to m s' c' e'
      in fix_prec (if v = 0 then s \<and> s' else v < 0) (nat \<bar>v\<bar>) m)"
| "dec_add (Nan b) _ = Nan False"
| "dec_add _ (Nan b) = Nan False"
| "dec_add (Inf s) (Inf s') = (if s = s' then Inf s else Nan False)"
| "dec_add (Inf s) _ = Inf s"
| "dec_add _ (Inf s) = Inf s"

text \<open>\<open>a + b\<close> where the operands may be infinities or signalling NaNs, which may raise.\<close>

definition dec_add_res :: "dec \<Rightarrow> dec \<Rightarrow> exc + dec" where
  "dec_add_res a b =
    (if a = Nan True \<or> b = Nan True \<or> (\<exists>s. a = Inf s \<and> b = Inf (\<not> s))
     then Inl InvalidOperation else Inr (dec_add a b))"

fun dec_neg :: "dec \<Rightarrow> dec" where
  "dec_neg (Fin s c e) = Fin (\<not> s) c e"
| "dec_neg (Inf s) = Inf (\<not> s)"
| "dec_neg (Nan b) = Nan b"

definition dec_sub :: "dec \<Rightarrow> dec \<Rightarrow> dec" where
  "dec_sub a b = dec_add a (dec_neg b)"

fun dec_abs :: "dec \<Rightarrow> dec" where
  "dec_abs (Fin s c e) = fix_prec False c e"
| "dec_abs (Inf s) = Inf False"
| "dec_abs (Nan b) = Nan b"

definition dec_sum :: "dec list \<Rightarrow> dec \<Rightarrow> dec" where
  "dec_sum xs start = foldl dec_add start xs"

text \<open>\<open>x.quantize(Decimal("0.01"), rounding=r)\<close>\<close>

fun quantize_cent :: "(nat \<Rightarrow> nat \<Rightarrow> nat) \<Rightarrow> dec \<Rightarrow> exc + dec" where
  "quantize_cent rnd (Fin s c e) =
     (let c' = (if -2 \<le> e then c * 10 ^ nat (e + 2) else rnd c (nat (-2 - e)))
      in if c' < prec_bound then Inr (Fin s c' (-2)) else Inl InvalidOperation)"
| "quantize_cent rnd (Inf s) = Inl InvalidOperation"
| "quantize_cent rnd (Nan b) = (if b then Inl InvalidOperation else Inr (Nan False))"

section \<open>Writing\<close>

text \<open>\<open>format(x, "f")\<close>\<close>

definition format_digits :: "nat \<Rightarrow> int \<Rightarrow> string" where
  "format_digits c e =
    (if 0 \<le> e then (if c = 0 then ''0'' else nat_text c @ replicate (nat e) CHR ''0'')
     else let f = nat (- e); t = pad_left (f + 1) (nat_text c)
          in take (length t - f) t @ ''.'' @ drop (length t - f) t)"

fun format_f :: "dec \<Rightarrow> string" where
  "format_f (Fin s c e) = (if s then ''-'' else []) @ format_digits c e"
| "format_f (Inf s) = (if s then ''-Infinity'' else ''Infinity'')"
| "format_f (Nan b) = (if b then ''sNaN'' else ''NaN'')"

section \<open>Exactness\<close>

lemma ten_powi: "m \<le> e \<Longrightarrow> (10::rat) powi e = 10 ^ nat (e - m) * 10 powi m"
  by (metis add_diff_cancel_left' diff_add_cancel diff_ge_0_iff_ge int_nat_eq power_int_add
      power_int_of_nat zero_neq_numeral)

lemma scale_to_val:
  "m \<le> e \<Longrightarrow> of_int (scale_to m s c e) * 10 powi m = dval (Fin s c e)"
  using ten_powi [of m e] by (simp add: scale_to_def)

lemma powi_pos: "(0::rat) < 10 powi m"
  by (simp add: zero_less_power_int)

lemma dec_eq_dval: "is_finite a \<Longrightarrow> is_finite b \<Longrightarrow> dec_eq a b \<longleftrightarrow> dval a = dval b"
proof -
  assume "is_finite a" "is_finite b"
  then obtain s c e s' c' e' where ab: "a = Fin s c e" "b = Fin s' c' e'"
    by (cases a; cases b) auto
  let ?m = "min e e'"
  have "dval a = of_int (scale_to ?m s c e) * 10 powi ?m"
    "dval b = of_int (scale_to ?m s' c' e') * 10 powi ?m"
    using ab by (metis min.cobounded1 scale_to_val) (metis ab(2) min.cobounded2 scale_to_val)
  then show ?thesis using ab powi_pos [of ?m] by (simp add: Let_def del: dval.simps)
qed

lemma dec_less_dval: "is_finite a \<Longrightarrow> is_finite b \<Longrightarrow> dec_less a b \<longleftrightarrow> dval a < dval b"
proof -
  assume "is_finite a" "is_finite b"
  then obtain s c e s' c' e' where ab: "a = Fin s c e" "b = Fin s' c' e'"
    by (cases a; cases b) auto
  let ?m = "min e e'"
  have "dval a = of_int (scale_to ?m s c e) * 10 powi ?m"
    "dval b = of_int (scale_to ?m s' c' e') * 10 powi ?m"
    using ab by (metis min.cobounded1 scale_to_val) (metis ab(2) min.cobounded2 scale_to_val)
  then show ?thesis using ab powi_pos [of ?m] by (simp add: Let_def del: dval.simps)
qed

lemma dec_le_dval: "is_finite a \<Longrightarrow> is_finite b \<Longrightarrow> dec_le a b \<longleftrightarrow> dval a \<le> dval b"
  by (auto simp: dec_le_def dec_eq_dval dec_less_dval)

lemma is_finite_add [simp]: "is_finite a \<Longrightarrow> is_finite b \<Longrightarrow> is_finite (dec_add a b)"
  by (cases a; cases b) (auto simp: Let_def fix_prec_def)

lemma is_finite_dec_sum: "is_finite s \<Longrightarrow> list_all is_finite xs \<Longrightarrow> is_finite (dec_sum xs s)"
  by (induction xs arbitrary: s) (auto simp: dec_sum_def)

text \<open>The coefficient of the exact sum, and the condition under which no rounding happens.\<close>

fun sum_fits :: "dec \<Rightarrow> dec \<Rightarrow> bool" where
  "sum_fits (Fin s c e) (Fin s' c' e') =
     (let m = min e e' in \<bar>scale_to m s c e + scale_to m s' c' e'\<bar> < int prec_bound)"
| "sum_fits _ _ = False"

lemma fix_prec_small: "c < prec_bound \<Longrightarrow> fix_prec s c e = Fin s c e"
  by (simp add: fix_prec_def)

lemma dval_add: "sum_fits a b \<Longrightarrow> dval (dec_add a b) = dval a + dval b"
proof -
  assume fits: "sum_fits a b"
  then obtain s c e s' c' e' where ab: "a = Fin s c e" "b = Fin s' c' e'"
    by (cases a; cases b) auto
  let ?m = "min e e'"
  let ?v = "scale_to ?m s c e + scale_to ?m s' c' e'"
  have "dec_add a b = Fin (if ?v = 0 then s \<and> s' else ?v < 0) (nat \<bar>?v\<bar>) ?m"
    using ab fits by (simp add: Let_def fix_prec_small nat_less_iff)
  then have "dval (dec_add a b) = of_int ?v * 10 powi ?m"
    by (auto simp: dint_def)
  also have "\<dots> = of_int (scale_to ?m s c e) * 10 powi ?m + of_int (scale_to ?m s' c' e') * 10 powi ?m"
    by (simp add: distrib_right)
  also have "\<dots> = dval a + dval b"
    using ab by (metis min.cobounded1 min.cobounded2 scale_to_val)
  finally show ?thesis .
qed

lemma dec_eq_refl: "is_finite a \<Longrightarrow> dec_eq a a"
  by (simp add: dec_eq_dval)

lemma dec_eq_sym: "is_finite a \<Longrightarrow> is_finite b \<Longrightarrow> dec_eq a b = dec_eq b a"
  by (auto simp: dec_eq_dval)

lemma dec_eq_finite: "is_finite a \<Longrightarrow> dec_eq a b \<Longrightarrow> is_finite b"
  by (cases a; cases b) auto

definition whole_cents :: "dec \<Rightarrow> bool" where
  "whole_cents d \<longleftrightarrow> is_finite d \<and> (\<exists>n. dval d * 100 = of_int n)"

lemma quantize_cent_shape:
  "quantize_cent rnd (Fin s c e) = Inr q \<Longrightarrow> \<exists>c'. q = Fin s c' (-2) \<and> c' < prec_bound"
  by (auto simp: Let_def split: if_splits)

lemma quantize_cent_spec:
  assumes "is_finite x" and "quantize_cent rnd x = Inr q" and "dec_eq x q"
  shows "whole_cents x"
proof -
  from assms(1,2) obtain s c e c' where x: "x = Fin s c e" and q: "q = Fin s c' (-2)"
    by (cases x) (auto dest!: quantize_cent_shape simp del: quantize_cent.simps)
  have "dval x = dval q" using assms(1,3) q by (simp add: dec_eq_dval del: dval.simps)
  then have "dval x * 100 = of_int (dint s c')" using q by (simp add: power_int_minus)
  with assms(1) show ?thesis unfolding whole_cents_def by blast
qed

lemma quantize_cent_exact:
  assumes "-2 \<le> e" and "c * 10 ^ nat (e + 2) < prec_bound"
  shows "\<exists>q. quantize_cent rnd (Fin s c e) = Inr q \<and> dec_eq (Fin s c e) q"
  using assms by (auto simp: Let_def scale_to_def dint_def min_def algebra_simps)

text \<open>Half-up rounding moves a number by at most half a unit of the last place kept.\<close>

lemma round_half_up_error: "\<bar>2 * int (round_half_up c k * 10 ^ k) - 2 * int c\<bar> \<le> 10 ^ k"
proof -
  let ?p = "10 ^ k :: nat"
  have c: "int c = int (c div ?p) * int ?p + int (c mod ?p)"
    by (metis div_mult_mod_eq of_nat_add of_nat_mult)
  have r: "int (c mod ?p) < int ?p" by simp
  show ?thesis
  proof (cases "?p \<le> 2 * (c mod ?p)")
    case True
    then have up: "round_half_up c k = c div ?p + 1" by (simp add: round_half_up_def Let_def)
    from True have "int ?p \<le> 2 * int (c mod ?p)" by linarith
    with c r show ?thesis unfolding up by (simp add: algebra_simps)
  next
    case False
    then have down: "round_half_up c k = c div ?p" by (simp add: round_half_up_def Let_def)
    from False have "2 * int (c mod ?p) < int ?p" by linarith
    with c show ?thesis unfolding down by (simp add: algebra_simps)
  qed
qed

section \<open>Reading back what was written\<close>

lemma is_digit_zero [simp]: "is_digit CHR ''0''"
  by (simp add: is_digit_def byte_def)

lemma not_digit_point [simp]: "\<not> is_digit CHR ''.''"
  by (simp add: is_digit_def byte_def)

lemma digits_val_append: "digits_val (a @ b) = digits_val a * 10 ^ length b + digits_val b"
proof (induction b rule: rev_induct)
  case Nil
  then show ?case by (simp add: digits_val_def)
next
  case (snoc c cs)
  then show ?case
    by (simp add: digits_val_snoc algebra_simps del: append_assoc flip: append_assoc)
qed

lemma digits_val_pad [simp]: "digits_val (pad_left w s) = digits_val s"
proof -
  have "digits_val (replicate n CHR ''0'') = 0" for n
  proof (induction n)
    case (Suc n)
    have "digits_val (replicate (Suc n) CHR ''0'') = 10 * digits_val (replicate n CHR ''0'')"
      by (simp add: replicate_append_same [symmetric] digits_val_snoc digit_val_def byte_def
          del: replicate_append_same)
    with Suc show ?case by simp
  qed (simp add: digits_val_def)
  then show ?thesis by (simp add: pad_left_def digits_val_append)
qed

lemma pad_left_digits: "list_all is_digit s \<Longrightarrow> list_all is_digit (pad_left w s)"
  by (auto simp: pad_left_def list_all_iff)

lemma takeWhile_all: "list_all P xs \<Longrightarrow> takeWhile P xs = xs \<and> dropWhile P xs = []"
  by (simp add: list_all_iff)

lemma takeWhile_all_append:
  "list_all P xs \<Longrightarrow> ys = [] \<or> \<not> P (hd ys) \<Longrightarrow>
    takeWhile P (xs @ ys) = xs \<and> dropWhile P (xs @ ys) = ys"
  by (cases ys) (auto simp: list_all_iff takeWhile_append2 dropWhile_append2)

lemma parse_unsigned_point:
  assumes "list_all is_digit i" "list_all is_digit f" "i \<noteq> []"
  shows "parse_unsigned s (i @ ''.'' @ f) = Some (Fin s (digits_val (i @ f)) (- int (length f)))"
proof -
  have i: "takeWhile is_digit (i @ ''.'' @ f) = i" "dropWhile is_digit (i @ ''.'' @ f) = ''.'' @ f"
    using takeWhile_all_append [OF assms(1), of "''.'' @ f"] by simp_all
  show ?thesis unfolding parse_unsigned_def i
    using assms(3) by (simp add: fraction_part_def takeWhile_all [OF assms(2)])
qed

lemma parse_unsigned_int:
  assumes "list_all is_digit i" "i \<noteq> []"
  shows "parse_unsigned s i = Some (Fin s (digits_val i) 0)"
  using assms(2) by (simp add: parse_unsigned_def fraction_part_def takeWhile_all [OF assms(1)])

definition money_char :: "char \<Rightarrow> bool" where
  "money_char c \<longleftrightarrow> is_digit c \<or> c = CHR ''.'' \<or> c = CHR ''-''"

lemma money_char_plain:
  "money_char c \<Longrightarrow> \<not> uspace [c] \<and> byte c < 128 \<and> c \<noteq> CHR ''_''"
  by (auto simp: money_char_def is_digit_def uspace_def byte_def)

lemma strip_money:
  "list_all money_char s \<Longrightarrow> strip s = s \<and> filter (\<lambda>c. c \<noteq> CHR ''_'') s = s \<and> ascii_digits s = s"
proof -
  assume all: "list_all money_char s"
  then have a: "ascii s" by (auto simp: ascii_def list_all_iff dest: money_char_plain)
  have "dropWhile uspace (map (\<lambda>c. [c]) t) = map (\<lambda>c. [c]) t" if "set t \<subseteq> set s" for t
    using that all money_char_plain by (cases t) (auto simp: list_all_iff)
  with a show ?thesis
    using all by (auto simp: strip_def strip_chars_def uchars_ascii rev_map list_all_iff filter_id_conv
        dest: money_char_plain)
qed

lemma format_digits_parts:
  assumes "e \<le> 0"
  obtains i f where "format_digits c e = (if e = 0 then i else i @ ''.'' @ f)" "i \<noteq> []"
    "list_all is_digit i" "list_all is_digit f" "digits_val (i @ f) = c" "int (length f) = - e"
proof (cases "e = 0")
  case True
  have "nat_text 0 = ''0''" by code_simp
  with True nat_text_digits [of c] show ?thesis
    by (intro that [of "nat_text c" "[]"]) (auto simp: format_digits_def)
next
  case False
  let ?f = "nat (- e)" let ?t = "pad_left (?f + 1) (nat_text c)"
  have len: "?f + 1 \<le> length ?t" by (simp add: pad_left_def)
  have d: "list_all is_digit ?t" using nat_text_digits by (intro pad_left_digits) auto
  have sub: "set (take n ?t) \<subseteq> set ?t" "set (drop n ?t) \<subseteq> set ?t" for n
    by (simp_all add: set_take_subset set_drop_subset)
  show ?thesis
  proof (rule that [of "take (length ?t - ?f) ?t" "drop (length ?t - ?f) ?t"])
    show "format_digits c e = (if e = 0 then take (length ?t - ?f) ?t
        else take (length ?t - ?f) ?t @ ''.'' @ drop (length ?t - ?f) ?t)"
      using False assms by (simp add: format_digits_def Let_def)
    show "take (length ?t - ?f) ?t \<noteq> []" using len by auto
    show "int (length (drop (length ?t - ?f) ?t)) = - e" using len assms by simp
    show "list_all is_digit (take (length ?t - ?f) ?t)" "list_all is_digit (drop (length ?t - ?f) ?t)"
      using d sub unfolding list_all_iff by blast+
    show "digits_val (take (length ?t - ?f) ?t @ drop (length ?t - ?f) ?t) = c"
      by (simp del: append_take_drop_id add: append_take_drop_id)
  qed
qed

lemma parse_format_f: "e \<le> 0 \<Longrightarrow> parse_decimal (format_f (Fin s c e)) = Some (Fin s c e)"
proof -
  assume "e \<le> 0"
  then obtain i f where fmt: "format_digits c e = (if e = 0 then i else i @ ''.'' @ f)" and ne: "i \<noteq> []"
    and d: "list_all is_digit i" "list_all is_digit f" and v: "digits_val (i @ f) = c"
    and len: "int (length f) = - e"
    by (rule format_digits_parts)
  have unsigned: "parse_unsigned b (format_digits c e) = Some (Fin b c e)" for b
    using fmt parse_unsigned_point [OF d ne, of b] parse_unsigned_int [OF d(1) ne, of b] v len
    by (cases "e = 0") auto
  have "list_all money_char (format_f (Fin s c e))"
    using d fmt by (auto simp: list_all_iff money_char_def)
  note clean = strip_money [OF this]
  obtain x xs where x: "format_digits c e = x # xs" and dx: "is_digit x"
    using fmt ne d by (cases i) (auto split: if_splits)
  then have "x \<noteq> CHR ''-''" "x \<noteq> CHR ''+''" by (auto simp: is_digit_def byte_def)
  with clean unsigned x show ?thesis by (simp add: parse_decimal_def)
qed

end
