(* ===== verification/Py_Date.thy ===== *)
theory Py_Date
  imports Py_Value
begin

text \<open>
  \<open>date.fromisoformat\<close> (calendar dates with and without separators, ISO week dates) and
  \<open>isoformat\<close>. The rules compare dates as their \<open>isoformat\<close> texts; \<open>iso_text_less_iff\<close>
  shows that this is the order of the calendar.
\<close>

type_synonym ymd = "nat \<times> nat \<times> nat"

definition is_leap :: "nat \<Rightarrow> bool" where
  "is_leap y \<longleftrightarrow> 4 dvd y \<and> (\<not> 100 dvd y \<or> 400 dvd y)"

definition days_in_month :: "nat \<Rightarrow> nat \<Rightarrow> nat" where
  "days_in_month y m =
    (if m = 2 then (if is_leap y then 29 else 28) else if m \<in> {4, 6, 9, 11} then 30 else 31)"

definition valid_date :: "ymd \<Rightarrow> bool" where
  "valid_date d = (case d of (y, m, dd) \<Rightarrow>
     1 \<le> y \<and> y \<le> 9999 \<and> 1 \<le> m \<and> m \<le> 12 \<and> 1 \<le> dd \<and> dd \<le> days_in_month y m)"

definition year_days :: "nat \<Rightarrow> nat" where
  "year_days y = (if is_leap y then 366 else 365)"

text \<open>The weekday of January 1 (Monday is 0).\<close>

definition jan1_weekday :: "nat \<Rightarrow> nat" where
  "jan1_weekday y = (let p = y - 1 in (365 * p + p div 4 - p div 100 + p div 400) mod 7)"

fun month_day :: "nat \<Rightarrow> nat \<Rightarrow> nat list \<Rightarrow> ymd option" where
  "month_day y n [] = None"
| "month_day y n (m # ms) =
     (if n < days_in_month y m then Some (y, m, n + 1) else month_day y (n - days_in_month y m) ms)"

definition year_day :: "nat \<Rightarrow> int \<Rightarrow> ymd option" where
  "year_day y n =
    (if n < 0 then month_day (y - 1) (nat (n + int (year_days (y - 1)))) [1..<13]
     else if n < int (year_days y) then month_day y (nat n) [1..<13]
     else month_day (y + 1) (nat (n - int (year_days y))) [1..<13])"

definition week_date :: "nat \<Rightarrow> nat \<Rightarrow> nat \<Rightarrow> ymd option" where
  "week_date y w d =
    (let f = jan1_weekday y;
         weeks = (if f = 3 \<or> (f = 2 \<and> is_leap y) then 53 else 52);
         monday = (if 3 < f then 7 else 0) - int f
     in if y < 1 \<or> w < 1 \<or> weeks < w \<or> d < 1 \<or> 7 < d then None
        else year_day y (monday + 7 * (int w - 1) + (int d - 1)))"

definition check_date :: "ymd option \<Rightarrow> ymd option" where
  "check_date d = (case d of None \<Rightarrow> None | Some d \<Rightarrow> if valid_date d then Some d else None)"

definition num :: "string \<Rightarrow> nat option" where
  "num s = (if s \<noteq> [] \<and> list_all is_digit s then Some (digits_val s) else None)"

definition split_iso :: "string \<Rightarrow> (bool \<times> string \<times> string \<times> string) option" where
  "split_iso s =
    (let y = take 4 s; at = (\<lambda>i c. s ! i = c); part = (\<lambda>i n. take n (drop i s))
     in if length s = 10 then
          (if at 4 CHR ''-'' \<and> at 5 CHR ''W'' \<and> at 8 CHR ''-'' then Some (True, y, part 6 2, part 9 1)
           else if at 4 CHR ''-'' \<and> at 7 CHR ''-'' then Some (False, y, part 5 2, part 8 2)
           else None)
        else if length s = 8 then
          (if at 4 CHR ''-'' \<and> at 5 CHR ''W'' then Some (True, y, part 6 2, ''1'')
           else if at 4 CHR ''W'' then Some (True, y, part 5 2, part 7 1)
           else Some (False, y, part 4 2, part 6 2))
        else if length s = 7 then
          (if at 4 CHR ''W'' then Some (True, y, part 5 2, ''1'') else None)
        else None)"

text \<open>\<open>date.fromisoformat(s)\<close>; \<open>None\<close> is \<open>ValueError\<close>.\<close>

definition from_iso :: "string \<Rightarrow> ymd option" where
  "from_iso s =
    (case split_iso s of None \<Rightarrow> None
     | Some (week, y, a, b) \<Rightarrow>
        (case (num y, num a, num b) of
           (Some y, Some a, Some b) \<Rightarrow> check_date (if week then week_date y a b else Some (y, a, b))
         | _ \<Rightarrow> None))"

text \<open>\<open>d.isoformat()\<close> and \<open>d.strftime("%Y-%m")\<close>\<close>

definition iso_text :: "ymd \<Rightarrow> string" where
  "iso_text d = (case d of (y, m, dd) \<Rightarrow>
     pad_left 4 (nat_text y) @ ''-'' @ pad_left 2 (nat_text m) @ ''-'' @ pad_left 2 (nat_text dd))"

definition month_text :: "ymd \<Rightarrow> string" where
  "month_text d = (case d of (y, m, dd) \<Rightarrow> pad_left 4 (nat_text y) @ ''-'' @ pad_left 2 (nat_text m))"

lemma from_iso_valid: "from_iso s = Some d \<Longrightarrow> valid_date d"
  by (auto simp: from_iso_def check_date_def split: option.splits prod.splits if_splits)

section \<open>Fixed-width numbers\<close>

fun fixed_digits :: "nat \<Rightarrow> nat \<Rightarrow> string" where
  "fixed_digits 0 n = []"
| "fixed_digits (Suc w) n = fixed_digits w (n div 10) @ [digit_char (n mod 10)]"

lemma length_fixed_digits [simp]: "length (fixed_digits w n) = w"
  by (induction w arbitrary: n) auto

lemma fixed_digits_digits: "list_all is_digit (fixed_digits w n)"
  by (induction w arbitrary: n) auto

lemma digits_val_fixed: "n < 10 ^ w \<Longrightarrow> digits_val (fixed_digits w n) = n"
proof (induction w arbitrary: n)
  case 0
  then show ?case by (simp add: digits_val_def)
next
  case (Suc w)
  then have "n div 10 < 10 ^ w" by (simp add: less_mult_imp_div_less mult.commute)
  with Suc.IH show ?case by (simp add: digits_val_snoc)
qed

lemma replicate_zero_fixed: "fixed_digits w 0 = replicate w CHR ''0''"
proof (induction w)
  case (Suc w)
  have "digit_char 0 = CHR ''0''" by code_simp
  with Suc show ?case by (simp add: replicate_append_same)
qed simp

lemma pad_left_fixed: "0 < w \<Longrightarrow> n < 10 ^ w \<Longrightarrow> pad_left w (nat_text n) = fixed_digits w n"
proof (induction w arbitrary: n)
  case 0
  then show ?case by simp
next
  case (Suc w)
  show ?case
  proof (cases "n < 10")
    case True
    then have t: "nat_text n = [digit_char n]" by (subst nat_text.simps) simp
    from True show ?thesis by (simp add: pad_left_def t replicate_zero_fixed)
  next
    case False
    with Suc.prems have w: "0 < w" and n: "n div 10 < 10 ^ w"
      by (cases w; simp add: less_mult_imp_div_less mult.commute)+
    have t: "nat_text n = nat_text (n div 10) @ [digit_char (n mod 10)]"
      using False by (subst nat_text.simps) simp
    have "pad_left (Suc w) (nat_text n) = pad_left w (nat_text (n div 10)) @ [digit_char (n mod 10)]"
      unfolding pad_left_def t by simp
    with Suc.IH [OF w n] show ?thesis by simp
  qed
qed

lemma digit_char_less: "m < 10 \<Longrightarrow> n < 10 \<Longrightarrow> digit_char m < digit_char n \<longleftrightarrow> m < n"
  by (simp add: less_char_def digit_char_def)

lemma append_less_iff:
  "length a = length (b :: 'a :: linorder list) \<Longrightarrow> a @ x < b @ y \<longleftrightarrow> a < b \<or> (a = b \<and> x < y)"
  by (induction a b rule: list_induct2) auto

lemma two_digit_less:
  assumes "(r :: nat) < 10" and "r' < 10"
  shows "q < q' \<or> (q = q' \<and> r < r') \<longleftrightarrow> 10 * q + r < 10 * q' + r'"
proof (cases q q' rule: linorder_cases)
  case less
  with assms show ?thesis by linarith
next
  case equal
  then show ?thesis by simp
next
  case greater
  with assms show ?thesis by linarith
qed

lemma four_elements: "length xs = 4 \<Longrightarrow> \<exists>a b c d. xs = [a, b, c, d]"
  by (auto simp: length_Suc_conv numeral_eq_Suc)

lemma two_elements: "length xs = 2 \<Longrightarrow> \<exists>a b. xs = [a, b]"
  by (auto simp: length_Suc_conv numeral_eq_Suc)

lemma fixed_digits_less_iff:
  "m < 10 ^ w \<Longrightarrow> n < 10 ^ w \<Longrightarrow> fixed_digits w m < fixed_digits w n \<longleftrightarrow> m < n"
proof (induction w arbitrary: m n)
  case 0
  then show ?case by simp
next
  case (Suc w)
  then have lt: "m div 10 < 10 ^ w" "n div 10 < 10 ^ w"
    by (simp_all add: less_mult_imp_div_less mult.commute)
  have inj: "fixed_digits w (m div 10) = fixed_digits w (n div 10) \<longleftrightarrow> m div 10 = n div 10"
    using lt by (metis digits_val_fixed)
  have "fixed_digits (Suc w) m < fixed_digits (Suc w) n \<longleftrightarrow>
      m div 10 < n div 10 \<or> (m div 10 = n div 10 \<and> m mod 10 < n mod 10)"
    using Suc.IH [OF lt] by (simp add: append_less_iff inj digit_char_less)
  also have "\<dots> \<longleftrightarrow> 10 * (m div 10) + m mod 10 < 10 * (n div 10) + n mod 10"
    by (intro two_digit_less) simp_all
  also have "\<dots> \<longleftrightarrow> m < n" by simp
  finally show ?case .
qed

lemma fixed_digits_inj: "m < 10 ^ w \<Longrightarrow> n < 10 ^ w \<Longrightarrow> fixed_digits w m = fixed_digits w n \<longleftrightarrow> m = n"
  by (metis digits_val_fixed)

section \<open>ISO texts\<close>

lemma days_in_month_le: "days_in_month y m \<le> 31"
  by (simp add: days_in_month_def)

lemma valid_date_bounds:
  "valid_date (y, m, d) \<Longrightarrow> y < 10 ^ 4 \<and> m < 10 ^ 2 \<and> d < 10 ^ 2"
  using days_in_month_le [of y m] by (auto simp: valid_date_def)

lemma iso_text_fixed:
  "valid_date (y, m, d) \<Longrightarrow> iso_text (y, m, d) = fixed_digits 4 y @ ''-'' @ fixed_digits 2 m @ ''-'' @ fixed_digits 2 d"
  using valid_date_bounds [of y m d] by (simp add: iso_text_def pad_left_fixed)

fun date_less :: "ymd \<Rightarrow> ymd \<Rightarrow> bool" where
  "date_less (y, m, d) (y', m', d') \<longleftrightarrow> y < y' \<or> (y = y' \<and> (m < m' \<or> (m = m' \<and> d < d')))"

lemma iso_text_less_iff:
  assumes "valid_date a" and "valid_date b"
  shows "iso_text a < iso_text b \<longleftrightarrow> date_less a b"
proof -
  obtain y m d y' m' d' where ab: "a = (y, m, d)" "b = (y', m', d')" by (cases a; cases b) auto
  with assms valid_date_bounds have lt: "y < 10 ^ 4" "m < 10 ^ 2" "d < 10 ^ 2"
    "y' < 10 ^ 4" "m' < 10 ^ 2" "d' < 10 ^ 2" by blast+
  note less = fixed_digits_less_iff [OF lt(1,4)] fixed_digits_less_iff [OF lt(2,5)] fixed_digits_less_iff [OF lt(3,6)]
  note eq = fixed_digits_inj [OF lt(1,4)] fixed_digits_inj [OF lt(2,5)]
  show ?thesis
    using assms ab by (simp add: iso_text_fixed append_less_iff less eq)
qed

lemma iso_text_inj: "valid_date a \<Longrightarrow> valid_date b \<Longrightarrow> iso_text a = iso_text b \<longleftrightarrow> a = b"
proof -
  assume v: "valid_date a" "valid_date b"
  have "a = b" if "iso_text a = iso_text b"
  proof (rule ccontr)
    assume "a \<noteq> b"
    then have "date_less a b \<or> date_less b a" by (cases a; cases b) auto
    with v that show False by (metis iso_text_less_iff less_irrefl)
  qed
  then show ?thesis by blast
qed

lemma from_iso_iso_text: "valid_date d \<Longrightarrow> from_iso (iso_text d) = Some d"
proof -
  assume v: "valid_date d"
  obtain y m dd where d: "d = (y, m, dd)" by (cases d) auto
  note lt = valid_date_bounds [OF v [unfolded d]]
  obtain a b c e where y: "fixed_digits 4 y = [a, b, c, e]"
    by (metis four_elements length_fixed_digits)
  obtain f g where m: "fixed_digits 2 m = [f, g]"
    by (metis two_elements length_fixed_digits)
  obtain h i where dd: "fixed_digits 2 dd = [h, i]"
    by (metis two_elements length_fixed_digits)
  have "f \<noteq> CHR ''W''"
    using fixed_digits_digits [of 2 m] m by (auto simp: is_digit_def byte_def)
  then have s: "split_iso (iso_text d) = Some (False, [a, b, c, e], [f, g], [h, i])"
    using v d by (simp add: iso_text_fixed y m dd split_iso_def)
  have n: "num (fixed_digits w k) = Some k" if "k < 10 ^ w" "0 < w" for w k
  proof -
    have "fixed_digits w k \<noteq> []" using length_fixed_digits [of w k] that(2) by force
    then show ?thesis using that fixed_digits_digits [of w k] by (simp add: num_def digits_val_fixed)
  qed
  show ?thesis
    using lt v n [of y 4] n [of m 2] n [of dd 2]
    unfolding from_iso_def s y m dd by (simp add: check_date_def d)
qed

end
