(* ===== verification/Digest.thy ===== *)
theory Digest
  imports Canonical_Json "HOL-Library.Word"
begin

unbundle bit_operations_syntax

text \<open>
  The digests of Python's \<open>hashlib\<close> that the code uses, SHA-256 and SHA-1, over the bytes of
  a text, with 32-bit words that wrap around, and the two derived functions of
  \<open>bookkeeping/repository.py\<close>: \<open>canonical_sha256\<close> of a JSON value and the digest of a
  file's bytes. \<open>canonical_sha256_eq\<close> is the form in which the properties use a digest: equal
  digests mean equal values, or an explicit collision of SHA-256.
\<close>

type_synonym w32 = "32 word"

definition rotr :: "nat \<Rightarrow> w32 \<Rightarrow> w32" where
  "rotr n x = (drop_bit n x) OR (push_bit (32 - n) x)"

definition rotl :: "nat \<Rightarrow> w32 \<Rightarrow> w32" where
  "rotl n x = (push_bit n x) OR (drop_bit (32 - n) x)"

section \<open>Padding and blocks\<close>

definition byte_word :: "char \<Rightarrow> w32" where
  "byte_word c = of_char c"

definition length_bytes :: "nat \<Rightarrow> w32 list" where
  "length_bytes n = map (\<lambda>k. ucast (drop_bit k (of_nat (8 * n) :: 64 word) AND 255))
     [56, 48, 40, 32, 24, 16, 8, 0]"

definition sha_pad :: "w32 list \<Rightarrow> w32 list" where
  "sha_pad bs = bs @ [128] @ replicate ((119 - length bs mod 64) mod 64) 0 @ length_bytes (length bs)"

fun be_words :: "w32 list \<Rightarrow> w32 list" where
  "be_words (a # b # c # d # r) =
     (push_bit 24 a OR push_bit 16 b OR push_bit 8 c OR d) # be_words r"
| "be_words _ = []"

fun blocks :: "nat \<Rightarrow> w32 list \<Rightarrow> w32 list list" where
  "blocks 0 ws = []"
| "blocks (Suc n) ws = take 16 ws # blocks n (drop 16 ws)"

definition message_blocks :: "string \<Rightarrow> w32 list list" where
  "message_blocks s = (let ws = be_words (sha_pad (map byte_word s)) in blocks (length ws div 16) ws)"

definition word_hex :: "w32 \<Rightarrow> string" where
  "word_hex w = map (\<lambda>k. hex_char (unat (drop_bit k w AND 15))) [28, 24, 20, 16, 12, 8, 4, 0]"

section \<open>SHA-256\<close>

text \<open>Tables of words are written as their hexadecimal digits, eight to a word.\<close>

definition hex_word :: "string \<Rightarrow> w32" where
  "hex_word s = foldl (\<lambda>w c. push_bit 4 w OR of_nat (hex_val c)) 0 s"

definition hex_words :: "nat \<Rightarrow> string \<Rightarrow> w32 list" where
  "hex_words n s = map (\<lambda>i. hex_word (take 8 (drop (8 * i) s))) [0..<n]"

definition sha256_k :: "w32 list" where
  "sha256_k = hex_words 64
    (''428a2f9871374491b5c0fbcfe9b5dba53956c25b59f111f1923f82a4ab1c5ed5''
     @ ''d807aa9812835b01243185be550c7dc372be5d7480deb1fe9bdc06a7c19bf174''
     @ ''e49b69c1efbe47860fc19dc6240ca1cc2de92c6f4a7484aa5cb0a9dc76f988da''
     @ ''983e5152a831c66db00327c8bf597fc7c6e00bf3d5a7914706ca635114292967''
     @ ''27b70a852e1b21384d2c6dfc53380d13650a7354766a0abb81c2c92e92722c85''
     @ ''a2bfe8a1a81a664bc24b8b70c76c51a3d192e819d6990624f40e3585106aa070''
     @ ''19a4c1161e376c082748774c34b0bcb5391c0cb34ed8aa4a5b9cca4f682e6ff3''
     @ ''748f82ee78a5636f84c878148cc7020890befffaa4506cebbef9a3f7c67178f2'')"

definition sha256_init :: "w32 list" where
  "sha256_init = hex_words 8 ''6a09e667bb67ae853c6ef372a54ff53a510e527f9b05688c1f83d9ab5be0cd19''"

text \<open>The message schedule is kept newest first.\<close>

definition sched_step :: "w32 list \<Rightarrow> w32 list" where
  "sched_step ws =
    (let w15 = ws ! 14; w2 = ws ! 1;
         s0 = rotr 7 w15 XOR rotr 18 w15 XOR drop_bit 3 w15;
         s1 = rotr 17 w2 XOR rotr 19 w2 XOR drop_bit 10 w2
     in (s1 + ws ! 6 + s0 + ws ! 15) # ws)"

definition sha256_round :: "w32 \<times> w32 \<Rightarrow> w32 list \<Rightarrow> w32 list" where
  "sha256_round kw st =
    (case st of [a, b, c, d, e, f, g, h] \<Rightarrow>
       let t1 = h + (rotr 6 e XOR rotr 11 e XOR rotr 25 e) + ((e AND f) XOR (NOT e AND g)) + fst kw + snd kw;
           t2 = (rotr 2 a XOR rotr 13 a XOR rotr 22 a) + ((a AND b) XOR (a AND c) XOR (b AND c))
       in [t1 + t2, a, b, c, d + t1, e, f, g]
     | _ \<Rightarrow> st)"

definition sha256_block :: "w32 list \<Rightarrow> w32 list \<Rightarrow> w32 list" where
  "sha256_block blk st =
    (let ws = rev ((sched_step ^^ 48) (rev blk))
     in map2 (+) st (fold sha256_round (zip sha256_k ws) st))"

text \<open>\<open>hashlib.sha256(s.encode("utf-8")).hexdigest()\<close>\<close>

definition sha256 :: "string \<Rightarrow> string" where
  "sha256 s = concat (map word_hex (fold sha256_block (message_blocks s) sha256_init))"

section \<open>SHA-1\<close>

definition sched1_step :: "w32 list \<Rightarrow> w32 list" where
  "sched1_step ws = rotl 1 (ws ! 2 XOR ws ! 7 XOR ws ! 13 XOR ws ! 15) # ws"

definition sha1_round :: "nat \<times> w32 \<Rightarrow> w32 list \<Rightarrow> w32 list" where
  "sha1_round iw st =
    (case st of [a, b, c, d, e] \<Rightarrow>
       let i = fst iw;
           f = (if i < 20 then (b AND c) OR (NOT b AND d) else if i < 40 then b XOR c XOR d
                else if i < 60 then (b AND c) OR (b AND d) OR (c AND d) else b XOR c XOR d);
           k = (if i < 20 then 0x5A827999 else if i < 40 then 0x6ED9EBA1
                else if i < 60 then 0x8F1BBCDC else 0xCA62C1D6)
       in [rotl 5 a + f + e + k + snd iw, a, rotl 30 b, c, d]
     | _ \<Rightarrow> st)"

definition sha1_block :: "w32 list \<Rightarrow> w32 list \<Rightarrow> w32 list" where
  "sha1_block blk st =
    (let ws = rev ((sched1_step ^^ 64) (rev blk))
     in map2 (+) st (fold sha1_round (zip [0..<80] ws) st))"

definition sha1 :: "string \<Rightarrow> string" where
  "sha1 s = concat (map word_hex (fold sha1_block (message_blocks s)
     [0x67452301, 0xEFCDAB89, 0x98BADCFE, 0x10325476, 0xC3D2E1F0]))"

section \<open>Digests of the repository\<close>

definition canonical_sha256 :: "pyval \<Rightarrow> string" where
  "canonical_sha256 v = sha256 (canonical_json v)"

definition sha256_collision :: "string \<Rightarrow> string \<Rightarrow> bool" where
  "sha256_collision x y \<longleftrightarrow> x \<noteq> y \<and> sha256 x = sha256 y"

lemma canonical_sha256_eq:
  assumes "json_ok a" and "json_ok b" and "canonical_sha256 a = canonical_sha256 b"
  shows "sort_keys a = sort_keys b \<or> sha256_collision (canonical_json a) (canonical_json b)"
  using assms canonical_json_injective [of a b]
  by (auto simp: canonical_sha256_def sha256_collision_def)

lemma length_word_hex: "length (word_hex w) = 8"
  by (simp add: word_hex_def)

lemma length_sha256_block: "length st = 8 \<Longrightarrow> length (sha256_block blk st) = 8"
proof -
  assume st: "length st = 8"
  have "length (fold sha256_round xs st) = 8" for xs
    using st
  proof (induction xs arbitrary: st)
    case (Cons x xs)
    have "length (sha256_round x st) = 8"
      using Cons.prems unfolding sha256_round_def by (auto split: list.splits simp: Let_def)
    then show ?case using Cons.IH by simp
  qed simp
  with st show ?thesis by (simp add: sha256_block_def Let_def)
qed

lemma length_sha256 [simp]: "length (sha256 s) = 64"
proof -
  have "length (fold sha256_block bs st) = 8" if "length st = 8" for bs st
    using that by (induction bs arbitrary: st) (simp_all add: length_sha256_block)
  moreover have "length (concat (map word_hex ws)) = 8 * length ws" for ws
    by (induction ws) (simp_all add: length_word_hex)
  ultimately show ?thesis by (simp add: sha256_def sha256_init_def hex_words_def)
qed

lemma sha256_not_Nil [simp]: "sha256 s \<noteq> []"
  using length_sha256 [of s] by (metis list.size(3) zero_neq_numeral)

lemma canonical_sha256_not_Nil [simp]: "canonical_sha256 v \<noteq> []"
  by (simp add: canonical_sha256_def)

lemma length_sha1_block: "length st = 5 \<Longrightarrow> length (sha1_block blk st) = 5"
proof -
  assume st: "length st = 5"
  have "length (fold sha1_round xs st) = 5" for xs
    using st
  proof (induction xs arbitrary: st)
    case (Cons x xs)
    have "length (sha1_round x st) = 5"
      using Cons.prems unfolding sha1_round_def by (auto split: list.splits simp: Let_def)
    then show ?case using Cons.IH by simp
  qed simp
  with st show ?thesis by (simp add: sha1_block_def Let_def)
qed

lemma sha1_not_Nil [simp]: "sha1 s \<noteq> []"
proof -
  have len: "length (fold sha1_block bs st) = 5" if "length st = 5" for bs st
    using that by (induction bs arbitrary: st) (simp_all add: length_sha1_block)
  have ne: "concat (map word_hex ws) \<noteq> []" if "length ws = 5" for ws
    using that length_word_hex [of "hd ws"] by (cases ws) auto
  show ?thesis
    unfolding sha1_def by (rule ne, rule len, simp)
qed

lemma word_hex_digits: "list_all is_hex_digit (word_hex w)"
proof -
  have "unat (x AND 15 :: w32) < 16" for x
  proof -
    have "x AND 15 \<le> (15 :: w32)" by (rule word_and_le1)
    then have "unat (x AND 15) \<le> unat (15 :: w32)" by (simp add: word_le_nat_alt)
    then show ?thesis by simp
  qed
  moreover have "is_hex_digit (hex_char n)" if "n < 16" for n
    using that by (auto simp: is_hex_digit_def is_digit_def hex_char_def byte_def)
  ultimately show ?thesis by (simp add: word_hex_def)
qed

lemma sha256_text [simp]: "is_sha256_text (sha256 s)"
proof -
  have hex: "list_all is_hex_digit (sha256 s)"
    using word_hex_digits by (auto simp: sha256_def list_all_iff)
  then have "ascii (sha256 s)"
    by (auto simp: ascii_def list_all_iff is_hex_digit_def is_digit_def)
  with hex show ?thesis by (simp add: is_sha256_text_def ulen_ascii)
qed

lemma canonical_sha256_text [simp]: "is_sha256_text (canonical_sha256 v)"
  by (simp add: canonical_sha256_def)

end
