(* ===== verification/Domain_Models.thy ===== *)
theory Domain_Models
  imports Digest Py_Decimal Py_Date
begin

text \<open>
  The data of \<open>domain/models.py\<close> that the bookkeeping package uses: one record per model, its
  fields in the order of the class under a prefix of the record (\<open>ru_\<close> for
  \<open>AccountMappingRule\<close> and so on), and \<open>dump_\<close> functions for \<open>model_dump(mode="json")\<close>.
  The states of a voucher and of an import batch are datatypes; the other \<open>Literal\<close> fields are
  texts. A \<open>ValidationBlocker\<close> keeps its code, scope, field, line index and detail; its message
  and remediation are user-facing texts that the code determines.

  Pydantic is third-party: reading a model back from an untyped value (\<open>model_validate\<close>) is a
  parameter of the operations that do it. Where the code dumps a model, replaces fields with
  values of their types and validates the result, the model is a record update.
\<close>

datatype voucher_state =
    Draft | Blocked | ReviewPending | Approved | Rejected | Exported | Importing | Imported
  | ImportFailed | ImportFailedConfirmed | ImportUnknown | Reconciled | ManualEntry

fun voucher_state_text :: "voucher_state \<Rightarrow> string" where
  "voucher_state_text Draft = ''draft''"
| "voucher_state_text Blocked = ''blocked''"
| "voucher_state_text ReviewPending = ''review_pending''"
| "voucher_state_text Approved = ''approved''"
| "voucher_state_text Rejected = ''rejected''"
| "voucher_state_text Exported = ''exported''"
| "voucher_state_text Importing = ''importing''"
| "voucher_state_text Imported = ''imported''"
| "voucher_state_text ImportFailed = ''import_failed''"
| "voucher_state_text ImportFailedConfirmed = ''import_failed_confirmed''"
| "voucher_state_text ImportUnknown = ''import_unknown''"
| "voucher_state_text Reconciled = ''reconciled''"
| "voucher_state_text ManualEntry = ''manual_entry''"

datatype batch_state =
    Prepared | DryRunPassed | AwaitingAuthorization | Applying | Observed | BatchReconciled
  | FailedBeforeCommit | Partial | Unknown

fun batch_state_text :: "batch_state \<Rightarrow> string" where
  "batch_state_text Prepared = ''prepared''"
| "batch_state_text DryRunPassed = ''dry_run_passed''"
| "batch_state_text AwaitingAuthorization = ''awaiting_authorization''"
| "batch_state_text Applying = ''applying''"
| "batch_state_text Observed = ''observed''"
| "batch_state_text BatchReconciled = ''reconciled''"
| "batch_state_text FailedBeforeCommit = ''failed_before_commit''"
| "batch_state_text Partial = ''partial''"
| "batch_state_text Unknown = ''unknown''"

lemma voucher_state_text_inj: "voucher_state_text a = voucher_state_text b \<longleftrightarrow> a = b"
  by (cases a; cases b) simp_all

lemma batch_state_text_inj: "batch_state_text a = batch_state_text b \<longleftrightarrow> a = b"
  by (cases a; cases b) simp_all

definition text_items :: "string dict \<Rightarrow> vdict" where
  "text_items d = map (\<lambda>p. (fst p, VStr (snd p))) d"

record account_mapping_rule =
  ru_rule_id :: string
  ru_match_seller :: string
  ru_match_source_type :: string
  ru_match_item :: string
  ru_match_internal_project :: string
  ru_effective_from :: string
  ru_effective_to :: string
  ru_priority :: int
  ru_business_class :: string
  ru_debit_account_code :: string
  ru_debit_account_name :: string
  ru_credit_account_code :: string
  ru_credit_account_name :: string
  ru_tax_account_code :: string
  ru_aux_dimensions :: "string dict"
  ru_activation_state :: string
  ru_legacy_rule_ids :: "string list"
  ru_source :: string
  ru_confirmed_at :: string
  ru_confirmed_by :: string

definition dump_account_mapping_rule :: "account_mapping_rule \<Rightarrow> vdict" where
  "dump_account_mapping_rule x =
    [(''rule_id'', VStr (ru_rule_id x)),
     (''match_seller'', VStr (ru_match_seller x)),
     (''match_source_type'', VStr (ru_match_source_type x)),
     (''match_item'', VStr (ru_match_item x)),
     (''match_internal_project'', VStr (ru_match_internal_project x)),
     (''effective_from'', VStr (ru_effective_from x)),
     (''effective_to'', VStr (ru_effective_to x)),
     (''priority'', VInt (ru_priority x)),
     (''business_class'', VStr (ru_business_class x)),
     (''debit_account_code'', VStr (ru_debit_account_code x)),
     (''debit_account_name'', VStr (ru_debit_account_name x)),
     (''credit_account_code'', VStr (ru_credit_account_code x)),
     (''credit_account_name'', VStr (ru_credit_account_name x)),
     (''tax_account_code'', VStr (ru_tax_account_code x)),
     (''aux_dimensions'', VDict (text_items (ru_aux_dimensions x))),
     (''activation_state'', VStr (ru_activation_state x)),
     (''legacy_rule_ids'', VList (map VStr (ru_legacy_rule_ids x))),
     (''source'', VStr (ru_source x)),
     (''confirmed_at'', VStr (ru_confirmed_at x)),
     (''confirmed_by'', VStr (ru_confirmed_by x))]"

record voucher_line =
  vl_line_id :: string
  vl_line_role :: string
  vl_summary :: string
  vl_account_code :: string
  vl_account_name :: string
  vl_direction :: string
  vl_amount :: string
  vl_aux :: "string dict"
  vl_source_line_ids :: "string list"
  vl_allocation_ids :: "string list"

definition dump_voucher_line :: "voucher_line \<Rightarrow> vdict" where
  "dump_voucher_line x =
    [(''line_id'', VStr (vl_line_id x)),
     (''line_role'', VStr (vl_line_role x)),
     (''summary'', VStr (vl_summary x)),
     (''account_code'', VStr (vl_account_code x)),
     (''account_name'', VStr (vl_account_name x)),
     (''direction'', VStr (vl_direction x)),
     (''amount'', VStr (vl_amount x)),
     (''aux'', VDict (text_items (vl_aux x))),
     (''source_line_ids'', VList (map VStr (vl_source_line_ids x))),
     (''allocation_ids'', VList (map VStr (vl_allocation_ids x)))]"

record voucher_source_line =
  sl_source_line_id :: string
  sl_source_row_no :: int
  sl_source_type :: string
  sl_invoice_no :: string
  sl_seller :: string
  sl_item_name :: string
  sl_item_key :: string
  sl_project_name :: string
  sl_quantity :: string
  sl_pretax_amount :: string
  sl_tax_amount :: string
  sl_total_amount :: string
  sl_source_file :: string
  sl_source_file_sha256 :: string

definition dump_voucher_source_line :: "voucher_source_line \<Rightarrow> vdict" where
  "dump_voucher_source_line x =
    [(''source_line_id'', VStr (sl_source_line_id x)),
     (''source_row_no'', VInt (sl_source_row_no x)),
     (''source_type'', VStr (sl_source_type x)),
     (''invoice_no'', VStr (sl_invoice_no x)),
     (''seller'', VStr (sl_seller x)),
     (''item_name'', VStr (sl_item_name x)),
     (''item_key'', VStr (sl_item_key x)),
     (''project_name'', VStr (sl_project_name x)),
     (''quantity'', VStr (sl_quantity x)),
     (''pretax_amount'', VStr (sl_pretax_amount x)),
     (''tax_amount'', VStr (sl_tax_amount x)),
     (''total_amount'', VStr (sl_total_amount x)),
     (''source_file'', VStr (sl_source_file x)),
     (''source_file_sha256'', VStr (sl_source_file_sha256 x))]"

record voucher_project_allocation =
  pa_allocation_id :: string
  pa_source_line_id :: string
  pa_project_id :: string
  pa_project_name :: string
  pa_pretax_amount :: string
  pa_tax_amount :: string
  pa_total_amount :: string

definition dump_voucher_project_allocation :: "voucher_project_allocation \<Rightarrow> vdict" where
  "dump_voucher_project_allocation x =
    [(''allocation_id'', VStr (pa_allocation_id x)),
     (''source_line_id'', VStr (pa_source_line_id x)),
     (''project_id'', VStr (pa_project_id x)),
     (''project_name'', VStr (pa_project_name x)),
     (''pretax_amount'', VStr (pa_pretax_amount x)),
     (''tax_amount'', VStr (pa_tax_amount x)),
     (''total_amount'', VStr (pa_total_amount x))]"

record voucher_rule_resolution =
  rr_source_line_id :: string
  rr_outcome :: string
  rr_rule_id :: string
  rr_rule_fingerprint :: string
  rr_candidate_rule_ids :: "string list"
  rr_candidate_rule_fingerprints :: "string list"

definition dump_voucher_rule_resolution :: "voucher_rule_resolution \<Rightarrow> vdict" where
  "dump_voucher_rule_resolution x =
    [(''source_line_id'', VStr (rr_source_line_id x)),
     (''outcome'', VStr (rr_outcome x)),
     (''rule_id'', VStr (rr_rule_id x)),
     (''rule_fingerprint'', VStr (rr_rule_fingerprint x)),
     (''candidate_rule_ids'', VList (map VStr (rr_candidate_rule_ids x))),
     (''candidate_rule_fingerprints'', VList (map VStr (rr_candidate_rule_fingerprints x)))]"

record voucher_evidence_reference =
  ev_evidence_id :: string
  ev_evidence_type :: string
  ev_subject_id :: string
  ev_source_path :: string
  ev_source_sha256 :: string
  ev_source_revision :: string
  ev_amount :: string
  ev_quantity :: string
  ev_coverage_state :: string
  ev_confirmed_by :: string
  ev_confirmed_at :: string
  ev_reason :: string

definition dump_voucher_evidence_reference :: "voucher_evidence_reference \<Rightarrow> vdict" where
  "dump_voucher_evidence_reference x =
    [(''evidence_id'', VStr (ev_evidence_id x)),
     (''evidence_type'', VStr (ev_evidence_type x)),
     (''subject_id'', VStr (ev_subject_id x)),
     (''source_path'', VStr (ev_source_path x)),
     (''source_sha256'', VStr (ev_source_sha256 x)),
     (''source_revision'', VStr (ev_source_revision x)),
     (''amount'', VStr (ev_amount x)),
     (''quantity'', VStr (ev_quantity x)),
     (''coverage_state'', VStr (ev_coverage_state x)),
     (''confirmed_by'', VStr (ev_confirmed_by x)),
     (''confirmed_at'', VStr (ev_confirmed_at x)),
     (''reason'', VStr (ev_reason x))]"

record voucher_line_decision =
  ld_line_id :: string
  ld_account_code :: string
  ld_aux :: "string dict"
  ld_line_role :: string
  ld_summary :: string
  ld_direction :: string
  ld_amount :: string
  ld_source_line_ids :: "string list"
  ld_allocation_ids :: "string list"

definition dump_voucher_line_decision :: "voucher_line_decision \<Rightarrow> vdict" where
  "dump_voucher_line_decision x =
    [(''line_id'', VStr (ld_line_id x)),
     (''account_code'', VStr (ld_account_code x)),
     (''aux'', VDict (text_items (ld_aux x))),
     (''line_role'', VStr (ld_line_role x)),
     (''summary'', VStr (ld_summary x)),
     (''direction'', VStr (ld_direction x)),
     (''amount'', VStr (ld_amount x)),
     (''source_line_ids'', VList (map VStr (ld_source_line_ids x))),
     (''allocation_ids'', VList (map VStr (ld_allocation_ids x)))]"

fun dump_evidence_or_text :: "voucher_evidence_reference + string \<Rightarrow> pyval" where
  "dump_evidence_or_text (Inl e) = VDict (dump_voucher_evidence_reference e)"
| "dump_evidence_or_text (Inr s) = VStr s"

record voucher_draft =
  dr_voucher_key :: string
  dr_voucher_date :: string
  dr_voucher_type :: string
  dr_lines :: "voucher_line list"
  dr_source_invoice_nos :: "string list"
  dr_source_rows :: "string list"
  dr_balance_ok :: bool
  dr_review_tier :: string
  dr_generated_at :: string
  dr_posting_key :: string
  dr_legacy_key :: string
  dr_proposal_revision_hash :: string
  dr_company_id :: string
  dr_ledger_environment :: string
  dr_ledger_identity_sha256 :: string
  dr_ledger_profile_revision :: int
  dr_ledger_profile_sha256 :: string
  dr_event_type :: string
  dr_source_type :: string
  dr_period :: string
  dr_anchor_business_key :: string
  dr_key_strength :: string
  dr_source_file_hashes :: "string dict"
  dr_source_lines :: "voucher_source_line list"
  dr_counterparty_id :: string
  dr_counterparty_name :: string
  dr_business_class :: string
  dr_payment_state :: string
  dr_payment_evidence_refs :: "(voucher_evidence_reference + string) list"
  dr_tax_treatment :: string
  dr_tax_evidence_refs :: "(voucher_evidence_reference + string) list"
  dr_receiving_state :: string
  dr_receiving_evidence_refs :: "(voucher_evidence_reference + string) list"
  dr_project_allocations :: "voucher_project_allocation list"
  dr_line_decision_templates :: "voucher_line_decision list"
  dr_decision_confirmed_by :: string
  dr_decision_confirmed_at :: string
  dr_proposal_hash_version :: int
  dr_rule_ids :: "string list"
  dr_rule_fingerprints :: "string list"
  dr_rules_version :: string
  dr_rule_resolutions :: "voucher_rule_resolution list"
  dr_mapping_resolution_sha256 :: string
  dr_account_table_sha256 :: string
  dr_aux_catalog_sha256 :: string
  dr_suggestion_source :: string
  dr_execution_readiness :: string
  dr_blockers :: "vdict list"

definition dump_voucher_draft :: "voucher_draft \<Rightarrow> vdict" where
  "dump_voucher_draft x =
    [(''voucher_key'', VStr (dr_voucher_key x)),
     (''voucher_date'', VStr (dr_voucher_date x)),
     (''voucher_type'', VStr (dr_voucher_type x)),
     (''lines'', VList (map (\<lambda>y. VDict (dump_voucher_line y)) (dr_lines x))),
     (''source_invoice_nos'', VList (map VStr (dr_source_invoice_nos x))),
     (''source_rows'', VList (map VStr (dr_source_rows x))),
     (''balance_ok'', VBool (dr_balance_ok x)),
     (''review_tier'', VStr (dr_review_tier x)),
     (''generated_at'', VStr (dr_generated_at x)),
     (''posting_key'', VStr (dr_posting_key x)),
     (''legacy_key'', VStr (dr_legacy_key x)),
     (''proposal_revision_hash'', VStr (dr_proposal_revision_hash x)),
     (''company_id'', VStr (dr_company_id x)),
     (''ledger_environment'', VStr (dr_ledger_environment x)),
     (''ledger_identity_sha256'', VStr (dr_ledger_identity_sha256 x)),
     (''ledger_profile_revision'', VInt (dr_ledger_profile_revision x)),
     (''ledger_profile_sha256'', VStr (dr_ledger_profile_sha256 x)),
     (''event_type'', VStr (dr_event_type x)),
     (''source_type'', VStr (dr_source_type x)),
     (''period'', VStr (dr_period x)),
     (''anchor_business_key'', VStr (dr_anchor_business_key x)),
     (''key_strength'', VStr (dr_key_strength x)),
     (''source_file_hashes'', VDict (text_items (dr_source_file_hashes x))),
     (''source_lines'', VList (map (\<lambda>y. VDict (dump_voucher_source_line y)) (dr_source_lines x))),
     (''counterparty_id'', VStr (dr_counterparty_id x)),
     (''counterparty_name'', VStr (dr_counterparty_name x)),
     (''business_class'', VStr (dr_business_class x)),
     (''payment_state'', VStr (dr_payment_state x)),
     (''payment_evidence_refs'', VList (map dump_evidence_or_text (dr_payment_evidence_refs x))),
     (''tax_treatment'', VStr (dr_tax_treatment x)),
     (''tax_evidence_refs'', VList (map dump_evidence_or_text (dr_tax_evidence_refs x))),
     (''receiving_state'', VStr (dr_receiving_state x)),
     (''receiving_evidence_refs'', VList (map dump_evidence_or_text (dr_receiving_evidence_refs x))),
     (''project_allocations'', VList (map (\<lambda>y. VDict (dump_voucher_project_allocation y)) (dr_project_allocations x))),
     (''line_decision_templates'', VList (map (\<lambda>y. VDict (dump_voucher_line_decision y)) (dr_line_decision_templates x))),
     (''decision_confirmed_by'', VStr (dr_decision_confirmed_by x)),
     (''decision_confirmed_at'', VStr (dr_decision_confirmed_at x)),
     (''proposal_hash_version'', VInt (dr_proposal_hash_version x)),
     (''rule_ids'', VList (map VStr (dr_rule_ids x))),
     (''rule_fingerprints'', VList (map VStr (dr_rule_fingerprints x))),
     (''rules_version'', VStr (dr_rules_version x)),
     (''rule_resolutions'', VList (map (\<lambda>y. VDict (dump_voucher_rule_resolution y)) (dr_rule_resolutions x))),
     (''mapping_resolution_sha256'', VStr (dr_mapping_resolution_sha256 x)),
     (''account_table_sha256'', VStr (dr_account_table_sha256 x)),
     (''aux_catalog_sha256'', VStr (dr_aux_catalog_sha256 x)),
     (''suggestion_source'', VStr (dr_suggestion_source x)),
     (''execution_readiness'', VStr (dr_execution_readiness x)),
     (''blockers'', VList (map VDict (dr_blockers x)))]"

record voucher_status_item =
  si_status :: voucher_state
  si_snapshot :: vdict
  si_voucher_no :: string
  si_approved_at :: string
  si_approved_by :: string
  si_approved_revision_hash :: string
  si_imported_at :: string
  si_reject_reason :: string
  si_export_file :: string
  si_batch_id :: string
  si_item_revision :: int
  si_legacy_keys :: "string list"
  si_last_observation_hash :: string
  si_audit :: "vdict list"

definition dump_voucher_status_item :: "voucher_status_item \<Rightarrow> vdict" where
  "dump_voucher_status_item x =
    [(''status'', VStr (voucher_state_text (si_status x))),
     (''snapshot'', VDict (si_snapshot x)),
     (''voucher_no'', VStr (si_voucher_no x)),
     (''approved_at'', VStr (si_approved_at x)),
     (''approved_by'', VStr (si_approved_by x)),
     (''approved_revision_hash'', VStr (si_approved_revision_hash x)),
     (''imported_at'', VStr (si_imported_at x)),
     (''reject_reason'', VStr (si_reject_reason x)),
     (''export_file'', VStr (si_export_file x)),
     (''batch_id'', VStr (si_batch_id x)),
     (''item_revision'', VInt (si_item_revision x)),
     (''legacy_keys'', VList (map VStr (si_legacy_keys x))),
     (''last_observation_hash'', VStr (si_last_observation_hash x)),
     (''audit'', VList (map VDict (si_audit x)))]"

record import_batch_item =
  bi_posting_key :: string
  bi_proposal_revision_hash :: string
  bi_export_row_no :: int
  bi_export_row_end :: int
  bi_planned_voucher_no :: string
  bi_signature_hash :: string

definition dump_import_batch_item :: "import_batch_item \<Rightarrow> vdict" where
  "dump_import_batch_item x =
    [(''posting_key'', VStr (bi_posting_key x)),
     (''proposal_revision_hash'', VStr (bi_proposal_revision_hash x)),
     (''export_row_no'', VInt (bi_export_row_no x)),
     (''export_row_end'', VInt (bi_export_row_end x)),
     (''planned_voucher_no'', VStr (bi_planned_voucher_no x)),
     (''signature_hash'', VStr (bi_signature_hash x))]"

record import_batch =
  ib_schema_version :: int
  ib_revision :: int
  ib_batch_id :: string
  ib_company_id :: string
  ib_ledger_environment :: string
  ib_ledger_identity_sha256 :: string
  ib_ledger_profile_sha256 :: string
  ib_ledger_name :: string
  ib_period :: string
  ib_template_facts_version :: string
  ib_template_facts_sha256 :: string
  ib_account_table_sha256 :: string
  ib_aux_catalog_sha256 :: string
  ib_file_path :: string
  ib_file_sha256 :: string
  ib_manifest_path :: string
  ib_items :: "import_batch_item list"
  ib_expected_count :: int
  ib_expected_debit_total :: string
  ib_expected_credit_total :: string
  ib_baseline :: vdict
  ib_state :: batch_state
  ib_created_at :: string
  ib_dry_run_at :: string
  ib_authorized_at :: string
  ib_finalized_at :: string
  ib_authorization_hash :: string
  ib_observation_hash :: string
  ib_finalize_result :: vdict
  ib_observation_receipts :: "vdict dict"
  ib_audit :: "vdict list"

definition dump_import_batch :: "import_batch \<Rightarrow> vdict" where
  "dump_import_batch x =
    [(''schema_version'', VInt (ib_schema_version x)),
     (''revision'', VInt (ib_revision x)),
     (''batch_id'', VStr (ib_batch_id x)),
     (''company_id'', VStr (ib_company_id x)),
     (''ledger_environment'', VStr (ib_ledger_environment x)),
     (''ledger_identity_sha256'', VStr (ib_ledger_identity_sha256 x)),
     (''ledger_profile_sha256'', VStr (ib_ledger_profile_sha256 x)),
     (''ledger_name'', VStr (ib_ledger_name x)),
     (''period'', VStr (ib_period x)),
     (''template_facts_version'', VStr (ib_template_facts_version x)),
     (''template_facts_sha256'', VStr (ib_template_facts_sha256 x)),
     (''account_table_sha256'', VStr (ib_account_table_sha256 x)),
     (''aux_catalog_sha256'', VStr (ib_aux_catalog_sha256 x)),
     (''file_path'', VStr (ib_file_path x)),
     (''file_sha256'', VStr (ib_file_sha256 x)),
     (''manifest_path'', VStr (ib_manifest_path x)),
     (''items'', VList (map (\<lambda>y. VDict (dump_import_batch_item y)) (ib_items x))),
     (''expected_count'', VInt (ib_expected_count x)),
     (''expected_debit_total'', VStr (ib_expected_debit_total x)),
     (''expected_credit_total'', VStr (ib_expected_credit_total x)),
     (''baseline'', VDict (ib_baseline x)),
     (''state'', VStr (batch_state_text (ib_state x))),
     (''created_at'', VStr (ib_created_at x)),
     (''dry_run_at'', VStr (ib_dry_run_at x)),
     (''authorized_at'', VStr (ib_authorized_at x)),
     (''finalized_at'', VStr (ib_finalized_at x)),
     (''authorization_hash'', VStr (ib_authorization_hash x)),
     (''observation_hash'', VStr (ib_observation_hash x)),
     (''finalize_result'', VDict (ib_finalize_result x)),
     (''observation_receipts'', VDict (map (\<lambda>p. (fst p, VDict (snd p))) (ib_observation_receipts x))),
     (''audit'', VList (map VDict (ib_audit x)))]"

record voucher_decision_patch =
  dp_voucher_key :: string
  dp_expected_store_revision :: int
  dp_expected_proposal_revision_hash :: string
  dp_command_id :: string
  dp_decided_by :: string
  dp_business_class :: string
  dp_payment_state :: string
  dp_payment_evidence_refs :: "voucher_evidence_reference list"
  dp_tax_treatment :: string
  dp_tax_evidence_refs :: "voucher_evidence_reference list"
  dp_receiving_state :: string
  dp_receiving_evidence_refs :: "voucher_evidence_reference list"
  dp_project_allocations :: "voucher_project_allocation list"
  dp_lines :: "voucher_line_decision list"

record voucher_review_patch =
  rp_voucher_key :: string
  rp_approve :: bool
  rp_reason :: string
  rp_proposal_revision_hash :: string
  rp_expected_store_revision :: "int option"
  rp_reviewed_by :: string
  rp_command_id :: string

record company_facts =
  cf_schema_version :: int
  cf_revision :: int
  cf_company_id :: string
  cf_company_name :: string
  cf_company_tax_id :: string
  cf_confirmed_by :: string
  cf_confirmed_at :: string

record account_catalog_record =
  ac_code :: string
  ac_name :: string
  ac_enabled :: bool
  ac_is_leaf :: bool
  ac_balance_direction :: string
  ac_required_aux_dimensions :: "string list"
  ac_quantity_enabled :: bool
  ac_foreign_currency_enabled :: bool

record auxiliary_catalog_record =
  ax_dimension :: string
  ax_value_id :: string
  ax_code :: string
  ax_name :: string
  ax_enabled :: bool

record account_catalog_envelope =
  ae_schema_version :: int
  ae_catalog_kind :: string
  ae_company_id :: string
  ae_ledger_environment :: string
  ae_ledger_identity_sha256 :: string
  ae_capture_id :: string
  ae_captured_at :: string
  ae_captured_by :: string
  ae_content_sha256 :: string
  ae_records :: "account_catalog_record list"

record auxiliary_catalog_envelope =
  xe_schema_version :: int
  xe_catalog_kind :: string
  xe_company_id :: string
  xe_ledger_environment :: string
  xe_ledger_identity_sha256 :: string
  xe_capture_id :: string
  xe_captured_at :: string
  xe_captured_by :: string
  xe_content_sha256 :: string
  xe_records :: "auxiliary_catalog_record list"

record company_ledger_profile =
  pf_schema_version :: int
  pf_revision :: int
  pf_company_id :: string
  pf_company_name :: string
  pf_company_tax_id :: string
  pf_ledger_environment :: string
  pf_ledger_provider :: string
  pf_ledger_instance_key :: string
  pf_ledger_name :: string
  pf_identity_method :: string
  pf_ledger_identity_sha256 :: string
  pf_capture_id :: string
  pf_accounting_standard :: string
  pf_taxpayer_profile :: string
  pf_currency :: string
  pf_open_periods :: "string list"
  pf_closed_through :: string
  pf_default_voucher_type :: string
  pf_voucher_write_permission_confirmed :: bool
  pf_account_table_sha256 :: string
  pf_aux_catalog_sha256 :: string
  pf_confirmed_by :: string
  pf_confirmed_at :: string

definition dump_company_ledger_profile :: "company_ledger_profile \<Rightarrow> vdict" where
  "dump_company_ledger_profile x =
    [(''schema_version'', VInt (pf_schema_version x)),
     (''revision'', VInt (pf_revision x)),
     (''company_id'', VStr (pf_company_id x)),
     (''company_name'', VStr (pf_company_name x)),
     (''company_tax_id'', VStr (pf_company_tax_id x)),
     (''ledger_environment'', VStr (pf_ledger_environment x)),
     (''ledger_provider'', VStr (pf_ledger_provider x)),
     (''ledger_instance_key'', VStr (pf_ledger_instance_key x)),
     (''ledger_name'', VStr (pf_ledger_name x)),
     (''identity_method'', VStr (pf_identity_method x)),
     (''ledger_identity_sha256'', VStr (pf_ledger_identity_sha256 x)),
     (''capture_id'', VStr (pf_capture_id x)),
     (''accounting_standard'', VStr (pf_accounting_standard x)),
     (''taxpayer_profile'', VStr (pf_taxpayer_profile x)),
     (''currency'', VStr (pf_currency x)),
     (''open_periods'', VList (map VStr (pf_open_periods x))),
     (''closed_through'', VStr (pf_closed_through x)),
     (''default_voucher_type'', VStr (pf_default_voucher_type x)),
     (''voucher_write_permission_confirmed'', VBool (pf_voucher_write_permission_confirmed x)),
     (''account_table_sha256'', VStr (pf_account_table_sha256 x)),
     (''aux_catalog_sha256'', VStr (pf_aux_catalog_sha256 x)),
     (''confirmed_by'', VStr (pf_confirmed_by x)),
     (''confirmed_at'', VStr (pf_confirmed_at x))]"

record validation_blocker =
  vb_code :: string
  vb_scope :: string
  vb_field :: string
  vb_line_index :: "int option"
  vb_detail :: vdict

text \<open>\<open>VoucherDraft(...)\<close> with the required fields, the others at their defaults.\<close>

definition new_voucher_draft ::
  "string \<Rightarrow> string \<Rightarrow> voucher_line list \<Rightarrow> string list \<Rightarrow> string list \<Rightarrow> bool \<Rightarrow> string \<Rightarrow> string
    \<Rightarrow> voucher_draft" where
  "new_voucher_draft key date lns nos rows balanced tier ts =
    \<lparr>dr_voucher_key = key, dr_voucher_date = date, dr_voucher_type = cp [0x8BB0], dr_lines = lns,
     dr_source_invoice_nos = nos, dr_source_rows = rows, dr_balance_ok = balanced, dr_review_tier = tier,
     dr_generated_at = ts, dr_posting_key = [], dr_legacy_key = [], dr_proposal_revision_hash = [],
     dr_company_id = [], dr_ledger_environment = [], dr_ledger_identity_sha256 = [], dr_ledger_profile_revision = 0,
     dr_ledger_profile_sha256 = [], dr_event_type = ''purchase_recognition'', dr_source_type = ''purchase_invoice'', dr_period = [],
     dr_anchor_business_key = [], dr_key_strength = ''strong'', dr_source_file_hashes = [], dr_source_lines = [],
     dr_counterparty_id = [], dr_counterparty_name = [], dr_business_class = [], dr_payment_state = ''unknown'',
     dr_payment_evidence_refs = [], dr_tax_treatment = ''pending'', dr_tax_evidence_refs = [], dr_receiving_state = ''missing'',
     dr_receiving_evidence_refs = [], dr_project_allocations = [], dr_line_decision_templates = [], dr_decision_confirmed_by = [],
     dr_decision_confirmed_at = [], dr_proposal_hash_version = 2, dr_rule_ids = [], dr_rule_fingerprints = [],
     dr_rules_version = [], dr_rule_resolutions = [], dr_mapping_resolution_sha256 = [], dr_account_table_sha256 = [],
     dr_aux_catalog_sha256 = [], dr_suggestion_source = ''deterministic'', dr_execution_readiness = ''needs_review'', dr_blockers = []\<rparr>"

end
