(* ===== verification/State_Files.thy ===== *)
theory State_Files
  imports Domain_Models
begin

text \<open>
  \<open>bookkeeping/repository.py\<close>: JSON state files and their revisions. A file is absent, or holds
  bytes together with what \<open>json.loads\<close> makes of them (\<open>None\<close>: not JSON), so that digests are
  taken of real bytes while reading back what was written needs no parser.

  The compare-and-swap discipline that the two stores of the package share (voucher states and
  account mapping) is the locale \<open>versioned_store\<close>: an operation that carries an expected
  revision succeeds only at that revision, and an operation that changes the store raises its
  revision by one. In the locale: revisions never go back over any sequence of operations, an
  unchanged revision means an unchanged store, and of two operations prepared at the same
  revision at most one changes the store.
\<close>

section \<open>State files\<close>

text \<open>\<open>json.dump(payload, ensure_ascii=False, indent=2)\<close>\<close>

definition indent :: "nat \<Rightarrow> string" where
  "indent n = CHR 0x0A # replicate (2 * n) CHR '' ''"

fun json_pretty :: "nat \<Rightarrow> pyval \<Rightarrow> string" where
  "json_pretty n (VList xs) =
     (if xs = [] then ''[]''
      else ''['' @ indent (n + 1) @ join ('','' @ indent (n + 1)) (map (json_pretty (n + 1)) xs)
        @ indent n @ '']'')"
| "json_pretty n (VDict d) =
     (if d = [] then ''{}''
      else ''{'' @ indent (n + 1) @ join ('','' @ indent (n + 1))
          (map (\<lambda>(k, v). json_str k @ '': '' @ json_pretty (n + 1) v) d)
        @ indent n @ ''}'')"
| "json_pretty n v = canonical_json v"

datatype store_file = NoFile | File string "pyval option"

fun file_sha256 :: "store_file \<Rightarrow> string" where
  "file_sha256 NoFile = []"
| "file_sha256 (File b v) = sha256 b"

definition atomic_write_json_durable :: "vdict \<Rightarrow> store_file" where
  "atomic_write_json_durable payload =
     File (json_pretty 0 (VDict payload) @ [CHR 0x0A]) (Some (VDict payload))"

fun strict_read_json_object :: "store_file \<Rightarrow> exc + vdict" where
  "strict_read_json_object NoFile = Inr []"
| "strict_read_json_object (File b (Some (VDict d))) = Inr d"
| "strict_read_json_object _ = Inl (StateCorruption ''bookkeeping_state_corrupted'')"

section \<open>Shared helpers\<close>

text \<open>\<open>if expected_revision is not None and current.revision != expected_revision: raise ...\<close>\<close>

definition check_revision :: "string \<Rightarrow> int option \<Rightarrow> int \<Rightarrow> exc + unit" where
  "check_revision resource expected current =
    (case expected of
       None \<Rightarrow> Inr ()
     | Some e \<Rightarrow> if e \<noteq> current then Inl (RevisionConflict resource e current) else Inr ())"

lemma check_revision_Inr [simp, res_simps]:
  "check_revision r e c = Inr u \<longleftrightarrow> e = None \<or> e = Some c"
  by (auto simp: check_revision_def split: option.splits)

lemma check_revision_simps [simp]:
  "check_revision r None c = Inr ()"
  "check_revision r (Some c) c = Inr ()"
  by simp_all

definition get_default :: "vdict \<Rightarrow> string \<Rightarrow> pyval \<Rightarrow> pyval" where
  "get_default d k v = (case dget d k of None \<Rightarrow> v | Some x \<Rightarrow> x)"

definition if_given :: "'a option \<Rightarrow> 'a \<Rightarrow> 'a" where
  "if_given a d = (case a of None \<Rightarrow> d | Some x \<Rightarrow> x)"

definition text_or :: "string \<Rightarrow> string \<Rightarrow> string" where
  "text_or a b = (if a \<noteq> [] then a else b)"

definition audit_entry :: "string \<Rightarrow> string \<Rightarrow> string \<Rightarrow> pyval \<Rightarrow> vdict" where
  "audit_entry ts action actor detail =
     [(''ts'', VStr ts), (''action'', VStr action), (''actor'', VStr actor), (''detail'', detail)]"

section \<open>Versioned stores\<close>

text \<open>A sequence of requests, each with its expected revision; a request that raises changes
  nothing.\<close>

primrec run_requests ::
  "('op \<Rightarrow> int option \<Rightarrow> 's \<Rightarrow> 'e + 's) \<Rightarrow> ('op \<times> int option) list \<Rightarrow> 's \<Rightarrow> 's" where
  "run_requests run [] s = s"
| "run_requests run (r # rs) s =
     run_requests run rs (case run (fst r) (snd r) s of Inl e \<Rightarrow> s | Inr t \<Rightarrow> t)"

locale versioned_store =
  fixes rev :: "'s \<Rightarrow> int"
    and run :: "'op \<Rightarrow> int option \<Rightarrow> 's \<Rightarrow> 'e + 's"
  assumes cas: "run op (Some n) s = Inr t \<Longrightarrow> n = rev s"
    and bump: "run op e s = Inr t \<Longrightarrow> t = s \<or> rev t = rev s + 1"
begin

lemma step_mono: "rev s \<le> rev (case run op e s of Inl x \<Rightarrow> s | Inr t \<Rightarrow> t)"
  by (cases "run op e s") (auto dest: bump)

lemma requests_mono: "rev s \<le> rev (run_requests run rs s)"
proof (induction rs arbitrary: s)
  case Nil
  then show ?case by simp
next
  case (Cons r rs)
  have "rev s \<le> rev (case run (fst r) (snd r) s of Inl x \<Rightarrow> s | Inr t \<Rightarrow> t)"
    by (rule step_mono)
  also have "\<dots> \<le> rev (run_requests run rs (case run (fst r) (snd r) s of Inl x \<Rightarrow> s | Inr t \<Rightarrow> t))"
    by (rule Cons.IH)
  finally show ?case by simp
qed

lemma same_revision_same_store: "rev (run_requests run rs s) = rev s \<Longrightarrow> run_requests run rs s = s"
proof (induction rs arbitrary: s)
  case Nil
  then show ?case by simp
next
  case (Cons r rs)
  let ?t = "case run (fst r) (snd r) s of Inl x \<Rightarrow> s | Inr t \<Rightarrow> t"
  have "rev ?t \<le> rev s"
    using Cons.prems requests_mono [of ?t rs] by simp
  then have "?t = s"
    by (cases "run (fst r) (snd r) s") (auto dest: bump)
  with Cons show ?case by simp
qed

lemma no_lost_update:
  assumes "run op e s = Inr t" and "t \<noteq> s"
  shows "\<nexists>u. run op' (Some (rev s)) (run_requests run rs t) = Inr u"
proof
  assume "\<exists>u. run op' (Some (rev s)) (run_requests run rs t) = Inr u"
  then have "rev s = rev (run_requests run rs t)" by (auto dest: cas)
  moreover have "rev t = rev s + 1" using assms bump by blast
  moreover have "rev t \<le> rev (run_requests run rs t)" by (rule requests_mono)
  ultimately show False by linarith
qed

end

end
