(* ===== verification/Voucher_Status.thy ===== *)
theory Voucher_Status
  imports State_Files
begin

text \<open>
  \<open>bookkeeping/status.py\<close>: the versioned store of voucher states. A state file is absent, or
  holds bytes together with what \<open>json.loads\<close> makes of them. Every operation takes the file and
  returns the new file with its result, or the exception it raises, in which case nothing is
  written (the diagnostic file that a corrupt state leaves beside it is not modelled).

  Parameters: \<open>vitem\<close> and \<open>vbatch\<close>, pydantic's \<open>model_validate\<close> of an item and of a batch; \<open>now\<close>, the
  clock reading of the operation; \<open>fresh\<close>, a new UUID. The write lock makes each operation
  atomic, see \<open>Write_Lock\<close>.
\<close>

section \<open>Keys and hashes\<close>

definition key_separator :: string where
  "key_separator = [CHR 0x1F]"

definition STATUS_SCHEMA_VERSION :: int where
  "STATUS_SCHEMA_VERSION = 2"

definition posting_key :: "string \<Rightarrow> string \<Rightarrow> string \<Rightarrow> string" where
  "posting_key company_id event_type anchor =
     sha256 (join key_separator (map strip [company_id, event_type, anchor]))"

definition voucher_draft_key :: "string \<Rightarrow> string \<Rightarrow> string \<Rightarrow> string" where
  "voucher_draft_key invoice_number voucher_type rules_version =
     sha1 (join key_separator (map strip [invoice_number, voucher_type, rules_version]))"

text \<open>The fields that the proposal hash covers: texts with their defaults, and lists.\<close>

definition stable_text_fields :: "(string \<times> string) list" where
  "stable_text_fields =
    [(''company_id'', []), (''ledger_environment'', []), (''ledger_identity_sha256'', []),
     (''ledger_profile_sha256'', []), (''event_type'', ''purchase_recognition''),
     (''source_type'', ''purchase_invoice''), (''anchor_business_key'', []),
     (''key_strength'', ''strong''), (''voucher_date'', []), (''voucher_type'', []),
     (''counterparty_id'', []), (''counterparty_name'', []), (''business_class'', []),
     (''payment_state'', ''unknown''), (''tax_treatment'', ''pending''),
     (''receiving_state'', ''missing''), (''decision_confirmed_by'', []),
     (''decision_confirmed_at'', []), (''account_table_sha256'', []), (''aux_catalog_sha256'', [])]"

definition stable_list_fields :: "string list" where
  "stable_list_fields =
    [''source_invoice_nos'', ''source_lines'', ''payment_evidence_refs'', ''tax_evidence_refs'',
     ''receiving_evidence_refs'', ''project_allocations'', ''line_decision_templates'',
     ''rule_ids'', ''rule_fingerprints'', ''lines'']"

definition list_field :: "vdict \<Rightarrow> string \<Rightarrow> exc + string \<times> pyval" where
  "list_field payload k = res_bind (getl payload k) (\<lambda>xs. Inr (k, VList xs))"

definition proposal_hash_version :: "vdict \<Rightarrow> int" where
  "proposal_hash_version payload =
     (case geti_or payload ''proposal_hash_version'' 1 of Inl e \<Rightarrow> 0 | Inr v \<Rightarrow> v)"

definition proposal_stable :: "vdict \<Rightarrow> exc + vdict" where
  "proposal_stable payload =
    res_bind (geti_or payload ''ledger_profile_revision'' 0) (\<lambda>rev.
    res_bind (getd payload ''source_file_hashes'') (\<lambda>hashes.
    res_bind (res_map (list_field payload) stable_list_fields) (\<lambda>lists.
    res_bind
      (if 2 \<le> proposal_hash_version payload then
         res_bind (getl payload ''rule_resolutions'') (\<lambda>rs.
           Inr [(''proposal_hash_version'', VInt (proposal_hash_version payload)),
                (''rule_resolutions'', VList rs),
                (''mapping_resolution_sha256'', VStr (gets payload ''mapping_resolution_sha256''))])
       else Inr [(''rules_version'', VStr (gets payload ''rules_version''))]) (\<lambda>version_part.
    Inr (map (\<lambda>f. (fst f, VStr (gets_or payload (fst f) (snd f)))) stable_text_fields
         @ [(''ledger_profile_revision'', VInt rev), (''source_file_hashes'', VDict hashes)]
         @ lists @ version_part)))))"

definition proposal_revision_hash :: "vdict \<Rightarrow> exc + string" where
  "proposal_revision_hash payload =
     res_bind (proposal_stable payload) (\<lambda>stable. Inr (canonical_sha256 (VDict stable)))"

section \<open>The store\<close>

record voucher_status_store =
  vs_version :: int
  vs_revision :: int
  vs_company_id :: string
  vs_ledger_environment :: string
  vs_ledger_identity_sha256 :: string
  vs_ledger_profile_sha256 :: string
  vs_updated_at :: string
  vs_items :: "voucher_status_item dict"
  vs_batches :: "import_batch dict"

definition migration_required :: "voucher_status_store \<Rightarrow> bool" where
  "migration_required s \<longleftrightarrow> vs_version s < STATUS_SCHEMA_VERSION"

definition as_payload :: "voucher_status_store \<Rightarrow> vdict" where
  "as_payload s =
    [(''schema_version'', VInt (vs_version s)), (''version'', VInt (vs_version s)),
     (''revision'', VInt (vs_revision s)), (''company_id'', VStr (vs_company_id s)),
     (''ledger_environment'', VStr (vs_ledger_environment s)),
     (''ledger_identity_sha256'', VStr (vs_ledger_identity_sha256 s)),
     (''ledger_profile_sha256'', VStr (vs_ledger_profile_sha256 s)),
     (''updated_at'', VStr (vs_updated_at s)),
     (''items'', VDict (map (\<lambda>p. (fst p, VDict (dump_voucher_status_item (snd p)))) (dsorted (vs_items s)))),
     (''batches'', VDict (map (\<lambda>p. (fst p, VDict (dump_import_batch (snd p)))) (dsorted (vs_batches s))))]"

definition initial_store :: voucher_status_store where
  "initial_store = \<lparr>vs_version = STATUS_SCHEMA_VERSION, vs_revision = 0, vs_company_id = [],
     vs_ledger_environment = [], vs_ledger_identity_sha256 = [], vs_ledger_profile_sha256 = [],
     vs_updated_at = [], vs_items = [], vs_batches = []\<rparr>"

text \<open>\<open>for key, item in raw.items(): ...\<close> with a parser and a check of the parsed value.\<close>

definition load_entries ::
  "(vdict \<Rightarrow> 'a option) \<Rightarrow> (string \<Rightarrow> 'a \<Rightarrow> bool) \<Rightarrow> vdict \<Rightarrow> exc + 'a dict" where
  "load_entries parse ok raw =
    res_fold (\<lambda>(k, v) acc.
      case v of
        VDict d \<Rightarrow>
          (if strip k = [] then Inl (TypeError ''status entry'')
           else case parse d of
               None \<Rightarrow> Inl (ValueError ''validation error'' [])
             | Some x \<Rightarrow> if ok (strip k) x then Inr (dput (strip k) x acc)
                 else Inl (ValueError ''import batch key mismatch'' [strip k]))
      | _ \<Rightarrow> Inl (TypeError ''status entry'')) raw []"

definition stored_version :: "vdict \<Rightarrow> exc + int" where
  "stored_version payload =
    (if truthy (get_val payload ''schema_version'') then py_int (get_val payload ''schema_version'')
     else geti_or payload ''version'' 1)"

definition decode_store ::
  "(vdict \<Rightarrow> voucher_status_item option) \<Rightarrow> (vdict \<Rightarrow> import_batch option) \<Rightarrow> vdict
    \<Rightarrow> exc + voucher_status_store" where
  "decode_store vitem vbatch payload =
    res_bind (stored_version payload) (\<lambda>version.
    if version \<notin> {1, STATUS_SCHEMA_VERSION} then Inl (ValueError ''unsupported schema version'' [])
    else res_bind (geti_or payload ''revision'' 0) (\<lambda>revision.
    if revision < 0 then Inl (ValueError ''negative revision'' [])
    else case (get_default payload ''items'' (VDict []), get_default payload ''batches'' (VDict [])) of
        (VDict raw_items, VDict raw_batches) \<Rightarrow>
          res_bind (load_entries vitem (\<lambda>k x. True) raw_items) (\<lambda>items.
          res_bind (load_entries vbatch (\<lambda>k b. ib_batch_id b = k) raw_batches) (\<lambda>batches.
          Inr \<lparr>vs_version = version, vs_revision = revision,
            vs_company_id = strip (gets payload ''company_id''),
            vs_ledger_environment = strip (gets payload ''ledger_environment''),
            vs_ledger_identity_sha256 = strip (gets payload ''ledger_identity_sha256''),
            vs_ledger_profile_sha256 = strip (gets payload ''ledger_profile_sha256''),
            vs_updated_at = gets payload ''updated_at'',
            vs_items = items, vs_batches = batches\<rparr>))
      | _ \<Rightarrow> Inl (TypeError ''must be an object'')))"

definition load_voucher_status ::
  "(vdict \<Rightarrow> voucher_status_item option) \<Rightarrow> (vdict \<Rightarrow> import_batch option) \<Rightarrow> store_file
    \<Rightarrow> exc + voucher_status_store" where
  "load_voucher_status vitem vbatch f =
    (if f = NoFile then Inr initial_store
     else res_bind (strict_read_json_object f) (\<lambda>payload.
       case decode_store vitem vbatch payload of
         Inl e \<Rightarrow> Inl (StateCorruption ''bookkeeping_state_schema_invalid'')
       | Inr s \<Rightarrow> Inr s))"

section \<open>Writing\<close>

text \<open>The keyword arguments of the writers; \<open>None\<close> keeps the stored value.\<close>

record ledger_args =
  la_company_id :: "string option"
  la_ledger_environment :: "string option"
  la_ledger_identity_sha256 :: "string option"
  la_ledger_profile_sha256 :: "string option"

definition no_args :: ledger_args where
  "no_args = \<lparr>la_company_id = None, la_ledger_environment = None,
     la_ledger_identity_sha256 = None, la_ledger_profile_sha256 = None\<rparr>"

definition write_store_unlocked ::
  "string \<Rightarrow> string \<Rightarrow> voucher_status_store \<Rightarrow> voucher_status_item dict \<Rightarrow> import_batch dict
    \<Rightarrow> ledger_args \<Rightarrow> string option \<Rightarrow> voucher_status_store" where
  "write_store_unlocked now fresh current items batches args updated_at =
    \<lparr>vs_version = STATUS_SCHEMA_VERSION,
     vs_revision = vs_revision current + 1,
     vs_company_id = text_or (if_given (la_company_id args) []) (text_or (vs_company_id current) fresh),
     vs_ledger_environment = if_given (la_ledger_environment args) (vs_ledger_environment current),
     vs_ledger_identity_sha256 =
       if_given (la_ledger_identity_sha256 args) (vs_ledger_identity_sha256 current),
     vs_ledger_profile_sha256 =
       if_given (la_ledger_profile_sha256 args) (vs_ledger_profile_sha256 current),
     vs_updated_at = text_or (if_given updated_at []) now,
     vs_items = items,
     vs_batches = batches\<rparr>"

definition store_to_file :: "voucher_status_store \<Rightarrow> store_file" where
  "store_to_file s = atomic_write_json_durable (as_payload s)"

definition write_status_store ::
  "string \<Rightarrow> string \<Rightarrow> voucher_status_item dict \<Rightarrow> string option \<Rightarrow> ledger_args
    \<Rightarrow> import_batch dict option \<Rightarrow> int option \<Rightarrow> voucher_status_store \<Rightarrow> exc + voucher_status_store" where
  "write_status_store now fresh items updated_at args batches expected current =
    res_bind (check_revision ''voucher_store'' expected (vs_revision current)) (\<lambda>_.
    if migration_required current \<and> vs_items current \<noteq> [] then Inl StatusMigrationRequired
    else Inr (write_store_unlocked now fresh current items
           (if_given batches (vs_batches current)) args updated_at))"

definition write_voucher_status ::
  "(store_file \<Rightarrow> exc + voucher_status_store) \<Rightarrow> string \<Rightarrow> string \<Rightarrow> voucher_status_item dict
    \<Rightarrow> string option \<Rightarrow> int option \<Rightarrow> ledger_args \<Rightarrow> import_batch dict option \<Rightarrow> store_file
    \<Rightarrow> exc + store_file \<times> voucher_status_store" where
  "write_voucher_status ld now fresh items updated_at expected args batches f =
    res_bind (ld f) (\<lambda>current.
    res_bind (write_status_store now fresh items updated_at args batches expected current) (\<lambda>s.
      Inr (store_to_file s, s)))"

text \<open>What a mutator returns: the same objects (no write), or new items and batches.\<close>

datatype 't mutation =
    Unchanged 't
  | Changed "voucher_status_item dict" "import_batch dict" 't

definition mutate_store ::
  "string \<Rightarrow> string \<Rightarrow> (voucher_status_store \<Rightarrow> exc + 't mutation) \<Rightarrow> int option
    \<Rightarrow> voucher_status_store \<Rightarrow> exc + voucher_status_store \<times> 't" where
  "mutate_store now fresh mutator expected current =
    (if migration_required current then Inl StatusMigrationRequired
     else res_bind (check_revision ''voucher_store'' expected (vs_revision current)) (\<lambda>_.
       res_bind (mutator current) (\<lambda>m. case m of
         Unchanged r \<Rightarrow> Inr (current, r)
       | Changed items batches r \<Rightarrow>
           Inr (write_store_unlocked now fresh current items batches no_args None, r))))"

definition mutate_voucher_status ::
  "(store_file \<Rightarrow> exc + voucher_status_store) \<Rightarrow> string \<Rightarrow> string
    \<Rightarrow> (voucher_status_store \<Rightarrow> exc + 't mutation) \<Rightarrow> int option \<Rightarrow> store_file
    \<Rightarrow> exc + store_file \<times> voucher_status_store \<times> 't" where
  "mutate_voucher_status ld now fresh mutator expected f =
    res_bind (ld f) (\<lambda>current.
    res_bind (mutate_store now fresh mutator expected current) (\<lambda>(s, r).
      Inr (if s = current then f else store_to_file s, s, r)))"

section \<open>Transitions\<close>

fun STATUS_TRANSITIONS :: "voucher_state \<Rightarrow> voucher_state list" where
  "STATUS_TRANSITIONS Draft = [Blocked, ReviewPending, Rejected, ManualEntry]"
| "STATUS_TRANSITIONS Blocked = [Draft, ManualEntry]"
| "STATUS_TRANSITIONS ReviewPending = [Approved, Rejected, Blocked]"
| "STATUS_TRANSITIONS Approved = [Exported]"
| "STATUS_TRANSITIONS Exported = [Importing]"
| "STATUS_TRANSITIONS Importing = [Imported, ImportFailedConfirmed, ImportUnknown]"
| "STATUS_TRANSITIONS ImportFailed = [ImportUnknown, ManualEntry]"
| "STATUS_TRANSITIONS ImportFailedConfirmed = [Exported, ManualEntry]"
| "STATUS_TRANSITIONS ImportUnknown = [Imported, ImportFailedConfirmed]"
| "STATUS_TRANSITIONS Imported = [Reconciled]"
| "STATUS_TRANSITIONS Rejected = [Draft]"
| "STATUS_TRANSITIONS _ = []"

definition LOCKED_STATUSES :: "voucher_state list" where
  "LOCKED_STATUSES = [Approved, Exported, Importing, Imported, ImportFailed,
     ImportFailedConfirmed, ImportUnknown, Reconciled, ManualEntry]"

record transition_args =
  ta_actor :: string
  ta_detail :: pyval
  ta_voucher_no :: "string option"
  ta_export_file :: "string option"
  ta_reject_reason :: "string option"
  ta_batch_id :: "string option"
  ta_approved_revision_hash :: "string option"
  ta_observation_hash :: "string option"

definition arrow_text :: "voucher_state \<Rightarrow> voucher_state \<Rightarrow> string" where
  "arrow_text a b = voucher_state_text a @ ''->'' @ voucher_state_text b"

definition transition_item ::
  "string \<Rightarrow> voucher_state \<Rightarrow> transition_args \<Rightarrow> voucher_status_item \<Rightarrow> voucher_status_item" where
  "transition_item now new_status a item =
    (let i = item\<lparr>si_status := new_status, si_item_revision := si_item_revision item + 1,
               si_audit := si_audit item @
                 [audit_entry now (arrow_text (si_status item) new_status) (ta_actor a) (ta_detail a)]\<rparr>;
         i = (if new_status = Approved then
                i\<lparr>si_approved_at := now, si_approved_by := ta_actor a,
                  si_approved_revision_hash :=
                    text_or (if_given (ta_approved_revision_hash a) [])
                      (gets (si_snapshot item) ''proposal_revision_hash'')\<rparr> else i);
         i = (if new_status = Imported then i\<lparr>si_imported_at := now\<rparr> else i);
         i = (if new_status = Rejected then
                i\<lparr>si_reject_reason := if_given (ta_reject_reason a) (str_or_empty (ta_detail a))\<rparr> else i);
         i = i\<lparr>si_voucher_no := if_given (ta_voucher_no a) (si_voucher_no i)\<rparr>;
         i = i\<lparr>si_export_file := if_given (ta_export_file a) (si_export_file i)\<rparr>;
         i = i\<lparr>si_batch_id := if_given (ta_batch_id a) (si_batch_id i)\<rparr>
     in i\<lparr>si_last_observation_hash := if_given (ta_observation_hash a) (si_last_observation_hash i)\<rparr>)"

definition transition_mutator ::
  "string \<Rightarrow> string \<Rightarrow> voucher_state \<Rightarrow> transition_args \<Rightarrow> voucher_status_store
    \<Rightarrow> exc + voucher_status_item mutation" where
  "transition_mutator now key new_status a current =
    (case dget (vs_items current) key of
       None \<Rightarrow> Inl (KeyError key)
     | Some item \<Rightarrow>
         if new_status \<notin> set (STATUS_TRANSITIONS (si_status item))
         then Inl (ValueError ''illegal voucher status transition''
                [voucher_state_text (si_status item), voucher_state_text new_status])
         else let updated = transition_item now new_status a item
              in Inr (Changed (dput key updated (vs_items current)) (vs_batches current) updated))"

definition transition_voucher_status ::
  "(store_file \<Rightarrow> exc + voucher_status_store) \<Rightarrow> string \<Rightarrow> string \<Rightarrow> string \<Rightarrow> voucher_state
    \<Rightarrow> transition_args \<Rightarrow> int option \<Rightarrow> store_file \<Rightarrow> exc + store_file \<times> voucher_status_item" where
  "transition_voucher_status ld now fresh voucher_key new_status a expected f =
    res_bind (mutate_voucher_status ld now fresh
        (transition_mutator now (strip voucher_key) new_status a) expected f)
      (\<lambda>(f', s, updated). Inr (f', updated))"

definition review_args :: "voucher_review_patch \<Rightarrow> string \<Rightarrow> transition_args" where
  "review_args patch actor =
    \<lparr>ta_actor = actor,
     ta_detail = VDict [(''reason'', VStr (rp_reason patch)), (''command_id'', VStr (rp_command_id patch))],
     ta_voucher_no = None, ta_export_file = None,
     ta_reject_reason = (if rp_approve patch then None else Some (rp_reason patch)),
     ta_batch_id = None,
     ta_approved_revision_hash = (if rp_approve patch then Some (rp_proposal_revision_hash patch) else None),
     ta_observation_hash = None\<rparr>"

definition apply_review_patch ::
  "(store_file \<Rightarrow> exc + voucher_status_store) \<Rightarrow> string \<Rightarrow> string \<Rightarrow> voucher_review_patch \<Rightarrow> string
    \<Rightarrow> store_file \<Rightarrow> exc + store_file \<times> voucher_status_item" where
  "apply_review_patch ld now fresh patch actor f =
    transition_voucher_status ld now fresh (rp_voucher_key patch)
      (if rp_approve patch then Approved else Rejected) (review_args patch actor)
      (rp_expected_store_revision patch) f"

section \<open>Merging drafts\<close>

definition snapshot_anchor :: "vdict \<Rightarrow> exc + string" where
  "snapshot_anchor data =
    (let anchor = strip (gets data ''anchor_business_key'')
     in if anchor \<noteq> [] then Inr anchor
        else res_bind (getl data ''source_invoice_nos'') (\<lambda>invoices.
          Inr (case invoices of [] \<Rightarrow> [] | i # _ \<Rightarrow> strip (str_or_empty i))))"

definition snapshot_for :: "vdict \<Rightarrow> string \<Rightarrow> exc + vdict" where
  "snapshot_for data0 company_id =
    res_bind (snapshot_anchor data0) (\<lambda>anchor.
    let key = posting_key company_id (gets_or data0 ''event_type'' ''purchase_recognition'') anchor;
        data = dput ''company_id'' (VStr company_id) data0;
        data = dput ''anchor_business_key'' (VStr anchor) data;
        data = dput ''posting_key'' (VStr key) data;
        data = dput ''voucher_key'' (VStr key) data;
        data = dput ''period'' (VStr (gets_or data ''period'' (utake 7 (gets data ''voucher_date'')))) data
    in res_bind (proposal_revision_hash data) (\<lambda>h.
       Inr (dput ''proposal_revision_hash'' (VStr h) data)))"

definition mergeable :: "voucher_status_item option \<Rightarrow> bool" where
  "mergeable existing = (case existing of None \<Rightarrow> True
     | Some e \<Rightarrow> si_status e \<notin> set LOCKED_STATUSES \<and> si_status e \<noteq> ReviewPending)"

definition merge_audit :: "string \<Rightarrow> string \<Rightarrow> vdict \<Rightarrow> voucher_status_item option \<Rightarrow> vdict list" where
  "merge_audit now actor snapshot existing =
    (case existing of
       None \<Rightarrow> [audit_entry now ''draft'' actor (VStr ''generated'')]
     | Some e \<Rightarrow>
         if si_status e = Rejected
         then si_audit e @ [audit_entry now ''rejected->draft'' actor (VStr ''regenerated'')]
         else if get_val (si_snapshot e) ''proposal_revision_hash'' \<noteq> get_val snapshot ''proposal_revision_hash''
         then si_audit e @ [audit_entry now ''proposal_revision_replaced'' actor
             (VDict [(''from'', get_default (si_snapshot e) ''proposal_revision_hash'' (VStr [])),
                     (''to'', get_default snapshot ''proposal_revision_hash'' (VStr []))])]
         else si_audit e)"

definition draft_item ::
  "string \<Rightarrow> string \<Rightarrow> string \<Rightarrow> vdict \<Rightarrow> voucher_status_item option \<Rightarrow> voucher_status_item" where
  "draft_item now actor legacy_key snapshot existing =
    \<lparr>si_status = Draft, si_snapshot = snapshot, si_voucher_no = [], si_approved_at = [],
     si_approved_by = [], si_approved_revision_hash = [], si_imported_at = [],
     si_reject_reason = [], si_export_file = [], si_batch_id = [],
     si_item_revision = (case existing of None \<Rightarrow> 1 | Some e \<Rightarrow> si_item_revision e + 1),
     si_legacy_keys = dedup ((case existing of None \<Rightarrow> [] | Some e \<Rightarrow> si_legacy_keys e)
       @ (if legacy_key \<noteq> [] then [legacy_key] else [])),
     si_last_observation_hash = [],
     si_audit = merge_audit now actor snapshot existing\<rparr>"

definition merge_draft ::
  "string \<Rightarrow> string \<Rightarrow> string \<Rightarrow> voucher_draft \<Rightarrow> voucher_status_item dict
    \<Rightarrow> exc + voucher_status_item dict" where
  "merge_draft now actor company_id draft items =
    res_bind (snapshot_for (dump_voucher_draft draft) company_id) (\<lambda>snapshot.
    let key = py_str (get_val snapshot ''posting_key'');
        existing = dget items key
    in if \<not> mergeable existing then Inr items
       else Inr (dput key (draft_item now actor (strip (dr_legacy_key draft)) snapshot existing) items))"

definition identity_changed :: "voucher_status_store \<Rightarrow> string \<Rightarrow> string \<Rightarrow> bool" where
  "identity_changed current next_environment next_identity \<longleftrightarrow>
     vs_ledger_identity_sha256 current \<noteq> [] \<and> next_identity \<noteq> []
     \<and> (vs_ledger_environment current \<noteq> next_environment
        \<or> vs_ledger_identity_sha256 current \<noteq> next_identity)"

definition merge_drafts_store ::
  "string \<Rightarrow> string \<Rightarrow> string \<Rightarrow> voucher_draft list \<Rightarrow> ledger_args \<Rightarrow> voucher_status_store
    \<Rightarrow> exc + voucher_status_store" where
  "merge_drafts_store now fresh actor drafts args current =
    (let company = text_or (if_given (la_company_id args) []) (text_or (vs_company_id current) fresh);
         env = if_given (la_ledger_environment args) (vs_ledger_environment current);
         ident = if_given (la_ledger_identity_sha256 args) (vs_ledger_identity_sha256 current);
         prof = if_given (la_ledger_profile_sha256 args) (vs_ledger_profile_sha256 current)
     in if migration_required current then Inl StatusMigrationRequired
        else if identity_changed current env ident
          \<and> list_ex (\<lambda>p. si_status (snd p) \<in> set LOCKED_STATUSES) (vs_items current)
        then Inl (ValueError ''locked vouchers forbid a change of ledger'' [])
        else res_bind (res_fold (merge_draft now actor company) drafts (vs_items current)) (\<lambda>items.
          Inr (write_store_unlocked now fresh current items (vs_batches current)
            \<lparr>la_company_id = Some company, la_ledger_environment = Some env,
             la_ledger_identity_sha256 = Some ident, la_ledger_profile_sha256 = Some prof\<rparr> None)))"

definition merge_voucher_drafts ::
  "(store_file \<Rightarrow> exc + voucher_status_store) \<Rightarrow> string \<Rightarrow> string \<Rightarrow> voucher_draft list \<Rightarrow> string
    \<Rightarrow> ledger_args \<Rightarrow> store_file \<Rightarrow> exc + store_file \<times> voucher_status_store" where
  "merge_voucher_drafts ld now fresh drafts actor args f =
    res_bind (ld f) (\<lambda>current.
    res_bind (merge_drafts_store now fresh actor drafts args current) (\<lambda>s.
      Inr (store_to_file s, s)))"

section \<open>Compare and swap\<close>

text \<open>The two writers that take an expected revision, as requests to the store.\<close>

datatype 't status_op =
    Mutate string string "voucher_status_store \<Rightarrow> exc + 't mutation"
  | Write string string "voucher_status_item dict" "string option" ledger_args "import_batch dict option"

fun run_status ::
  "'t status_op \<Rightarrow> int option \<Rightarrow> voucher_status_store \<Rightarrow> exc + voucher_status_store" where
  "run_status (Mutate now fresh m) e s =
     res_bind (mutate_store now fresh m e s) (\<lambda>p. Inr (fst p))"
| "run_status (Write now fresh items upd args batches) e s =
     write_status_store now fresh items upd args batches e s"

lemma write_store_unlocked_simps [simp]:
  "vs_version (write_store_unlocked n fr c i b a u) = STATUS_SCHEMA_VERSION"
  "vs_revision (write_store_unlocked n fr c i b a u) = vs_revision c + 1"
  "vs_items (write_store_unlocked n fr c i b a u) = i"
  "vs_batches (write_store_unlocked n fr c i b a u) = b"
  by (simp_all add: write_store_unlocked_def)

lemma mutate_store_Inr:
  "mutate_store now fresh m e c = Inr (s, r) \<longleftrightarrow>
    \<not> migration_required c \<and> (e = None \<or> e = Some (vs_revision c)) \<and>
    (m c = Inr (Unchanged r) \<and> s = c \<or>
     (\<exists>items batches. m c = Inr (Changed items batches r)
        \<and> s = write_store_unlocked now fresh c items batches no_args None))"
proof (cases "m c")
  case (Inr x)
  then show ?thesis by (cases x) (auto simp: mutate_store_def res_bind_eq_Inr)
qed (auto simp: mutate_store_def res_bind_eq_Inr)

lemma write_status_store_Inr:
  "write_status_store now fresh items upd args batches e c = Inr s \<longleftrightarrow>
    (e = None \<or> e = Some (vs_revision c)) \<and> \<not> (migration_required c \<and> vs_items c \<noteq> [])
    \<and> s = write_store_unlocked now fresh c items (if_given batches (vs_batches c)) args upd"
  by (auto simp: write_status_store_def res_bind_eq_Inr)

interpretation status_cas: versioned_store vs_revision run_status
proof
  fix op :: "'t status_op" and n s t
  assume "run_status op (Some n) s = Inr t"
  then show "n = vs_revision s"
    by (cases op) (auto simp: res_bind_eq_Inr mutate_store_Inr write_status_store_Inr)
next
  fix op :: "'t status_op" and e s t
  assume "run_status op e s = Inr t"
  then show "t = s \<or> vs_revision t = vs_revision s + 1"
    by (cases op) (auto simp: res_bind_eq_Inr mutate_store_Inr write_status_store_Inr)
qed

section \<open>Lemmas on transitions\<close>

lemma transition_item_simps [simp]:
  "si_status (transition_item now st a i) = st"
  "si_snapshot (transition_item now st a i) = si_snapshot i"
  "si_item_revision (transition_item now st a i) = si_item_revision i + 1"
  "si_legacy_keys (transition_item now st a i) = si_legacy_keys i"
  "si_audit (transition_item now st a i) = si_audit i @
     [audit_entry now (arrow_text (si_status i) st) (ta_actor a) (ta_detail a)]"
  "si_batch_id (transition_item now st a i) = if_given (ta_batch_id a) (si_batch_id i)"
  "si_approved_revision_hash (transition_item now st a i) =
     (if st = Approved then text_or (if_given (ta_approved_revision_hash a) [])
        (gets (si_snapshot i) ''proposal_revision_hash'') else si_approved_revision_hash i)"
  "si_approved_by (transition_item now st a i) = (if st = Approved then ta_actor a else si_approved_by i)"
  by (simp_all add: transition_item_def Let_def)

lemma transition_mutator_Inr:
  "transition_mutator now key st a c = Inr m \<longleftrightarrow>
    (\<exists>item. dget (vs_items c) key = Some item \<and> st \<in> set (STATUS_TRANSITIONS (si_status item)) \<and>
      m = Changed (dput key (transition_item now st a item) (vs_items c)) (vs_batches c)
            (transition_item now st a item))"
  by (auto simp: transition_mutator_def Let_def split: option.splits)

definition transition_store ::
  "string \<Rightarrow> string \<Rightarrow> string \<Rightarrow> voucher_state \<Rightarrow> transition_args \<Rightarrow> int option
    \<Rightarrow> voucher_status_store \<Rightarrow> exc + voucher_status_store \<times> voucher_status_item" where
  "transition_store now fresh voucher_key st a e s =
     mutate_store now fresh (transition_mutator now (strip voucher_key) st a) e s"

lemma transition_store_Inr:
  "transition_store now fresh k st a e s = Inr (s', i) \<longleftrightarrow>
    \<not> migration_required s \<and> (e = None \<or> e = Some (vs_revision s)) \<and>
    (\<exists>item. dget (vs_items s) (strip k) = Some item \<and> st \<in> set (STATUS_TRANSITIONS (si_status item))
      \<and> i = transition_item now st a item
      \<and> s' = write_store_unlocked now fresh s (dput (strip k) i (vs_items s)) (vs_batches s) no_args None)"
  by (auto simp: transition_store_def mutate_store_Inr transition_mutator_Inr)

lemma migration_required_write [simp]:
  "\<not> migration_required (write_store_unlocked n fr c i b a u)"
  by (simp add: migration_required_def)

section \<open>Merging never raises on typed drafts\<close>

text \<open>The fields of a payload that the hash reads have their types.\<close>

definition has_list :: "vdict \<Rightarrow> string \<Rightarrow> bool" where
  "has_list p k \<longleftrightarrow> (case dget p k of Some (VList xs) \<Rightarrow> True | _ \<Rightarrow> False)"

definition hashable :: "vdict \<Rightarrow> bool" where
  "hashable p \<longleftrightarrow>
     list_all (has_list p) (''rule_resolutions'' # stable_list_fields)
     \<and> (case dget p ''source_file_hashes'' of Some (VDict d) \<Rightarrow> True | _ \<Rightarrow> False)
     \<and> (case dget p ''ledger_profile_revision'' of Some (VInt i) \<Rightarrow> True | _ \<Rightarrow> False)"

lemma getl_total: "has_list p k \<Longrightarrow> \<exists>xs. getl p k = Inr xs"
  by (auto simp: has_list_def getl_def get_val_def split: option.splits pyval.splits)

lemma list_field_total: "has_list p k \<Longrightarrow> \<exists>v. list_field p k = Inr v"
  using getl_total [of p k] by (auto simp: list_field_def)

lemma hashable_total: "hashable p \<Longrightarrow> \<exists>h. proposal_revision_hash p = Inr h"
proof -
  assume h: "hashable p"
  obtain rev where rev: "geti_or p ''ledger_profile_revision'' 0 = Inr rev"
    using h by (cases "geti_or p ''ledger_profile_revision'' 0")
      (auto simp: hashable_def geti_or_def get_val_def split: option.splits pyval.splits if_splits)
  obtain hashes where hashes: "getd p ''source_file_hashes'' = Inr hashes"
    using h by (cases "getd p ''source_file_hashes''")
      (auto simp: hashable_def getd_def get_val_def split: option.splits pyval.splits if_splits)
  have lists: "list_all (has_list p) stable_list_fields" "has_list p ''rule_resolutions''"
    using h by (simp_all add: hashable_def)
  obtain rs where rs: "getl p ''rule_resolutions'' = Inr rs"
    using getl_total [OF lists(2)] by blast
  obtain ls where ls: "res_map (list_field p) stable_list_fields = Inr ls"
    using res_map_total [of stable_list_fields "list_field p"] list_field_total lists(1)
    unfolding list_all_iff by blast
  show ?thesis
    by (simp add: proposal_revision_hash_def proposal_stable_def rev hashes ls rs)
qed

definition hash_key :: "string \<Rightarrow> bool" where
  "hash_key k \<longleftrightarrow> k \<in> set (''rule_resolutions'' # ''source_file_hashes'' # ''ledger_profile_revision''
     # stable_list_fields)"

lemma has_list_dput: "k' \<noteq> k \<Longrightarrow> has_list (dput k v p) k' = has_list p k'"
  by (simp add: has_list_def)

lemma hashable_dput: "hashable p \<Longrightarrow> \<not> hash_key k \<Longrightarrow> hashable (dput k v p)"
  by (simp add: hashable_def hash_key_def dget_dput has_list_dput)
    (auto simp: list_all_iff intro: has_list_dput [THEN iffD2])

lemma not_hash_keys:
  "\<not> hash_key ''company_id''" "\<not> hash_key ''anchor_business_key''" "\<not> hash_key ''posting_key''"
  "\<not> hash_key ''voucher_key''" "\<not> hash_key ''period''"
  by (simp_all add: hash_key_def stable_list_fields_def)

lemma hashable_dump_voucher_draft: "hashable (dump_voucher_draft d)"
  by (simp add: hashable_def has_list_def dump_voucher_draft_def stable_list_fields_def)

lemma snapshot_anchor_total:
  "getl d ''source_invoice_nos'' = Inr xs \<Longrightarrow> \<exists>anchor. snapshot_anchor d = Inr anchor"
  by (simp add: snapshot_anchor_def Let_def)

lemma snapshot_for_total: "\<exists>snapshot. snapshot_for (dump_voucher_draft d) company = Inr snapshot"
proof -
  let ?p = "dump_voucher_draft d"
  have "has_list ?p ''source_invoice_nos''"
    by (simp add: has_list_def dump_voucher_draft_def)
  then obtain anchor where anchor: "snapshot_anchor ?p = Inr anchor"
    using getl_total snapshot_anchor_total by blast
  have "hashable (dput ''period'' v5 (dput ''voucher_key'' v4 (dput ''posting_key'' v3
      (dput ''anchor_business_key'' v2 (dput ''company_id'' v1 ?p)))))" for v1 v2 v3 v4 v5
    by (intro hashable_dput hashable_dump_voucher_draft not_hash_keys)
  then show ?thesis
    unfolding snapshot_for_def anchor res_bind_simps Let_def
    by (intro res_bind_total hashable_total)
qed

lemma merge_draft_total: "\<exists>items'. merge_draft now actor company d items = Inr items'"
proof -
  obtain snapshot where "snapshot_for (dump_voucher_draft d) company = Inr snapshot"
    using snapshot_for_total by blast
  then show ?thesis by (simp add: merge_draft_def Let_def)
qed

lemma merge_drafts_store_total:
  assumes "\<not> migration_required s"
    and "\<not> identity_changed s (if_given (la_ledger_environment args) (vs_ledger_environment s))
           (if_given (la_ledger_identity_sha256 args) (vs_ledger_identity_sha256 s))
         \<or> list_all (\<lambda>p. si_status (snd p) \<notin> set LOCKED_STATUSES) (vs_items s)"
  shows "\<exists>s'. merge_drafts_store now fresh actor drafts args s = Inr s'"
proof -
  have "\<exists>t. res_fold (merge_draft now actor company) drafts (vs_items s) = Inr t" for company
    by (rule res_fold_total) (rule merge_draft_total)
  then show ?thesis using assms
    by (auto simp: merge_drafts_store_def Let_def list_ex_iff list_all_iff intro: res_bind_total)
qed

lemma merge_draft_frozen:
  assumes "merge_draft now actor company d items = Inr items'" and "dget items k = Some i"
    and "si_status i \<in> set (ReviewPending # LOCKED_STATUSES)"
  shows "dget items' k = Some i"
proof -
  obtain snapshot where snapshot: "snapshot_for (dump_voucher_draft d) company = Inr snapshot"
    using snapshot_for_total by blast
  let ?k = "py_str (get_val snapshot ''posting_key'')"
  have "\<not> mergeable (Some i)" using assms(3) by (auto simp: mergeable_def)
  then show ?thesis
    using assms(1,2) by (cases "?k = k") (auto simp: merge_draft_def snapshot Let_def split: if_split_asm)
qed

section \<open>Reading back what was written\<close>

definition store_ok :: "voucher_status_store \<Rightarrow> bool" where
  "store_ok s \<longleftrightarrow> vs_version s = STATUS_SCHEMA_VERSION \<and> 0 \<le> vs_revision s
     \<and> strip (vs_company_id s) = vs_company_id s
     \<and> strip (vs_ledger_environment s) = vs_ledger_environment s
     \<and> strip (vs_ledger_identity_sha256 s) = vs_ledger_identity_sha256 s
     \<and> strip (vs_ledger_profile_sha256 s) = vs_ledger_profile_sha256 s
     \<and> dict_wf (vs_items s) \<and> dict_wf (vs_batches s)
     \<and> list_all (\<lambda>p. strip (fst p) = fst p \<and> fst p \<noteq> []) (vs_items s)
     \<and> list_all (\<lambda>p. strip (fst p) = fst p \<and> fst p \<noteq> [] \<and> ib_batch_id (snd p) = fst p) (vs_batches s)"

lemma load_entries_dump:
  assumes "distinct (map fst (acc @ d))"
    and "list_all (\<lambda>p. strip (fst p) = fst p \<and> fst p \<noteq> [] \<and> ok (fst p) (snd p)
           \<and> parse (dump (snd p)) = Some (snd p)) d"
  shows "res_fold (\<lambda>(k, v) acc.
      case v of
        VDict d \<Rightarrow>
          (if strip k = [] then Inl (TypeError ''status entry'')
           else case parse d of
               None \<Rightarrow> Inl (ValueError ''validation error'' [])
             | Some x \<Rightarrow> if ok (strip k) x then Inr (dput (strip k) x acc)
                 else Inl (ValueError ''import batch key mismatch'' [strip k]))
      | _ \<Rightarrow> Inl (TypeError ''status entry'')) (map (\<lambda>p. (fst p, VDict (dump (snd p)))) d) acc
    = Inr (acc @ d)"
  using assms
proof (induction d arbitrary: acc)
  case (Cons p d)
  then have "dput (fst p) (snd p) acc = acc @ [p]"
    by (subst dput_append_new) (auto simp: image_iff)
  then show ?case using Cons.prems Cons.IH [of "acc @ [p]"] by simp
qed simp

lemma load_entries_dsorted:
  assumes "dict_wf d"
    and "list_all (\<lambda>p. strip (fst p) = fst p \<and> fst p \<noteq> [] \<and> ok (fst p) (snd p)
           \<and> parse (dump (snd p)) = Some (snd p)) d"
  shows "load_entries parse ok (map (\<lambda>p. (fst p, VDict (dump (snd p)))) (dsorted d)) = Inr (dsorted d)"
proof -
  have "distinct (map fst ([] @ dsorted d))"
    using dict_wf_dsorted [OF assms(1)] by (simp add: dict_wf_def)
  moreover have "list_all (\<lambda>p. strip (fst p) = fst p \<and> fst p \<noteq> [] \<and> ok (fst p) (snd p)
           \<and> parse (dump (snd p)) = Some (snd p)) (dsorted d)"
    using assms(2) by (simp add: list_all_iff)
  ultimately show ?thesis
    unfolding load_entries_def by (simp add: load_entries_dump)
qed

lemma decode_as_payload:
  assumes "store_ok s"
    and "list_all (\<lambda>p. vitem (dump_voucher_status_item (snd p)) = Some (snd p)) (vs_items s)"
    and "list_all (\<lambda>p. vbatch (dump_import_batch (snd p)) = Some (snd p)) (vs_batches s)"
  shows "decode_store vitem vbatch (as_payload s)
    = Inr (s\<lparr>vs_items := dsorted (vs_items s), vs_batches := dsorted (vs_batches s)\<rparr>)"
proof -
  have items: "load_entries vitem (\<lambda>k x. True)
      (map (\<lambda>p. (fst p, VDict (dump_voucher_status_item (snd p)))) (dsorted (vs_items s)))
      = Inr (dsorted (vs_items s))"
    using assms by (intro load_entries_dsorted) (auto simp: store_ok_def list_all_iff)
  have batches: "load_entries vbatch (\<lambda>k b. ib_batch_id b = k)
      (map (\<lambda>p. (fst p, VDict (dump_import_batch (snd p)))) (dsorted (vs_batches s)))
      = Inr (dsorted (vs_batches s))"
    using assms by (intro load_entries_dsorted) (auto simp: store_ok_def list_all_iff)
  have "vs_version s = 2" using assms(1) by (simp add: store_ok_def STATUS_SCHEMA_VERSION_def)
  moreover have "geti_or (as_payload s) ''revision'' 0 = Inr (vs_revision s)"
    by (simp add: geti_or_def get_val_def as_payload_def)
  moreover have "stored_version (as_payload s) = Inr (vs_version s)"
    using assms(1)
    by (simp add: stored_version_def get_val_def as_payload_def store_ok_def STATUS_SCHEMA_VERSION_def)
  ultimately show ?thesis
    using assms(1)
    by (simp add: decode_store_def get_default_def STATUS_SCHEMA_VERSION_def as_payload_def
        items batches gets_or_def get_val_def store_ok_def)
qed

lemma load_written:
  assumes "store_ok s"
    and "list_all (\<lambda>p. vitem (dump_voucher_status_item (snd p)) = Some (snd p)) (vs_items s)"
    and "list_all (\<lambda>p. vbatch (dump_import_batch (snd p)) = Some (snd p)) (vs_batches s)"
  shows "load_voucher_status vitem vbatch (store_to_file s)
    = Inr (s\<lparr>vs_items := dsorted (vs_items s), vs_batches := dsorted (vs_batches s)\<rparr>)"
  using decode_as_payload [OF assms]
  by (simp add: load_voucher_status_def store_to_file_def atomic_write_json_durable_def)

section \<open>Properties\<close>

text \<open>Sample values, for the witnesses.\<close>

definition sample_item :: "voucher_state \<Rightarrow> voucher_status_item" where
  "sample_item st = \<lparr>si_status = st,
     si_snapshot = [(''source_invoice_nos'', VList [VStr ''12345678'']), (''voucher_date'', VStr ''2024-05-31'')],
     si_voucher_no = [], si_approved_at = [], si_approved_by = [], si_approved_revision_hash = [],
     si_imported_at = [], si_reject_reason = [], si_export_file = [], si_batch_id = [], si_item_revision = 1,
     si_legacy_keys = [], si_last_observation_hash = [], si_audit = []\<rparr>"

definition sample_store :: "voucher_status_item dict \<Rightarrow> voucher_status_store" where
  "sample_store items = initial_store\<lparr>vs_company_id := ''c1'', vs_revision := 4, vs_items := items\<rparr>"

definition sample_args :: "string \<Rightarrow> transition_args" where
  "sample_args actor = \<lparr>ta_actor = actor, ta_detail = VStr [], ta_voucher_no = None, ta_export_file = None,
     ta_reject_reason = None, ta_batch_id = None, ta_approved_revision_hash = None,
     ta_observation_hash = None\<rparr>"

lemmas sample_defs = sample_item_def sample_store_def sample_args_def initial_store_def

text \<open>C10: After an operation that changed the store, no request prepared at the revision before it can
  succeed, whatever other requests ran in between: there are no lost updates.\<close>

theorem status_no_lost_update:
  fixes op op' :: "'t status_op" and rs :: "('t status_op \<times> int option) list"
  assumes "run_status op e s = Inr t" and "t \<noteq> s"
  shows "\<nexists>u. run_status op' (Some (vs_revision s)) (run_requests run_status rs t) = Inr u"
  using assms by (rule status_cas.no_lost_update)

theorem status_no_lost_update_witness:
  "\<exists>t. run_status (Write ''t1'' ''c2'' [(''k'', sample_item Draft)] None no_args None :: unit status_op)
         (Some 4) (sample_store []) = Inr t
    \<and> (\<nexists>u. run_status (Write ''t3'' ''c2'' [] None no_args None :: unit status_op) (Some 4)
         (run_requests run_status [(Write ''t2'' ''c2'' [] None no_args None :: unit status_op, None)] t) = Inr u)"
proof -
  let ?op = "Write ''t1'' ''c2'' [(''k'', sample_item Draft)] None no_args None :: unit status_op"
  obtain t where t: "run_status ?op (Some 4) (sample_store []) = Inr t"
    by (simp add: write_status_store_def sample_store_def)
  then have "vs_items t \<noteq> vs_items (sample_store [])"
    by (auto simp: write_status_store_Inr sample_store_def initial_store_def)
  then have ne: "t \<noteq> sample_store []" by blast
  have rev: "vs_revision (sample_store []) = 4" by (simp add: sample_store_def)
  show ?thesis
    using t status_no_lost_update [OF t ne, where op' = "Write ''t3'' ''c2'' [] None no_args None"
        and rs = "[(Write ''t2'' ''c2'' [] None no_args None, None)]"]
    unfolding rev by blast
qed

text \<open>C8: A successful transition is one that the table allows at the expected revision; it changes
  only the item under the key, keeps what was proposed, appends one audit entry, raises the store and
  item revisions by one, and an approval records who approved which revision hash.\<close>

theorem transition_effect:
  assumes "transition_voucher_status ld now fresh key st a expected f = Inr (f', i)"
  shows "\<exists>s item s'. ld f = Inr s \<and> f' = store_to_file s' \<and> \<not> migration_required s
    \<and> (expected = None \<or> expected = Some (vs_revision s))
    \<and> dget (vs_items s) (strip key) = Some item \<and> st \<in> set (STATUS_TRANSITIONS (si_status item))
    \<and> dget (vs_items s') (strip key) = Some i
    \<and> (\<forall>k. k \<noteq> strip key \<longrightarrow> dget (vs_items s') k = dget (vs_items s) k)
    \<and> vs_batches s' = vs_batches s \<and> vs_revision s' = vs_revision s + 1
    \<and> si_status i = st \<and> si_snapshot i = si_snapshot item
    \<and> si_item_revision i = si_item_revision item + 1
    \<and> (\<exists>x. si_audit i = si_audit item @ [x] \<and> get_val x ''action'' = VStr (arrow_text (si_status item) st))
    \<and> (st = Approved \<longrightarrow> si_approved_by i = ta_actor a
        \<and> si_approved_revision_hash i = text_or (if_given (ta_approved_revision_hash a) [])
             (gets (si_snapshot item) ''proposal_revision_hash''))
    \<and> (st \<noteq> Approved \<longrightarrow> si_approved_by i = si_approved_by item
        \<and> si_approved_revision_hash i = si_approved_revision_hash item)"
proof -
  obtain s s' r where s: "ld f = Inr s" and t: "transition_store now fresh key st a expected s = Inr (s', i)"
    and f': "f' = (if s' = s then f else store_to_file s')"
    using assms by (auto simp: transition_voucher_status_def mutate_voucher_status_def transition_store_def
        res_bind_eq_Inr)
  obtain item where "dget (vs_items s) (strip key) = Some item"
    and "st \<in> set (STATUS_TRANSITIONS (si_status item))" and i: "i = transition_item now st a item"
    and s': "s' = write_store_unlocked now fresh s (dput (strip key) i (vs_items s)) (vs_batches s) no_args None"
    and "\<not> migration_required s" "expected = None \<or> expected = Some (vs_revision s)"
    using t by (auto simp: transition_store_Inr)
  moreover have "vs_revision s' \<noteq> vs_revision s" by (simp add: s')
  then have "f' = store_to_file s'" using f' by auto
  ultimately show ?thesis using s
    by (intro exI [of _ s] exI [of _ item] exI [of _ s'])
      (auto simp: get_val_def audit_entry_def)
qed

theorem transition_effect_witness:
  "\<exists>f' i. transition_voucher_status (\<lambda>f. Inr (sample_store [(''k'', sample_item ReviewPending)])) ''t1'' ''c2''
      ''k'' Approved (sample_args ''ann'') (Some 4) NoFile = Inr (f', i)
    \<and> si_approved_by i = ''ann''"
proof -
  let ?ld = "\<lambda>f :: store_file. Inr (sample_store [(''k'', sample_item ReviewPending)]) :: exc + voucher_status_store"
  have k: "strip ''k'' = ''k''" by code_simp
  obtain f' i where ok: "transition_voucher_status ?ld ''t1'' ''c2'' ''k'' Approved (sample_args ''ann'') (Some 4) NoFile
      = Inr (f', i)"
    by (simp add: transition_voucher_status_def mutate_voucher_status_def mutate_store_def transition_mutator_def
        k Let_def sample_store_def sample_item_def initial_store_def migration_required_def)
  from transition_effect [OF ok] show ?thesis
    using ok by (auto simp: sample_args_def)
qed

text \<open>Merging generated drafts into a current store never raises (unless it would switch the
  ledger under locked vouchers), and it leaves every voucher that is locked or under review as it is.\<close>

theorem merge_total_and_frozen:
  assumes "\<not> migration_required s"
    and "\<not> identity_changed s (if_given (la_ledger_environment args) (vs_ledger_environment s))
           (if_given (la_ledger_identity_sha256 args) (vs_ledger_identity_sha256 s))
         \<or> list_all (\<lambda>p. si_status (snd p) \<notin> set LOCKED_STATUSES) (vs_items s)"
  shows "\<exists>s'. merge_drafts_store now fresh actor drafts args s = Inr s'
    \<and> vs_revision s' = vs_revision s + 1 \<and> vs_batches s' = vs_batches s
    \<and> (\<forall>k i. dget (vs_items s) k = Some i \<longrightarrow> si_status i \<in> set (ReviewPending # LOCKED_STATUSES)
          \<longrightarrow> dget (vs_items s') k = Some i)"
proof -
  obtain s' where s': "merge_drafts_store now fresh actor drafts args s = Inr s'"
    using merge_drafts_store_total [OF assms] by blast
  then obtain company items where fold: "res_fold (merge_draft now actor company) drafts (vs_items s) = Inr items"
    and eqs: "vs_items s' = items" "vs_batches s' = vs_batches s" "vs_revision s' = vs_revision s + 1"
    by (auto simp: merge_drafts_store_def Let_def res_bind_eq_Inr split: if_splits)
  have "dget items k = Some i"
    if i: "dget (vs_items s) k = Some i" "si_status i \<in> set (ReviewPending # LOCKED_STATUSES)" for k i
    using fold i(1) by (rule res_fold_invariant) (use i(2) in \<open>auto intro: merge_draft_frozen\<close>)
  with s' eqs show ?thesis by blast
qed

theorem merge_total_and_frozen_witness:
  "\<exists>s'. merge_drafts_store ''t'' ''c2'' ''system'' [] no_args
        (sample_store [(''k'', sample_item Imported)]) = Inr s'
    \<and> dget (vs_items s') ''k'' = Some (sample_item Imported)"
proof -
  let ?s = "sample_store [(''k'', sample_item Imported)]"
  have "\<not> migration_required ?s" by (simp add: migration_required_def sample_store_def initial_store_def)
  moreover have "\<not> identity_changed ?s (if_given (la_ledger_environment no_args) (vs_ledger_environment ?s))
       (if_given (la_ledger_identity_sha256 no_args) (vs_ledger_identity_sha256 ?s))"
    by (simp add: identity_changed_def sample_store_def initial_store_def)
  moreover have "dget (vs_items ?s) ''k'' = Some (sample_item Imported)"
    "si_status (sample_item Imported) \<in> set (ReviewPending # LOCKED_STATUSES)"
    by (simp_all add: sample_defs LOCKED_STATUSES_def)
  ultimately show ?thesis
    using merge_total_and_frozen [of ?s no_args "''t''" "''c2''" "''system''" "[]"] by blast
qed

text \<open>C13: What the store writes it reads back, given that parsing a dumped item or batch gives it back:
  the same store, its items and batches sorted by key.\<close>

theorem stored_status_reads_back:
  assumes "store_ok s"
    and "\<And>k i. dget (vs_items s) k = Some i \<Longrightarrow> vitem (dump_voucher_status_item i) = Some i"
    and "\<And>k b. dget (vs_batches s) k = Some b \<Longrightarrow> vbatch (dump_import_batch b) = Some b"
  shows "load_voucher_status vitem vbatch (store_to_file s)
    = Inr (s\<lparr>vs_items := dsorted (vs_items s), vs_batches := dsorted (vs_batches s)\<rparr>)
    \<and> (\<forall>k. dget (dsorted (vs_items s)) k = dget (vs_items s) k)"
proof -
  have wf: "dict_wf (vs_items s)" "dict_wf (vs_batches s)"
    using assms(1) by (simp_all add: store_ok_def)
  have "list_all (\<lambda>p. vitem (dump_voucher_status_item (snd p)) = Some (snd p)) (vs_items s)"
    using assms(2) dget_in_wf [OF wf(1)] by (fastforce simp: list_all_iff)
  moreover have "list_all (\<lambda>p. vbatch (dump_import_batch (snd p)) = Some (snd p)) (vs_batches s)"
    using assms(3) dget_in_wf [OF wf(2)] by (fastforce simp: list_all_iff)
  ultimately show ?thesis
    using load_written [OF assms(1)] dget_dsorted [OF wf(1)] by blast
qed

theorem stored_status_reads_back_witness:
  "load_voucher_status (\<lambda>d. if d = dump_voucher_status_item (sample_item Draft) then Some (sample_item Draft) else None)
      (\<lambda>d. None) (store_to_file (sample_store [(''k'', sample_item Draft)]))
    = Inr ((sample_store [(''k'', sample_item Draft)])\<lparr>
        vs_items := dsorted (vs_items (sample_store [(''k'', sample_item Draft)])),
        vs_batches := dsorted (vs_batches (sample_store [(''k'', sample_item Draft)]))\<rparr>)"
proof (rule stored_status_reads_back [THEN conjunct1])
  have "strip ''k'' = ''k''" "strip ''c1'' = ''c1''" by code_simp+
  then show "store_ok (sample_store [(''k'', sample_item Draft)])"
    by (simp add: store_ok_def sample_store_def initial_store_def dict_wf_def)
qed (auto simp: sample_store_def initial_store_def split: if_splits)

end
