(* ===== verification/Proposal_Hash.thy ===== *)
theory Proposal_Hash
  imports Voucher_Status
begin

text \<open>
  What two proposals with the same revision hash (\<open>proposal_revision_hash\<close> of
  \<open>bookkeeping/status.py\<close>) have in common: unless they exhibit a SHA-256 collision, the fields that
  the hash covers.
\<close>

section \<open>What the proposal hash covers\<close>

lemma dget_map_snd: "dget (map (\<lambda>p. (fst p, g (snd p))) d) k = map_option g (dget d k)"
  by (induction d) auto

lemma sort_keys_dget:
  assumes "dict_wf a" and "dict_wf b" and "sort_keys (VDict a) = sort_keys (VDict b)"
  shows "map_option sort_keys (dget a k) = map_option sort_keys (dget b k)"
proof -
  have "dget (map (\<lambda>p. (fst p, sort_keys (snd p))) (dsorted a)) k
      = dget (map (\<lambda>p. (fst p, sort_keys (snd p))) (dsorted b)) k"
    using assms(3) by simp
  then show ?thesis using assms(1,2) by (simp add: dget_map_snd dget_dsorted)
qed

lemma res_map_list_field:
  "res_map (list_field p) ks = Inr ls \<Longrightarrow> map fst ls = ks
    \<and> (\<forall>k\<in>set ks. \<forall>xs. getl p k = Inr xs \<longrightarrow> (k, VList xs) \<in> set ls)"
  by (induction ks arbitrary: ls) (auto simp: res_bind_eq_Inr list_field_def)

lemma json_ok_get_val: "json_ok (VDict p) \<Longrightarrow> json_ok (get_val p k)"
  by (auto simp: get_val_def list_all_iff split: option.splits dest!: dget_Some_in)

lemma json_ok_py_list: "json_ok v \<Longrightarrow> py_list v = Inr xs \<Longrightarrow> list_all json_ok xs"
  by (cases v) (auto simp: list_all_iff)

lemma json_ok_getl: "json_ok (VDict p) \<Longrightarrow> getl p k = Inr xs \<Longrightarrow> list_all json_ok xs"
  by (auto simp: getl_def dest: json_ok_get_val json_ok_py_list split: if_splits simp del: json_ok.simps(3))

lemma json_ok_dput: "json_ok (VDict d) \<Longrightarrow> json_ok v \<Longrightarrow> json_ok (VDict (dput k v d))"
  by (auto simp: list_all_iff dest!: set_dput)

lemma json_ok_dict_entry:
  "dict_entry x d = Inr d' \<Longrightarrow> json_ok x \<Longrightarrow> json_ok (VDict d) \<Longrightarrow> json_ok (VDict d')"
  by (induction x d rule: dict_entry.induct) (auto intro!: json_ok_dput simp del: json_ok.simps(3) split: list.splits)

lemma json_ok_py_dict: "json_ok v \<Longrightarrow> py_dict v = Inr d \<Longrightarrow> json_ok (VDict d)"
proof (cases v)
  case (VList xs)
  assume "json_ok v" "py_dict v = Inr d"
  then have "res_fold dict_entry xs [] = Inr d" "\<forall>x\<in>set xs. json_ok x"
    using VList by (simp_all add: list_all_iff)
  then show ?thesis
    by (rule_tac res_fold_invariant [where P = "\<lambda>d. json_ok (VDict d)"])
      (auto dest: json_ok_dict_entry simp del: json_ok.simps(3) simp: json_ok.simps(3) [of "[]"])
qed auto

lemma json_ok_getd: "json_ok (VDict p) \<Longrightarrow> getd p k = Inr d \<Longrightarrow> json_ok (VDict d)"
  by (cases "truthy (get_val p k)")
    (auto simp: getd_def json_ok.simps(3) [of "[]"] dest: json_ok_get_val json_ok_py_dict simp del: json_ok.simps(3))

lemma stable_shape:
  assumes "proposal_stable p = Inr s" and "json_ok (VDict p)"
  shows "json_ok (VDict s)" and "dict_wf s"
    and "(k, d) \<in> set stable_text_fields \<Longrightarrow> dget s k = Some (VStr (gets_or p k d))"
    and "k \<in> set stable_list_fields \<Longrightarrow> getl p k = Inr xs \<Longrightarrow> dget s k = Some (VList xs)"
    and "dget s ''source_file_hashes'' = Some (VDict hs) \<longleftrightarrow> getd p ''source_file_hashes'' = Inr hs"
proof -
  obtain rev hashes lists rs where rev: "geti_or p ''ledger_profile_revision'' 0 = Inr rev"
    and hashes: "getd p ''source_file_hashes'' = Inr hashes"
    and lists: "res_map (list_field p) stable_list_fields = Inr lists"
    and rs: "2 \<le> proposal_hash_version p \<longrightarrow> getl p ''rule_resolutions'' = Inr rs"
    and s: "s = map (\<lambda>f. (fst f, VStr (gets_or p (fst f) (snd f)))) stable_text_fields
         @ [(''ledger_profile_revision'', VInt rev), (''source_file_hashes'', VDict hashes)] @ lists
         @ (if 2 \<le> proposal_hash_version p then
         [(''proposal_hash_version'', VInt (proposal_hash_version p)), (''rule_resolutions'', VList rs),
          (''mapping_resolution_sha256'', VStr (gets p ''mapping_resolution_sha256''))]
         else [(''rules_version'', VStr (gets p ''rules_version''))])"
    using assms(1) by (auto simp: proposal_stable_def res_bind_eq_Inr split: if_split_asm)
  have fst: "map fst lists = stable_list_fields"
    and ls: "\<And>k xs. k \<in> set stable_list_fields \<Longrightarrow> getl p k = Inr xs \<Longrightarrow> (k, VList xs) \<in> set lists"
    using res_map_list_field [OF lists] by auto
  have keys: "map fst s = map fst stable_text_fields @ [''ledger_profile_revision'', ''source_file_hashes'']
     @ stable_list_fields @ (if 2 \<le> proposal_hash_version p
       then [''proposal_hash_version'', ''rule_resolutions'', ''mapping_resolution_sha256''] else [''rules_version''])"
    by (simp add: s fst)
  show wf: "dict_wf s"
    unfolding dict_wf_def keys stable_text_fields_def stable_list_fields_def by simp
  show "json_ok (VDict s)"
    using json_ok_getd [OF assms(2) hashes] rs json_ok_getl [OF assms(2)]
      res_map_Inr_set [OF lists]
    by (fastforce simp: s list_all_iff list_field_def res_bind_eq_Inr)
  show "(k, d) \<in> set stable_text_fields \<Longrightarrow> dget s k = Some (VStr (gets_or p k d))"
    by (rule dget_in_wf [OF wf]) (simp add: s rev_image_eqI)
  show "k \<in> set stable_list_fields \<Longrightarrow> getl p k = Inr xs \<Longrightarrow> dget s k = Some (VList xs)"
    by (rule dget_in_wf [OF wf]) (auto simp: s ls)
  have "dget s ''source_file_hashes'' = Some (VDict hashes)"
    by (rule dget_in_wf [OF wf]) (simp add: s)
  then show "dget s ''source_file_hashes'' = Some (VDict hs) \<longleftrightarrow> getd p ''source_file_hashes'' = Inr hs"
    using hashes by simp
qed

definition covered_texts :: "string set" where
  "covered_texts = {''company_id'', ''ledger_environment'', ''ledger_identity_sha256'', ''anchor_business_key'',
     ''voucher_date'', ''voucher_type'', ''counterparty_name'', ''business_class'',
     ''decision_confirmed_by'', ''account_table_sha256'', ''aux_catalog_sha256''}"

definition covered_lists :: "string set" where
  "covered_lists = {''lines'', ''source_lines'', ''project_allocations'', ''line_decision_templates'',
     ''source_invoice_nos'', ''payment_evidence_refs'', ''tax_evidence_refs''}"

text \<open>C4: Unless the two canonical texts are a SHA-256 collision, two proposals with the same revision
  hash agree (up to the order of keys inside JSON objects) on the ledger, the dates and the
  treatment, and on every line, source line, allocation, decision template and invoice number: an
  approval bound to the hash is bound to the amounts.\<close>

theorem proposal_hash_binds:
  assumes "json_ok (VDict a)" and "json_ok (VDict b)"
    and "proposal_revision_hash a = Inr h" and "proposal_revision_hash b = Inr h"
  shows "\<exists>sa sb. proposal_stable a = Inr sa \<and> proposal_stable b = Inr sb \<and>
   (sha256_collision (canonical_json (VDict sa)) (canonical_json (VDict sb)) \<or>
    ((\<forall>k\<in>covered_texts. gets a k = gets b k)
     \<and> gets_or a ''tax_treatment'' ''pending'' = gets_or b ''tax_treatment'' ''pending''
     \<and> gets_or a ''payment_state'' ''unknown'' = gets_or b ''payment_state'' ''unknown''
     \<and> (\<forall>k\<in>covered_lists.
        \<forall>xs ys. getl a k = Inr xs \<longrightarrow> getl b k = Inr ys \<longrightarrow> map sort_keys xs = map sort_keys ys)))"
proof -
  obtain sa sb where sa: "proposal_stable a = Inr sa" and sb: "proposal_stable b = Inr sb"
    and eq: "canonical_sha256 (VDict sa) = canonical_sha256 (VDict sb)"
    using assms(3,4) by (auto simp: proposal_revision_hash_def res_bind_eq_Inr)
  note A = stable_shape [OF sa assms(1)] and B = stable_shape [OF sb assms(2)]
  show ?thesis
  proof (cases "sort_keys (VDict sa) = sort_keys (VDict sb)")
    case False
    then show ?thesis using canonical_sha256_eq [OF A(1) B(1) eq] sa sb by blast
  next
    case True
    note same = sort_keys_dget [OF A(2) B(2) True]
    have fields: "gets_or a k d = gets_or b k d" if "(k, d) \<in> set stable_text_fields" for k d
      using same [of k] A(3) [OF that] B(3) [OF that] by simp
    have rows: "map sort_keys xs = map sort_keys ys"
      if "k \<in> set stable_list_fields" "getl a k = Inr xs" "getl b k = Inr ys" for k xs ys
      using same [of k] A(4) [OF that(1,2)] B(4) [OF that(1,3)] by simp
    have t: "k \<in> covered_texts \<Longrightarrow> (k, []) \<in> set stable_text_fields" for k
      unfolding covered_texts_def by (elim insertE emptyE) (simp_all add: stable_text_fields_def)
    have l: "k \<in> covered_lists \<Longrightarrow> k \<in> set stable_list_fields" for k
      unfolding covered_lists_def by (elim insertE emptyE) (simp_all add: stable_list_fields_def)
    have "(''tax_treatment'', ''pending'') \<in> set stable_text_fields"
      "(''payment_state'', ''unknown'') \<in> set stable_text_fields"
      by (simp_all add: stable_text_fields_def)
    then show ?thesis using fields t rows l sa sb by blast
  qed
qed

text \<open>The witness: the review tier of a draft is not part of its hash.\<close>

theorem proposal_hash_binds_witness:
  "\<exists>h. proposal_revision_hash [] = Inr h \<and>
    (\<exists>sa sb. proposal_stable [] = Inr sa \<and> proposal_stable [(''review_tier'', VStr ''auto'')] = Inr sb
     \<and> (sha256_collision (canonical_json (VDict sa)) (canonical_json (VDict sb))
     \<or> gets [] ''voucher_date'' = gets [(''review_tier'', VStr ''auto'')] ''voucher_date''))"
proof -
  note defs = proposal_revision_hash_def proposal_stable_def geti_or_def getd_def getl_def get_val_def
    gets_or_def list_field_def proposal_hash_version_def stable_text_fields_def stable_list_fields_def
  have "proposal_revision_hash [] = proposal_revision_hash [(''review_tier'', VStr ''auto'')]"
    by (simp add: defs)
  moreover obtain h where h: "proposal_revision_hash [] = Inr h"
    by (simp add: defs)
  ultimately have h': "proposal_revision_hash [(''review_tier'', VStr ''auto'')] = Inr h" by simp
  have ok: "json_ok (VDict [])" "json_ok (VDict [(''review_tier'', VStr ''auto'')])" by simp_all
  have "''voucher_date'' \<in> covered_texts" by (simp add: covered_texts_def)
  then show ?thesis
    using proposal_hash_binds [OF ok h h'] h by blast
qed

end
