(* ===== verification/Status_Migration.thy ===== *)
theory Status_Migration
  imports Voucher_Status
begin

text \<open>
  The explicit migration of a version 1 voucher store (\<open>preview_voucher_status_migration\<close> and
  \<open>apply_voucher_status_migration\<close> of \<open>bookkeeping/status.py\<close>): a preview that maps each legacy key
  to a posting key, and its application, bound to the digest of the source file and to the preview
  that was reviewed, with a backup of the source beside it.

  Main results: what a successful migration keeps (every voucher, its history, a backup with the
  digest of the source), and that key conflicts are refused.
\<close>

section \<open>uuid5\<close>

definition NAMESPACE_URL_bytes :: string where
  "NAMESPACE_URL_bytes = map char_of [0x6b, 0xa7, 0xb8, 0x11, 0x9d, 0xad, 0x11, 0xd1, 0x80, 0xb4, 0x00, 0xc0,
     0x4f, 0xd4, 0x30, 0xc8 :: nat]"

definition uuid5 :: "string \<Rightarrow> string \<Rightarrow> string" where
  "uuid5 namespace name =
    (let h = take 32 (sha1 (namespace @ name));
         h = h[12 := CHR ''5'', 16 := hex_char (8 + hex_val (h ! 16) mod 4)]
     in take 8 h @ ''-'' @ take 4 (drop 8 h) @ ''-'' @ take 4 (drop 12 h) @ ''-''
        @ take 4 (drop 16 h) @ ''-'' @ drop 20 h)"

definition migration_company_id :: "string \<Rightarrow> string" where
  "migration_company_id source_sha256 = uuid5 NAMESPACE_URL_bytes (''invoicehub:v1-status:'' @ source_sha256)"

section \<open>Preview\<close>

record status_mapping =
  sm_legacy_key :: string
  sm_posting_key :: string
  sm_status :: voucher_state
  sm_key_strength :: string
  sm_proposal_revision_hash :: string
  sm_snapshot :: vdict

definition dump_status_mapping :: "status_mapping \<Rightarrow> pyval" where
  "dump_status_mapping m = VDict
    [(''legacy_key'', VStr (sm_legacy_key m)), (''posting_key'', VStr (sm_posting_key m)),
     (''status'', VStr (voucher_state_text (sm_status m))), (''key_strength'', VStr (sm_key_strength m)),
     (''proposal_revision_hash'', VStr (sm_proposal_revision_hash m)), (''snapshot'', VDict (sm_snapshot m))]"

record status_preview =
  sp_ok :: bool
  sp_migration_required :: bool
  sp_source_sha256 :: string
  sp_source_revision :: int
  sp_company_id :: string
  sp_mappings :: "status_mapping list"
  sp_conflicts :: "(string \<times> string list) list"
  sp_preview_hash :: string

definition legacy_anchor :: "string \<Rightarrow> string list \<Rightarrow> vdict \<Rightarrow> pyval" where
  "legacy_anchor legacy_key invoices source_hashes =
    (case invoices of
       i # _ \<Rightarrow> VStr i
     | [] \<Rightarrow> (case filter truthy (map snd source_hashes) of v # _ \<Rightarrow> v | [] \<Rightarrow> VStr legacy_key))"

definition status_mapping_of ::
  "string \<Rightarrow> string \<times> voucher_status_item \<Rightarrow> exc + status_mapping" where
  "status_mapping_of company_id entry =
    (let legacy_key = fst entry; item = snd entry; snapshot = si_snapshot item in
     res_bind (getl snapshot ''source_invoice_nos'') (\<lambda>nos.
     res_bind (getd snapshot ''source_file_hashes'') (\<lambda>source_hashes.
     let invoices = filter (\<lambda>s. s \<noteq> []) (map (\<lambda>v. strip (py_str v)) nos);
         anchor = legacy_anchor legacy_key invoices source_hashes;
         strength = (if invoices \<noteq> [] then ''strong'' else ''weak'');
         event_type = gets_or snapshot ''event_type'' ''purchase_recognition'';
         key = posting_key company_id event_type (str_or_empty anchor);
         migrated = dupdate snapshot
           [(''voucher_key'', VStr key), (''posting_key'', VStr key), (''legacy_key'', VStr legacy_key),
            (''company_id'', VStr company_id), (''event_type'', VStr event_type),
            (''anchor_business_key'', anchor), (''key_strength'', VStr strength),
            (''period'', VStr (gets_or snapshot ''period'' (utake 7 (gets snapshot ''voucher_date''))))]
     in res_bind (proposal_revision_hash migrated) (\<lambda>h.
        Inr \<lparr>sm_legacy_key = legacy_key, sm_posting_key = key, sm_status = si_status item,
          sm_key_strength = strength, sm_proposal_revision_hash = h,
          sm_snapshot = dput ''proposal_revision_hash'' (VStr h) migrated\<rparr>))))"

text \<open>\<open>by_posting_key.setdefault(key, []).append(legacy_key)\<close>\<close>

definition group_by_posting_key :: "status_mapping list \<Rightarrow> string list dict" where
  "group_by_posting_key ms = fold (\<lambda>m d. dput (sm_posting_key m)
     ((case dget d (sm_posting_key m) of None \<Rightarrow> [] | Some xs \<Rightarrow> xs) @ [sm_legacy_key m]) d) ms []"

definition status_conflicts :: "status_mapping list \<Rightarrow> (string \<times> string list) list" where
  "status_conflicts ms = filter (\<lambda>p. 1 < length (snd p)) (group_by_posting_key ms)"

definition status_preview_core ::
  "string \<Rightarrow> int \<Rightarrow> string \<Rightarrow> status_mapping list \<Rightarrow> pyval" where
  "status_preview_core source_sha256 revision company_id ms = VDict
    [(''migration_required'', VBool True), (''source_sha256'', VStr source_sha256),
     (''source_revision'', VInt revision), (''company_id'', VStr company_id),
     (''mappings'', VList (map dump_status_mapping ms)),
     (''conflicts'', VList (map (\<lambda>c. VDict [(''posting_key'', VStr (fst c)),
        (''legacy_keys'', VList (map VStr (snd c))), (''reason'', VStr ''multiple_legacy_items'')])
        (status_conflicts ms)))]"

definition preview_voucher_status_migration ::
  "(store_file \<Rightarrow> exc + voucher_status_store) \<Rightarrow> string \<Rightarrow> store_file \<Rightarrow> exc + status_preview" where
  "preview_voucher_status_migration ld company_id f =
    res_bind (ld f) (\<lambda>store.
    let source_sha256 = file_sha256 f in
    if \<not> migration_required store then
      Inr \<lparr>sp_ok = True, sp_migration_required = False, sp_source_sha256 = source_sha256,
        sp_source_revision = vs_revision store, sp_company_id = vs_company_id store,
        sp_mappings = [], sp_conflicts = [], sp_preview_hash = []\<rparr>
    else
      let company = strip (text_or company_id (text_or (vs_company_id store) (migration_company_id source_sha256))) in
      res_bind (res_map (status_mapping_of company) (dsorted (vs_items store))) (\<lambda>ms.
      Inr \<lparr>sp_ok = (status_conflicts ms = []), sp_migration_required = True,
        sp_source_sha256 = source_sha256, sp_source_revision = vs_revision store,
        sp_company_id = company, sp_mappings = ms, sp_conflicts = status_conflicts ms,
        sp_preview_hash = canonical_sha256
          (status_preview_core source_sha256 (vs_revision store) company ms)\<rparr>))"

section \<open>Application\<close>

definition migrated_item :: "string \<Rightarrow> string \<Rightarrow> status_mapping \<Rightarrow> voucher_status_item \<Rightarrow> voucher_status_item" where
  "migrated_item now source_sha256 m original =
    original\<lparr>si_status := (if si_status original = ImportFailed then ImportUnknown else si_status original),
      si_snapshot := sm_snapshot m,
      si_legacy_keys := dedup (si_legacy_keys original @ [sm_legacy_key m]),
      si_item_revision := si_item_revision original + 1,
      si_audit := si_audit original @ [audit_entry now ''migrate_v1_to_v2'' ''bookkeeping.migration''
        (VDict [(''legacy_key'', VStr (sm_legacy_key m)), (''source_sha256'', VStr source_sha256)])]\<rparr>"

definition migrate_items ::
  "string \<Rightarrow> string \<Rightarrow> voucher_status_item dict \<Rightarrow> status_mapping list \<Rightarrow> exc + voucher_status_item dict" where
  "migrate_items now source_sha256 items ms =
    res_fold (\<lambda>m acc. case dget items (sm_legacy_key m) of
        None \<Rightarrow> Inl (KeyError (sm_legacy_key m))
      | Some original \<Rightarrow> Inr (dput (sm_posting_key m) (migrated_item now source_sha256 m original) acc)) ms []"

text \<open>The backup: \<open>path.with_name(f"{path.name}.v1-{source_sha256[:12]}.bak")\<close>.\<close>

definition backup_step :: "string \<Rightarrow> store_file \<Rightarrow> store_file \<Rightarrow> exc + store_file" where
  "backup_step source_sha256 f backup =
    (if f = NoFile then Inr backup
     else if backup \<noteq> NoFile \<and> file_sha256 backup \<noteq> source_sha256
     then Inl (ValueError ''migration backup exists with other content'' [])
     else let b = (if backup = NoFile then f else backup)
          in if file_sha256 b \<noteq> source_sha256 then Inl (ValueError ''migration backup digest'' []) else Inr b)"

definition migrated_store ::
  "string \<Rightarrow> voucher_status_store \<Rightarrow> string \<Rightarrow> string \<Rightarrow> string \<Rightarrow> string \<Rightarrow> voucher_status_item dict
    \<Rightarrow> voucher_status_store" where
  "migrated_store now current company_id env ident prof items =
    \<lparr>vs_version = STATUS_SCHEMA_VERSION, vs_revision = vs_revision current + 1,
     vs_company_id = company_id, vs_ledger_environment = env, vs_ledger_identity_sha256 = ident,
     vs_ledger_profile_sha256 = prof, vs_updated_at = now, vs_items = items, vs_batches = []\<rparr>"

definition apply_voucher_status_migration ::
  "(store_file \<Rightarrow> exc + voucher_status_store) \<Rightarrow> string \<Rightarrow> string \<Rightarrow> string \<Rightarrow> string \<Rightarrow> int option
    \<Rightarrow> string \<Rightarrow> string \<Rightarrow> string \<Rightarrow> store_file \<Rightarrow> store_file
    \<Rightarrow> exc + store_file \<times> store_file \<times> voucher_status_store" where
  "apply_voucher_status_migration ld now source_sha256 company_id preview_hash expected env ident prof f backup =
    (if source_sha256 = [] \<or> file_sha256 f \<noteq> source_sha256
     then Inl (ValueError ''migration source changed'' [])
     else res_bind (preview_voucher_status_migration ld company_id f) (\<lambda>preview.
     res_bind (check_revision ''voucher_store'' expected (sp_source_revision preview)) (\<lambda>_.
     if preview_hash \<noteq> [] \<and> sp_preview_hash preview \<noteq> preview_hash
     then Inl (HashConflict ''voucher_store'' preview_hash (sp_preview_hash preview))
     else if \<not> sp_migration_required preview then res_bind (ld f) (\<lambda>s. Inr (f, backup, s))
     else if sp_conflicts preview \<noteq> [] then Inl (ValueError ''migration conflict'' [])
     else res_bind (ld f) (\<lambda>current.
       res_bind (backup_step source_sha256 f backup) (\<lambda>b.
       res_bind (migrate_items now source_sha256 (vs_items current) (sp_mappings preview)) (\<lambda>items.
       let s = migrated_store now current (sp_company_id preview) env ident prof items
       in Inr (store_to_file s, b, s)))))))"

section \<open>Conflicts\<close>

definition legacy_keys_at :: "string \<Rightarrow> status_mapping list \<Rightarrow> string list" where
  "legacy_keys_at k ms = map sm_legacy_key (filter (\<lambda>m. sm_posting_key m = k) ms)"

lemma dget_group_by_posting_key:
  "dget (group_by_posting_key ms) k = (if legacy_keys_at k ms = [] then None else Some (legacy_keys_at k ms))"
proof (induction ms arbitrary: k rule: rev_induct)
  case Nil
  then show ?case by (simp add: group_by_posting_key_def legacy_keys_at_def)
next
  case (snoc m ms)
  have "group_by_posting_key (ms @ [m]) = dput (sm_posting_key m)
      ((case dget (group_by_posting_key ms) (sm_posting_key m) of None \<Rightarrow> [] | Some xs \<Rightarrow> xs) @ [sm_legacy_key m])
      (group_by_posting_key ms)"
    by (simp add: group_by_posting_key_def)
  moreover have "legacy_keys_at k (ms @ [m]) =
      legacy_keys_at k ms @ (if sm_posting_key m = k then [sm_legacy_key m] else [])" for k
    by (simp add: legacy_keys_at_def)
  ultimately show ?case
    by (cases "k = sm_posting_key m") (simp_all add: dget_dput snoc.IH)
qed

lemma no_status_conflicts_distinct:
  assumes "status_conflicts ms = []"
  shows "distinct (map sm_posting_key ms)"
proof -
  have few: "length (legacy_keys_at k ms) \<le> 1" for k
  proof (rule ccontr)
    assume many: "\<not> length (legacy_keys_at k ms) \<le> 1"
    then have "dget (group_by_posting_key ms) k = Some (legacy_keys_at k ms)"
      using dget_group_by_posting_key [of ms k] by auto
    then have "(k, legacy_keys_at k ms) \<in> set (status_conflicts ms)"
      using many by (auto simp: status_conflicts_def dest: dget_Some_in)
    then show False using assms by simp
  qed
  then show ?thesis
  proof (induction ms)
    case (Cons m ms)
    have "length (legacy_keys_at k ms) \<le> 1" for k
      using Cons.prems [of k] by (simp add: legacy_keys_at_def split: if_splits)
    moreover have "legacy_keys_at (sm_posting_key m) ms = []"
      using Cons.prems [of "sm_posting_key m"] by (simp add: legacy_keys_at_def)
    ultimately show ?case using Cons.IH
      by (auto simp: legacy_keys_at_def filter_empty_conv)
  qed simp
qed

section \<open>Migrating the items\<close>

lemma migrate_items_spec:
  assumes "migrate_items now sha items ms = Inr items'" and "distinct (map sm_posting_key ms)"
  shows "map fst items' = map sm_posting_key ms"
    and "m \<in> set ms \<Longrightarrow> \<exists>original. dget items (sm_legacy_key m) = Some original
           \<and> dget items' (sm_posting_key m) = Some (migrated_item now sha m original)"
proof -
  have "\<lbrakk>migrate_items now sha items ms = Inr items'; distinct (map sm_posting_key ms)\<rbrakk> \<Longrightarrow>
      map fst items' = map sm_posting_key ms \<and>
      (\<forall>m\<in>set ms. \<exists>original. dget items (sm_legacy_key m) = Some original
           \<and> dget items' (sm_posting_key m) = Some (migrated_item now sha m original))"
    for ms items'
  proof (induction ms arbitrary: items' rule: rev_induct)
    case Nil
    then show ?case by (simp add: migrate_items_def)
  next
    case (snoc m ms)
    from snoc.prems(1) obtain acc original where acc: "migrate_items now sha items ms = Inr acc"
      and orig: "dget items (sm_legacy_key m) = Some original"
      and items': "items' = dput (sm_posting_key m) (migrated_item now sha m original) acc"
      by (auto simp: migrate_items_def res_fold_append res_bind_eq_Inr split: option.splits)
    have fst: "map fst acc = map sm_posting_key ms"
      and get: "\<forall>m\<in>set ms. \<exists>original. dget items (sm_legacy_key m) = Some original
           \<and> dget acc (sm_posting_key m) = Some (migrated_item now sha m original)"
      using snoc.IH [OF acc] snoc.prems(2) by simp_all
    have new: "sm_posting_key m \<notin> fst ` set acc"
      using snoc.prems(2) fst by (metis distinct_append list.set_map map_append not_distinct_conv_prefix
          distinct.simps(2) list.simps(9) Un_iff disjoint_iff insert_iff list.set(2))
    have "\<forall>m'\<in>set ms. sm_posting_key m' \<noteq> sm_posting_key m"
      using snoc.prems(2) by (auto simp: image_iff)
    then have "\<forall>m'\<in>set (ms @ [m]). \<exists>original. dget items (sm_legacy_key m') = Some original
        \<and> dget items' (sm_posting_key m') = Some (migrated_item now sha m' original)"
      using get orig by (auto simp: items' dget_dput)
    then show ?case using fst by (simp add: items' dput_append_new [OF new])
  qed
  from this [OF assms] show "map fst items' = map sm_posting_key ms"
    and "m \<in> set ms \<Longrightarrow> \<exists>original. dget items (sm_legacy_key m) = Some original
           \<and> dget items' (sm_posting_key m) = Some (migrated_item now sha m original)"
    by blast+
qed

lemma status_mapping_of_legacy: "status_mapping_of company p = Inr m \<Longrightarrow> sm_legacy_key m = fst p"
  by (auto simp: status_mapping_of_def Let_def res_bind_eq_Inr)

lemma mappings_cover:
  assumes "res_map (status_mapping_of company) ps = Inr ms"
  shows "map sm_legacy_key ms = map fst ps"
  using assms by (induction ps arbitrary: ms) (auto simp: res_bind_eq_Inr status_mapping_of_legacy)

lemma decode_store_wf: "decode_store vitem vbatch d = Inr s \<Longrightarrow> dict_wf (vs_items s)"
proof -
  have wf: "dict_wf e" if "load_entries parse ok raw = Inr e" for parse ok raw and e :: "'a dict"
    using that unfolding load_entries_def
    by (rule res_fold_invariant) (auto split: pyval.splits option.splits if_splits)
  assume "decode_store vitem vbatch d = Inr s"
  then show ?thesis
    by (cases "get_default d ''items'' (VDict [])"; cases "get_default d ''batches'' (VDict [])")
      (auto simp: decode_store_def res_bind_eq_Inr dest: wf split: if_splits)
qed

lemma load_voucher_status_wf: "load_voucher_status vitem vbatch f = Inr s \<Longrightarrow> dict_wf (vs_items s)"
proof (cases "f = NoFile")
  case False
  assume "load_voucher_status vitem vbatch f = Inr s"
  with False obtain d where "(case decode_store vitem vbatch d of
      Inl e \<Rightarrow> Inl (StateCorruption ''bookkeeping_state_schema_invalid'') | Inr s \<Rightarrow> Inr s) = Inr s"
    by (auto simp: load_voucher_status_def res_bind_eq_Inr)
  then show ?thesis by (cases "decode_store vitem vbatch d") (auto dest: decode_store_wf)
qed (auto simp: load_voucher_status_def initial_store_def)

lemma backup_step_sha: "backup_step sha f b = Inr b' \<Longrightarrow> f \<noteq> NoFile \<Longrightarrow> file_sha256 b' = sha"
  by (auto simp: backup_step_def Let_def split: if_splits)

section \<open>Properties\<close>

lemma apply_migration_cases:
  assumes "apply_voucher_status_migration ld now source company h expected env ident prof f backup = Inr (f', b', s')"
    and "ld f = Inr s" and "migration_required s"
  obtains company' ms where "file_sha256 f = source" and "source \<noteq> []"
    and "res_map (status_mapping_of company') (dsorted (vs_items s)) = Inr ms"
    and "status_conflicts ms = []" and "backup_step source f backup = Inr b'"
    and "migrate_items now source (vs_items s) ms = Inr (vs_items s')"
    and "s' = migrated_store now s company' env ident prof (vs_items s')"
    and "f' = store_to_file s'" and "expected = None \<or> expected = Some (vs_revision s)"
    and "h \<noteq> [] \<longrightarrow> h = canonical_sha256 (status_preview_core source (vs_revision s) company' ms)"
  using assms
  by (auto simp: apply_voucher_status_migration_def preview_voucher_status_migration_def res_bind_eq_Inr
      Let_def migrated_store_def split: if_split_asm)

text \<open>C11: A successful migration of a version 1 store keeps every voucher: under exactly one posting key
  each, with its history extended by the migration, its legacy key recorded and its state (a failed
  import becomes unknown); the backup has the digest of the migrated file, and the source is the one the
  caller named.\<close>

theorem status_migration_keeps_vouchers:
  assumes "apply_voucher_status_migration (load_voucher_status vitem vbatch) now source company h expected
      env ident prof f backup = Inr (f', b', s')"
    and "load_voucher_status vitem vbatch f = Inr s" and "migration_required s"
  shows "file_sha256 f = source \<and> file_sha256 b' = source \<and> f' = store_to_file s'
    \<and> \<not> migration_required s' \<and> vs_revision s' = vs_revision s + 1
    \<and> length (vs_items s') = length (vs_items s) \<and> dict_wf (vs_items s')
    \<and> (\<forall>k i. dget (vs_items s) k = Some i \<longrightarrow> (\<exists>k' i'. dget (vs_items s') k' = Some i'
          \<and> k \<in> set (si_legacy_keys i') \<and> set (si_legacy_keys i) \<subseteq> set (si_legacy_keys i')
          \<and> (\<exists>x. si_audit i' = si_audit i @ [x])
          \<and> si_status i' = (if si_status i = ImportFailed then ImportUnknown else si_status i)))"
  using assms
proof (rule apply_migration_cases)
  fix company' ms
  assume f: "file_sha256 f = source" "source \<noteq> []" "f' = store_to_file s'"
    and ms: "res_map (status_mapping_of company') (dsorted (vs_items s)) = Inr ms"
    and nc: "status_conflicts ms = []" and b: "backup_step source f backup = Inr b'"
    and mi: "migrate_items now source (vs_items s) ms = Inr (vs_items s')"
    and s': "s' = migrated_store now s company' env ident prof (vs_items s')"
  have "f \<noteq> NoFile" using f by auto
  then have b': "file_sha256 b' = source" using b backup_step_sha by blast
  have d: "distinct (map sm_posting_key ms)" by (rule no_status_conflicts_distinct [OF nc])
  note keys = migrate_items_spec(1) [OF mi d] and items = migrate_items_spec(2) [OF mi d]
  have legacy: "map sm_legacy_key ms = map fst (dsorted (vs_items s))" by (rule mappings_cover [OF ms])
  have "length (vs_items s') = length ms" using keys by (metis length_map)
  also have "\<dots> = length (vs_items s)" using legacy by (metis length_map dsorted_def length_sort)
  finally have len: "length (vs_items s') = length (vs_items s)" .
  have "\<exists>k' i'. dget (vs_items s') k' = Some i'
          \<and> k \<in> set (si_legacy_keys i') \<and> set (si_legacy_keys i) \<subseteq> set (si_legacy_keys i')
          \<and> (\<exists>x. si_audit i' = si_audit i @ [x])
          \<and> si_status i' = (if si_status i = ImportFailed then ImportUnknown else si_status i)"
    if "dget (vs_items s) k = Some i" for k i
  proof -
    have "k \<in> set (map sm_legacy_key ms)"
      using dget_Some_in [OF that] unfolding legacy by force
    then obtain m where "m \<in> set ms" "sm_legacy_key m = k" by auto
    then have "dget (vs_items s') (sm_posting_key m) = Some (migrated_item now source m i)"
      using items [of m] that by auto
    then show ?thesis
      using \<open>sm_legacy_key m = k\<close> by (intro exI conjI) (auto simp: migrated_item_def)
  qed
  moreover have "\<not> migration_required s'" "vs_revision s' = vs_revision s + 1"
    by (subst s', simp add: migration_required_def migrated_store_def)+
  moreover have "dict_wf (vs_items s')" using d keys by (simp add: dict_wf_def)
  ultimately show ?thesis using f b' len by blast
qed

definition v1_payload :: vdict where
  "v1_payload = [(''schema_version'', VInt 1), (''revision'', VInt 7), (''company_id'', VStr ''c1''),
     (''items'', VDict [(''old'', VDict [(''status'', VStr ''import_failed'')])])]"

definition v1_file :: store_file where
  "v1_file = File ''v1'' (Some (VDict v1_payload))"

definition v1_item :: voucher_status_item where
  "v1_item = (sample_item ImportFailed)\<lparr>si_snapshot := []\<rparr>"

definition v1_store :: voucher_status_store where
  "v1_store = initial_store\<lparr>vs_version := 1, vs_revision := 7, vs_company_id := ''c1'', vs_items := [(''old'', v1_item)]\<rparr>"

lemma v1_loads: "load_voucher_status (\<lambda>d. Some v1_item) (\<lambda>d. None) v1_file = Inr v1_store"
proof -
  have "strip ''old'' = ''old''" "strip ''c1'' = ''c1''" by code_simp+
  then show ?thesis
    by (simp add: load_voucher_status_def v1_file_def v1_payload_def decode_store_def stored_version_def
        geti_or_def gets_or_def get_val_def get_default_def load_entries_def v1_store_def initial_store_def)
qed

lemma v1_mapping: "\<exists>m. status_mapping_of c (''old'', v1_item) = Inr m"
  by (simp add: status_mapping_of_def Let_def v1_item_def getl_def getd_def get_val_def res_bind_total
      proposal_revision_hash_def proposal_stable_def list_field_def stable_list_fields_def geti_or_def
      dupdate_def gets_or_def proposal_hash_version_def)

theorem status_migration_keeps_vouchers_witness:
  "\<exists>f' b' s'. apply_voucher_status_migration (load_voucher_status (\<lambda>d. Some v1_item) (\<lambda>d. None)) ''t'' (sha256 ''v1'')
      [] [] (Some 7) ''e'' ''i'' ''p'' v1_file NoFile = Inr (f', b', s')
    \<and> length (vs_items s') = 1 \<and> file_sha256 b' = sha256 ''v1''"
proof -
  let ?ld = "load_voucher_status (\<lambda>d. Some v1_item) (\<lambda>d. None)"
  have strip: "strip ''c1'' = ''c1''" by code_simp
  obtain m where m: "status_mapping_of ''c1'' (''old'', v1_item) = Inr m" using v1_mapping by blast
  then have "sm_legacy_key m = ''old''" by (auto dest: status_mapping_of_legacy)
  then have "migrate_items ''t'' (sha256 ''v1'') (vs_items v1_store) [m]
      = Inr [(sm_posting_key m, migrated_item ''t'' (sha256 ''v1'') m v1_item)]"
    by (simp add: migrate_items_def v1_store_def)
  moreover have "status_conflicts [m] = []"
    by (simp add: status_conflicts_def group_by_posting_key_def)
  moreover have "migration_required v1_store" by (simp add: migration_required_def v1_store_def STATUS_SCHEMA_VERSION_def)
  moreover have "file_sha256 v1_file = sha256 ''v1''" "v1_file \<noteq> NoFile" by (simp_all add: v1_file_def)
  ultimately obtain f' b' s' where ok: "apply_voucher_status_migration ?ld ''t'' (sha256 ''v1'')
      [] [] (Some 7) ''e'' ''i'' ''p'' v1_file NoFile = Inr (f', b', s')"
    using m strip
    by (simp add: apply_voucher_status_migration_def preview_voucher_status_migration_def v1_loads Let_def
        backup_step_def text_or_def v1_store_def dsorted_def initial_store_def)
  from status_migration_keeps_vouchers [OF this v1_loads \<open>migration_required v1_store\<close>] ok
  show ?thesis by (intro exI [of _ f'] exI [of _ b'] exI [of _ s']) (simp add: v1_store_def)
qed

end
