(* ===== verification/Voucher_Lifecycle.thy ===== *)
theory Voucher_Lifecycle
  imports Voucher_Status "HOL-Library.Sublist"
begin

text \<open>
  The life of one voucher as a step relation on what the store holds under its key, its invariants,
  and the proof that merges and transitions (\<open>bookkeeping/status.py\<close>) refine it. The batch
  operations and the decisions refine it in their own theories.
\<close>

section \<open>The life of a voucher\<close>

text \<open>
  The abstract specification of the store, for one key: how the item under it may change. Items are
  created as drafts, rewritten by a merge while they are still open, decided by a reviewer, and
  moved along the transition table (an observation may also find an unknown import still unknown).
  Every operation on the store refines it: see \<open>merge_drafts_steps\<close> and \<open>transition_steps\<close> below, and
  the batch operations and decisions in their theories.
\<close>

definition merge_actions :: "string list" where
  "merge_actions = [''draft'', ''rejected->draft'', ''proposal_revision_replaced'']"

definition action_of :: "vdict \<Rightarrow> pyval" where
  "action_of entry = get_val entry ''action''"

lemma action_of_audit_entry [simp]: "action_of (audit_entry ts a actor d) = VStr a"
  by (simp add: action_of_def audit_entry_def get_val_def)

inductive item_step :: "voucher_status_item option \<Rightarrow> voucher_status_item option \<Rightarrow> bool" where
  created: "si_status i = Draft \<Longrightarrow> si_item_revision i = 1
    \<Longrightarrow> \<forall>x\<in>set (si_audit i). action_of x \<in> VStr ` set merge_actions
    \<Longrightarrow> item_step None (Some i)"
| rewritten: "si_status e \<in> {Draft, Blocked, Rejected} \<Longrightarrow> si_status i = Draft
    \<Longrightarrow> si_item_revision i = si_item_revision e + 1
    \<Longrightarrow> si_audit i = si_audit e @ es
    \<Longrightarrow> \<forall>x\<in>set es. action_of x \<in> VStr ` set merge_actions
    \<Longrightarrow> set (si_legacy_keys e) \<subseteq> set (si_legacy_keys i)
    \<Longrightarrow> item_step (Some e) (Some i)"
| decided: "si_status e \<in> {Draft, Blocked, ReviewPending, Rejected} \<Longrightarrow> si_status i = ReviewPending
    \<Longrightarrow> si_item_revision i = si_item_revision e + 1
    \<Longrightarrow> si_audit i = si_audit e @ [x] \<Longrightarrow> action_of x = VStr ''decision_saved''
    \<Longrightarrow> si_legacy_keys i = si_legacy_keys e
    \<Longrightarrow> item_step (Some e) (Some i)"
| moved: "si_status i \<in> set (STATUS_TRANSITIONS (si_status e))
      \<or> si_status e = ImportUnknown \<and> si_status i = ImportUnknown
    \<Longrightarrow> si_item_revision i = si_item_revision e + 1
    \<Longrightarrow> si_audit i = si_audit e @ [x]
    \<Longrightarrow> action_of x = VStr (arrow_text (si_status e) (si_status i))
    \<Longrightarrow> si_snapshot i = si_snapshot e
    \<Longrightarrow> si_legacy_keys i = si_legacy_keys e
    \<Longrightarrow> si_status i = Approved \<or> si_approved_revision_hash i = si_approved_revision_hash e
    \<Longrightarrow> item_step (Some e) (Some i)"

inductive_cases item_step_NoneE: "item_step None b"
inductive_cases item_step_SomeE: "item_step (Some x) b"

abbreviation item_steps :: "voucher_status_item option \<Rightarrow> voucher_status_item option \<Rightarrow> bool" where
  "item_steps \<equiv> item_step\<^sup>*\<^sup>*"

definition steps_to :: "voucher_status_item dict \<Rightarrow> voucher_status_item dict \<Rightarrow> bool" where
  "steps_to d d' \<longleftrightarrow> (\<forall>k. item_steps (dget d k) (dget d' k))"

lemma steps_to_refl [simp]: "steps_to d d"
  by (simp add: steps_to_def)

lemma steps_to_trans: "steps_to d d' \<Longrightarrow> steps_to d' d'' \<Longrightarrow> steps_to d d''"
  unfolding steps_to_def by (meson rtranclp_trans)

lemma steps_to_dput: "item_step (dget d k) (Some i) \<Longrightarrow> steps_to d (dput k i d)"
  by (simp add: steps_to_def dget_dput r_into_rtranclp)

lemma item_step_keeps: "item_step (Some x) b \<Longrightarrow> \<exists>y. b = Some y \<and> prefix (si_audit x) (si_audit y)
    \<and> si_item_revision y = si_item_revision x + 1 \<and> set (si_legacy_keys x) \<subseteq> set (si_legacy_keys y)"
  by (erule item_step_SomeE) (auto simp: prefix_def)

lemma item_steps_keep: "item_steps (Some x) b \<Longrightarrow> \<exists>y. b = Some y \<and> prefix (si_audit x) (si_audit y)
    \<and> si_item_revision x \<le> si_item_revision y \<and> set (si_legacy_keys x) \<subseteq> set (si_legacy_keys y)"
proof (induction rule: rtranclp_induct)
  case (step b c)
  then obtain y z where "b = Some y" "prefix (si_audit x) (si_audit y)" "c = Some z"
    "si_item_revision x \<le> si_item_revision y" "set (si_legacy_keys x) \<subseteq> set (si_legacy_keys y)"
    "prefix (si_audit y) (si_audit z)" "si_item_revision z = si_item_revision y + 1"
    "set (si_legacy_keys y) \<subseteq> set (si_legacy_keys z)"
    using item_step_keeps by blast
  then show ?case using prefix_order.trans by fastforce
qed simp

text \<open>Once a voucher is locked, what was approved cannot change.\<close>

lemma item_step_locked:
  assumes "item_step (Some x) (Some y)" and "si_status x \<in> set LOCKED_STATUSES"
  shows "si_status y \<in> set LOCKED_STATUSES \<and> si_snapshot y = si_snapshot x
    \<and> si_approved_revision_hash y = si_approved_revision_hash x"
  using assms
proof cases
  case (moved z)
  then show ?thesis using assms(2)
    by (cases "si_status x") (auto simp: LOCKED_STATUSES_def)
qed (auto simp: LOCKED_STATUSES_def)

lemma item_steps_locked:
  assumes "item_steps (Some x) b" and "si_status x \<in> set LOCKED_STATUSES"
  shows "\<exists>y. b = Some y \<and> si_status y \<in> set LOCKED_STATUSES \<and> si_snapshot y = si_snapshot x
    \<and> si_approved_revision_hash y = si_approved_revision_hash x"
  using assms
proof (induction rule: rtranclp_induct)
  case (step b c)
  then show ?case using item_step_keeps item_step_locked by (metis option.inject)
qed simp

lemma item_steps_final:
  assumes "item_steps (Some x) b" and "si_status x \<in> {Reconciled, ManualEntry}"
  shows "b = Some x"
  using assms by (induction rule: rtranclp_induct) (auto elim!: item_step_SomeE)

text \<open>
  What the audit trail proves of a voucher that was created by the store: it was approved before it
  went anywhere near the ledger, and it was imported again only after each earlier attempt had been
  confirmed as failed.
\<close>

definition recorded :: "string list \<Rightarrow> vdict list \<Rightarrow> nat" where
  "recorded actions audit = length (filter (\<lambda>x. action_of x \<in> VStr ` set actions) audit)"

definition ATTEMPT :: "string list" where
  "ATTEMPT = [arrow_text Exported Importing]"

definition FAILURE :: "string list" where
  "FAILURE = [arrow_text Importing ImportFailedConfirmed, arrow_text ImportUnknown ImportFailedConfirmed]"

definition APPROVAL :: "string list" where
  "APPROVAL = [arrow_text ReviewPending Approved]"

definition POSTED_STATUSES :: "voucher_state set" where
  "POSTED_STATUSES = {Approved, Exported, Importing, Imported, ImportFailed, ImportFailedConfirmed,
     ImportUnknown, Reconciled}"

definition IN_LEDGER :: "voucher_state set" where
  "IN_LEDGER = {Importing, ImportUnknown, Imported, Reconciled, ManualEntry, ImportFailed}"

definition life_ok :: "voucher_status_item \<Rightarrow> bool" where
  "life_ok i \<longleftrightarrow> (si_status i \<in> POSTED_STATUSES \<longrightarrow> 1 \<le> recorded APPROVAL (si_audit i))
     \<and> recorded ATTEMPT (si_audit i)
         \<le> recorded FAILURE (si_audit i) + (if si_status i \<in> IN_LEDGER then 1 else 0)"

lemma recorded_append [simp]: "recorded as (xs @ ys) = recorded as xs + recorded as ys"
  by (simp add: recorded_def)

lemma recorded_one: "action_of x = VStr a \<Longrightarrow> recorded as [x] = (if a \<in> set as then 1 else 0)"
  by (auto simp: recorded_def)

lemma arrow_recorded:
  "arrow_text a b \<in> set ATTEMPT \<longleftrightarrow> a = Exported \<and> b = Importing"
  "arrow_text a b \<in> set FAILURE \<longleftrightarrow> (a = Importing \<or> a = ImportUnknown) \<and> b = ImportFailedConfirmed"
  "arrow_text a b \<in> set APPROVAL \<longleftrightarrow> a = ReviewPending \<and> b = Approved"
  by (cases a; cases b; simp add: arrow_text_def ATTEMPT_def FAILURE_def APPROVAL_def)+

lemma recorded_none:
  assumes "\<forall>x\<in>set es. action_of x \<in> VStr ` A" and "A \<inter> set as = {}"
  shows "recorded as es = 0"
  using assms by (fastforce simp: recorded_def filter_empty_conv)

lemma recorded_merge:
  assumes "\<forall>x\<in>set es. action_of x \<in> VStr ` set merge_actions"
  shows "recorded ATTEMPT es = 0" "recorded FAILURE es = 0" "recorded APPROVAL es = 0"
  by (rule recorded_none [OF assms];
      simp add: merge_actions_def ATTEMPT_def FAILURE_def APPROVAL_def arrow_text_def)+

lemma recorded_decided:
  assumes "action_of x = VStr ''decision_saved''"
  shows "recorded ATTEMPT [x] = 0" "recorded FAILURE [x] = 0"
  using assms
  by (simp_all add: recorded_def ATTEMPT_def FAILURE_def arrow_text_def)

lemma open_not_in_ledger: "st \<in> {Draft, Blocked, ReviewPending, Rejected} \<Longrightarrow> st \<notin> IN_LEDGER"
  by (cases st) (simp_all add: IN_LEDGER_def)

lemma life_ok_rewritten:
  assumes "life_ok e" and "si_status e \<in> {Draft, Blocked, Rejected}" and "si_status i = Draft"
    and "si_audit i = si_audit e @ es" and "\<forall>x\<in>set es. action_of x \<in> VStr ` set merge_actions"
  shows "life_ok i"
proof -
  have "si_status e \<notin> IN_LEDGER" by (rule open_not_in_ledger) (use assms(2) in blast)
  then show ?thesis using assms(1)
    by (simp add: life_ok_def assms(3,4) recorded_merge [OF assms(5)] POSTED_STATUSES_def)
qed

lemma life_ok_decided:
  assumes "life_ok e" and "si_status e \<in> {Draft, Blocked, ReviewPending, Rejected}"
    and "si_status i = ReviewPending" and "si_audit i = si_audit e @ [x]"
    and "action_of x = VStr ''decision_saved''"
  shows "life_ok i"
  using assms(1) open_not_in_ledger [OF assms(2)]
  by (simp add: life_ok_def assms(3,4) recorded_decided [OF assms(5)] POSTED_STATUSES_def split: if_split_asm)

lemma life_ok_moved:
  assumes "life_ok e"
    and "si_status i \<in> set (STATUS_TRANSITIONS (si_status e))
      \<or> si_status e = ImportUnknown \<and> si_status i = ImportUnknown"
    and "si_audit i = si_audit e @ [x]" and "action_of x = VStr (arrow_text (si_status e) (si_status i))"
  shows "life_ok i"
  using assms(1,2)
  by (cases "si_status e")
    (auto simp: life_ok_def assms(3) recorded_one [OF assms(4)] arrow_recorded POSTED_STATUSES_def IN_LEDGER_def)

lemma life_ok_step:
  assumes "item_step a (Some i)" and "\<And>e. a = Some e \<Longrightarrow> life_ok e"
  shows "life_ok i"
  using assms(1)
proof cases
  case created
  then show ?thesis
    by (simp add: life_ok_def recorded_merge [OF created(4)] POSTED_STATUSES_def)
next
  case (rewritten e es)
  then show ?thesis using assms(2) life_ok_rewritten by blast
next
  case (decided e x)
  then show ?thesis using assms(2) life_ok_decided by blast
next
  case (moved e x)
  then show ?thesis using assms(2) life_ok_moved by blast
qed

lemma life_ok_steps:
  assumes "item_steps a b" and "\<And>e. a = Some e \<Longrightarrow> life_ok e" and "b = Some i"
  shows "life_ok i"
  using assms
proof (induction arbitrary: i rule: rtranclp_induct)
  case (step b c)
  then show ?case by (metis item_step_NoneE life_ok_step option.exhaust)
qed simp

section \<open>Operations refine the life of a voucher\<close>

lemma transition_steps:
  assumes "transition_store now fresh k st a e s = Inr (s', i)"
  shows "steps_to (vs_items s) (vs_items s')"
proof -
  obtain item where item: "dget (vs_items s) (strip k) = Some item"
    and st: "st \<in> set (STATUS_TRANSITIONS (si_status item))"
    and i: "i = transition_item now st a item" and s': "vs_items s' = dput (strip k) i (vs_items s)"
    using assms by (auto simp: transition_store_Inr)
  have "item_step (Some item) (Some i)"
    by (rule item_step.moved [where x = "audit_entry now (arrow_text (si_status item) st) (ta_actor a) (ta_detail a)"])
      (use st i in auto)
  then show ?thesis by (simp add: s' item steps_to_dput)
qed

lemma mergeable_Some: "mergeable (Some e) \<longleftrightarrow> si_status e \<in> {Draft, Blocked, Rejected}"
  by (cases "si_status e") (simp_all add: mergeable_def LOCKED_STATUSES_def)

lemma merge_audit_grows:
  "\<exists>es. merge_audit now actor snapshot (Some e) = si_audit e @ es
    \<and> (\<forall>x\<in>set es. action_of x \<in> VStr ` set merge_actions)"
  unfolding merge_audit_def merge_actions_def by simp

lemma draft_item_step:
  assumes "mergeable a"
  shows "item_step a (Some (draft_item now actor l snapshot a))"
proof (cases a)
  case None
  then show ?thesis
    by (simp add: draft_item_def merge_audit_def merge_actions_def item_step.created)
next
  case (Some e)
  obtain es where es: "merge_audit now actor snapshot a = si_audit e @ es"
    "\<forall>x\<in>set es. action_of x \<in> VStr ` set merge_actions"
    unfolding Some using merge_audit_grows by blast
  have "item_step (Some e) (Some (draft_item now actor l snapshot a))"
  proof (rule item_step.rewritten [where es = es])
    show "si_status e \<in> {Draft, Blocked, Rejected}"
      using assms unfolding Some mergeable_Some .
    show "\<forall>x\<in>set es. action_of x \<in> VStr ` set merge_actions" by (rule es(2))
  qed (use es(1) in \<open>simp_all add: draft_item_def Some\<close>)
  then show ?thesis by (simp only: Some)
qed

lemma merge_draft_steps:
  assumes "merge_draft now actor company draft items = Inr items'"
  shows "steps_to items items'"
proof -
  obtain snapshot where snapshot: "snapshot_for (dump_voucher_draft draft) company = Inr snapshot"
    using assms by (cases "snapshot_for (dump_voucher_draft draft) company") (simp_all add: merge_draft_def)
  let ?k = "py_str (get_val snapshot ''posting_key'')"
  have "items' = (if \<not> mergeable (dget items ?k) then items
      else dput ?k (draft_item now actor (strip (dr_legacy_key draft)) snapshot (dget items ?k)) items)"
    using assms by (simp add: merge_draft_def snapshot Let_def split: if_split_asm)
  then show ?thesis
    by (cases "mergeable (dget items ?k)") (simp_all add: steps_to_dput draft_item_step)
qed

lemma merge_drafts_steps:
  assumes "merge_drafts_store now fresh actor drafts args s = Inr s'"
  shows "steps_to (vs_items s) (vs_items s') \<and> vs_batches s' = vs_batches s
    \<and> vs_revision s' = vs_revision s + 1"
proof -
  obtain company items where "res_fold (merge_draft now actor company) drafts (vs_items s) = Inr items"
    and s': "vs_items s' = items" "vs_batches s' = vs_batches s" "vs_revision s' = vs_revision s + 1"
    using assms by (auto simp: merge_drafts_store_def Let_def res_bind_eq_Inr split: if_splits)
  then have "steps_to (vs_items s) items"
    by (rule_tac res_fold_invariant [where P = "steps_to (vs_items s)"])
      (auto dest: merge_draft_steps steps_to_trans)
  with s' show ?thesis by simp
qed

end
