(* ===== verification/Import_File.thy ===== *)
theory Import_File
  imports State_Files
begin

text \<open>
  \<open>bookkeeping/import_file.py\<close>: the facts of the import template, the rows of the import sheet and
  of the draft archive, and the item that the export records for each voucher (row range, number,
  signature). A sheet is the list of its rows; the workbook library that turns them into bytes is a
  parameter of the callers. \<open>vdraft\<close> is pydantic's validation of a draft.

  Main results: the row range of each exported item holds exactly the rows of its lines, and the
  amounts of the sheet are the rounded amounts of the lines, in the column of their direction.
\<close>

section \<open>Columns\<close>

definition IMPORT_VOUCHER_TYPE :: string where
  "IMPORT_VOUCHER_TYPE = [CHR 0xE8, CHR 0xAE, CHR 0xB0]"

definition COL_TYPE :: string where
  "COL_TYPE = [CHR 0xE5, CHR 0x87, CHR 0xAD, CHR 0xE8, CHR 0xAF, CHR 0x81, CHR 0xE7, CHR 0xB1, CHR 0xBB, CHR 0xE5, CHR 0x88, CHR 0xAB]"

definition COL_NO :: string where
  "COL_NO = [CHR 0xE5, CHR 0x87, CHR 0xAD, CHR 0xE8, CHR 0xAF, CHR 0x81, CHR 0xE5, CHR 0x8F, CHR 0xB7]"

definition COL_DATE :: string where
  "COL_DATE = [CHR 0xE5, CHR 0x87, CHR 0xAD, CHR 0xE8, CHR 0xAF, CHR 0x81, CHR 0xE6, CHR 0x97, CHR 0xA5, CHR 0xE6, CHR 0x9C, CHR 0x9F]"

definition COL_ATTACHMENTS :: string where
  "COL_ATTACHMENTS = [CHR 0xE9, CHR 0x99, CHR 0x84, CHR 0xE5, CHR 0x8D, CHR 0x95, CHR 0xE6, CHR 0x8D, CHR 0xAE, CHR 0xE6, CHR 0x95, CHR 0xB0]"

definition COL_SUMMARY :: string where
  "COL_SUMMARY = [CHR 0xE6, CHR 0x91, CHR 0x98, CHR 0xE8, CHR 0xA6, CHR 0x81]"

definition COL_ACCOUNT :: string where
  "COL_ACCOUNT = [CHR 0xE7, CHR 0xA7, CHR 0x91, CHR 0xE7, CHR 0x9B, CHR 0xAE, CHR 0xE7, CHR 0xBC, CHR 0x96, CHR 0xE7, CHR 0xA0, CHR 0x81]"

definition COL_DEBIT :: string where
  "COL_DEBIT = [CHR 0xE5, CHR 0x80, CHR 0x9F, CHR 0xE6, CHR 0x96, CHR 0xB9, CHR 0xE9, CHR 0x87, CHR 0x91, CHR 0xE9, CHR 0xA2, CHR 0x9D]"

definition COL_CREDIT :: string where
  "COL_CREDIT = [CHR 0xE8, CHR 0xB4, CHR 0xB7, CHR 0xE6, CHR 0x96, CHR 0xB9, CHR 0xE9, CHR 0x87, CHR 0x91, CHR 0xE9, CHR 0xA2, CHR 0x9D]"


definition REQUIRED_COLUMNS :: "string list" where
  "REQUIRED_COLUMNS = [COL_TYPE, COL_NO, COL_DATE, COL_ATTACHMENTS, COL_SUMMARY, COL_ACCOUNT, COL_DEBIT, COL_CREDIT]"

section \<open>Template facts\<close>

definition FACT_CAPABILITIES :: "string list" where
  "FACT_CAPABILITIES = [''template'', ''grouping'', ''voucher_type'', ''numbering'', ''decimal'', ''aux'']"

fun nonempty_text :: "pyval \<Rightarrow> bool" where
  "nonempty_text (VStr s) = (strip s \<noteq> [])"
| "nonempty_text v = False"

definition facts_columns :: "pyval \<Rightarrow> string list option" where
  "facts_columns v = (case v of
      VList xs \<Rightarrow> if length xs = 22 \<and> list_all nonempty_text xs then Some (map py_str xs) else None
    | _ \<Rightarrow> None)"

definition capability_readiness :: "vdict \<Rightarrow> string \<Rightarrow> exc + string \<times> pyval" where
  "capability_readiness raw capability =
    (let item = (case get_default raw capability (VDict []) of VDict d \<Rightarrow> d | _ \<Rightarrow> []);
         status = gets_or item ''status'' ''not_tested''
     in if status \<notin> {''ready'', ''not_tested'', ''unsupported'', ''failed''}
        then Inl (ValueError ''facts readiness status'' [capability, status])
        else Inr (capability, VDict (dput ''status'' (VStr status) item)))"

definition validate_facts :: "pyval \<Rightarrow> exc + vdict" where
  "validate_facts v =
    (case v of VDict payload \<Rightarrow>
       (if \<not> nonempty_text (get_val payload ''sheet_name'') then Inl (ValueError ''facts sheet_name'' [])
        else case facts_columns (get_val payload ''columns'') of
          None \<Rightarrow> Inl (ValueError ''facts columns'' [])
        | Some columns \<Rightarrow>
            if \<exists>c\<in>set REQUIRED_COLUMNS. c \<notin> set columns
            then Inl (ValueError ''facts required columns''
                   (sort (filter (\<lambda>c. c \<notin> set columns) REQUIRED_COLUMNS)))
            else res_bind (res_map (capability_readiness
                   (case get_val payload ''readiness'' of VDict r \<Rightarrow> r | _ \<Rightarrow> [])) FACT_CAPABILITIES) (\<lambda>readiness.
              let n = dput ''sheet_name'' (VStr (strip (py_str (get_val payload ''sheet_name'')))) payload;
                  n = dput ''columns'' (VList (map VStr columns)) n;
                  n = dput ''readiness'' (VDict readiness) n;
                  content = filter (\<lambda>p. fst p \<notin> {''facts_version'', ''facts_content_sha256''}) n;
                  h = canonical_sha256 (VDict content);
                  n = dput ''facts_content_sha256'' (VStr h) n;
                  n = dput ''facts_version'' (VStr (gets_or payload ''facts_version'' h)) n
              in res_bind (geti_or payload ''schema_version'' 1) (\<lambda>sv.
                 Inr (dput ''schema_version'' (VInt sv) n))))
     | _ \<Rightarrow> Inl (ValueError ''facts root'' []))"

fun load_jierui_import_facts :: "store_file \<Rightarrow> exc + vdict" where
  "load_jierui_import_facts NoFile = Inl (FileNotFound ''facts'')"
| "load_jierui_import_facts (File b None) = Inl (ValueError ''facts not JSON'' [])"
| "load_jierui_import_facts (File b (Some v)) = validate_facts v"

definition facts_readiness :: "pyval \<Rightarrow> exc + vdict" where
  "facts_readiness v = res_bind (validate_facts v) (\<lambda>facts. py_dict (get_val facts ''readiness''))"

section \<open>Rows\<close>

definition amount_text :: "string \<Rightarrow> exc + string" where
  "amount_text value =
    (case parse_decimal (if value = [] then ''0'' else value) of
       None \<Rightarrow> Inl (ValueError ''voucher amount'' [value])
     | Some d \<Rightarrow> res_bind (quantize_cent round_half_up d) (\<lambda>q. Inr (format_f q)))"

definition put_aux :: "string \<times> string \<Rightarrow> string dict \<Rightarrow> string dict" where
  "put_aux kv row = (if dhas row (fst kv) then dput (fst kv) (snd kv) row else row)"

definition import_row :: "string list \<Rightarrow> string \<Rightarrow> string \<Rightarrow> voucher_line \<Rightarrow> exc + string list" where
  "import_row columns voucher_no voucher_date line =
    (let row = fold (\<lambda>c. dput c []) columns [];
         row = dput COL_TYPE IMPORT_VOUCHER_TYPE row;
         row = dput COL_NO voucher_no row;
         row = dput COL_DATE voucher_date row;
         row = dput COL_ATTACHMENTS ''0'' row;
         row = dput COL_SUMMARY (vl_summary line) row;
         row = dput COL_ACCOUNT (vl_account_code line) row
     in res_bind (amount_text (vl_amount line)) (\<lambda>amount.
        let row = dput (if vl_direction line = ''debit'' then COL_DEBIT else COL_CREDIT) amount row;
            row = fold put_aux (vl_aux line) row
        in Inr (map (\<lambda>c. the (dget row c)) columns)))"

definition signature_hash :: "voucher_draft \<Rightarrow> string" where
  "signature_hash draft = canonical_sha256 (VDict [(''voucher_date'', VStr (dr_voucher_date draft)),
     (''lines'', VList (map (\<lambda>l. VDict (dump_voucher_line l)) (dr_lines draft)))])"

definition exported_item :: "nat \<Rightarrow> nat \<Rightarrow> string \<Rightarrow> voucher_draft \<Rightarrow> import_batch_item" where
  "exported_item line_count_before line_count voucher_no draft =
    \<lparr>bi_posting_key = text_or (dr_posting_key draft) (dr_voucher_key draft),
     bi_proposal_revision_hash = dr_proposal_revision_hash draft,
     bi_export_row_no = int line_count_before + 2, bi_export_row_end = int line_count + 1,
     bi_planned_voucher_no = voucher_no, bi_signature_hash = signature_hash draft\<rparr>"

text \<open>One pass of the loop over the drafts: the rows and the items so far.\<close>

record sheet_state =
  sh_rows :: "string list list"
  sh_items :: "import_batch_item list"

definition export_draft ::
  "string list \<Rightarrow> string \<times> voucher_draft \<Rightarrow> sheet_state \<Rightarrow> exc + sheet_state" where
  "export_draft columns nd st =
    res_bind (res_map (import_row columns (fst nd) (dr_voucher_date (snd nd))) (dr_lines (snd nd))) (\<lambda>rows.
      let n = length (sh_rows st); n' = n + length rows
      in Inr \<lparr>sh_rows = sh_rows st @ rows, sh_items = sh_items st @ [exported_item n n' (fst nd) (snd nd)]\<rparr>)"

record import_sheet =
  is_title :: string
  is_rows :: "string list list"     \<comment> \<open>with the header\<close>
  is_voucher_count :: nat
  is_line_count :: nat
  is_items :: "import_batch_item list"
  is_facts_version :: string

definition voucher_numbers :: "string list option \<Rightarrow> nat \<Rightarrow> string list" where
  "voucher_numbers planned n = if_given planned (map (\<lambda>i. pad_left 3 (nat_text (i + 1))) [0..<n])"

definition write_jierui_import_xlsx ::
  "(pyval \<Rightarrow> voucher_draft option) \<Rightarrow> pyval list \<Rightarrow> pyval \<Rightarrow> string list option \<Rightarrow> exc + import_sheet" where
  "write_jierui_import_xlsx vdraft drafts facts planned_voucher_nos =
    res_bind (validate_facts facts) (\<lambda>validated.
    res_bind (getl validated ''columns'') (\<lambda>cols.
    let columns = map py_str cols in
    res_bind (res_map (\<lambda>d. case vdraft d of None \<Rightarrow> Inl (ValueError ''validation error'' []) | Some x \<Rightarrow> Inr x) drafts) (\<lambda>ds.
    if planned_voucher_nos \<noteq> None \<and> length (the planned_voucher_nos) \<noteq> length ds
    then Inl (ValueError ''planned_voucher_nos'' [])
    else res_bind (res_fold (export_draft columns) (zip (voucher_numbers planned_voucher_nos (length ds)) ds)
        \<lparr>sh_rows = [], sh_items = []\<rparr>) (\<lambda>st.
        Inr \<lparr>is_title = py_str (get_val validated ''sheet_name''), is_rows = columns # sh_rows st,
          is_voucher_count = length ds, is_line_count = length (sh_rows st), is_items = sh_items st,
          is_facts_version = py_str (get_val validated ''facts_version'')\<rparr>))))"

text \<open>The archive of drafts; its title and header are fixed Chinese texts.\<close>

definition ARCHIVE_HEADERS :: "string list" where
  "ARCHIVE_HEADERS = [cp [0x51ED, 0x8BC1] @ ''key'', COL_DATE, ''review_tier'', cp [0x72B6, 0x6001], COL_SUMMARY,
     COL_ACCOUNT, cp [0x79D1, 0x76EE, 0x540D, 0x79F0], cp [0x501F, 0x8D37, 0x65B9, 0x5411], cp [0x91D1, 0x989D],
     cp [0x6765, 0x6E90, 0x53D1, 0x7968], cp [0x6765, 0x6E90, 0x884C]]"

definition archive_row :: "voucher_draft \<Rightarrow> voucher_line \<Rightarrow> exc + string list" where
  "archive_row draft line =
    res_bind (amount_text (vl_amount line)) (\<lambda>amount.
      Inr [dr_voucher_key draft, dr_voucher_date draft, dr_review_tier draft, ''draft'', vl_summary line,
        vl_account_code line, vl_account_name line, vl_direction line, amount,
        join '','' (dr_source_invoice_nos draft), join [CHR 0x0A] (dr_source_rows draft)])"

definition write_draft_archive_xlsx ::
  "(pyval \<Rightarrow> voucher_draft option) \<Rightarrow> pyval list \<Rightarrow> exc + string list list" where
  "write_draft_archive_xlsx vdraft drafts =
    res_bind (res_map (\<lambda>d. case vdraft d of None \<Rightarrow> Inl (ValueError ''validation error'' [])
        | Some draft \<Rightarrow> res_map (archive_row draft) (dr_lines draft)) drafts) (\<lambda>groups.
      Inr (ARCHIVE_HEADERS # concat groups))"

section \<open>Amounts\<close>

lemma quantize_half_up_error:
  assumes "quantize_cent round_half_up (Fin s c e) = Inr q"
  shows "200 * \<bar>dval q - dval (Fin s c e)\<bar> \<le> 1"
proof (cases "-2 \<le> e")
  case True
  then have q: "q = Fin s (c * 10 ^ nat (e + 2)) (-2)"
    using assms by (simp add: Let_def split: if_splits)
  have "(10::rat) powi e = 10 ^ nat (e + 2) * 10 powi (-2)"
    using ten_powi [OF True] by simp
  then have "dval q = dval (Fin s c e)"
    by (simp add: q dint_def)
  then show ?thesis by simp
next
  case False
  let ?k = "nat (-2 - e)" let ?c = "round_half_up c ?k"
  have q: "q = Fin s ?c (-2)" using assms False by (simp add: Let_def split: if_splits)
  have e: "(10::rat) powi (-2) = 10 ^ ?k * 10 powi e"
    using ten_powi [of e "-2"] False by simp
  have "2 * \<bar>int (?c * 10 ^ ?k) - int c\<bar> \<le> 10 ^ ?k"
  proof -
    have "2 * \<bar>x - y\<bar> = \<bar>2 * x - 2 * y\<bar>" for x y :: int by (simp add: abs_if)
    then show ?thesis using round_half_up_error [of c ?k] by (simp only:)
  qed
  then have "of_int (2 * \<bar>int (?c * 10 ^ ?k) - int c\<bar>) \<le> (of_int (10 ^ ?k) :: rat)"
    by (simp only: of_int_le_iff)
  then have bound: "2 * \<bar>rat_of_nat ?c * 10 ^ ?k - rat_of_nat c\<bar> \<le> 10 ^ ?k" by simp
  have "dval q - dval (Fin s c e) = of_int (dint s 1) * (rat_of_nat ?c * 10 ^ ?k - rat_of_nat c) * 10 powi e"
    unfolding q dval.simps e by (simp add: dint_def algebra_simps)
  then have "\<bar>dval q - dval (Fin s c e)\<bar> = \<bar>rat_of_nat ?c * 10 ^ ?k - rat_of_nat c\<bar> * 10 powi e"
    using powi_pos [of e] by (simp add: abs_mult dint_def)
  then have "200 * \<bar>dval q - dval (Fin s c e)\<bar> = 100 * (2 * \<bar>rat_of_nat ?c * 10 ^ ?k - rat_of_nat c\<bar>) * 10 powi e"
    by simp
  also have "\<dots> \<le> 100 * 10 ^ ?k * 10 powi e"
    using bound powi_pos [of e] by (intro mult_right_mono mult_left_mono) auto
  also have "\<dots> = 1" using e by (simp add: power_int_minus)
  finally show ?thesis .
qed

lemma amount_text_finite:
  assumes "amount_text v = Inr t" and "parse_decimal (if v = [] then ''0'' else v) = Some d" and "is_finite d"
  shows "\<exists>q. parse_decimal t = Some q \<and> whole_cents q \<and> 200 * \<bar>dval q - dval d\<bar> \<le> 1"
proof -
  obtain s c e where d: "d = Fin s c e" using assms(3) by (cases d) auto
  obtain q where q: "quantize_cent round_half_up d = Inr q" and t: "t = format_f q"
    using assms(1,2) by (auto simp: amount_text_def res_bind_eq_Inr)
  obtain c' where q': "q = Fin s c' (-2)" using q d quantize_cent_shape by blast
  have "parse_decimal t = Some q" unfolding t q' by (rule parse_format_f) simp
  moreover have "whole_cents q" by (auto simp: q' whole_cents_def power_int_minus)
  ultimately show ?thesis using quantize_half_up_error q d by blast
qed

section \<open>Rows and ranges\<close>

lemma export_drafts:
  assumes "res_fold (export_draft columns) nds \<lparr>sh_rows = [], sh_items = []\<rparr> = Inr st"
  shows "\<exists>groups. length groups = length nds \<and> sh_rows st = concat groups \<and> length (sh_items st) = length nds
    \<and> (\<forall>i<length nds. res_map (import_row columns (fst (nds ! i)) (dr_voucher_date (snd (nds ! i))))
           (dr_lines (snd (nds ! i))) = Inr (groups ! i)
         \<and> sh_items st ! i = exported_item (length (concat (take i groups))) (length (concat (take (Suc i) groups)))
             (fst (nds ! i)) (snd (nds ! i)))"
  using assms
proof (induction nds arbitrary: st rule: rev_induct)
  case Nil
  then have "st = \<lparr>sh_rows = [], sh_items = []\<rparr>" by simp
  then show ?case by simp
next
  case (snoc nd nds)
  from snoc.prems obtain st0 where st0: "res_fold (export_draft columns) nds \<lparr>sh_rows = [], sh_items = []\<rparr> = Inr st0"
    and last: "export_draft columns nd st0 = Inr st"
    by (auto simp: res_fold_append res_bind_eq_Inr)
  from last obtain rows where rows: "res_map (import_row columns (fst nd) (dr_voucher_date (snd nd))) (dr_lines (snd nd)) = Inr rows"
    and st: "st = \<lparr>sh_rows = sh_rows st0 @ rows, sh_items = sh_items st0 @
      [exported_item (length (sh_rows st0)) (length (sh_rows st0) + length rows) (fst nd) (snd nd)]\<rparr>"
    by (auto simp: res_bind_eq_Inr export_draft_def Let_def)
  from snoc.IH [OF st0] obtain groups where g: "length groups = length nds" "sh_rows st0 = concat groups"
    "length (sh_items st0) = length nds"
    and each: "\<forall>i<length nds. res_map (import_row columns (fst (nds ! i)) (dr_voucher_date (snd (nds ! i))))
           (dr_lines (snd (nds ! i))) = Inr (groups ! i)
         \<and> sh_items st0 ! i = exported_item (length (concat (take i groups))) (length (concat (take (Suc i) groups)))
             (fst (nds ! i)) (snd (nds ! i))"
    by blast
  show ?case
  proof (intro exI [of _ "groups @ [rows]"] conjI allI impI)
    fix i
    assume "i < length (nds @ [nd])"
    then consider "i < length nds" | "i = length nds" by fastforce
    then show "res_map (import_row columns (fst ((nds @ [nd]) ! i)) (dr_voucher_date (snd ((nds @ [nd]) ! i))))
           (dr_lines (snd ((nds @ [nd]) ! i))) = Inr ((groups @ [rows]) ! i)"
      and "sh_items st ! i = exported_item (length (concat (take i (groups @ [rows]))))
          (length (concat (take (Suc i) (groups @ [rows])))) (fst ((nds @ [nd]) ! i)) (snd ((nds @ [nd]) ! i))"
      by (cases; use each g rows st in \<open>simp add: nth_append\<close>)+
  qed (use g st in simp_all)
qed

lemma take_drop_concat:
  "i < length gs \<Longrightarrow> take (length (gs ! i)) (drop (length (concat (take i gs))) (concat gs)) = gs ! i"
proof -
  assume i: "i < length gs"
  have "concat gs = concat (take i gs) @ gs ! i @ concat (drop (Suc i) gs)"
    using id_take_nth_drop [OF i] by (metis concat.simps(2) concat_append)
  then show ?thesis by simp
qed

lemma length_concat_take_Suc:
  "i < length gs \<Longrightarrow> length (concat (take (Suc i) gs)) = length (concat (take i gs)) + length (gs ! i)"
  by (simp add: take_Suc_conv_app_nth)

text \<open>C14: In an exported sheet the items follow the drafts, and the row range that an item records
  (spreadsheet rows, the header being row 1) holds exactly the rows made of that draft's lines.\<close>

theorem export_ranges_hold_the_lines:
  assumes "write_jierui_import_xlsx vdraft drafts facts planned = Inr sheet"
  shows "\<exists>columns nos ds. length ds = length drafts \<and> length nos = length ds \<and> length (is_items sheet) = length ds
    \<and> (\<forall>i<length drafts. vdraft (drafts ! i) = Some (ds ! i))
    \<and> is_line_count sheet = length (is_rows sheet) - 1
    \<and> (\<forall>i<length ds. let it = is_items sheet ! i;
           rows = take (nat (bi_export_row_end it - bi_export_row_no it + 1))
                    (drop (nat (bi_export_row_no it) - 1) (is_rows sheet))
         in res_map (import_row columns (nos ! i) (dr_voucher_date (ds ! i))) (dr_lines (ds ! i)) = Inr rows
            \<and> bi_posting_key it = text_or (dr_posting_key (ds ! i)) (dr_voucher_key (ds ! i))
            \<and> bi_planned_voucher_no it = nos ! i
            \<and> bi_proposal_revision_hash it = dr_proposal_revision_hash (ds ! i))"
proof -
  obtain columns ds st where ds: "res_map (\<lambda>d. case vdraft d of None \<Rightarrow> Inl (ValueError ''validation error'' [])
      | Some x \<Rightarrow> Inr x) drafts = Inr ds"
    and planned: "\<not> (planned \<noteq> None \<and> length (the planned) \<noteq> length ds)"
    and st: "res_fold (export_draft columns) (zip (voucher_numbers planned (length ds)) ds) \<lparr>sh_rows = [], sh_items = []\<rparr> = Inr st"
    and sheet: "is_rows sheet = columns # sh_rows st" "is_items sheet = sh_items st"
      "is_line_count sheet = length (sh_rows st)"
    using assms unfolding write_jierui_import_xlsx_def res_bind_eq_Inr Let_def
    by (auto simp: res_bind_eq_Inr split: if_split_asm)
  define nos where "nos = voucher_numbers planned (length ds)"
  have nos: "length nos = length ds"
    using planned by (cases planned) (auto simp: nos_def voucher_numbers_def if_given_def)
  note st = st [folded nos_def]
  have valid: "vdraft (drafts ! i) = Some (ds ! i)" if "i < length drafts" for i
    using res_map_Inr_nth [OF ds that] by (simp split: option.splits)
  obtain groups where g: "length groups = length ds" "sh_rows st = concat groups" "length (sh_items st) = length ds"
    and each: "\<forall>i<length ds. res_map (import_row columns (nos ! i) (dr_voucher_date (ds ! i))) (dr_lines (ds ! i))
           = Inr (groups ! i)
         \<and> sh_items st ! i = exported_item (length (concat (take i groups))) (length (concat (take (Suc i) groups)))
             (nos ! i) (ds ! i)"
    using export_drafts [OF st] nos by auto
  have "let it = is_items sheet ! i; rows = take (nat (bi_export_row_end it - bi_export_row_no it + 1))
            (drop (nat (bi_export_row_no it) - 1) (is_rows sheet))
        in res_map (import_row columns (nos ! i) (dr_voucher_date (ds ! i))) (dr_lines (ds ! i)) = Inr rows
            \<and> bi_posting_key it = text_or (dr_posting_key (ds ! i)) (dr_voucher_key (ds ! i))
            \<and> bi_planned_voucher_no it = nos ! i
            \<and> bi_proposal_revision_hash it = dr_proposal_revision_hash (ds ! i)" if i: "i < length ds" for i
    using each i take_drop_concat [of i groups] length_concat_take_Suc [of i groups] g
    by (simp add: sheet Let_def exported_item_def nat_add_distrib)
  then show ?thesis
    using valid nos g sheet res_map_Inr_length [OF ds]
    by (intro exI [of _ columns] exI [of _ nos] exI [of _ ds]) simp
qed

definition sample_columns :: "string list" where
  "sample_columns = REQUIRED_COLUMNS @ map (\<lambda>i. ''aux'' @ nat_text i) [1..<15]"

definition sample_facts :: vdict where
  "sample_facts = [(''sheet_name'', VStr ''s''), (''columns'', VList (map VStr sample_columns))]"

definition sample_line :: voucher_line where
  "sample_line = \<lparr>vl_line_id = ''l1'', vl_line_role = ''cost'', vl_summary = ''x'', vl_account_code = ''1403'',
     vl_account_name = ''m'', vl_direction = ''debit'', vl_amount = ''10.5'', vl_aux = [], vl_source_line_ids = [],
     vl_allocation_ids = []\<rparr>"

definition sample_draft :: voucher_draft where
  "sample_draft = new_voucher_draft ''k1'' ''2024-05-31'' [sample_line] [] [] True ''auto'' []"

lemma sample_columns_ok: "facts_columns (VList (map VStr sample_columns)) = Some sample_columns"
  by code_simp

lemma sample_required: "\<forall>c\<in>set REQUIRED_COLUMNS. c \<in> set sample_columns"
  by (simp add: sample_columns_def)

lemma get_val_dput_same: "get_val (dput k v d) k = v"
  by (simp add: get_val_def)

lemma get_val_dput_other: "k' \<noteq> k \<Longrightarrow> get_val (dput k v d) k' = get_val d k'"
  by (simp add: get_val_def)

lemma validate_facts_accepts:
  assumes "nonempty_text (get_val payload ''sheet_name'')" and "facts_columns (get_val payload ''columns'') = Some cols"
    and "\<forall>c\<in>set REQUIRED_COLUMNS. c \<in> set cols"
    and "res_map (capability_readiness (case get_val payload ''readiness'' of VDict r \<Rightarrow> r | _ \<Rightarrow> []))
      FACT_CAPABILITIES = Inr readiness"
    and "geti_or payload ''schema_version'' 1 = Inr sv"
  shows "\<exists>n. validate_facts (VDict payload) = Inr n \<and> get_val n ''columns'' = VList (map VStr cols)"
proof -
  have no: "(\<exists>c\<in>set REQUIRED_COLUMNS. c \<notin> set cols) = False" using assms(3) by blast
  show ?thesis
    unfolding validate_facts_def Let_def
    by (simp only: assms(1,2,4,5) no pyval.case if_False not_True_eq_False option.case res_bind_simps,
        rule exI, rule conjI, rule refl)
      (subst get_val_dput_other, simp, subst get_val_dput_other, simp, subst get_val_dput_other, simp,
        subst get_val_dput_other, simp, rule get_val_dput_same)
qed

lemma sample_facts_ok: "\<exists>n. validate_facts (VDict sample_facts) = Inr n \<and> getl n ''columns'' = Inr (map VStr sample_columns)"
proof -
  have s: "strip ''s'' = ''s''" by code_simp
  obtain rs where r: "res_map (capability_readiness []) FACT_CAPABILITIES = Inr rs"
    by (simp add: FACT_CAPABILITIES_def capability_readiness_def get_default_def gets_or_def get_val_def)
  have "sample_columns \<noteq> []" by (simp add: sample_columns_def REQUIRED_COLUMNS_def)
  moreover have "get_val sample_facts ''columns'' = VList (map VStr sample_columns)"
    "get_val sample_facts ''sheet_name'' = VStr ''s''" "get_val sample_facts ''readiness'' = VNone"
    "geti_or sample_facts ''schema_version'' 1 = Inr 1"
    by (simp_all add: sample_facts_def get_val_def geti_or_def)
  ultimately show ?thesis
    using validate_facts_accepts [of sample_facts sample_columns rs 1] sample_columns_ok sample_required r s
    by (auto simp: getl_def)
qed

lemma sample_row_ok: "\<exists>row. import_row cols no date sample_line = Inr row"
proof -
  have "parse_decimal ''10.5'' = Some (Fin False 105 (-1))" by code_simp
  then have "\<exists>t. amount_text ''10.5'' = Inr t" by (simp add: amount_text_def prec_bound_def)
  then show ?thesis by (auto simp: import_row_def sample_line_def Let_def)
qed

theorem export_ranges_hold_the_lines_witness:
  "\<exists>sheet. write_jierui_import_xlsx (\<lambda>d. Some sample_draft) [VNone] (VDict sample_facts) None = Inr sheet
    \<and> length (is_items sheet) = 1"
proof -
  obtain n where n: "validate_facts (VDict sample_facts) = Inr n" "getl n ''columns'' = Inr (map VStr sample_columns)"
    using sample_facts_ok by blast
  obtain row where row: "import_row sample_columns no date sample_line = Inr (row no date)" for no date
    using sample_row_ok by metis
  let ?st = "\<lparr>sh_rows = [], sh_items = []\<rparr>"
  have cols: "map py_str (map VStr sample_columns) = sample_columns" by (simp add: comp_def)
  have "\<exists>st. export_draft sample_columns (no, sample_draft) ?st = Inr st" for no
    by (simp add: export_draft_def sample_draft_def new_voucher_draft_def row Let_def)
  then obtain st where st: "\<And>no. export_draft sample_columns (no, sample_draft) ?st = Inr (st no)"
    by metis
  have "\<exists>sheet. write_jierui_import_xlsx (\<lambda>d. Some sample_draft) [VNone] (VDict sample_facts) None = Inr sheet"
    unfolding write_jierui_import_xlsx_def n res_bind_simps Let_def cols
    by (simp add: voucher_numbers_def if_given_def st)
  then obtain sheet where sheet: "write_jierui_import_xlsx (\<lambda>d. Some sample_draft) [VNone] (VDict sample_facts) None = Inr sheet"
    by blast
  from export_ranges_hold_the_lines [OF this] sheet show ?thesis by auto
qed

section \<open>The amounts of the sheet\<close>

lemmas column_defs = COL_TYPE_def COL_NO_def COL_DATE_def COL_ATTACHMENTS_def COL_SUMMARY_def
  COL_ACCOUNT_def COL_DEBIT_def COL_CREDIT_def

lemma columns_distinct: "distinct REQUIRED_COLUMNS" "distinct (rev REQUIRED_COLUMNS)"
  by (simp_all add: REQUIRED_COLUMNS_def column_defs)

lemmas column_neqs = columns_distinct [unfolded REQUIRED_COLUMNS_def, simplified]

lemma dget_blank_row: "k \<in> set cols \<or> dget d k = Some [] \<Longrightarrow> dget (fold (\<lambda>c. dput c []) cols d) k = Some []"
  by (induction cols arbitrary: d) (auto simp: dget_dput)

lemma dget_put_aux: "k \<notin> fst ` set aux \<Longrightarrow> dget (fold put_aux aux row) k = dget row k"
  by (induction aux arbitrary: row) (auto simp: put_aux_def dget_dput)

text \<open>C15: In a row of the import sheet the debit and the credit column hold the line's amount and a
  blank, on the side of the line's direction; the text that is written reads back as a whole number of
  cents within half a cent of the amount of the line. (No auxiliary dimension is named like a
  required column.)\<close>

theorem import_row_amounts:
  assumes "import_row columns no date line = Inr row"
    and "fst ` set (vl_aux line) \<inter> set REQUIRED_COLUMNS = {}"
    and "parse_decimal (if vl_amount line = [] then ''0'' else vl_amount line) = Some d" and "is_finite d"
  shows "\<exists>t q. parse_decimal t = Some q \<and> whole_cents q \<and> 200 * \<bar>dval q - dval d\<bar> \<le> 1
    \<and> length row = length columns
    \<and> (\<forall>i<length columns.
        (columns ! i = COL_DEBIT \<longrightarrow> row ! i = (if vl_direction line = ''debit'' then t else []))
      \<and> (columns ! i = COL_CREDIT \<longrightarrow> row ! i = (if vl_direction line = ''debit'' then [] else t))
      \<and> (columns ! i = COL_ACCOUNT \<longrightarrow> row ! i = vl_account_code line)
      \<and> (columns ! i = COL_DATE \<longrightarrow> row ! i = date))"
proof -
  obtain t where t: "amount_text (vl_amount line) = Inr t"
    using assms(1) by (auto simp: import_row_def Let_def res_bind_eq_Inr)
  obtain q where q: "parse_decimal t = Some q" "whole_cents q" "200 * \<bar>dval q - dval d\<bar> \<le> 1"
    using amount_text_finite [OF t assms(3,4)] by blast
  have aux: "c \<notin> fst ` set (vl_aux line)" if "c \<in> set REQUIRED_COLUMNS" for c
    using assms(2) that by blast
  have req: "COL_DEBIT \<in> set REQUIRED_COLUMNS" "COL_CREDIT \<in> set REQUIRED_COLUMNS"
    "COL_ACCOUNT \<in> set REQUIRED_COLUMNS" "COL_DATE \<in> set REQUIRED_COLUMNS"
    by (simp_all add: REQUIRED_COLUMNS_def)
  have "length row = length columns"
    using assms(1) by (auto simp: import_row_def Let_def t)
  moreover have "(columns ! i = COL_DEBIT \<longrightarrow> row ! i = (if vl_direction line = ''debit'' then t else []))
      \<and> (columns ! i = COL_CREDIT \<longrightarrow> row ! i = (if vl_direction line = ''debit'' then [] else t))
      \<and> (columns ! i = COL_ACCOUNT \<longrightarrow> row ! i = vl_account_code line)
      \<and> (columns ! i = COL_DATE \<longrightarrow> row ! i = date)" if i: "i < length columns" for i
  proof -
    define blank where "blank = fold (\<lambda>c. dput c []) columns ([] :: string dict)"
    have "dget blank (columns ! i) = Some []"
      unfolding blank_def using i by (intro dget_blank_row) simp
    then show ?thesis
      using assms(1) [unfolded import_row_def Let_def, folded blank_def] i aux [OF req(1)] aux [OF req(2)] aux [OF req(3)] aux [OF req(4)]
      by (auto simp: t dget_put_aux dget_dput column_neqs)
  qed
  ultimately show ?thesis using q by blast
qed

theorem import_row_amounts_witness:
  "\<exists>row t q. import_row REQUIRED_COLUMNS ''001'' ''2024-05-31'' sample_line = Inr row
    \<and> parse_decimal t = Some q \<and> row ! 6 = t"
proof -
  obtain row where row: "import_row REQUIRED_COLUMNS ''001'' ''2024-05-31'' sample_line = Inr row"
    using sample_row_ok by blast
  have aux: "fst ` set (vl_aux sample_line) \<inter> set REQUIRED_COLUMNS = {}" by (simp add: sample_line_def)
  have d: "parse_decimal (if vl_amount sample_line = [] then ''0'' else vl_amount sample_line) = Some (Fin False 105 (-1))"
    by code_simp
  have six: "REQUIRED_COLUMNS ! 6 = COL_DEBIT" "6 < length REQUIRED_COLUMNS" "vl_direction sample_line = ''debit''"
    by (simp_all add: REQUIRED_COLUMNS_def sample_line_def)
  have "is_finite (Fin False 105 (-1))" by simp
  from import_row_amounts [OF row aux d this] row six show ?thesis by auto
qed

end
