(* ===== verification/Import_Batches.thy ===== *)
theory Import_Batches
  imports Voucher_Lifecycle Import_File
begin

text \<open>
  \<open>bookkeeping/batches.py\<close>: export batches of approved vouchers, from the files that are prepared for
  the ledger to the reconciliation of what the ledger reports back. An operation on the status store
  is a mutator of \<open>mutate_voucher_status\<close>; \<open>fs\<close> maps the paths of regular files to their bytes, \<open>now\<close>
  is the clock reading of the operation.

  Parameters: \<open>vbatch\<close> and \<open>vdraft\<close> (pydantic), \<open>xlsx\<close> (the workbook library: the bytes of a sheet),
  \<open>resolve\<close> (\<open>Path.resolve\<close>). Each operation refines the life of a voucher (\<open>Voucher_Lifecycle\<close>).
\<close>

type_synonym file_system = "string \<Rightarrow> string option"

definition batch_audit :: "string \<Rightarrow> string \<Rightarrow> pyval \<Rightarrow> vdict" where
  "batch_audit now action detail = audit_entry now action ''bookkeeping.batch'' detail"

section \<open>Preparing the files\<close>

fun add_line :: "pyval \<Rightarrow> dec \<times> dec \<Rightarrow> exc + dec \<times> dec" where
  "add_line (VDict line) (debit, credit) =
     res_bind (decimal_res (gets_or line ''amount'' ''0'')) (\<lambda>amount.
       if get_val line ''direction'' = VStr ''debit''
       then res_bind (dec_add_res debit amount) (\<lambda>d. Inr (d, credit))
       else if get_val line ''direction'' = VStr ''credit''
       then res_bind (dec_add_res credit amount) (\<lambda>c. Inr (debit, c))
       else Inr (debit, credit))"
| "add_line _ t = Inl (TypeError ''line'')"

definition batch_totals :: "(string \<times> voucher_status_item) list \<Rightarrow> exc + dec \<times> dec" where
  "batch_totals items =
     res_fold (\<lambda>(k, item) t. res_bind (getl (si_snapshot item) ''lines'') (\<lambda>ls. res_fold add_line ls t))
       items (dec_zero2, dec_zero2)"

definition immutable_batch_payload :: "import_batch \<Rightarrow> vdict" where
  "immutable_batch_payload b =
    [(''schema_version'', VInt (ib_schema_version b)), (''batch_id'', VStr (ib_batch_id b)),
     (''company_id'', VStr (ib_company_id b)), (''ledger_environment'', VStr (ib_ledger_environment b)),
     (''ledger_identity_sha256'', VStr (ib_ledger_identity_sha256 b)),
     (''ledger_profile_sha256'', VStr (ib_ledger_profile_sha256 b)),
     (''ledger_name'', VStr (ib_ledger_name b)), (''period'', VStr (ib_period b)),
     (''template_facts_version'', VStr (ib_template_facts_version b)),
     (''template_facts_sha256'', VStr (ib_template_facts_sha256 b)),
     (''account_table_sha256'', VStr (ib_account_table_sha256 b)),
     (''aux_catalog_sha256'', VStr (ib_aux_catalog_sha256 b)), (''file_path'', VStr (ib_file_path b)),
     (''file_sha256'', VStr (ib_file_sha256 b)), (''manifest_path'', VStr (ib_manifest_path b)),
     (''items'', VList (map (\<lambda>i. VDict (dump_import_batch_item i)) (ib_items b))),
     (''expected_count'', VInt (ib_expected_count b)),
     (''expected_debit_total'', VStr (ib_expected_debit_total b)),
     (''expected_credit_total'', VStr (ib_expected_credit_total b))]"

record batch_args =
  ba_company_id :: string
  ba_ledger_environment :: string
  ba_ledger_identity_sha256 :: string
  ba_ledger_profile_sha256 :: string
  ba_ledger_name :: string
  ba_period :: string
  ba_facts_version :: string
  ba_facts_content_sha256 :: string
  ba_facts :: vdict
  ba_account_table_sha256 :: string
  ba_aux_catalog_sha256 :: string

definition batch_fingerprint :: "batch_args \<Rightarrow> (string \<times> voucher_status_item) list \<Rightarrow> pyval" where
  "batch_fingerprint a approved = VDict
    [(''company_id'', VStr (ba_company_id a)), (''ledger_environment'', VStr (ba_ledger_environment a)),
     (''ledger_identity_sha256'', VStr (ba_ledger_identity_sha256 a)),
     (''ledger_profile_sha256'', VStr (ba_ledger_profile_sha256 a)),
     (''ledger_name'', VStr (ba_ledger_name a)), (''period'', VStr (ba_period a)),
     (''facts_version'', VStr (ba_facts_version a)),
     (''facts_content_sha256'', VStr (ba_facts_content_sha256 a)),
     (''account_table_sha256'', VStr (ba_account_table_sha256 a)),
     (''aux_catalog_sha256'', VStr (ba_aux_catalog_sha256 a)),
     (''items'', VList (map (\<lambda>(k, item). VDict [(''posting_key'', VStr k),
        (''proposal_revision_hash'', get_default (si_snapshot item) ''proposal_revision_hash'' (VStr []))]) approved))]"

definition verified_batch_file :: "file_system \<Rightarrow> import_batch \<Rightarrow> exc + unit" where
  "verified_batch_file fs b =
    (case fs (ib_file_path b) of
       None \<Rightarrow> Inl (ValueError ''batch file missing'' [])
     | Some bytes \<Rightarrow> guard_res (sha256 bytes \<noteq> ib_file_sha256 b) (ValueError ''batch file changed'' []))"

text \<open>The file name is the Chinese for ``voucher import'', with the extension.\<close>

definition BATCH_XLSX :: string where
  "BATCH_XLSX = [CHR 0xE5, CHR 0x87, CHR 0xAD, CHR 0xE8, CHR 0xAF, CHR 0x81, CHR 0xE5, CHR 0xAF, CHR 0xBC,
     CHR 0xE5, CHR 0x85, CHR 0xA5] @ ''.xlsx''"

definition totals_differ :: "string \<Rightarrow> string \<Rightarrow> dec \<times> dec \<Rightarrow> exc + bool" where
  "totals_differ debit_text credit_text expected =
    res_bind (decimal_res debit_text) (\<lambda>d.
    res_bind (dec_eq_res d (fst expected)) (\<lambda>same.
    if \<not> same then Inr True
    else res_bind (decimal_res credit_text) (\<lambda>c.
      res_bind (dec_eq_res c (snd expected)) (\<lambda>same. Inr (\<not> same)))))"

definition existing_batch ::
  "(string \<Rightarrow> string) \<Rightarrow> file_system \<Rightarrow> string \<Rightarrow> string \<Rightarrow> string \<Rightarrow> batch_args
    \<Rightarrow> (string \<times> voucher_status_item) list \<Rightarrow> import_batch \<Rightarrow> exc + import_batch" where
  "existing_batch resolve fs batch_id manifest_path xlsx_path a approved b =
    res_bind (batch_totals approved) (\<lambda>expected.
    res_bind
      (if ib_batch_id b \<noteq> batch_id \<or> ib_company_id b \<noteq> ba_company_id a
         \<or> ib_ledger_environment b \<noteq> ba_ledger_environment a
         \<or> ib_ledger_identity_sha256 b \<noteq> ba_ledger_identity_sha256 a
         \<or> ib_ledger_profile_sha256 b \<noteq> ba_ledger_profile_sha256 a
         \<or> ib_ledger_name b \<noteq> ba_ledger_name a \<or> ib_period b \<noteq> ba_period a
         \<or> ib_template_facts_version b \<noteq> ba_facts_version a
         \<or> ib_template_facts_sha256 b \<noteq> ba_facts_content_sha256 a
         \<or> ib_account_table_sha256 b \<noteq> ba_account_table_sha256 a
         \<or> ib_aux_catalog_sha256 b \<noteq> ba_aux_catalog_sha256 a
         \<or> resolve (ib_manifest_path b) \<noteq> resolve manifest_path
         \<or> resolve (ib_file_path b) \<noteq> resolve xlsx_path
         \<or> map (\<lambda>i. (bi_posting_key i, bi_proposal_revision_hash i)) (ib_items b)
             \<noteq> map (\<lambda>(k, item). (k, gets (si_snapshot item) ''proposal_revision_hash'')) approved
         \<or> ib_expected_count b \<noteq> int (length approved)
       then Inr True
       else totals_differ (ib_expected_debit_total b) (ib_expected_credit_total b) expected) (\<lambda>differs.
    if differs then Inl (ValueError ''batch manifest does not match its inputs'' [])
    else res_bind (verified_batch_file fs b) (\<lambda>_. Inr b)))"

definition new_batch ::
  "(import_sheet \<Rightarrow> string) \<Rightarrow> (pyval \<Rightarrow> voucher_draft option) \<Rightarrow> string \<Rightarrow> string \<Rightarrow> string \<Rightarrow> string
    \<Rightarrow> batch_args \<Rightarrow> (string \<times> voucher_status_item) list \<Rightarrow> exc + import_batch \<times> string" where
  "new_batch xlsx vdraft now batch_id manifest_path xlsx_path a approved =
    res_bind (write_jierui_import_xlsx vdraft (map (\<lambda>(k, item). VDict (si_snapshot item)) approved)
        (VDict (ba_facts a)) None) (\<lambda>sheet.
    res_bind (batch_totals approved) (\<lambda>(debit, credit).
    res_bind (quantize_cent round_half_even debit) (\<lambda>qd.
    res_bind (quantize_cent round_half_even credit) (\<lambda>qc.
    let bytes = xlsx sheet in
    Inr (\<lparr>ib_schema_version = 1, ib_revision = 1, ib_batch_id = batch_id, ib_company_id = ba_company_id a,
        ib_ledger_environment = ba_ledger_environment a,
        ib_ledger_identity_sha256 = ba_ledger_identity_sha256 a,
        ib_ledger_profile_sha256 = ba_ledger_profile_sha256 a, ib_ledger_name = ba_ledger_name a,
        ib_period = ba_period a, ib_template_facts_version = ba_facts_version a,
        ib_template_facts_sha256 = ba_facts_content_sha256 a,
        ib_account_table_sha256 = ba_account_table_sha256 a,
        ib_aux_catalog_sha256 = ba_aux_catalog_sha256 a, ib_file_path = xlsx_path,
        ib_file_sha256 = sha256 bytes, ib_manifest_path = manifest_path, ib_items = is_items sheet,
        ib_expected_count = int (length approved), ib_expected_debit_total = format_f qd,
        ib_expected_credit_total = format_f qc, ib_baseline = [], ib_state = Prepared,
        ib_created_at = now, ib_dry_run_at = [], ib_authorized_at = [], ib_finalized_at = [],
        ib_authorization_hash = [], ib_observation_hash = [], ib_finalize_result = [],
        ib_observation_receipts = [],
        ib_audit = [batch_audit now ''prepared'' (VDict [(''file_sha256'', VStr (sha256 bytes))])]\<rparr>,
      bytes)))))"

text \<open>
  \<open>prepare_import_batch_files\<close>: \<open>manifest\<close> is the file at the manifest path. The result is the batch,
  whether it is new, the files and the manifest. (The staging directory is renamed into place, so a
  failure leaves no files.)
\<close>

definition prepare_import_batch_files ::
  "(import_sheet \<Rightarrow> string) \<Rightarrow> (pyval \<Rightarrow> voucher_draft option) \<Rightarrow> (vdict \<Rightarrow> import_batch option)
    \<Rightarrow> (string \<Rightarrow> string) \<Rightarrow> string \<Rightarrow> string \<Rightarrow> (string \<times> voucher_status_item) list \<Rightarrow> batch_args
    \<Rightarrow> file_system \<Rightarrow> (string \<Rightarrow> store_file) \<Rightarrow> exc + import_batch \<times> bool \<times> file_system \<times> store_file" where
  "prepare_import_batch_files xlsx vdraft vbatch resolve now batch_dir approved a fs manifests =
    (if approved = [] then Inl (ValueError ''empty batch'' [])
     else let batch_id = canonical_sha256 (batch_fingerprint a approved);
              final_dir = batch_dir @ ''/'' @ batch_id;
              manifest_path = final_dir @ ''/manifest.json'';
              xlsx_path = final_dir @ ''/'' @ BATCH_XLSX;
              manifest = manifests manifest_path
     in if manifest \<noteq> NoFile then
          res_bind (strict_read_json_object manifest) (\<lambda>d.
          case vbatch d of
            None \<Rightarrow> Inl (ValueError ''validation error'' [])
          | Some b \<Rightarrow> res_bind (existing_batch resolve fs batch_id manifest_path xlsx_path a approved b) (\<lambda>b.
              Inr (b, False, fs, manifest)))
        else res_bind (new_batch xlsx vdraft now batch_id manifest_path xlsx_path a approved) (\<lambda>(b, bytes).
          Inr (b, True, fs(xlsx_path \<mapsto> bytes), atomic_write_json_durable (dump_import_batch b))))"

definition parent_dir :: "string \<Rightarrow> string" where
  "parent_dir p = rev (tl (dropWhile (\<lambda>c. c \<noteq> CHR ''/'') (rev p)))"

definition remove_prepared_batch_files :: "import_batch \<Rightarrow> file_system \<Rightarrow> file_system" where
  "remove_prepared_batch_files b fs =
    (if ib_state b = Prepared
     then (\<lambda>p. if starts_with (parent_dir (ib_manifest_path b) @ ''/'') p then None else fs p)
     else fs)"

section \<open>Registering the export\<close>

definition exported_status_item ::
  "string \<Rightarrow> import_batch \<Rightarrow> import_batch_item \<Rightarrow> voucher_status_item \<Rightarrow> voucher_status_item" where
  "exported_status_item now batch bi item =
    item\<lparr>si_status := Exported, si_export_file := ib_file_path batch, si_batch_id := ib_batch_id batch,
      si_voucher_no := bi_planned_voucher_no bi, si_item_revision := si_item_revision item + 1,
      si_audit := si_audit item @ [batch_audit now ''approved->exported''
        (VDict [(''batch_id'', VStr (ib_batch_id batch))])]\<rparr>"

definition register_item ::
  "string \<Rightarrow> import_batch \<Rightarrow> import_batch_item \<Rightarrow> voucher_status_item dict \<Rightarrow> exc + voucher_status_item dict" where
  "register_item now batch bi items =
    (case dget items (bi_posting_key bi) of
       None \<Rightarrow> Inl (KeyError (bi_posting_key bi))
     | Some item \<Rightarrow>
         if si_status item \<noteq> Approved then Inl (ValueError ''voucher not approved'' [bi_posting_key bi])
         else if si_approved_revision_hash item \<noteq> bi_proposal_revision_hash bi
         then Inl (ValueError ''approved revision changed'' [bi_posting_key bi])
         else Inr (dput (bi_posting_key bi) (exported_status_item now batch bi item) items))"

definition register_mutator ::
  "string \<Rightarrow> import_batch \<Rightarrow> voucher_status_store \<Rightarrow> exc + import_batch mutation" where
  "register_mutator now batch current =
    (case dget (vs_batches current) (ib_batch_id batch) of
       Some existing \<Rightarrow>
         if ib_file_sha256 existing \<noteq> ib_file_sha256 batch
         then Inl (ValueError ''batch file hash conflict'' []) else Inr (Unchanged existing)
     | None \<Rightarrow>
         res_bind (res_fold (register_item now batch) (ib_items batch) (vs_items current)) (\<lambda>items.
         Inr (Changed items (dput (ib_batch_id batch) batch (vs_batches current)) batch)))"

definition register_export_batch ::
  "(store_file \<Rightarrow> exc + voucher_status_store) \<Rightarrow> string \<Rightarrow> string \<Rightarrow> import_batch \<Rightarrow> int \<Rightarrow> store_file
    \<Rightarrow> exc + store_file \<times> voucher_status_store" where
  "register_export_batch ld now fresh batch expected f =
    res_bind (mutate_voucher_status ld now fresh (register_mutator now batch) (Some expected) f)
      (\<lambda>(f', s, b). Inr (f', s))"

section \<open>Dry run\<close>

definition decimal_mismatch :: "vdict \<Rightarrow> string \<Rightarrow> string \<Rightarrow> exc + bool" where
  "decimal_mismatch payload k expected =
    res_bind (decimal_res (gets_or payload k ''0'')) (\<lambda>a.
    res_bind (decimal_res expected) (\<lambda>b.
    res_bind (dec_eq_res a b) (\<lambda>same. Inr (\<not> same))))"

definition dry_run_checks :: "file_system \<Rightarrow> vdict \<Rightarrow> import_batch \<Rightarrow> exc + unit" where
  "dry_run_checks fs payload b =
    res_bind (guard_res (ib_state b \<notin> {Prepared, DryRunPassed, AwaitingAuthorization})
      (ValueError ''batch state forbids dry run'' [batch_state_text (ib_state b)])) (\<lambda>_.
    res_bind (verified_batch_file fs b) (\<lambda>_.
    res_bind (guard_res (gets payload ''file_sha256'' \<noteq> ib_file_sha256 b) (ValueError ''dry run file'' [])) (\<lambda>_.
    res_bind (guard_res (\<not> is_true payload ''ok'') (ValueError ''dry run failed'' [])) (\<lambda>_.
    res_bind (geti_or payload ''voucher_count'' (-1)) (\<lambda>n.
    res_bind (guard_res (n \<noteq> ib_expected_count b) (ValueError ''dry run count'' [])) (\<lambda>_.
    res_bind (decimal_mismatch payload ''debit_total'' (ib_expected_debit_total b)) (\<lambda>m.
    res_bind (guard_res m (ValueError ''dry run debit total'' [])) (\<lambda>_.
    res_bind (decimal_mismatch payload ''credit_total'' (ib_expected_credit_total b)) (\<lambda>m.
    guard_res m (ValueError ''dry run credit total'' []))))))))))"

definition dry_run_mutator ::
  "string \<Rightarrow> file_system \<Rightarrow> string \<Rightarrow> vdict \<Rightarrow> voucher_status_store \<Rightarrow> exc + import_batch mutation" where
  "dry_run_mutator now fs batch_id payload current =
    (case dget (vs_batches current) batch_id of
       None \<Rightarrow> Inl (KeyError batch_id)
     | Some b \<Rightarrow>
         res_bind (dry_run_checks fs payload b) (\<lambda>_.
         let updated = b\<lparr>ib_revision := ib_revision b + 1, ib_state := AwaitingAuthorization,
               ib_dry_run_at := now,
               ib_audit := ib_audit b @ [batch_audit now ''dry_run_passed''
                 (VDict [(''observation_hash'', VStr (canonical_sha256 (VDict payload)))])]\<rparr>
         in Inr (Changed (vs_items current) (dput batch_id updated (vs_batches current)) updated)))"

text \<open>The third component is the file \<open>dry-run.json\<close>.\<close>

definition record_batch_dry_run ::
  "(store_file \<Rightarrow> exc + voucher_status_store) \<Rightarrow> string \<Rightarrow> string \<Rightarrow> file_system \<Rightarrow> string \<Rightarrow> vdict \<Rightarrow> store_file
    \<Rightarrow> exc + store_file \<times> import_batch \<times> store_file" where
  "record_batch_dry_run ld now fresh fs batch_id payload f =
    res_bind (mutate_voucher_status ld now fresh (dry_run_mutator now fs batch_id payload) None f)
      (\<lambda>(f', s, b). Inr (f', b, atomic_write_json_durable (dupdate [(''batch_id'', VStr batch_id)] payload)))"

section \<open>Beginning the import\<close>

definition authorization_fields :: "import_batch \<Rightarrow> string dict" where
  "authorization_fields b = [(''batch_id'', ib_batch_id b), (''file_sha256'', ib_file_sha256 b),
     (''ledger_name'', ib_ledger_name b), (''period'', ib_period b)]"

definition authorization_hash_of :: "import_batch \<Rightarrow> string \<Rightarrow> string \<Rightarrow> string" where
  "authorization_hash_of b command_id authorized_by =
     canonical_sha256 (VDict (text_items (authorization_fields b)
       @ [(''command_id'', VStr command_id), (''authorized_by'', VStr authorized_by)]))"

definition begin_item ::
  "string \<Rightarrow> string \<Rightarrow> string \<Rightarrow> import_batch_item \<Rightarrow> voucher_status_item dict \<Rightarrow> exc + voucher_status_item dict" where
  "begin_item now batch_id auth_hash bi items =
    (case dget items (bi_posting_key bi) of
       None \<Rightarrow> Inl (KeyError (bi_posting_key bi))
     | Some item \<Rightarrow>
         if si_status item \<noteq> Exported \<or> si_batch_id item \<noteq> batch_id
         then Inl (ValueError ''voucher state forbids import'' [bi_posting_key bi])
         else Inr (dput (bi_posting_key bi) (item\<lparr>si_status := Importing,
             si_item_revision := si_item_revision item + 1,
             si_audit := si_audit item @ [batch_audit now ''exported->importing''
               (VDict [(''batch_id'', VStr batch_id), (''authorization_hash'', VStr auth_hash)])]\<rparr>) items))"

definition begin_mutator ::
  "string \<Rightarrow> file_system \<Rightarrow> string \<Rightarrow> vdict \<Rightarrow> voucher_status_store \<Rightarrow> exc + import_batch mutation" where
  "begin_mutator now fs batch_id authorization current =
    (case dget (vs_batches current) batch_id of
       None \<Rightarrow> Inl (KeyError batch_id)
     | Some b \<Rightarrow>
         res_bind (guard_res (ib_state b \<noteq> AwaitingAuthorization)
           (ValueError ''batch cannot begin'' [batch_state_text (ib_state b)])) (\<lambda>_.
         res_bind (verified_batch_file fs b) (\<lambda>_.
         res_bind (guard_res (\<exists>p\<in>set (authorization_fields b). gets authorization (fst p) \<noteq> snd p)
           (ValueError ''authorization not bound to batch'' [])) (\<lambda>_.
         let command_id = strip (gets authorization ''command_id'');
             authorized_by = strip (gets authorization ''authorized_by'')
         in if command_id = [] \<or> authorized_by = [] then Inl (ValueError ''authorization incomplete'' [])
         else let h = authorization_hash_of b command_id authorized_by in
           res_bind (res_fold (begin_item now batch_id h) (ib_items b) (vs_items current)) (\<lambda>items.
           let updated = b\<lparr>ib_revision := ib_revision b + 1, ib_state := Applying, ib_authorized_at := now,
                 ib_authorization_hash := h,
                 ib_audit := ib_audit b @ [batch_audit now ''authorized_and_applying''
                   (VDict [(''authorization_hash'', VStr h)])]\<rparr>
           in Inr (Changed items (dput batch_id updated (vs_batches current)) updated))))))"

definition begin_import_batch ::
  "(store_file \<Rightarrow> exc + voucher_status_store) \<Rightarrow> string \<Rightarrow> string \<Rightarrow> file_system \<Rightarrow> string \<Rightarrow> vdict \<Rightarrow> store_file
    \<Rightarrow> exc + store_file \<times> import_batch" where
  "begin_import_batch ld now fresh fs batch_id authorization f =
    res_bind (mutate_voucher_status ld now fresh (begin_mutator now fs batch_id authorization) None f)
      (\<lambda>(f', s, b). Inr (f', b))"

section \<open>Finalizing\<close>

text \<open>The observed items by posting key, in the order of the payload.\<close>

definition observe_item :: "pyval \<Rightarrow> vdict dict \<Rightarrow> exc + vdict dict" where
  "observe_item raw observed =
    (case raw of
       VDict d \<Rightarrow>
         let k = strip (gets d ''posting_key'') in
         if k = [] then Inl (ValueError ''finalize item without posting_key'' [])
         else if dhas observed k then Inl (ValueError ''finalize item repeated'' [k])
         else Inr (dput k d observed)
     | _ \<Rightarrow> Inl (ValueError ''finalize item without posting_key'' []))"

definition observed_items :: "vdict \<Rightarrow> exc + vdict dict" where
  "observed_items payload =
    (if \<not> truthy (get_val payload ''items'') then Inr []
     else case get_val payload ''items'' of
         VList xs \<Rightarrow> res_fold observe_item xs []
       | _ \<Rightarrow> Inl (ValueError ''finalize items'' []))"

definition finalize_mode :: "vdict \<Rightarrow> import_batch \<Rightarrow> exc + string" where
  "finalize_mode payload b =
    (let mode = gets_or payload ''mode'' ''apply'' in
     if ib_state b = Applying then
       (if mode \<notin> {''apply'', ''reconcile_only''} then Inl (ValueError ''finalize mode'' []) else Inr mode)
     else if ib_state b \<in> {Unknown, Partial} then
       (if mode \<noteq> ''reconcile_only'' then Inl (ValueError ''only reconcile_only'' []) else Inr mode)
     else Inl (ValueError ''batch state forbids finalize'' [batch_state_text (ib_state b)]))"

definition observed_state :: "vdict \<Rightarrow> string" where
  "observed_state d = gets d ''observed_state''"

definition evidence_of :: "vdict \<Rightarrow> vdict" where
  "evidence_of payload = (case get_val payload ''evidence'' of VDict d \<Rightarrow> d | _ \<Rightarrow> [])"

definition readback_hash :: "vdict \<Rightarrow> string" where
  "readback_hash payload = strip (gets (evidence_of payload) ''readback_hash'')"

definition failed_observation_keys :: "vdict dict \<Rightarrow> string list" where
  "failed_observation_keys observed =
     map fst (filter (\<lambda>p. observed_state (snd p) = ''import_failed_confirmed'') observed)"

definition success_evidence :: "vdict \<Rightarrow> string list \<Rightarrow> vdict dict \<Rightarrow> exc + unit" where
  "success_evidence payload batch_keys observed =
    res_bind (guard_res (set (map fst observed) \<noteq> set batch_keys) (ValueError ''success must report every voucher'' [])) (\<lambda>_.
    res_bind (guard_res (list_ex (\<lambda>p. observed_state (snd p) \<noteq> ''imported'') observed)
      (ValueError ''success must observe imported'' [])) (\<lambda>_.
    res_bind (guard_res (is_true (evidence_of payload) ''commit_not_attempted''
        \<or> is_true (evidence_of payload) ''ledger_absence_confirmed'')
      (ValueError ''success with evidence of absence'' [])) (\<lambda>_.
    guard_res (readback_hash payload = []) (ValueError ''success without readback_hash'' []))))"

definition failure_evidence ::
  "vdict \<Rightarrow> import_batch \<Rightarrow> string \<Rightarrow> string list \<Rightarrow> vdict dict \<Rightarrow> exc + unit" where
  "failure_evidence payload b mode batch_keys observed =
    (let precommit_failure = ib_state b = Applying \<and> mode = ''apply''
           \<and> is_true (evidence_of payload) ''commit_not_attempted'' \<and> observed = [];
         reconciled_absence = mode = ''reconcile_only'' \<and> readback_hash payload \<noteq> []
           \<and> is_true (evidence_of payload) ''ledger_absence_confirmed''
           \<and> set (map fst observed) = set batch_keys
           \<and> set (failed_observation_keys observed) = set batch_keys
     in guard_res (\<not> precommit_failure \<and> \<not> reconciled_absence) (ValueError ''failure without evidence'' []))"

definition finalize_checks ::
  "vdict \<Rightarrow> import_batch \<Rightarrow> string \<Rightarrow> string \<Rightarrow> vdict dict \<Rightarrow> exc + unit" where
  "finalize_checks payload b mode outcome observed =
    (let batch_keys = map bi_posting_key (ib_items b) in
     res_bind (guard_res (\<exists>k\<in>set (map fst observed). k \<notin> set batch_keys)
       (ValueError ''finalize voucher outside batch'' [])) (\<lambda>_.
     res_bind (if outcome = ''confirmed_success'' then success_evidence payload batch_keys observed else Inr ()) (\<lambda>_.
     res_bind (guard_res (list_ex (\<lambda>p. observed_state (snd p) = ''imported'') observed \<and> readback_hash payload = [])
       (ValueError ''imported without readback_hash'' [])) (\<lambda>_.
     res_bind (guard_res (failed_observation_keys observed \<noteq> []
         \<and> (readback_hash payload = [] \<or> \<not> is_true (evidence_of payload) ''ledger_absence_confirmed''))
       (ValueError ''absence without evidence'' [])) (\<lambda>_.
     if outcome = ''failed_before_commit'' then failure_evidence payload b mode batch_keys observed else Inr ())))))"

fun observed_target :: "string \<Rightarrow> voucher_state option" where
  "observed_target t = (if t = ''imported'' then Some Imported
     else if t = ''import_failed_confirmed'' then Some ImportFailedConfirmed
     else if t = ''import_unknown'' then Some ImportUnknown else None)"

definition next_state_of :: "string \<Rightarrow> vdict \<Rightarrow> exc + voucher_state" where
  "next_state_of outcome observed_item =
    (if outcome = ''confirmed_success'' then Inr Imported
     else if outcome = ''failed_before_commit'' then Inr ImportFailedConfirmed
     else if outcome = ''unknown'' then Inr ImportUnknown
     else case observed_target (gets_or observed_item ''observed_state'' ''import_unknown'') of
         None \<Rightarrow> Inl (ValueError ''observed_state'' [gets_or observed_item ''observed_state'' ''import_unknown''])
       | Some st \<Rightarrow> Inr st)"

definition CONFIRMED :: "voucher_state set" where
  "CONFIRMED = {Imported, ImportFailedConfirmed}"

definition observed_no :: "vdict \<Rightarrow> string" where
  "observed_no d = strip (gets d ''voucher_no'')"

definition confirm_again ::
  "voucher_status_item \<Rightarrow> import_batch_item \<Rightarrow> vdict \<Rightarrow> voucher_state \<Rightarrow> exc + unit" where
  "confirm_again item bi observed_item next_state =
    res_bind (guard_res (next_state \<noteq> si_status item) (ValueError ''confirmed state is final'' [bi_posting_key bi])) (\<lambda>_.
    if si_status item = Imported then
      res_bind (guard_res (gets observed_item ''signature_hash'' \<noteq> bi_signature_hash bi)
        (ValueError ''signature mismatch'' [bi_posting_key bi])) (\<lambda>_.
      guard_res (observed_no observed_item = []
          \<or> (si_voucher_no item \<noteq> [] \<and> observed_no observed_item \<noteq> si_voucher_no item))
        (ValueError ''voucher number mismatch'' [bi_posting_key bi]))
    else Inr ())"

definition confirm_import :: "import_batch_item \<Rightarrow> vdict \<Rightarrow> voucher_state \<Rightarrow> exc + unit" where
  "confirm_import bi observed_item next_state =
    (if next_state = Imported then
       res_bind (guard_res (gets observed_item ''signature_hash'' \<noteq> bi_signature_hash bi)
         (ValueError ''signature mismatch'' [bi_posting_key bi])) (\<lambda>_.
       guard_res (observed_no observed_item = []) (ValueError ''voucher number missing'' [bi_posting_key bi]))
     else Inr ())"

definition observed_status_item ::
  "string \<Rightarrow> string \<Rightarrow> string \<Rightarrow> vdict \<Rightarrow> voucher_state \<Rightarrow> voucher_status_item \<Rightarrow> voucher_status_item" where
  "observed_status_item now batch_id observation_hash observed_item next_state item =
    item\<lparr>si_status := next_state, si_item_revision := si_item_revision item + 1,
      si_last_observation_hash := observation_hash,
      si_audit := si_audit item @ [batch_audit now (arrow_text (si_status item) next_state)
        (VDict [(''batch_id'', VStr batch_id), (''observation_hash'', VStr observation_hash)])],
      si_voucher_no := (if get_val observed_item ''voucher_no'' \<noteq> VNone
        then gets observed_item ''voucher_no'' else si_voucher_no item),
      si_imported_at := (if next_state = Imported then now else si_imported_at item)\<rparr>"

text \<open>One pass of the loop over the batch items; the state is the items and the resulting states.\<close>

definition finalize_item ::
  "string \<Rightarrow> string \<Rightarrow> string \<Rightarrow> string \<Rightarrow> vdict dict \<Rightarrow> import_batch_item
    \<Rightarrow> voucher_status_item dict \<times> voucher_state list \<Rightarrow> exc + voucher_status_item dict \<times> voucher_state list" where
  "finalize_item now batch_id observation_hash outcome observed bi st =
    (let items = fst st; states = snd st;
         observed_item = (case dget observed (bi_posting_key bi) of None \<Rightarrow> [] | Some d \<Rightarrow> d)
     in case dget items (bi_posting_key bi) of
       None \<Rightarrow> Inl (KeyError (bi_posting_key bi))
     | Some item \<Rightarrow>
         if si_status item \<notin> {Importing, ImportUnknown, ImportFailedConfirmed, Imported}
         then Inl (ValueError ''voucher state forbids finalize'' [bi_posting_key bi, voucher_state_text (si_status item)])
         else if si_status item \<in> CONFIRMED \<and> observed_item = [] then Inr (items, states @ [si_status item])
         else res_bind (next_state_of outcome observed_item) (\<lambda>next_state.
           if si_status item \<in> CONFIRMED
           then res_bind (confirm_again item bi observed_item next_state) (\<lambda>_. Inr (items, states @ [si_status item]))
           else res_bind (confirm_import bi observed_item next_state) (\<lambda>_.
             Inr (dput (bi_posting_key bi)
                   (observed_status_item now batch_id observation_hash observed_item next_state item) items,
                  states @ [next_state]))))"

definition batch_outcome :: "voucher_state list \<Rightarrow> batch_state" where
  "batch_outcome states =
    (if list_all (\<lambda>s. s = Imported) states then BatchReconciled
     else if list_all (\<lambda>s. s = ImportFailedConfirmed) states then FailedBeforeCommit
     else if list_all (\<lambda>s. s = ImportUnknown) states then Unknown
     else Partial)"

definition finalize_receipt ::
  "string \<Rightarrow> string \<Rightarrow> string \<Rightarrow> string \<Rightarrow> string \<Rightarrow> voucher_state list \<Rightarrow> vdict" where
  "finalize_receipt now batch_id observation_hash outcome mode states =
    [(''batch_id'', VStr batch_id), (''observation_hash'', VStr observation_hash),
     (''outcome'', VStr outcome), (''mode'', VStr mode),
     (''state'', VStr (batch_state_text (batch_outcome states))),
     (''item_states'', VList (map (\<lambda>s. VStr (voucher_state_text s)) states)), (''recorded_at'', VStr now)]"

definition finalized_batch :: "string \<Rightarrow> string \<Rightarrow> vdict \<Rightarrow> voucher_state list \<Rightarrow> import_batch \<Rightarrow> import_batch" where
  "finalized_batch now observation_hash receipt states b =
    b\<lparr>ib_revision := ib_revision b + 1, ib_state := batch_outcome states, ib_finalized_at := now,
      ib_observation_hash := observation_hash, ib_finalize_result := receipt,
      ib_observation_receipts := dput observation_hash receipt (ib_observation_receipts b),
      ib_audit := ib_audit b @ [batch_audit now ''finalized'' (VDict receipt)]\<rparr>"

definition OUTCOMES :: "string set" where
  "OUTCOMES = {''confirmed_success'', ''failed_before_commit'', ''partial'', ''unknown''}"

definition finalize_mutator ::
  "string \<Rightarrow> string \<Rightarrow> vdict \<Rightarrow> voucher_status_store \<Rightarrow> exc + (import_batch \<times> bool \<times> vdict) mutation" where
  "finalize_mutator now batch_id payload current =
    (let observation_hash = canonical_sha256 (VDict payload) in
     case dget (vs_batches current) batch_id of
       None \<Rightarrow> Inl (KeyError batch_id)
     | Some b \<Rightarrow> (case dget (ib_observation_receipts b) observation_hash of
           Some receipt \<Rightarrow> Inr (Unchanged (b, True, receipt))
         | None \<Rightarrow>
             res_bind (finalize_mode payload b) (\<lambda>mode.
             let outcome = gets payload ''outcome'' in
             res_bind (guard_res (outcome \<notin> OUTCOMES) (ValueError ''finalize outcome'' [])) (\<lambda>_.
             res_bind (observed_items payload) (\<lambda>observed.
             res_bind (finalize_checks payload b mode outcome observed) (\<lambda>_.
             res_bind (res_fold (finalize_item now batch_id observation_hash outcome observed) (ib_items b)
                 (vs_items current, [])) (\<lambda>(items, states).
             let receipt = finalize_receipt now batch_id observation_hash outcome mode states;
                 updated = finalized_batch now observation_hash receipt states b
             in Inr (Changed items (dput batch_id updated (vs_batches current)) (updated, False, receipt)))))))))"

text \<open>The last component is the file \<open>import-result.json\<close>.\<close>

definition finalize_import_batch ::
  "(store_file \<Rightarrow> exc + voucher_status_store) \<Rightarrow> string \<Rightarrow> string \<Rightarrow> string \<Rightarrow> vdict \<Rightarrow> store_file
    \<Rightarrow> exc + store_file \<times> (import_batch \<times> bool \<times> vdict) \<times> store_file" where
  "finalize_import_batch ld now fresh batch_id payload f =
    res_bind (mutate_voucher_status ld now fresh (finalize_mutator now batch_id payload) None f)
      (\<lambda>(f', s, r). Inr (f', r, atomic_write_json_durable (ib_finalize_result (fst r))))"

section \<open>Refinement of the life of a voucher\<close>

lemma action_of_batch_audit [simp]: "action_of (batch_audit now a d) = VStr a"
  by (simp add: batch_audit_def)

lemma register_item_steps:
  assumes "register_item now batch bi items = Inr items'"
  shows "steps_to items items'"
proof -
  obtain item where item: "dget items (bi_posting_key bi) = Some item" "si_status item = Approved"
    and items': "items' = dput (bi_posting_key bi) (exported_status_item now batch bi item) items"
    using assms by (auto simp: register_item_def split: option.splits if_splits)
  have "item_step (Some item) (Some (exported_status_item now batch bi item))"
    by (rule item_step.moved) (simp_all add: exported_status_item_def item arrow_text_def, simp)
  then show ?thesis by (simp add: items' steps_to_dput item)
qed

lemma begin_item_steps:
  assumes "begin_item now batch_id h bi items = Inr items'"
  shows "steps_to items items'"
proof -
  obtain item i where item: "dget items (bi_posting_key bi) = Some item" "si_status item = Exported"
    and items': "items' = dput (bi_posting_key bi) i items"
    and i: "i = item\<lparr>si_status := Importing, si_item_revision := si_item_revision item + 1,
             si_audit := si_audit item @ [batch_audit now ''exported->importing''
               (VDict [(''batch_id'', VStr batch_id), (''authorization_hash'', VStr h)])]\<rparr>"
    using assms by (auto simp: begin_item_def split: option.splits if_splits)
  have "item_step (Some item) (Some i)"
    by (rule item_step.moved) (simp_all add: i item arrow_text_def, simp)
  then show ?thesis by (simp add: items' steps_to_dput item)
qed

lemma next_state_cases:
  "next_state_of outcome d = Inr st \<Longrightarrow> st \<in> {Imported, ImportFailedConfirmed, ImportUnknown}"
  by (auto simp: next_state_of_def split: if_splits option.splits)

text \<open>The two ways a successful pass of the loop treats an item.\<close>

lemma finalize_item_cases:
  assumes "finalize_item now batch_id h outcome observed bi st = Inr st'"
  obtains item where "dget (fst st) (bi_posting_key bi) = Some item" and "si_status item \<in> CONFIRMED"
      and "st' = (fst st, snd st @ [si_status item])"
  | item next_state d where "dget (fst st) (bi_posting_key bi) = Some item"
      and "si_status item \<in> {Importing, ImportUnknown}"
      and "d = (case dget observed (bi_posting_key bi) of None \<Rightarrow> [] | Some d \<Rightarrow> d)"
      and "next_state_of outcome d = Inr next_state" and "confirm_import bi d next_state = Inr ()"
      and "st' = (dput (bi_posting_key bi) (observed_status_item now batch_id h d next_state item) (fst st),
                  snd st @ [next_state])"
proof -
  let ?d = "case dget observed (bi_posting_key bi) of None \<Rightarrow> [] | Some d \<Rightarrow> d"
  obtain item where item: "dget (fst st) (bi_posting_key bi) = Some item"
    using assms by (auto simp: finalize_item_def Let_def split: option.splits)
  have ok: "si_status item \<in> {Importing, ImportUnknown, ImportFailedConfirmed, Imported}"
    using assms item by (auto simp: finalize_item_def Let_def split: if_splits)
  show ?thesis
  proof (cases "si_status item \<in> CONFIRMED")
    case True
    then have "st' = (fst st, snd st @ [si_status item])"
      using assms item ok by (auto simp: finalize_item_def Let_def res_bind_eq_Inr split: if_split_asm)
    with item True that(1) show ?thesis by blast
  next
    case False
    then obtain next_state where "next_state_of outcome ?d = Inr next_state" "confirm_import bi ?d next_state = Inr ()"
      "st' = (dput (bi_posting_key bi) (observed_status_item now batch_id h ?d next_state item) (fst st),
                  snd st @ [next_state])"
      using assms item ok by (auto simp: finalize_item_def Let_def res_bind_eq_Inr split: if_split_asm)
    moreover have "si_status item \<in> {Importing, ImportUnknown}" using False ok by (auto simp: CONFIRMED_def)
    ultimately show ?thesis using item that(2) by blast
  qed
qed

lemma finalize_item_steps:
  assumes "finalize_item now batch_id h outcome observed bi st = Inr st'"
  shows "steps_to (fst st) (fst st')"
  using assms
proof (rule finalize_item_cases)
  fix item next_state d
  let ?i = "observed_status_item now batch_id h d next_state item"
  assume item: "dget (fst st) (bi_posting_key bi) = Some item" "si_status item \<in> {Importing, ImportUnknown}"
    and n: "next_state_of outcome d = Inr next_state"
    and st': "st' = (dput (bi_posting_key bi) ?i (fst st), snd st @ [next_state])"
  have "item_step (Some item) (Some ?i)"
  proof (rule item_step.moved)
    show "si_status ?i \<in> set (STATUS_TRANSITIONS (si_status item))
      \<or> si_status item = ImportUnknown \<and> si_status ?i = ImportUnknown"
      using next_state_cases [OF n] item(2) by (auto simp: observed_status_item_def)
  qed (simp_all add: observed_status_item_def, simp)
  then show ?thesis by (simp add: st' steps_to_dput item)
qed simp

lemma finalize_mutator_Changed:
  assumes "finalize_mutator now k payload s = Inr (Changed items batches r)"
  obtains b mode observed states where "dget (vs_batches s) k = Some b"
    and "dget (ib_observation_receipts b) (canonical_sha256 (VDict payload)) = None"
    and "finalize_mode payload b = Inr mode" and "gets payload ''outcome'' \<in> OUTCOMES"
    and "observed_items payload = Inr observed"
    and "finalize_checks payload b mode (gets payload ''outcome'') observed = Inr ()"
    and "res_fold (finalize_item now k (canonical_sha256 (VDict payload)) (gets payload ''outcome'') observed)
        (ib_items b) (vs_items s, []) = Inr (items, states)"
    and "r = (finalized_batch now (canonical_sha256 (VDict payload))
        (finalize_receipt now k (canonical_sha256 (VDict payload)) (gets payload ''outcome'') mode states) states b,
        False, finalize_receipt now k (canonical_sha256 (VDict payload)) (gets payload ''outcome'') mode states)"
    and "batches = dput k (fst r) (vs_batches s)"
proof -
  obtain b where b: "dget (vs_batches s) k = Some b"
    and n: "dget (ib_observation_receipts b) (canonical_sha256 (VDict payload)) = None"
    using assms by (auto simp: finalize_mutator_def Let_def split: option.splits)
  obtain mode observed p where "finalize_mode payload b = Inr mode" "gets payload ''outcome'' \<in> OUTCOMES"
    "observed_items payload = Inr observed"
    "finalize_checks payload b mode (gets payload ''outcome'') observed = Inr ()"
    "res_fold (finalize_item now k (canonical_sha256 (VDict payload)) (gets payload ''outcome'') observed)
        (ib_items b) (vs_items s, []) = Inr p"
    "Changed items batches r = (let receipt = finalize_receipt now k (canonical_sha256 (VDict payload))
          (gets payload ''outcome'') mode (snd p);
        updated = finalized_batch now (canonical_sha256 (VDict payload)) receipt (snd p) b
      in Changed (fst p) (dput k updated (vs_batches s)) (updated, False, receipt))"
    using assms b n by (auto simp: finalize_mutator_def res_bind_eq_Inr Let_def)
  then show ?thesis using that [of b mode observed "snd p"] b n by (cases p) (simp add: Let_def)
qed

lemma mutator_steps:
  "register_mutator now batch s = Inr (Changed items batches r) \<Longrightarrow> steps_to (vs_items s) items"
  "dry_run_mutator now fs k payload s = Inr (Changed items batches r) \<Longrightarrow> steps_to (vs_items s) items"
  "begin_mutator now fs k authorization s = Inr (Changed items batches r) \<Longrightarrow> steps_to (vs_items s) items"
  "finalize_mutator now k payload s = Inr (Changed items batches r') \<Longrightarrow> steps_to (vs_items s) items"
proof -
  have fold: "steps_to d d'" if "res_fold f xs d = Inr d'" "\<And>x a b. f x a = Inr b \<Longrightarrow> steps_to a b" for f xs d d'
    using that(1) by (rule res_fold_invariant) (auto dest: that(2) steps_to_trans)
  show "register_mutator now batch s = Inr (Changed items batches r) \<Longrightarrow> steps_to (vs_items s) items"
    by (auto simp: register_mutator_def res_bind_eq_Inr register_item_steps split: option.splits if_splits intro: fold)
  show "dry_run_mutator now fs k payload s = Inr (Changed items batches r) \<Longrightarrow> steps_to (vs_items s) items"
    by (auto simp: dry_run_mutator_def res_bind_eq_Inr Let_def split: option.splits)
  show "begin_mutator now fs k authorization s = Inr (Changed items batches r) \<Longrightarrow> steps_to (vs_items s) items"
    by (auto simp: begin_mutator_def res_bind_eq_Inr Let_def begin_item_steps split: option.splits if_splits intro: fold)
  assume "finalize_mutator now k payload s = Inr (Changed items batches r')"
  then show "steps_to (vs_items s) items"
  proof (rule finalize_mutator_Changed)
    fix b mode observed states
    assume "res_fold (finalize_item now k (canonical_sha256 (VDict payload)) (gets payload ''outcome'') observed)
        (ib_items b) (vs_items s, []) = Inr (items, states)"
    then have "steps_to (vs_items s) (fst (items, states))"
      by (rule res_fold_invariant) (auto dest: finalize_item_steps intro: steps_to_trans)
    then show "steps_to (vs_items s) items" by simp
  qed
qed

section \<open>Evidence\<close>

lemma finalize_checks_facts:
  assumes "finalize_checks payload b mode outcome observed = Inr ()"
  shows "outcome = ''confirmed_success'' \<Longrightarrow> readback_hash payload \<noteq> []"
    and "p \<in> set observed \<Longrightarrow> observed_state (snd p) = ''imported'' \<Longrightarrow> readback_hash payload \<noteq> []"
    and "p \<in> set observed \<Longrightarrow> observed_state (snd p) = ''import_failed_confirmed'' \<Longrightarrow>
      readback_hash payload \<noteq> [] \<and> is_true (evidence_of payload) ''ledger_absence_confirmed''"
    and "outcome = ''failed_before_commit'' \<Longrightarrow>
      ib_state b = Applying \<and> is_true (evidence_of payload) ''commit_not_attempted''
      \<or> readback_hash payload \<noteq> [] \<and> is_true (evidence_of payload) ''ledger_absence_confirmed''"
proof -
  note facts = assms [unfolded finalize_checks_def Let_def res_bind_eq_Inr guard_res_simps]
  show "outcome = ''confirmed_success'' \<Longrightarrow> readback_hash payload \<noteq> []"
    using facts by (auto simp: success_evidence_def res_bind_eq_Inr)
  show "p \<in> set observed \<Longrightarrow> observed_state (snd p) = ''imported'' \<Longrightarrow> readback_hash payload \<noteq> []"
    using facts by (auto simp: list_ex_iff)
  show "p \<in> set observed \<Longrightarrow> observed_state (snd p) = ''import_failed_confirmed'' \<Longrightarrow>
      readback_hash payload \<noteq> [] \<and> is_true (evidence_of payload) ''ledger_absence_confirmed''"
    using facts by (auto simp: failed_observation_keys_def filter_empty_conv)
  show "outcome = ''failed_before_commit'' \<Longrightarrow>
      ib_state b = Applying \<and> is_true (evidence_of payload) ''commit_not_attempted''
      \<or> readback_hash payload \<noteq> [] \<and> is_true (evidence_of payload) ''ledger_absence_confirmed''"
    using facts by (auto simp: failure_evidence_def Let_def)
qed

lemma observed_target_Some:
  "observed_target t = Some st \<Longrightarrow> (st = Imported \<longrightarrow> t = ''imported'')
    \<and> (st = ImportFailedConfirmed \<longrightarrow> t = ''import_failed_confirmed'')"
  by (auto split: if_splits)

lemma next_state_evidence:
  assumes "next_state_of outcome d = Inr st" and "outcome \<in> OUTCOMES"
  shows "st = Imported \<Longrightarrow> outcome = ''confirmed_success'' \<or> observed_state d = ''imported''"
    and "st = ImportFailedConfirmed \<Longrightarrow> outcome = ''failed_before_commit'' \<or> observed_state d = ''import_failed_confirmed''"
proof -
  have "st = Imported \<or> st = ImportFailedConfirmed \<Longrightarrow>
      st = Imported \<and> outcome = ''confirmed_success'' \<or> st = ImportFailedConfirmed \<and> outcome = ''failed_before_commit''
      \<or> observed_target (gets_or d ''observed_state'' ''import_unknown'') = Some st"
    using assms(1) by (auto simp: next_state_of_def simp del: observed_target.simps split: if_splits option.splits)
  then show "st = Imported \<Longrightarrow> outcome = ''confirmed_success'' \<or> observed_state d = ''imported''"
    and "st = ImportFailedConfirmed \<Longrightarrow> outcome = ''failed_before_commit'' \<or> observed_state d = ''import_failed_confirmed''"
    by (auto simp: observed_state_def gets_or_def simp del: observed_target.simps dest!: observed_target_Some split: if_splits)
qed

text \<open>What a finalize has done to one item of the store.\<close>

definition settled ::
  "vdict \<Rightarrow> import_batch \<Rightarrow> vdict dict \<Rightarrow> string \<Rightarrow> voucher_status_item \<Rightarrow> voucher_status_item \<Rightarrow> bool" where
  "settled payload b observed key i i' \<longleftrightarrow>
     (si_status i \<in> CONFIRMED \<longrightarrow> i' = i)
     \<and> (i' \<noteq> i \<longrightarrow> si_status i' = Imported \<longrightarrow> readback_hash payload \<noteq> []
          \<and> (\<exists>bi\<in>set (ib_items b). \<exists>d. bi_posting_key bi = key \<and> dget observed key = Some d
                \<and> gets d ''signature_hash'' = bi_signature_hash bi \<and> observed_no d \<noteq> []))
     \<and> (i' \<noteq> i \<longrightarrow> si_status i' = ImportFailedConfirmed \<longrightarrow>
          ib_state b = Applying \<and> is_true (evidence_of payload) ''commit_not_attempted''
          \<or> readback_hash payload \<noteq> [] \<and> is_true (evidence_of payload) ''ledger_absence_confirmed'')"

lemma settled_observed:
  assumes checks: "finalize_checks payload b mode outcome observed = Inr ()" and "outcome \<in> OUTCOMES"
    and "si_status i \<notin> CONFIRMED" and "bi \<in> set (ib_items b)"
    and d: "d = (case dget observed (bi_posting_key bi) of None \<Rightarrow> [] | Some d \<Rightarrow> d)"
    and n: "next_state_of outcome d = Inr st" and c: "confirm_import bi d st = Inr ()"
    and i': "si_status i' = st"
  shows "settled payload b observed (bi_posting_key bi) i i'"
proof -
  have obs: "dget observed (bi_posting_key bi) = Some d" if "observed_state d \<noteq> [] \<or> observed_no d \<noteq> []"
    using that d by (auto simp: observed_state_def observed_no_def gets_or_def get_val_def split: option.splits)
  have mem: "(bi_posting_key bi, d) \<in> set observed" if "observed_state d \<noteq> []"
    using dget_Some_in [OF obs] that by blast
  note facts = finalize_checks_facts [OF checks]
  have "readback_hash payload \<noteq> [] \<and> (\<exists>bi'\<in>set (ib_items b). \<exists>d. bi_posting_key bi' = bi_posting_key bi
      \<and> dget observed (bi_posting_key bi) = Some d \<and> gets d ''signature_hash'' = bi_signature_hash bi' \<and> observed_no d \<noteq> [])"
    if "st = Imported"
  proof -
    have "gets d ''signature_hash'' = bi_signature_hash bi" "observed_no d \<noteq> []"
      using c that by (auto simp: confirm_import_def res_bind_eq_Inr)
    moreover have "readback_hash payload \<noteq> []"
      using next_state_evidence(1) [OF n assms(2) that] facts(1) facts(2) [OF mem] by fastforce
    ultimately show ?thesis using obs assms(4) by blast
  qed
  moreover have "ib_state b = Applying \<and> is_true (evidence_of payload) ''commit_not_attempted''
          \<or> readback_hash payload \<noteq> [] \<and> is_true (evidence_of payload) ''ledger_absence_confirmed''"
    if "st = ImportFailedConfirmed"
    using next_state_evidence(2) [OF n assms(2) that] facts(4) facts(3) [OF mem] by fastforce
  ultimately show ?thesis using assms(3) i' by (auto simp: settled_def)
qed

lemma settled_refl: "settled payload b observed key i i"
  by (simp add: settled_def)

lemma finalize_items_settled:
  assumes checks: "finalize_checks payload b mode outcome observed = Inr ()" and "outcome \<in> OUTCOMES"
    and fold: "res_fold (finalize_item now k h outcome observed) bis (items, []) = Inr (items', states)"
    and sub: "set bis \<subseteq> set (ib_items b)"
    and i: "dget items key = Some i"
  shows "\<exists>i'. dget items' key = Some i' \<and> settled payload b observed key i i'"
proof -
  let ?P = "\<lambda>st. \<exists>i'. dget (fst st) key = Some i' \<and> settled payload b observed key i i'"
  have "?P (items', states)"
    using fold
  proof (rule res_fold_invariant [where P = ?P])
    show "?P (items, [])" using i settled_refl by simp
  next
    fix bi st st'
    assume bi: "bi \<in> set bis" and P: "?P st" and step: "finalize_item now k h outcome observed bi st = Inr st'"
    from step show "?P st'"
    proof (rule finalize_item_cases)
      fix item next_state d
      assume item: "dget (fst st) (bi_posting_key bi) = Some item" "si_status item \<in> {Importing, ImportUnknown}"
        and d: "d = (case dget observed (bi_posting_key bi) of None \<Rightarrow> [] | Some d \<Rightarrow> d)"
        and n: "next_state_of outcome d = Inr next_state" and c: "confirm_import bi d next_state = Inr ()"
        and st': "st' = (dput (bi_posting_key bi) (observed_status_item now k h d next_state item) (fst st),
                  snd st @ [next_state])"
      show "?P st'"
      proof (cases "bi_posting_key bi = key")
        case True
        then have "si_status i \<notin> CONFIRMED"
          using P item by (auto simp: settled_def CONFIRMED_def)
        moreover have "bi \<in> set (ib_items b)" using bi sub by blast
        ultimately have "settled payload b observed (bi_posting_key bi) i
            (observed_status_item now k h d next_state item)"
          by (rule settled_observed [OF checks assms(2) _ _ d n c]) (simp add: observed_status_item_def)
        then show ?thesis using True by (simp add: st')
      next
        case False
        then show ?thesis using P by (simp add: st' dget_dput)
      qed
    qed (use P in simp)
  qed
  then show ?thesis by simp
qed

section \<open>All items of a batch move together\<close>

text \<open>
  Registering an export and beginning an import share a contract: a loop that moves the item under each
  key of the batch from one state to another, failing at the first item that is not in the source state.
  Since a moved item is no longer in the source state, a successful loop has found every item there,
  has moved each exactly once and has touched nothing else.
\<close>

locale keyed_move =
  fixes move :: "'b \<Rightarrow> 'a dict \<Rightarrow> exc + 'a dict"
    and key :: "'b \<Rightarrow> string"
    and pre :: "'b \<Rightarrow> 'a \<Rightarrow> bool"
    and post :: "'b \<Rightarrow> 'a \<Rightarrow> 'a"
  assumes step: "move b d = Inr d' \<Longrightarrow> \<exists>i. dget d (key b) = Some i \<and> pre b i \<and> d' = dput (key b) (post b i) d"
    and moved: "\<not> pre b' (post b i)"
begin

lemma moves:
  "res_fold move bs d = Inr d' \<Longrightarrow>
    (\<forall>b\<in>set bs. \<exists>i. dget d (key b) = Some i \<and> pre b i \<and> dget d' (key b) = Some (post b i))
    \<and> (\<forall>k. k \<notin> key ` set bs \<longrightarrow> dget d' k = dget d k)"
proof (induction bs arbitrary: d)
  case Nil
  then show ?case by simp
next
  case (Cons b bs)
  then obtain d1 where d1: "move b d = Inr d1" and rest: "res_fold move bs d1 = Inr d'"
    by (auto simp: res_bind_eq_Inr)
  obtain i where i: "dget d (key b) = Some i" "pre b i" "d1 = dput (key b) (post b i) d"
    using step [OF d1] by blast
  note IH = Cons.IH [OF rest]
  have new: "key b' \<noteq> key b" if "b' \<in> set bs" for b'
    using IH that moved by (fastforce simp: i(3))
  then have "key b \<notin> key ` set bs" by force
  with IH i new show ?case by (auto simp: dget_dput)
qed

end

interpretation register: keyed_move "register_item now batch" bi_posting_key
  "\<lambda>bi i. si_status i = Approved \<and> si_approved_revision_hash i = bi_proposal_revision_hash bi"
  "exported_status_item now batch" for now batch
  by unfold_locales (auto simp: register_item_def exported_status_item_def split: option.splits if_splits)

definition importing_item :: "string \<Rightarrow> string \<Rightarrow> string \<Rightarrow> voucher_status_item \<Rightarrow> voucher_status_item" where
  "importing_item now batch_id auth_hash item =
     item\<lparr>si_status := Importing, si_item_revision := si_item_revision item + 1,
       si_audit := si_audit item @ [batch_audit now ''exported->importing''
         (VDict [(''batch_id'', VStr batch_id), (''authorization_hash'', VStr auth_hash)])]\<rparr>"

interpretation begins: keyed_move "begin_item now batch_id h" bi_posting_key
  "\<lambda>bi i. si_status i = Exported \<and> si_batch_id i = batch_id" "\<lambda>bi. importing_item now batch_id h" for now batch_id h
  by unfold_locales (auto simp: begin_item_def importing_item_def split: option.splits if_splits)

section \<open>Properties\<close>

text \<open>C3: A new export registers only approved vouchers, each approved at exactly the proposal revision
  that the batch exports; all of them become exported under the batch with their planned numbers, and
  no other voucher changes.\<close>

theorem export_only_what_was_approved:
  assumes "mutate_store now fresh (register_mutator now batch) (Some e) s = Inr (s', r)"
    and "dget (vs_batches s) (ib_batch_id batch) = None"
  shows "e = vs_revision s \<and> dget (vs_batches s') (ib_batch_id batch) = Some batch
    \<and> (\<forall>bi\<in>set (ib_items batch). \<exists>i i'. dget (vs_items s) (bi_posting_key bi) = Some i
         \<and> si_status i = Approved \<and> si_approved_revision_hash i = bi_proposal_revision_hash bi
         \<and> dget (vs_items s') (bi_posting_key bi) = Some i' \<and> si_status i' = Exported
         \<and> si_batch_id i' = ib_batch_id batch \<and> si_voucher_no i' = bi_planned_voucher_no bi
         \<and> si_snapshot i' = si_snapshot i)
    \<and> (\<forall>k. k \<notin> bi_posting_key ` set (ib_items batch) \<longrightarrow> dget (vs_items s') k = dget (vs_items s) k)"
proof -
  obtain items where fold: "res_fold (register_item now batch) (ib_items batch) (vs_items s) = Inr items"
    and s': "vs_items s' = items" "vs_batches s' = dput (ib_batch_id batch) batch (vs_batches s)"
    and e: "e = vs_revision s"
    using assms by (auto simp: mutate_store_Inr register_mutator_def res_bind_eq_Inr)
  from register.moves [OF fold] show ?thesis
    by (auto simp: s' e exported_status_item_def) blast?
qed

text \<open>C2: An import begins only for a batch that awaits authorization, with an unchanged file, under an
  authorization that names this batch, file, ledger and period and carries a command and a person; every
  voucher of the batch was exported in it and is now importing, nothing else changes, and no second
  authorization can begin the batch again from there.\<close>

theorem begin_is_authorized_once:
  assumes "mutate_store now fresh (begin_mutator now fs k authorization) e s = Inr (s', b')"
  shows "\<exists>b bytes. dget (vs_batches s) k = Some b \<and> ib_state b = AwaitingAuthorization \<and> ib_state b' = Applying
    \<and> dget (vs_batches s') k = Some b'
    \<and> fs (ib_file_path b) = Some bytes \<and> sha256 bytes = ib_file_sha256 b
    \<and> gets authorization ''batch_id'' = ib_batch_id b \<and> gets authorization ''file_sha256'' = ib_file_sha256 b
    \<and> gets authorization ''ledger_name'' = ib_ledger_name b \<and> gets authorization ''period'' = ib_period b
    \<and> strip (gets authorization ''command_id'') \<noteq> [] \<and> strip (gets authorization ''authorized_by'') \<noteq> []
    \<and> (\<forall>bi\<in>set (ib_items b). \<exists>i i'. dget (vs_items s) (bi_posting_key bi) = Some i
         \<and> si_status i = Exported \<and> si_batch_id i = k
         \<and> dget (vs_items s') (bi_posting_key bi) = Some i' \<and> si_status i' = Importing)
    \<and> (\<forall>x. x \<notin> bi_posting_key ` set (ib_items b) \<longrightarrow> dget (vs_items s') x = dget (vs_items s) x)
    \<and> (\<forall>now' fs' authorization'. \<exists>err. begin_mutator now' fs' k authorization' s' = Inl err)"
proof -
  obtain b items h where b: "dget (vs_batches s) k = Some b" "ib_state b = AwaitingAuthorization"
    and same: "verified_batch_file fs b = Inr ()"
    and auth: "\<not> (\<exists>p\<in>set (authorization_fields b). gets authorization (fst p) \<noteq> snd p)"
    and who: "strip (gets authorization ''command_id'') \<noteq> []" "strip (gets authorization ''authorized_by'') \<noteq> []"
    and fold: "res_fold (begin_item now k h) (ib_items b) (vs_items s) = Inr items"
    and s': "vs_items s' = items" "vs_batches s' = dput k b' (vs_batches s)" and b': "ib_state b' = Applying"
    using assms
    by (auto simp: mutate_store_Inr begin_mutator_def res_bind_eq_Inr Let_def split: option.splits if_split_asm)
  obtain bytes where bytes: "fs (ib_file_path b) = Some bytes" "sha256 bytes = ib_file_sha256 b"
    using same by (auto simp: verified_batch_file_def split: option.splits)
  have items: "\<forall>bi\<in>set (ib_items b). \<exists>i i'. dget (vs_items s) (bi_posting_key bi) = Some i
         \<and> si_status i = Exported \<and> si_batch_id i = k
         \<and> dget items (bi_posting_key bi) = Some i' \<and> si_status i' = Importing"
    using begins.moves [OF fold] by (fastforce simp: importing_item_def)
  have again: "\<exists>err. begin_mutator now' fs' k authorization' s' = Inl err" for now' fs' authorization'
    by (simp add: begin_mutator_def s' b')
  show ?thesis
    using b bytes auth who items again begins.moves [OF fold] b'
    by (intro exI [of _ b] exI [of _ bytes]) (simp add: s' authorization_fields_def)
qed

text \<open>C1: Finalizing never changes a voucher whose result is confirmed, and every new confirmation has its
  evidence: a voucher becomes imported only with a readback and an observation of it that carries the
  exported signature and a voucher number, and becomes failed only if the commit was not attempted or a
  readback confirms its absence.\<close>

theorem finalize_needs_evidence:
  assumes "mutate_store now fresh (finalize_mutator now k payload) e s = Inr (s', r)"
    and "dget (vs_items s) key = Some i"
  shows "\<exists>i'. dget (vs_items s') key = Some i'
    \<and> (si_status i \<in> {Imported, ImportFailedConfirmed} \<longrightarrow> i' = i)
    \<and> (i' \<noteq> i \<longrightarrow> si_status i' = Imported \<longrightarrow> readback_hash payload \<noteq> []
         \<and> (\<exists>b bi observed d. dget (vs_batches s) k = Some b \<and> bi \<in> set (ib_items b) \<and> bi_posting_key bi = key
              \<and> observed_items payload = Inr observed \<and> dget observed key = Some d
              \<and> gets d ''signature_hash'' = bi_signature_hash bi \<and> observed_no d \<noteq> []))
    \<and> (i' \<noteq> i \<longrightarrow> si_status i' = ImportFailedConfirmed \<longrightarrow>
         is_true (evidence_of payload) ''commit_not_attempted''
         \<or> readback_hash payload \<noteq> [] \<and> is_true (evidence_of payload) ''ledger_absence_confirmed'')"
proof -
  consider "s' = s" | items batches where "finalize_mutator now k payload s = Inr (Changed items batches r)"
    "vs_items s' = items"
    using assms(1) by (auto simp: mutate_store_Inr)
  then show ?thesis
  proof cases
    case 1
    then show ?thesis using assms(2) by simp
  next
    case 2
    from 2(1) show ?thesis
    proof (rule finalize_mutator_Changed)
      fix b mode observed states
      assume b: "dget (vs_batches s) k = Some b" and o: "gets payload ''outcome'' \<in> OUTCOMES"
        and obs: "observed_items payload = Inr observed"
        and checks: "finalize_checks payload b mode (gets payload ''outcome'') observed = Inr ()"
        and fold: "res_fold (finalize_item now k (canonical_sha256 (VDict payload)) (gets payload ''outcome'') observed)
          (ib_items b) (vs_items s, []) = Inr (items, states)"
      obtain i' where "dget items key = Some i'" "settled payload b observed key i i'"
        using finalize_items_settled [OF checks o fold subset_refl assms(2)] by blast
      then show ?thesis
        using b obs by (intro exI [of _ i']) (auto simp: 2(2) settled_def CONFIRMED_def)
    qed
  qed
qed

text \<open>C6: Reporting the same observation again is harmless: whenever a finalize succeeded, repeating it
  (later, in the resulting store) succeeds, changes nothing and returns the same batch and receipt,
  marked as a repetition.\<close>

theorem finalize_replay:
  assumes "mutate_store now fresh (finalize_mutator now k payload) e s = Inr (s', (b, again, receipt))"
  shows "mutate_store now' fresh' (finalize_mutator now' k payload) None s' = Inr (s', (b, True, receipt))"
proof -
  consider "s' = s" "finalize_mutator now k payload s = Inr (Unchanged (b, again, receipt))"
    | items batches where "finalize_mutator now k payload s = Inr (Changed items batches (b, again, receipt))"
      "vs_batches s' = batches"
    using assms by (auto simp: mutate_store_Inr)
  then have "finalize_mutator now' k payload s' = Inr (Unchanged (b, True, receipt))"
  proof cases
    case 1
    then show ?thesis
      by (auto simp: finalize_mutator_def Let_def res_bind_eq_Inr split: option.splits prod.splits)
  next
    case 2
    from 2(1) show ?thesis
      by (rule finalize_mutator_Changed) (simp add: finalize_mutator_def 2(2) finalized_batch_def Let_def)
  qed
  moreover have "\<not> migration_required s'"
    using assms by (auto simp: mutate_store_Inr)
  ultimately show ?thesis by (simp add: mutate_store_Inr)
qed

text \<open>Sample values, for the witnesses.\<close>

definition sample_batch_item :: import_batch_item where
  "sample_batch_item = \<lparr>bi_posting_key = ''k'', bi_proposal_revision_hash = ''h'', bi_export_row_no = 2,
     bi_export_row_end = 3, bi_planned_voucher_no = ''001'', bi_signature_hash = ''sig''\<rparr>"

definition sample_batch :: "batch_state \<Rightarrow> import_batch" where
  "sample_batch st = \<lparr>ib_schema_version = 1, ib_revision = 1, ib_batch_id = ''b'', ib_company_id = ''c1'',
     ib_ledger_environment = ''test'', ib_ledger_identity_sha256 = [], ib_ledger_profile_sha256 = [],
     ib_ledger_name = ''main'', ib_period = ''2024-05'', ib_template_facts_version = [],
     ib_template_facts_sha256 = [], ib_account_table_sha256 = [], ib_aux_catalog_sha256 = [],
     ib_file_path = ''b.xlsx'', ib_file_sha256 = sha256 ''bytes'', ib_manifest_path = ''b/manifest.json'',
     ib_items = [sample_batch_item], ib_expected_count = 1, ib_expected_debit_total = ''10.50'',
     ib_expected_credit_total = ''10.50'', ib_baseline = [], ib_state = st, ib_created_at = [],
     ib_dry_run_at = [], ib_authorized_at = [], ib_finalized_at = [], ib_authorization_hash = [],
     ib_observation_hash = [], ib_finalize_result = [], ib_observation_receipts = [], ib_audit = []\<rparr>"

definition batch_store :: "voucher_state \<Rightarrow> import_batch dict \<Rightarrow> voucher_status_store" where
  "batch_store st batches = (sample_store [(''k'', (sample_item st)\<lparr>si_batch_id := ''b'',
     si_approved_revision_hash := ''h''\<rparr>)])\<lparr>vs_batches := batches\<rparr>"

lemmas batch_sample_defs = batch_store_def sample_batch_def sample_batch_item_def sample_store_def sample_item_def
  initial_store_def mutate_store_def migration_required_def

theorem export_only_what_was_approved_witness:
  "\<exists>s' r. mutate_store ''t'' ''c2'' (register_mutator ''t'' (sample_batch Prepared)) (Some 4)
        (batch_store Approved []) = Inr (s', r)
    \<and> dget (vs_batches s') ''b'' = Some (sample_batch Prepared)"
proof -
  have "\<exists>s' r. mutate_store ''t'' ''c2'' (register_mutator ''t'' (sample_batch Prepared)) (Some 4)
        (batch_store Approved []) = Inr (s', r)"
    by (simp add: batch_sample_defs register_mutator_def register_item_def)
  then obtain s' r where ok: "mutate_store ''t'' ''c2'' (register_mutator ''t'' (sample_batch Prepared)) (Some 4)
        (batch_store Approved []) = Inr (s', r)" by blast
  have "dget (vs_batches (batch_store Approved [])) (ib_batch_id (sample_batch Prepared)) = None"
    by (simp add: batch_store_def)
  from export_only_what_was_approved [OF ok this] ok show ?thesis
    by (auto simp: sample_batch_def)
qed

definition sample_authorization :: vdict where
  "sample_authorization = [(''batch_id'', VStr ''b''), (''file_sha256'', VStr (sha256 ''bytes'')),
     (''ledger_name'', VStr ''main''), (''period'', VStr ''2024-05''), (''command_id'', VStr ''x''),
     (''authorized_by'', VStr ''ann'')]"

theorem begin_is_authorized_once_witness:
  "\<exists>s' b'. mutate_store ''t'' ''c2'' (begin_mutator ''t'' [''b.xlsx'' \<mapsto> ''bytes''] ''b'' sample_authorization) None
        (batch_store Exported [(''b'', sample_batch AwaitingAuthorization)]) = Inr (s', b')
    \<and> ib_state b' = Applying"
proof -
  let ?s = "batch_store Exported [(''b'', sample_batch AwaitingAuthorization)]"
  have strip: "strip ''x'' = ''x''" "strip ''ann'' = ''ann''" by code_simp+
  have "\<exists>s' b'. mutate_store ''t'' ''c2'' (begin_mutator ''t'' [''b.xlsx'' \<mapsto> ''bytes''] ''b'' sample_authorization) None ?s
      = Inr (s', b')"
    by (simp add: batch_sample_defs begin_mutator_def verified_batch_file_def authorization_fields_def
        sample_authorization_def gets_or_def get_val_def strip begin_item_def Let_def)
  then obtain s' b' where ok: "mutate_store ''t'' ''c2'' (begin_mutator ''t'' [''b.xlsx'' \<mapsto> ''bytes''] ''b''
      sample_authorization) None ?s = Inr (s', b')" by blast
  from begin_is_authorized_once [OF this] ok show ?thesis by blast
qed

definition sample_observation :: vdict where
  "sample_observation = [(''mode'', VStr ''apply''), (''outcome'', VStr ''confirmed_success''),
     (''evidence'', VDict [(''readback_hash'', VStr ''r'')]),
     (''items'', VList [VDict [(''posting_key'', VStr ''k''), (''observed_state'', VStr ''imported''),
        (''signature_hash'', VStr ''sig''), (''voucher_no'', VStr ''7'')]])]"

lemma sample_finalize:
  "\<exists>s' r. mutate_store ''t'' ''c2'' (finalize_mutator ''t'' ''b'' sample_observation) None
      (batch_store Importing [(''b'', sample_batch Applying)]) = Inr (s', r)"
proof -
  have strip: "strip ''r'' = ''r''" "strip ''k'' = ''k''" "strip ''7'' = ''7''" by code_simp+
  have obs: "observed_items sample_observation = Inr [(''k'', [(''posting_key'', VStr ''k''),
      (''observed_state'', VStr ''imported''), (''signature_hash'', VStr ''sig''), (''voucher_no'', VStr ''7'')])]"
    by (simp add: observed_items_def sample_observation_def observe_item_def get_val_def gets_or_def strip dhas_def Let_def)
  have outcome: "gets sample_observation ''outcome'' = ''confirmed_success''"
    by (simp add: sample_observation_def gets_or_def get_val_def)
  have mode: "finalize_mode sample_observation (sample_batch Applying) = Inr ''apply''"
    by (simp add: finalize_mode_def sample_observation_def gets_or_def get_val_def sample_batch_def)
  have ev: "readback_hash sample_observation = ''r''" "evidence_of sample_observation = [(''readback_hash'', VStr ''r'')]"
    by (simp_all add: readback_hash_def evidence_of_def sample_observation_def gets_or_def get_val_def strip)
  have checks: "finalize_checks sample_observation (sample_batch Applying) ''apply'' ''confirmed_success''
      [(''k'', [(''posting_key'', VStr ''k''), (''observed_state'', VStr ''imported''),
        (''signature_hash'', VStr ''sig''), (''voucher_no'', VStr ''7'')])] = Inr ()"
    by (simp add: finalize_checks_def success_evidence_def ev sample_batch_def sample_batch_item_def observed_state_def
        gets_or_def get_val_def is_true_def failed_observation_keys_def)
  have "\<exists>p. finalize_item ''t'' ''b'' h ''confirmed_success'' [(''k'', [(''posting_key'', VStr ''k''),
      (''observed_state'', VStr ''imported''), (''signature_hash'', VStr ''sig''), (''voucher_no'', VStr ''7'')])]
      sample_batch_item (vs_items (batch_store Importing [(''b'', sample_batch Applying)]), []) = Inr p" for h
    by (simp add: finalize_item_def batch_sample_defs CONFIRMED_def next_state_of_def confirm_import_def
        gets_or_def get_val_def observed_no_def strip Let_def)
  then obtain p where "\<And>h. finalize_item ''t'' ''b'' h ''confirmed_success'' [(''k'', [(''posting_key'', VStr ''k''),
      (''observed_state'', VStr ''imported''), (''signature_hash'', VStr ''sig''), (''voucher_no'', VStr ''7'')])]
      sample_batch_item (vs_items (batch_store Importing [(''b'', sample_batch Applying)]), []) = Inr (p h)"
    by metis
  moreover have "dget (vs_batches (batch_store Importing [(''b'', sample_batch Applying)])) ''b'' = Some (sample_batch Applying)"
    "ib_observation_receipts (sample_batch Applying) = []" "ib_items (sample_batch Applying) = [sample_batch_item]"
    "\<not> migration_required (batch_store Importing [(''b'', sample_batch Applying)])"
    by (simp_all add: batch_sample_defs)
  ultimately show ?thesis
    by (simp add: mutate_store_def finalize_mutator_def outcome mode obs checks Let_def OUTCOMES_def split: prod.split)
      (rule exI [of _ False], simp)
qed

theorem finalize_needs_evidence_witness:
  "\<exists>s' r i'. mutate_store ''t'' ''c2'' (finalize_mutator ''t'' ''b'' sample_observation) None
      (batch_store Importing [(''b'', sample_batch Applying)]) = Inr (s', r)
    \<and> dget (vs_items s') ''k'' = Some i'
    \<and> (si_status i' = Imported \<longrightarrow> readback_hash sample_observation \<noteq> [])"
proof -
  obtain s' r where ok: "mutate_store ''t'' ''c2'' (finalize_mutator ''t'' ''b'' sample_observation) None
      (batch_store Importing [(''b'', sample_batch Applying)]) = Inr (s', r)" using sample_finalize by blast
  obtain i where i: "dget (vs_items (batch_store Importing [(''b'', sample_batch Applying)])) ''k'' = Some i"
    "si_status i = Importing"
    by (simp add: batch_sample_defs)
  obtain i' where i': "dget (vs_items s') ''k'' = Some i'"
    "i' \<noteq> i \<longrightarrow> si_status i' = Imported \<longrightarrow> readback_hash sample_observation \<noteq> []"
    using finalize_needs_evidence [OF ok i(1)] by blast
  have "si_status i' = Imported \<longrightarrow> readback_hash sample_observation \<noteq> []" using i i' by auto
  with ok i' show ?thesis by blast
qed

theorem finalize_replay_witness:
  "\<exists>s' b again receipt. mutate_store ''t2'' ''c2'' (finalize_mutator ''t2'' ''b'' sample_observation) None s'
      = Inr (s', (b, True, receipt)) \<and> vs_revision s' = 5"
proof -
  obtain s' r where ok: "mutate_store ''t'' ''c2'' (finalize_mutator ''t'' ''b'' sample_observation) None
      (batch_store Importing [(''b'', sample_batch Applying)]) = Inr (s', r)" using sample_finalize by blast
  obtain b again receipt where r: "r = (b, again, receipt)" by (cases r)
  have "vs_revision s' = 5"
    using ok by (auto simp: mutate_store_Inr finalize_mutator_def batch_sample_defs Let_def res_bind_eq_Inr)
  then show ?thesis using finalize_replay [OF ok [unfolded r], of "''t2''" "''c2''"] by blast
qed

end
