(* ===== verification/Account_Mapping.thy ===== *)
theory Account_Mapping
  imports State_Files "HOL-Library.Product_Lexorder" "HOL-Library.Multiset"
begin

text \<open>
  \<open>bookkeeping/mapping.py\<close>: the rules that map an invoice line to accounts. A rule has a scope
  (what it matches) and a target (accounts, auxiliary values, business class); its id is the SHA-1
  of its normalized scope. The store of rules is bound to one ledger, carries a hash of its own
  content, and is written by compare and swap on its revision.

  A \<open>Path\<close> argument is the content of the file; \<open>ld\<close> is \<open>load_mapping\<close> of it, and \<open>vrule\<close>
  pydantic's \<open>AccountMappingRule.model_validate\<close>. Arguments of type \<open>object\<close> that the code
  normalizes with \<open>str(value or "")\<close> are texts here.
\<close>

section \<open>Normalization\<close>

definition normalize_match_text :: "string \<Rightarrow> string" where
  "normalize_match_text value =
     strip (collapse_space (strip (replace1 ideographic_space '' '' (replace1 nbsp '' '' value))))"

definition mapping_key_separator :: string where
  "mapping_key_separator = [CHR 0x1F]"

definition MAPPING_VERSION :: int where
  "MAPPING_VERSION = 2"

definition account_mapping_rule_id ::
  "string \<Rightarrow> string \<Rightarrow> string \<Rightarrow> string \<Rightarrow> string \<Rightarrow> string \<Rightarrow> int \<Rightarrow> string" where
  "account_mapping_rule_id match_seller match_internal_project match_source_type match_item
       effective_from effective_to priority =
     sha1 (join mapping_key_separator
       [normalize_match_text match_source_type, normalize_match_text match_seller,
        normalize_match_text match_item, normalize_match_text match_internal_project,
        normalize_match_text effective_from, normalize_match_text effective_to,
        int_text priority])"

definition normalized_iso_date :: "string \<Rightarrow> string \<Rightarrow> exc + string" where
  "normalized_iso_date value field_name =
    (let text_value = normalize_match_text value
     in if text_value = [] then Inr []
        else case from_iso text_value of
            None \<Rightarrow> Inl (ValueError ''must be an ISO date'' [field_name])
          | Some d \<Rightarrow> Inr (iso_text d))"

definition normalized_rule :: "account_mapping_rule \<Rightarrow> exc + account_mapping_rule" where
  "normalized_rule rule =
    (let source_type = normalize_match_text (ru_match_source_type rule);
         seller = normalize_match_text (ru_match_seller rule);
         item = normalize_match_text (ru_match_item rule);
         project = normalize_match_text (ru_match_internal_project rule)
     in res_bind (normalized_iso_date (ru_effective_from rule) ''effective_from'') (\<lambda>effective_from.
        res_bind (normalized_iso_date (ru_effective_to rule) ''effective_to'') (\<lambda>effective_to.
        if effective_from \<noteq> [] \<and> effective_to \<noteq> [] \<and> effective_to < effective_from
        then Inl (ValueError ''effective_from cannot be after effective_to'' [])
        else Inr (rule\<lparr>ru_match_source_type := source_type, ru_match_seller := seller,
               ru_match_item := item, ru_match_internal_project := project,
               ru_effective_from := effective_from, ru_effective_to := effective_to,
               ru_rule_id := account_mapping_rule_id seller project source_type item
                 effective_from effective_to (ru_priority rule)\<rparr>))))"

definition normalize_mapping_rule :: "account_mapping_rule \<Rightarrow> exc + account_mapping_rule" where
  "normalize_mapping_rule = normalized_rule"

definition normalized_rules :: "account_mapping_rule list \<Rightarrow> exc + account_mapping_rule list" where
  "normalized_rules rules =
    res_bind (res_map normalized_rule rules) (\<lambda>normalized.
    if \<not> distinct (map ru_rule_id normalized)
    then Inl (ValueError ''mapping rules contain duplicate scope ids'' [])
    else Inr normalized)"

section \<open>Bindings and content hashes\<close>

record mapping_store_binding =
  bd_company_id :: string
  bd_ledger_environment :: string
  bd_ledger_identity_sha256 :: string
  bd_ledger_profile_sha256 :: string
  bd_account_table_sha256 :: string
  bd_aux_catalog_sha256 :: string

definition binding_payload :: "mapping_store_binding \<Rightarrow> vdict" where
  "binding_payload b =
    [(''company_id'', VStr (bd_company_id b)),
     (''ledger_environment'', VStr (bd_ledger_environment b)),
     (''ledger_identity_sha256'', VStr (bd_ledger_identity_sha256 b)),
     (''ledger_profile_sha256'', VStr (bd_ledger_profile_sha256 b)),
     (''account_table_sha256'', VStr (bd_account_table_sha256 b)),
     (''aux_catalog_sha256'', VStr (bd_aux_catalog_sha256 b))]"

text \<open>\<open>__post_init__\<close>\<close>

definition check_binding :: "mapping_store_binding \<Rightarrow> exc + mapping_store_binding" where
  "check_binding b =
    (if strip (bd_company_id b) = [] then Inl (ValueError ''binding company_id is required'' [])
     else if bd_ledger_environment b \<notin> {''production'', ''test''}
     then Inl (ValueError ''binding ledger_environment must be production or test'' [])
     else if \<not> list_all is_sha256_text
            [bd_ledger_identity_sha256 b, bd_ledger_profile_sha256 b, bd_account_table_sha256 b,
             bd_aux_catalog_sha256 b]
     then Inl (ValueError ''binding hash must be a lowercase SHA256'' [])
     else Inr b)"

definition binding_fields :: "string list" where
  "binding_fields = [''company_id'', ''ledger_environment'', ''ledger_identity_sha256'',
     ''ledger_profile_sha256'', ''account_table_sha256'', ''aux_catalog_sha256'']"

fun binding_from_payload :: "pyval \<Rightarrow> exc + mapping_store_binding" where
  "binding_from_payload (VDict d) =
    (if set (map fst d) \<noteq> set binding_fields
     then Inl (ValueError ''binding fields are incomplete or unknown'' [])
     else check_binding
       \<lparr>bd_company_id = py_str (get_val d ''company_id''),
        bd_ledger_environment = py_str (get_val d ''ledger_environment''),
        bd_ledger_identity_sha256 = py_str (get_val d ''ledger_identity_sha256''),
        bd_ledger_profile_sha256 = py_str (get_val d ''ledger_profile_sha256''),
        bd_account_table_sha256 = py_str (get_val d ''account_table_sha256''),
        bd_aux_catalog_sha256 = py_str (get_val d ''aux_catalog_sha256'')\<rparr>)"
| "binding_from_payload _ = Inl (TypeError ''binding must be an object'')"

definition mapping_rule_semantic_payload :: "account_mapping_rule \<Rightarrow> exc + vdict" where
  "mapping_rule_semantic_payload rule =
    res_bind (normalized_rule rule) (\<lambda>normalized.
      Inr (filter (\<lambda>p. fst p \<notin> {''confirmed_at'', ''confirmed_by''})
        (dump_account_mapping_rule normalized)))"

definition mapping_rule_fingerprint :: "account_mapping_rule \<Rightarrow> exc + string" where
  "mapping_rule_fingerprint rule =
    res_bind (mapping_rule_semantic_payload rule) (\<lambda>p. Inr (canonical_sha256 (VDict p)))"

definition mapping_rules_version ::
  "account_mapping_rule list \<Rightarrow> mapping_store_binding option \<Rightarrow> exc + string" where
  "mapping_rules_version rules binding =
    res_bind (normalized_rules rules) (\<lambda>normalized.
    res_bind (res_map mapping_rule_semantic_payload (sort_key ru_rule_id normalized)) (\<lambda>ps.
      Inr (canonical_sha256 (VDict
        [(''binding'', case binding of None \<Rightarrow> VNone | Some b \<Rightarrow> VDict (binding_payload b)),
         (''rules'', VList (map VDict ps))]))))"

section \<open>The store\<close>

record account_mapping_store =
  ms_version :: int
  ms_revision :: int
  ms_updated_at :: string
  ms_rules_version :: string
  ms_rules :: "account_mapping_rule list"
  ms_binding :: "mapping_store_binding option"
  ms_migration_receipts :: "vdict dict"

definition mapping_payload :: "account_mapping_store \<Rightarrow> vdict" where
  "mapping_payload s =
    [(''version'', VInt (ms_version s)), (''revision'', VInt (ms_revision s)),
     (''updated_at'', VStr (ms_updated_at s)), (''rules_version'', VStr (ms_rules_version s)),
     (''binding'', case ms_binding s of None \<Rightarrow> VNone | Some b \<Rightarrow> VDict (binding_payload b)),
     (''rules'', VList (map (\<lambda>r. VDict (dump_account_mapping_rule r)) (ms_rules s))),
     (''migration_receipts'', VDict (map (\<lambda>p. (fst p, VDict (snd p))) (ms_migration_receipts s)))]"

text \<open>\<open>for item in raw_rules: ... AccountMappingRule.model_validate(item)\<close>\<close>

fun parse_rule :: "(vdict \<Rightarrow> account_mapping_rule option) \<Rightarrow> pyval \<Rightarrow> exc + account_mapping_rule" where
  "parse_rule vrule (VDict d) =
     (case vrule d of None \<Rightarrow> Inl (ValueError ''validation error'' []) | Some r \<Rightarrow> Inr r)"
| "parse_rule vrule _ = Inl (TypeError ''each mapping rule must be an object'')"

definition validate_v1_payload ::
  "(vdict \<Rightarrow> account_mapping_rule option) \<Rightarrow> vdict \<Rightarrow> exc + unit" where
  "validate_v1_payload vrule payload =
    res_bind (py_int (get_default payload ''revision'' (VInt 0))) (\<lambda>revision.
    if revision < 0 then Inl (ValueError ''mapping revision cannot be negative'' [])
    else case get_default payload ''rules'' (VList []) of
        VList raw \<Rightarrow> res_bind (res_map (parse_rule vrule) raw) (\<lambda>_. Inr ())
      | _ \<Rightarrow> Inl (TypeError ''rules must be an array''))"

definition empty_mapping_store :: "exc + account_mapping_store" where
  "empty_mapping_store =
    res_bind (mapping_rules_version [] None) (\<lambda>v.
      Inr \<lparr>ms_version = MAPPING_VERSION, ms_revision = 0, ms_updated_at = [], ms_rules_version = v,
           ms_rules = [], ms_binding = None, ms_migration_receipts = []\<rparr>)"

definition load_rules ::
  "(vdict \<Rightarrow> account_mapping_rule option) \<Rightarrow> pyval \<Rightarrow> exc + account_mapping_rule list" where
  "load_rules vrule raw_rules =
    (case raw_rules of
       VList raw \<Rightarrow>
         res_bind (res_map (\<lambda>v. res_bind (parse_rule vrule v) normalized_rule) raw) normalized_rules
     | _ \<Rightarrow> Inl (TypeError ''rules must be an array''))"

definition load_binding :: "pyval \<Rightarrow> exc + mapping_store_binding option" where
  "load_binding v = (if v = VNone then Inr None else res_bind (binding_from_payload v) (\<lambda>b. Inr (Some b)))"

definition load_receipts :: "pyval \<Rightarrow> exc + vdict dict" where
  "load_receipts v =
    (case v of
       VDict d \<Rightarrow> res_map (\<lambda>(k, x). case x of VDict r \<Rightarrow> Inr (k, r)
           | _ \<Rightarrow> Inl (TypeError ''migration_receipts must be an object of receipt objects'')) d
     | _ \<Rightarrow> Inl (TypeError ''migration_receipts must be an object of receipt objects''))"

definition decode_mapping ::
  "(vdict \<Rightarrow> account_mapping_rule option) \<Rightarrow> vdict \<Rightarrow> exc + account_mapping_store" where
  "decode_mapping vrule payload =
    res_bind (py_int (get_default payload ''version'' (VInt 1))) (\<lambda>version.
    if version = 1
    then res_bind (validate_v1_payload vrule payload) (\<lambda>_. Inl (MappingMigrationRequired version))
    else if version \<noteq> MAPPING_VERSION then Inl (ValueError ''unsupported mapping schema version'' [])
    else res_bind (py_int (get_val payload ''revision'')) (\<lambda>revision.
      if revision < 0 then Inl (ValueError ''mapping revision cannot be negative'' [])
      else res_bind (load_rules vrule (get_val payload ''rules'')) (\<lambda>rules.
        res_bind (load_binding (get_val payload ''binding'')) (\<lambda>binding.
        res_bind (load_receipts (get_default payload ''migration_receipts'' (VDict []))) (\<lambda>receipts.
        res_bind (mapping_rules_version rules binding) (\<lambda>expected.
        if gets payload ''rules_version'' \<noteq> expected
        then Inl (ValueError ''mapping rules_version does not match rule content'' [])
        else case get_val payload ''updated_at'' of
            VStr updated_at \<Rightarrow>
              Inr \<lparr>ms_version = version, ms_revision = revision, ms_updated_at = updated_at,
                   ms_rules_version = gets payload ''rules_version'', ms_rules = rules,
                   ms_binding = binding, ms_migration_receipts = receipts\<rparr>
          | _ \<Rightarrow> Inl (TypeError ''updated_at must be a string'')))))))"

definition load_mapping ::
  "(vdict \<Rightarrow> account_mapping_rule option) \<Rightarrow> store_file \<Rightarrow> exc + account_mapping_store" where
  "load_mapping vrule f =
    (if f = NoFile then empty_mapping_store
     else res_bind (strict_read_json_object f) (\<lambda>payload.
       case decode_mapping vrule payload of
         Inl (MappingMigrationRequired v) \<Rightarrow> Inl (MappingMigrationRequired v)
       | Inl e \<Rightarrow> Inl (StateCorruption ''bookkeeping_mapping_schema_invalid'')
       | Inr s \<Rightarrow> Inr s))"

section \<open>Writing\<close>

text \<open>The checks that \<open>write_mapping\<close> and \<open>append_rule\<close> share.\<close>

definition check_rebinding ::
  "int option \<Rightarrow> mapping_store_binding option \<Rightarrow> account_mapping_store \<Rightarrow> exc + unit" where
  "check_rebinding expected binding current =
    res_bind (check_revision ''mapping'' expected (ms_revision current)) (\<lambda>_.
    if ms_binding current \<noteq> None \<and> binding \<noteq> None \<and> ms_binding current \<noteq> binding
    then Inl (ValueError ''mapping is bound to another ledger'' [])
    else if ms_binding current = None \<and> ms_rules current \<noteq> [] \<and> binding \<noteq> None
    then Inl (ValueError ''unbound rules cannot be bound as a whole'' [])
    else Inr ())"

definition write_mapping_store ::
  "string \<Rightarrow> account_mapping_rule list \<Rightarrow> string option \<Rightarrow> int option \<Rightarrow> mapping_store_binding option
    \<Rightarrow> account_mapping_store \<Rightarrow> exc + account_mapping_store" where
  "write_mapping_store now rules updated_at expected binding current =
    res_bind (check_rebinding expected binding current) (\<lambda>_.
    res_bind (normalized_rules rules) (\<lambda>normalized.
    let resolved_binding = (if binding = None then ms_binding current else binding)
    in res_bind (mapping_rules_version normalized resolved_binding) (\<lambda>v.
      Inr \<lparr>ms_version = MAPPING_VERSION, ms_revision = ms_revision current + 1,
           ms_updated_at = text_or (if_given updated_at []) now, ms_rules_version = v,
           ms_rules = normalized, ms_binding = resolved_binding,
           ms_migration_receipts = ms_migration_receipts current\<rparr>)))"

definition mapping_to_file :: "account_mapping_store \<Rightarrow> store_file" where
  "mapping_to_file s = atomic_write_json_durable (mapping_payload s)"

definition write_mapping ::
  "(store_file \<Rightarrow> exc + account_mapping_store) \<Rightarrow> string \<Rightarrow> account_mapping_rule list \<Rightarrow> string option
    \<Rightarrow> int option \<Rightarrow> mapping_store_binding option \<Rightarrow> store_file
    \<Rightarrow> exc + store_file \<times> account_mapping_store" where
  "write_mapping ld now rules updated_at expected binding f =
    res_bind (ld f) (\<lambda>current.
    res_bind (write_mapping_store now rules updated_at expected binding current) (\<lambda>s.
      Inr (mapping_to_file s, s)))"

definition rule_signature :: "account_mapping_rule \<Rightarrow> string list \<times> int \<times> string dict \<times> string list" where
  "rule_signature r =
    ([ru_match_seller r, ru_match_source_type r, ru_match_item r, ru_match_internal_project r,
      ru_effective_from r, ru_effective_to r, ru_debit_account_code r, ru_debit_account_name r,
      ru_credit_account_code r, ru_credit_account_name r, ru_tax_account_code r,
      ru_business_class r, ru_activation_state r, ru_source r],
     ru_priority r, dsorted (ru_aux_dimensions r), ru_legacy_rule_ids r)"

text \<open>What \<open>append_rule\<close> decides: the rule it returns, and the new rules if it writes.\<close>

definition append_plan ::
  "account_mapping_rule \<Rightarrow> string \<Rightarrow> account_mapping_rule list
    \<Rightarrow> exc + account_mapping_rule \<times> account_mapping_rule list option" where
  "append_plan rule replaces_rule_id current_rules =
    res_bind (normalized_rule rule) (\<lambda>stored.
    let existing = find (\<lambda>r. ru_rule_id r = ru_rule_id stored) current_rules;
        replacement_id = normalize_match_text replaces_rule_id;
        replacement = (if replacement_id = [] then None
                       else find (\<lambda>r. ru_rule_id r = replacement_id) current_rules)
    in if replacement_id \<noteq> [] \<and> replacement = None
       then Inl (ValueError ''the rule to replace does not exist or has changed'' [])
       else if replacement_id \<noteq> [] \<and> ru_source stored \<noteq> ''manual''
       then Inl (ValueError ''an AI mapping may not replace a rule'' [])
       else case existing of
           Some e \<Rightarrow>
             if rule_signature e = rule_signature stored
               \<and> (case replacement of None \<Rightarrow> True | Some p \<Rightarrow> ru_rule_id p = ru_rule_id e)
             then Inr (e, None)
             else if ru_source e = ''manual'' \<and> ru_source stored = ''ai_confirmed''
             then Inl (ValueError ''an AI mapping cannot replace a manual mapping'' [])
             else if ru_source stored = ''manual'' \<and> replacement_id \<noteq> ru_rule_id e
             then Inl (ValueError ''replacing a rule takes its replaces_rule_id'' [])
             else if (case replacement of None \<Rightarrow> False
                      | Some p \<Rightarrow> ru_source p = ''manual'' \<and> ru_source stored \<noteq> ''manual'')
             then Inl (ValueError ''an AI mapping cannot replace a manual mapping'' [])
             else if (case replacement of None \<Rightarrow> False | Some p \<Rightarrow> ru_rule_id p \<noteq> ru_rule_id e)
             then Inl (ValueError ''the scope of the new mapping is taken'' [])
             else Inr (stored, Some (filter (\<lambda>r. ru_rule_id r \<noteq> ru_rule_id e
                 \<and> (case replacement of None \<Rightarrow> True | Some p \<Rightarrow> ru_rule_id r \<noteq> ru_rule_id p)) current_rules
               @ [stored]))
         | None \<Rightarrow>
             if (case replacement of None \<Rightarrow> False
                 | Some p \<Rightarrow> ru_source p = ''manual'' \<and> ru_source stored \<noteq> ''manual'')
             then Inl (ValueError ''an AI mapping cannot replace a manual mapping'' [])
             else Inr (stored, Some (filter (\<lambda>r. case replacement of None \<Rightarrow> True
                 | Some p \<Rightarrow> ru_rule_id r \<noteq> ru_rule_id p) current_rules @ [stored])))"

definition resolved_binding ::
  "account_mapping_store \<Rightarrow> mapping_store_binding option \<Rightarrow> mapping_store_binding option" where
  "resolved_binding current binding = (if ms_binding current = None then binding else ms_binding current)"

definition append_rule_store ::
  "string \<Rightarrow> account_mapping_rule \<Rightarrow> int option \<Rightarrow> string \<Rightarrow> mapping_store_binding option
    \<Rightarrow> account_mapping_store \<Rightarrow> exc + account_mapping_store \<times> account_mapping_rule" where
  "append_rule_store now rule expected replaces_rule_id binding current =
    res_bind (check_rebinding expected binding current) (\<lambda>_.
    res_bind (append_plan rule replaces_rule_id (ms_rules current)) (\<lambda>(r, plan).
      case plan of
        None \<Rightarrow> Inr (current, r)
      | Some rules \<Rightarrow>
          res_bind (write_mapping_store now rules None (Some (ms_revision current))
              (resolved_binding current binding) current) (\<lambda>s. Inr (s, r))))"

definition append_rule ::
  "(store_file \<Rightarrow> exc + account_mapping_store) \<Rightarrow> string \<Rightarrow> account_mapping_rule \<Rightarrow> int option \<Rightarrow> string
    \<Rightarrow> mapping_store_binding option \<Rightarrow> store_file \<Rightarrow> exc + store_file \<times> account_mapping_rule" where
  "append_rule ld now rule expected replaces_rule_id binding f =
    res_bind (ld f) (\<lambda>current.
    res_bind (append_rule_store now rule expected replaces_rule_id binding current) (\<lambda>(s, r).
      Inr (if s = current then f else mapping_to_file s, r)))"

section \<open>Matching\<close>

record match_context =
  mc_seller :: string
  mc_internal_project :: string
  mc_source_type :: string
  mc_item :: string
  mc_effective_date :: string

definition scope_matches :: "match_context \<Rightarrow> account_mapping_rule \<Rightarrow> bool" where
  "scope_matches c r \<longleftrightarrow> list_all (\<lambda>(expected, value). expected = [] \<or> expected = value)
     [(ru_match_source_type r, normalize_match_text (mc_source_type c)),
      (ru_match_seller r, normalize_match_text (mc_seller c)),
      (ru_match_item r, normalize_match_text (mc_item c)),
      (ru_match_internal_project r, normalize_match_text (mc_internal_project c))]"

definition date_matches :: "string \<Rightarrow> account_mapping_rule \<Rightarrow> bool" where
  "date_matches context_date r \<longleftrightarrow>
     \<not> ((ru_effective_from r \<noteq> [] \<or> ru_effective_to r \<noteq> []) \<and> context_date = [])
     \<and> \<not> (ru_effective_from r \<noteq> [] \<and> context_date < ru_effective_from r)
     \<and> \<not> (ru_effective_to r \<noteq> [] \<and> ru_effective_to r < context_date)"

definition rule_applies_to_context :: "match_context \<Rightarrow> account_mapping_rule \<Rightarrow> exc + bool" where
  "rule_applies_to_context c rule =
    res_bind (normalized_rule rule) (\<lambda>normalized.
    if ru_activation_state normalized \<noteq> ''active'' then Inr False
    else if \<not> scope_matches c normalized then Inr False
    else res_bind (normalized_iso_date (mc_effective_date c) ''effective_date'') (\<lambda>context_date.
      Inr (date_matches context_date normalized)))"

definition rule_specificity :: "account_mapping_rule \<Rightarrow> int" where
  "rule_specificity r = int (length (filter id
     [ru_match_source_type r \<noteq> [], ru_match_seller r \<noteq> [], ru_match_item r \<noteq> [],
      ru_match_internal_project r \<noteq> [], ru_effective_from r \<noteq> [] \<or> ru_effective_to r \<noteq> []]))"

definition rule_rank :: "account_mapping_rule \<Rightarrow> int \<times> int \<times> int" where
  "rule_rank r = (if ru_source r = ''manual'' then 1 else 0, rule_specificity r, ru_priority r)"

definition rule_target :: "account_mapping_rule \<Rightarrow> string list \<times> string dict" where
  "rule_target r =
    ([ru_debit_account_code r, ru_debit_account_name r, ru_credit_account_code r,
      ru_credit_account_name r, ru_tax_account_code r, ru_business_class r],
     dsorted (ru_aux_dimensions r))"

definition max_of :: "'a::linorder list \<Rightarrow> 'a" where
  "max_of xs = fold max (tl xs) (hd xs)"

text \<open>\<open>min(xs, key=f)\<close>: the first element with the least key.\<close>

definition min_by :: "('a \<Rightarrow> 'k::linorder) \<Rightarrow> 'a list \<Rightarrow> 'a" where
  "min_by f xs = fold (\<lambda>y m. if f y < f m then y else m) (tl xs) (hd xs)"

fun res_filter :: "('a \<Rightarrow> 'e + bool) \<Rightarrow> 'a list \<Rightarrow> 'e + 'a list" where
  "res_filter f [] = Inr []"
| "res_filter f (x # xs) =
     res_bind (f x) (\<lambda>b. res_bind (res_filter f xs) (\<lambda>ys. Inr (if b then x # ys else ys)))"

definition select_rule :: "account_mapping_rule list \<Rightarrow> exc + account_mapping_rule option" where
  "select_rule applicable =
    (if applicable = [] then Inr None
     else let best_rank = max_of (map rule_rank applicable);
              finalists = filter (\<lambda>r. rule_rank r = best_rank) applicable
          in if length (dedup (map rule_target finalists)) > 1
             then Inl (MappingAmbiguity (sort (map ru_rule_id finalists)) best_rank)
             else Inr (Some (min_by ru_rule_id finalists)))"

definition match_rules ::
  "account_mapping_rule list \<Rightarrow> match_context \<Rightarrow> exc + account_mapping_rule option" where
  "match_rules rules c =
    res_bind (res_map normalized_rule rules) (\<lambda>normalized.
    res_bind (res_filter (rule_applies_to_context c) normalized) select_rule)"

datatype rules_or_path = RuleList "account_mapping_rule list" | MappingPath store_file

fun match_account_rule ::
  "(store_file \<Rightarrow> exc + account_mapping_store) \<Rightarrow> rules_or_path \<Rightarrow> match_context \<Rightarrow> bool
    \<Rightarrow> exc + account_mapping_rule option" where
  "match_account_rule ld (MappingPath f) c require_bound =
    res_bind (ld f) (\<lambda>store.
    if require_bound \<and> ms_binding store = None then Inl MappingStoreUnbound
    else match_rules (ms_rules store) c)"
| "match_account_rule ld (RuleList rules) c require_bound =
    (if require_bound then Inl MappingStoreUnbound else match_rules rules c)"

text \<open>\<open>by_id = {...}\<close>: of two rules with the same id the last one counts.\<close>

definition ambiguous_resolution ::
  "account_mapping_rule list \<Rightarrow> string \<Rightarrow> string list \<Rightarrow> exc + voucher_rule_resolution" where
  "ambiguous_resolution rules source_line_id rule_ids =
    res_bind (res_map normalized_rule rules) (\<lambda>normalized.
    let by_id = fold (\<lambda>r. dput (ru_rule_id r) r) normalized [];
        candidates = sort_key ru_rule_id
          (concat (map (\<lambda>k. case dget by_id k of None \<Rightarrow> [] | Some r \<Rightarrow> [r]) rule_ids))
    in res_bind (res_map mapping_rule_fingerprint candidates) (\<lambda>fingerprints.
      Inr \<lparr>rr_source_line_id = source_line_id, rr_outcome = ''ambiguous'', rr_rule_id = [],
           rr_rule_fingerprint = [], rr_candidate_rule_ids = map ru_rule_id candidates,
           rr_candidate_rule_fingerprints = fingerprints\<rparr>))"

definition resolve_account_mapping ::
  "account_mapping_rule list \<Rightarrow> string \<Rightarrow> match_context
    \<Rightarrow> exc + voucher_rule_resolution \<times> account_mapping_rule option" where
  "resolve_account_mapping rules source_line_id c =
    (let line = normalize_match_text source_line_id;
         empty = \<lparr>rr_source_line_id = line, rr_outcome = ''unmatched'', rr_rule_id = [],
                  rr_rule_fingerprint = [], rr_candidate_rule_ids = [],
                  rr_candidate_rule_fingerprints = []\<rparr>
     in case match_rules rules c of
          Inl (MappingAmbiguity rule_ids rank) \<Rightarrow>
            res_bind (ambiguous_resolution rules line rule_ids) (\<lambda>r. Inr (r, None))
        | Inl e \<Rightarrow> Inl e
        | Inr None \<Rightarrow> Inr (empty, None)
        | Inr (Some rule) \<Rightarrow>
            res_bind (normalized_rule rule) (\<lambda>normalized.
            res_bind (mapping_rule_fingerprint normalized) (\<lambda>fingerprint.
              Inr (empty\<lparr>rr_outcome := ''matched'', rr_rule_id := ru_rule_id normalized,
                     rr_rule_fingerprint := fingerprint\<rparr>, Some normalized))))"

definition mapping_resolution_sha256 :: "voucher_rule_resolution list \<Rightarrow> string" where
  "mapping_resolution_sha256 resolutions =
     canonical_sha256 (VList (map (\<lambda>r. VDict (dump_voucher_rule_resolution r)) resolutions))"

end
