(* ===== verification/Rule_Scopes.thy ===== *)
theory Rule_Scopes
  imports Account_Mapping
begin

text \<open>
  The scope of a mapping rule: normalizing a text or a rule twice is normalizing it once, and a
  rule id determines the scope it was made from.
\<close>

section \<open>Normalized texts\<close>

text \<open>Characters of a normalized text: every space is a single blank between two other characters.\<close>

fun single_spaced :: "string list \<Rightarrow> bool" where
  "single_spaced [] = True"
| "single_spaced (x # xs) =
     ((uspace x \<longrightarrow> x = '' '' \<and> (xs = [] \<or> \<not> uspace (hd xs))) \<and> single_spaced xs)"

definition trimmed :: "string list \<Rightarrow> bool" where
  "trimmed xs \<longleftrightarrow> xs = [] \<or> \<not> uspace (hd xs) \<and> \<not> uspace (last xs)"

lemma uspace_blank [simp]: "uspace '' ''"
  by code_simp

lemma uwf_iff: "uwf xs \<longleftrightarrow> list_all uchar_wf xs \<and> list_all (\<lambda>y. \<not> cont_byte (hd y)) (tl xs)"
proof (induction xs)
  case (Cons x xs)
  then show ?case by (cases xs) (auto simp: list_all_iff)
qed simp

lemma uwf_ConsD: "uwf (x # xs) \<Longrightarrow> uwf xs"
  by simp

lemma uwf_dropWhile: "uwf xs \<Longrightarrow> uwf (dropWhile P xs)"
  by (induction xs) auto

lemma uwf_subset:
  assumes "uwf xs" and "uwf (y # ys)" "set zs \<subseteq> set xs" "\<forall>z\<in>set zs. \<not> cont_byte (hd z)"
  shows "uwf (y # zs)"
  using assms by (auto simp: uwf_iff list_all_iff)

lemma uchar_wf_blank [simp]: "uchar_wf '' ''" "\<not> cont_byte CHR '' ''"
  by (simp_all add: cont_byte_def byte_def)

lemma set_collapse_chars: "set (collapse_chars xs) \<subseteq> insert '' '' (set xs)"
  by (induction xs rule: collapse_chars.induct) (auto dest: set_dropWhileD)

lemma hd_collapse_chars:
  "collapse_chars xs \<noteq> [] \<longleftrightarrow> xs \<noteq> []"
  "xs \<noteq> [] \<Longrightarrow> \<not> uspace (hd xs) \<Longrightarrow> hd (collapse_chars xs) = hd xs"
  by (cases xs; simp)+

lemma uwf_collapse_chars: "uwf xs \<Longrightarrow> uwf (collapse_chars xs)"
proof (induction xs rule: collapse_chars.induct)
  case (2 x xs)
  have sub: "set (collapse_chars ys) \<subseteq> insert '' '' (set xs)" if "set ys \<subseteq> set xs" for ys
    using set_collapse_chars [of ys] that by auto
  have "set (dropWhile uspace xs) \<subseteq> set xs" by (auto dest: set_dropWhileD)
  with 2 sub [of xs] sub [of "dropWhile uspace xs"] show ?case
    by (auto simp: uwf_dropWhile)
qed simp

lemma uchars_collapse_space: "uchars (collapse_space s) = collapse_chars (uchars s)"
  unfolding collapse_space_def using uwf_uchars [of s]
  by (intro uchars_concat uwf_collapse_chars) auto

lemma single_spaced_collapse: "single_spaced (collapse_chars xs)"
proof (induction xs rule: collapse_chars.induct)
  case (2 x xs)
  show ?case
  proof (cases "uspace x")
    case True
    let ?r = "dropWhile uspace xs"
    have "?r = [] \<or> \<not> uspace (hd ?r)" by (metis hd_dropWhile)
    then have "collapse_chars ?r = [] \<or> \<not> uspace (hd (collapse_chars ?r))"
      using hd_collapse_chars [of ?r] by metis
    with 2 True show ?thesis by simp
  next
    case False
    with 2 show ?thesis by simp
  qed
qed simp

lemma collapse_single_spaced: "single_spaced xs \<Longrightarrow> collapse_chars xs = xs"
proof (induction xs rule: collapse_chars.induct)
  case (2 x xs)
  then have "uspace x \<Longrightarrow> dropWhile uspace xs = xs" by (cases xs) auto
  with 2 show ?case by auto
qed simp

lemma trimmed_strip_chars: "trimmed (strip_chars xs)"
proof -
  have "\<not> uspace (hd (strip_chars xs)) \<and> \<not> uspace (last (strip_chars xs))" if ne: "strip_chars xs \<noteq> []"
  proof
    have "dropWhile uspace (strip_chars xs) = strip_chars xs"
      unfolding strip_chars_def by (rule dropWhile_rev_dropWhile_id) (rule dropWhile_idem)
    then show "\<not> uspace (hd (strip_chars xs))" using ne by (metis hd_dropWhile)
    show "\<not> uspace (last (strip_chars xs))"
      using ne unfolding strip_chars_def by (metis hd_dropWhile last_rev rev.simps(1))
  qed
  then show ?thesis by (auto simp: trimmed_def)
qed

lemma strip_trimmed: "trimmed xs \<Longrightarrow> strip_chars xs = xs"
proof (cases "xs = []")
  case False
  assume "trimmed xs"
  with False have "dropWhile uspace xs = xs" "dropWhile uspace (rev xs) = rev xs"
    by (auto simp: trimmed_def dropWhile_eq_self_iff hd_rev)
  then show ?thesis by (simp add: strip_chars_def)
qed (simp add: strip_chars_def)

lemma single_spaced_appendD: "single_spaced (as @ bs) \<Longrightarrow> single_spaced as \<and> single_spaced bs"
proof (induction as)
  case (Cons a as)
  then show ?case by (cases as) auto
qed simp

lemma single_spaced_strip: "single_spaced xs \<Longrightarrow> single_spaced (strip_chars xs)"
  by (metis strip_chars_part single_spaced_appendD)

definition normal_chars :: "string list \<Rightarrow> bool" where
  "normal_chars xs \<longleftrightarrow> single_spaced xs \<and> trimmed xs"

lemma normal_normalize: "normal_chars (uchars (normalize_match_text s))"
  by (simp add: normal_chars_def normalize_match_text_def uchars_strip uchars_collapse_space
      trimmed_strip_chars single_spaced_strip single_spaced_collapse)

lemma uspace_nbsp: "uspace nbsp" "nbsp \<noteq> '' ''" "uspace ideographic_space" "ideographic_space \<noteq> '' ''"
  by (simp_all add: cp_def utf8_def uspace_def byte_def)

lemma single_spaced_space: "single_spaced xs \<Longrightarrow> x \<in> set xs \<Longrightarrow> uspace x \<Longrightarrow> x = '' ''"
  by (induction xs) auto

lemma replace1_absent: "a \<notin> set (uchars s) \<Longrightarrow> replace1 a b s = s"
proof -
  assume "a \<notin> set (uchars s)"
  then have "map (\<lambda>x. if x = a then b else x) (uchars s) = uchars s"
    by (auto intro: map_idI)
  then show ?thesis by (simp add: replace1_def)
qed

lemma normalize_normal: "normal_chars (uchars s) \<Longrightarrow> normalize_match_text s = s"
proof -
  assume n: "normal_chars (uchars s)"
  then have "nbsp \<notin> set (uchars s)" "ideographic_space \<notin> set (uchars s)"
    using single_spaced_space uspace_nbsp unfolding normal_chars_def by blast+
  then have "replace1 ideographic_space '' '' (replace1 nbsp '' '' s) = s"
    by (simp add: replace1_absent)
  moreover have "strip s = s" "collapse_space s = s"
    using n by (simp_all add: normal_chars_def strip_def collapse_space_def strip_trimmed
        collapse_single_spaced)
  ultimately show ?thesis by (simp add: normalize_match_text_def)
qed

lemma normalize_idem [simp]: "normalize_match_text (normalize_match_text s) = normalize_match_text s"
  by (rule normalize_normal [OF normal_normalize])

lemma normalize_Nil [simp]: "normalize_match_text [] = []"
  by (rule normalize_normal) (simp add: normal_chars_def trimmed_def)

lemma single_spaced_no_space: "list_all (\<lambda>x. \<not> uspace x) xs \<Longrightarrow> single_spaced xs"
  by (induction xs) auto

lemma normalize_no_space: "list_all (\<lambda>x. \<not> uspace x) (uchars s) \<Longrightarrow> normalize_match_text s = s"
proof -
  assume a: "list_all (\<lambda>x. \<not> uspace x) (uchars s)"
  then have "trimmed (uchars s)"
    unfolding trimmed_def list_all_iff by (metis hd_in_set last_in_set)
  with a show ?thesis
    by (simp add: normalize_normal normal_chars_def single_spaced_no_space)
qed

section \<open>Dates\<close>

text \<open>Printable ASCII without blanks.\<close>

definition solid :: "string \<Rightarrow> bool" where
  "solid s \<longleftrightarrow> list_all (\<lambda>c. 33 \<le> byte c \<and> byte c < 127) s"

lemma normalize_solid: "solid s \<Longrightarrow> normalize_match_text s = s"
proof -
  assume s: "solid s"
  then have "ascii s" by (auto simp: solid_def ascii_def list_all_iff)
  moreover have "\<not> uspace [c]" if "c \<in> set s" for c
    using s that by (auto simp: solid_def list_all_iff uspace_def)
  ultimately show ?thesis by (intro normalize_no_space) (auto simp: uchars_ascii list_all_iff)
qed

lemma normalize_iso_text: "valid_date d \<Longrightarrow> normalize_match_text (iso_text d) = iso_text d"
proof -
  assume v: "valid_date d"
  obtain y m n where d: "d = (y, m, n)" by (cases d) auto
  have "solid (fixed_digits w k)" for w k
    using fixed_digits_digits [of w k] by (auto simp: solid_def list_all_iff is_digit_def)
  with v d show ?thesis by (intro normalize_solid) (simp add: iso_text_fixed solid_def byte_def)
qed

lemma iso_text_not_Nil: "iso_text d \<noteq> []"
  by (cases d) (simp add: iso_text_def)

lemma normalized_iso_date_Inr:
  "normalized_iso_date v f = Inr t \<longleftrightarrow>
    (normalize_match_text v = [] \<and> t = []) \<or>
    (\<exists>d. normalize_match_text v \<noteq> [] \<and> from_iso (normalize_match_text v) = Some d \<and> t = iso_text d)"
  by (auto simp: normalized_iso_date_def Let_def split: option.splits)

lemma normalized_iso_date_result:
  assumes "normalized_iso_date v f = Inr t"
  shows "t = [] \<or> (\<exists>d. valid_date d \<and> t = iso_text d)"
    and "normalize_match_text t = t" and "normalized_iso_date t g = Inr t"
proof -
  show *: "t = [] \<or> (\<exists>d. valid_date d \<and> t = iso_text d)"
    using assms unfolding normalized_iso_date_Inr by (metis from_iso_valid)
  then show "normalize_match_text t = t" by (auto simp: normalize_iso_text)
  from * show "normalized_iso_date t g = Inr t"
    by (auto simp: normalized_iso_date_Inr normalize_iso_text iso_text_not_Nil from_iso_iso_text)
qed

section \<open>Normalized rules\<close>

text \<open>A rule as the store keeps it.\<close>

definition rule_normal :: "account_mapping_rule \<Rightarrow> bool" where
  "rule_normal r \<longleftrightarrow> normalized_rule r = Inr r"

text \<open>The rule with its scope normalized and the given dates.\<close>

definition with_scope :: "account_mapping_rule \<Rightarrow> string \<Rightarrow> string \<Rightarrow> account_mapping_rule" where
  "with_scope r from to = r\<lparr>ru_match_source_type := normalize_match_text (ru_match_source_type r),
     ru_match_seller := normalize_match_text (ru_match_seller r),
     ru_match_item := normalize_match_text (ru_match_item r),
     ru_match_internal_project := normalize_match_text (ru_match_internal_project r),
     ru_effective_from := from, ru_effective_to := to,
     ru_rule_id := account_mapping_rule_id (normalize_match_text (ru_match_seller r))
       (normalize_match_text (ru_match_internal_project r))
       (normalize_match_text (ru_match_source_type r)) (normalize_match_text (ru_match_item r))
       from to (ru_priority r)\<rparr>"

lemma with_scope_simps [simp]:
  "ru_effective_from (with_scope r a b) = a" "ru_effective_to (with_scope r a b) = b"
  "ru_source (with_scope r a b) = ru_source r" "ru_priority (with_scope r a b) = ru_priority r"
  "ru_activation_state (with_scope r a b) = ru_activation_state r"
  "rule_target (with_scope r a b) = rule_target r"
  by (simp_all add: with_scope_def rule_target_def)

lemma normalized_rule_Inr:
  assumes "normalized_rule r = Inr r'"
  shows "\<exists>from to. normalized_iso_date (ru_effective_from r) ''effective_from'' = Inr from
    \<and> normalized_iso_date (ru_effective_to r) ''effective_to'' = Inr to
    \<and> \<not> (from \<noteq> [] \<and> to \<noteq> [] \<and> to < from)
    \<and> r' = with_scope r from to"
  using assms by (auto simp: normalized_rule_def with_scope_def Let_def res_bind_eq_Inr split: if_splits)

lemma normalized_rule_normal: "normalized_rule r = Inr r' \<Longrightarrow> rule_normal r'"
proof -
  assume "normalized_rule r = Inr r'"
  from normalized_rule_Inr [OF this] obtain a b where
    ab: "normalized_iso_date (ru_effective_from r) ''effective_from'' = Inr a"
      "normalized_iso_date (ru_effective_to r) ''effective_to'' = Inr b"
      "\<not> (a \<noteq> [] \<and> b \<noteq> [] \<and> b < a)"
    and r': "r' = with_scope r a b" by blast
  show ?thesis
    using ab(3) normalized_iso_date_result(3) [OF ab(1)] normalized_iso_date_result(3) [OF ab(2)]
    unfolding rule_normal_def r' by (simp add: normalized_rule_def with_scope_def Let_def)
qed

lemma normalized_rule_source: "normalized_rule r = Inr r' \<Longrightarrow>
    ru_source r' = ru_source r \<and> ru_priority r' = ru_priority r \<and> ru_activation_state r' = ru_activation_state r"
  using normalized_rule_Inr [of r r'] by auto

lemma res_map_normal: "list_all rule_normal rs \<Longrightarrow> res_map normalized_rule rs = Inr rs"
  by (induction rs) (simp_all add: rule_normal_def)

lemma normalized_rules_normal:
  assumes "normalized_rules rs = Inr rs'"
  shows "list_all rule_normal rs'" and "distinct (map ru_rule_id rs')" and "normalized_rules rs' = Inr rs'"
proof -
  have m: "res_map normalized_rule rs = Inr rs'" and d: "distinct (map ru_rule_id rs')"
    using assms by (auto simp: normalized_rules_def res_bind_eq_Inr split: if_splits)
  show n: "list_all rule_normal rs'"
    using res_map_Inr_set [OF m] normalized_rule_normal by (auto simp: list_all_iff)
  show "distinct (map ru_rule_id rs')" by (fact d)
  with n show "normalized_rules rs' = Inr rs'" by (simp add: normalized_rules_def res_map_normal)
qed

text \<open>C23: Normalizing a rule is idempotent: the store keeps, loads and compares rules in one form, their
  dates are calendar dates in ISO form with the start not after the end, and the fields that decide
  on the accounts are untouched.\<close>

theorem rule_normalization_stable:
  assumes "normalized_rule r = Inr r'"
  shows "normalized_rule r' = Inr r'
    \<and> (ru_effective_from r' = [] \<or> (\<exists>d. valid_date d \<and> ru_effective_from r' = iso_text d))
    \<and> (ru_effective_from r' \<noteq> [] \<longrightarrow> ru_effective_to r' \<noteq> [] \<longrightarrow> ru_effective_from r' \<le> ru_effective_to r')
    \<and> rule_target r' = rule_target r \<and> ru_priority r' = ru_priority r \<and> ru_source r' = ru_source r
    \<and> ru_activation_state r' = ru_activation_state r"
proof -
  have n: "normalized_rule r' = Inr r'"
    using normalized_rule_normal [OF assms] by (simp add: rule_normal_def)
  from normalized_rule_Inr [OF assms] obtain a b where
    "normalized_iso_date (ru_effective_from r) ''effective_from'' = Inr a"
    "\<not> (a \<noteq> [] \<and> b \<noteq> [] \<and> b < a)"
    and r': "r' = with_scope r a b" by blast
  then show ?thesis
    using n normalized_iso_date_result(1) [of "ru_effective_from r" _ a]
    by (simp add: r' not_less) blast
qed

definition sample_rule :: "string \<Rightarrow> string \<Rightarrow> account_mapping_rule" where
  "sample_rule seller source = \<lparr>ru_rule_id = [], ru_match_seller = seller,
     ru_match_source_type = ''purchase_invoice'', ru_match_item = [], ru_match_internal_project = [],
     ru_effective_from = [], ru_effective_to = [], ru_priority = 0, ru_business_class = ''goods'',
     ru_debit_account_code = ''1405'', ru_debit_account_name = ''stock'', ru_credit_account_code = ''2202'',
     ru_credit_account_name = ''payable'', ru_tax_account_code = [], ru_aux_dimensions = [],
     ru_activation_state = ''active'', ru_legacy_rule_ids = [], ru_source = source,
     ru_confirmed_at = ''2024-05-31'', ru_confirmed_by = ''ann''\<rparr>"

lemma sample_rule_normalizes: "\<exists>r. normalized_rule (sample_rule s src) = Inr r"
  by (simp add: sample_rule_def normalized_rule_def normalized_iso_date_def Let_def)

theorem rule_normalization_stable_witness:
  "\<exists>r. normalized_rule (sample_rule '' a  b '' ''manual'') = Inr r \<and> normalized_rule r = Inr r"
  using sample_rule_normalizes rule_normalization_stable by blast

section \<open>Rule identity\<close>

text \<open>A text whose ASCII bytes stand alone, as in UTF-8.\<close>

definition utf8_text :: "string \<Rightarrow> bool" where
  "utf8_text s \<longleftrightarrow> list_all (\<lambda>x. byte (hd x) < 128 \<longrightarrow> tl x = []) (uchars s)"

lemma uchars_wf: "x \<in> set (uchars s) \<Longrightarrow> uchar_wf x"
  using uwf_uchars [of s] by (auto simp: uwf_iff list_all_iff)

lemma separator_in_text:
  assumes "CHR 0x1F \<in> set s" and "utf8_text s"
  shows "[CHR 0x1F] \<in> set (uchars s)"
proof -
  have "CHR 0x1F \<in> set (concat (uchars s))" using assms(1) by simp
  then obtain x where x: "x \<in> set (uchars s)" "CHR 0x1F \<in> set x"
    unfolding set_concat by blast
  then obtain c cs where c: "x = c # cs" "list_all cont_byte cs"
    using uchars_wf [OF x(1)] by (cases x rule: list.exhaust) auto
  have "\<not> cont_byte CHR 0x1F" by (simp add: cont_byte_def byte_def)
  with c x(2) have "c = CHR 0x1F" by (auto simp: list_all_iff)
  then show ?thesis
    using assms(2) x(1) c by (auto simp: utf8_text_def list_all_iff byte_def)
qed

definition separated :: "string \<Rightarrow> bool" where
  "separated s \<longleftrightarrow> CHR 0x1F \<notin> set s"

lemma set_dropWhile_sub: "set (dropWhile P xs) \<subseteq> set xs"
  by (auto dest: set_dropWhileD)

lemma utf8_parts:
  assumes "list_all (\<lambda>x. byte (hd x) < 128 \<longrightarrow> tl x = []) (uchars s)"
    and "set (uchars t) \<subseteq> insert '' '' (set (uchars s))"
  shows "utf8_text t"
  using assms by (auto simp: utf8_text_def list_all_iff)

lemma set_strip_chars: "set (strip_chars xs) \<subseteq> set xs"
  by (metis strip_chars_part set_append Un_upper2 Un_upper1 order_trans)

lemma uchars_replace1_blank: "uchars (replace1 a '' '' s) = map (\<lambda>x. if x = a then '' '' else x) (uchars s)"
  unfolding replace1_def using uwf_uchars [of s]
  by (intro uchars_concat) (auto simp: uwf_iff list_all_iff map_tl [symmetric])

lemma utf8_normalize: "utf8_text s \<Longrightarrow> utf8_text (normalize_match_text s)"
proof -
  assume u: "utf8_text s"
  let ?r = "replace1 ideographic_space '' '' (replace1 nbsp '' '' s)"
  have "set (uchars ?r) \<subseteq> insert '' '' (set (uchars s))"
    by (auto simp: uchars_replace1_blank)
  moreover have "set (uchars (normalize_match_text s)) \<subseteq> insert '' '' (set (uchars ?r))"
    unfolding normalize_match_text_def uchars_strip uchars_collapse_space
    using set_strip_chars set_collapse_chars by (meson order_trans insert_mono)
  ultimately have "set (uchars (normalize_match_text s)) \<subseteq> insert '' '' (set (uchars s))" by auto
  with u show ?thesis unfolding utf8_text_def using utf8_parts [of s] by (auto simp: utf8_text_def)
qed

lemma separated_normalize: "utf8_text s \<Longrightarrow> separated (normalize_match_text s)"
proof -
  assume "utf8_text s"
  then have u: "utf8_text (normalize_match_text s)" by (rule utf8_normalize)
  have "uspace [CHR 0x1F]" "[CHR 0x1F] \<noteq> '' ''" by (simp_all add: uspace_def byte_def)
  then have "[CHR 0x1F] \<notin> set (uchars (normalize_match_text s))"
    using normal_normalize [of s] single_spaced_space unfolding normal_chars_def by blast
  then show ?thesis using separator_in_text [OF _ u] by (auto simp: separated_def)
qed

lemma split_at_separator:
  assumes "c \<notin> set a" and "c \<notin> set b" and "a @ c # x = b @ c # y"
  shows "a = b \<and> x = y"
proof -
  have "takeWhile (\<lambda>d. d \<noteq> c) (z @ c # w) = z" if "c \<notin> set z" for z w
    using that by (subst takeWhile_append2) auto
  from this [OF assms(1), of x] this [OF assms(2), of y] assms(3) show ?thesis by auto
qed

lemma join_separated:
  assumes "length xs = length ys" and "list_all separated xs" "list_all separated ys"
    and "join mapping_key_separator xs = join mapping_key_separator ys"
  shows "xs = ys"
  using assms
proof (induction xs ys rule: list_induct2)
  case (Cons x xs y ys)
  show ?case
  proof (cases xs)
    case Nil
    with Cons.hyps have "ys = []" by simp
    with Nil Cons.prems show ?thesis by simp
  next
    case x: (Cons a as)
    with Cons.hyps obtain b bs where y: "ys = b # bs" by (cases ys) auto
    from Cons.prems have "x @ CHR 0x1F # join mapping_key_separator xs = y @ CHR 0x1F # join mapping_key_separator ys"
      by (simp add: x y mapping_key_separator_def)
    then have "x = y \<and> join mapping_key_separator xs = join mapping_key_separator ys"
      using Cons.prems(1,2) by (intro split_at_separator) (auto simp: separated_def)
    with Cons show ?thesis by simp
  qed
qed simp

lemma separated_int_text: "separated (int_text i)"
proof -
  have "\<not> is_digit CHR 0x1F" by (simp add: is_digit_def byte_def)
  then show ?thesis
    using nat_text_digits unfolding separated_def int_text_def
    by (auto simp: list_all_iff)
qed

definition scope_text :: "account_mapping_rule \<Rightarrow> string" where
  "scope_text r = join mapping_key_separator
     [normalize_match_text (ru_match_source_type r), normalize_match_text (ru_match_seller r),
      normalize_match_text (ru_match_item r), normalize_match_text (ru_match_internal_project r),
      normalize_match_text (ru_effective_from r), normalize_match_text (ru_effective_to r),
      int_text (ru_priority r)]"

definition scope_utf8 :: "account_mapping_rule \<Rightarrow> bool" where
  "scope_utf8 r \<longleftrightarrow> list_all utf8_text [ru_match_source_type r, ru_match_seller r, ru_match_item r,
     ru_match_internal_project r, ru_effective_from r, ru_effective_to r]"

lemma rule_normal_id:
  assumes "rule_normal r"
  shows "ru_rule_id r = sha1 (scope_text r)"
proof -
  from normalized_rule_Inr [OF assms [unfolded rule_normal_def]] obtain a b where
    r: "r = with_scope r a b" by blast
  have "ru_effective_from r = a" "ru_effective_to r = b"
    using arg_cong [OF r, of ru_effective_from] arg_cong [OF r, of ru_effective_to] by simp_all
  then show ?thesis
    using arg_cong [OF r, of ru_rule_id]
    by (simp add: with_scope_def account_mapping_rule_id_def scope_text_def)
qed

definition sha1_collision :: "string \<Rightarrow> string \<Rightarrow> bool" where
  "sha1_collision x y \<longleftrightarrow> x \<noteq> y \<and> sha1 x = sha1 y"

lemma scope_text_inj:
  assumes "rule_normal a" "scope_utf8 a" "rule_normal b" "scope_utf8 b" and "scope_text a = scope_text b"
  shows "ru_match_source_type a = ru_match_source_type b \<and> ru_match_seller a = ru_match_seller b
    \<and> ru_match_item a = ru_match_item b \<and> ru_match_internal_project a = ru_match_internal_project b
    \<and> ru_effective_from a = ru_effective_from b \<and> ru_effective_to a = ru_effective_to b
    \<and> ru_priority a = ru_priority b"
proof -
  have norm: "normalize_match_text (f r) = f r"
    if "rule_normal r" "f \<in> {ru_match_source_type, ru_match_seller, ru_match_item,
      ru_match_internal_project, ru_effective_from, ru_effective_to}" for r f
  proof -
    from normalized_rule_Inr [OF that(1) [unfolded rule_normal_def]] obtain x y where
      r: "r = with_scope r x y" and xy: "normalize_match_text x = x" "normalize_match_text y = y"
      using normalized_iso_date_result(2) by blast
    show ?thesis
      using that(2) xy by (subst (1 2) r) (auto simp: with_scope_def)
  qed
  let ?parts = "\<lambda>r. [normalize_match_text (ru_match_source_type r), normalize_match_text (ru_match_seller r),
      normalize_match_text (ru_match_item r), normalize_match_text (ru_match_internal_project r),
      normalize_match_text (ru_effective_from r), normalize_match_text (ru_effective_to r),
      int_text (ru_priority r)]"
  have "list_all separated (?parts r)" if "scope_utf8 r" for r
    using that by (simp add: scope_utf8_def separated_normalize separated_int_text)
  then have "?parts a = ?parts b"
    using assms(2,4,5) unfolding scope_text_def by (intro join_separated) simp_all
  then show ?thesis by (simp add: norm assms(1,3)) (auto dest: int_text_inj)
qed

text \<open>C24: A rule id names a scope: two rules of the store with the same id match the same source type,
  seller, item, project, dates and priority, unless the two scope texts are a SHA-1 collision. Blanks
  in a scope cannot imitate the separator, because normalizing a text turns it into a space.\<close>

theorem rule_id_binds_scope:
  assumes "normalized_rule r = Inr a" and "normalized_rule q = Inr b" and "ru_rule_id a = ru_rule_id b"
    and "scope_utf8 a" and "scope_utf8 b"
  shows "sha1_collision (scope_text a) (scope_text b) \<or>
    (ru_match_source_type a = ru_match_source_type b \<and> ru_match_seller a = ru_match_seller b
     \<and> ru_match_item a = ru_match_item b \<and> ru_match_internal_project a = ru_match_internal_project b
     \<and> ru_effective_from a = ru_effective_from b \<and> ru_effective_to a = ru_effective_to b
     \<and> ru_priority a = ru_priority b)"
  using assms normalized_rule_normal rule_normal_id scope_text_inj
  by (metis sha1_collision_def)

theorem rule_id_binds_scope_witness:
  "\<exists>a b. normalized_rule (sample_rule ''a'' ''manual'') = Inr a
    \<and> normalized_rule (sample_rule ''a'' ''ai_confirmed'') = Inr b
    \<and> (sha1_collision (scope_text a) (scope_text b) \<or> ru_match_seller a = ru_match_seller b)"
proof -
  have n: "normalize_match_text ''a'' = ''a''" "normalize_match_text ''purchase_invoice'' = ''purchase_invoice''"
    by (simp_all add: normalize_solid solid_def byte_def)
  let ?n = "\<lambda>src. with_scope (sample_rule ''a'' src) [] []"
  have norm: "normalized_rule (sample_rule ''a'' src) = Inr (?n src)" for src
    by (simp add: sample_rule_def normalized_rule_def normalized_iso_date_def with_scope_def Let_def)
  have "scope_utf8 (?n src)" for src
    by (simp add: scope_utf8_def with_scope_def sample_rule_def n utf8_text_def cont_byte_def byte_def)
  moreover have "ru_rule_id (?n ''manual'') = ru_rule_id (?n ''ai_confirmed'')"
    by (simp add: with_scope_def sample_rule_def)
  ultimately show ?thesis using rule_id_binds_scope [OF norm norm] norm by blast
qed

end
