(* ===== verification/Rule_Matching.thy ===== *)
theory Rule_Matching
  imports Rule_Scopes
begin

text \<open>
  Matching an invoice line to a rule (\<open>match_account_rule\<close> and \<open>resolve_account_mapping\<close> of
  \<open>bookkeeping/mapping.py\<close>) against its specification: among the rules that apply, the one of
  highest rank (manual before AI, then the more specific scope, then the priority) wins, provided
  that all rules of that rank lead to the same accounts. The result depends on the set of rules
  only, not on their order in the file.
\<close>

section \<open>Lists\<close>

lemma max_of_Max: "xs \<noteq> [] \<Longrightarrow> max_of xs = Max (set xs)"
  by (cases xs) (simp_all add: max_of_def Max.set_eq_fold [symmetric])

lemma fold_least:
  fixes f :: "'a \<Rightarrow> 'k::linorder"
  assumes g: "\<And>y m. g y m \<in> {y, m} \<and> f (g y m) \<le> f y \<and> f (g y m) \<le> f m"
  shows "fold g xs x \<in> insert x (set xs) \<and> (\<forall>y\<in>insert x (set xs). f (fold g xs x) \<le> f y)"
proof (induction xs arbitrary: x)
  case (Cons a xs)
  have "f (fold g xs (g a x)) \<le> f (g a x)" using Cons.IH [of "g a x"] by blast
  then have "f (fold g xs (g a x)) \<le> f a \<and> f (fold g xs (g a x)) \<le> f x"
    using g [of a x] by (meson order_trans)
  then show ?case using Cons.IH [of "g a x"] g [of a x] by auto
qed simp

lemma min_by_least:
  fixes f :: "'a \<Rightarrow> 'k::linorder"
  shows "xs \<noteq> [] \<Longrightarrow> min_by f xs \<in> set xs \<and> (\<forall>y\<in>set xs. f (min_by f xs) \<le> f y)"
proof (cases xs)
  case (Cons x ys)
  let ?g = "\<lambda>y m. if f y < f m then y else m"
  have "?g y m \<in> {y, m} \<and> f (?g y m) \<le> f y \<and> f (?g y m) \<le> f m" for y m
    by (cases "f y < f m") auto
  from fold_least [where g = ?g and f = f and xs = ys and x = x, OF this] Cons
  show ?thesis by (simp add: min_by_def)
qed simp

lemma two_distinct: "1 < length (dedup xs) \<longleftrightarrow> (\<exists>x\<in>set xs. \<exists>y\<in>set xs. x \<noteq> y)"
proof
  assume "1 < length (dedup xs)"
  then obtain a b cs where d: "dedup xs = a # b # cs"
    by (cases "dedup xs"; cases "tl (dedup xs)") auto
  then have "a \<noteq> b" using distinct_dedup [of xs] by auto
  then show "\<exists>x\<in>set xs. \<exists>y\<in>set xs. x \<noteq> y"
    using d set_dedup [of xs] by (metis list.set_intros(1) list.set_intros(2))
next
  assume "\<exists>x\<in>set xs. \<exists>y\<in>set xs. x \<noteq> y"
  then obtain x y where "x \<in> set (dedup xs)" "y \<in> set (dedup xs)" "x \<noteq> y" by auto
  then have "card {x, y} \<le> card (set (dedup xs))" by (intro card_mono) auto
  then show "1 < length (dedup xs)"
    using \<open>x \<noteq> y\<close> distinct_card [OF distinct_dedup [of xs]] by simp
qed

lemma res_filter_filter:
  "(\<And>x. x \<in> set xs \<Longrightarrow> f x = Inr (p x)) \<Longrightarrow> res_filter f xs = Inr (filter p xs)"
  by (induction xs) auto

lemma concat_map_single: "(\<And>x. x \<in> set xs \<Longrightarrow> f x = [g x]) \<Longrightarrow> concat (map f xs) = map g xs"
  by (induction xs) auto

section \<open>The specification\<close>

definition applies :: "match_context \<Rightarrow> string \<Rightarrow> account_mapping_rule \<Rightarrow> bool" where
  "applies c day r \<longleftrightarrow> ru_activation_state r = ''active'' \<and> scope_matches c r \<and> date_matches day r"

text \<open>The rule that wins among the applicable rules \<open>A\<close>, and rules that contradict each other at
  the top.\<close>

definition preferred :: "account_mapping_rule set \<Rightarrow> account_mapping_rule \<Rightarrow> bool" where
  "preferred A r \<longleftrightarrow> r \<in> A \<and> (\<forall>q\<in>A. rule_rank q \<le> rule_rank r
     \<and> (rule_rank q = rule_rank r \<longrightarrow> rule_target q = rule_target r \<and> ru_rule_id r \<le> ru_rule_id q))"

definition contested :: "account_mapping_rule set \<Rightarrow> bool" where
  "contested A \<longleftrightarrow> (\<exists>p\<in>A. \<exists>q\<in>A. rule_rank p = rule_rank q \<and> rule_target p \<noteq> rule_target q
     \<and> (\<forall>r\<in>A. rule_rank r \<le> rule_rank p))"

definition top_ids :: "account_mapping_rule set \<Rightarrow> string set" where
  "top_ids A = ru_rule_id ` {r\<in>A. \<forall>q\<in>A. rule_rank q \<le> rule_rank r}"

definition top_rules :: "account_mapping_rule list \<Rightarrow> account_mapping_rule list" where
  "top_rules xs = filter (\<lambda>r. rule_rank r = max_of (map rule_rank xs)) xs"

lemma max_rank:
  assumes "xs \<noteq> []"
  shows "\<exists>r\<in>set xs. rule_rank r = max_of (map rule_rank xs)"
    and "r \<in> set xs \<Longrightarrow> rule_rank r \<le> max_of (map rule_rank xs)"
proof -
  have m: "max_of (map rule_rank xs) = Max (rule_rank ` set xs)"
    using assms by (simp add: max_of_Max)
  have "max_of (map rule_rank xs) \<in> rule_rank ` set xs"
    unfolding m using assms by (intro Max_in) auto
  then show "\<exists>r\<in>set xs. rule_rank r = max_of (map rule_rank xs)" by auto
  show "r \<in> set xs \<Longrightarrow> rule_rank r \<le> max_of (map rule_rank xs)"
    unfolding m by simp
qed

lemma top_rules_iff:
  "xs \<noteq> [] \<Longrightarrow> r \<in> set (top_rules xs) \<longleftrightarrow> r \<in> set xs \<and> (\<forall>q\<in>set xs. rule_rank q \<le> rule_rank r)"
  using max_rank [of xs] by (auto simp: top_rules_def) (metis order_antisym)+

lemma top_rules_not_Nil: "xs \<noteq> [] \<Longrightarrow> top_rules xs \<noteq> []"
  using max_rank(1) [of xs] by (auto simp: top_rules_def filter_empty_conv)

lemma select_rule_unfold:
  "xs \<noteq> [] \<Longrightarrow> select_rule xs =
    (if contested (set xs) then Inl (MappingAmbiguity (sort (map ru_rule_id (top_rules xs)))
        (max_of (map rule_rank xs)))
     else Inr (Some (min_by ru_rule_id (top_rules xs))))"
proof -
  assume ne: "xs \<noteq> []"
  have "1 < length (dedup (map rule_target (top_rules xs))) \<longleftrightarrow> contested (set xs)"
    unfolding two_distinct
  proof
    assume "\<exists>x\<in>set (map rule_target (top_rules xs)). \<exists>y\<in>set (map rule_target (top_rules xs)). x \<noteq> y"
    then show "contested (set xs)"
      unfolding contested_def by (auto simp: top_rules_iff [OF ne]) (metis order_antisym)
  next
    assume "contested (set xs)"
    then obtain p q where pq: "p \<in> set xs" "q \<in> set xs" "rule_rank p = rule_rank q"
      "rule_target p \<noteq> rule_target q" "\<forall>r\<in>set xs. rule_rank r \<le> rule_rank p"
      unfolding contested_def by blast
    then have "p \<in> set (top_rules xs)" "q \<in> set (top_rules xs)"
      by (simp_all add: top_rules_iff [OF ne])
    with pq(4) show "\<exists>x\<in>set (map rule_target (top_rules xs)). \<exists>y\<in>set (map rule_target (top_rules xs)). x \<noteq> y"
      by auto
  qed
  then show ?thesis
    using ne by (simp add: select_rule_def top_rules_def Let_def)
qed

lemma preferred_unique:
  "preferred A p \<Longrightarrow> preferred A q \<Longrightarrow> inj_on ru_rule_id A \<Longrightarrow> p = q"
  unfolding preferred_def inj_on_def by (metis order_antisym)

lemma select_rule_preferred:
  assumes "xs \<noteq> []" and "\<not> contested (set xs)"
  shows "preferred (set xs) (min_by ru_rule_id (top_rules xs))"
proof -
  have m: "min_by ru_rule_id (top_rules xs) \<in> set (top_rules xs)"
    "\<And>y. y \<in> set (top_rules xs) \<Longrightarrow> ru_rule_id (min_by ru_rule_id (top_rules xs)) \<le> ru_rule_id y"
    using min_by_least [OF top_rules_not_Nil [OF assms(1)]] by blast+
  show ?thesis
    unfolding preferred_def
  proof (intro conjI ballI impI)
    show "min_by ru_rule_id (top_rules xs) \<in> set xs"
      using m(1) by (simp add: top_rules_iff [OF assms(1)])
    fix q assume q: "q \<in> set xs"
    show "rule_rank q \<le> rule_rank (min_by ru_rule_id (top_rules xs))"
      using m(1) q by (simp add: top_rules_iff [OF assms(1)])
    assume eq: "rule_rank q = rule_rank (min_by ru_rule_id (top_rules xs))"
    then have t: "q \<in> set (top_rules xs)"
      using m(1) q by (auto simp: top_rules_iff [OF assms(1)])
    then show "ru_rule_id (min_by ru_rule_id (top_rules xs)) \<le> ru_rule_id q" by (rule m(2))
    show "rule_target q = rule_target (min_by ru_rule_id (top_rules xs))"
      using assms(2) eq m(1) q unfolding contested_def
      by (metis (no_types, lifting) top_rules_iff [OF assms(1)])
  qed
qed

lemma preferred_not_contested: "preferred A r \<Longrightarrow> \<not> contested A"
  unfolding preferred_def contested_def by (metis order_antisym)

lemma match_rules_select:
  assumes "list_all rule_normal rules" and "normalized_iso_date (mc_effective_date c) ''effective_date'' = Inr day"
  shows "match_rules rules c = select_rule (filter (applies c day) rules)"
proof -
  have "res_filter (rule_applies_to_context c) rules = Inr (filter (applies c day) rules)"
    using assms by (intro res_filter_filter)
      (auto simp: rule_applies_to_context_def applies_def list_all_iff rule_normal_def)
  then show ?thesis
    using assms(1) by (simp add: match_rules_def res_map_normal)
qed

lemma match_rules_normalized:
  "res_map normalized_rule rules = Inr ns \<Longrightarrow> list_all rule_normal ns \<Longrightarrow> match_rules rules c = match_rules ns c"
  by (simp add: match_rules_def res_map_normal)

definition applicable :: "account_mapping_rule list \<Rightarrow> match_context \<Rightarrow> string \<Rightarrow> account_mapping_rule set" where
  "applicable rules c day = {r\<in>set rules. applies c day r}"

lemma match_rules_spec:
  assumes "normalized_rules rules = Inr ns"
    and "normalized_iso_date (mc_effective_date c) ''effective_date'' = Inr day"
  shows "(match_rules rules c = Inr None \<longleftrightarrow> applicable ns c day = {})
    \<and> (match_rules rules c = Inr (Some r) \<longleftrightarrow> preferred (applicable ns c day) r)
    \<and> (match_rules rules c = Inl e \<longleftrightarrow> contested (applicable ns c day)
         \<and> (\<exists>ids rank. e = MappingAmbiguity ids rank \<and> sorted ids \<and> distinct ids
              \<and> set ids = top_ids (applicable ns c day)
              \<and> (\<exists>q\<in>applicable ns c day. rank = rule_rank q \<and> (\<forall>p\<in>applicable ns c day. rule_rank p \<le> rank))))"
proof -
  note n = normalized_rules_normal [OF assms(1)]
  let ?xs = "filter (applies c day) ns" and ?A = "applicable ns c day"
  have "res_map normalized_rule rules = Inr ns"
    using assms(1) by (auto simp: normalized_rules_def res_bind_eq_Inr split: if_splits)
  then have m: "match_rules rules c = select_rule ?xs"
    using match_rules_normalized match_rules_select [OF n(1) assms(2)] n(1) by simp
  have A: "set ?xs = ?A" by (simp add: applicable_def)
  have inj: "inj_on ru_rule_id ?A"
    using n(2) unfolding applicable_def distinct_map by (auto intro: inj_on_subset)
  show ?thesis
  proof (cases "?xs = []")
    case True
    then have "?A = {}" using A by auto
    then show ?thesis using True m by (simp add: select_rule_def preferred_def contested_def)
  next
    case False
    then have ne: "?A \<noteq> {}" using A by (metis set_empty)
    note sel = select_rule_unfold [OF False, unfolded A]
    have top: "ru_rule_id ` set (top_rules ?xs) = top_ids ?A"
      by (auto simp: top_ids_def top_rules_iff [OF False] A [symmetric] simp del: set_filter)
    have "distinct (map ru_rule_id ?xs)" using n(2) by (simp add: distinct_map_filter)
    then have dist: "distinct (map ru_rule_id (top_rules ?xs))"
      unfolding top_rules_def by (rule distinct_map_filter)
    have rank: "\<exists>q\<in>?A. max_of (map rule_rank ?xs) = rule_rank q \<and> (\<forall>p\<in>?A. rule_rank p \<le> rule_rank q)"
      using max_rank [OF False] unfolding A by (metis (no_types, lifting))
    show ?thesis
    proof (cases "contested ?A")
      case True
      have u: "rank = max_of (map rule_rank ?xs)"
        if "q \<in> ?A" "rank = rule_rank q" "\<forall>p\<in>?A. rule_rank p \<le> rank" for rank q
        using that rank by (metis order_antisym)
      have ids: "ids = sort (map ru_rule_id (top_rules ?xs))"
        if "sorted ids" "distinct ids" "set ids = top_ids ?A" for ids
        using that dist top by (intro sorted_distinct_set_unique) auto
      have iff: "e = MappingAmbiguity (sort (map ru_rule_id (top_rules ?xs))) (max_of (map rule_rank ?xs)) \<longleftrightarrow>
          (\<exists>ids rank. e = MappingAmbiguity ids rank \<and> sorted ids \<and> distinct ids \<and> set ids = top_ids ?A
             \<and> (\<exists>q\<in>?A. rank = rule_rank q \<and> (\<forall>p\<in>?A. rule_rank p \<le> rank)))" (is "?l = ?r")
      proof
        assume ?l
        moreover have "sorted (sort (map ru_rule_id (top_rules ?xs)))"
          "distinct (sort (map ru_rule_id (top_rules ?xs)))"
          "set (sort (map ru_rule_id (top_rules ?xs))) = top_ids ?A"
          using dist top by simp_all
        ultimately show ?r using rank by metis
      next
        assume ?r
        then show ?l using ids u by metis
      qed
      have "match_rules rules c = Inl e \<longleftrightarrow> e = MappingAmbiguity (sort (map ru_rule_id (top_rules ?xs)))
          (max_of (map rule_rank ?xs))"
        using m True sel by auto
      then have "match_rules rules c = Inl e \<longleftrightarrow> contested ?A \<and> ?r"
        by (simp only: iff True simp_thms)
      moreover have "match_rules rules c \<noteq> Inr x" for x using m True sel by simp
      ultimately show ?thesis using ne preferred_not_contested [of ?A r] True by blast
    next
      case nc: False
      then have p: "preferred ?A (min_by ru_rule_id (top_rules ?xs))"
        using select_rule_preferred [OF False] nc by (simp only: A simp_thms)
      have "match_rules rules c = Inr (Some (min_by ru_rule_id (top_rules ?xs)))"
        using m nc sel by simp
      moreover have "preferred ?A r \<longleftrightarrow> r = min_by ru_rule_id (top_rules ?xs)"
        using preferred_unique [OF p _ inj] p by blast
      ultimately show ?thesis using ne nc by auto
    qed
  qed
qed

lemmas match_rules_iffs = match_rules_spec [THEN conjunct1] match_rules_spec [THEN conjunct2, THEN conjunct1]
  match_rules_spec [THEN conjunct2, THEN conjunct2]

text \<open>Two lists with the same rules match alike.\<close>

lemma normalized_rules_mset:
  assumes "list_all rule_normal rs" "distinct (map ru_rule_id rs)" and "mset rs = mset rs'"
  shows "normalized_rules rs' = Inr rs'"
proof -
  have "mset (map ru_rule_id rs) = mset (map ru_rule_id rs')" using assms(3) by simp
  then have "distinct (map ru_rule_id rs')" using assms(2) by (metis mset_eq_imp_distinct_iff)
  moreover have "list_all rule_normal rs'"
    using assms(1,3) by (metis list_all_iff mset_eq_setD)
  ultimately show ?thesis by (simp add: normalized_rules_def res_map_normal)
qed

section \<open>Resolutions\<close>

lemma fingerprint_normal: "rule_normal r \<Longrightarrow> \<exists>h. mapping_rule_fingerprint r = Inr h"
  by (simp add: mapping_rule_fingerprint_def mapping_rule_semantic_payload_def rule_normal_def)

lemma ambiguous_resolution_ids:
  assumes "normalized_rules rules = Inr ns" and "set ids \<subseteq> ru_rule_id ` set ns" and "sorted ids"
  shows "\<exists>r. ambiguous_resolution rules line ids = Inr r \<and> rr_outcome r = ''ambiguous''
    \<and> rr_candidate_rule_ids r = ids \<and> length (rr_candidate_rule_fingerprints r) = length ids
    \<and> rr_source_line_id r = line"
proof -
  note n = normalized_rules_normal [OF assms(1)]
  have m: "res_map normalized_rule rules = Inr ns"
    using assms(1) by (auto simp: normalized_rules_def res_bind_eq_Inr split: if_splits)
  let ?d = "fold (\<lambda>r. dput (ru_rule_id r) r) ns []"
  have get: "dget ?d (ru_rule_id r) = Some r" if "r \<in> set ns" for r
    using n(2) that by (rule pd.get_fold_put_in)
  have known: "\<exists>r\<in>set ns. k = ru_rule_id r \<and> dget ?d k = Some r" if "k \<in> set ids" for k
    using that assms(2) get by blast
  let ?g = "\<lambda>k. the (dget ?d k)"
  have c: "concat (map (\<lambda>k. case dget ?d k of None \<Rightarrow> [] | Some r \<Rightarrow> [r]) ids) = map ?g ids"
    using known by (intro concat_map_single) fastforce
  have ids: "map ru_rule_id (map ?g ids) = ids"
    unfolding map_map by (rule map_idI) (use known in fastforce)
  then have sorted: "sort_key ru_rule_id (map ?g ids) = map ?g ids"
    using assms(3) by (intro sort_key_id_if_sorted) simp
  have "\<exists>h. mapping_rule_fingerprint r = Inr h" if "r \<in> set (map ?g ids)" for r
    using that known n(1) fingerprint_normal by (fastforce simp: list_all_iff)
  then obtain hs where hs: "res_map mapping_rule_fingerprint (map ?g ids) = Inr hs"
    using res_map_total by blast
  then have "length hs = length ids" using res_map_Inr_length by fastforce
  then show ?thesis
    by (simp only: ambiguous_resolution_def m res_bind_simps Let_def c sorted hs) (simp only: ids, simp)
qed

lemma top_ids_sub: "top_ids (applicable ns c day) \<subseteq> ru_rule_id ` set ns"
  by (auto simp: top_ids_def applicable_def)

lemma contested_two:
  assumes "contested A" and "inj_on ru_rule_id A" and "set ids = top_ids A"
  shows "2 \<le> length ids"
proof -
  obtain p q where "p \<in> A" "q \<in> A" "rule_rank p = rule_rank q" "rule_target p \<noteq> rule_target q"
    "\<forall>r\<in>A. rule_rank r \<le> rule_rank p"
    using assms(1) unfolding contested_def by blast
  then have "ru_rule_id p \<in> set ids" "ru_rule_id q \<in> set ids" "ru_rule_id p \<noteq> ru_rule_id q"
    using assms(2,3) by (auto simp: top_ids_def inj_on_def)
  then have "card {ru_rule_id p, ru_rule_id q} \<le> card (set ids)" by (intro card_mono) auto
  then show ?thesis
    using \<open>ru_rule_id p \<noteq> ru_rule_id q\<close> card_length [of ids] by simp
qed

text \<open>Sample values, for the witnesses.\<close>

definition sample_context :: match_context where
  "sample_context = \<lparr>mc_seller = ''a'', mc_internal_project = [], mc_source_type = ''purchase_invoice'',
     mc_item = [], mc_effective_date = []\<rparr>"

definition sample_stored_rule :: "string \<Rightarrow> account_mapping_rule" where
  "sample_stored_rule source = with_scope (sample_rule ''a'' source) [] []"

lemma sample_normalize:
  "normalize_match_text ''a'' = ''a''"
  "normalize_match_text ''purchase_invoice'' = ''purchase_invoice''"
  by (simp_all add: normalize_solid solid_def byte_def)

lemma sample_stored_rule:
  "normalized_rule (sample_rule ''a'' source) = Inr (sample_stored_rule source)"
  "normalized_rules [sample_stored_rule source] = Inr [sample_stored_rule source]"
proof -
  show n: "normalized_rule (sample_rule ''a'' source) = Inr (sample_stored_rule source)"
    by (simp add: sample_rule_def normalized_rule_def normalized_iso_date_def sample_stored_rule_def
        with_scope_def Let_def)
  show "normalized_rules [sample_stored_rule source] = Inr [sample_stored_rule source]"
    using normalized_rule_normal [OF n] by (simp add: normalized_rules_def rule_normal_def)
qed

lemma sample_date: "normalized_iso_date (mc_effective_date sample_context) f = Inr []"
  by (simp add: sample_context_def normalized_iso_date_def)

lemma sample_applies: "applies sample_context [] (sample_stored_rule source)"
  by (simp add: applies_def scope_matches_def date_matches_def sample_context_def sample_stored_rule_def
      with_scope_def sample_rule_def sample_normalize)

text \<open>The outcome of matching an invoice line does not depend on the order in which the rules stand
  in the file.\<close>

theorem matching_is_order_independent:
  assumes "normalized_rules rules = Inr rules" and "mset rules = mset rules'"
    and "normalized_iso_date (mc_effective_date c) ''effective_date'' = Inr day"
  shows "match_rules rules' c = match_rules rules c"
proof -
  note n = normalized_rules_normal [OF assms(1)]
  have n': "normalized_rules rules' = Inr rules'"
    using normalized_rules_mset [OF n(1,2) assms(2)] .
  have A: "applicable rules' c day = applicable rules c day"
    using mset_eq_setD [OF assms(2)] by (simp add: applicable_def)
  note same = match_rules_iffs [OF assms(1,3)] match_rules_iffs [OF n' assms(3), unfolded A]
  show ?thesis
  proof (cases "match_rules rules' c")
    case (Inl e)
    then have "match_rules rules c = Inl e" by (simp only: same)
    then show ?thesis using Inl by simp
  next
    case (Inr x)
    then have "match_rules rules c = Inr x" by (cases x) (simp_all only: same)
    then show ?thesis using Inr by simp
  qed
qed

theorem matching_is_order_independent_witness:
  "match_rules [sample_stored_rule ''manual''] sample_context
     = match_rules (rev [sample_stored_rule ''manual'']) sample_context"
  using matching_is_order_independent [OF sample_stored_rule(2) _ sample_date,
      where rules' = "rev [sample_stored_rule ''manual'']"] by simp

text \<open>C19: Matching is its specification: with rules whose scopes are distinct and a readable date, the
  result is no rule exactly when none applies, the rule \<open>r\<close> exactly when \<open>r\<close> is the preferred one (no
  applicable rule ranks higher, and all of its rank have its accounts), and the ambiguity error,
  naming the rules of the top rank, exactly when two of them disagree. No other error occurs.\<close>

theorem matching_meets_specification:
  assumes "normalized_rules rules = Inr ns"
    and "normalized_iso_date (mc_effective_date c) ''effective_date'' = Inr day"
  shows "(match_rules rules c = Inr None \<longleftrightarrow> applicable ns c day = {})
    \<and> (match_rules rules c = Inr (Some r) \<longleftrightarrow> preferred (applicable ns c day) r)
    \<and> (match_rules rules c = Inl e \<longleftrightarrow> contested (applicable ns c day)
         \<and> (\<exists>ids rank. e = MappingAmbiguity ids rank \<and> sorted ids \<and> distinct ids
              \<and> set ids = top_ids (applicable ns c day)
              \<and> (\<exists>q\<in>applicable ns c day. rank = rule_rank q \<and> (\<forall>p\<in>applicable ns c day. rule_rank p \<le> rank))))"
  using assms by (rule match_rules_spec)

theorem matching_meets_specification_witness:
  "match_rules [sample_stored_rule ''manual''] sample_context = Inr (Some (sample_stored_rule ''manual''))"
proof -
  have "applicable [sample_stored_rule ''manual''] sample_context [] = {sample_stored_rule ''manual''}"
    using sample_applies by (auto simp: applicable_def)
  then have "preferred (applicable [sample_stored_rule ''manual''] sample_context []) (sample_stored_rule ''manual'')"
    by (simp add: preferred_def)
  then show ?thesis
    using matching_meets_specification [OF sample_stored_rule(2) sample_date] by blast
qed

lemma resolution_outcome:
  assumes "normalized_rules rules = Inr ns"
    and "normalized_iso_date (mc_effective_date c) ''effective_date'' = Inr day"
  shows "\<exists>res rule. resolve_account_mapping rules line c = Inr (res, rule)
    \<and> rr_source_line_id res = normalize_match_text line
    \<and> (case rule of
         Some r \<Rightarrow> rr_outcome res = ''matched'' \<and> preferred (applicable ns c day) r
           \<and> rr_rule_id res = ru_rule_id r \<and> mapping_rule_fingerprint r = Inr (rr_rule_fingerprint res)
       | None \<Rightarrow> (rr_outcome res = ''unmatched'' \<and> applicable ns c day = {} \<and> rr_candidate_rule_ids res = [])
           \<or> (rr_outcome res = ''ambiguous'' \<and> contested (applicable ns c day)
               \<and> 2 \<le> length (rr_candidate_rule_ids res) \<and> sorted (rr_candidate_rule_ids res)
               \<and> set (rr_candidate_rule_ids res) = top_ids (applicable ns c day)
               \<and> length (rr_candidate_rule_fingerprints res) = length (rr_candidate_rule_ids res)))"
proof -
  note n = normalized_rules_normal [OF assms(1)] and same = match_rules_iffs [OF assms]
  let ?A = "applicable ns c day"
  have inj: "inj_on ru_rule_id ?A"
    using n(2) unfolding applicable_def distinct_map by (auto intro: inj_on_subset)
  consider (none) "match_rules rules c = Inr None" | (some) r where "match_rules rules c = Inr (Some r)"
    | (bad) e where "match_rules rules c = Inl e"
    by (metis not_None_eq obj_sumE)
  then show ?thesis
  proof cases
    case none
    then show ?thesis using same(1) by (simp add: resolve_account_mapping_def)
  next
    case (some r)
    then have p: "preferred ?A r" using same(2) by blast
    then have "rule_normal r"
      using n(1) by (auto simp: preferred_def applicable_def list_all_iff)
    then obtain h where "mapping_rule_fingerprint r = Inr h" "normalized_rule r = Inr r"
      using fingerprint_normal by (auto simp: rule_normal_def)
    then show ?thesis using some p by (simp add: resolve_account_mapping_def)
  next
    case (bad e)
    then obtain ids rank where c: "contested ?A" "e = MappingAmbiguity ids rank" "sorted ids"
      "set ids = top_ids ?A" using same(3) by blast
    then have "set ids \<subseteq> ru_rule_id ` set ns" using top_ids_sub by blast
    from ambiguous_resolution_ids [OF assms(1) this c(3)] obtain r where
      r: "ambiguous_resolution rules (normalize_match_text line) ids = Inr r" "rr_outcome r = ''ambiguous''"
        "rr_candidate_rule_ids r = ids" "length (rr_candidate_rule_fingerprints r) = length ids"
        "rr_source_line_id r = normalize_match_text line" by blast
    then show ?thesis
      using bad c contested_two [OF c(1) inj c(4)] by (simp add: resolve_account_mapping_def)
  qed
qed

text \<open>C20: Resolving a line against rules of the store never raises: the resolution is unmatched when no
  rule applies, names the preferred rule, which is returned with it, or reports the ambiguity with the
  two or more top rules that disagree, in order, and no rule.\<close>

theorem resolution_total:
  assumes "normalized_rules rules = Inr ns"
    and "normalized_iso_date (mc_effective_date c) ''effective_date'' = Inr day"
  shows "\<exists>res rule. resolve_account_mapping rules line c = Inr (res, rule)
    \<and> rr_source_line_id res = normalize_match_text line
    \<and> (case rule of
         Some r \<Rightarrow> rr_outcome res = ''matched'' \<and> preferred (applicable ns c day) r
           \<and> rr_rule_id res = ru_rule_id r \<and> mapping_rule_fingerprint r = Inr (rr_rule_fingerprint res)
       | None \<Rightarrow> (rr_outcome res = ''unmatched'' \<and> applicable ns c day = {} \<and> rr_candidate_rule_ids res = [])
           \<or> (rr_outcome res = ''ambiguous'' \<and> contested (applicable ns c day)
               \<and> 2 \<le> length (rr_candidate_rule_ids res) \<and> sorted (rr_candidate_rule_ids res)
               \<and> set (rr_candidate_rule_ids res) = top_ids (applicable ns c day)
               \<and> length (rr_candidate_rule_fingerprints res) = length (rr_candidate_rule_ids res)))"
  by (rule resolution_outcome [OF assms])

theorem resolution_total_witness:
  "\<exists>res rule. resolve_account_mapping [sample_stored_rule ''manual''] ''l1'' sample_context = Inr (res, rule)"
  using resolution_total [OF sample_stored_rule(2) sample_date] by blast

end
