(* ===== verification/Mapping_Writes.thy ===== *)
theory Mapping_Writes
  imports Rule_Matching
begin

text \<open>
  The writers of the mapping store (\<open>write_mapping\<close> and \<open>append_rule\<close> of
  \<open>bookkeeping/mapping.py\<close>): the compare-and-swap contract of \<open>State_Files\<close>, the invariant of the
  store (\<open>mapping_ok\<close>), what appending a rule may replace, and reading back what was written.
\<close>

section \<open>Compare and swap\<close>

datatype mapping_op =
    MappingWrite string "account_mapping_rule list" "string option" "mapping_store_binding option"
  | MappingAppend string account_mapping_rule string "mapping_store_binding option"

fun run_mapping :: "mapping_op \<Rightarrow> int option \<Rightarrow> account_mapping_store \<Rightarrow> exc + account_mapping_store" where
  "run_mapping (MappingWrite now rules upd b) e s = write_mapping_store now rules upd e b s"
| "run_mapping (MappingAppend now rule repl b) e s =
     res_bind (append_rule_store now rule e repl b s) (\<lambda>p. Inr (fst p))"

lemma check_rebinding_Inr:
  "check_rebinding e b s = Inr u \<Longrightarrow> (e = None \<or> e = Some (ms_revision s))
    \<and> (ms_binding s \<noteq> None \<longrightarrow> b \<noteq> None \<longrightarrow> b = ms_binding s)
    \<and> (ms_rules s \<noteq> [] \<longrightarrow> ms_binding s = None \<longrightarrow> b = None)"
  by (auto simp: check_rebinding_def res_bind_eq_Inr split: if_splits)

lemma write_mapping_store_Inr:
  assumes "write_mapping_store now rules upd e b s = Inr t"
  shows "(e = None \<or> e = Some (ms_revision s)) \<and> ms_revision t = ms_revision s + 1
    \<and> ms_version t = MAPPING_VERSION \<and> normalized_rules rules = Inr (ms_rules t)
    \<and> ms_binding t = (if b = None then ms_binding s else b)
    \<and> mapping_rules_version (ms_rules t) (ms_binding t) = Inr (ms_rules_version t)
    \<and> ms_migration_receipts t = ms_migration_receipts s"
  using assms
  by (auto simp: write_mapping_store_def res_bind_eq_Inr Let_def dest!: check_rebinding_Inr)

lemma append_rule_store_Inr:
  assumes "append_rule_store now rule e repl b s = Inr (t, r)"
  shows "(e = None \<or> e = Some (ms_revision s)) \<and>
    (append_plan rule repl (ms_rules s) = Inr (r, None) \<and> t = s \<or>
     (\<exists>rules. append_plan rule repl (ms_rules s) = Inr (r, Some rules)
        \<and> write_mapping_store now rules None (Some (ms_revision s)) (resolved_binding s b) s = Inr t))"
  using assms
  by (auto simp: append_rule_store_def res_bind_eq_Inr dest!: check_rebinding_Inr split: option.splits)

interpretation mapping_cas: versioned_store ms_revision run_mapping
proof
  fix op n s t
  assume "run_mapping op (Some n) s = Inr t"
  then show "n = ms_revision s"
    by (cases op) (auto simp: res_bind_eq_Inr dest!: write_mapping_store_Inr append_rule_store_Inr)
next
  fix op e s t
  assume "run_mapping op e s = Inr t"
  then show "t = s \<or> ms_revision t = ms_revision s + 1"
    by (cases op) (auto simp: res_bind_eq_Inr dest!: append_rule_store_Inr dest: write_mapping_store_Inr)
qed

section \<open>The invariant\<close>

definition binding_ok :: "mapping_store_binding option \<Rightarrow> bool" where
  "binding_ok b \<longleftrightarrow> (case b of None \<Rightarrow> True | Some x \<Rightarrow> check_binding x = Inr x)"

definition mapping_ok :: "account_mapping_store \<Rightarrow> bool" where
  "mapping_ok s \<longleftrightarrow> ms_version s = MAPPING_VERSION \<and> 0 \<le> ms_revision s
     \<and> normalized_rules (ms_rules s) = Inr (ms_rules s) \<and> binding_ok (ms_binding s)
     \<and> mapping_rules_version (ms_rules s) (ms_binding s) = Inr (ms_rules_version s)"

fun op_binding :: "mapping_op \<Rightarrow> mapping_store_binding option" where
  "op_binding (MappingWrite now rules upd b) = b"
| "op_binding (MappingAppend now rule repl b) = b"

lemma write_mapping_ok:
  assumes "write_mapping_store now rules upd e b s = Inr t" and "mapping_ok s" and "binding_ok b"
  shows "mapping_ok t"
  using write_mapping_store_Inr [OF assms(1)] assms(2,3) normalized_rules_normal(3)
  by (auto simp: mapping_ok_def)

lemma resolved_binding_ok: "mapping_ok s \<Longrightarrow> binding_ok b \<Longrightarrow> binding_ok (resolved_binding s b)"
  by (simp add: mapping_ok_def resolved_binding_def)

lemma run_mapping_ok:
  assumes "run_mapping op e s = Inr t" and "mapping_ok s" and "binding_ok (op_binding op)"
  shows "mapping_ok t"
  using assms
  by (cases op)
    (auto simp: res_bind_eq_Inr dest!: append_rule_store_Inr
      intro: write_mapping_ok resolved_binding_ok)

text \<open>Once the store is bound to a ledger, no operation rebinds it.\<close>

lemma run_mapping_binding:
  assumes "run_mapping op e s = Inr t" and "ms_binding s = Some b"
  shows "ms_binding t = Some b"
proof -
  have w: "ms_binding t = Some b"
    if w: "write_mapping_store now rules upd e' b' s = Inr t" for now rules upd e' b'
  proof -
    obtain u where "check_rebinding e' b' s = Inr u"
      using w by (cases "check_rebinding e' b' s") (auto simp: write_mapping_store_def)
    then show ?thesis
      using check_rebinding_Inr write_mapping_store_Inr [OF w] assms(2) by (cases b') fastforce+
  qed
  show ?thesis
    using assms w by (cases op) (auto simp: res_bind_eq_Inr dest!: append_rule_store_Inr)
qed

section \<open>Appending a rule\<close>

lemma find_by_id:
  assumes "distinct (map ru_rule_id rs)" and "q \<in> set rs"
  shows "find (\<lambda>r. ru_rule_id r = ru_rule_id q) rs = Some q"
  using assms by (induction rs) (auto simp: image_iff)

lemma find_SomeD: "find P xs = Some x \<Longrightarrow> x \<in> set xs \<and> P x"
  by (induction xs) (auto split: if_splits)

lemma append_plan_None:
  "append_plan rule repl rs = Inr (r, None) \<Longrightarrow> r \<in> set rs"
  unfolding append_plan_def Let_def
  by (auto simp: res_bind_eq_Inr find_None_iff dest!: find_SomeD split: if_splits option.splits)

lemma append_plan_source: "append_plan rule repl rs = Inr (r, p) \<Longrightarrow> ru_source r = ru_source rule"
  unfolding append_plan_def Let_def
  by (auto simp: res_bind_eq_Inr rule_signature_def dest!: normalized_rule_source
      split: if_splits option.splits)

lemma append_plan_Some:
  assumes "append_plan rule repl rs = Inr (r, Some rules)"
  shows "\<exists>removed. normalized_rule rule = Inr r
    \<and> rules = filter (\<lambda>q. ru_rule_id q \<notin> removed) rs @ [r]
    \<and> removed \<subseteq> insert (ru_rule_id r) (if normalize_match_text repl = [] then {} else {normalize_match_text repl})
    \<and> (normalize_match_text repl \<noteq> [] \<longrightarrow> ru_source r = ''manual'')
    \<and> (\<forall>q\<in>set rs. ru_rule_id q \<in> removed \<longrightarrow> find (\<lambda>p. ru_rule_id p = ru_rule_id q) rs = Some q \<longrightarrow>
         ru_rule_id q = normalize_match_text repl
         \<or> (ru_rule_id q = ru_rule_id r \<and> ru_source r \<noteq> ''manual''
            \<and> (ru_source q = ''manual'' \<longrightarrow> ru_source r \<noteq> ''ai_confirmed'')))
    \<and> (removed = {} \<or> (\<exists>k. removed = {k}))"
proof -
  obtain stored where st: "normalized_rule rule = Inr stored"
    using assms by (auto simp: append_plan_def res_bind_eq_Inr)
  let ?rid = "normalize_match_text repl"
  let ?ex = "find (\<lambda>r. ru_rule_id r = ru_rule_id stored) rs"
  let ?rep = "if ?rid = [] then None else find (\<lambda>r. ru_rule_id r = ?rid) rs"
  show ?thesis
  proof (cases ?ex)
    case None
    then have none: "\<forall>q\<in>set rs. ru_rule_id q \<noteq> ru_rule_id stored" by (auto simp: find_None_iff)
    show ?thesis
      using assms st None
      by (intro exI [of _ "if ?rid = [] then {} else {?rid}"])
        (auto simp: append_plan_def Let_def dest!: find_SomeD split: if_splits option.splits)
  next
    case (Some e)
    then have e: "e \<in> set rs" "ru_rule_id e = ru_rule_id stored" by (auto dest: find_SomeD)
    show ?thesis
      using assms st Some e
      by (intro exI [of _ "{ru_rule_id stored}"])
        (auto simp: append_plan_def Let_def dest!: find_SomeD split: if_splits option.splits)
  qed
qed

lemma rule_id_not_Nil: "rule_normal r \<Longrightarrow> ru_rule_id r \<noteq> []"
  by (simp add: rule_normal_id)

lemma length_filter_one:
  "distinct (map f rs) \<Longrightarrow> length rs \<le> Suc (length (filter (\<lambda>q. f q \<notin> {k}) rs))"
proof (induction rs)
  case (Cons r rs)
  show ?case
  proof (cases "f r = k")
    case True
    with Cons.prems have "filter (\<lambda>q. f q \<notin> {k}) rs = rs" by (auto simp: filter_id_conv) (metis image_eqI)
    then show ?thesis by simp
  qed (use Cons in simp)
qed simp

text \<open>Which rule of the store an append may remove: a manual rule only a manual rule that names it, an
  AI rule also an AI rule of the same scope.\<close>

definition may_remove :: "string \<Rightarrow> account_mapping_rule \<Rightarrow> account_mapping_rule \<Rightarrow> bool" where
  "may_remove repl r q \<longleftrightarrow>
     (ru_rule_id q = normalize_match_text repl \<and> ru_source r = ''manual'')
     \<or> (ru_rule_id q = ru_rule_id r \<and> ru_source r \<noteq> ''manual''
        \<and> (ru_source q = ''manual'' \<longrightarrow> ru_source r \<noteq> ''ai_confirmed''))"

lemma append_store_rules:
  assumes "append_rule_store now rule e repl b s = Inr (t, r)" and "mapping_ok s"
  shows "r \<in> set (ms_rules t) \<and> set (ms_rules t) \<subseteq> insert r (set (ms_rules s))
    \<and> (\<forall>q\<in>set (ms_rules s). q \<notin> set (ms_rules t) \<longrightarrow> may_remove repl r q)
    \<and> length (ms_rules s) \<le> length (ms_rules t)"
proof -
  have n: "list_all rule_normal (ms_rules s)" "distinct (map ru_rule_id (ms_rules s))"
    using assms(2) normalized_rules_normal unfolding mapping_ok_def by blast+
  consider (same) "append_plan rule repl (ms_rules s) = Inr (r, None)" "t = s"
    | (new) rules where "append_plan rule repl (ms_rules s) = Inr (r, Some rules)"
        "write_mapping_store now rules None (Some (ms_revision s)) (resolved_binding s b) s = Inr t"
    using append_rule_store_Inr [OF assms(1)] by blast
  then show ?thesis
  proof cases
    case same
    then show ?thesis using append_plan_None by auto
  next
    case new
    obtain removed where r: "normalized_rule rule = Inr r"
      and rules: "rules = filter (\<lambda>q. ru_rule_id q \<notin> removed) (ms_rules s) @ [r]"
      and manual: "normalize_match_text repl \<noteq> [] \<longrightarrow> ru_source r = ''manual''"
      and why: "\<And>q. q \<in> set (ms_rules s) \<Longrightarrow> ru_rule_id q \<in> removed \<Longrightarrow>
         find (\<lambda>p. ru_rule_id p = ru_rule_id q) (ms_rules s) = Some q \<Longrightarrow>
         ru_rule_id q = normalize_match_text repl
         \<or> (ru_rule_id q = ru_rule_id r \<and> ru_source r \<noteq> ''manual''
            \<and> (ru_source q = ''manual'' \<longrightarrow> ru_source r \<noteq> ''ai_confirmed''))"
      and one: "removed = {} \<or> (\<exists>k. removed = {k})"
      using append_plan_Some [OF new(1)] by blast
    have "list_all rule_normal rules"
      using n(1) normalized_rule_normal [OF r] by (auto simp: rules list_all_iff)
    then have t: "ms_rules t = rules"
      using write_mapping_store_Inr [OF new(2)]
      by (auto simp: normalized_rules_def res_map_normal split: if_splits)
    have "may_remove repl r q" if q: "q \<in> set (ms_rules s)" "q \<notin> set rules" for q
    proof -
      have "ru_rule_id q \<in> removed" using q by (auto simp: rules)
      moreover have "ru_rule_id q \<noteq> []" using q(1) n(1) rule_id_not_Nil by (auto simp: list_all_iff)
      ultimately show ?thesis
        using why [OF q(1) _ find_by_id [OF n(2) q(1)]] manual by (auto simp: may_remove_def)
    qed
    moreover have "length (ms_rules s) \<le> length rules"
      using one length_filter_one [OF n(2)] by (auto simp: rules)
    ultimately show ?thesis by (auto simp: t rules)
  qed
qed

section \<open>Reading back\<close>

lemma load_receipts_dump: "load_receipts (VDict (map (\<lambda>p. (fst p, VDict (snd p))) d)) = Inr d"
proof -
  have "res_map (\<lambda>(k, x). case x of VDict r \<Rightarrow> Inr (k, r)
      | _ \<Rightarrow> Inl (TypeError ''migration_receipts must be an object of receipt objects''))
      (map (\<lambda>p. (fst p, VDict (snd p))) d) = Inr d"
    by (induction d) auto
  then show ?thesis by (simp add: load_receipts_def)
qed

lemma load_rules_dump:
  assumes "normalized_rules rs = Inr rs" and "\<And>r. r \<in> set rs \<Longrightarrow> vrule (dump_account_mapping_rule r) = Some r"
  shows "load_rules vrule (VList (map (\<lambda>r. VDict (dump_account_mapping_rule r)) rs)) = Inr rs"
proof -
  have "list_all rule_normal rs" using assms(1) by (rule normalized_rules_normal)
  then have "res_map (\<lambda>v. res_bind (parse_rule vrule v) normalized_rule)
      (map (\<lambda>r. VDict (dump_account_mapping_rule r)) rs) = Inr rs"
    using assms(2) by (induction rs) (auto simp: rule_normal_def)
  then show ?thesis using assms(1) by (simp add: load_rules_def)
qed

lemma binding_payload_back: "check_binding b = Inr b \<Longrightarrow> binding_from_payload (VDict (binding_payload b)) = Inr b"
  by (cases b) (simp add: binding_payload_def binding_fields_def get_val_def)

lemma load_binding_dump:
  "binding_ok b \<Longrightarrow> load_binding (case b of None \<Rightarrow> VNone | Some x \<Rightarrow> VDict (binding_payload x)) = Inr b"
  by (cases b) (simp_all add: load_binding_def binding_ok_def binding_payload_back del: binding_from_payload.simps)

lemma rules_version_not_Nil: "mapping_rules_version rs b = Inr v \<Longrightarrow> v \<noteq> []"
  by (auto simp: mapping_rules_version_def res_bind_eq_Inr)

lemma load_mapping_written:
  assumes "mapping_ok s" and "\<And>r. r \<in> set (ms_rules s) \<Longrightarrow> vrule (dump_account_mapping_rule r) = Some r"
  shows "load_mapping vrule (mapping_to_file s) = Inr s"
proof -
  let ?p = "mapping_payload s"
  have get: "get_default ?p ''version'' (VInt 1) = VInt (ms_version s)"
    "get_val ?p ''revision'' = VInt (ms_revision s)"
    "get_val ?p ''rules'' = VList (map (\<lambda>r. VDict (dump_account_mapping_rule r)) (ms_rules s))"
    "get_val ?p ''binding'' = (case ms_binding s of None \<Rightarrow> VNone | Some x \<Rightarrow> VDict (binding_payload x))"
    "get_default ?p ''migration_receipts'' (VDict []) =
       VDict (map (\<lambda>p. (fst p, VDict (snd p))) (ms_migration_receipts s))"
    "get_val ?p ''updated_at'' = VStr (ms_updated_at s)"
    "get_val ?p ''rules_version'' = VStr (ms_rules_version s)"
    by (simp_all add: get_val_def get_default_def mapping_payload_def)
  have v: "gets ?p ''rules_version'' = ms_rules_version s"
    using assms(1) rules_version_not_Nil by (auto simp: gets_or_def get mapping_ok_def)
  have ok: "normalized_rules (ms_rules s) = Inr (ms_rules s)" "binding_ok (ms_binding s)"
    "mapping_rules_version (ms_rules s) (ms_binding s) = Inr (ms_rules_version s)"
    "ms_version s = MAPPING_VERSION" "0 \<le> ms_revision s"
    using assms(1) by (simp_all add: mapping_ok_def)
  have rules: "load_rules vrule (VList (map (\<lambda>r. VDict (dump_account_mapping_rule r)) (ms_rules s)))
      = Inr (ms_rules s)"
    by (rule load_rules_dump [OF ok(1)]) (rule assms(2))
  have "decode_mapping vrule ?p = Inr s"
    unfolding decode_mapping_def get v rules load_binding_dump [OF ok(2)] load_receipts_dump
    using ok(3,4,5) by (simp add: MAPPING_VERSION_def)
  then show ?thesis
    by (simp add: load_mapping_def mapping_to_file_def atomic_write_json_durable_def)
qed

section \<open>Properties\<close>

definition sample_mapping :: "account_mapping_rule list \<Rightarrow> account_mapping_store" where
  "sample_mapping rules = \<lparr>ms_version = MAPPING_VERSION, ms_revision = 3, ms_updated_at = ''t0'',
     ms_rules_version = (case mapping_rules_version rules None of Inl e \<Rightarrow> [] | Inr v \<Rightarrow> v),
     ms_rules = rules, ms_binding = None, ms_migration_receipts = []\<rparr>"

lemma rules_version_total: "normalized_rules rs = Inr rs \<Longrightarrow> \<exists>v. mapping_rules_version rs b = Inr v"
proof -
  assume n: "normalized_rules rs = Inr rs"
  then have "list_all rule_normal rs" by (rule normalized_rules_normal)
  then have "\<exists>ps. res_map mapping_rule_semantic_payload (sort_key ru_rule_id rs) = Inr ps"
    by (intro res_map_total)
      (auto simp: mapping_rule_semantic_payload_def rule_normal_def list_all_iff)
  then show ?thesis using n by (auto simp: mapping_rules_version_def)
qed

lemma sample_mapping_ok:
  assumes "normalized_rules rs = Inr rs"
  shows "mapping_ok (sample_mapping rs)"
  using assms rules_version_total [OF assms, of None]
  by (auto simp: mapping_ok_def sample_mapping_def binding_ok_def)

lemma sample_write:
  "\<exists>t. run_mapping (MappingWrite now [] None None) (Some 3) (sample_mapping []) = Inr t \<and> t \<noteq> sample_mapping []"
proof -
  have n: "normalized_rules [] = Inr []" by (simp add: normalized_rules_def)
  obtain v where "mapping_rules_version [] None = Inr v"
    using rules_version_total [OF n] by blast
  then obtain t where t: "run_mapping (MappingWrite now [] None None) (Some 3) (sample_mapping []) = Inr t"
    by (simp add: write_mapping_store_def check_rebinding_def sample_mapping_def n Let_def)
  then have "ms_revision t = 4" using write_mapping_store_Inr by (fastforce simp: sample_mapping_def)
  then have "t \<noteq> sample_mapping []" by (auto simp: sample_mapping_def)
  with t show ?thesis by blast
qed

text \<open>After a write of the mapping store or an append that changed it, no request prepared at the
  revision before it succeeds, whatever requests ran in between.\<close>

theorem mapping_no_lost_update:
  assumes "run_mapping op e s = Inr t" and "t \<noteq> s"
  shows "\<nexists>u. run_mapping op' (Some (ms_revision s)) (run_requests run_mapping rs t) = Inr u"
  using assms by (rule mapping_cas.no_lost_update)

theorem mapping_no_lost_update_witness:
  "\<exists>t. run_mapping (MappingWrite ''t1'' [] None None) (Some 3) (sample_mapping []) = Inr t
    \<and> (\<nexists>u. run_mapping (MappingWrite ''t2'' [] None None) (Some 3) t = Inr u)"
proof -
  obtain t where t: "run_mapping (MappingWrite ''t1'' [] None None) (Some 3) (sample_mapping []) = Inr t"
    "t \<noteq> sample_mapping []" using sample_write by blast
  have "ms_revision (sample_mapping []) = 3" by (simp add: sample_mapping_def)
  then show ?thesis
    using mapping_no_lost_update [OF t, where op' = "MappingWrite ''t2'' [] None None" and rs = "[]"] t(1)
    by auto
qed

text \<open>C22: The invariant of the mapping store survives every sequence of requests, also those that fail:
  rules are normalized with distinct ids, the content hash is that of the rules and the binding, the
  binding is well formed, and a store once bound to a ledger stays bound to it.\<close>

theorem mapping_store_invariant:
  assumes "mapping_ok s" and "list_all (\<lambda>r. binding_ok (op_binding (fst r))) rs"
  shows "mapping_ok (run_requests run_mapping rs s)
    \<and> (ms_binding s = Some b \<longrightarrow> ms_binding (run_requests run_mapping rs s) = Some b)"
  using assms
proof (induction rs arbitrary: s)
  case (Cons r rs)
  let ?t = "case run_mapping (fst r) (snd r) s of Inl e \<Rightarrow> s | Inr t \<Rightarrow> t"
  have "mapping_ok ?t" "ms_binding s = Some b \<longrightarrow> ms_binding ?t = Some b"
    using Cons.prems by (auto split: sum.split intro: run_mapping_ok run_mapping_binding)
  with Cons show ?case by simp
qed simp

theorem mapping_store_invariant_witness:
  "mapping_ok (run_requests run_mapping
     [(MappingAppend ''t1'' (sample_rule ''b'' ''manual'') [] None, Some 3),
      (MappingAppend ''t2'' (sample_rule ''a'' ''ai_confirmed'') [] None, Some 4)]
     (sample_mapping [sample_stored_rule ''manual'']))"
  using mapping_store_invariant [OF sample_mapping_ok [OF sample_stored_rule(2)],
      where rs = "[(MappingAppend ''t1'' (sample_rule ''b'' ''manual'') [] None, Some 3),
        (MappingAppend ''t2'' (sample_rule ''a'' ''ai_confirmed'') [] None, Some 4)]"]
  by (simp add: binding_ok_def)

text \<open>C21: Appending a rule stores it under an id of its own and replaces at most one rule. A manual rule
  gives way only to a manual rule that names it in \<open>replaces_rule_id\<close>, never to an AI suggestion; an
  AI suggestion replaces nothing but a rule of its own scope.\<close>

theorem append_protects_manual:
  assumes "append_rule_store now rule e repl b s = Inr (t, r)" and "mapping_ok s"
    and "ru_source rule \<in> {''manual'', ''ai_confirmed''}"
  shows "r \<in> set (ms_rules t) \<and> set (ms_rules t) \<subseteq> insert r (set (ms_rules s))
    \<and> ru_source r = ru_source rule \<and> length (ms_rules s) \<le> length (ms_rules t)
    \<and> (\<forall>q\<in>set (ms_rules s). q \<notin> set (ms_rules t) \<longrightarrow>
         (ru_source q = ''manual'' \<longrightarrow> ru_source r = ''manual'' \<and> ru_rule_id q = normalize_match_text repl)
         \<and> (ru_source r \<noteq> ''manual'' \<longrightarrow> ru_rule_id q = ru_rule_id r))"
proof -
  have "ru_source r = ru_source rule"
    using append_rule_store_Inr [OF assms(1)] append_plan_source by blast
  then show ?thesis
    using append_store_rules [OF assms(1,2)] assms(3) unfolding may_remove_def by auto
qed

theorem append_protects_manual_witness:
  "\<exists>t r. append_rule_store ''t1'' (sample_rule ''a'' ''manual'') (Some 3) [] None
      (sample_mapping [sample_stored_rule ''manual'']) = Inr (t, r)
    \<and> sample_stored_rule ''manual'' \<in> set (ms_rules t)"
proof -
  let ?s = "sample_mapping [sample_stored_rule ''manual'']"
  have "append_plan (sample_rule ''a'' ''manual'') [] (ms_rules ?s) = Inr (sample_stored_rule ''manual'', None)"
    by (simp add: append_plan_def sample_stored_rule(1) sample_mapping_def)
  then have a: "append_rule_store ''t1'' (sample_rule ''a'' ''manual'') (Some 3) [] None ?s
      = Inr (?s, sample_stored_rule ''manual'')"
    by (simp add: append_rule_store_def check_rebinding_def) (simp add: sample_mapping_def)
  have "ru_source (sample_rule ''a'' ''manual'') \<in> {''manual'', ''ai_confirmed''}"
    by (simp add: sample_rule_def)
  then show ?thesis
    using append_protects_manual [OF a sample_mapping_ok [OF sample_stored_rule(2)]] a by blast
qed

text \<open>What the mapping store writes it reads back: the same rules in the same order, the binding, the
  receipts and the revision, given that parsing a dumped rule gives it back.\<close>

theorem stored_mapping_reads_back:
  assumes "mapping_ok s" and "\<And>r. r \<in> set (ms_rules s) \<Longrightarrow> vrule (dump_account_mapping_rule r) = Some r"
  shows "load_mapping vrule (mapping_to_file s) = Inr s"
  using assms by (rule load_mapping_written)

theorem stored_mapping_reads_back_witness:
  "load_mapping (\<lambda>d. if d = dump_account_mapping_rule (sample_stored_rule ''manual'')
       then Some (sample_stored_rule ''manual'') else None)
     (mapping_to_file (sample_mapping [sample_stored_rule ''manual'']))
   = Inr (sample_mapping [sample_stored_rule ''manual''])"
  by (rule stored_mapping_reads_back [OF sample_mapping_ok [OF sample_stored_rule(2)]])
    (simp add: sample_mapping_def)

end
