(* ===== verification/Ledger_Catalogs.thy ===== *)
theory Ledger_Catalogs
  imports State_Files
begin

text \<open>
  \<open>bookkeeping/catalogs.py\<close>: the profile of the ledger that vouchers are posted to, and the catalogs
  of its accounts and auxiliary values. The three files name one capture of one ledger; the profile
  carries the hash of the ledger identity and of the two catalog files, and is written by compare
  and swap on its revision.

  Parameters: \<open>nfkc\<close> is \<open>unicodedata.normalize("NFKC", s)\<close> (the Unicode tables are not part of the
  repository); \<open>vprofile\<close>, \<open>vaccounts\<close>, \<open>vaux\<close> and \<open>vfacts\<close> are pydantic's strict
  \<open>model_validate\<close> of the four models. \<open>upper()\<close> of a currency code is that of ASCII letters.
\<close>

record ledger_codec =
  nfkc :: "string \<Rightarrow> string"
  vprofile :: "vdict \<Rightarrow> company_ledger_profile option"
  vaccounts :: "vdict \<Rightarrow> account_catalog_envelope option"
  vaux :: "vdict \<Rightarrow> auxiliary_catalog_envelope option"
  vfacts :: "vdict \<Rightarrow> company_facts option"

record ledger_catalog_snapshot =
  ls_profile :: company_ledger_profile
  ls_account_catalog :: account_catalog_envelope
  ls_auxiliary_catalog :: auxiliary_catalog_envelope
  ls_profile_file_sha256 :: string
  ls_account_file_sha256 :: string
  ls_auxiliary_file_sha256 :: string
  ls_accounts_by_code :: "account_catalog_record dict"
  ls_auxiliary_by_value_id :: "auxiliary_catalog_record dict"
  ls_auxiliary_by_dimension_and_code :: "((string \<times> string) \<times> auxiliary_catalog_record) list"

section \<open>The identity of a ledger\<close>

definition canonical_text :: "ledger_codec \<Rightarrow> pyval \<Rightarrow> string" where
  "canonical_text u value = strip (collapse_space (nfkc u (str_or_empty value)))"

definition ascii_upper :: "string \<Rightarrow> string" where
  "ascii_upper s = map (\<lambda>c. if 97 \<le> byte c \<and> byte c \<le> 122 then char_of (byte c - 32) else c) s"

definition identity_stable :: "ledger_codec \<Rightarrow> vdict \<Rightarrow> exc + vdict" where
  "identity_stable u payload =
    (let field = (\<lambda>k. canonical_text u (get_val payload k));
         identity_method = field ''identity_method'';
         stable = [(''identity_schema'', VInt 1), (''company_id'', VStr (field ''company_id'')),
           (''ledger_environment'', VStr (field ''ledger_environment'')),
           (''ledger_provider'', VStr (field ''ledger_provider'')),
           (''identity_method'', VStr identity_method),
           (''ledger_instance_key'', VStr (field ''ledger_instance_key''))]
     in if identity_method = ''confirmed_composite''
        then Inr (stable @ [(''company_tax_id'', VStr (field ''company_tax_id'')),
          (''ledger_name'', VStr (field ''ledger_name'')),
          (''accounting_standard'', VStr (field ''accounting_standard'')),
          (''currency'', VStr (ascii_upper (field ''currency'')))])
        else if identity_method \<noteq> ''native_id''
        then Inl (ValueError ''unsupported ledger identity method'' [identity_method])
        else Inr stable)"

definition canonical_ledger_identity :: "ledger_codec \<Rightarrow> vdict \<Rightarrow> exc + string" where
  "canonical_ledger_identity u payload =
     res_bind (identity_stable u payload) (\<lambda>stable. Inr (canonical_sha256 (VDict stable)))"

definition canonical_profile_sha256 :: "vdict \<Rightarrow> string" where
  "canonical_profile_sha256 payload = canonical_sha256 (VDict payload)"

section \<open>Validation\<close>

fun read_json_object_with_sha :: "store_file \<Rightarrow> exc + vdict \<times> string" where
  "read_json_object_with_sha NoFile = Inl (FileNotFound ''catalog'')"
| "read_json_object_with_sha (File b (Some (VDict d))) = Inr (d, sha256 b)"
| "read_json_object_with_sha (File b v) = Inl (StateCorruption ''bookkeeping_catalog_json_invalid'')"

definition schema_error :: "string \<Rightarrow> exc + 'a \<Rightarrow> exc + 'a" where
  "schema_error kind r = (case r of
      Inl e \<Rightarrow> Inl (StateCorruption (''bookkeeping_'' @ kind @ ''_schema_invalid''))
    | Inr x \<Rightarrow> Inr x)"

definition require_text :: "string \<Rightarrow> string \<Rightarrow> exc + string" where
  "require_text value field =
    (if strip value = [] then Inl (ValueError ''must not be empty'' [field])
     else if value \<noteq> strip value then Inl (ValueError ''must not contain surrounding whitespace'' [field])
     else Inr value)"

definition require_sha256 :: "string \<Rightarrow> string \<Rightarrow> exc + string" where
  "require_sha256 value field =
    (if \<not> is_sha256_text value then Inl (ValueError ''must be a lowercase SHA-256 hex digest'' [field])
     else Inr value)"

definition require_texts :: "(string \<times> string) list \<Rightarrow> exc + unit" where
  "require_texts pairs = res_bind (res_map (\<lambda>(field, v). require_text v field) pairs) (\<lambda>_. Inr ())"

definition validate_company_facts :: "company_facts \<Rightarrow> exc + unit" where
  "validate_company_facts f = require_texts
     [(''company_id'', cf_company_id f), (''company_name'', cf_company_name f),
      (''company_tax_id'', cf_company_tax_id f), (''confirmed_by'', cf_confirmed_by f),
      (''confirmed_at'', cf_confirmed_at f)]"

text \<open>\<open>^\d{4}-(0[1-9]|1[0-2])$\<close>\<close>

definition is_period :: "string \<Rightarrow> bool" where
  "is_period s \<longleftrightarrow>
    (let year = ascii_digits (utake 4 s); month = udrop 4 s
     in length year = 4 \<and> list_all is_digit year \<and> length month = 3 \<and> month ! 0 = CHR ''-''
        \<and> (month ! 1 = CHR ''0'' \<and> is_digit (month ! 2) \<and> month ! 2 \<noteq> CHR ''0''
           \<or> month ! 1 = CHR ''1'' \<and> (month ! 2 = CHR ''0'' \<or> month ! 2 = CHR ''1'' \<or> month ! 2 = CHR ''2'')))"

definition check_periods :: "string list \<Rightarrow> string \<Rightarrow> exc + unit" where
  "check_periods open_periods closed_through =
    (if \<not> distinct open_periods then Inl (ValueError ''open_periods must not contain duplicates'' [])
     else if open_periods \<noteq> sort open_periods then Inl (ValueError ''open_periods must be sorted'' [])
     else if \<not> list_all is_period open_periods then Inl (ValueError ''invalid open period'' [])
     else if closed_through \<noteq> [] \<and> \<not> is_period closed_through
     then Inl (ValueError ''invalid closed_through period'' [closed_through])
     else if closed_through \<noteq> [] \<and> list_ex (\<lambda>p. p \<le> closed_through) open_periods
     then Inl (ValueError ''open_periods cannot include a closed period'' [])
     else Inr ())"

definition validate_profile :: "ledger_codec \<Rightarrow> company_ledger_profile \<Rightarrow> exc + unit" where
  "validate_profile u p =
    res_bind (require_texts
      [(''company_id'', pf_company_id p), (''company_name'', pf_company_name p),
       (''company_tax_id'', pf_company_tax_id p), (''ledger_provider'', pf_ledger_provider p),
       (''ledger_instance_key'', pf_ledger_instance_key p), (''ledger_name'', pf_ledger_name p),
       (''capture_id'', pf_capture_id p), (''accounting_standard'', pf_accounting_standard p),
       (''taxpayer_profile'', pf_taxpayer_profile p), (''currency'', pf_currency p),
       (''default_voucher_type'', pf_default_voucher_type p), (''confirmed_by'', pf_confirmed_by p),
       (''confirmed_at'', pf_confirmed_at p)]) (\<lambda>_.
    res_bind (require_sha256 (pf_ledger_identity_sha256 p) ''ledger_identity_sha256'') (\<lambda>_.
    res_bind (require_sha256 (pf_account_table_sha256 p) ''account_table_sha256'') (\<lambda>_.
    res_bind (require_sha256 (pf_aux_catalog_sha256 p) ''aux_catalog_sha256'') (\<lambda>_.
    res_bind (canonical_ledger_identity u (dump_company_ledger_profile p)) (\<lambda>identity.
    if pf_ledger_identity_sha256 p \<noteq> identity
    then Inl (ValueError ''ledger_identity_sha256 does not match the canonical ledger identity'' [])
    else check_periods (pf_open_periods p) (pf_closed_through p))))))"

definition validate_envelope ::
  "string \<Rightarrow> string \<Rightarrow> string \<Rightarrow> string \<Rightarrow> string \<Rightarrow> string \<Rightarrow> exc + unit" where
  "validate_envelope company_id capture_id captured_at captured_by identity content =
    res_bind (require_texts [(''company_id'', company_id), (''capture_id'', capture_id),
       (''captured_at'', captured_at), (''captured_by'', captured_by)]) (\<lambda>_.
    res_bind (require_sha256 identity ''ledger_identity_sha256'') (\<lambda>_.
    res_bind (require_sha256 content ''content_sha256'') (\<lambda>_. Inr ())))"

definition add_account :: "account_catalog_record \<Rightarrow> account_catalog_record dict \<Rightarrow> exc + account_catalog_record dict" where
  "add_account r by_code =
    res_bind (require_text (ac_code r) ''records[].code'') (\<lambda>code.
    res_bind (require_text (ac_name r) ''account name'') (\<lambda>_.
    if dhas by_code code then Inl (ValueError ''duplicate account code'' [code])
    else if \<not> distinct (ac_required_aux_dimensions r)
    then Inl (ValueError ''duplicate required auxiliary dimensions'' [code])
    else res_bind (require_texts (map (\<lambda>d. (''required auxiliary dimension'', d)) (ac_required_aux_dimensions r)))
      (\<lambda>_. Inr (dput code r by_code))))"

definition validate_account_catalog :: "account_catalog_envelope \<Rightarrow> exc + account_catalog_record dict" where
  "validate_account_catalog c =
    res_bind (validate_envelope (ae_company_id c) (ae_capture_id c) (ae_captured_at c) (ae_captured_by c)
        (ae_ledger_identity_sha256 c) (ae_content_sha256 c)) (\<lambda>_.
    res_fold add_account (ae_records c) [])"

type_synonym aux_index =
  "auxiliary_catalog_record dict \<times> ((string \<times> string) \<times> auxiliary_catalog_record) list"

definition add_auxiliary :: "auxiliary_catalog_record \<Rightarrow> aux_index \<Rightarrow> exc + aux_index" where
  "add_auxiliary r index =
    (case index of (by_value_id, by_code) \<Rightarrow>
    res_bind (require_text (ax_dimension r) ''records[].dimension'') (\<lambda>dimension.
    res_bind (require_text (ax_value_id r) ''auxiliary value_id'') (\<lambda>value_id.
    res_bind (require_text (ax_name r) ''auxiliary name'') (\<lambda>_.
    if dhas by_value_id value_id then Inl (ValueError ''duplicate auxiliary value_id'' [value_id])
    else if ax_code r = [] then Inr (dput value_id r by_value_id, by_code)
    else res_bind (require_text (ax_code r) ''auxiliary code'') (\<lambda>code.
      if map_of by_code (dimension, code) \<noteq> None
      then Inl (ValueError ''duplicate auxiliary code'' [dimension, code])
      else Inr (dput value_id r by_value_id, by_code @ [((dimension, code), r)]))))))"

definition validate_auxiliary_catalog :: "auxiliary_catalog_envelope \<Rightarrow> exc + aux_index" where
  "validate_auxiliary_catalog c =
    res_bind (validate_envelope (xe_company_id c) (xe_capture_id c) (xe_captured_at c) (xe_captured_by c)
        (xe_ledger_identity_sha256 c) (xe_content_sha256 c)) (\<lambda>_.
    res_fold add_auxiliary (xe_records c) ([], []))"

definition validated :: "'a option \<Rightarrow> exc + 'a" where
  "validated v = (case v of None \<Rightarrow> Inl (ValueError ''validation error'' []) | Some x \<Rightarrow> Inr x)"

section \<open>Parsing the files\<close>

definition parse_company_facts :: "ledger_codec \<Rightarrow> store_file \<Rightarrow> exc + company_facts \<times> string" where
  "parse_company_facts u f =
    res_bind (read_json_object_with_sha f) (\<lambda>(payload, digest).
    schema_error ''company_facts''
      (res_bind (validated (vfacts u payload)) (\<lambda>facts.
       res_bind (validate_company_facts facts) (\<lambda>_. Inr (facts, digest)))))"

definition parse_ledger_profile :: "ledger_codec \<Rightarrow> store_file \<Rightarrow> exc + company_ledger_profile \<times> string" where
  "parse_ledger_profile u f =
    res_bind (read_json_object_with_sha f) (\<lambda>(payload, digest).
    schema_error ''ledger_profile''
      (res_bind (validated (vprofile u payload)) (\<lambda>profile.
       res_bind (validate_profile u profile) (\<lambda>_. Inr (profile, digest)))))"

definition check_content :: "vdict \<Rightarrow> exc + unit" where
  "check_content payload =
    (case get_val payload ''records'' of
       VList raw \<Rightarrow> if get_val payload ''content_sha256'' \<noteq> VStr (canonical_sha256 (VList raw))
         then Inl (ValueError ''catalog content_sha256 mismatch'' []) else Inr ()
     | _ \<Rightarrow> Inl (TypeError ''records must be an array''))"

definition parse_account_catalog ::
  "ledger_codec \<Rightarrow> store_file \<Rightarrow> exc + account_catalog_envelope \<times> string \<times> account_catalog_record dict" where
  "parse_account_catalog u f =
    res_bind (read_json_object_with_sha f) (\<lambda>(payload, digest).
    schema_error ''account_catalog''
      (res_bind (check_content payload) (\<lambda>_.
       res_bind (validated (vaccounts u payload)) (\<lambda>catalog.
       res_bind (validate_account_catalog catalog) (\<lambda>by_code. Inr (catalog, digest, by_code))))))"

definition parse_auxiliary_catalog ::
  "ledger_codec \<Rightarrow> store_file \<Rightarrow> exc + auxiliary_catalog_envelope \<times> string \<times> aux_index" where
  "parse_auxiliary_catalog u f =
    res_bind (read_json_object_with_sha f) (\<lambda>(payload, digest).
    schema_error ''auxiliary_catalog''
      (res_bind (check_content payload) (\<lambda>_.
       res_bind (validated (vaux u payload)) (\<lambda>catalog.
       res_bind (validate_auxiliary_catalog catalog) (\<lambda>index. Inr (catalog, digest, index))))))"

definition load_company_facts :: "ledger_codec \<Rightarrow> store_file \<Rightarrow> exc + company_facts" where
  "load_company_facts u f = res_bind (parse_company_facts u f) (\<lambda>p. Inr (fst p))"

definition load_ledger_profile :: "ledger_codec \<Rightarrow> store_file \<Rightarrow> exc + company_ledger_profile" where
  "load_ledger_profile u f = res_bind (parse_ledger_profile u f) (\<lambda>p. Inr (fst p))"

definition load_account_catalog :: "ledger_codec \<Rightarrow> store_file \<Rightarrow> exc + account_catalog_envelope" where
  "load_account_catalog u f = res_bind (parse_account_catalog u f) (\<lambda>p. Inr (fst p))"

definition load_auxiliary_catalog :: "ledger_codec \<Rightarrow> store_file \<Rightarrow> exc + auxiliary_catalog_envelope" where
  "load_auxiliary_catalog u f = res_bind (parse_auxiliary_catalog u f) (\<lambda>p. Inr (fst p))"

section \<open>Binding the three files\<close>

definition profile_identity :: "company_ledger_profile \<Rightarrow> string list" where
  "profile_identity p = [pf_company_id p, pf_ledger_environment p, pf_ledger_identity_sha256 p, pf_capture_id p]"

definition validate_profile_catalog_binding ::
  "company_ledger_profile \<Rightarrow> account_catalog_envelope \<Rightarrow> auxiliary_catalog_envelope \<Rightarrow> company_facts option
    \<Rightarrow> string option \<Rightarrow> string option \<Rightarrow> exc + unit" where
  "validate_profile_catalog_binding p accounts auxiliary facts account_sha auxiliary_sha =
    (if [ae_company_id accounts, ae_ledger_environment accounts, ae_ledger_identity_sha256 accounts,
         ae_capture_id accounts] \<noteq> profile_identity p
     then Inl (ValueError ''account catalog identity mismatch'' [])
     else if [xe_company_id auxiliary, xe_ledger_environment auxiliary, xe_ledger_identity_sha256 auxiliary,
         xe_capture_id auxiliary] \<noteq> profile_identity p
     then Inl (ValueError ''auxiliary catalog identity mismatch'' [])
     else if account_sha \<noteq> None \<and> account_sha \<noteq> Some (pf_account_table_sha256 p)
     then Inl (ValueError ''profile account_table_sha256 does not match the account catalog file'' [])
     else if auxiliary_sha \<noteq> None \<and> auxiliary_sha \<noteq> Some (pf_aux_catalog_sha256 p)
     then Inl (ValueError ''profile aux_catalog_sha256 does not match the auxiliary catalog file'' [])
     else case facts of
         None \<Rightarrow> Inr ()
       | Some f \<Rightarrow> res_bind (validate_company_facts f) (\<lambda>_.
           if [cf_company_id f, cf_company_name f, cf_company_tax_id f]
             \<noteq> [pf_company_id p, pf_company_name p, pf_company_tax_id p]
           then Inl (ValueError ''company facts mismatch'' []) else Inr ()))"

text \<open>The files are read once for their content and once more, at the end, for their digests; \<open>later\<close>
  is what the second reading finds.\<close>

definition load_facts_option :: "ledger_codec \<Rightarrow> store_file option \<Rightarrow> exc + company_facts option" where
  "load_facts_option u f =
    (case f of None \<Rightarrow> Inr None | Some x \<Rightarrow> res_bind (load_company_facts u x) (\<lambda>facts. Inr (Some facts)))"

definition load_bookkeeping_catalogs ::
  "ledger_codec \<Rightarrow> store_file \<Rightarrow> store_file \<Rightarrow> store_file \<Rightarrow> store_file option
    \<Rightarrow> store_file \<times> store_file \<times> store_file \<Rightarrow> exc + ledger_catalog_snapshot" where
  "load_bookkeeping_catalogs u profile_file account_file auxiliary_file facts_file later =
    res_bind (parse_ledger_profile u profile_file) (\<lambda>(profile, profile_sha).
    res_bind (parse_account_catalog u account_file) (\<lambda>(accounts, account_sha, by_code).
    res_bind (parse_auxiliary_catalog u auxiliary_file) (\<lambda>(auxiliary, auxiliary_sha, by_value_id, by_dimension).
    res_bind (load_facts_option u facts_file) (\<lambda>facts.
    res_bind (validate_profile_catalog_binding profile accounts auxiliary facts
        (Some account_sha) (Some auxiliary_sha)) (\<lambda>_.
    if (file_sha256 (fst later), file_sha256 (fst (snd later)), file_sha256 (snd (snd later)))
      \<noteq> (profile_sha, account_sha, auxiliary_sha)
    then Inl (RuntimeError ''profile or catalog changed while the snapshot was being loaded'')
    else Inr \<lparr>ls_profile = profile, ls_account_catalog = accounts, ls_auxiliary_catalog = auxiliary,
           ls_profile_file_sha256 = profile_sha, ls_account_file_sha256 = account_sha,
           ls_auxiliary_file_sha256 = auxiliary_sha, ls_accounts_by_code = by_code,
           ls_auxiliary_by_value_id = by_value_id, ls_auxiliary_by_dimension_and_code = by_dimension\<rparr>)))))"

section \<open>Writing the profile\<close>

definition current_profile_revision :: "ledger_codec \<Rightarrow> store_file \<Rightarrow> exc + int" where
  "current_profile_revision u f =
    (if f = NoFile then Inr 0 else res_bind (load_ledger_profile u f) (\<lambda>p. Inr (pf_revision p)))"

definition prepared_payload :: "ledger_codec \<Rightarrow> vdict \<Rightarrow> int \<Rightarrow> string \<Rightarrow> string \<Rightarrow> exc + vdict" where
  "prepared_payload u data revision account_sha auxiliary_sha =
    res_bind (canonical_ledger_identity u data) (\<lambda>identity.
      Inr (dupdate data [(''schema_version'', VInt 2), (''revision'', VInt (revision + 1)),
        (''ledger_identity_sha256'', VStr identity), (''account_table_sha256'', VStr account_sha),
        (''aux_catalog_sha256'', VStr auxiliary_sha)]))"

definition write_ledger_profile ::
  "ledger_codec \<Rightarrow> store_file \<Rightarrow> vdict \<Rightarrow> store_file \<Rightarrow> store_file \<Rightarrow> int \<Rightarrow> company_facts option
    \<Rightarrow> store_file option \<Rightarrow> store_file \<times> store_file \<Rightarrow> exc + store_file \<times> company_ledger_profile" where
  "write_ledger_profile u f profile account_file auxiliary_file expected facts facts_file later =
    (if facts \<noteq> None \<and> facts_file \<noteq> None
     then Inl (ValueError ''provide company_facts or company_facts_path, not both'' [])
     else res_bind (current_profile_revision u f) (\<lambda>current.
     if current \<noteq> expected then Inl (RevisionConflict ''profile'' expected current)
     else res_bind (parse_account_catalog u account_file) (\<lambda>(accounts, account_sha, by_code).
     res_bind (parse_auxiliary_catalog u auxiliary_file) (\<lambda>(auxiliary, auxiliary_sha, index).
     res_bind (load_facts_option u facts_file) (\<lambda>loaded.
     res_bind (prepared_payload u profile current account_sha auxiliary_sha) (\<lambda>data.
     res_bind (validated (vprofile u data)) (\<lambda>prepared.
     res_bind (validate_profile u prepared) (\<lambda>_.
     res_bind (validate_profile_catalog_binding prepared accounts auxiliary
         (if loaded = None then facts else loaded) (Some account_sha) (Some auxiliary_sha)) (\<lambda>_.
     if file_sha256 (fst later) \<noteq> account_sha \<or> file_sha256 (snd later) \<noteq> auxiliary_sha
     then Inl (RuntimeError ''catalog changed while the profile was being prepared'')
     else Inr (atomic_write_json_durable (dump_company_ledger_profile prepared), prepared))))))))))"

section \<open>Lemmas on validation\<close>

definition proper_text :: "string \<Rightarrow> bool" where
  "proper_text s \<longleftrightarrow> s \<noteq> [] \<and> strip s = s"

lemma require_text_Inr [simp]: "require_text v f = Inr t \<longleftrightarrow> t = v \<and> proper_text v"
  by (auto simp: require_text_def proper_text_def)

lemma require_sha256_Inr [simp]: "require_sha256 v f = Inr t \<longleftrightarrow> t = v \<and> is_sha256_text v"
  by (auto simp: require_sha256_def)

lemma require_ok:
  "proper_text v \<Longrightarrow> require_text v f = Inr v"
  "is_sha256_text v \<Longrightarrow> require_sha256 v f = Inr v"
  by simp_all

lemma require_texts_Inr: "require_texts pairs = Inr () \<longleftrightarrow> list_all (\<lambda>p. proper_text (snd p)) pairs"
proof -
  have "(\<exists>ys. res_map (\<lambda>(f, v). require_text v f) pairs = Inr ys) \<longleftrightarrow> list_all (\<lambda>p. proper_text (snd p)) pairs"
    by (induction pairs) (auto simp: res_bind_eq_Inr)
  then show ?thesis by (auto simp: require_texts_def res_bind_eq_Inr)
qed

lemma schema_error_Inr [simp]: "schema_error k r = Inr x \<longleftrightarrow> r = Inr x"
  by (auto simp: schema_error_def split: sum.splits)

lemma validated_Inr [simp]: "validated v = Inr x \<longleftrightarrow> v = Some x"
  by (auto simp: validated_def split: option.splits)

lemma read_json_sha: "read_json_object_with_sha f = Inr (d, h) \<Longrightarrow> h = file_sha256 f \<and> strict_read_json_object f = Inr d"
  by (cases f rule: read_json_object_with_sha.cases) auto

text \<open>The index of the accounts: every record under its code, and nothing else.\<close>

definition indexed :: "('r \<Rightarrow> string) \<Rightarrow> 'r list \<Rightarrow> 'r dict \<Rightarrow> bool" where
  "indexed key rs d \<longleftrightarrow> dict_wf d \<and> (\<forall>k r. dget d k = Some r \<longleftrightarrow> r \<in> set rs \<and> key r = k)"

lemma indexed_dput:
  assumes "indexed key rs d" and "dget d (key r) = None"
  shows "indexed key (rs @ [r]) (dput (key r) r d)"
  using assms by (auto simp: indexed_def dget_dput) (metis option.distinct(1))

lemma add_account_Inr:
  assumes "add_account r d = Inr d'"
  shows "dget d (ac_code r) = None \<and> d' = dput (ac_code r) r d \<and> proper_text (ac_code r) \<and> proper_text (ac_name r)
    \<and> distinct (ac_required_aux_dimensions r) \<and> list_all proper_text (ac_required_aux_dimensions r)"
  using assms by (auto simp: add_account_def res_bind_eq_Inr dhas_def require_texts_Inr list_all_iff split: if_splits)

lemma fold_indexed:
  assumes step: "\<And>r d d'. f r d = Inr d' \<Longrightarrow> dget (g d) (key r) = None \<and> g d' = dput (key r) r (g d)"
    and "res_fold f rs d = Inr d'" and "indexed key qs (g d)"
  shows "indexed key (qs @ rs) (g d')"
  using assms(2,3)
proof (induction rs arbitrary: d qs)
  case (Cons r rs)
  then obtain e where e: "f r d = Inr e" "res_fold f rs e = Inr d'" by (auto simp: res_bind_eq_Inr)
  have "indexed key (qs @ [r]) (g e)"
    using indexed_dput [OF Cons.prems(2)] step [OF e(1)] by auto
  from Cons.IH [OF e(2) this] show ?case by simp
qed simp

lemma indexed_Nil: "indexed key [] []"
  by (simp add: indexed_def)

lemma validate_account_catalog_indexed:
  assumes "validate_account_catalog c = Inr d"
  shows "indexed ac_code (ae_records c) d"
proof -
  have "res_fold add_account (ae_records c) [] = Inr d"
    using assms by (auto simp: validate_account_catalog_def res_bind_eq_Inr)
  from fold_indexed [where g = id and key = ac_code, OF _ this] show ?thesis
    using add_account_Inr indexed_Nil [of ac_code] by fastforce
qed

lemma add_auxiliary_Inr:
  assumes "add_auxiliary r i = Inr i'"
  shows "dget (fst i) (ax_value_id r) = None \<and> fst i' = dput (ax_value_id r) r (fst i)
    \<and> proper_text (ax_value_id r) \<and> proper_text (ax_dimension r)
    \<and> (if ax_code r = [] then snd i' = snd i
       else map_of (snd i) (ax_dimension r, ax_code r) = None
         \<and> snd i' = snd i @ [((ax_dimension r, ax_code r), r)])"
  using assms
  by (cases i) (auto simp: add_auxiliary_def res_bind_eq_Inr dhas_def split: if_splits)

lemma validate_auxiliary_catalog_indexed:
  assumes "validate_auxiliary_catalog c = Inr (d, by_code)"
  shows "indexed ax_value_id (xe_records c) d"
proof -
  have "res_fold add_auxiliary (xe_records c) ([], []) = Inr (d, by_code)"
    using assms by (auto simp: validate_auxiliary_catalog_def res_bind_eq_Inr)
  from fold_indexed [where g = fst and key = ax_value_id, OF _ this] show ?thesis
    using add_auxiliary_Inr indexed_Nil [of ax_value_id] by fastforce
qed

lemma auxiliary_codes:
  assumes "res_fold add_auxiliary rs (d, cs) = Inr (d', cs')" and "distinct (map fst cs)"
  shows "distinct (map fst cs') \<and> set cs' = set cs \<union> {((ax_dimension r, ax_code r), r) | r. r \<in> set rs \<and> ax_code r \<noteq> []}"
  using assms
proof (induction rs arbitrary: d cs)
  case (Cons r rs)
  then obtain i where i: "add_auxiliary r (d, cs) = Inr i" "res_fold add_auxiliary rs i = Inr (d', cs')"
    by (auto simp: res_bind_eq_Inr)
  obtain e cs'' where i': "i = (e, cs'')" by (cases i)
  have d: "distinct (map fst cs'')"
    using add_auxiliary_Inr [OF i(1)] Cons.prems(2)
    by (auto simp: i' map_of_eq_None_iff split: if_splits)
  from Cons.IH [OF i(2) [unfolded i'] d] add_auxiliary_Inr [OF i(1)] show ?case
    by (auto simp: i' split: if_splits)
qed simp

text \<open>What a snapshot of the catalogs guarantees to its users.\<close>

definition snapshot_ok :: "ledger_codec \<Rightarrow> ledger_catalog_snapshot \<Rightarrow> bool" where
  "snapshot_ok u s \<longleftrightarrow> validate_profile u (ls_profile s) = Inr ()
     \<and> [ae_company_id (ls_account_catalog s), ae_ledger_environment (ls_account_catalog s),
        ae_ledger_identity_sha256 (ls_account_catalog s), ae_capture_id (ls_account_catalog s)]
       = profile_identity (ls_profile s)
     \<and> [xe_company_id (ls_auxiliary_catalog s), xe_ledger_environment (ls_auxiliary_catalog s),
        xe_ledger_identity_sha256 (ls_auxiliary_catalog s), xe_capture_id (ls_auxiliary_catalog s)]
       = profile_identity (ls_profile s)
     \<and> pf_account_table_sha256 (ls_profile s) = ls_account_file_sha256 s
     \<and> pf_aux_catalog_sha256 (ls_profile s) = ls_auxiliary_file_sha256 s
     \<and> indexed ac_code (ae_records (ls_account_catalog s)) (ls_accounts_by_code s)
     \<and> indexed ax_value_id (xe_records (ls_auxiliary_catalog s)) (ls_auxiliary_by_value_id s)
     \<and> distinct (map fst (ls_auxiliary_by_dimension_and_code s))
     \<and> set (ls_auxiliary_by_dimension_and_code s)
       = {((ax_dimension r, ax_code r), r) | r. r \<in> set (xe_records (ls_auxiliary_catalog s)) \<and> ax_code r \<noteq> []}"

section \<open>Properties\<close>

text \<open>Sample files and codec, for the witnesses.\<close>

definition sample_catalog_file :: store_file where
  "sample_catalog_file = File ''a'' (Some (VDict
     [(''records'', VList []), (''content_sha256'', VStr (canonical_sha256 (VList [])))]))"

definition sample_identity :: string where
  "sample_identity = canonical_sha256 (VDict
     [(''identity_schema'', VInt 1), (''company_id'', VStr ''x''), (''ledger_environment'', VStr ''test''),
      (''ledger_provider'', VStr ''jierui''), (''identity_method'', VStr ''native_id''),
      (''ledger_instance_key'', VStr ''x'')])"

definition sample_profile :: company_ledger_profile where
  "sample_profile = \<lparr>pf_schema_version = 2, pf_revision = 1, pf_company_id = ''x'', pf_company_name = ''x'',
     pf_company_tax_id = ''x'', pf_ledger_environment = ''test'', pf_ledger_provider = ''jierui'',
     pf_ledger_instance_key = ''x'', pf_ledger_name = ''x'', pf_identity_method = ''native_id'',
     pf_ledger_identity_sha256 = sample_identity, pf_capture_id = ''x'', pf_accounting_standard = ''x'',
     pf_taxpayer_profile = ''x'', pf_currency = ''x'', pf_open_periods = [''2024-05'', ''2024-06''],
     pf_closed_through = ''2024-04'', pf_default_voucher_type = ''x'', pf_voucher_write_permission_confirmed = True,
     pf_account_table_sha256 = sha256 ''a'', pf_aux_catalog_sha256 = sha256 ''a'', pf_confirmed_by = ''x'',
     pf_confirmed_at = ''x''\<rparr>"

definition sample_account :: account_catalog_record where
  "sample_account = \<lparr>ac_code = ''x'', ac_name = ''x'', ac_enabled = True, ac_is_leaf = True,
     ac_balance_direction = ''debit'', ac_required_aux_dimensions = [], ac_quantity_enabled = False,
     ac_foreign_currency_enabled = False\<rparr>"

definition sample_accounts :: account_catalog_envelope where
  "sample_accounts = \<lparr>ae_schema_version = 2, ae_catalog_kind = ''accounts'', ae_company_id = ''x'',
     ae_ledger_environment = ''test'', ae_ledger_identity_sha256 = sample_identity, ae_capture_id = ''x'',
     ae_captured_at = ''x'', ae_captured_by = ''x'', ae_content_sha256 = canonical_sha256 (VList []),
     ae_records = [sample_account]\<rparr>"

definition sample_aux :: auxiliary_catalog_envelope where
  "sample_aux = \<lparr>xe_schema_version = 2, xe_catalog_kind = ''auxiliary'', xe_company_id = ''x'',
     xe_ledger_environment = ''test'', xe_ledger_identity_sha256 = sample_identity, xe_capture_id = ''x'',
     xe_captured_at = ''x'', xe_captured_by = ''x'', xe_content_sha256 = canonical_sha256 (VList []),
     xe_records = []\<rparr>"

definition sample_codec :: ledger_codec where
  "sample_codec = \<lparr>nfkc = (\<lambda>s. s),
     vprofile = (\<lambda>d. if d = dump_company_ledger_profile sample_profile then Some sample_profile else None),
     vaccounts = (\<lambda>d. Some sample_accounts), vaux = (\<lambda>d. Some sample_aux), vfacts = (\<lambda>d. None)\<rparr>"

definition sample_profile_file :: store_file where
  "sample_profile_file = atomic_write_json_durable (dump_company_ledger_profile sample_profile)"

lemma sample_texts:
  "proper_text ''x''" "proper_text ''jierui''"
  "strip (collapse_space ''x'') = ''x''" "strip (collapse_space ''test'') = ''test''"
  "strip (collapse_space ''jierui'') = ''jierui''" "strip (collapse_space ''native_id'') = ''native_id''"
  "list_all is_period [''2024-05'', ''2024-06'']" "is_period ''2024-04''"
  by (code_simp | simp)+

lemma sample_profile_identity:
  "canonical_ledger_identity sample_codec (dump_company_ledger_profile sample_profile) = Inr sample_identity"
  by (simp add: canonical_ledger_identity_def identity_stable_def canonical_text_def get_val_def
      dump_company_ledger_profile_def sample_profile_def sample_codec_def sample_texts sample_identity_def Let_def)

lemma sample_profile_valid: "validate_profile sample_codec sample_profile = Inr ()"
proof -
  have "check_periods (pf_open_periods sample_profile) (pf_closed_through sample_profile) = Inr ()"
    using sample_texts(7,8) by (simp add: check_periods_def sample_profile_def)
  moreover have "require_texts
      [(''company_id'', pf_company_id sample_profile), (''company_name'', pf_company_name sample_profile),
       (''company_tax_id'', pf_company_tax_id sample_profile), (''ledger_provider'', pf_ledger_provider sample_profile),
       (''ledger_instance_key'', pf_ledger_instance_key sample_profile), (''ledger_name'', pf_ledger_name sample_profile),
       (''capture_id'', pf_capture_id sample_profile), (''accounting_standard'', pf_accounting_standard sample_profile),
       (''taxpayer_profile'', pf_taxpayer_profile sample_profile), (''currency'', pf_currency sample_profile),
       (''default_voucher_type'', pf_default_voucher_type sample_profile), (''confirmed_by'', pf_confirmed_by sample_profile),
       (''confirmed_at'', pf_confirmed_at sample_profile)] = Inr ()"
    unfolding require_texts_Inr by (simp add: sample_profile_def sample_texts)
  moreover have "is_sha256_text (pf_ledger_identity_sha256 sample_profile)"
    "is_sha256_text (pf_account_table_sha256 sample_profile)"
    "is_sha256_text (pf_aux_catalog_sha256 sample_profile)"
    by (simp_all add: sample_profile_def sample_identity_def)
  moreover have "pf_ledger_identity_sha256 sample_profile = sample_identity"
    by (simp add: sample_profile_def)
  ultimately show ?thesis
    unfolding validate_profile_def by (simp add: sample_profile_identity require_ok)
qed

lemma sample_envelope: "validate_envelope ''x'' ''x'' ''x'' ''x'' sample_identity (canonical_sha256 (VList [])) = Inr ()"
proof -
  have "require_texts [(''company_id'', ''x''), (''capture_id'', ''x''), (''captured_at'', ''x''), (''captured_by'', ''x'')]
      = Inr ()" unfolding require_texts_Inr by (simp add: sample_texts)
  moreover have "is_sha256_text sample_identity" by (simp add: sample_identity_def)
  ultimately show ?thesis by (simp add: validate_envelope_def require_ok)
qed

lemma sample_parse:
  "parse_account_catalog sample_codec sample_catalog_file = Inr (sample_accounts, sha256 ''a'', [(''x'', sample_account)])"
  "parse_auxiliary_catalog sample_codec sample_catalog_file = Inr (sample_aux, sha256 ''a'', ([], []))"
  "parse_ledger_profile sample_codec sample_profile_file = Inr (sample_profile, file_sha256 sample_profile_file)"
proof -
  have c: "check_content [(''records'', VList []), (''content_sha256'', VStr (canonical_sha256 (VList [])))] = Inr ()"
    by (simp add: check_content_def get_val_def)
  have t: "require_text ''x'' f = Inr ''x''" for f by (simp add: sample_texts)
  have "validate_account_catalog sample_accounts = Inr [(''x'', sample_account)]"
    by (simp add: validate_account_catalog_def sample_accounts_def sample_envelope add_account_def sample_account_def
        t dhas_def require_texts_def)
  then show "parse_account_catalog sample_codec sample_catalog_file = Inr (sample_accounts, sha256 ''a'', [(''x'', sample_account)])"
    by (simp add: parse_account_catalog_def sample_catalog_file_def c schema_error_def validated_def sample_codec_def)
  have "validate_auxiliary_catalog sample_aux = Inr ([], [])"
    by (simp add: validate_auxiliary_catalog_def sample_aux_def sample_envelope)
  then show "parse_auxiliary_catalog sample_codec sample_catalog_file = Inr (sample_aux, sha256 ''a'', ([], []))"
    by (simp add: parse_auxiliary_catalog_def sample_catalog_file_def c schema_error_def validated_def sample_codec_def)
  have "vprofile sample_codec (dump_company_ledger_profile sample_profile) = Some sample_profile"
    by (simp add: sample_codec_def)
  then show "parse_ledger_profile sample_codec sample_profile_file = Inr (sample_profile, file_sha256 sample_profile_file)"
    by (simp add: parse_ledger_profile_def sample_profile_file_def atomic_write_json_durable_def schema_error_def
        validated_def sample_profile_valid)
qed

lemma sample_binding:
  "validate_profile_catalog_binding sample_profile sample_accounts sample_aux None (Some (sha256 ''a'')) (Some (sha256 ''a''))
    = Inr ()"
  by (simp add: validate_profile_catalog_binding_def sample_profile_def sample_accounts_def sample_aux_def
      profile_identity_def)

text \<open>C25: A loaded snapshot describes one ledger at one moment: the profile is valid and carries the
  canonical identity of its ledger, both catalogs name the same company, environment, ledger and
  capture, the profile's hashes are those of the catalog files, which are unchanged after the load, and
  the indexes hold exactly the records of the catalogs, each under its own key.\<close>

theorem catalog_snapshot_consistent:
  assumes "load_bookkeeping_catalogs u pf af xf ff later = Inr s"
  shows "snapshot_ok u s \<and> ls_profile_file_sha256 s = file_sha256 pf
    \<and> ls_account_file_sha256 s = file_sha256 af \<and> ls_auxiliary_file_sha256 s = file_sha256 xf
    \<and> file_sha256 (fst later) = file_sha256 pf \<and> file_sha256 (fst (snd later)) = file_sha256 af
    \<and> file_sha256 (snd (snd later)) = file_sha256 xf"
proof -
  obtain profile accounts by_code auxiliary by_value_id by_dimension facts p_sha a_sha x_sha where
    p: "parse_ledger_profile u pf = Inr (profile, p_sha)"
    and a: "parse_account_catalog u af = Inr (accounts, a_sha, by_code)"
    and x: "parse_auxiliary_catalog u xf = Inr (auxiliary, x_sha, by_value_id, by_dimension)"
    and b: "validate_profile_catalog_binding profile accounts auxiliary facts (Some a_sha) (Some x_sha) = Inr ()"
    and later: "(file_sha256 (fst later), file_sha256 (fst (snd later)), file_sha256 (snd (snd later)))
      = (p_sha, a_sha, x_sha)"
    and s: "s = \<lparr>ls_profile = profile, ls_account_catalog = accounts, ls_auxiliary_catalog = auxiliary,
           ls_profile_file_sha256 = p_sha, ls_account_file_sha256 = a_sha,
           ls_auxiliary_file_sha256 = x_sha, ls_accounts_by_code = by_code,
           ls_auxiliary_by_value_id = by_value_id, ls_auxiliary_by_dimension_and_code = by_dimension\<rparr>"
    using assms
    by (auto simp: load_bookkeeping_catalogs_def res_bind_eq_Inr split: if_splits prod.splits)
  have pv: "validate_profile u profile = Inr ()" and p_sha: "p_sha = file_sha256 pf"
    using p read_json_sha by (auto simp: parse_ledger_profile_def res_bind_eq_Inr)
  have av: "validate_account_catalog accounts = Inr by_code" and a_sha: "a_sha = file_sha256 af"
    using a read_json_sha by (auto simp: parse_account_catalog_def res_bind_eq_Inr)
  have xv: "validate_auxiliary_catalog auxiliary = Inr (by_value_id, by_dimension)" and x_sha: "x_sha = file_sha256 xf"
    using x read_json_sha by (auto simp: parse_auxiliary_catalog_def res_bind_eq_Inr)
  have "res_fold add_auxiliary (xe_records auxiliary) ([], []) = Inr (by_value_id, by_dimension)"
    using xv by (auto simp: validate_auxiliary_catalog_def res_bind_eq_Inr)
  note codes = auxiliary_codes [OF this]
  show ?thesis
    using pv b later p_sha a_sha x_sha codes validate_account_catalog_indexed [OF av]
      validate_auxiliary_catalog_indexed [OF xv]
    by (auto simp: s snapshot_ok_def validate_profile_catalog_binding_def split: if_splits)
qed

theorem catalog_snapshot_consistent_witness:
  "\<exists>s. load_bookkeeping_catalogs sample_codec sample_profile_file sample_catalog_file sample_catalog_file None
      (sample_profile_file, sample_catalog_file, sample_catalog_file) = Inr s
    \<and> snapshot_ok sample_codec s \<and> dget (ls_accounts_by_code s) ''x'' = Some sample_account"
proof -
  have "file_sha256 sample_catalog_file = sha256 ''a''" by (simp add: sample_catalog_file_def)
  then have "\<exists>s. load_bookkeeping_catalogs sample_codec sample_profile_file sample_catalog_file sample_catalog_file None
      (sample_profile_file, sample_catalog_file, sample_catalog_file) = Inr s
      \<and> ls_accounts_by_code s = [(''x'', sample_account)]"
    by (simp add: load_bookkeeping_catalogs_def sample_parse load_facts_option_def sample_binding)
  then show ?thesis using catalog_snapshot_consistent by fastforce
qed

text \<open>Writing the ledger profile is a compare and swap that reads back: it succeeds only at the
  expected revision, stores the next one, binds the profile to the identity of its ledger and to the
  catalog files it was prepared with, and what it stores loads as the same profile. Strict validation
  keeps the values it is given.\<close>

theorem profile_write_reads_back:
  assumes "write_ledger_profile u f payload af xf expected facts ff later = Inr (f', p)"
    and "\<And>d q k v. vprofile u d = Some q \<Longrightarrow> dget d k = Some v \<Longrightarrow> dget (dump_company_ledger_profile q) k = Some v"
    and "vprofile u (dump_company_ledger_profile p) = Some p"
  shows "current_profile_revision u f = Inr expected \<and> pf_revision p = expected + 1
    \<and> load_ledger_profile u f' = Inr p
    \<and> canonical_ledger_identity u (dump_company_ledger_profile p) = Inr (pf_ledger_identity_sha256 p)
    \<and> pf_account_table_sha256 p = file_sha256 af \<and> pf_aux_catalog_sha256 p = file_sha256 xf
    \<and> (\<exists>accounts. load_account_catalog u af = Inr accounts \<and> ae_ledger_identity_sha256 accounts = pf_ledger_identity_sha256 p)
    \<and> (\<forall>c. facts = Some c \<longrightarrow> cf_company_id c = pf_company_id p \<and> cf_company_tax_id c = pf_company_tax_id p)"
proof -
  obtain accounts a_sha by_code auxiliary x_sha index loaded data where
    r: "current_profile_revision u f = Inr expected"
    and both: "\<not> (facts \<noteq> None \<and> ff \<noteq> None)"
    and a: "parse_account_catalog u af = Inr (accounts, a_sha, by_code)"
    and x: "parse_auxiliary_catalog u xf = Inr (auxiliary, x_sha, index)"
    and l: "load_facts_option u ff = Inr loaded"
    and d: "prepared_payload u payload expected a_sha x_sha = Inr data"
    and v: "vprofile u data = Some p" and ok: "validate_profile u p = Inr ()"
    and b: "validate_profile_catalog_binding p accounts auxiliary (if loaded = None then facts else loaded)
         (Some a_sha) (Some x_sha) = Inr ()"
    and f': "f' = atomic_write_json_durable (dump_company_ledger_profile p)"
    using assms(1)
    by (auto simp: write_ledger_profile_def res_bind_eq_Inr split: if_split_asm prod.splits)
  obtain identity where data: "data = dupdate payload [(''schema_version'', VInt 2), (''revision'', VInt (expected + 1)),
        (''ledger_identity_sha256'', VStr identity), (''account_table_sha256'', VStr a_sha),
        (''aux_catalog_sha256'', VStr x_sha)]"
    using d by (auto simp: prepared_payload_def res_bind_eq_Inr)
  have "dget data ''revision'' = Some (VInt (expected + 1))" by (simp add: data dget_dupdate)
  from assms(2) [OF v this] have "pf_revision p = expected + 1"
    by (simp add: dump_company_ledger_profile_def)
  moreover have "load_ledger_profile u f' = Inr p"
    using assms(3) ok by (simp add: f' load_ledger_profile_def parse_ledger_profile_def
        atomic_write_json_durable_def schema_error_def validated_def)
  moreover have "canonical_ledger_identity u (dump_company_ledger_profile p) = Inr (pf_ledger_identity_sha256 p)"
    using ok by (auto simp: validate_profile_def res_bind_eq_Inr split: if_splits)
  moreover have "a_sha = file_sha256 af" "load_account_catalog u af = Inr accounts"
    using a read_json_sha by (auto simp: parse_account_catalog_def load_account_catalog_def res_bind_eq_Inr)
  moreover have "x_sha = file_sha256 xf"
    using x read_json_sha by (auto simp: parse_auxiliary_catalog_def res_bind_eq_Inr)
  moreover have "ae_ledger_identity_sha256 accounts = pf_ledger_identity_sha256 p"
    "pf_account_table_sha256 p = a_sha" "pf_aux_catalog_sha256 p = x_sha"
    using b by (auto simp: validate_profile_catalog_binding_def profile_identity_def split: if_splits)
  moreover have "cf_company_id c = pf_company_id p \<and> cf_company_tax_id c = pf_company_tax_id p" if "facts = Some c" for c
  proof -
    have "loaded = None" using both l that by (auto simp: load_facts_option_def)
    then show ?thesis
      using b that by (auto simp: validate_profile_catalog_binding_def res_bind_eq_Inr split: if_splits)
  qed
  ultimately show ?thesis using r by blast
qed

theorem profile_write_reads_back_witness:
  "\<exists>f' p. write_ledger_profile sample_codec NoFile (dump_company_ledger_profile sample_profile) sample_catalog_file
      sample_catalog_file 0 None None (sample_catalog_file, sample_catalog_file) = Inr (f', p)
    \<and> load_ledger_profile sample_codec f' = Inr p"
proof -
  let ?d = "dump_company_ledger_profile sample_profile"
  have v: "vprofile sample_codec ?d = Some sample_profile" by (simp add: sample_codec_def)
  have "prepared_payload sample_codec ?d 0 (sha256 ''a'') (sha256 ''a'') = Inr ?d"
    by (simp add: prepared_payload_def sample_profile_identity)
      (simp add: dump_company_ledger_profile_def sample_profile_def dupdate_def)
  moreover have "file_sha256 sample_catalog_file = sha256 ''a''" by (simp add: sample_catalog_file_def)
  ultimately have w: "write_ledger_profile sample_codec NoFile ?d sample_catalog_file
      sample_catalog_file 0 None None (sample_catalog_file, sample_catalog_file)
      = Inr (atomic_write_json_durable ?d, sample_profile)"
    by (simp add: write_ledger_profile_def current_profile_revision_def sample_parse load_facts_option_def
        sample_profile_valid sample_binding v validated_def)
  have "load_ledger_profile sample_codec (atomic_write_json_durable ?d) = Inr sample_profile"
    by (rule profile_write_reads_back [OF w _ v, THEN conjunct2, THEN conjunct2, THEN conjunct1])
      (simp add: sample_codec_def split: if_splits)
  with w show ?thesis by blast
qed

end
