(* ===== verification/Voucher_Texts.thy ===== *)
theory Voucher_Texts
  imports Py_Text
begin

text \<open>
  The texts of \<open>vouchers.py\<close>: the column names of an invoice row (\<open>F_\<close>) and the phrases of the
  reasons for a manual check (\<open>T_\<close>), which the code stores in the draft. They are written by the
  bytes of their UTF-8 encodings, with the meaning of each above it.
\<close>

text \<open>invoice number\<close>
definition F_INVOICE_NO :: string where
  "F_INVOICE_NO =
    [CHR 0xE5, CHR 0x8F, CHR 0x91, CHR 0xE7, CHR 0xA5, CHR 0xA8, CHR 0xE5, CHR 0x8F, CHR 0xB7,
     CHR 0xE7, CHR 0xA0, CHR 0x81]"

text \<open>seller\<close>
definition F_SELLER :: string where
  "F_SELLER =
    [CHR 0xE9, CHR 0x94, CHR 0x80, CHR 0xE5, CHR 0x94, CHR 0xAE, CHR 0xE6, CHR 0x96, CHR 0xB9]"

text \<open>invoice date\<close>
definition F_DATE :: string where
  "F_DATE =
    [CHR 0xE5, CHR 0xBC, CHR 0x80, CHR 0xE7, CHR 0xA5, CHR 0xA8, CHR 0xE6, CHR 0x97, CHR 0xA5,
     CHR 0xE6, CHR 0x9C, CHR 0x9F]"

text \<open>amount without tax\<close>
definition F_PRETAX :: string where
  "F_PRETAX =
    [CHR 0xE9, CHR 0x87, CHR 0x91, CHR 0xE9, CHR 0xA2, CHR 0x9D, CHR ''('', CHR 0xE9, CHR 0x99,
     CHR 0xA4, CHR 0xE7, CHR 0xA8, CHR 0x8E, CHR '')'']"

text \<open>tax\<close>
definition F_TAX :: string where
  "F_TAX =
    [CHR 0xE7, CHR 0xA8, CHR 0x8E, CHR 0xE9, CHR 0x87, CHR 0x91]"

text \<open>amount with tax\<close>
definition F_TOTAL :: string where
  "F_TOTAL =
    [CHR 0xE4, CHR 0xBB, CHR 0xB7, CHR 0xE7, CHR 0xA8, CHR 0x8E, CHR 0xE5, CHR 0x90, CHR 0x88,
     CHR 0xE8, CHR 0xAE, CHR 0xA1]"

text \<open>internal project\<close>
definition F_PROJECT :: string where
  "F_PROJECT =
    [CHR 0xE5, CHR 0x86, CHR 0x85, CHR 0xE9, CHR 0x83, CHR 0xA8, CHR 0xE9, CHR 0xA1, CHR 0xB9,
     CHR 0xE7, CHR 0x9B, CHR 0xAE, CHR 0xE5, CHR 0x90, CHR 0x8D, CHR 0xE7, CHR 0xA7, CHR 0xB0]"

text \<open>text of the invoice code\<close>
definition F_INVOICE_CODE :: string where
  "F_INVOICE_CODE =
    [CHR 0xE5, CHR 0x8F, CHR 0x91, CHR 0xE7, CHR 0xA5, CHR 0xA8, CHR 0xE4, CHR 0xBB, CHR 0xA3,
     CHR 0xE7, CHR 0xA0, CHR 0x81, CHR ''('', CHR ''*'', CHR ''*'', CHR 0xE5, CHR 0x86, CHR 0x85,
     CHR 0xE6, CHR 0x96, CHR 0x87, CHR 0xE5, CHR 0xAD, CHR 0x97, CHR '')'']"

text \<open>item\<close>
definition F_ITEM :: string where
  "F_ITEM =
    [CHR 0xE9, CHR 0xA1, CHR 0xB9, CHR 0xE7, CHR 0x9B, CHR 0xAE, CHR 0xE5, CHR 0x90, CHR 0x8D,
     CHR 0xE7, CHR 0xA7, CHR 0xB0]"

text \<open>item of the remark\<close>
definition F_REMARK_ITEM :: string where
  "F_REMARK_ITEM =
    [CHR 0xE5, CHR 0xA4, CHR 0x87, CHR 0xE6, CHR 0xB3, CHR 0xA8, CHR 0xE9, CHR 0xA1, CHR 0xB9,
     CHR 0xE7, CHR 0x9B, CHR 0xAE, CHR 0xE5, CHR 0x90, CHR 0x8D, CHR 0xE7, CHR 0xA7, CHR 0xB0]"

text \<open>specification\<close>
definition F_MODEL :: string where
  "F_MODEL =
    [CHR 0xE8, CHR 0xA7, CHR 0x84, CHR 0xE6, CHR 0xA0, CHR 0xBC, CHR 0xE5, CHR 0x9E, CHR 0x8B,
     CHR 0xE5, CHR 0x8F, CHR 0xB7]"

text \<open>source file\<close>
definition F_FILE :: string where
  "F_FILE =
    [CHR 0xE6, CHR 0xBA, CHR 0x90, CHR 0xE6, CHR 0x96, CHR 0x87, CHR 0xE4, CHR 0xBB, CHR 0xB6]"

text \<open>tax rate\<close>
definition F_RATE :: string where
  "F_RATE =
    [CHR 0xE7, CHR 0xA8, CHR 0x8E, CHR 0xE7, CHR 0x8E, CHR 0x87]"

text \<open>quantity\<close>
definition F_QUANTITY :: string where
  "F_QUANTITY =
    [CHR 0xE6, CHR 0x95, CHR 0xB0, CHR 0xE9, CHR 0x87, CHR 0x8F]"

text \<open>unit\<close>
definition F_UNIT :: string where
  "F_UNIT =
    [CHR 0xE5, CHR 0x8D, CHR 0x95, CHR 0xE4, CHR 0xBD, CHR 0x8D]"

text \<open>the invoice number is missing\<close>
definition T_NO_INVOICE_NO :: string where
  "T_NO_INVOICE_NO =
    [CHR 0xE5, CHR 0x8F, CHR 0x91, CHR 0xE7, CHR 0xA5, CHR 0xA8, CHR 0xE5, CHR 0x8F, CHR 0xB7,
     CHR 0xE7, CHR 0xA0, CHR 0x81, CHR 0xE7, CHR 0xBC, CHR 0xBA, CHR 0xE5, CHR 0xA4, CHR 0xB1]"

text \<open>one invoice has several sellers\<close>
definition T_MANY_SELLERS :: string where
  "T_MANY_SELLERS =
    [CHR 0xE5, CHR 0x90, CHR 0x8C, CHR 0xE4, CHR 0xB8, CHR 0x80, CHR 0xE5, CHR 0x8F, CHR 0x91,
     CHR 0xE7, CHR 0xA5, CHR 0xA8, CHR 0xE5, CHR 0xAD, CHR 0x98, CHR 0xE5, CHR 0x9C, CHR 0xA8,
     CHR 0xE5, CHR 0xA4, CHR 0x9A, CHR 0xE4, CHR 0xB8, CHR 0xAA, CHR 0xE9, CHR 0x94, CHR 0x80,
     CHR 0xE5, CHR 0x94, CHR 0xAE, CHR 0xE6, CHR 0x96, CHR 0xB9, CHR 0xEF, CHR 0xBC, CHR 0x8C,
     CHR 0xE5, CHR 0xBF, CHR 0x85, CHR 0xE9, CHR 0xA1, CHR 0xBB, CHR 0xE4, CHR 0xBA, CHR 0xBA,
     CHR 0xE5, CHR 0xB7, CHR 0xA5, CHR 0xE6, CHR 0xA0, CHR 0xB8, CHR 0xE5, CHR 0xAF, CHR 0xB9]"

text \<open>row ...\<close>
definition T_ROW_PREFIX :: string where
  "T_ROW_PREFIX =
    [CHR 0xE7, CHR 0xAC, CHR 0xAC, CHR 0x20]"

text \<open>... of the row\<close>
definition T_ROW :: string where
  "T_ROW =
    [CHR 0xE8, CHR 0xA1, CHR 0x8C]"

text \<open>the tax rate is missing\<close>
definition T_RATE_MISSING :: string where
  "T_RATE_MISSING =
    [CHR 0xE7, CHR 0xA8, CHR 0x8E, CHR 0xE7, CHR 0x8E, CHR 0x87, CHR 0xE7, CHR 0xBC, CHR 0xBA,
     CHR 0xE5, CHR 0xA4, CHR 0xB1]"

text \<open>the tail difference of the row exceeds a cent\<close>
definition T_ROW_DIFF :: string where
  "T_ROW_DIFF =
    [CHR 0xE9, CHR 0x87, CHR 0x91, CHR 0xE9, CHR 0xA2, CHR 0x9D, CHR 0xE5, CHR 0xB0, CHR 0xBE,
     CHR 0xE5, CHR 0xB7, CHR 0xAE, CHR 0xE8, CHR 0xB6, CHR 0x85, CHR 0xE8, CHR 0xBF, CHR 0x87,
     CHR 0x20, CHR ''0'', CHR ''.'', CHR ''0'', CHR ''1'', CHR '':'', CHR 0x20]"

text \<open>mapping rules conflict\<close>
definition T_CONFLICT :: string where
  "T_CONFLICT =
    [CHR 0xE6, CHR 0x98, CHR 0xA0, CHR 0xE5, CHR 0xB0, CHR 0x84, CHR 0xE8, CHR 0xA7, CHR 0x84,
     CHR 0xE5, CHR 0x88, CHR 0x99, CHR 0xE5, CHR 0x86, CHR 0xB2, CHR 0xE7, CHR 0xAA, CHR 0x81,
     CHR '':'', CHR 0x20]"

text \<open>the tail difference of the invoice exceeds a cent\<close>
definition T_TOTAL_DIFF :: string where
  "T_TOTAL_DIFF =
    [CHR 0xE5, CHR 0x8F, CHR 0x91, CHR 0xE7, CHR 0xA5, CHR 0xA8, CHR 0xE9, CHR 0x87, CHR 0x91,
     CHR 0xE9, CHR 0xA2, CHR 0x9D, CHR 0xE5, CHR 0xB0, CHR 0xBE, CHR 0xE5, CHR 0xB7, CHR 0xAE,
     CHR 0xE8, CHR 0xB6, CHR 0x85, CHR 0xE8, CHR 0xBF, CHR 0x87, CHR 0x20, CHR ''0'', CHR ''.'',
     CHR ''0'', CHR ''1'', CHR '':'', CHR 0x20]"

text \<open>reason\<close>
definition T_REASON :: string where
  "T_REASON =
    [CHR 0xE5, CHR 0x8E, CHR 0x9F, CHR 0xE5, CHR 0x9B, CHR 0xA0, CHR '':'', CHR 0x20]"

text \<open>no account table\<close>
definition T_NO_ACCOUNTS :: string where
  "T_NO_ACCOUNTS =
    [CHR 0xE7, CHR 0xA7, CHR 0x91, CHR 0xE7, CHR 0x9B, CHR 0xAE, CHR 0xE8, CHR 0xA1, CHR 0xA8,
     CHR 0xE4, CHR 0xB8, CHR 0xBA, CHR 0xE7, CHR 0xA9, CHR 0xBA, CHR 0xE6, CHR 0x88, CHR 0x96,
     CHR 0xE7, CHR 0xBC, CHR 0xBA, CHR 0xE5, CHR 0xA4, CHR 0xB1]"

text \<open>debit account\<close>
definition T_DEBIT :: string where
  "T_DEBIT =
    [CHR 0xE5, CHR 0x80, CHR 0x9F, CHR 0xE6, CHR 0x96, CHR 0xB9, CHR 0xE7, CHR 0xA7, CHR 0x91,
     CHR 0xE7, CHR 0x9B, CHR 0xAE]"

text \<open>credit account\<close>
definition T_CREDIT :: string where
  "T_CREDIT =
    [CHR 0xE8, CHR 0xB4, CHR 0xB7, CHR 0xE6, CHR 0x96, CHR 0xB9, CHR 0xE7, CHR 0xA7, CHR 0x91,
     CHR 0xE7, CHR 0x9B, CHR 0xAE]"

text \<open>tax account\<close>
definition T_TAX_ACCOUNT :: string where
  "T_TAX_ACCOUNT =
    [CHR 0xE7, CHR 0xA8, CHR 0x8E, CHR 0xE9, CHR 0xA2, CHR 0x9D, CHR 0xE7, CHR 0xA7, CHR 0x91,
     CHR 0xE7, CHR 0x9B, CHR 0xAE]"

text \<open>code missing in the account table\<close>
definition T_NOT_IN_TABLE :: string where
  "T_NOT_IN_TABLE =
    [CHR 0xE7, CHR 0xBC, CHR 0x96, CHR 0xE7, CHR 0xA0, CHR 0x81, CHR 0xE7, CHR 0xBC, CHR 0xBA,
     CHR 0xE5, CHR 0xA4, CHR 0xB1, CHR 0xE4, CHR 0xBA, CHR 0x8E, CHR 0xE7, CHR 0xA7, CHR 0x91,
     CHR 0xE7, CHR 0x9B, CHR 0xAE, CHR 0xE8, CHR 0xA1, CHR 0xA8, CHR '':'', CHR 0x20]"

text \<open>missing\<close>
definition T_MISSING :: string where
  "T_MISSING =
    [CHR 0xE7, CHR 0xBC, CHR 0xBA, CHR 0xE5, CHR 0xA4, CHR 0xB1]"

text \<open>not an amount\<close>
definition T_BAD_AMOUNT :: string where
  "T_BAD_AMOUNT =
    [CHR 0xE4, CHR 0xB8, CHR 0x8D, CHR 0xE6, CHR 0x98, CHR 0xAF, CHR 0xE5, CHR 0x90, CHR 0x88,
     CHR 0xE6, CHR 0xB3, CHR 0x95, CHR 0xE9, CHR 0x87, CHR 0x91, CHR 0xE9, CHR 0xA2, CHR 0x9D,
     CHR '':'', CHR 0x20]"

text \<open>not finite\<close>
definition T_NOT_FINITE :: string where
  "T_NOT_FINITE =
    [CHR 0xE4, CHR 0xB8, CHR 0x8D, CHR 0xE6, CHR 0x98, CHR 0xAF, CHR 0xE6, CHR 0x9C, CHR 0x89,
     CHR 0xE9, CHR 0x99, CHR 0x90, CHR 0xE9, CHR 0x87, CHR 0x91, CHR 0xE9, CHR 0xA2, CHR 0x9D,
     CHR '':'', CHR 0x20]"

text \<open>negative\<close>
definition T_NEGATIVE :: string where
  "T_NEGATIVE =
    [CHR 0xE4, CHR 0xB8, CHR 0xBA, CHR 0xE8, CHR 0xB4, CHR 0x9F, CHR 0xE6, CHR 0x95, CHR 0xB0,
     CHR '':'', CHR 0x20]"

text \<open>fullwidth yen\<close>
definition FULL_YEN :: string where
  "FULL_YEN =
    [CHR 0xEF, CHR 0xBF, CHR 0xA5]"

text \<open>yen\<close>
definition YEN :: string where
  "YEN =
    [CHR 0xC2, CHR 0xA5]"

lemmas row_field_defs = F_INVOICE_NO_def F_SELLER_def F_DATE_def F_PRETAX_def F_TAX_def F_TOTAL_def
  F_PROJECT_def F_INVOICE_CODE_def F_ITEM_def F_REMARK_ITEM_def F_MODEL_def F_FILE_def F_RATE_def
  F_QUANTITY_def F_UNIT_def

end
