(* ===== verification/Voucher_Decisions.thy ===== *)
theory Voucher_Decisions
  imports Voucher_Lifecycle Ledger_Catalogs
begin

text \<open>
  \<open>bookkeeping/decisions.py\<close>: a reviewer decides on the treatment of a voucher: how its source lines
  are allocated to projects, whether the input tax is deductible, and which account each line is
  booked on. The operation checks the proposal it was made for, checks the allocations cent by cent
  against the source lines, builds the journal lines, and stores them for review.

  \<open>decision_codec\<close> holds pydantic's \<open>model_validate\<close> of the three models that are read from the
  snapshot. The field names in the messages of \<open>_money\<close> are the tags of the errors.
\<close>

record decision_codec =
  vsource :: "pyval \<Rightarrow> voucher_source_line option"
  vdecision :: "vdict \<Rightarrow> voucher_line_decision option"
  vdraft :: "vdict \<Rightarrow> voucher_draft option"

definition EDITABLE_STATUSES :: "voucher_state list" where
  "EDITABLE_STATUSES = [Draft, Blocked, ReviewPending, Rejected]"

section \<open>Amounts\<close>

definition money :: "string \<Rightarrow> string \<Rightarrow> exc + dec" where
  "money value field =
    (case parse_decimal value of
       None \<Rightarrow> Inl (ValueError ''is not a valid amount'' [field, value])
     | Some d \<Rightarrow>
         if \<not> is_finite d then Inl (ValueError ''must be finite and precise to cents'' [field, value])
         else res_bind (quantize_cent round_half_even d) (\<lambda>q.
           if \<not> dec_eq d q then Inl (ValueError ''must be finite and precise to cents'' [field, value])
           else Inr d))"

definition money_sum :: "string list \<Rightarrow> string \<Rightarrow> exc + dec" where
  "money_sum values field =
     res_bind (res_map (\<lambda>v. money v field) values) (\<lambda>ds. Inr (dec_sum ds dec_zero))"

section \<open>Allocations\<close>

definition allocations_of :: "voucher_project_allocation list \<Rightarrow> string \<Rightarrow> voucher_project_allocation list" where
  "allocations_of allocations source_id = filter (\<lambda>a. pa_source_line_id a = source_id) allocations"

definition check_allocation ::
  "string list \<Rightarrow> voucher_project_allocation \<Rightarrow> string list \<Rightarrow> exc + string list" where
  "check_allocation source_ids a seen =
    (if pa_source_line_id a \<notin> set source_ids
     then Inl (ValueError ''allocation of an unknown source line'' [pa_source_line_id a])
     else if strip (pa_allocation_id a) = [] \<or> pa_allocation_id a \<in> set seen
     then Inl (ValueError ''allocation id is empty or duplicate'' [pa_allocation_id a])
     else if strip (pa_project_id a) = [] \<and> strip (pa_project_name a) = []
     then Inl (ValueError ''allocation without a project'' [pa_source_line_id a])
     else res_bind (money (pa_pretax_amount a) ''allocation pretax amount'') (\<lambda>pretax.
       res_bind (money (pa_tax_amount a) ''allocation tax amount'') (\<lambda>tax.
       res_bind (money (pa_total_amount a) ''allocation total amount'') (\<lambda>total.
       if dec_less pretax dec_zero \<or> dec_less tax dec_zero \<or> dec_le total dec_zero
       then Inl (ValueError ''allocation amounts'' [pa_allocation_id a])
       else if \<not> dec_eq (dec_add pretax tax) total
       then Inl (ValueError ''allocation does not add up'' [pa_allocation_id a])
       else Inr (pa_allocation_id a # seen)))))"

definition check_source_total ::
  "voucher_project_allocation list \<Rightarrow> voucher_source_line \<Rightarrow> exc + unit" where
  "check_source_total raw source =
    (let allocations = allocations_of raw (sl_source_line_id source)
     in res_bind (money (sl_pretax_amount source) ''source pretax amount'') (\<lambda>pretax.
        res_bind (money (sl_tax_amount source) ''source tax amount'') (\<lambda>tax.
        res_bind (money (sl_total_amount source) ''source total amount'') (\<lambda>total.
        res_bind (money_sum (map pa_pretax_amount allocations) ''allocation pretax_amount'') (\<lambda>pretax'.
        res_bind (money_sum (map pa_tax_amount allocations) ''allocation tax_amount'') (\<lambda>tax'.
        res_bind (money_sum (map pa_total_amount allocations) ''allocation total_amount'') (\<lambda>total'.
        if \<not> (dec_eq pretax' pretax \<and> dec_eq tax' tax \<and> dec_eq total' total)
        then Inl (ValueError ''allocations do not add up to the source line'' [sl_source_line_id source])
        else Inr ())))))))"

definition validated_allocations ::
  "voucher_source_line list \<Rightarrow> voucher_project_allocation list \<Rightarrow> exc + voucher_project_allocation list" where
  "validated_allocations source_lines raw =
    (let source_ids = map sl_source_line_id source_lines
     in if \<not> distinct source_ids then Inl (ValueError ''duplicate source line ids'' [])
        else res_bind (res_fold (check_allocation source_ids) raw []) (\<lambda>_.
          let missing = sort (filter (\<lambda>k. allocations_of raw k = []) source_ids)
          in if missing \<noteq> [] then Inl (ValueError ''source lines without allocation'' missing)
             else res_bind (res_map (check_source_total raw) source_lines) (\<lambda>_.
               Inr (concat (map (\<lambda>s. allocations_of raw (sl_source_line_id s)) source_lines)))))"

section \<open>Decisions on lines\<close>

definition LINE_ROLES :: "string list" where
  "LINE_ROLES = [''cost'', ''input_tax'', ''payable'', ''settlement'', ''other'']"

text \<open>\<open>VoucherLineDecision(...)\<close> made from a line of the snapshot.\<close>

definition decision_of_line :: "vdict \<Rightarrow> exc + voucher_line_decision" where
  "decision_of_line v =
    res_bind (getd v ''aux'') (\<lambda>aux.
    res_bind (getl v ''source_line_ids'') (\<lambda>source_ids.
    res_bind (getl v ''allocation_ids'') (\<lambda>allocation_ids.
    if gets_or v ''line_role'' ''other'' \<notin> set LINE_ROLES
      \<or> gets v ''direction'' \<notin> {''debit'', ''credit'', []}
    then Inl (ValueError ''validation error'' [])
    else Inr \<lparr>ld_line_id = gets v ''line_id'', ld_account_code = gets v ''account_code'',
           ld_aux = map (\<lambda>p. (fst p, py_str (snd p))) aux,
           ld_line_role = gets_or v ''line_role'' ''other'', ld_summary = gets v ''summary'',
           ld_direction = gets v ''direction'', ld_amount = gets v ''amount'',
           ld_source_line_ids = map py_str source_ids, ld_allocation_ids = map py_str allocation_ids\<rparr>)))"

definition add_line_row ::
  "vdict \<Rightarrow> voucher_line_decision dict \<Rightarrow> exc + voucher_line_decision dict" where
  "add_line_row v decisions =
    (if gets v ''line_id'' \<noteq> [] \<and> gets v ''account_code'' \<noteq> [] \<and> \<not> dhas decisions (gets v ''line_id'')
     then res_bind (decision_of_line v) (\<lambda>d. Inr (dput (gets v ''line_id'') d decisions))
     else Inr decisions)"

definition add_template_row ::
  "decision_codec \<Rightarrow> vdict \<Rightarrow> voucher_line_decision dict \<Rightarrow> exc + voucher_line_decision dict" where
  "add_template_row c v decisions =
    (case vdecision c v of
       None \<Rightarrow> Inl (ValueError ''validation error'' [])
     | Some d \<Rightarrow> Inr (dput (ld_line_id d) d decisions))"

definition apply_choice ::
  "string list \<Rightarrow> voucher_line_decision list \<Rightarrow> voucher_line_decision \<Rightarrow> voucher_line_decision dict
    \<Rightarrow> exc + voucher_line_decision dict" where
  "apply_choice known raw choice decisions =
    (if ld_line_id choice = [] \<or> ld_line_id choice \<notin> set known
     then Inl (ValueError ''decision for an unknown line'' [ld_line_id choice])
     else if length (filter (\<lambda>v. ld_line_id v = ld_line_id choice) raw) > 1
     then Inl (ValueError ''duplicate decision'' [ld_line_id choice])
     else Inr (dput (ld_line_id choice)
       (case dget decisions (ld_line_id choice) of
          Some existing \<Rightarrow> existing\<lparr>ld_account_code := ld_account_code choice, ld_aux := ld_aux choice\<rparr>
        | None \<Rightarrow> choice) decisions))"

definition line_decisions ::
  "decision_codec \<Rightarrow> vdict \<Rightarrow> voucher_line_decision list \<Rightarrow> exc + voucher_line_decision dict" where
  "line_decisions c snapshot raw =
    res_bind (getl snapshot ''lines'') (\<lambda>lines.
    res_bind (getl snapshot ''line_decision_templates'') (\<lambda>templates.
    let line_rows = dicts_of lines;
        template_rows = dicts_of templates;
        known = filter (\<lambda>k. k \<noteq> []) (map (\<lambda>v. gets v ''line_id'') (line_rows @ template_rows))
    in res_bind (res_fold (add_template_row c) template_rows []) (\<lambda>d1.
       res_bind (res_fold add_line_row line_rows d1) (\<lambda>d2.
       res_fold (apply_choice known raw) raw d2))))"

section \<open>Journal lines\<close>

definition PURCHASE :: string where
  "PURCHASE = [CHR 0xE9, CHR 0x87, CHR 0x87, CHR 0xE8, CHR 0xB4, CHR 0xAD]"

definition words_of :: "string list \<Rightarrow> string" where
  "words_of xs = join '' '' (filter (\<lambda>x. x \<noteq> []) xs)"

definition template_line_id :: "voucher_source_line \<Rightarrow> string \<Rightarrow> string" where
  "template_line_id source role =
     canonical_sha256 (VDict [(''source_line_id'', VStr (sl_source_line_id source)), (''role'', VStr role)])"

definition allocated_line_id ::
  "voucher_source_line \<Rightarrow> voucher_project_allocation option \<Rightarrow> string \<Rightarrow> string" where
  "allocated_line_id source allocation role =
    (case allocation of
       None \<Rightarrow> template_line_id source role
     | Some a \<Rightarrow> canonical_sha256 (VDict [(''source_line_id'', VStr (sl_source_line_id source)),
         (''allocation_id'', VStr (pa_allocation_id a)), (''role'', VStr role)]))"

definition project_aux ::
  "ledger_catalog_snapshot \<Rightarrow> account_catalog_record \<Rightarrow> voucher_project_allocation option \<Rightarrow> string dict
    \<Rightarrow> exc + string dict" where
  "project_aux catalogs account allocation aux =
    (case allocation of
       None \<Rightarrow> Inr aux
     | Some a \<Rightarrow>
         if strip (pa_project_id a) = [] then Inr aux
         else case dget (ls_auxiliary_by_value_id catalogs) (pa_project_id a) of
             None \<Rightarrow> Inl (ValueError ''invalid project value'' [pa_project_id a])
           | Some v \<Rightarrow>
               if \<not> ax_enabled v then Inl (ValueError ''invalid project value'' [pa_project_id a])
               else if ax_dimension v \<in> set (ac_required_aux_dimensions account)
               then Inr (dput (ax_dimension v) (ax_value_id v) aux)
               else Inr aux)"

definition check_aux :: "ledger_catalog_snapshot \<Rightarrow> string \<times> string \<Rightarrow> exc + unit" where
  "check_aux catalogs p =
    (case dget (ls_auxiliary_by_value_id catalogs) (snd p) of
       None \<Rightarrow> Inl (ValueError ''invalid auxiliary value'' [fst p, snd p])
     | Some v \<Rightarrow>
         if ax_dimension v \<noteq> fst p \<or> \<not> ax_enabled v
         then Inl (ValueError ''invalid auxiliary value'' [fst p, snd p]) else Inr ())"

definition decided_line ::
  "voucher_line_decision dict \<Rightarrow> ledger_catalog_snapshot \<Rightarrow> voucher_source_line
    \<Rightarrow> voucher_project_allocation option \<Rightarrow> string \<Rightarrow> string \<Rightarrow> dec \<Rightarrow> string \<Rightarrow> exc + voucher_line" where
  "decided_line decisions catalogs source allocation role direction amount summary =
    (let line_id = allocated_line_id source allocation role;
         decision = (case dget decisions line_id of
             Some d \<Rightarrow> Some d | None \<Rightarrow> dget decisions (template_line_id source role))
     in case decision of
          None \<Rightarrow> Inl (ValueError ''no account chosen'' [line_id])
        | Some d \<Rightarrow>
            if strip (ld_account_code d) = [] then Inl (ValueError ''no account chosen'' [line_id])
            else case dget (ls_accounts_by_code catalogs) (ld_account_code d) of
                None \<Rightarrow> Inl (ValueError ''unknown account'' [ld_account_code d])
              | Some account \<Rightarrow>
                  if \<not> ac_enabled account \<or> \<not> ac_is_leaf account
                  then Inl (ValueError ''account disabled or not a leaf'' [ld_account_code d])
                  else res_bind (project_aux catalogs account allocation (ld_aux d)) (\<lambda>aux.
                    res_bind (res_map (check_aux catalogs) aux) (\<lambda>_.
                    Inr \<lparr>vl_line_id = line_id, vl_line_role = role, vl_summary = summary,
                      vl_account_code = ac_code account, vl_account_name = ac_name account,
                      vl_direction = direction, vl_amount = format_f amount, vl_aux = aux,
                      vl_source_line_ids = [sl_source_line_id source],
                      vl_allocation_ids = (case allocation of None \<Rightarrow> [] | Some a \<Rightarrow> [pa_allocation_id a])\<rparr>)))"

definition cost_line ::
  "string \<Rightarrow> voucher_line_decision dict \<Rightarrow> ledger_catalog_snapshot \<Rightarrow> voucher_source_line
    \<Rightarrow> voucher_project_allocation \<Rightarrow> exc + voucher_line" where
  "cost_line tax_treatment decisions catalogs source a =
    res_bind (money (if tax_treatment = ''non_deductible'' then pa_total_amount a else pa_pretax_amount a)
        ''allocation cost amount'') (\<lambda>amount.
      decided_line decisions catalogs source (Some a) ''cost'' ''debit'' amount
        (words_of [PURCHASE, sl_seller source, sl_item_name source, pa_project_name a, sl_invoice_no source]))"

definition tax_lines ::
  "string \<Rightarrow> voucher_line_decision dict \<Rightarrow> ledger_catalog_snapshot \<Rightarrow> voucher_source_line \<Rightarrow> dec \<Rightarrow> string
    \<Rightarrow> exc + voucher_line list" where
  "tax_lines tax_treatment decisions catalogs source tax summary =
    (if tax_treatment = ''deductible'' \<and> \<not> dec_eq tax dec_zero
     then res_bind (decided_line decisions catalogs source None ''input_tax'' ''debit'' tax summary) (\<lambda>l. Inr [l])
     else Inr [])"

definition source_journal ::
  "voucher_project_allocation list \<Rightarrow> voucher_line_decision dict \<Rightarrow> string \<Rightarrow> ledger_catalog_snapshot
    \<Rightarrow> voucher_source_line \<Rightarrow> exc + voucher_line list" where
  "source_journal allocations decisions tax_treatment catalogs source =
    (let own = allocations_of allocations (sl_source_line_id source);
         summary = words_of [PURCHASE, sl_seller source, sl_item_name source, sl_invoice_no source]
     in if own = [] then Inl (KeyError (sl_source_line_id source))
        else res_bind (money (sl_tax_amount source) ''source tax amount'') (\<lambda>tax.
        res_bind (money (sl_total_amount source) ''source total amount'') (\<lambda>total.
        res_bind (res_map (cost_line tax_treatment decisions catalogs source) own) (\<lambda>costs.
        res_bind (tax_lines tax_treatment decisions catalogs source tax summary) (\<lambda>taxes.
        res_bind (decided_line decisions catalogs source None ''payable'' ''credit'' total summary) (\<lambda>payable.
          Inr (costs @ taxes @ [payable])))))))"

definition materialize_lines ::
  "voucher_source_line list \<Rightarrow> voucher_project_allocation list \<Rightarrow> voucher_line_decision dict \<Rightarrow> string
    \<Rightarrow> ledger_catalog_snapshot \<Rightarrow> exc + voucher_line list" where
  "materialize_lines source_lines allocations decisions tax_treatment catalogs =
    res_bind (res_map (source_journal allocations decisions tax_treatment catalogs) source_lines) (\<lambda>parts.
      Inr (concat parts))"

definition line_template :: "voucher_line \<Rightarrow> voucher_line_decision" where
  "line_template l = \<lparr>ld_line_id = vl_line_id l, ld_account_code = vl_account_code l, ld_aux = vl_aux l,
     ld_line_role = vl_line_role l, ld_summary = vl_summary l, ld_direction = vl_direction l,
     ld_amount = vl_amount l, ld_source_line_ids = vl_source_line_ids l,
     ld_allocation_ids = vl_allocation_ids l\<rparr>"

definition materialized_decision_templates ::
  "voucher_source_line list \<Rightarrow> voucher_line list \<Rightarrow> voucher_line_decision dict \<Rightarrow> voucher_line_decision list" where
  "materialized_decision_templates source_lines lines decisions =
    (let ids = concat (map (\<lambda>s. map (template_line_id s) [''cost'', ''input_tax'', ''payable'']) source_lines);
         kept = fold (\<lambda>k d. case dget decisions k of None \<Rightarrow> d | Some x \<Rightarrow> dput k x d) ids [];
         retained = fold (\<lambda>l. dput (vl_line_id l) (line_template l)) lines kept
     in map snd (dsorted retained))"

section \<open>Saving a decision\<close>

definition direction_total :: "string \<Rightarrow> voucher_line list \<Rightarrow> exc + dec" where
  "direction_total direction lines =
     money_sum (map vl_amount (filter (\<lambda>l. vl_direction l = direction) lines)) ''line amount''"

definition decision_fields ::
  "string \<Rightarrow> voucher_decision_patch \<Rightarrow> voucher_project_allocation list \<Rightarrow> voucher_line_decision list
    \<Rightarrow> voucher_line list \<Rightarrow> bool \<Rightarrow> vdict" where
  "decision_fields now patch allocations templates lines balanced =
    [(''business_class'', VStr (dp_business_class patch)),
     (''payment_state'', VStr (dp_payment_state patch)),
     (''payment_evidence_refs'', VList (map (\<lambda>e. VDict (dump_voucher_evidence_reference e)) (dp_payment_evidence_refs patch))),
     (''tax_treatment'', VStr (dp_tax_treatment patch)),
     (''tax_evidence_refs'', VList (map (\<lambda>e. VDict (dump_voucher_evidence_reference e)) (dp_tax_evidence_refs patch))),
     (''receiving_state'', VStr (dp_receiving_state patch)),
     (''receiving_evidence_refs'', VList (map (\<lambda>e. VDict (dump_voucher_evidence_reference e)) (dp_receiving_evidence_refs patch))),
     (''project_allocations'', VList (map (\<lambda>a. VDict (dump_voucher_project_allocation a)) allocations)),
     (''line_decision_templates'', VList (map (\<lambda>t. VDict (dump_voucher_line_decision t)) templates)),
     (''lines'', VList (map (\<lambda>l. VDict (dump_voucher_line l)) lines)),
     (''balance_ok'', VBool balanced),
     (''review_tier'', VStr ''manual_confirmed''),
     (''suggestion_source'', VStr ''manual''),
     (''execution_readiness'', VStr ''needs_review''),
     (''decision_confirmed_by'', VStr (strip (dp_decided_by patch))),
     (''decision_confirmed_at'', VStr now),
     (''blockers'', VList []),
     (''proposal_revision_hash'', VStr [])]"

definition decided_item ::
  "string \<Rightarrow> voucher_decision_patch \<Rightarrow> string \<Rightarrow> voucher_draft \<Rightarrow> voucher_status_item \<Rightarrow> voucher_status_item" where
  "decided_item now patch current_hash prepared item =
    \<lparr>si_status = ReviewPending, si_snapshot = dump_voucher_draft prepared, si_voucher_no = [], si_approved_at = [],
     si_approved_by = [], si_approved_revision_hash = [], si_imported_at = [], si_reject_reason = [],
     si_export_file = [], si_batch_id = [], si_item_revision = si_item_revision item + 1,
     si_legacy_keys = si_legacy_keys item, si_last_observation_hash = [],
     si_audit = si_audit item @ [audit_entry now ''decision_saved'' (''local:'' @ strip (dp_decided_by patch))
       (VDict [(''command_id'', VStr (strip (dp_command_id patch))), (''from_revision'', VStr current_hash),
               (''to_revision'', VStr (dr_proposal_revision_hash prepared))])]\<rparr>"

definition load_source_lines :: "decision_codec \<Rightarrow> vdict \<Rightarrow> exc + voucher_source_line list" where
  "load_source_lines c snapshot =
    res_bind (getl snapshot ''source_lines'') (\<lambda>raw.
    res_bind (res_map (\<lambda>v. validated (vsource c v)) raw) (\<lambda>source_lines.
    if source_lines = [] then Inl (ValueError ''no source lines to verify'' []) else Inr source_lines))"

definition decide ::
  "decision_codec \<Rightarrow> string \<Rightarrow> voucher_decision_patch \<Rightarrow> ledger_catalog_snapshot \<Rightarrow> voucher_status_store
    \<Rightarrow> exc + voucher_status_item mutation" where
  "decide c now patch catalogs current =
    (case dget (vs_items current) (dp_voucher_key patch) of
       None \<Rightarrow> Inl (KeyError (dp_voucher_key patch))
     | Some item \<Rightarrow>
         if si_status item \<notin> set EDITABLE_STATUSES
         then Inl (ValueError ''state does not allow a decision'' [voucher_state_text (si_status item)])
         else let snapshot = si_snapshot item; current_hash = gets snapshot ''proposal_revision_hash''
         in res_bind (proposal_revision_hash snapshot) (\<lambda>h.
            if current_hash \<noteq> h then Inl (ValueError ''proposal does not match its revision'' [])
            else if current_hash \<noteq> dp_expected_proposal_revision_hash patch
            then Inl (HashConflict ''voucher_proposal'' (dp_expected_proposal_revision_hash patch) current_hash)
            else res_bind (load_source_lines c snapshot) (\<lambda>source_lines.
            res_bind (validated_allocations source_lines (dp_project_allocations patch)) (\<lambda>allocations.
            res_bind (line_decisions c snapshot (dp_lines patch)) (\<lambda>decisions.
            res_bind (materialize_lines source_lines allocations decisions (dp_tax_treatment patch) catalogs) (\<lambda>lines.
            res_bind (direction_total ''debit'' lines) (\<lambda>debit.
            res_bind (direction_total ''credit'' lines) (\<lambda>credit.
            let templates = materialized_decision_templates source_lines lines decisions;
                data = dupdate snapshot (decision_fields now patch allocations templates lines (dec_eq debit credit))
            in res_bind (proposal_revision_hash data) (\<lambda>h'.
               res_bind (validated (vdraft c (dput ''proposal_revision_hash'' (VStr h') data))) (\<lambda>prepared.
               let updated = decided_item now patch current_hash prepared item
               in Inr (Changed (dput (dp_voucher_key patch) updated (vs_items current))
                    (vs_batches current) updated)))))))))))"

definition apply_voucher_decision ::
  "(store_file \<Rightarrow> exc + voucher_status_store) \<Rightarrow> decision_codec \<Rightarrow> string \<Rightarrow> string \<Rightarrow> voucher_decision_patch
    \<Rightarrow> ledger_catalog_snapshot \<Rightarrow> store_file \<Rightarrow> exc + store_file \<times> voucher_status_store \<times> voucher_status_item" where
  "apply_voucher_decision ld c now fresh patch catalogs f =
    (if strip (dp_command_id patch) = [] \<or> strip (dp_decided_by patch) = []
     then Inl (ValueError ''a decision carries command_id and decided_by'' [])
     else mutate_voucher_status ld now fresh (decide c now patch catalogs)
       (Some (dp_expected_store_revision patch)) f)"

end
