(* ===== verification/Voucher_Drafts.thy ===== *)
theory Voucher_Drafts
  imports Voucher_Texts Voucher_Decisions Account_Mapping
begin

text \<open>
  \<open>bookkeeping/vouchers.py\<close>: the voucher drafts that the rows of an invoice index give. Rows with
  the same invoice number form one group; a row without a number is anchored to its evidence (the
  digest of its source file, its path, or its row number). Each row of a group becomes a source
  line, an allocation, a rule resolution and its journal lines, and adds its reasons for a manual
  check. The rows of the loop do not depend on each other, so a row is a function
  (\<open>row_entry\<close>) and the accumulators of the loop are lists over its results.

  The directory of the source files is a parameter (\<open>source_tree\<close>): the parts of the resolved
  root, the resolution of a name under it (\<open>None\<close> for \<open>OSError\<close>) and the content of a regular
  file at resolved parts. It does not change while the drafts are generated.
\<close>

definition TAIL_DIFF_LIMIT :: dec where
  "TAIL_DIFF_LIMIT = Fin False 1 (-2)"

definition VOUCHER_TYPE :: string where
  "VOUCHER_TYPE = [CHR 0xE8, CHR 0xAE, CHR 0xB0]"

section \<open>Texts and amounts\<close>

definition clean :: "pyval \<Rightarrow> string" where
  "clean v = strip (replace1 ideographic_space '' '' (replace1 nbsp '' '' (str_or_empty v)))"

definition first_non_empty :: "pyval list \<Rightarrow> string" where
  "first_non_empty vs = (case filter (\<lambda>t. t \<noteq> []) (map clean vs) of [] \<Rightarrow> [] | t # ts \<Rightarrow> t)"

definition money_text :: "dec \<Rightarrow> exc + string" where
  "money_text d = res_bind (quantize_cent round_half_up d) (\<lambda>q. Inr (format_f q))"

definition as_decimal :: "string \<Rightarrow> exc + dec" where
  "as_decimal t = decimal_res (text_or t ''0'')"

text \<open>\<open>[+-]?(?:\d+(?:\.\d+)?|\.\d+)\<close>\<close>

definition is_amount :: "string \<Rightarrow> bool" where
  "is_amount t =
    (let s = ascii_digits t;
         u = (if s \<noteq> [] \<and> hd s \<in> {CHR ''+'', CHR ''-''} then tl s else s);
         i = takeWhile is_digit u; r = dropWhile is_digit u
     in (i \<noteq> [] \<and> r = []) \<or> (r \<noteq> [] \<and> hd r = CHR ''.'' \<and> tl r \<noteq> [] \<and> list_all is_digit (tl r)))"

definition row_reason :: "nat \<Rightarrow> string \<Rightarrow> string" where
  "row_reason index reason = T_ROW_PREFIX @ nat_text index @ '' '' @ T_ROW @ reason"

definition plain_amount :: "pyval \<Rightarrow> string" where
  "plain_amount v = replace1 YEN [] (replace1 FULL_YEN [] (replace1 '','' [] (clean v)))"

definition row_money :: "pyval \<Rightarrow> string \<Rightarrow> nat \<Rightarrow> dec \<times> string list" where
  "row_money value field index =
    (let amount = plain_amount value;
         reason = (\<lambda>t. [row_reason index (field @ t @ py_str value)])
     in if amount = [] then (dec_zero, [row_reason index (field @ T_MISSING)])
        else if \<not> is_amount amount then (dec_zero, reason T_BAD_AMOUNT)
        else case parse_decimal amount of
            None \<Rightarrow> (dec_zero, reason T_BAD_AMOUNT)
          | Some d \<Rightarrow>
              if \<not> is_finite d then (dec_zero, reason T_NOT_FINITE)
              else (d, if dec_less d dec_zero then reason T_NEGATIVE else []))"

definition tail_diff :: "dec \<Rightarrow> dec \<Rightarrow> dec \<Rightarrow> dec" where
  "tail_diff pretax tax full = dec_abs (dec_sub (dec_add pretax tax) full)"

definition tail_reason :: "(string \<Rightarrow> string) \<Rightarrow> dec \<Rightarrow> exc + string list" where
  "tail_reason reason d =
    (if dec_less TAIL_DIFF_LIMIT d then res_bind (money_text d) (\<lambda>t. Inr [reason t]) else Inr [])"

section \<open>The account table\<close>

definition put_account :: "string \<times> pyval \<Rightarrow> string dict \<Rightarrow> string dict" where
  "put_account p accounts =
    (let code = strip (fst p);
         raw_name = (case snd p of VDict d \<Rightarrow> get_val d ''name'' | v \<Rightarrow> v)
     in if code = [] then accounts else dput code (strip (str_or_empty raw_name)) accounts)"

fun normalize_account_table :: "pyval \<Rightarrow> string dict" where
  "normalize_account_table (VDict payload) =
    (case get_val payload ''accounts'' of
       VList raw \<Rightarrow> fold (\<lambda>d. if strip (gets d ''code'') = [] then id
           else dput (strip (gets d ''code'')) (strip (gets d ''name''))) (dicts_of raw) []
     | VDict raw \<Rightarrow> fold put_account raw []
     | _ \<Rightarrow> fold put_account payload [])"
| "normalize_account_table _ = []"

definition missing_account :: "string dict \<Rightarrow> string \<times> string \<Rightarrow> string list" where
  "missing_account account_table p =
    (let cleaned = strip (snd p)
     in if cleaned \<noteq> [] \<and> \<not> dhas account_table cleaned then [fst p @ T_NOT_IN_TABLE @ cleaned] else [])"

definition missing_rule_accounts :: "account_mapping_rule \<Rightarrow> string dict \<Rightarrow> string list" where
  "missing_rule_accounts rule account_table =
    (if account_table = [] then [T_NO_ACCOUNTS]
     else concat (map (missing_account account_table)
       [(T_DEBIT, ru_debit_account_code rule), (T_CREDIT, ru_credit_account_code rule),
        (T_TAX_ACCOUNT, ru_tax_account_code rule)]))"

section \<open>Source files\<close>

record source_tree =
  st_root :: "string list"
  st_resolve :: "string \<Rightarrow> string list option"
  st_content :: "string list \<Rightarrow> string option"

definition source_path_within :: "source_tree \<Rightarrow> string \<Rightarrow> string list option" where
  "source_path_within tree name =
    (case st_resolve tree name of
       None \<Rightarrow> None
     | Some source \<Rightarrow>
         if source = st_root tree \<or> take (length (st_root tree)) source \<noteq> st_root tree then None
         else Some source)"

definition source_sha256 :: "source_tree \<Rightarrow> string \<Rightarrow> string" where
  "source_sha256 tree name =
    (case source_path_within tree name of
       None \<Rightarrow> []
     | Some source \<Rightarrow> (case st_content tree source of None \<Rightarrow> [] | Some content \<Rightarrow> sha256 content))"

definition source_file_hashes :: "(nat \<times> vdict) list \<Rightarrow> source_tree option \<Rightarrow> string dict" where
  "source_file_hashes indexed_rows source_dir =
    map (\<lambda>name. (name, case source_dir of None \<Rightarrow> [] | Some tree \<Rightarrow> source_sha256 tree name))
      (sort (dedup (filter (\<lambda>n. n \<noteq> []) (map (\<lambda>r. clean (get_val (snd r) F_FILE)) indexed_rows))))"

text \<open>The anchor of a row without an invoice number, with the cache of file digests.\<close>

definition weak_evidence_anchor ::
  "source_tree option \<Rightarrow> nat \<times> vdict \<Rightarrow> string dict \<Rightarrow> string \<times> string dict" where
  "weak_evidence_anchor source_dir indexed_row hash_cache =
    (let name = clean (get_val (snd indexed_row) F_FILE);
         cache = (case source_dir of
             Some tree \<Rightarrow> if name = [] \<or> dhas hash_cache name then hash_cache
               else dput name (source_sha256 tree name) hash_cache
           | None \<Rightarrow> hash_cache);
         digest = (if source_dir \<noteq> None \<and> name \<noteq> [] then if_given (dget cache name) [] else [])
     in (if digest \<noteq> [] then ''sha256:'' @ digest
         else if name \<noteq> [] then ''path:'' @ name
         else ''row:'' @ nat_text (fst indexed_row), cache))"

section \<open>The lines of a row\<close>

record line_accounts =
  la_debit_code :: string
  la_debit_name :: string
  la_credit_code :: string
  la_credit_name :: string
  la_tax_code :: string
  la_tax_name :: string
  la_cost_aux :: "string dict"
  la_tax_aux :: "string dict"
  la_credit_aux :: "string dict"

definition required_part :: "string list dict \<Rightarrow> account_mapping_rule \<Rightarrow> string \<Rightarrow> string dict" where
  "required_part required rule code =
     filter (\<lambda>p. fst p \<in> set (if_given (dget required code) [])) (ru_aux_dimensions rule)"

definition row_accounts ::
  "string list dict \<Rightarrow> string dict \<Rightarrow> account_mapping_rule option \<Rightarrow> line_accounts" where
  "row_accounts required account_table matched =
    (case matched of
       None \<Rightarrow> \<lparr>la_debit_code = [], la_debit_name = [], la_credit_code = [], la_credit_name = [],
                 la_tax_code = [], la_tax_name = [], la_cost_aux = [], la_tax_aux = [], la_credit_aux = []\<rparr>
     | Some rule \<Rightarrow>
         \<lparr>la_debit_code = ru_debit_account_code rule,
          la_debit_name = if_given (dget account_table (ru_debit_account_code rule)) (ru_debit_account_name rule),
          la_credit_code = ru_credit_account_code rule,
          la_credit_name = if_given (dget account_table (ru_credit_account_code rule)) (ru_credit_account_name rule),
          la_tax_code = ru_tax_account_code rule,
          la_tax_name = (if ru_tax_account_code rule = [] then []
            else if_given (dget account_table (ru_tax_account_code rule)) []),
          la_cost_aux = required_part required rule (ru_debit_account_code rule),
          la_tax_aux = required_part required rule (ru_tax_account_code rule),
          la_credit_aux = required_part required rule (ru_credit_account_code rule)\<rparr>)"

definition voucher_line_id :: "string \<Rightarrow> string \<Rightarrow> string" where
  "voucher_line_id source_line_id role =
     canonical_sha256 (VDict [(''source_line_id'', VStr source_line_id), (''role'', VStr role)])"

definition source_voucher_line ::
  "voucher_source_line \<Rightarrow> string \<Rightarrow> string \<Rightarrow> string \<Rightarrow> string \<Rightarrow> string \<Rightarrow> string dict \<Rightarrow> string list
    \<Rightarrow> dec \<Rightarrow> exc + voucher_line" where
  "source_voucher_line source role direction summary code acct_name aux allocation_ids amount =
     res_bind (money_text amount) (\<lambda>t. Inr
       \<lparr>vl_line_id = voucher_line_id (sl_source_line_id source) role, vl_line_role = role,
        vl_summary = summary, vl_account_code = code, vl_account_name = acct_name,
        vl_direction = direction, vl_amount = t, vl_aux = aux,
        vl_source_line_ids = [sl_source_line_id source], vl_allocation_ids = allocation_ids\<rparr>)"

definition voucher_lines_for_source ::
  "voucher_source_line \<Rightarrow> voucher_project_allocation \<Rightarrow> string \<Rightarrow> line_accounts \<Rightarrow> exc + voucher_line list" where
  "voucher_lines_for_source source allocation invoice_number la =
    res_bind (as_decimal (sl_pretax_amount source)) (\<lambda>pretax_amount.
    res_bind (as_decimal (sl_tax_amount source)) (\<lambda>tax_amount.
    res_bind (as_decimal (sl_total_amount source)) (\<lambda>total_with_tax.
    let summary = strip (words_of [PURCHASE, sl_seller source, sl_item_name source,
          sl_project_name source, invoice_number])
    in res_bind (source_voucher_line source ''cost'' ''debit'' summary (la_debit_code la) (la_debit_name la)
         (la_cost_aux la) [pa_allocation_id allocation] pretax_amount) (\<lambda>cost.
       res_bind (if dec_eq tax_amount dec_zero then Inr []
         else res_bind (source_voucher_line source ''input_tax'' ''debit'' summary (la_tax_code la) (la_tax_name la)
           (la_tax_aux la) [] tax_amount) (\<lambda>l. Inr [l])) (\<lambda>taxes.
       res_bind (source_voucher_line source ''payable'' ''credit'' summary (la_credit_code la) (la_credit_name la)
         (la_credit_aux la) [] total_with_tax) (\<lambda>payable.
         Inr (cost # taxes @ [payable])))))))"

section \<open>A row\<close>

record draft_row =
  dw_amount :: dec
  dw_tax :: dec
  dw_total :: dec
  dw_marker :: string
  dw_source :: voucher_source_line
  dw_allocation :: voucher_project_allocation
  dw_resolution :: voucher_rule_resolution
  dw_rule :: "account_mapping_rule option"
  dw_lines :: "voucher_line list"
  dw_reasons :: "string list"

definition row_marker :: "nat \<Rightarrow> vdict \<Rightarrow> string" where
  "row_marker index row = join '' | '' ((''row:'' @ nat_text index) #
     map (\<lambda>k. k @ '':'' @ clean (get_val row k))
       (filter (\<lambda>k. clean (get_val row k) \<noteq> []) [F_INVOICE_NO, F_SELLER, F_PROJECT, F_MODEL, F_FILE]))"

definition row_item :: "vdict \<Rightarrow> string" where
  "row_item row = first_non_empty (map (get_val row) [F_INVOICE_CODE, F_ITEM, F_REMARK_ITEM, F_MODEL])"

definition source_line_of ::
  "string dict \<Rightarrow> string \<Rightarrow> string \<Rightarrow> nat \<Rightarrow> vdict \<Rightarrow> string \<Rightarrow> string \<Rightarrow> string \<Rightarrow> voucher_source_line" where
  "source_line_of hashes invoice_number seller index row pretax tax full =
    (let project = clean (get_val row F_PROJECT);
         item_name = row_item row;
         source_file = clean (get_val row F_FILE);
         source_file_sha256 = if_given (dget hashes source_file) [];
         source_line_id = canonical_sha256 (VDict
           [(''source_file_sha256'', VStr source_file_sha256), (''source_file'', VStr source_file),
            (''source_row_no'', VInt (int index)), (''invoice_no'', VStr invoice_number),
            (''seller'', VStr seller), (''item_name'', VStr item_name), (''project_name'', VStr project),
            (''quantity'', VStr (clean (get_val row F_QUANTITY))), (''pretax_amount'', VStr pretax),
            (''tax_amount'', VStr tax), (''total_amount'', VStr full)])
     in \<lparr>sl_source_line_id = source_line_id, sl_source_row_no = int index,
         sl_source_type = ''purchase_invoice'', sl_invoice_no = invoice_number, sl_seller = seller,
         sl_item_name = item_name,
         sl_item_key = canonical_sha256 (VDict [(''item'', VStr item_name),
           (''spec'', VStr (clean (get_val row F_MODEL))), (''unit'', VStr (clean (get_val row F_UNIT)))]),
         sl_project_name = project, sl_quantity = clean (get_val row F_QUANTITY),
         sl_pretax_amount = pretax, sl_tax_amount = tax, sl_total_amount = full,
         sl_source_file = source_file, sl_source_file_sha256 = source_file_sha256\<rparr>)"

definition allocation_of_source :: "voucher_source_line \<Rightarrow> voucher_project_allocation" where
  "allocation_of_source source =
    \<lparr>pa_allocation_id = canonical_sha256 (VDict [(''source_line_id'', VStr (sl_source_line_id source)),
       (''project_name'', VStr (sl_project_name source))]),
     pa_source_line_id = sl_source_line_id source, pa_project_id = [],
     pa_project_name = sl_project_name source, pa_pretax_amount = sl_pretax_amount source,
     pa_tax_amount = sl_tax_amount source, pa_total_amount = sl_total_amount source\<rparr>"

definition mapping_reasons ::
  "nat \<Rightarrow> string dict \<Rightarrow> voucher_rule_resolution \<Rightarrow> account_mapping_rule option \<Rightarrow> string list" where
  "mapping_reasons index account_table resolution matched =
    (if rr_outcome resolution = ''ambiguous''
     then [row_reason index (T_CONFLICT @ join '', '' (rr_candidate_rule_ids resolution))] else [])
    @ (case matched of None \<Rightarrow> []
       | Some rule \<Rightarrow> map (row_reason index) (missing_rule_accounts rule account_table))"

record draft_context =
  dx_rules :: "account_mapping_rule list"
  dx_account_table :: "string dict"
  dx_rules_version :: string
  dx_generated_at :: string
  dx_company_id :: string
  dx_source_dir :: "source_tree option"
  dx_account_table_sha256 :: string
  dx_aux_catalog_sha256 :: string
  dx_ledger_environment :: string
  dx_ledger_identity_sha256 :: string
  dx_ledger_profile_revision :: int
  dx_ledger_profile_sha256 :: string
  dx_account_required_aux :: "string list dict"

definition row_entry ::
  "draft_context \<Rightarrow> string dict \<Rightarrow> string \<Rightarrow> string \<Rightarrow> string \<Rightarrow> nat \<times> vdict \<Rightarrow> exc + draft_row" where
  "row_entry x hashes invoice_number seller invoice_date indexed_row =
    (let index = fst indexed_row; row = snd indexed_row;
         (amount, amount_reasons) = row_money (get_val row F_PRETAX) F_PRETAX index;
         (tax, tax_reasons) = row_money (get_val row F_TAX) F_TAX index;
         (full, full_reasons) = row_money (get_val row F_TOTAL) F_TOTAL index;
         rate_reasons = (if clean (get_val row F_RATE) = [] then [row_reason index T_RATE_MISSING] else [])
     in res_bind (tail_reason (\<lambda>t. row_reason index (T_ROW_DIFF @ t)) (tail_diff amount tax full)) (\<lambda>diff_reasons.
        res_bind (money_text amount) (\<lambda>pretax_text.
        res_bind (money_text tax) (\<lambda>tax_text.
        res_bind (money_text full) (\<lambda>total_text.
        let source = source_line_of hashes invoice_number seller index row pretax_text tax_text total_text;
            allocation = allocation_of_source source
        in res_bind (resolve_account_mapping (dx_rules x) (sl_source_line_id source)
             \<lparr>mc_seller = seller, mc_internal_project = sl_project_name source,
              mc_source_type = ''purchase_invoice'', mc_item = sl_item_name source,
              mc_effective_date = invoice_date\<rparr>) (\<lambda>(resolution, matched).
           res_bind (voucher_lines_for_source source allocation invoice_number
             (row_accounts (dx_account_required_aux x) (dx_account_table x) matched)) (\<lambda>ls. Inr
             \<lparr>dw_amount = amount, dw_tax = tax, dw_total = full, dw_marker = row_marker index row,
              dw_source = source, dw_allocation = allocation, dw_resolution = resolution,
              dw_rule = matched, dw_lines = ls,
              dw_reasons = amount_reasons @ tax_reasons @ full_reasons @ rate_reasons @ diff_reasons
                @ mapping_reasons index (dx_account_table x) resolution matched\<rparr>)))))))"

section \<open>A draft\<close>

definition group_sellers :: "(nat \<times> vdict) list \<Rightarrow> string list" where
  "group_sellers indexed_rows =
     dedup (filter (\<lambda>t. t \<noteq> []) (map (\<lambda>r. clean (get_val (snd r) F_SELLER)) indexed_rows))"

definition group_reasons :: "string \<Rightarrow> (nat \<times> vdict) list \<Rightarrow> string list" where
  "group_reasons invoice_number indexed_rows =
     (if invoice_number = [] then [T_NO_INVOICE_NO] else [])
     @ (if 1 < length (group_sellers indexed_rows) then [T_MANY_SELLERS] else [])"

definition side_total :: "string \<Rightarrow> voucher_line list \<Rightarrow> exc + dec" where
  "side_total direction ls =
     res_bind (res_map as_decimal (map vl_amount (filter (\<lambda>l. vl_direction l = direction) ls)))
       (\<lambda>ds. Inr (dec_sum ds dec_zero))"

definition unique_rules :: "account_mapping_rule list \<Rightarrow> account_mapping_rule list" where
  "unique_rules rules = map snd (fold (\<lambda>r. dput (ru_rule_id r) r) rules [])"

definition review_tier_of :: "string list \<Rightarrow> draft_row list \<Rightarrow> string" where
  "review_tier_of reasons entries =
    (if reasons \<noteq> [] then ''forced_manual''
     else if list_ex (\<lambda>e. dw_rule e = None) entries then ''ai_suggested'' else ''auto'')"

definition assembled_draft ::
  "draft_context \<Rightarrow> string \<Rightarrow> string \<Rightarrow> string dict \<Rightarrow> string \<Rightarrow> string \<Rightarrow> draft_row list \<Rightarrow> string list
    \<Rightarrow> bool \<Rightarrow> account_mapping_rule list \<Rightarrow> string list \<Rightarrow> voucher_draft" where
  "assembled_draft x invoice_number weak_anchor hashes seller invoice_date entries reasons balance_ok
       matched fingerprints =
    (let anchor = text_or invoice_number weak_anchor;
         stable_key = posting_key (dx_company_id x) ''purchase_recognition'' anchor;
         tier = review_tier_of reasons entries
     in (new_voucher_draft stable_key invoice_date (concat (map dw_lines entries))
          (if invoice_number = [] then [] else [invoice_number])
          (map dw_marker entries @ map (\<lambda>r. T_REASON @ r) reasons) balance_ok tier (dx_generated_at x))
        \<lparr>dr_voucher_type := VOUCHER_TYPE,
         dr_posting_key := stable_key,
         dr_legacy_key := voucher_draft_key invoice_number VOUCHER_TYPE (dx_rules_version x),
         dr_company_id := dx_company_id x,
         dr_ledger_environment := dx_ledger_environment x,
         dr_ledger_identity_sha256 := dx_ledger_identity_sha256 x,
         dr_ledger_profile_revision := dx_ledger_profile_revision x,
         dr_ledger_profile_sha256 := dx_ledger_profile_sha256 x,
         dr_event_type := ''purchase_recognition'',
         dr_period := utake 7 invoice_date,
         dr_anchor_business_key := anchor,
         dr_key_strength := (if invoice_number \<noteq> [] then ''strong'' else ''weak''),
         dr_source_file_hashes := hashes,
         dr_source_lines := map dw_source entries,
         dr_counterparty_name := seller,
         dr_project_allocations := map dw_allocation entries,
         dr_rule_ids := map ru_rule_id matched,
         dr_rule_fingerprints := fingerprints,
         dr_rules_version := dx_rules_version x,
         dr_rule_resolutions := map dw_resolution entries,
         dr_mapping_resolution_sha256 := mapping_resolution_sha256 (map dw_resolution entries),
         dr_account_table_sha256 := dx_account_table_sha256 x,
         dr_aux_catalog_sha256 := dx_aux_catalog_sha256 x,
         dr_suggestion_source := (if list_ex (\<lambda>e. dw_rule e = None) entries then ''ai'' else ''deterministic''),
         dr_execution_readiness := (if tier = ''forced_manual'' then ''blocked'' else ''needs_review'')\<rparr>)"

definition draft_from_group ::
  "draft_context \<Rightarrow> string \<Rightarrow> string \<Rightarrow> (nat \<times> vdict) list \<Rightarrow> exc + voucher_draft" where
  "draft_from_group x invoice_number weak_anchor indexed_rows =
    (let first_row = (case indexed_rows of [] \<Rightarrow> [] | r # rs \<Rightarrow> snd r);
         seller = first_non_empty (map (\<lambda>r. get_val (snd r) F_SELLER) indexed_rows);
         invoice_date = clean (get_val first_row F_DATE);
         hashes = source_file_hashes indexed_rows (dx_source_dir x)
     in res_bind (res_map (row_entry x hashes invoice_number seller invoice_date) indexed_rows) (\<lambda>entries.
        res_bind (tail_reason (\<lambda>t. T_TOTAL_DIFF @ t)
          (tail_diff (dec_sum (map dw_amount entries) dec_zero) (dec_sum (map dw_tax entries) dec_zero)
            (dec_sum (map dw_total entries) dec_zero))) (\<lambda>total_reasons.
        let reasons = group_reasons invoice_number indexed_rows @ concat (map dw_reasons entries) @ total_reasons;
            ls = concat (map dw_lines entries);
            matched = unique_rules (concat (map (\<lambda>e. case dw_rule e of None \<Rightarrow> [] | Some r \<Rightarrow> [r]) entries))
        in res_bind (side_total ''debit'' ls) (\<lambda>debit.
           res_bind (side_total ''credit'' ls) (\<lambda>credit.
           res_bind (res_map mapping_rule_fingerprint matched) (\<lambda>fingerprints.
           if dx_ledger_environment x \<notin> {''production'', ''test'', []}
           then Inl (ValueError ''validation error'' [dx_ledger_environment x])
           else let draft = assembled_draft x invoice_number weak_anchor hashes seller invoice_date entries
                      reasons (reasons = [] \<and> dec_eq debit credit) matched fingerprints
             in res_bind (proposal_revision_hash (dump_voucher_draft draft)) (\<lambda>h.
                Inr (draft\<lparr>dr_proposal_revision_hash := h\<rparr>))))))))"

section \<open>All drafts\<close>

type_synonym row_groups = "(nat \<times> vdict) list dict"

definition row_invoice_no :: "nat \<times> vdict \<Rightarrow> string" where
  "row_invoice_no r = clean (get_val (snd r) F_INVOICE_NO)"

definition group_row ::
  "source_tree option \<Rightarrow> nat \<times> vdict \<Rightarrow> row_groups \<times> string dict \<Rightarrow> row_groups \<times> string dict" where
  "group_row source_dir r st =
    (let (groups, hash_cache) = st;
         invoice_number = row_invoice_no r;
         (weak_anchor, hash_cache') = weak_evidence_anchor source_dir r hash_cache;
         group_key = text_or invoice_number (''weak:'' @ weak_anchor)
     in (dput group_key (if_given (dget groups group_key) [] @ [r]) groups, hash_cache'))"

definition group_rows :: "source_tree option \<Rightarrow> vdict list \<Rightarrow> row_groups" where
  "group_rows source_dir rows = fst (fold (group_row source_dir) (enumerate 1 rows) ([], []))"

definition draft_of_key :: "draft_context \<Rightarrow> string \<times> (nat \<times> vdict) list \<Rightarrow> exc + voucher_draft" where
  "draft_of_key x g = draft_from_group x
     (first_non_empty (map (\<lambda>r. get_val (snd r) F_INVOICE_NO) (snd g))) (removeprefix ''weak:'' (fst g)) (snd g)"

definition generate_voucher_drafts ::
  "vdict list \<Rightarrow> pyval \<Rightarrow> draft_context \<Rightarrow> exc + voucher_draft list" where
  "generate_voucher_drafts rows account_table x =
    (let accounts = normalize_account_table account_table;
         x' = x\<lparr>dx_account_table := accounts,
           dx_account_table_sha256 := text_or (dx_account_table_sha256 x)
             (canonical_sha256 (VDict (text_items accounts)))\<rparr>
     in res_map (draft_of_key x') (group_rows (dx_source_dir x) rows))"

end
