(* ===== verification/Draft_Groups.thy ===== *)
theory Draft_Groups
  imports Voucher_Drafts Rule_Matching
begin

text \<open>
  Grouping of the invoice rows. The loop of \<open>generate_voucher_drafts\<close>, with its cache of file
  digests, computes the declarative grouping by key (\<open>grouping_meets_specification\<close>); therefore
  every row is in exactly one draft (\<open>every_row_in_one_draft\<close>) and two drafts do not share a
  posting key (\<open>draft_keys_differ\<close>).
\<close>

section \<open>The key of a row\<close>

definition weak_anchor_of :: "source_tree option \<Rightarrow> nat \<times> vdict \<Rightarrow> string" where
  "weak_anchor_of source_dir r = fst (weak_evidence_anchor source_dir r [])"

definition row_key :: "source_tree option \<Rightarrow> nat \<times> vdict \<Rightarrow> string" where
  "row_key source_dir r = text_or (row_invoice_no r) (''weak:'' @ weak_anchor_of source_dir r)"

text \<open>The cache holds digests of the files of the tree.\<close>

definition cache_ok :: "source_tree option \<Rightarrow> string dict \<Rightarrow> bool" where
  "cache_ok source_dir cache \<longleftrightarrow>
     (\<forall>name h. dget cache name = Some h \<longrightarrow> (\<exists>tree. source_dir = Some tree \<and> h = source_sha256 tree name))"

lemma cache_ok_Nil [simp]: "cache_ok source_dir []"
  by (simp add: cache_ok_def)

lemma weak_anchor_cached:
  assumes "cache_ok source_dir cache"
  shows "fst (weak_evidence_anchor source_dir r cache) = weak_anchor_of source_dir r"
    and "cache_ok source_dir (snd (weak_evidence_anchor source_dir r cache))"
proof -
  have look: "h = source_sha256 tree name" if "source_dir = Some tree" "dget cache name = Some h" for tree name h
    using assms that unfolding cache_ok_def by blast
  show "fst (weak_evidence_anchor source_dir r cache) = weak_anchor_of source_dir r"
    using look by (auto simp: weak_anchor_of_def weak_evidence_anchor_def Let_def dhas_def if_given_def
        split: option.splits)
  show "cache_ok source_dir (snd (weak_evidence_anchor source_dir r cache))"
    using assms by (auto simp: weak_evidence_anchor_def Let_def cache_ok_def dget_dput split: option.splits if_splits)
qed

section \<open>Grouping by key\<close>

definition grouped :: "('a \<Rightarrow> string) \<Rightarrow> 'a list \<Rightarrow> 'a list dict" where
  "grouped f xs = map (\<lambda>k. (k, filter (\<lambda>x. f x = k) xs)) (dedup (map f xs))"

lemma dget_tabulated: "dget (map (\<lambda>k. (k, g k)) ks) k = (if k \<in> set ks then Some (g k) else None)"
  by (induction ks) auto

lemma dput_tabulated:
  "dput k v (map (\<lambda>k. (k, g k)) ks) =
    (if k \<in> set ks \<and> distinct ks then map (\<lambda>j. (j, if j = k then v else g j)) ks
     else if k \<in> set ks then dput k v (map (\<lambda>k. (k, g k)) ks)
     else map (\<lambda>k. (k, g k)) ks @ [(k, v)])"
  by (induction ks) (auto simp: dput_append_new)

lemma dedup_snoc: "dedup (xs @ [x]) = add_new x (dedup xs)"
  by (simp add: dedup_def)

lemma grouped_snoc:
  "dput (f x) (if_given (dget (grouped f xs) (f x)) [] @ [x]) (grouped f xs) = grouped f (xs @ [x])"
proof (cases "f x \<in> f ` set xs")
  case True
  then show ?thesis
    by (auto simp: grouped_def dget_tabulated dput_tabulated dedup_snoc add_new_def if_given_def)
next
  case False
  then have "filter (\<lambda>y. f y = f x) xs = []" by (metis (mono_tags, lifting) filter_False image_eqI)
  with False show ?thesis
    by (auto simp: grouped_def dget_tabulated dput_tabulated dedup_snoc add_new_def if_given_def)
qed

lemma group_rows_fold:
  "\<exists>cache. fold (group_row source_dir) rs ([], []) = (grouped (row_key source_dir) rs, cache)
     \<and> cache_ok source_dir cache"
proof (induction rs rule: rev_induct)
  case Nil
  show ?case by (simp add: grouped_def dedup_def)
next
  case (snoc r rs)
  then obtain cache where IH: "fold (group_row source_dir) rs ([], []) = (grouped (row_key source_dir) rs, cache)"
    and ok: "cache_ok source_dir cache" by blast
  obtain a c where a: "weak_evidence_anchor source_dir r cache = (a, c)" by fastforce
  with weak_anchor_cached [OF ok, of r] have "a = weak_anchor_of source_dir r" "cache_ok source_dir c" by simp_all
  with a have step: "group_row source_dir r (g, cache)
      = (dput (row_key source_dir r) (if_given (dget g (row_key source_dir r)) [] @ [r]) g, c)" for g
    by (simp add: group_row_def row_key_def Let_def)
  with IH \<open>cache_ok source_dir c\<close> show ?case
    by (simp add: step grouped_snoc)
qed

lemma group_rows_grouped: "group_rows source_dir rows = grouped (row_key source_dir) (enumerate 1 rows)"
  using group_rows_fold [of source_dir "enumerate 1 rows"] by (auto simp: group_rows_def)

text \<open>C29: Grouping is what it should be: the groups that the loop of \<open>generate_voucher_drafts\<close>
  builds, with its cache of file digests threaded from row to row, are exactly the rows of the
  index by their keys: one group per key, in the order in which the keys first occur, each with the
  rows of that key in the order of the index. The key of a row is its invoice number or, without
  one, the anchor of its evidence, computed from the row and the source files alone.\<close>

theorem grouping_meets_specification:
  "group_rows source_dir rows =
    map (\<lambda>k. (k, filter (\<lambda>r. row_key source_dir r = k) (enumerate 1 rows)))
      (dedup (map (row_key source_dir) (enumerate 1 rows)))"
  by (simp add: group_rows_grouped grouped_def)

section \<open>No row is lost\<close>

lemma count_tabulated: "distinct ks \<Longrightarrow> sum_list (map (\<lambda>k. if c = k then {#x#} else {#}) ks) = (if c \<in> set ks then {#x#} else {#})"
  by (induction ks) auto

lemma mset_by_key:
  assumes "distinct ks" and "f ` set xs \<subseteq> set ks"
  shows "mset (concat (map (\<lambda>k. filter (\<lambda>x. f x = k) xs) ks)) = mset xs"
  using assms(2)
proof (induction xs)
  case Nil
  have "concat (map (\<lambda>k. filter (\<lambda>x. f x = k) []) ks) = []" by (induction ks) auto
  then show ?case by simp
next
  case (Cons x xs)
  have "mset (concat (map (\<lambda>k. filter (\<lambda>y. f y = k) (x # xs)) ks))
      = sum_list (map (\<lambda>k. (if f x = k then {#x#} else {#}) + mset (filter (\<lambda>y. f y = k) xs)) ks)"
    by (auto simp: mset_concat intro!: arg_cong [where f = sum_list])
  also have "\<dots> = (if f x \<in> set ks then {#x#} else {#}) + mset (concat (map (\<lambda>k. filter (\<lambda>y. f y = k) xs) ks))"
    by (simp add: sum_list_addf count_tabulated [OF assms(1)] mset_concat comp_def)
  finally show ?case using Cons by simp
qed

lemma mset_grouped: "mset (concat (map snd (grouped f xs))) = mset xs"
proof -
  have "mset (concat (map snd (grouped f xs))) = mset (concat (map (\<lambda>k. filter (\<lambda>x. f x = k) xs) (dedup (map f xs))))"
    by (simp add: grouped_def comp_def)
  also have "\<dots> = mset xs" by (rule mset_by_key) auto
  finally show ?thesis .
qed

section \<open>What a draft is made of\<close>

lemma row_entry_Inr:
  assumes "row_entry x hashes number seller day r = Inr e"
  obtains pretax tax full where
    "dw_source e = source_line_of hashes number seller (fst r) (snd r) pretax tax full"
    "dw_allocation e = allocation_of_source (dw_source e)"
    "dw_amount e = fst (row_money (get_val (snd r) F_PRETAX) F_PRETAX (fst r))"
    "dw_tax e = fst (row_money (get_val (snd r) F_TAX) F_TAX (fst r))"
    "dw_total e = fst (row_money (get_val (snd r) F_TOTAL) F_TOTAL (fst r))"
    "money_text (dw_amount e) = Inr pretax" "money_text (dw_tax e) = Inr tax" "money_text (dw_total e) = Inr full"
    "voucher_lines_for_source (dw_source e) (dw_allocation e) number
       (row_accounts (dx_account_required_aux x) (dx_account_table x) (dw_rule e)) = Inr (dw_lines e)"
    "\<exists>diff. tail_reason (\<lambda>t. row_reason (fst r) (T_ROW_DIFF @ t)) (tail_diff (dw_amount e) (dw_tax e) (dw_total e))
         = Inr diff
       \<and> dw_reasons e = snd (row_money (get_val (snd r) F_PRETAX) F_PRETAX (fst r))
           @ snd (row_money (get_val (snd r) F_TAX) F_TAX (fst r))
           @ snd (row_money (get_val (snd r) F_TOTAL) F_TOTAL (fst r))
           @ (if clean (get_val (snd r) F_RATE) = [] then [row_reason (fst r) T_RATE_MISSING] else [])
           @ diff @ mapping_reasons (fst r) (dx_account_table x) (dw_resolution e) (dw_rule e)"
  using assms that
  by (cases "row_money (get_val (snd r) F_PRETAX) F_PRETAX (fst r)";
      cases "row_money (get_val (snd r) F_TAX) F_TAX (fst r)";
      cases "row_money (get_val (snd r) F_TOTAL) F_TOTAL (fst r)")
    (auto simp: row_entry_def Let_def res_bind_eq_Inr)

definition group_seller :: "(nat \<times> vdict) list \<Rightarrow> string" where
  "group_seller rs = first_non_empty (map (\<lambda>r. get_val (snd r) F_SELLER) rs)"

definition group_date :: "(nat \<times> vdict) list \<Rightarrow> string" where
  "group_date rs = clean (get_val (case rs of [] \<Rightarrow> [] | r # _ \<Rightarrow> snd r) F_DATE)"

lemma draft_from_group_Inr:
  assumes "draft_from_group x number anchor rs = Inr d"
  obtains entries totals debit credit matched fingerprints h where
    "res_map (row_entry x (source_file_hashes rs (dx_source_dir x)) number (group_seller rs) (group_date rs)) rs
       = Inr entries"
    "tail_reason (\<lambda>t. T_TOTAL_DIFF @ t)
       (tail_diff (dec_sum (map dw_amount entries) dec_zero) (dec_sum (map dw_tax entries) dec_zero)
         (dec_sum (map dw_total entries) dec_zero)) = Inr totals"
    "side_total ''debit'' (concat (map dw_lines entries)) = Inr debit"
    "side_total ''credit'' (concat (map dw_lines entries)) = Inr credit"
    "d = (assembled_draft x number anchor (source_file_hashes rs (dx_source_dir x)) (group_seller rs) (group_date rs)
        entries (group_reasons number rs @ concat (map dw_reasons entries) @ totals)
        (group_reasons number rs @ concat (map dw_reasons entries) @ totals = [] \<and> dec_eq debit credit)
        matched fingerprints)\<lparr>dr_proposal_revision_hash := h\<rparr>"
  using assms that
  by (auto simp: draft_from_group_def group_seller_def group_date_def Let_def res_bind_eq_Inr split: if_splits)

lemma assembled_draft_simps [simp]:
  "dr_source_lines (assembled_draft x number anchor hashes seller day entries reasons ok matched fps) = map dw_source entries"
  "dr_lines (assembled_draft x number anchor hashes seller day entries reasons ok matched fps) = concat (map dw_lines entries)"
  "dr_project_allocations (assembled_draft x number anchor hashes seller day entries reasons ok matched fps) = map dw_allocation entries"
  "dr_balance_ok (assembled_draft x number anchor hashes seller day entries reasons ok matched fps) = ok"
  "dr_review_tier (assembled_draft x number anchor hashes seller day entries reasons ok matched fps) = review_tier_of reasons entries"
  "dr_posting_key (assembled_draft x number anchor hashes seller day entries reasons ok matched fps)
     = posting_key (dx_company_id x) ''purchase_recognition'' (text_or number anchor)"
  "dr_voucher_key (assembled_draft x number anchor hashes seller day entries reasons ok matched fps)
     = posting_key (dx_company_id x) ''purchase_recognition'' (text_or number anchor)"
  "dr_anchor_business_key (assembled_draft x number anchor hashes seller day entries reasons ok matched fps)
     = text_or number anchor"
  "dr_source_file_hashes (assembled_draft x number anchor hashes seller day entries reasons ok matched fps) = hashes"
  "dr_execution_readiness (assembled_draft x number anchor hashes seller day entries reasons ok matched fps)
     = (if review_tier_of reasons entries = ''forced_manual'' then ''blocked'' else ''needs_review'')"
  "dr_company_id (assembled_draft x number anchor hashes seller day entries reasons ok matched fps) = dx_company_id x"
  by (simp_all add: assembled_draft_def new_voucher_draft_def Let_def)

definition source_rows_of :: "voucher_draft \<Rightarrow> int list" where
  "source_rows_of d = map sl_source_row_no (dr_source_lines d)"

lemma draft_source_rows:
  assumes "draft_from_group x number anchor rs = Inr d"
  shows "source_rows_of d = map (\<lambda>r. int (fst r)) rs"
proof -
  from draft_from_group_Inr [OF assms] obtain entries reasons ok matched fps h where
    rows: "res_map (row_entry x (source_file_hashes rs (dx_source_dir x)) number (group_seller rs) (group_date rs)) rs
      = Inr entries"
    and d: "d = (assembled_draft x number anchor (source_file_hashes rs (dx_source_dir x)) (group_seller rs)
      (group_date rs) entries reasons ok matched fps)\<lparr>dr_proposal_revision_hash := h\<rparr>" by metis
  have "sl_source_row_no (dw_source (entries ! i)) = int (fst (rs ! i))" if "i < length rs" for i
    using res_map_Inr_nth [OF rows that] by (rule row_entry_Inr) (simp add: source_line_of_def Let_def)
  with res_map_Inr_length [OF rows] show ?thesis
    by (auto simp: d source_rows_of_def intro!: nth_equalityI)
qed

lemma drafts_of_groups:
  assumes "generate_voucher_drafts rows account_table x = Inr drafts"
  obtains x' where "res_map (draft_of_key x') (group_rows (dx_source_dir x) rows) = Inr drafts"
    "dx_company_id x' = dx_company_id x" "dx_source_dir x' = dx_source_dir x"
    "dx_account_table x' = normalize_account_table account_table"
    "dx_account_required_aux x' = dx_account_required_aux x" "dx_rules x' = dx_rules x"
  using assms that unfolding generate_voucher_drafts_def Let_def by auto

lemma source_rows_of_groups:
  assumes "res_map (draft_of_key x) gs = Inr drafts"
  shows "map source_rows_of drafts = map (\<lambda>g. map (\<lambda>r. int (fst r)) (snd g)) gs"
proof (rule nth_equalityI)
  show "length (map source_rows_of drafts) = length (map (\<lambda>g. map (\<lambda>r. int (fst r)) (snd g)) gs)"
    using res_map_Inr_length [OF assms] by simp
  fix i assume "i < length (map source_rows_of drafts)"
  then have i: "i < length gs" "i < length drafts" using res_map_Inr_length [OF assms] by simp_all
  from res_map_Inr_nth [OF assms i(1)] have "draft_of_key x (gs ! i) = Inr (drafts ! i)" .
  then have "source_rows_of (drafts ! i) = map (\<lambda>r. int (fst r)) (snd (gs ! i))"
    unfolding draft_of_key_def by (rule draft_source_rows)
  with i show "map source_rows_of drafts ! i = map (\<lambda>g. map (\<lambda>r. int (fst r)) (snd g)) gs ! i" by simp
qed

text \<open>C30: No invoice row is lost and none is booked twice: when the drafts of an index of n rows are
  generated, the row numbers of the source lines of all drafts together are 1 to n, each exactly
  once.\<close>

theorem every_row_in_one_draft:
  assumes "generate_voucher_drafts rows account_table x = Inr drafts"
  shows "mset (concat (map source_rows_of drafts)) = mset (map int [1..<length rows + 1])"
proof -
  from drafts_of_groups [OF assms] obtain x' where
    gen: "res_map (draft_of_key x') (group_rows (dx_source_dir x) rows) = Inr drafts" by metis
  have "concat (map source_rows_of drafts) = map (\<lambda>r. int (fst r)) (concat (map snd (group_rows (dx_source_dir x) rows)))"
    by (simp add: source_rows_of_groups [OF gen] map_concat comp_def)
  then have "mset (concat (map source_rows_of drafts))
      = image_mset (\<lambda>r. int (fst r)) (mset (enumerate 1 rows))"
    by (simp only: mset_map mset_grouped group_rows_grouped)
  also have "\<dots> = mset (map int (map fst (enumerate 1 rows)))"
    by (simp only: mset_map multiset.map_comp comp_def)
  finally show ?thesis by simp
qed

section \<open>Posting keys\<close>

lemma last_uchars_Cons:
  assumes "s \<noteq> []"
  shows "last (uchars (c # s)) = last (uchars s) \<or> hd (last (uchars (c # s))) = c"
proof -
  obtain d s' where s: "s = d # s'" using assms by (cases s) auto
  show ?thesis
  proof (cases "cont_byte d")
    case True
    then show ?thesis by (cases "uchars (dropWhile cont_byte s')") (simp_all add: s)
  next
    case False
    then show ?thesis by (simp add: s)
  qed
qed

lemma last_uchars_append:
  "s \<noteq> [] \<Longrightarrow> last (uchars (p @ s)) = last (uchars s) \<or> hd (last (uchars (p @ s))) \<in> set p"
proof (induction p)
  case (Cons c p)
  then show ?case using last_uchars_Cons [of "p @ s" c] by auto
qed simp

lemma uspace_byte: "uspace ch \<Longrightarrow> byte (hd ch) \<le> 32 \<or> 127 \<le> byte (hd ch)"
  by (cases ch) (auto simp: uspace_def)

lemma strip_fixed: "trimmed (uchars s) \<Longrightarrow> strip s = s"
  by (simp add: strip_def strip_trimmed)

lemma trimmed_strip: "strip s = s \<Longrightarrow> trimmed (uchars s)"
  using trimmed_strip_chars [of "uchars s"] by (metis uchars_strip)

lemma uchars_Nil [simp]: "uchars s = [] \<longleftrightarrow> s = []"
  by (cases s) auto

lemma strip_prefixed:
  assumes "strip s = s" "s \<noteq> []" and "solid p" "p \<noteq> []"
  shows "strip (p @ s) = p @ s"
proof (rule strip_fixed)
  have plain: "33 \<le> byte c \<and> byte c < 127" if "c \<in> set p" for c
    using that assms(3) by (auto simp: solid_def list_all_iff)
  from assms(4) obtain c p' where p: "p = c # p'" by (cases p) auto
  have "hd (hd (uchars (p @ s))) = c" by (simp add: p)
  with plain [of c] uspace_byte [of "hd (uchars (p @ s))"] have "\<not> uspace (hd (uchars (p @ s)))"
    by (auto simp: p)
  moreover have "\<not> uspace (last (uchars (p @ s)))"
    using last_uchars_append [OF assms(2), of p] trimmed_strip [OF assms(1)] assms(2) plain
      uspace_byte [of "last (uchars (p @ s))"]
    by (fastforce simp: trimmed_def)
  ultimately show "trimmed (uchars (p @ s))" by (simp add: trimmed_def)
qed

lemma strip_solid: "solid s \<Longrightarrow> strip s = s"
proof (rule strip_fixed)
  assume s: "solid s"
  then have "ascii s" by (auto simp: solid_def ascii_def list_all_iff)
  then have u: "uchars s = map (\<lambda>c. [c]) s" by (rule uchars_ascii)
  have "\<not> uspace [c]" if "c \<in> set s" for c
    using that s uspace_byte [of "[c]"] by (force simp: solid_def list_all_iff)
  with u show "trimmed (uchars s)" by (auto simp: trimmed_def last_map hd_map)
qed

lemma solid_nat_text: "solid (nat_text n)"
  using nat_text_digits [of n] by (auto simp: solid_def list_all_iff is_digit_def simp del: nat_text.simps)

lemma solid_sha256: "solid (sha256 s)"
  using sha256_text [of s] unfolding is_sha256_text_def solid_def
  by (auto simp: list_all_iff is_hex_digit_def is_digit_def)

definition weak_prefixes :: "string list" where
  "weak_prefixes = [''sha256:'', ''path:'', ''row:'']"

lemma weak_anchor_shape:
  "\<exists>p\<in>set weak_prefixes. starts_with p (weak_anchor_of source_dir r)"
  "strip (weak_anchor_of source_dir r) = weak_anchor_of source_dir r"
proof -
  let ?name = "clean (get_val (snd r) F_FILE)"
  have name: "strip ?name = ?name" by (simp add: clean_def)
  have a: "strip (''path:'' @ ?name) = ''path:'' @ ?name" if "?name \<noteq> []"
    using strip_prefixed [OF name that, of "''path:''"] by (simp add: solid_def byte_def)
  have b: "strip (''row:'' @ nat_text (fst r)) = ''row:'' @ nat_text (fst r)"
    using strip_solid [of "''row:'' @ nat_text (fst r)"] solid_nat_text [of "fst r"]
    by (simp add: solid_def byte_def del: nat_text.simps)
  have c: "strip (''sha256:'' @ source_sha256 tree n) = ''sha256:'' @ source_sha256 tree n" for tree n
    using strip_solid [of "''sha256:'' @ source_sha256 tree n"] solid_sha256
    by (auto simp: source_sha256_def solid_def byte_def split: option.splits)
  show "\<exists>p\<in>set weak_prefixes. starts_with p (weak_anchor_of source_dir r)"
    by (auto simp: weak_prefixes_def weak_anchor_of_def weak_evidence_anchor_def Let_def starts_with_def)
  show "strip (weak_anchor_of source_dir r) = weak_anchor_of source_dir r"
    using a b c by (auto simp: weak_anchor_of_def weak_evidence_anchor_def Let_def if_given_def
        simp del: nat_text.simps split: option.splits if_splits)
qed

text \<open>An invoice number that cannot be taken for the anchor of a row without one.\<close>

definition plain_number :: "string \<Rightarrow> bool" where
  "plain_number n \<longleftrightarrow> list_all (\<lambda>p. \<not> starts_with p n) (''weak:'' # weak_prefixes)"

lemma first_non_empty_const:
  assumes "vs \<noteq> []" and "\<forall>v\<in>set vs. clean v = t"
  shows "first_non_empty vs = t"
proof (cases "t = []")
  case True
  with assms(2) have "filter (\<lambda>t. t \<noteq> []) (map clean vs) = []" by (auto simp: filter_empty_conv)
  with True show ?thesis by (simp add: first_non_empty_def)
next
  case False
  with assms show ?thesis by (cases vs) (auto simp: first_non_empty_def)
qed

definition key_anchor :: "string \<Rightarrow> string" where
  "key_anchor k = removeprefix ''weak:'' k"

lemma removeprefix_cases:
  "starts_with p s \<Longrightarrow> p @ removeprefix p s = s" "\<not> starts_with p s \<Longrightarrow> removeprefix p s = s"
  by (simp_all add: removeprefix_def starts_with_def) (metis append_take_drop_id)

lemma group_anchor:
  assumes "(k, rs) \<in> set (grouped (row_key source_dir) irows)"
    and "list_all (\<lambda>r. plain_number (row_invoice_no r)) irows"
  shows "text_or (first_non_empty (map (\<lambda>r. get_val (snd r) F_INVOICE_NO) rs)) (removeprefix ''weak:'' k) = key_anchor k"
    and "\<exists>r. if starts_with ''weak:'' k then key_anchor k = weak_anchor_of source_dir r
      else k = row_invoice_no r \<and> plain_number k \<and> k \<noteq> []"
proof -
  from assms(1) obtain r where rs: "rs = filter (\<lambda>r. row_key source_dir r = k) irows" and r: "r \<in> set rs"
    by (auto simp: grouped_def)
  have plain: "plain_number (row_invoice_no q)" "row_key source_dir q = k" if "q \<in> set rs" for q
    using that assms(2) by (auto simp: rs list_all_iff)
  have num: "row_invoice_no q = (if starts_with ''weak:'' k then [] else k)" if q: "q \<in> set rs" for q
    using plain [OF q] by (auto simp: row_key_def text_or_def plain_number_def starts_with_def split: if_splits)
  have "first_non_empty (map (\<lambda>r. get_val (snd r) F_INVOICE_NO) rs) = (if starts_with ''weak:'' k then [] else k)"
    using r num by (intro first_non_empty_const) (auto simp: row_invoice_no_def)
  moreover have ne: "k \<noteq> []" using plain(2) [OF r] by (auto simp: row_key_def text_or_def split: if_splits)
  ultimately show "text_or (first_non_empty (map (\<lambda>r. get_val (snd r) F_INVOICE_NO) rs)) (removeprefix ''weak:'' k)
      = key_anchor k"
    by (simp add: text_or_def key_anchor_def removeprefix_cases)
  show "\<exists>r. if starts_with ''weak:'' k then key_anchor k = weak_anchor_of source_dir r
      else k = row_invoice_no r \<and> plain_number k \<and> k \<noteq> []"
    using num [OF r] plain [OF r] ne removeprefix_append [of "''weak:''" "weak_anchor_of source_dir r"]
    by (intro exI [of _ r]) (auto simp: key_anchor_def row_key_def text_or_def removeprefix_cases split: if_splits)
qed

definition posting_text :: "voucher_draft \<Rightarrow> string" where
  "posting_text d = join key_separator
     (map strip [dr_company_id d, ''purchase_recognition'', dr_anchor_business_key d])"

lemma draft_of_group_key:
  assumes "draft_of_key x g = Inr d"
  shows "dr_posting_key d = sha256 (posting_text d)" and "dr_company_id d = dx_company_id x"
    and "dr_anchor_business_key d
      = text_or (first_non_empty (map (\<lambda>r. get_val (snd r) F_INVOICE_NO) (snd g))) (removeprefix ''weak:'' (fst g))"
  using assms unfolding draft_of_key_def
  by (auto elim!: draft_from_group_Inr simp: posting_text_def posting_key_def)

lemma anchors_distinct:
  assumes "list_all (\<lambda>r. plain_number (row_invoice_no r)) irows"
    and "(k, rs) \<in> set (grouped (row_key source_dir) irows)" "(k', rs') \<in> set (grouped (row_key source_dir) irows)"
    and "key_anchor k = key_anchor k'"
  shows "k = k'"
proof -
  let ?w = "starts_with ''weak:''"
  note k = group_anchor(2) [OF assms(2,1)] and k' = group_anchor(2) [OF assms(3,1)]
  have differ: "key_anchor a \<noteq> key_anchor b"
    if "\<not> ?w a" "plain_number a" "key_anchor b = weak_anchor_of source_dir r" for a b r
    using that weak_anchor_shape(1) [of source_dir r]
    by (auto simp: key_anchor_def plain_number_def list_all_iff removeprefix_cases)
  consider "?w k" "?w k'" | "?w k" "\<not> ?w k'" | "\<not> ?w k" "?w k'" | "\<not> ?w k" "\<not> ?w k'" by blast
  then show ?thesis
  proof cases
    case 1
    then show ?thesis using assms(4) by (metis key_anchor_def removeprefix_cases(1))
  next
    case 2
    with k k' differ [of k' k] assms(4) show ?thesis by auto
  next
    case 3
    with k k' differ [of k k'] assms(4) show ?thesis by auto
  next
    case 4
    then show ?thesis using assms(4) by (metis key_anchor_def removeprefix_cases(2))
  qed
qed

lemma anchor_stripped:
  assumes "list_all (\<lambda>r. plain_number (row_invoice_no r)) irows"
    and "(k, rs) \<in> set (grouped (row_key source_dir) irows)"
  shows "strip (key_anchor k) = key_anchor k"
  using group_anchor(2) [OF assms(2,1)] weak_anchor_shape(2)
  by (auto simp: key_anchor_def row_invoice_no_def clean_def removeprefix_cases split: if_splits)

text \<open>Drafts do not collide: when no invoice number looks like an evidence anchor, the posting keys of
  the generated drafts are pairwise different, unless two of the texts that they are the SHA-256
  digests of collide. So merging the drafts into the status store gives every group its own voucher.\<close>

theorem draft_keys_differ:
  assumes "generate_voucher_drafts rows account_table x = Inr drafts"
    and "list_all (\<lambda>r. plain_number (row_invoice_no r)) (enumerate 1 rows)"
  shows "distinct (map dr_posting_key drafts)
    \<or> (\<exists>i j. i < j \<and> j < length drafts \<and> sha256_collision (posting_text (drafts ! i)) (posting_text (drafts ! j)))"
proof -
  from drafts_of_groups [OF assms(1)] obtain x' where
    gen: "res_map (draft_of_key x') (grouped (row_key (dx_source_dir x)) (enumerate 1 rows)) = Inr drafts"
    unfolding group_rows_grouped by metis
  let ?gs = "grouped (row_key (dx_source_dir x)) (enumerate 1 rows)"
  note len = res_map_Inr_length [OF gen]
  have anchor: "dr_anchor_business_key (drafts ! i) = key_anchor (fst (?gs ! i))"
    "(fst (?gs ! i), snd (?gs ! i)) \<in> set ?gs" if "i < length drafts" for i
    using draft_of_group_key(3) [OF res_map_Inr_nth [OF gen]] group_anchor(1) [OF _ assms(2)] that len
    by (metis nth_mem prod.collapse)+
  have texts: "posting_text (drafts ! i) \<noteq> posting_text (drafts ! j)"
    if ij: "i < j" "j < length drafts" for i j
  proof
    assume eq: "posting_text (drafts ! i) = posting_text (drafts ! j)"
    have i: "i < length drafts" using ij by simp
    have same: "dr_company_id (drafts ! i) = dr_company_id (drafts ! j)"
      using draft_of_group_key(2) [OF res_map_Inr_nth [OF gen]] i ij(2) len by simp
    have "strip (key_anchor (fst (?gs ! i))) = strip (key_anchor (fst (?gs ! j)))"
      using eq same anchor(1) [OF i] anchor(1) [OF ij(2)] by (simp add: posting_text_def)
    then have "key_anchor (fst (?gs ! i)) = key_anchor (fst (?gs ! j))"
      using anchor_stripped [OF assms(2) anchor(2) [OF i]] anchor_stripped [OF assms(2) anchor(2) [OF ij(2)]] by simp
    then have "fst (?gs ! i) = fst (?gs ! j)"
      using anchors_distinct [OF assms(2) anchor(2) [OF i] anchor(2) [OF ij(2)]] by simp
    moreover have "distinct (map fst ?gs)" by (simp add: grouped_def comp_def)
    ultimately show False using ij len by (auto simp: distinct_conv_nth)
  qed
  show ?thesis
  proof (cases "distinct (map dr_posting_key drafts)")
    case False
    then obtain i j where ij: "i < j" "j < length drafts" "dr_posting_key (drafts ! i) = dr_posting_key (drafts ! j)"
      by (auto simp: distinct_conv_nth) (metis linorder_neqE_nat)
    moreover have "dr_posting_key (drafts ! n) = sha256 (posting_text (drafts ! n))" if "n < length drafts" for n
      using draft_of_group_key(1) [OF res_map_Inr_nth [OF gen]] that len by simp
    ultimately show ?thesis using texts [OF ij(1,2)] by (auto simp: sha256_collision_def)
  qed simp
qed

section \<open>A sample index\<close>

definition sample_row :: vdict where
  "sample_row = [(F_INVOICE_NO, VStr ''1''), (F_SELLER, VStr ''a''), (F_PRETAX, VStr ''100.00''),
     (F_TAX, VStr ''6.00''), (F_TOTAL, VStr ''106.00''), (F_RATE, VStr ''6%''), (F_FILE, VStr ''f'')]"

definition sample_tree :: source_tree where
  "sample_tree = \<lparr>st_root = [''d''], st_resolve = (\<lambda>n. Some [''d'', n]),
     st_content = (\<lambda>p. if p = [''d'', ''f''] then Some ''x'' else None)\<rparr>"

definition sample_draft_context :: draft_context where
  "sample_draft_context = \<lparr>dx_rules = [sample_stored_rule ''manual''], dx_account_table = [],
     dx_rules_version = ''v'', dx_generated_at = [], dx_company_id = ''c'', dx_source_dir = Some sample_tree,
     dx_account_table_sha256 = [], dx_aux_catalog_sha256 = [], dx_ledger_environment = ''test'',
     dx_ledger_identity_sha256 = [], dx_ledger_profile_revision = 1, dx_ledger_profile_sha256 = [],
     dx_account_required_aux = []\<rparr>"

definition sample_account_table :: pyval where
  "sample_account_table = VDict [(''1405'', VStr ''stock''), (''2202'', VStr ''payable'')]"

lemma clean_solid: "solid s \<Longrightarrow> clean (VStr s) = s"
proof -
  assume s: "solid s"
  then have "ascii s" by (auto simp: solid_def ascii_def list_all_iff)
  then have u: "uchars s = map (\<lambda>c. [c]) s" by (rule uchars_ascii)
  have "replace1 a '' '' s = s" if "length a \<noteq> 1" for a
    using that by (intro replace1_absent) (auto simp: u)
  moreover have "length nbsp \<noteq> 1" "length ideographic_space \<noteq> 1" by (simp_all add: cp_def utf8_def)
  ultimately show ?thesis
    using strip_solid [OF s] by (cases "s = []") (simp_all add: clean_def str_or_empty_def)
qed

lemma sample_get:
  "get_val sample_row F_INVOICE_NO = VStr ''1''" "get_val sample_row F_SELLER = VStr ''a''"
  "get_val sample_row F_RATE = VStr ''6%''" "get_val sample_row F_PRETAX = VStr ''100.00''"
  "get_val sample_row F_TAX = VStr ''6.00''" "get_val sample_row F_TOTAL = VStr ''106.00''"
  "get_val sample_row F_FILE = VStr ''f''"
  "k \<in> {F_DATE, F_PROJECT, F_INVOICE_CODE, F_ITEM, F_REMARK_ITEM, F_MODEL, F_QUANTITY, F_UNIT}
    \<Longrightarrow> get_val sample_row k = VNone"
  by (auto simp: sample_row_def get_val_def row_field_defs)

lemma clean_VNone [simp]: "clean VNone = []"
  by (simp add: clean_def str_or_empty_def replace1_def)

lemma sample_cells:
  "clean (VStr ''1'') = ''1''" "clean (VStr ''f'') = ''f''"
  "clean (VStr ''a'') = ''a''" "clean (VStr ''6%'') = ''6%''"
  "clean (VStr ''100.00'') = ''100.00''" "clean (VStr ''6.00'') = ''6.00''" "clean (VStr ''106.00'') = ''106.00''"
  "row_item sample_row = []"
  by (simp_all add: clean_solid solid_def byte_def row_item_def sample_get first_non_empty_def)

lemma sample_amounts:
  "is_amount ''100.00''" "is_amount ''6.00''" "is_amount ''106.00''"
  by (simp_all add: is_amount_def ascii_def byte_def is_digit_def)

lemma sample_decimals:
  "parse_decimal ''100.00'' = Some (Fin False 10000 (-2))" "parse_decimal ''6.00'' = Some (Fin False 600 (-2))"
  "parse_decimal ''106.00'' = Some (Fin False 10600 (-2))"
  by code_simp+

lemma sample_formats:
  "format_f (Fin False 10000 (-2)) = ''100.00''" "format_f (Fin False 600 (-2)) = ''6.00''"
  "format_f (Fin False 10600 (-2)) = ''106.00''"
proof -
  have "digit_char 0 = CHR ''0''" "digit_char 1 = CHR ''1''" "digit_char 6 = CHR ''6''" by code_simp+
  then have "nat_text 10000 = ''10000''" "nat_text 600 = ''600''" "nat_text 10600 = ''10600''"
    by (simp_all add: nat_text.simps)
  then show "format_f (Fin False 10000 (-2)) = ''100.00''" "format_f (Fin False 600 (-2)) = ''6.00''"
    "format_f (Fin False 10600 (-2)) = ''106.00''"
    by (simp_all add: format_digits_def pad_left_def)
qed

lemma plain_amount_ascii:
  assumes "ascii s" and "CHR '','' \<notin> set s" and "clean v = s"
  shows "plain_amount v = s"
proof -
  have "replace1 a [] s = s" if "a = '','' \<or> length a \<noteq> 1" for a
    using assms that by (intro replace1_absent) (auto simp: uchars_ascii)
  then show ?thesis using assms(3) by (simp add: plain_amount_def YEN_def FULL_YEN_def)
qed

lemma index_money:
  "row_money (VStr ''100.00'') f i = (Fin False 10000 (-2), [])"
  "row_money (VStr ''6.00'') f i = (Fin False 600 (-2), [])"
  "row_money (VStr ''106.00'') f i = (Fin False 10600 (-2), [])"
  by (simp_all add: row_money_def plain_amount_ascii [OF _ _ sample_cells(5)] plain_amount_ascii [OF _ _ sample_cells(6)]
      plain_amount_ascii [OF _ _ sample_cells(7)] sample_amounts sample_decimals ascii_def byte_def scale_to_def dint_def)

lemma sample_money_text:
  "money_text (Fin False 10000 (-2)) = Inr ''100.00''" "money_text (Fin False 600 (-2)) = Inr ''6.00''"
  "money_text (Fin False 10600 (-2)) = Inr ''106.00''"
  by (simp_all add: money_text_def sample_formats prec_bound_def del: format_f.simps)

lemma sample_line_amounts:
  "as_decimal ''100.00'' = Inr (Fin False 10000 (-2))" "as_decimal ''6.00'' = Inr (Fin False 600 (-2))"
  "as_decimal ''106.00'' = Inr (Fin False 10600 (-2))"
  by (simp_all add: as_decimal_def text_or_def decimal_res_def sample_decimals)

lemma sample_tail: "tail_reason f (tail_diff (Fin False 10000 (-2)) (Fin False 600 (-2)) (Fin False 10600 (-2))) = Inr []"
  by (simp add: tail_reason_def tail_diff_def TAIL_DIFF_LIMIT_def dec_sub_def fix_prec_def prec_bound_def scale_to_def dint_def)

text \<open>The row resolves to the stored rule.\<close>

lemma sample_resolution:
  "\<exists>r. resolve_account_mapping [sample_stored_rule ''manual''] l sample_context = Inr (r, Some (sample_stored_rule ''manual''))
     \<and> rr_outcome r = ''matched''"
proof -
  have A: "applicable [sample_stored_rule ''manual''] sample_context [] = {sample_stored_rule ''manual''}"
    using sample_applies by (auto simp: applicable_def)
  obtain r m where *: "resolve_account_mapping [sample_stored_rule ''manual''] l sample_context = Inr (r, m)"
    "case m of Some q \<Rightarrow> rr_outcome r = ''matched'' \<and> preferred {sample_stored_rule ''manual''} q
     | None \<Rightarrow> contested {sample_stored_rule ''manual''}"
    using resolution_outcome [OF sample_stored_rule(2) sample_date, of "''manual''" l, unfolded A]
    by (fastforce split: option.splits)
  moreover have "\<not> contested {sample_stored_rule ''manual''}" by (auto simp: contested_def)
  ultimately show ?thesis by (cases m) (auto simp: preferred_def)
qed

lemma sample_accounts:
  "normalize_account_table sample_account_table = [(''1405'', ''stock''), (''2202'', ''payable'')]"
  by (simp add: sample_account_table_def get_val_def put_account_def str_or_empty_def strip_solid solid_def byte_def)

lemma sample_missing:
  "missing_rule_accounts (sample_stored_rule ''manual'') [(''1405'', ''stock''), (''2202'', ''payable'')] = []"
  by (simp add: missing_rule_accounts_def missing_account_def sample_stored_rule_def with_scope_def sample_rule_def
      strip_solid solid_def byte_def dhas_def)

lemma sample_lines:
  assumes "sl_pretax_amount source = ''100.00''" "sl_tax_amount source = ''6.00''" "sl_total_amount source = ''106.00''"
  shows "\<exists>ls. voucher_lines_for_source source allocation number la = Inr ls
    \<and> map vl_direction ls = [''debit'', ''debit'', ''credit''] \<and> map vl_amount ls = [''100.00'', ''6.00'', ''106.00'']"
  using assms
  by (simp add: voucher_lines_for_source_def sample_line_amounts source_voucher_line_def sample_money_text Let_def
      scale_to_def dint_def)

definition sample_entry_ok :: "draft_row \<Rightarrow> bool" where
  "sample_entry_ok e \<longleftrightarrow> dw_amount e = Fin False 10000 (-2) \<and> dw_tax e = Fin False 600 (-2)
     \<and> dw_total e = Fin False 10600 (-2) \<and> dw_reasons e = [] \<and> dw_rule e = Some (sample_stored_rule ''manual'')
     \<and> map vl_direction (dw_lines e) = [''debit'', ''debit'', ''credit'']
     \<and> map vl_amount (dw_lines e) = [''100.00'', ''6.00'', ''106.00'']"

lemma row_entry_intro:
  assumes "row_money (get_val row F_PRETAX) F_PRETAX index = (a, ra)" "row_money (get_val row F_TAX) F_TAX index = (t, rt)"
    "row_money (get_val row F_TOTAL) F_TOTAL index = (f, rf)"
    and "tail_reason (\<lambda>t. row_reason index (T_ROW_DIFF @ t)) (tail_diff a t f) = Inr diff"
    and "money_text a = Inr pt" "money_text t = Inr tt" "money_text f = Inr ft"
    and "source = source_line_of hashes number seller index row pt tt ft"
    and "resolve_account_mapping (dx_rules x) (sl_source_line_id source)
       \<lparr>mc_seller = seller, mc_internal_project = sl_project_name source, mc_source_type = ''purchase_invoice'',
        mc_item = sl_item_name source, mc_effective_date = day\<rparr> = Inr (r, m)"
    and "voucher_lines_for_source source (allocation_of_source source) number
       (row_accounts (dx_account_required_aux x) (dx_account_table x) m) = Inr ls"
  shows "row_entry x hashes number seller day (index, row) = Inr
    \<lparr>dw_amount = a, dw_tax = t, dw_total = f, dw_marker = row_marker index row, dw_source = source,
     dw_allocation = allocation_of_source source, dw_resolution = r, dw_rule = m, dw_lines = ls,
     dw_reasons = ra @ rt @ rf @ (if clean (get_val row F_RATE) = [] then [row_reason index T_RATE_MISSING] else [])
       @ diff @ mapping_reasons index (dx_account_table x) r m\<rparr>"
  using assms(9,10) by (simp add: row_entry_def Let_def assms(1-7) assms(8) [symmetric])

lemma sample_row_entry:
  assumes "dx_rules x = [sample_stored_rule ''manual'']"
    and "dx_account_table x = [(''1405'', ''stock''), (''2202'', ''payable'')]"
  shows "\<exists>e. row_entry x hashes ''1'' ''a'' [] (1, sample_row) = Inr e \<and> sample_entry_ok e
    \<and> dw_source e = source_line_of hashes ''1'' ''a'' 1 sample_row ''100.00'' ''6.00'' ''106.00''"
proof -
  let ?s = "source_line_of hashes ''1'' ''a'' 1 sample_row ''100.00'' ''6.00'' ''106.00''"
  have s: "sl_project_name ?s = []" "sl_item_name ?s = []" "sl_pretax_amount ?s = ''100.00''"
    "sl_tax_amount ?s = ''6.00''" "sl_total_amount ?s = ''106.00''"
    by (simp_all add: source_line_of_def Let_def sample_get sample_cells)
  from sample_resolution [of "sl_source_line_id ?s"] obtain r where
    r: "resolve_account_mapping [sample_stored_rule ''manual''] (sl_source_line_id ?s) sample_context
       = Inr (r, Some (sample_stored_rule ''manual''))" "rr_outcome r = ''matched''" by (elim exE conjE)
  note res = r(1) [unfolded sample_context_def]
  let ?la = "row_accounts (dx_account_required_aux x) (dx_account_table x) (Some (sample_stored_rule ''manual''))"
  from sample_lines [OF s(3-5), of "allocation_of_source ?s" "''1''" ?la] obtain ls where
    ls: "voucher_lines_for_source ?s (allocation_of_source ?s) ''1'' ?la = Inr ls"
    "map vl_direction ls = [''debit'', ''debit'', ''credit'']" "map vl_amount ls = [''100.00'', ''6.00'', ''106.00'']"
    by (elim exE conjE)
  have rm: "row_money (get_val sample_row F_PRETAX) F_PRETAX 1 = (Fin False 10000 (-2), [])"
    "row_money (get_val sample_row F_TAX) F_TAX 1 = (Fin False 600 (-2), [])"
    "row_money (get_val sample_row F_TOTAL) F_TOTAL 1 = (Fin False 10600 (-2), [])"
    by (simp_all only: sample_get index_money)
  note entry = row_entry_intro [OF rm sample_tail sample_money_text refl,
      where hashes = hashes and number = "''1''" and seller = "''a''" and x = x and day = "[]",
      unfolded s(1,2) assms(1), OF res ls(1)]
  show ?thesis
    by (rule exI, rule conjI, rule entry)
      (simp add: sample_entry_ok_def ls sample_get sample_cells mapping_reasons_def r sample_missing assms)
qed

lemma draft_from_group_intro:
  assumes "res_map (row_entry x (source_file_hashes rs (dx_source_dir x)) number (group_seller rs) (group_date rs)) rs
      = Inr entries"
    and "tail_reason (\<lambda>t. T_TOTAL_DIFF @ t)
       (tail_diff (dec_sum (map dw_amount entries) dec_zero) (dec_sum (map dw_tax entries) dec_zero)
         (dec_sum (map dw_total entries) dec_zero)) = Inr totals"
    and "side_total ''debit'' (concat (map dw_lines entries)) = Inr debit"
    and "side_total ''credit'' (concat (map dw_lines entries)) = Inr credit"
    and "matched = unique_rules (concat (map (\<lambda>e. case dw_rule e of None \<Rightarrow> [] | Some r \<Rightarrow> [r]) entries))"
    and "res_map mapping_rule_fingerprint matched = Inr fingerprints"
    and "dx_ledger_environment x \<in> {''production'', ''test'', []}"
  shows "\<exists>h. draft_from_group x number anchor rs
    = Inr ((assembled_draft x number anchor (source_file_hashes rs (dx_source_dir x)) (group_seller rs) (group_date rs)
        entries (group_reasons number rs @ concat (map dw_reasons entries) @ totals)
        (group_reasons number rs @ concat (map dw_reasons entries) @ totals = [] \<and> dec_eq debit credit)
        matched fingerprints)\<lparr>dr_proposal_revision_hash := h\<rparr>)"
proof -
  let ?reasons = "group_reasons number rs @ concat (map dw_reasons entries) @ totals"
  let ?d = "assembled_draft x number anchor (source_file_hashes rs (dx_source_dir x)) (group_seller rs) (group_date rs)
    entries ?reasons (?reasons = [] \<and> dec_eq debit credit) matched fingerprints"
  obtain h where h: "proposal_revision_hash (dump_voucher_draft ?d) = Inr h"
    using hashable_total [OF hashable_dump_voucher_draft, of ?d] by (elim exE)
  have "draft_from_group x number anchor rs = Inr (?d\<lparr>dr_proposal_revision_hash := h\<rparr>)"
    unfolding draft_from_group_def group_seller_def [symmetric] group_date_def [symmetric] Let_def
    by (simp only: assms(1-4) assms(5) [symmetric] assms(6) res_bind_simps h if_False not_False_eq_True
        assms(7) simp_thms)
  then show ?thesis by (rule exI)
qed

lemma sample_index:
  "\<exists>d s. generate_voucher_drafts [sample_row] sample_account_table sample_draft_context = Inr [d]
     \<and> dr_review_tier d = ''auto'' \<and> dr_balance_ok d
     \<and> map vl_direction (dr_lines d) = [''debit'', ''debit'', ''credit'']
     \<and> map vl_amount (dr_lines d) = [''100.00'', ''6.00'', ''106.00'']
     \<and> dr_source_lines d = [s] \<and> sl_source_file_sha256 s = sha256 ''x''"
proof -
  let ?x = "sample_draft_context\<lparr>dx_account_table := [(''1405'', ''stock''), (''2202'', ''payable'')],
    dx_account_table_sha256 := canonical_sha256 (VDict (text_items [(''1405'', ''stock''), (''2202'', ''payable'')]))\<rparr>"
  have x: "dx_rules ?x = [sample_stored_rule ''manual'']"
    "dx_account_table ?x = [(''1405'', ''stock''), (''2202'', ''payable'')]" "dx_source_dir ?x = Some sample_tree"
    "dx_ledger_environment ?x = ''test''"
    by (simp_all add: sample_draft_context_def)
  let ?h = "[(''f'', sha256 ''x'')]"
  from sample_row_entry [OF x(1,2), of ?h] obtain e where
    e: "row_entry ?x ?h ''1'' ''a'' [] (1, sample_row) = Inr e" "sample_entry_ok e"
    and src: "dw_source e = source_line_of ?h ''1'' ''a'' 1 sample_row ''100.00'' ''6.00'' ''106.00''" by (elim exE conjE)
  let ?rs = "[(1::nat, sample_row)]"
  have group: "source_file_hashes ?rs (Some sample_tree) = ?h" "group_seller ?rs = ''a''" "group_date ?rs = []" "group_reasons ''1'' ?rs = []"
    by (simp_all add: source_file_hashes_def group_seller_def group_date_def first_non_empty_def group_reasons_def
        group_sellers_def sample_get sample_cells dedup_def add_new_def source_sha256_def source_path_within_def sample_tree_def)
  have rows: "res_map (row_entry ?x (source_file_hashes ?rs (dx_source_dir ?x)) ''1'' (group_seller ?rs) (group_date ?rs)) ?rs
      = Inr [e]"
    unfolding x(3) group by (simp only: e res_map.simps res_bind_simps)
  have e': "dw_amount e = Fin False 10000 (-2)" "dw_tax e = Fin False 600 (-2)" "dw_total e = Fin False 10600 (-2)"
    "dw_reasons e = []" "dw_rule e = Some (sample_stored_rule ''manual'')"
    using e(2) by (simp_all add: sample_entry_ok_def)
  have sums: "dec_sum (map dw_amount [e]) dec_zero = Fin False 10000 (-2)" "dec_sum (map dw_tax [e]) dec_zero = Fin False 600 (-2)"
    "dec_sum (map dw_total [e]) dec_zero = Fin False 10600 (-2)"
    by (simp_all add: e' dec_sum_def scale_to_def dint_def fix_prec_def prec_bound_def)
  obtain a b c where abc: "dw_lines e = [a, b, c]" using e(2) by (auto simp: sample_entry_ok_def map_eq_Cons_conv)
  with e(2) have "vl_direction a = ''debit''" "vl_direction b = ''debit''" "vl_direction c = ''credit''"
    "vl_amount a = ''100.00''" "vl_amount b = ''6.00''" "vl_amount c = ''106.00''"
    by (simp_all add: sample_entry_ok_def)
  note parts = this
  then have totals: "side_total ''debit'' (concat (map dw_lines [e])) = Inr (Fin False 10600 (-2))"
    "side_total ''credit'' (concat (map dw_lines [e])) = Inr (Fin False 10600 (-2))"
    by (simp_all add: side_total_def abc sample_line_amounts dec_sum_def scale_to_def dint_def fix_prec_def prec_bound_def)
  have m: "[sample_stored_rule ''manual''] = unique_rules (concat (map (\<lambda>e. case dw_rule e of None \<Rightarrow> [] | Some r \<Rightarrow> [r]) [e]))"
    by (simp add: e' unique_rules_def)
  obtain fp where fp: "res_map mapping_rule_fingerprint [sample_stored_rule ''manual''] = Inr [fp]"
    using fingerprint_normal [of "sample_stored_rule ''manual''"] normalized_rules_normal(1) [OF sample_stored_rule(2)]
    by auto
  from draft_from_group_intro [OF rows _ totals m fp, of "[]" "''1''"]
  obtain d where d: "draft_from_group ?x ''1'' ''1'' ?rs = Inr d" "dr_review_tier d = ''auto''" "dr_balance_ok d"
    "map vl_direction (dr_lines d) = [''debit'', ''debit'', ''credit'']"
    "map vl_amount (dr_lines d) = [''100.00'', ''6.00'', ''106.00'']" "dr_source_lines d = [dw_source e]"
    unfolding sums sample_tail group x
    by (auto simp: e' review_tier_of_def dec_eq_refl abc parts)
  have gs: "group_rows (dx_source_dir ?x) [sample_row] = [(''1'', ?rs)]"
    by (simp add: group_rows_grouped grouped_def row_key_def row_invoice_no_def sample_get sample_cells text_or_def
        dedup_def add_new_def)
  have "draft_of_key ?x (''1'', ?rs) = Inr d"
    using d(1) by (simp add: draft_of_key_def sample_get first_non_empty_def sample_cells removeprefix_def starts_with_def)
  moreover have "sl_source_file_sha256 (dw_source e) = sha256 ''x''"
    by (simp add: src source_line_of_def Let_def sample_get sample_cells if_given_def)
  ultimately show ?thesis using gs d(2-6)
    by (simp add: generate_voucher_drafts_def sample_accounts text_or_def sample_draft_context_def Let_def)
qed

theorem every_row_in_one_draft_witness:
  "\<exists>drafts. generate_voucher_drafts [sample_row] sample_account_table sample_draft_context = Inr drafts
     \<and> mset (concat (map source_rows_of drafts)) = {#1#}"
proof -
  from sample_index obtain d where
    "generate_voucher_drafts [sample_row] sample_account_table sample_draft_context = Inr [d]" by (elim exE conjE)
  with every_row_in_one_draft [OF this] show ?thesis by simp
qed

theorem draft_keys_differ_witness:
  "\<exists>drafts. generate_voucher_drafts [sample_row] sample_account_table sample_draft_context = Inr drafts
     \<and> (distinct (map dr_posting_key drafts)
       \<or> (\<exists>i j. i < j \<and> j < length drafts \<and> sha256_collision (posting_text (drafts ! i)) (posting_text (drafts ! j))))"
proof -
  from sample_index obtain d where
    "generate_voucher_drafts [sample_row] sample_account_table sample_draft_context = Inr [d]" by (elim exE conjE)
  moreover have "list_all (\<lambda>r. plain_number (row_invoice_no r)) (enumerate 1 [sample_row])"
    by (simp add: row_invoice_no_def sample_get sample_cells plain_number_def weak_prefixes_def starts_with_def)
  ultimately show ?thesis using draft_keys_differ by blast
qed

end
