(* ===== verification/Cent_Arithmetic.thy ===== *)
theory Cent_Arithmetic
  imports Py_Decimal
begin

text \<open>
  Decimal arithmetic on whole cents is exact: adding or summing amounts of whole cents gives the
  exact sum as long as it stays below \<open>10 ^ 26\<close>, however many trailing zeros the operands were
  written with. The context precision is 28 digits, and a result of whole cents below that bound has
  at most 28 significant digits.
\<close>

section \<open>Rounding to the precision\<close>

lemma nat_text_length: "length (nat_text n) = (if n < 10 then 1 else Suc (length (nat_text (n div 10))))"
  by (subst nat_text.simps) simp

lemma nat_text_upper: "n < 10 ^ length (nat_text n)"
proof (induction n rule: nat_text.induct)
  case (1 n)
  show ?case
  proof (cases "n < 10")
    case False
    with 1 have "n div 10 < 10 ^ length (nat_text (n div 10))" by blast
    then have "n < 10 * 10 ^ length (nat_text (n div 10))" by linarith
    then show ?thesis using False by (subst nat_text_length) simp
  qed (subst nat_text_length, simp)
qed

lemma nat_text_lower: "0 < n \<Longrightarrow> 10 ^ (length (nat_text n) - 1) \<le> n"
proof (induction n rule: nat_text.induct)
  case (1 n)
  show ?case
  proof (cases "n < 10")
    case True
    then show ?thesis using 1 by (subst nat_text_length) simp
  next
    case False
    with 1 have ih: "10 ^ (length (nat_text (n div 10)) - 1) \<le> n div 10" by simp
    have "length (nat_text (n div 10)) \<noteq> 0" using nat_text_digits by simp
    then have "(10::nat) ^ length (nat_text (n div 10)) = 10 * 10 ^ (length (nat_text (n div 10)) - 1)"
      by (metis power_eq_if)
    then show ?thesis using False ih by (subst nat_text_length) simp
  qed
qed

lemma fix_prec_exact:
  assumes "c = q * 10 ^ j" and "q < prec_bound"
  shows "\<exists>c' e'. fix_prec s c e = Fin s c' e' \<and> (of_nat c' :: rat) * 10 powi e' = of_nat c * 10 powi e"
proof (cases "c < prec_bound")
  case True
  then show ?thesis by (simp add: fix_prec_def)
next
  case False
  define len where "len = length (nat_text c)"
  define k where "k = len - 28"
  have "10 ^ 28 \<le> c" using False by (simp add: prec_bound_def)
  then have "(10::nat) ^ 28 < 10 ^ len" using nat_text_upper [of c] unfolding len_def by (rule le_less_trans)
  then have len: "28 < len" by (rule power_less_imp_less_exp [rotated]) simp
  have "0 < c" using \<open>10 ^ 28 \<le> c\<close> by simp
  then have "10 ^ (len - 1) \<le> q * 10 ^ j" using nat_text_lower [of c] assms(1) by (simp add: len_def)
  also have "\<dots> < 10 ^ 28 * 10 ^ j" using assms(2) by (simp add: prec_bound_def)
  also have "\<dots> = (10::nat) ^ (28 + j)" by (simp only: power_add)
  finally have "len - 1 < 28 + j" by (rule power_less_imp_less_exp [rotated]) simp
  then have kj: "k \<le> j" using len by (simp add: k_def)
  then have j: "(10::nat) ^ j = 10 ^ (j - k) * 10 ^ k" by (simp flip: power_add)
  have c: "c = q * 10 ^ (j - k) * 10 ^ k" using assms(1) j by simp
  have "c < 10 ^ len" using nat_text_upper [of c] by (simp add: len_def)
  also have "(10::nat) ^ len = 10 ^ 28 * 10 ^ k" using len by (simp only: k_def flip: power_add) simp
  finally have "q * 10 ^ (j - k) * 10 ^ k < 10 ^ 28 * 10 ^ k" using c by simp
  then have q': "q * 10 ^ (j - k) < prec_bound" unfolding prec_bound_def by (simp only: mult_less_cancel2)
  have "round_half_even c k = q * 10 ^ (j - k)"
    unfolding round_half_even_def c by simp
  then have f: "fix_prec s c e = Fin s (q * 10 ^ (j - k)) (e + int k)"
    using False q' by (simp add: fix_prec_def Let_def k_def len_def)
  have "(10::rat) powi (e + int k) = 10 powi e * 10 ^ k" by (simp add: power_int_add)
  then have "of_nat (q * 10 ^ (j - k)) * 10 powi (e + int k) = (of_nat c :: rat) * 10 powi e"
    using arg_cong [OF c, of "of_nat :: nat \<Rightarrow> rat"] by simp
  with f show ?thesis by blast
qed

section \<open>Adding cents\<close>

lemma whole_centsE:
  assumes "whole_cents d"
  obtains s c e n where "d = Fin s c e" "dval d * 100 = of_int n"
  using assms unfolding whole_cents_def by (cases d) auto

definition small :: "rat \<Rightarrow> bool" where
  "small r \<longleftrightarrow> \<bar>r\<bar> < 10 ^ 26"

lemma cents_coefficient:
  assumes "of_int v * 10 powi m * 100 = (of_int n :: rat)" and "\<bar>n\<bar> < 10 ^ 28"
  shows "\<exists>q j. nat \<bar>v\<bar> = q * 10 ^ j \<and> q < prec_bound"
proof (cases "m \<le> -2")
  case True
  define j where "j = nat (-2 - m)"
  have "(10::rat) powi (-2) = 10 ^ j * 10 powi m" using True ten_powi [of m "-2"] by (simp add: j_def)
  then have one: "(10::rat) powi m * 100 * 10 ^ j = 1" by (simp add: power_int_minus ac_simps)
  have "(of_int v :: rat) = of_int v * (10 powi m * 100 * 10 ^ j)" unfolding one by simp
  also have "\<dots> = of_int v * 10 powi m * 100 * 10 ^ j" by (simp only: mult.assoc)
  also have "\<dots> = of_int n * 10 ^ j" by (simp only: assms(1))
  finally have "(of_int v :: rat) = of_int n * 10 ^ j" .
  then have "v = n * 10 ^ j" by (metis of_int_eq_iff of_int_mult of_int_numeral of_int_power)
  then have "nat \<bar>v\<bar> = nat \<bar>n\<bar> * 10 ^ j" by (simp add: abs_mult nat_mult_distrib nat_power_eq)
  moreover have "nat \<bar>n\<bar> < prec_bound" using assms(2) by (simp add: prec_bound_def nat_less_iff)
  ultimately show ?thesis by blast
next
  case False
  define j where "j = nat (m + 2)"
  have "(10::rat) powi m = 10 ^ j * 10 powi (-2)" using False ten_powi [of "-2" m] by (simp add: j_def)
  then have ten: "(10::rat) powi m * 100 = 10 ^ j" by (simp add: power_int_minus)
  have "(of_int v :: rat) * (10 powi m * 100) = of_int n" using assms(1) by (simp only: mult.assoc)
  then have "(of_int v :: rat) * 10 ^ j = of_int n" by (simp only: ten)
  then have "v * 10 ^ j = n" by (metis of_int_eq_iff of_int_mult of_int_numeral of_int_power)
  moreover have "\<bar>v\<bar> * 1 \<le> \<bar>v\<bar> * 10 ^ j" by (rule mult_left_mono) simp_all
  ultimately have "\<bar>v\<bar> < 10 ^ 28" using assms(2) by (simp add: abs_mult)
  then have "nat \<bar>v\<bar> < prec_bound" by (simp add: prec_bound_def nat_less_iff)
  then show ?thesis by (intro exI [of _ "nat \<bar>v\<bar>"] exI [of _ 0]) simp
qed

lemma dec_add_cents:
  assumes "whole_cents a" and "whole_cents b" and "small (dval a + dval b)"
  shows "dval (dec_add a b) = dval a + dval b" and "whole_cents (dec_add a b)"
proof -
  obtain s c e n where a: "a = Fin s c e" "dval a * 100 = of_int n" using assms(1) by (rule whole_centsE)
  obtain s' c' e' n' where b: "b = Fin s' c' e'" "dval b * 100 = of_int n'" using assms(2) by (rule whole_centsE)
  let ?m = "min e e'"
  let ?v = "scale_to ?m s c e + scale_to ?m s' c' e'"
  have v: "of_int ?v * 10 powi ?m = dval a + dval b"
    using scale_to_val [of ?m e s c] scale_to_val [of ?m e' s' c'] a(1) b(1)
    by (simp add: distrib_right del: dval.simps)
  then have n: "of_int ?v * 10 powi ?m * 100 = (of_int (n + n') :: rat)"
    using a(2) b(2) by (simp add: algebra_simps del: dval.simps)
  have "(of_int \<bar>n + n'\<bar> :: rat) = \<bar>dval a + dval b\<bar> * 100"
    using n v by (metis abs_mult abs_numeral of_int_abs)
  then have "(of_int \<bar>n + n'\<bar> :: rat) < of_int (10 ^ 28)" using assms(3) by (simp add: small_def)
  then have "\<bar>n + n'\<bar> < 10 ^ 28" by (simp only: of_int_less_iff)
  from cents_coefficient [OF n this] obtain q j where qj: "nat \<bar>?v\<bar> = q * 10 ^ j" "q < prec_bound" by blast
  let ?s = "if ?v = 0 then s \<and> s' else ?v < 0"
  obtain c'' e'' where f: "fix_prec ?s (nat \<bar>?v\<bar>) ?m = Fin ?s c'' e''"
    and val: "(of_nat c'' :: rat) * 10 powi e'' = of_nat (nat \<bar>?v\<bar>) * 10 powi ?m"
    using fix_prec_exact [OF qj] by blast
  have d: "dec_add a b = Fin ?s c'' e''" using f by (simp add: a(1) b(1) Let_def)
  have "dval (Fin ?s c'' e'') = (if ?s then - 1 else 1) * (of_nat c'' * 10 powi e'')"
    by (simp add: dint_def)
  also have "\<dots> = of_int ?v * 10 powi ?m" unfolding val by auto
  finally show *: "dval (dec_add a b) = dval a + dval b" using v d by simp
  have "dval (dec_add a b) * 100 = of_int (n + n')" using * n v by simp
  moreover have "is_finite (dec_add a b)" unfolding d by (simp only: is_finite.simps)
  ultimately show "whole_cents (dec_add a b)" unfolding whole_cents_def by blast
qed

lemma whole_cents_zero [simp]: "whole_cents dec_zero" "dval dec_zero = 0"
  by (auto simp: whole_cents_def dint_def intro: exI [of _ 0])

lemma dec_sum_cents:
  assumes "list_all whole_cents ds" and "list_all (\<lambda>d. 0 \<le> dval d) ds" and "whole_cents s" "0 \<le> dval s"
    and "small (dval s + sum_list (map dval ds))"
  shows "dval (dec_sum ds s) = dval s + sum_list (map dval ds) \<and> whole_cents (dec_sum ds s)"
  using assms
proof (induction ds arbitrary: s)
  case (Cons d ds)
  have nn: "0 \<le> sum_list (map dval ds)"
    using Cons.prems(2) by (intro sum_list_nonneg) (auto simp: list_all_iff)
  have sm: "small (dval s + dval d)"
    using Cons.prems nn by (simp add: small_def)
  have d: "dval (dec_add s d) = dval s + dval d" "whole_cents (dec_add s d)"
    using dec_add_cents [of s d] Cons.prems sm by auto
  have "dval (dec_sum ds (dec_add s d)) = dval (dec_add s d) + sum_list (map dval ds)
      \<and> whole_cents (dec_sum ds (dec_add s d))"
    using Cons.prems d by (intro Cons.IH) (simp_all add: add.assoc)
  then show ?case using d(1) by (simp add: dec_sum_def)
qed (simp add: dec_sum_def)

section \<open>Printed amounts\<close>

text \<open>The value of an amount text.\<close>

definition amount_value :: "string \<Rightarrow> rat" where
  "amount_value s = (case parse_decimal s of None \<Rightarrow> 0 | Some d \<Rightarrow> dval d)"

lemma digits_val_zeros: "digits_val (s @ replicate n CHR ''0'') = digits_val s * 10 ^ n"
proof (induction n)
  case (Suc n)
  have "s @ replicate (Suc n) CHR ''0'' = (s @ replicate n CHR ''0'') @ [CHR ''0'']"
    by (simp add: replicate_append_same)
  then show ?case using Suc by (simp only: digits_val_snoc) (simp add: digit_val_def byte_def)
qed simp

lemma parse_digits:
  assumes "list_all is_digit i" and "i \<noteq> []"
  shows "parse_decimal ((if s then ''-'' else []) @ i) = Some (Fin s (digits_val i) 0)"
proof -
  have "list_all money_char ((if s then ''-'' else []) @ i)"
    using assms(1) by (auto simp: list_all_iff money_char_def)
  note clean = strip_money [OF this]
  obtain x xs where x: "i = x # xs" "is_digit x" using assms by (cases i) auto
  then have "x \<noteq> CHR ''-''" "x \<noteq> CHR ''+''" by (auto simp: is_digit_def byte_def)
  with clean parse_unsigned_int [OF assms, of s] x show ?thesis
    by (cases s) (simp_all add: parse_decimal_def)
qed

lemma parse_format_f_value:
  assumes "is_finite d"
  shows "\<exists>s c e c' e'. d = Fin s c e \<and> parse_decimal (format_f d) = Some (Fin s c' e') \<and> e' = min e 0
    \<and> c' = c * 10 ^ nat e"
proof -
  obtain s c e where d: "d = Fin s c e" using assms by (cases d) auto
  show ?thesis
  proof (cases "e \<le> 0")
    case True
    then show ?thesis using parse_format_f [of e s c] d by auto
  next
    case False
    let ?i = "if c = 0 then ''0'' else nat_text c @ replicate (nat e) CHR ''0''"
    have i: "format_digits c e = ?i" using False by (simp add: format_digits_def)
    have "list_all is_digit ?i" "?i \<noteq> []" using nat_text_digits [of c] by (auto simp: list_all_iff)
    from parse_digits [OF this, of s] have "parse_decimal (format_f d) = Some (Fin s (digits_val ?i) 0)"
      by (simp only: d format_f.simps i)
    moreover have "digits_val ?i = c * 10 ^ nat e"
      by (simp add: digits_val_zeros) (simp add: digits_val_def digit_val_def byte_def)
    ultimately show ?thesis using d False by auto
  qed
qed

lemma amount_value_format: "is_finite d \<Longrightarrow> amount_value (format_f d) = dval d"
proof -
  assume "is_finite d"
  from parse_format_f_value [OF this] obtain s c e where d: "d = Fin s c e"
    and p: "parse_decimal (format_f d) = Some (Fin s (c * 10 ^ nat e) (min e 0))" by blast
  have "(10::rat) powi e = 10 ^ nat e * 10 powi (min e 0)"
    using ten_powi [of "min e 0" e] by (cases "e \<le> 0") auto
  then show ?thesis by (simp add: amount_value_def p) (simp add: d dint_def)
qed

lemma quantize_format:
  assumes "quantize_cent rnd d = Inr q" and "dec_eq d q" and "is_finite d"
  shows "\<exists>d'. parse_decimal (format_f d) = Some d' \<and> is_finite d' \<and> quantize_cent rnd d' = Inr q \<and> dec_eq d' q"
proof -
  from parse_format_f_value [OF assms(3)] obtain s c e where d: "d = Fin s c e"
    and p: "parse_decimal (format_f d) = Some (Fin s (c * 10 ^ nat e) (min e 0))" by blast
  let ?d' = "Fin s (c * 10 ^ nat e) (min e 0)"
  have "quantize_cent rnd ?d' = quantize_cent rnd d"
  proof (cases "e \<le> 0")
    case False
    then have "nat (e + 2) = nat e + 2" by simp
    then show ?thesis using False by (simp add: d power_add Let_def mult.assoc)
  qed (simp add: d)
  moreover have "is_finite q" using assms(1) d by (auto simp: Let_def split: if_splits)
  moreover have "dval ?d' = dval d"
    using amount_value_format [OF assms(3)] by (simp add: amount_value_def p)
  ultimately show ?thesis using assms p by (auto simp: dec_eq_dval)
qed

end
