(* ===== verification/Decision_Balance.thy ===== *)
theory Decision_Balance
  imports Voucher_Decisions Cent_Arithmetic "HOL-Library.Multiset"
begin

text \<open>
  What saving a decision (\<open>apply_voucher_decision\<close> of \<open>bookkeeping/decisions.py\<close>) guarantees: the
  allocations agree with the source lines cent by cent, the journal lines built from them balance
  exactly when the tax treatment is settled or there is no tax, and the operation is one
  \<open>decided\<close> step in the life of the voucher.
\<close>

section \<open>Amounts\<close>

lemma money_Inr:
  assumes "money v f = Inr d"
  shows "parse_decimal v = Some d" and "is_finite d" and "amount_value v = dval d" and "whole_cents d"
    and "\<exists>q. quantize_cent round_half_even d = Inr q \<and> dec_eq d q"
proof -
  show p: "parse_decimal v = Some d" and fin: "is_finite d"
    and q: "\<exists>q. quantize_cent round_half_even d = Inr q \<and> dec_eq d q"
    using assms by (auto simp: money_def res_bind_eq_Inr split: option.splits if_splits)
  show "amount_value v = dval d" by (simp add: amount_value_def p)
  show "whole_cents d" using q quantize_cent_spec [OF fin] by blast
qed

lemma money_any_field: "money v f = Inr d \<Longrightarrow> money v g = Inr d"
  by (auto simp: money_def res_bind_eq_Inr split: option.splits if_splits)

lemma money_format:
  assumes "money v f = Inr d"
  shows "\<exists>d'. money (format_f d) g = Inr d' \<and> amount_value (format_f d) = dval d"
proof -
  obtain q where q: "quantize_cent round_half_even d = Inr q" "dec_eq d q"
    using money_Inr(5) [OF assms] by blast
  from quantize_format [OF q money_Inr(2) [OF assms]] obtain d' where
    "parse_decimal (format_f d) = Some d'" "is_finite d'" "quantize_cent round_half_even d' = Inr q" "dec_eq d' q"
    by blast
  then have "money (format_f d) g = Inr d'" by (simp add: money_def)
  then show ?thesis using amount_value_format [OF money_Inr(2) [OF assms]] by blast
qed

text \<open>Amounts that \<open>money\<close> accepts and that are not negative.\<close>

definition proper_amount :: "string \<Rightarrow> bool" where
  "proper_amount v \<longleftrightarrow> (\<exists>d. money v [] = Inr d) \<and> 0 \<le> amount_value v"

lemma money_sum_exact:
  assumes "list_all proper_amount vs" and "small (sum_list (map amount_value vs))"
  shows "\<exists>t. money_sum vs f = Inr t \<and> dval t = sum_list (map amount_value vs) \<and> whole_cents t"
proof -
  have "\<exists>d. money v f = Inr d" if v: "v \<in> set vs" for v
  proof -
    obtain d where "money v [] = Inr d" using assms(1) v by (auto simp: list_all_iff proper_amount_def)
    then show ?thesis using money_any_field by blast
  qed
  then obtain ds where ds: "res_map (\<lambda>v. money v f) vs = Inr ds"
    using res_map_total [of vs "\<lambda>v. money v f"] by blast
  have each: "money (vs ! i) f = Inr (ds ! i)" if "i < length vs" for i
    using res_map_Inr_nth [OF ds that] .
  have len: "length ds = length vs" using res_map_Inr_length [OF ds] .
  have vals: "map dval ds = map amount_value vs"
    using money_Inr(3) [OF each] len by (intro nth_equalityI) auto
  have cents: "list_all whole_cents ds"
    using money_Inr(4) [OF each] len by (auto simp: list_all_length)
  have "list_all (\<lambda>r. 0 \<le> r) (map dval ds)"
    unfolding vals using assms(1) by (simp add: list_all_iff proper_amount_def)
  then have nn: "list_all (\<lambda>d. 0 \<le> dval d) ds" by (simp add: list_all_iff)
  have small: "small (dval dec_zero + sum_list (map dval ds))"
    using assms(2) by (simp only: vals whole_cents_zero add_0)
  have "0 \<le> dval dec_zero" by (simp only: whole_cents_zero)
  from dec_sum_cents [OF cents nn whole_cents_zero(1) this small]
  have "dval (dec_sum ds dec_zero) = sum_list (map amount_value vs)" "whole_cents (dec_sum ds dec_zero)"
    by (simp_all only: vals whole_cents_zero add_0)
  then show ?thesis using ds by (simp add: money_sum_def)
qed

section \<open>Allocations\<close>

definition allocation_ok :: "voucher_project_allocation \<Rightarrow> bool" where
  "allocation_ok a \<longleftrightarrow> proper_amount (pa_pretax_amount a) \<and> proper_amount (pa_tax_amount a)
     \<and> proper_amount (pa_total_amount a) \<and> 0 < amount_value (pa_total_amount a)
     \<and> (small (amount_value (pa_pretax_amount a) + amount_value (pa_tax_amount a)) \<longrightarrow>
          amount_value (pa_pretax_amount a) + amount_value (pa_tax_amount a) = amount_value (pa_total_amount a))"

lemma check_allocation_ok:
  assumes "check_allocation ids a seen = Inr seen'"
  shows "allocation_ok a \<and> pa_source_line_id a \<in> set ids \<and> seen' = pa_allocation_id a # seen
    \<and> pa_allocation_id a \<notin> set seen \<and> strip (pa_allocation_id a) \<noteq> []"
proof -
  obtain p t s where m: "money (pa_pretax_amount a) ''allocation pretax amount'' = Inr p"
      "money (pa_tax_amount a) ''allocation tax amount'' = Inr t"
      "money (pa_total_amount a) ''allocation total amount'' = Inr s"
    and sign: "\<not> dec_less p dec_zero" "\<not> dec_less t dec_zero" "\<not> dec_le s dec_zero"
    and eq: "dec_eq (dec_add p t) s"
    and rest: "pa_source_line_id a \<in> set ids \<and> seen' = pa_allocation_id a # seen
      \<and> pa_allocation_id a \<notin> set seen \<and> strip (pa_allocation_id a) \<noteq> []"
    using assms by (auto simp: check_allocation_def res_bind_eq_Inr split: if_splits)
  have fin: "is_finite p" "is_finite t" "is_finite s" using m money_Inr(2) by blast+
  have nn: "0 \<le> dval p" "0 \<le> dval t" "0 < dval s"
    using sign fin by (simp_all add: dec_less_dval dec_le_dval dint_def not_less)
  have "dval p + dval t = dval s" if "small (dval p + dval t)"
    using dec_add_cents(1) [OF money_Inr(4) [OF m(1)] money_Inr(4) [OF m(2)] that] eq fin
    by (simp add: dec_eq_dval)
  then show ?thesis
    using rest nn m money_any_field [where g = "[]"] money_Inr(3) [OF m(1)] money_Inr(3) [OF m(2)] money_Inr(3) [OF m(3)]
    by (auto simp: allocation_ok_def proper_amount_def)
qed

lemma fold_check_allocation:
  assumes "res_fold (check_allocation ids) raw seen = Inr seen'"
  shows "list_all (\<lambda>a. allocation_ok a \<and> pa_source_line_id a \<in> set ids) raw
    \<and> seen' = rev (map pa_allocation_id raw) @ seen
    \<and> distinct (map pa_allocation_id raw) \<and> set (map pa_allocation_id raw) \<inter> set seen = {}"
  using assms
proof (induction raw arbitrary: seen)
  case (Cons a raw)
  then obtain s where s: "check_allocation ids a seen = Inr s" "res_fold (check_allocation ids) raw s = Inr seen'"
    by (auto simp: res_bind_eq_Inr)
  from check_allocation_ok [OF s(1)] Cons.IH [OF s(2)] show ?case by auto
qed simp

definition alloc_value :: "(voucher_project_allocation \<Rightarrow> string) \<Rightarrow> voucher_project_allocation list \<Rightarrow> rat" where
  "alloc_value f as = sum_list (map (\<lambda>a. amount_value (f a)) as)"

lemma alloc_value_append [simp]: "alloc_value f (as @ bs) = alloc_value f as + alloc_value f bs"
  by (simp add: alloc_value_def)

lemma alloc_value_Nil [simp]: "alloc_value f [] = 0"
  by (simp add: alloc_value_def)

lemma alloc_value_nonneg:
  assumes "list_all allocation_ok as"
  shows "0 \<le> alloc_value pa_pretax_amount as" "0 \<le> alloc_value pa_tax_amount as" "0 \<le> alloc_value pa_total_amount as"
  unfolding alloc_value_def
  using assms by (auto intro!: sum_list_nonneg simp: list_all_iff allocation_ok_def proper_amount_def)

text \<open>The bound under which sums are exact: all amounts of the allocations together.\<close>

definition bounded :: "voucher_project_allocation list \<Rightarrow> bool" where
  "bounded as \<longleftrightarrow> alloc_value pa_pretax_amount as + alloc_value pa_tax_amount as + alloc_value pa_total_amount as < 10 ^ 26"

lemma small_nonneg: "0 \<le> r \<Longrightarrow> small r \<longleftrightarrow> r < 10 ^ 26"
  by (simp add: small_def)

lemma bounded_append:
  assumes "list_all allocation_ok (as @ bs)" and "bounded (as @ bs)"
  shows "bounded as \<and> bounded bs"
proof -
  have "list_all allocation_ok as" "list_all allocation_ok bs" using assms(1) by simp_all
  from alloc_value_nonneg [OF this(1)] alloc_value_nonneg [OF this(2)] assms(2) show ?thesis
    unfolding bounded_def alloc_value_append by linarith
qed

lemma bounded_small:
  assumes "list_all allocation_ok as" and "bounded as"
  shows "small (alloc_value pa_pretax_amount as)" "small (alloc_value pa_tax_amount as)"
    "small (alloc_value pa_total_amount as)"
    "small (alloc_value pa_pretax_amount as + alloc_value pa_tax_amount as)"
  using assms(2) alloc_value_nonneg [OF assms(1)]
  by (simp_all add: bounded_def small_nonneg)

lemma allocations_add_up:
  assumes "list_all allocation_ok as" and "bounded as"
  shows "alloc_value pa_pretax_amount as + alloc_value pa_tax_amount as = alloc_value pa_total_amount as"
  using assms
proof (induction as)
  case (Cons a as)
  have "bounded [a] \<and> bounded as" using bounded_append [of "[a]" as] Cons.prems by simp
  moreover from this have "small (alloc_value pa_pretax_amount [a] + alloc_value pa_tax_amount [a])"
    using bounded_small(4) [of "[a]"] Cons.prems by simp
  ultimately show ?case using Cons by (simp add: allocation_ok_def alloc_value_def)
qed simp

lemma alloc_value_filter:
  assumes "list_all allocation_ok as"
  shows "alloc_value pa_pretax_amount (filter P as) \<le> alloc_value pa_pretax_amount as"
    "alloc_value pa_tax_amount (filter P as) \<le> alloc_value pa_tax_amount as"
    "alloc_value pa_total_amount (filter P as) \<le> alloc_value pa_total_amount as"
  using assms by (induction as) (auto simp: alloc_value_def allocation_ok_def proper_amount_def)

lemma allocations_of_ok: "list_all allocation_ok as \<Longrightarrow> list_all allocation_ok (allocations_of as k)"
  by (simp add: allocations_of_def list_all_iff)

lemma bounded_allocations_of: "list_all allocation_ok as \<Longrightarrow> bounded as \<Longrightarrow> bounded (allocations_of as k)"
  using alloc_value_filter [of as "\<lambda>a. pa_source_line_id a = k"]
  unfolding bounded_def allocations_of_def by linarith

text \<open>A source line whose amounts are the sums of its allocations.\<close>

definition source_agrees :: "voucher_project_allocation list \<Rightarrow> voucher_source_line \<Rightarrow> bool" where
  "source_agrees as s \<longleftrightarrow> (let own = allocations_of as (sl_source_line_id s) in own \<noteq> []
     \<and> proper_amount (sl_tax_amount s) \<and> proper_amount (sl_total_amount s)
     \<and> amount_value (sl_pretax_amount s) = alloc_value pa_pretax_amount own
     \<and> amount_value (sl_tax_amount s) = alloc_value pa_tax_amount own
     \<and> amount_value (sl_total_amount s) = alloc_value pa_total_amount own)"

lemma sum_agrees:
  assumes "money_sum (map f as) g = Inr t" and "money v h = Inr d" and "dec_eq t d"
    and "list_all (\<lambda>a. proper_amount (f a)) as" and "small (alloc_value f as)"
  shows "amount_value v = alloc_value f as"
proof -
  have "list_all proper_amount (map f as)" using assms(4) by (simp add: list_all_iff)
  moreover have eq: "sum_list (map amount_value (map f as)) = alloc_value f as"
    by (simp add: alloc_value_def comp_def)
  ultimately have "dval t = alloc_value f as \<and> whole_cents t"
    using money_sum_exact [of "map f as" g] assms(1,5) by auto
  then show ?thesis
    using assms(3) money_Inr(2,3) [OF assms(2)] by (simp add: dec_eq_dval whole_cents_def)
qed

lemma check_source_agrees:
  assumes "check_source_total raw s = Inr u" and "allocations_of raw (sl_source_line_id s) = own"
    and "own \<noteq> []" and "list_all allocation_ok own" and "bounded own"
  shows "proper_amount (sl_tax_amount s)" "proper_amount (sl_total_amount s)"
    "amount_value (sl_pretax_amount s) = alloc_value pa_pretax_amount own"
    "amount_value (sl_tax_amount s) = alloc_value pa_tax_amount own"
    "amount_value (sl_total_amount s) = alloc_value pa_total_amount own"
proof -
  obtain p t x p' t' x' where
    m: "money (sl_pretax_amount s) ''source pretax amount'' = Inr p"
      "money (sl_tax_amount s) ''source tax amount'' = Inr t"
      "money (sl_total_amount s) ''source total amount'' = Inr x"
    and sums: "money_sum (map pa_pretax_amount own) ''allocation pretax_amount'' = Inr p'"
      "money_sum (map pa_tax_amount own) ''allocation tax_amount'' = Inr t'"
      "money_sum (map pa_total_amount own) ''allocation total_amount'' = Inr x'"
    and eq: "dec_eq p' p" "dec_eq t' t" "dec_eq x' x"
    using assms(1,2) by (auto simp: check_source_total_def Let_def res_bind_eq_Inr split: if_splits)
  have pr: "list_all (\<lambda>a. proper_amount (pa_pretax_amount a)) own" "list_all (\<lambda>a. proper_amount (pa_tax_amount a)) own"
    "list_all (\<lambda>a. proper_amount (pa_total_amount a)) own"
    using assms(4) by (auto simp: list_all_iff allocation_ok_def)
  note small = bounded_small [OF assms(4,5)]
  show v: "amount_value (sl_pretax_amount s) = alloc_value pa_pretax_amount own"
    "amount_value (sl_tax_amount s) = alloc_value pa_tax_amount own"
    "amount_value (sl_total_amount s) = alloc_value pa_total_amount own"
    by (rule sum_agrees [OF sums(1) m(1) eq(1) pr(1) small(1)], rule sum_agrees [OF sums(2) m(2) eq(2) pr(2) small(2)],
        rule sum_agrees [OF sums(3) m(3) eq(3) pr(3) small(3)])
  have "money (sl_tax_amount s) [] = Inr t" "money (sl_total_amount s) [] = Inr x"
    using money_any_field m(2,3) by blast+
  then show "proper_amount (sl_tax_amount s)" "proper_amount (sl_total_amount s)"
    using v alloc_value_nonneg [OF assms(4)] by (simp_all add: proper_amount_def)
qed

lemma allocations_of_concat:
  assumes "distinct (map sl_source_line_id ss)"
  shows "allocations_of (concat (map (\<lambda>s. allocations_of raw (sl_source_line_id s)) ss)) k
    = (if k \<in> set (map sl_source_line_id ss) then allocations_of raw k else [])"
proof -
  have own: "filter (\<lambda>a. pa_source_line_id a = k) (allocations_of raw j) = (if j = k then allocations_of raw k else [])" for j
    by (auto simp: allocations_of_def filter_empty_conv)
  show ?thesis
    using assms unfolding allocations_of_def [of "concat _"]
    by (induction ss) (auto simp: own)
qed

lemma validated_allocations_Inr:
  assumes "validated_allocations ss raw = Inr as" and "bounded as"
  shows "list_all allocation_ok as \<and> list_all (source_agrees as) ss
    \<and> as = concat (map (\<lambda>s. allocations_of as (sl_source_line_id s)) ss) \<and> distinct (map pa_allocation_id raw)
    \<and> mset as = mset raw"
proof -
  obtain seen us where d: "distinct (map sl_source_line_id ss)"
    and fold: "res_fold (check_allocation (map sl_source_line_id ss)) raw [] = Inr seen"
    and none: "sort (filter (\<lambda>k. allocations_of raw k = []) (map sl_source_line_id ss)) = []"
    and tot: "res_map (check_source_total raw) ss = Inr us"
    and as: "as = concat (map (\<lambda>s. allocations_of raw (sl_source_line_id s)) ss)"
    using assms(1) by (auto simp: validated_allocations_def Let_def res_bind_eq_Inr split: if_splits)
  have missing: "\<forall>s\<in>set ss. allocations_of raw (sl_source_line_id s) \<noteq> []"
    using arg_cong [OF none, of set] by auto
  have raw: "list_all allocation_ok raw" "distinct (map pa_allocation_id raw)"
    "\<forall>a\<in>set raw. pa_source_line_id a \<in> set (map sl_source_line_id ss)"
    using fold_check_allocation [OF fold] by (auto simp: list_all_iff)
  have ok: "list_all allocation_ok as"
    using raw(1) by (auto simp: as list_all_iff allocations_of_def)
  have own: "allocations_of as (sl_source_line_id s) = allocations_of raw (sl_source_line_id s)" if "s \<in> set ss" for s
    using that allocations_of_concat [OF d] by (simp add: as)
  have "source_agrees as s" if s: "s \<in> set ss" for s
  proof -
    obtain u where u: "check_source_total raw s = Inr u"
      using s tot by (metis in_set_conv_nth res_map_Inr_nth)
    have b: "bounded (allocations_of as (sl_source_line_id s))" by (rule bounded_allocations_of [OF ok assms(2)])
    have o: "list_all allocation_ok (allocations_of as (sl_source_line_id s))" by (rule allocations_of_ok [OF ok])
    have ne: "allocations_of as (sl_source_line_id s) \<noteq> []" using missing s own by simp
    show ?thesis
      using check_source_agrees [OF u own [OF s, symmetric] ne o b] ne by (simp add: source_agrees_def Let_def)
  qed
  moreover have "as = concat (map (\<lambda>s. allocations_of as (sl_source_line_id s)) ss)"
    by (subst as) (intro arg_cong [where f = concat] map_cong refl, simp add: own)
  moreover have "mset as = mset raw"
    unfolding as using d raw(3)
  proof (induction ss arbitrary: raw)
    case (Cons s ss)
    let ?rest = "filter (\<lambda>a. pa_source_line_id a \<noteq> sl_source_line_id s) raw"
    have "allocations_of ?rest (sl_source_line_id t) = allocations_of raw (sl_source_line_id t)" if "t \<in> set ss" for t
    proof -
      have "sl_source_line_id t \<noteq> sl_source_line_id s" using Cons.prems(1) that by simp (metis image_eqI)
      then show ?thesis by (auto simp: allocations_of_def intro: filter_cong)
    qed
    then have "concat (map (\<lambda>t. allocations_of raw (sl_source_line_id t)) ss)
        = concat (map (\<lambda>t. allocations_of ?rest (sl_source_line_id t)) ss)"
      by (intro arg_cong [where f = concat] map_cong refl) simp
    moreover have "mset (concat (map (\<lambda>t. allocations_of ?rest (sl_source_line_id t)) ss)) = mset ?rest"
      using Cons.prems by (intro Cons.IH) auto
    ultimately show ?case
      by (simp add: allocations_of_def [of raw "sl_source_line_id s"])
  qed simp
  ultimately show ?thesis using ok raw(2) by (simp add: list_all_iff)
qed

section \<open>Journal lines\<close>

definition booked :: "string \<Rightarrow> voucher_line list \<Rightarrow> rat" where
  "booked direction ls = sum_list (map (\<lambda>l. amount_value (vl_amount l)) (filter (\<lambda>l. vl_direction l = direction) ls))"

lemma booked_append [simp]: "booked d (ls @ ms) = booked d ls + booked d ms"
  by (simp add: booked_def)

lemma booked_Nil [simp]: "booked d [] = 0"
  by (simp add: booked_def)

lemma booked_Cons: "booked d (l # ls) = (if vl_direction l = d then amount_value (vl_amount l) else 0) + booked d ls"
  by (simp add: booked_def)

lemma decided_line_Inr:
  assumes "decided_line decisions catalogs s a role dir amount summary = Inr l"
  shows "vl_direction l = dir \<and> vl_amount l = format_f amount \<and> vl_line_role l = role
    \<and> vl_line_id l = allocated_line_id s a role \<and> vl_source_line_ids l = [sl_source_line_id s]
    \<and> (\<exists>code account. dget (ls_accounts_by_code catalogs) code = Some account
         \<and> ac_enabled account \<and> ac_is_leaf account \<and> vl_account_code l = ac_code account)
    \<and> (\<forall>(dim, v)\<in>set (vl_aux l). \<exists>x. dget (ls_auxiliary_by_value_id catalogs) v = Some x
         \<and> ax_dimension x = dim \<and> ax_enabled x)"
proof -
  have flds: "vl_direction l = dir \<and> vl_amount l = format_f amount \<and> vl_line_role l = role
      \<and> vl_line_id l = allocated_line_id s a role \<and> vl_source_line_ids l = [sl_source_line_id s]"
    and us: "\<exists>us. res_map (check_aux catalogs) (vl_aux l) = Inr us"
    using assms
    by (auto simp: decided_line_def Let_def res_bind_eq_Inr split: option.splits if_splits)
  have acc: "\<exists>code account. dget (ls_accounts_by_code catalogs) code = Some account
      \<and> ac_enabled account \<and> ac_is_leaf account \<and> vl_account_code l = ac_code account"
    using assms
    by (auto simp: decided_line_def Let_def res_bind_eq_Inr split: option.splits if_splits) blast+
  from us have "\<exists>x. dget (ls_auxiliary_by_value_id catalogs) v = Some x \<and> ax_dimension x = dim \<and> ax_enabled x"
    if "(dim, v) \<in> set (vl_aux l)" for dim v
  proof -
    obtain u where "check_aux catalogs (dim, v) = Inr u"
      using us \<open>(dim, v) \<in> set (vl_aux l)\<close> by (metis in_set_conv_nth res_map_Inr_nth)
    then show ?thesis by (auto simp: check_aux_def split: option.splits if_splits)
  qed
  then show ?thesis using flds acc by blast
qed

text \<open>The cost lines of a source line: the totals of its allocations when the tax is not deductible, the
  amounts before tax otherwise.\<close>

definition cost_text :: "string \<Rightarrow> voucher_project_allocation \<Rightarrow> string" where
  "cost_text tax_treatment a = (if tax_treatment = ''non_deductible'' then pa_total_amount a else pa_pretax_amount a)"

lemma format_proper:
  assumes "money v f = Inr d" and "0 \<le> amount_value v"
  shows "proper_amount (format_f d)" and "amount_value (format_f d) = amount_value v"
  using money_format [OF assms(1), of "[]"] money_Inr(3) [OF assms(1)] assms(2)
  by (auto simp: proper_amount_def)

lemma cost_lines:
  assumes "res_map (cost_line tt decisions catalogs s) own = Inr ls" and "list_all allocation_ok own"
  shows "booked ''debit'' ls = alloc_value (cost_text tt) own \<and> booked ''credit'' ls = 0
    \<and> list_all (\<lambda>l. proper_amount (vl_amount l)) ls"
  using assms
proof (induction own arbitrary: ls)
  case (Cons a own)
  then obtain l ls' where c: "cost_line tt decisions catalogs s a = Inr l"
    and ls': "res_map (cost_line tt decisions catalogs s) own = Inr ls'" and ls: "ls = l # ls'"
    by (auto simp: res_bind_eq_Inr)
  from c obtain amount summary where l: "decided_line decisions catalogs s (Some a) ''cost'' ''debit'' amount summary = Inr l"
    and m: "money (cost_text tt a) ''allocation cost amount'' = Inr amount"
    unfolding cost_line_def cost_text_def res_bind_eq_Inr by blast
  have "0 \<le> amount_value (cost_text tt a)"
    using Cons.prems(2) by (simp add: cost_text_def allocation_ok_def proper_amount_def)
  with m have "proper_amount (vl_amount l)" "amount_value (vl_amount l) = amount_value (cost_text tt a)"
    using format_proper decided_line_Inr [OF l] by auto
  then show ?case
    using Cons.IH [OF ls'] Cons.prems(2) decided_line_Inr [OF l, THEN conjunct1]
    by (simp add: ls booked_Cons alloc_value_def)
qed simp

definition debit_of :: "string \<Rightarrow> voucher_source_line \<Rightarrow> rat" where
  "debit_of tt s = (if tt = ''non_deductible'' then amount_value (sl_total_amount s) else amount_value (sl_pretax_amount s))
     + (if tt = ''deductible'' then amount_value (sl_tax_amount s) else 0)"

lemma source_journal_booked:
  assumes "source_journal as decisions tt catalogs s = Inr ls" and "source_agrees as s" and "list_all allocation_ok as"
  shows "booked ''debit'' ls = debit_of tt s \<and> booked ''credit'' ls = amount_value (sl_total_amount s)
    \<and> list_all (\<lambda>l. proper_amount (vl_amount l)) ls"
proof -
  let ?own = "allocations_of as (sl_source_line_id s)"
  let ?summary = "words_of [PURCHASE, sl_seller s, sl_item_name s, sl_invoice_no s]"
  obtain tax total costs taxes payable where
    tax: "money (sl_tax_amount s) ''source tax amount'' = Inr tax"
    and total: "money (sl_total_amount s) ''source total amount'' = Inr total"
    and costs: "res_map (cost_line tt decisions catalogs s) ?own = Inr costs"
    and taxes: "tax_lines tt decisions catalogs s tax ?summary = Inr taxes"
    and payable: "decided_line decisions catalogs s None ''payable'' ''credit'' total ?summary = Inr payable"
    and ls: "ls = costs @ taxes @ [payable]"
    using assms(1) by (auto simp: source_journal_def Let_def res_bind_eq_Inr split: if_split_asm)
  have agree: "proper_amount (sl_tax_amount s)" "proper_amount (sl_total_amount s)"
    "amount_value (sl_pretax_amount s) = alloc_value pa_pretax_amount ?own"
    "amount_value (sl_total_amount s) = alloc_value pa_total_amount ?own"
    using assms(2) by (simp_all add: source_agrees_def Let_def)
  have c: "booked ''debit'' costs = alloc_value (cost_text tt) ?own" "booked ''credit'' costs = 0"
    "list_all (\<lambda>l. proper_amount (vl_amount l)) costs"
    using cost_lines [OF costs allocations_of_ok [OF assms(3)]] by blast+
  have cost: "alloc_value (cost_text tt) ?own =
      (if tt = ''non_deductible'' then amount_value (sl_total_amount s) else amount_value (sl_pretax_amount s))"
    using agree by (simp add: alloc_value_def cost_text_def)
  have p: "booked ''debit'' [payable] = 0" "booked ''credit'' [payable] = amount_value (sl_total_amount s)"
    "proper_amount (vl_amount payable)"
    using decided_line_Inr [OF payable] format_proper [OF total] agree(2)
    by (auto simp: booked_Cons proper_amount_def)
  have t: "booked ''debit'' taxes = (if tt = ''deductible'' then amount_value (sl_tax_amount s) else 0)
    \<and> booked ''credit'' taxes = 0 \<and> list_all (\<lambda>l. proper_amount (vl_amount l)) taxes"
  proof (cases "tt = ''deductible'' \<and> \<not> dec_eq tax dec_zero")
    case True
    with taxes obtain l where l: "decided_line decisions catalogs s None ''input_tax'' ''debit'' tax ?summary = Inr l"
      "taxes = [l]" by (auto simp: tax_lines_def res_bind_eq_Inr)
    then show ?thesis
      using decided_line_Inr [OF l(1)] format_proper [OF tax] agree(1) True
      by (auto simp: booked_Cons proper_amount_def)
  next
    case False
    moreover have "amount_value (sl_tax_amount s) = 0" if "dec_eq tax dec_zero"
    proof -
      have "dval tax = dval dec_zero" using that money_Inr(2) [OF tax] by (simp only: dec_eq_dval is_finite.simps)
      then show ?thesis using money_Inr(3) [OF tax] by (simp only: whole_cents_zero)
    qed
    ultimately show ?thesis using taxes by (auto simp: tax_lines_def)
  qed
  show ?thesis using c cost p t by (simp add: ls debit_of_def)
qed

lemma materialized_booked:
  assumes "res_map (source_journal as decisions tt catalogs) ss = Inr parts" and "list_all (source_agrees as) ss"
    and "list_all allocation_ok as"
  shows "booked ''debit'' (concat parts) = sum_list (map (debit_of tt) ss)
    \<and> booked ''credit'' (concat parts) = sum_list (map (\<lambda>s. amount_value (sl_total_amount s)) ss)
    \<and> list_all (\<lambda>l. proper_amount (vl_amount l)) (concat parts)"
  using assms(1,2)
proof (induction ss arbitrary: parts)
  case (Cons s ss)
  then obtain ls parts' where "source_journal as decisions tt catalogs s = Inr ls"
    "res_map (source_journal as decisions tt catalogs) ss = Inr parts'" "parts = ls # parts'"
    by (auto simp: res_bind_eq_Inr)
  then show ?case
    using Cons source_journal_booked [of as decisions tt catalogs s ls] assms(3) by simp
qed simp

lemma sources_total:
  assumes "list_all (source_agrees as) ss" and "as = concat (map (\<lambda>s. allocations_of as (sl_source_line_id s)) ss)"
  shows "sum_list (map (\<lambda>s. amount_value (sl_pretax_amount s)) ss) = alloc_value pa_pretax_amount as"
    and "sum_list (map (\<lambda>s. amount_value (sl_tax_amount s)) ss) = alloc_value pa_tax_amount as"
    and "sum_list (map (\<lambda>s. amount_value (sl_total_amount s)) ss) = alloc_value pa_total_amount as"
proof -
  have c: "alloc_value f (concat (map (\<lambda>s. allocations_of as (sl_source_line_id s)) ts))
      = sum_list (map (\<lambda>s. alloc_value f (allocations_of as (sl_source_line_id s))) ts)" for f ts
    by (induction ts) simp_all
  have m: "map (\<lambda>s. amount_value (sl_pretax_amount s)) ss
      = map (\<lambda>s. alloc_value pa_pretax_amount (allocations_of as (sl_source_line_id s))) ss"
    "map (\<lambda>s. amount_value (sl_tax_amount s)) ss
      = map (\<lambda>s. alloc_value pa_tax_amount (allocations_of as (sl_source_line_id s))) ss"
    "map (\<lambda>s. amount_value (sl_total_amount s)) ss
      = map (\<lambda>s. alloc_value pa_total_amount (allocations_of as (sl_source_line_id s))) ss"
    using assms(1) by (auto simp: list_all_iff source_agrees_def Let_def)
  have "sum_list (map (\<lambda>s. alloc_value f (allocations_of as (sl_source_line_id s))) ss) = alloc_value f as" for f
    using c [of f ss] by (simp only: assms(2) [symmetric])
  then show "sum_list (map (\<lambda>s. amount_value (sl_pretax_amount s)) ss) = alloc_value pa_pretax_amount as"
    "sum_list (map (\<lambda>s. amount_value (sl_tax_amount s)) ss) = alloc_value pa_tax_amount as"
    "sum_list (map (\<lambda>s. amount_value (sl_total_amount s)) ss) = alloc_value pa_total_amount as"
    unfolding m by blast+
qed

lemma total_of_direction:
  assumes "list_all (\<lambda>l. proper_amount (vl_amount l)) ls" and "small (booked d ls)"
  shows "\<exists>t. direction_total d ls = Inr t \<and> dval t = booked d ls \<and> whole_cents t"
proof -
  have "list_all proper_amount (map vl_amount (filter (\<lambda>l. vl_direction l = d) ls))"
    using assms(1) by (auto simp: list_all_iff)
  from money_sum_exact [OF this] assms(2) show ?thesis
    by (simp add: direction_total_def booked_def comp_def)
qed

definition on_open_account :: "ledger_catalog_snapshot \<Rightarrow> voucher_line \<Rightarrow> bool" where
  "on_open_account catalogs l \<longleftrightarrow>
     (\<exists>code account. dget (ls_accounts_by_code catalogs) code = Some account \<and> ac_enabled account \<and> ac_is_leaf account
        \<and> vl_account_code l = ac_code account)
     \<and> (\<forall>(dim, v)\<in>set (vl_aux l). \<exists>x. dget (ls_auxiliary_by_value_id catalogs) v = Some x
         \<and> ax_dimension x = dim \<and> ax_enabled x)"

lemma journal_accounts:
  assumes "source_journal as decisions tt catalogs s = Inr ls" and "l \<in> set ls"
  shows "on_open_account catalogs l"
proof -
  let ?summary = "words_of [PURCHASE, sl_seller s, sl_item_name s, sl_invoice_no s]"
  obtain tax total costs taxes payable where
    costs: "res_map (cost_line tt decisions catalogs s) (allocations_of as (sl_source_line_id s)) = Inr costs"
    and taxes: "tax_lines tt decisions catalogs s tax ?summary = Inr taxes"
    and payable: "decided_line decisions catalogs s None ''payable'' ''credit'' total ?summary = Inr payable"
    and ls: "ls = costs @ taxes @ [payable]"
    using assms(1) by (auto simp: source_journal_def Let_def res_bind_eq_Inr split: if_split_asm)
  have "\<exists>a role dir amount summary. decided_line decisions catalogs s a role dir amount summary = Inr l"
    using assms(2) payable taxes res_map_Inr_set [OF costs]
    unfolding ls by (fastforce simp: tax_lines_def cost_line_def res_bind_eq_Inr split: if_splits)
  then show ?thesis using decided_line_Inr unfolding on_open_account_def by blast
qed

lemma lines_balance:
  assumes "validated_allocations sources raw = Inr as"
    and "materialize_lines sources as decisions tt catalogs = Inr ls" and "bounded as"
  shows "\<exists>d c. direction_total ''debit'' ls = Inr d \<and> direction_total ''credit'' ls = Inr c
    \<and> dval c = sum_list (map (\<lambda>s. amount_value (sl_total_amount s)) sources)
    \<and> dval d = dval c - (if tt \<in> {''deductible'', ''non_deductible''} then 0
         else sum_list (map (\<lambda>s. amount_value (sl_tax_amount s)) sources))
    \<and> (dec_eq d c \<longleftrightarrow> tt \<in> {''deductible'', ''non_deductible''}
         \<or> sum_list (map (\<lambda>s. amount_value (sl_tax_amount s)) sources) = 0)
    \<and> (\<forall>l\<in>set ls. on_open_account catalogs l)"
proof -
  note v = validated_allocations_Inr [OF assms(1,3)]
  have ok: "list_all allocation_ok as" and agree: "list_all (source_agrees as) sources"
    and as: "as = concat (map (\<lambda>s. allocations_of as (sl_source_line_id s)) sources)" using v by blast+
  obtain parts where parts: "res_map (source_journal as decisions tt catalogs) sources = Inr parts"
    and ls: "ls = concat parts"
    using assms(2) by (auto simp: materialize_lines_def res_bind_eq_Inr)
  note b = materialized_booked [OF parts agree ok, folded ls] and tot = sources_total [OF agree as]
  note up = allocations_add_up [OF ok assms(3)] and sm = bounded_small [OF ok assms(3)]
    and nn = alloc_value_nonneg [OF ok]
  have split: "sum_list (map (debit_of tt) ss)
      = (if tt = ''non_deductible'' then sum_list (map (\<lambda>s. amount_value (sl_total_amount s)) ss)
         else sum_list (map (\<lambda>s. amount_value (sl_pretax_amount s)) ss))
        + (if tt = ''deductible'' then sum_list (map (\<lambda>s. amount_value (sl_tax_amount s)) ss) else 0)" for ss
    by (induction ss) (auto simp: debit_of_def)
  have debit: "booked ''debit'' ls = (if tt = ''non_deductible'' then alloc_value pa_total_amount as
      else alloc_value pa_pretax_amount as) + (if tt = ''deductible'' then alloc_value pa_tax_amount as else 0)"
    and credit: "booked ''credit'' ls = alloc_value pa_total_amount as"
    using b split tot by auto
  have "small (booked ''debit'' ls)" "small (booked ''credit'' ls)"
    using sm up unfolding debit credit by auto
  with b obtain d c where d: "direction_total ''debit'' ls = Inr d" "dval d = booked ''debit'' ls" "whole_cents d"
    and c: "direction_total ''credit'' ls = Inr c" "dval c = booked ''credit'' ls" "whole_cents c"
    using total_of_direction [of ls "''debit''"] total_of_direction [of ls "''credit''"] by blast
  have "dec_eq d c \<longleftrightarrow> booked ''debit'' ls = booked ''credit'' ls"
    using d c by (simp add: dec_eq_dval whole_cents_def)
  also have "\<dots> \<longleftrightarrow> tt \<in> {''deductible'', ''non_deductible''} \<or> alloc_value pa_tax_amount as = 0"
    using up unfolding debit credit by auto
  finally have "dec_eq d c \<longleftrightarrow> tt \<in> {''deductible'', ''non_deductible''}
      \<or> sum_list (map (\<lambda>s. amount_value (sl_tax_amount s)) sources) = 0" by (simp only: tot)
  moreover have "\<forall>l\<in>set ls. on_open_account catalogs l"
    using res_map_Inr_set [OF parts] journal_accounts by (fastforce simp: ls)
  moreover have "dval d = dval c - (if tt \<in> {''deductible'', ''non_deductible''} then 0
      else sum_list (map (\<lambda>s. amount_value (sl_tax_amount s)) sources))"
    using up unfolding d(2) c(2) debit credit tot [symmetric] by auto
  ultimately show ?thesis using d(1) c(1,2) credit tot(3) by auto
qed

text \<open>A source line of 100.00 and 6.00 tax with one allocation, for the witness.\<close>

definition sample_source :: voucher_source_line where
  "sample_source = \<lparr>sl_source_line_id = ''s1'', sl_source_row_no = 2, sl_source_type = ''purchase_invoice'',
     sl_invoice_no = ''12345678'', sl_seller = ''a'', sl_item_name = ''b'', sl_item_key = [], sl_project_name = [],
     sl_quantity = ''1'', sl_pretax_amount = ''100.00'', sl_tax_amount = ''6.00'', sl_total_amount = ''106.00'',
     sl_source_file = [], sl_source_file_sha256 = []\<rparr>"

definition sample_allocation :: voucher_project_allocation where
  "sample_allocation = \<lparr>pa_allocation_id = ''a1'', pa_source_line_id = ''s1'', pa_project_id = [],
     pa_project_name = ''p'', pa_pretax_amount = ''100.00'', pa_tax_amount = ''6.00'', pa_total_amount = ''106.00''\<rparr>"

definition sample_decision :: voucher_line_decision where
  "sample_decision = \<lparr>ld_line_id = [], ld_account_code = ''x'', ld_aux = [], ld_line_role = ''other'', ld_summary = [],
     ld_direction = [], ld_amount = [], ld_source_line_ids = [], ld_allocation_ids = []\<rparr>"

definition sample_decisions :: "voucher_line_decision dict" where
  "sample_decisions = map (\<lambda>role. (template_line_id sample_source role, sample_decision)) [''cost'', ''input_tax'', ''payable'']"

text \<open>Decisions that name the sample account for each role of the sample source.\<close>

definition choose_sample :: "voucher_line_decision dict \<Rightarrow> bool" where
  "choose_sample ds \<longleftrightarrow>
     (\<forall>k d. dget ds k = Some d \<longrightarrow> ld_account_code d = ''x'' \<and> ld_aux d = [])
     \<and> (\<forall>role\<in>{''cost'', ''input_tax'', ''payable''}. dget ds (template_line_id sample_source role) \<noteq> None)"

definition sample_snapshot :: ledger_catalog_snapshot where
  "sample_snapshot = \<lparr>ls_profile = sample_profile, ls_account_catalog = sample_accounts,
     ls_auxiliary_catalog = sample_aux, ls_profile_file_sha256 = [], ls_account_file_sha256 = [],
     ls_auxiliary_file_sha256 = [], ls_accounts_by_code = [(''x'', sample_account)],
     ls_auxiliary_by_value_id = [], ls_auxiliary_by_dimension_and_code = []\<rparr>"

lemma sample_parse_amounts:
  "parse_decimal ''100.00'' = Some (Fin False 10000 (-2))" "parse_decimal ''6.00'' = Some (Fin False 600 (-2))"
  "parse_decimal ''106.00'' = Some (Fin False 10600 (-2))"
  by code_simp+

lemma sample_money:
  "money ''100.00'' f = Inr (Fin False 10000 (-2))" "money ''6.00'' f = Inr (Fin False 600 (-2))"
  "money ''106.00'' f = Inr (Fin False 10600 (-2))"
  by (simp_all add: money_def sample_parse_amounts prec_bound_def)

lemma sample_texts_present: "strip ''a1'' = ''a1''" "strip ''p'' = ''p''" "strip ''x'' = ''x''"
  by code_simp+

lemma sample_validated: "validated_allocations [sample_source] [sample_allocation] = Inr [sample_allocation]"
proof -
  have own: "allocations_of [sample_allocation] ''s1'' = [sample_allocation]"
    by (simp add: allocations_of_def sample_allocation_def)
  have "check_allocation [''s1''] sample_allocation [] = Inr [''a1'']"
    by (simp add: check_allocation_def sample_allocation_def sample_money sample_texts_present scale_to_def dint_def
        dec_le_def fix_prec_def prec_bound_def)
  moreover have "check_source_total [sample_allocation] sample_source = Inr ()"
    by (simp add: check_source_total_def sample_source_def own money_sum_def)
      (simp add: sample_allocation_def sample_money dec_sum_def scale_to_def dint_def fix_prec_def prec_bound_def)
  ultimately show ?thesis
    by (simp add: validated_allocations_def own sample_source_def [THEN arg_cong [where f = sl_source_line_id]])
qed

lemma sample_bounded: "bounded [sample_allocation]"
  by (simp add: bounded_def alloc_value_def sample_allocation_def amount_value_def sample_parse_amounts dint_def
      power_int_minus)

lemma sample_decided:
  assumes "choose_sample ds" and "role \<in> {''cost'', ''input_tax'', ''payable''}" and "a = None \<or> a = Some sample_allocation"
  shows "\<exists>l. decided_line ds sample_snapshot sample_source a role dir amount summary = Inr l"
proof -
  let ?c = "case dget ds (allocated_line_id sample_source a role) of Some d \<Rightarrow> Some d
      | None \<Rightarrow> dget ds (template_line_id sample_source role)"
  obtain d where d: "?c = Some d" "ld_account_code d = ''x''" "ld_aux d = []"
  proof (cases "dget ds (allocated_line_id sample_source a role)")
    case None
    then show ?thesis using assms(1,2) that by (auto simp: choose_sample_def)
  next
    case (Some d)
    then show ?thesis using assms(1) that by (auto simp: choose_sample_def)
  qed
  moreover have "project_aux sample_snapshot sample_account a [] = Inr []"
    using assms(3) by (auto simp: project_aux_def sample_allocation_def)
  ultimately show ?thesis
    by (simp add: decided_line_def Let_def sample_texts_present sample_snapshot_def sample_account_def)
qed

lemma sample_materialize:
  assumes "choose_sample ds"
  shows "\<exists>ls. materialize_lines [sample_source] [sample_allocation] ds ''deductible'' sample_snapshot = Inr ls"
proof -
  have own: "allocations_of [sample_allocation] (sl_source_line_id sample_source) = [sample_allocation]"
    by (simp add: allocations_of_def sample_allocation_def sample_source_def)
  have m: "money (sl_tax_amount sample_source) f = Inr (Fin False 600 (-2))"
    "money (sl_total_amount sample_source) f = Inr (Fin False 10600 (-2))"
    "money (pa_pretax_amount sample_allocation) f = Inr (Fin False 10000 (-2))" for f
    by (simp_all add: sample_source_def sample_allocation_def sample_money)
  note d = sample_decided [OF assms]
  have "\<exists>l. cost_line ''deductible'' ds sample_snapshot sample_source sample_allocation = Inr l"
    unfolding cost_line_def using d by (simp add: m)
  moreover have "\<exists>l. tax_lines ''deductible'' ds sample_snapshot sample_source (Fin False 600 (-2)) summary = Inr l"
    for summary
    using d [of "''input_tax''" None "''debit''" "Fin False 600 (-2)" summary] by (auto simp: tax_lines_def)
  moreover have "\<exists>l. decided_line ds sample_snapshot sample_source None ''payable'' ''credit'' (Fin False 10600 (-2)) summary = Inr l"
    for summary by (rule d) simp_all
  ultimately have "\<exists>ls. source_journal [sample_allocation] ds ''deductible'' sample_snapshot sample_source = Inr ls"
    unfolding source_journal_def Let_def own by (simp add: m) (metis res_bind_simps(2))
  then show ?thesis by (auto simp: materialize_lines_def)
qed

text \<open>C16: The totals of the lines a decision builds are exact, and its recorded flag
  \<open>balance_ok\<close> (\<open>debit == credit\<close>) is right. When the allocations were accepted and their amounts
  together stay below \<open>10 ^ 26\<close>, the credit total is the exact total of the source lines, and the
  debit total falls short of it by exactly the tax when the tax treatment is neither deductible nor
  non-deductible, and by nothing otherwise. So the flag is true exactly when the treatment is
  settled or there is no tax to treat: a decision that leaves the treatment of some tax pending is
  accepted, and recorded as unbalanced. Every line is booked on an enabled leaf account of the
  catalogs with enabled auxiliary values of the right dimensions.\<close>

theorem decided_lines_balance:
  assumes "validated_allocations sources raw = Inr as"
    and "materialize_lines sources as decisions tt catalogs = Inr ls" and "bounded as"
  shows "\<exists>d c. direction_total ''debit'' ls = Inr d \<and> direction_total ''credit'' ls = Inr c
    \<and> dval c = sum_list (map (\<lambda>s. amount_value (sl_total_amount s)) sources)
    \<and> dval d = dval c - (if tt \<in> {''deductible'', ''non_deductible''} then 0
         else sum_list (map (\<lambda>s. amount_value (sl_tax_amount s)) sources))
    \<and> (dec_eq d c \<longleftrightarrow> tt \<in> {''deductible'', ''non_deductible''}
         \<or> sum_list (map (\<lambda>s. amount_value (sl_tax_amount s)) sources) = 0)
    \<and> (\<forall>l\<in>set ls. on_open_account catalogs l)"
  using assms by (rule lines_balance)

theorem decided_lines_balance_witness:
  "\<exists>ls d c. materialize_lines [sample_source] [sample_allocation] sample_decisions ''deductible'' sample_snapshot = Inr ls
    \<and> direction_total ''debit'' ls = Inr d \<and> direction_total ''credit'' ls = Inr c \<and> dec_eq d c"
proof -
  have "choose_sample sample_decisions"
    by (simp add: choose_sample_def sample_decisions_def sample_decision_def)
  then obtain ls where ls: "materialize_lines [sample_source] [sample_allocation] sample_decisions ''deductible'' sample_snapshot = Inr ls"
    using sample_materialize by blast
  from decided_lines_balance [OF sample_validated ls sample_bounded] show ?thesis using ls by blast
qed

section \<open>Saving a decision is one step\<close>

lemma decide_Inr:
  assumes "decide c now patch catalogs s = Inr m"
  shows "\<exists>item i sources as decisions ls d cr. m = Changed (dput (dp_voucher_key patch) i (vs_items s)) (vs_batches s) i
    \<and> dget (vs_items s) (dp_voucher_key patch) = Some item \<and> si_status item \<in> set EDITABLE_STATUSES
    \<and> proposal_revision_hash (si_snapshot item) = Inr (dp_expected_proposal_revision_hash patch)
    \<and> gets (si_snapshot item) ''proposal_revision_hash'' = dp_expected_proposal_revision_hash patch
    \<and> load_source_lines c (si_snapshot item) = Inr sources
    \<and> validated_allocations sources (dp_project_allocations patch) = Inr as
    \<and> materialize_lines sources as decisions (dp_tax_treatment patch) catalogs = Inr ls
    \<and> direction_total ''debit'' ls = Inr d \<and> direction_total ''credit'' ls = Inr cr
    \<and> si_status i = ReviewPending \<and> si_item_revision i = si_item_revision item + 1
    \<and> si_approved_revision_hash i = [] \<and> si_legacy_keys i = si_legacy_keys item
    \<and> (\<exists>x. si_audit i = si_audit item @ [x] \<and> action_of x = VStr ''decision_saved'')"
  using assms
  by (auto simp: decide_def Let_def res_bind_eq_Inr decided_item_def split: option.splits if_split_asm) blast+

lemma decide_item_step:
  assumes "decide c now patch catalogs s = Inr (Changed items batches i)"
  shows "item_step (dget (vs_items s) (dp_voucher_key patch)) (Some i)
    \<and> items = dput (dp_voucher_key patch) i (vs_items s) \<and> batches = vs_batches s"
proof -
  from decide_Inr [OF assms] obtain item x where
    c: "Changed items batches i = Changed (dput (dp_voucher_key patch) i (vs_items s)) (vs_batches s) i"
    and item: "dget (vs_items s) (dp_voucher_key patch) = Some item" "si_status item \<in> set EDITABLE_STATUSES"
    and i: "si_status i = ReviewPending" "si_item_revision i = si_item_revision item + 1"
      "si_legacy_keys i = si_legacy_keys item" "si_audit i = si_audit item @ [x]"
      "action_of x = VStr ''decision_saved''" by auto
  have "item_step (Some item) (Some i)"
    using item(2) i by (intro decided) (auto simp: EDITABLE_STATUSES_def)
  then show ?thesis using c item(1) by simp
qed

text \<open>C18: Saving a decision refines the life of the voucher: it succeeds only at the expected revision of
  the store and for the very proposal the reviewer saw (the stored hash is the hash of the stored
  content), on a voucher that is still open; it then puts the voucher up for review with no approval
  attached, appends one audit entry, and leaves every other voucher and all batches alone.\<close>

theorem decision_refines_life:
  assumes "apply_voucher_decision ld c now fresh patch catalogs f = Inr (f', s', i)"
  shows "\<exists>s item. ld f = Inr s \<and> f' = store_to_file s' \<and> vs_revision s = dp_expected_store_revision patch
    \<and> vs_revision s' = vs_revision s + 1 \<and> vs_batches s' = vs_batches s
    \<and> dget (vs_items s) (dp_voucher_key patch) = Some item
    \<and> proposal_revision_hash (si_snapshot item) = Inr (dp_expected_proposal_revision_hash patch)
    \<and> dget (vs_items s') (dp_voucher_key patch) = Some i \<and> item_step (Some item) (Some i)
    \<and> si_status i = ReviewPending \<and> si_approved_revision_hash i = []
    \<and> (\<forall>k. k \<noteq> dp_voucher_key patch \<longrightarrow> dget (vs_items s') k = dget (vs_items s) k)"
proof -
  have m: "mutate_voucher_status ld now fresh (decide c now patch catalogs)
      (Some (dp_expected_store_revision patch)) f = Inr (f', s', i)"
    using assms by (auto simp: apply_voucher_decision_def split: if_splits)
  then obtain s where s: "ld f = Inr s"
    and st: "mutate_store now fresh (decide c now patch catalogs) (Some (dp_expected_store_revision patch)) s = Inr (s', i)"
    and f': "f' = (if s' = s then f else store_to_file s')"
    by (auto simp: mutate_voucher_status_def res_bind_eq_Inr)
  have rev: "vs_revision s = dp_expected_store_revision patch" using st by (auto simp: mutate_store_Inr)
  obtain items batches where d: "decide c now patch catalogs s = Inr (Changed items batches i)"
    and s': "s' = write_store_unlocked now fresh s items batches no_args None"
    using st decide_Inr by (fastforce simp: mutate_store_Inr)
  have "vs_revision s' \<noteq> vs_revision s" by (simp add: s')
  then have "f' = store_to_file s'" using f' by auto
  then show ?thesis
    using s rev decide_Inr [OF d] decide_item_step [OF d] by (auto simp: s')
qed

text \<open>A draft with that source line, for the witness: its templates name an account for each role.\<close>

definition sample_draft_snapshot :: "string \<Rightarrow> vdict" where
  "sample_draft_snapshot h = [(''source_lines'', VList [VNone]),
     (''line_decision_templates'', VList (map (\<lambda>role. VDict [(''line_id'', VStr (template_line_id sample_source role))])
        [''cost'', ''input_tax'', ''payable''])),
     (''proposal_revision_hash'', VStr h)]"

definition sample_decision_codec :: decision_codec where
  "sample_decision_codec = \<lparr>vsource = (\<lambda>v. Some sample_source),
     vdecision = (\<lambda>v. Some (sample_decision\<lparr>ld_line_id := gets v ''line_id''\<rparr>)),
     vdraft = (\<lambda>d. Some (new_voucher_draft [] [] [] [] [] True ''manual_confirmed'' []))\<rparr>"

definition sample_hash :: string where
  "sample_hash = (case proposal_revision_hash (sample_draft_snapshot []) of Inl e \<Rightarrow> [] | Inr h \<Rightarrow> h)"

definition sample_patch :: voucher_decision_patch where
  "sample_patch = \<lparr>dp_voucher_key = ''k'', dp_expected_store_revision = 4,
     dp_expected_proposal_revision_hash = sample_hash, dp_command_id = ''x'', dp_decided_by = ''x'',
     dp_business_class = ''period_expense'', dp_payment_state = ''unknown'', dp_payment_evidence_refs = [],
     dp_tax_treatment = ''deductible'', dp_tax_evidence_refs = [], dp_receiving_state = ''not_applicable'',
     dp_receiving_evidence_refs = [], dp_project_allocations = [sample_allocation], dp_lines = []\<rparr>"

definition typed_field :: "vdict \<Rightarrow> string \<Rightarrow> bool" where
  "typed_field p k \<longleftrightarrow> (case get_val p k of VNone \<Rightarrow> True | VList xs \<Rightarrow> True | _ \<Rightarrow> False)"

lemma typed_hash_total:
  assumes "list_all (typed_field p) (''rule_resolutions'' # stable_list_fields)"
    and "get_val p ''source_file_hashes'' = VNone" and "get_val p ''ledger_profile_revision'' = VNone"
  shows "\<exists>h. proposal_revision_hash p = Inr h"
proof -
  have g: "\<exists>xs. getl p k = Inr xs" if "k \<in> set (''rule_resolutions'' # stable_list_fields)" for k
  proof -
    have "typed_field p k" using assms(1) that by (auto simp: list_all_iff)
    then show ?thesis by (cases "get_val p k") (auto simp: typed_field_def getl_def)
  qed
  have "\<exists>v. list_field p k = Inr v" if "k \<in> set stable_list_fields" for k
    using g [of k] that by (auto simp: list_field_def)
  then obtain ls where ls: "res_map (list_field p) stable_list_fields = Inr ls"
    using res_map_total [of stable_list_fields "list_field p"] by blast
  obtain rs where rs: "getl p ''rule_resolutions'' = Inr rs" using g [of "''rule_resolutions''"] by auto
  show ?thesis
    by (simp add: proposal_revision_hash_def proposal_stable_def geti_or_def getd_def assms(2,3) ls rs)
qed

lemma sample_hash: "proposal_revision_hash (sample_draft_snapshot h) = Inr sample_hash"
proof -
  have "proposal_stable (sample_draft_snapshot h) = proposal_stable (sample_draft_snapshot [])"
    by (simp add: proposal_stable_def sample_draft_snapshot_def geti_or_def getd_def getl_def get_val_def gets_or_def
        list_field_def proposal_hash_version_def stable_text_fields_def stable_list_fields_def)
  then have "proposal_revision_hash (sample_draft_snapshot h) = proposal_revision_hash (sample_draft_snapshot [])"
    by (simp add: proposal_revision_hash_def)
  moreover have "\<exists>h. proposal_revision_hash (sample_draft_snapshot []) = Inr h"
    by (rule typed_hash_total)
      (simp_all add: sample_draft_snapshot_def typed_field_def get_val_def stable_list_fields_def)
  ultimately show ?thesis by (auto simp: sample_hash_def)
qed

lemma sample_line_decisions:
  "\<exists>ds. line_decisions sample_decision_codec (sample_draft_snapshot h) [] = Inr ds \<and> choose_sample ds"
proof -
  let ?d = "\<lambda>role. sample_decision\<lparr>ld_line_id := template_line_id sample_source role\<rparr>"
  let ?ds = "fold (\<lambda>role. dput (template_line_id sample_source role) (?d role)) [''cost'', ''input_tax'', ''payable''] []"
  have ne: "template_line_id sample_source role \<noteq> []" for role by (simp add: template_line_id_def)
  have "line_decisions sample_decision_codec (sample_draft_snapshot h) [] = Inr ?ds"
    by (simp add: line_decisions_def sample_draft_snapshot_def getl_def get_val_def dicts_of_def Let_def
        add_template_row_def sample_decision_codec_def gets_or_def ne)
  moreover have "choose_sample ?ds"
    by (auto simp: choose_sample_def dget_dput sample_decision_def split: if_splits)
  ultimately show ?thesis by blast
qed

lemma sample_decide:
  "\<exists>m. decide sample_decision_codec ''t1'' sample_patch sample_snapshot
     (sample_store [(''k'', (sample_item Draft)\<lparr>si_snapshot := sample_draft_snapshot sample_hash\<rparr>)]) = Inr m"
proof -
  obtain ds where ds: "line_decisions sample_decision_codec (sample_draft_snapshot sample_hash) [] = Inr ds" "choose_sample ds"
    using sample_line_decisions by blast
  obtain ls where ls: "materialize_lines [sample_source] [sample_allocation] ds ''deductible'' sample_snapshot = Inr ls"
    using sample_materialize [OF ds(2)] by blast
  obtain d c where dc: "direction_total ''debit'' ls = Inr d" "direction_total ''credit'' ls = Inr c"
    using lines_balance [OF sample_validated ls sample_bounded] by blast
  have src: "load_source_lines sample_decision_codec (sample_draft_snapshot sample_hash) = Inr [sample_source]"
    by (simp add: load_source_lines_def sample_draft_snapshot_def getl_def get_val_def sample_decision_codec_def validated_def)
  have "\<exists>h. proposal_revision_hash (dupdate (sample_draft_snapshot sample_hash)
      (decision_fields ''t1'' sample_patch as templates ls b)) = Inr h" for as templates b
    by (rule typed_hash_total)
      (simp_all add: decision_fields_def dupdate_def sample_draft_snapshot_def typed_field_def get_val_def
        stable_list_fields_def)
  then obtain h where h: "proposal_revision_hash (dupdate (sample_draft_snapshot sample_hash)
      (decision_fields ''t1'' sample_patch [sample_allocation]
        (materialized_decision_templates [sample_source] ls ds) ls (dec_eq d c))) = Inr h" by blast
  have g: "gets (sample_draft_snapshot sample_hash) ''proposal_revision_hash'' = sample_hash"
    by (simp add: sample_draft_snapshot_def gets_or_def get_val_def)
  have patch: "dp_voucher_key sample_patch = ''k''" "dp_expected_proposal_revision_hash sample_patch = sample_hash"
    "dp_project_allocations sample_patch = [sample_allocation]" "dp_lines sample_patch = []"
    "dp_tax_treatment sample_patch = ''deductible''" by (simp_all add: sample_patch_def)
  have item: "dget (vs_items (sample_store [(''k'', (sample_item Draft)\<lparr>si_snapshot := sample_draft_snapshot sample_hash\<rparr>)])) ''k''
      = Some ((sample_item Draft)\<lparr>si_snapshot := sample_draft_snapshot sample_hash\<rparr>)"
    by (simp add: sample_store_def initial_store_def)
  have v: "\<exists>x. validated (vdraft sample_decision_codec y) = Inr x" for y
    by (simp add: sample_decision_codec_def)
  show ?thesis
    using v [of "dput ''proposal_revision_hash'' (VStr h) (dupdate (sample_draft_snapshot sample_hash)
      (decision_fields ''t1'' sample_patch [sample_allocation]
        (materialized_decision_templates [sample_source] ls ds) ls (dec_eq d c)))"]
    unfolding decide_def patch item Let_def
    by (simp add: EDITABLE_STATUSES_def sample_item_def sample_hash g src sample_validated ds(1) ls dc h)
      (auto simp: validated_def)
qed

theorem decision_refines_life_witness:
  "\<exists>f' s' i. apply_voucher_decision
      (\<lambda>f. Inr (sample_store [(''k'', (sample_item Draft)\<lparr>si_snapshot := sample_draft_snapshot sample_hash\<rparr>)]))
      sample_decision_codec ''t1'' ''c2'' sample_patch sample_snapshot NoFile = Inr (f', s', i)
    \<and> si_status i = ReviewPending"
proof -
  let ?s = "sample_store [(''k'', (sample_item Draft)\<lparr>si_snapshot := sample_draft_snapshot sample_hash\<rparr>)]"
  obtain m where m: "decide sample_decision_codec ''t1'' sample_patch sample_snapshot ?s = Inr m"
    using sample_decide by blast
  then obtain items batches i where "m = Changed items batches i" using decide_Inr [OF m] by blast
  then have st: "mutate_store ''t1'' ''c2'' (decide sample_decision_codec ''t1'' sample_patch sample_snapshot) (Some 4) ?s
      = Inr (write_store_unlocked ''t1'' ''c2'' ?s items batches no_args None, i)"
    using m by (auto simp: mutate_store_Inr migration_required_def sample_store_def initial_store_def)
  have patch: "strip (dp_command_id sample_patch) \<noteq> []" "strip (dp_decided_by sample_patch) \<noteq> []"
    "dp_expected_store_revision sample_patch = 4"
    by (simp_all add: sample_patch_def sample_texts_present)
  have "\<exists>f' s'. apply_voucher_decision (\<lambda>f. Inr ?s) sample_decision_codec ''t1'' ''c2'' sample_patch sample_snapshot NoFile
      = Inr (f', s', i)"
    by (simp add: apply_voucher_decision_def patch mutate_voucher_status_def st)
  then show ?thesis using decision_refines_life by blast
qed

end
