(* ===== verification/Draft_Checks.thy ===== *)
theory Draft_Checks
  imports Draft_Groups Decision_Balance
begin

text \<open>
  What a generated draft promises. A draft of the tier \<open>auto\<close> comes from rows that passed every
  check of the generator (\<open>auto_drafts_are_checked\<close>), a draft whose balance flag is set balances in
  exact arithmetic and books the amounts of its source lines (\<open>flagged_drafts_balance\<close>), and the
  evidence digest of a source line is that of a file inside the source directory
  (\<open>evidence_stays_inside\<close>).
\<close>

section \<open>Amounts of a row\<close>

text \<open>A written amount: a sign or none, digits, and digits after a point, of which one group may be missing.\<close>

definition legal_amount :: "string \<Rightarrow> bool" where
  "legal_amount t \<longleftrightarrow> (\<exists>sign whole part. sign \<in> {[], ''+'', ''-''} \<and> list_all is_digit whole \<and> list_all is_digit part
     \<and> (whole \<noteq> [] \<or> part \<noteq> []) \<and> ascii_digits t = sign @ whole @ (if part = [] then [] else CHR ''.'' # part))"

lemma is_amount_legal:
  assumes "is_amount t" shows "legal_amount t"
proof -
  define s where "s = ascii_digits t"
  define signed where "signed \<longleftrightarrow> s \<noteq> [] \<and> hd s \<in> {CHR ''+'', CHR ''-''}"
  define sign where "sign = (if signed then [hd s] else [])"
  define u where "u = (if signed then tl s else s)"
  have s: "s = sign @ u" "sign \<in> {[], ''+'', ''-''}" by (auto simp: sign_def u_def signed_def)
  have whole: "list_all is_digit (takeWhile is_digit u)" by (auto simp: list_all_iff dest: set_takeWhileD)
  have u: "u = takeWhile is_digit u @ dropWhile is_digit u" by simp
  have "takeWhile is_digit u \<noteq> [] \<and> dropWhile is_digit u = []
    \<or> (\<exists>part. dropWhile is_digit u = CHR ''.'' # part \<and> part \<noteq> [] \<and> list_all is_digit part)"
    using assms unfolding is_amount_def Let_def s_def [symmetric] signed_def [symmetric] u_def [symmetric]
    by (cases "dropWhile is_digit u") auto
  then obtain part where "list_all is_digit part" "takeWhile is_digit u \<noteq> [] \<or> part \<noteq> []"
    "u = takeWhile is_digit u @ (if part = [] then [] else CHR ''.'' # part)"
  proof (elim disjE exE conjE)
    assume some: "takeWhile is_digit u \<noteq> []" and none: "dropWhile is_digit u = []"
    have "u = takeWhile is_digit u" using u unfolding none append_Nil2 .
    then show ?thesis using some by (intro that [of "[]"]) (simp_all only: list.pred_inject append_Nil2 if_True simp_thms)
  next
    fix part assume "dropWhile is_digit u = CHR ''.'' # part" "part \<noteq> []" "list_all is_digit part"
    then show ?thesis using u by (intro that [of part]) simp_all
  qed
  then show ?thesis
    unfolding legal_amount_def s_def [symmetric] using s whole by metis
qed

definition cell_amount :: "vdict \<Rightarrow> string \<Rightarrow> dec" where
  "cell_amount row field = (case parse_decimal (plain_amount (get_val row field)) of None \<Rightarrow> dec_zero | Some d \<Rightarrow> d)"

lemma row_money_clean:
  assumes "row_money v f i = (d, [])"
  shows "parse_decimal (plain_amount v) = Some d" and "is_finite d" and "0 \<le> dval d" and "legal_amount (plain_amount v)"
proof -
  have "is_amount (plain_amount v)"
    using assms by (auto simp: row_money_def Let_def split: if_splits)
  then show "legal_amount (plain_amount v)" by (rule is_amount_legal)
  show p: "parse_decimal (plain_amount v) = Some d" and fin: "is_finite d"
    using assms by (auto simp: row_money_def Let_def split: if_splits option.splits)
  have "\<not> dec_less d dec_zero"
    using assms by (auto simp: row_money_def Let_def split: if_splits option.splits)
  then show "0 \<le> dval d" using dec_less_dval [OF fin, of dec_zero] by (simp add: dint_def)
qed

lemma row_money_finite: "is_finite (fst (row_money v f i))"
  by (auto simp: row_money_def Let_def split: option.splits)

lemma parse_decimal_Nil [simp]: "parse_decimal [] = None"
  by (simp add: parse_decimal_def ascii_digits_def ascii_def)

lemma money_text_amount:
  assumes "money_text d = Inr t" and "is_finite d" and "0 \<le> dval d"
  shows "proper_amount t" and "\<exists>e. as_decimal t = Inr e \<and> money t g = Inr e" and "t \<noteq> []"
proof -
  obtain s c e where d: "d = Fin s c e" using assms(2) by (cases d) auto
  obtain q where q: "quantize_cent round_half_up d = Inr q" and t: "t = format_f q"
    using assms(1) by (auto simp: money_text_def res_bind_eq_Inr)
  from quantize_cent_shape [OF q [unfolded d]] obtain c' where q': "q = Fin s c' (-2)" and c': "c' < prec_bound" by blast
  have p: "parse_decimal t = Some q" unfolding t q' by (rule parse_format_f) simp
  then show "t \<noteq> []" by auto
  have m: "money t g = Inr q" for g
    using c' dec_eq_refl [of q] by (simp add: money_def p q')
  have nonneg: "0 \<le> dval q"
  proof (cases s)
    case True
    with assms(3) d have "(of_nat c :: rat) * 10 powi e \<le> 0" by (simp add: dint_def)
    moreover have "\<not> (10::rat) powi e \<le> 0" using powi_pos [of e] by (simp add: not_le)
    ultimately have "c = 0" by (simp add: mult_le_0_iff)
    then have "c' = 0" using q d q' by (auto simp: Let_def round_half_up_def split: if_splits)
    then show ?thesis by (simp add: q' dint_def)
  next
    case False
    then show ?thesis using powi_pos [of "-2"] by (simp add: q' dint_def)
  qed
  show "proper_amount t" using m nonneg by (auto simp: proper_amount_def amount_value_def p)
  show "\<exists>e. as_decimal t = Inr e \<and> money t g = Inr e"
    using m \<open>t \<noteq> []\<close> by (simp add: as_decimal_def text_or_def decimal_res_def p)
qed

lemma as_decimal_money:
  assumes "proper_amount t"
  shows "\<exists>d. as_decimal t = Inr d \<and> money t g = Inr d"
proof -
  from assms obtain d where m: "money t [] = Inr d" by (auto simp: proper_amount_def)
  then have p: "parse_decimal t = Some d" by (rule money_Inr)
  then have "t \<noteq> []" by auto
  with p have "as_decimal t = Inr d" by (simp add: as_decimal_def text_or_def decimal_res_def)
  with money_any_field [OF m, of g] show ?thesis by blast
qed

lemma side_total_direction:
  assumes "list_all (\<lambda>l. proper_amount (vl_amount l)) ls"
  shows "side_total dir ls = direction_total dir ls"
proof -
  have "res_map as_decimal ts = res_map (\<lambda>v. money v ''line amount'') ts" if "list_all proper_amount ts" for ts
    using that
  proof (induction ts)
    case (Cons t ts)
    then show ?case using as_decimal_money [of t "''line amount''"] by auto
  qed simp
  from this [of "map vl_amount (filter (\<lambda>l. vl_direction l = dir) ls)"] assms show ?thesis
    by (auto simp: side_total_def direction_total_def money_sum_def list_all_iff)
qed

section \<open>A row without reasons\<close>

text \<open>The checks that a row has passed when it gives no reason.\<close>

definition row_passes :: "nat \<times> vdict \<Rightarrow> bool" where
  "row_passes r \<longleftrightarrow>
     list_all (\<lambda>field. legal_amount (plain_amount (get_val (snd r) field))
       \<and> parse_decimal (plain_amount (get_val (snd r) field)) = Some (cell_amount (snd r) field)
       \<and> is_finite (cell_amount (snd r) field) \<and> 0 \<le> dval (cell_amount (snd r) field)) [F_PRETAX, F_TAX, F_TOTAL]
     \<and> \<not> dec_less TAIL_DIFF_LIMIT (tail_diff (cell_amount (snd r) F_PRETAX) (cell_amount (snd r) F_TAX) (cell_amount (snd r) F_TOTAL))
     \<and> clean (get_val (snd r) F_RATE) \<noteq> []"

lemma row_entry_passes:
  assumes "row_entry x hashes number seller day r = Inr e" and "dw_reasons e = []"
  shows "row_passes r" and "0 \<le> dval (dw_amount e)" "0 \<le> dval (dw_tax e)" "0 \<le> dval (dw_total e)"
    and "rr_outcome (dw_resolution e) \<noteq> ''ambiguous''"
    and "dw_rule e = Some rule \<Longrightarrow> missing_rule_accounts rule (dx_account_table x) = []"
    and "dw_amount e = cell_amount (snd r) F_PRETAX" "dw_tax e = cell_amount (snd r) F_TAX" "dw_total e = cell_amount (snd r) F_TOTAL"
proof -
  from assms(1) obtain diff where
    a: "dw_amount e = fst (row_money (get_val (snd r) F_PRETAX) F_PRETAX (fst r))"
    and b: "dw_tax e = fst (row_money (get_val (snd r) F_TAX) F_TAX (fst r))"
    and c: "dw_total e = fst (row_money (get_val (snd r) F_TOTAL) F_TOTAL (fst r))"
    and tail: "tail_reason (\<lambda>t. row_reason (fst r) (T_ROW_DIFF @ t)) (tail_diff (dw_amount e) (dw_tax e) (dw_total e)) = Inr diff"
    and reasons: "dw_reasons e = snd (row_money (get_val (snd r) F_PRETAX) F_PRETAX (fst r))
           @ snd (row_money (get_val (snd r) F_TAX) F_TAX (fst r))
           @ snd (row_money (get_val (snd r) F_TOTAL) F_TOTAL (fst r))
           @ (if clean (get_val (snd r) F_RATE) = [] then [row_reason (fst r) T_RATE_MISSING] else [])
           @ diff @ mapping_reasons (fst r) (dx_account_table x) (dw_resolution e) (dw_rule e)"
    by (rule row_entry_Inr) blast
  have clean: "row_money (get_val (snd r) F_PRETAX) F_PRETAX (fst r) = (dw_amount e, [])"
    "row_money (get_val (snd r) F_TAX) F_TAX (fst r) = (dw_tax e, [])"
    "row_money (get_val (snd r) F_TOTAL) F_TOTAL (fst r) = (dw_total e, [])"
    using assms(2) reasons a b c by (simp_all add: prod_eq_iff)
  show "0 \<le> dval (dw_amount e)" "0 \<le> dval (dw_tax e)" "0 \<le> dval (dw_total e)"
    using clean row_money_clean(3) by blast+
  have "diff = []" using assms(2) reasons by simp
  with tail have "\<not> dec_less TAIL_DIFF_LIMIT (tail_diff (dw_amount e) (dw_tax e) (dw_total e))"
    by (auto simp: tail_reason_def res_bind_eq_Inr split: if_splits)
  moreover have "clean (get_val (snd r) F_RATE) \<noteq> []" using assms(2) reasons by (auto split: if_splits)
  moreover show cells: "dw_amount e = cell_amount (snd r) F_PRETAX" "dw_tax e = cell_amount (snd r) F_TAX"
      "dw_total e = cell_amount (snd r) F_TOTAL"
    using row_money_clean(1) [OF clean(1)] row_money_clean(1) [OF clean(2)] row_money_clean(1) [OF clean(3)] by (simp_all add: cell_amount_def)
  ultimately show "row_passes r"
    using row_money_clean [OF clean(1)] row_money_clean [OF clean(2)] row_money_clean [OF clean(3)] by (simp add: row_passes_def)
  have m: "mapping_reasons (fst r) (dx_account_table x) (dw_resolution e) (dw_rule e) = []"
    using assms(2) reasons by simp
  then show "rr_outcome (dw_resolution e) \<noteq> ''ambiguous''" by (auto simp: mapping_reasons_def split: if_splits)
  show "missing_rule_accounts rule (dx_account_table x) = []" if "dw_rule e = Some rule"
    using m that by (simp add: mapping_reasons_def)
qed

section \<open>The lines of a row\<close>

lemma source_voucher_line_Inr:
  assumes "source_voucher_line s role dir summary code acct aux allocs d = Inr l"
    and "is_finite d" and "0 \<le> dval d"
  shows "vl_direction l = dir" "money_text d = Inr (vl_amount l)" "proper_amount (vl_amount l)"
  using assms money_text_amount(1) by (auto simp: source_voucher_line_def res_bind_eq_Inr)

lemma money_text_fixed:
  assumes "money_text d = Inr t" and "is_finite d" and "as_decimal t = Inr e"
  shows "money_text e = Inr t" and "is_finite e" and "dval e = amount_value t"
proof -
  obtain s c x where d: "d = Fin s c x" using assms(2) by (cases d) auto
  obtain q where q: "quantize_cent round_half_up d = Inr q" and t: "t = format_f q"
    using assms(1) by (auto simp: money_text_def res_bind_eq_Inr)
  from quantize_cent_shape [OF q [unfolded d]] obtain c' where q': "q = Fin s c' (-2)" and c': "c' < prec_bound" by blast
  have p: "parse_decimal t = Some q" unfolding t q' by (rule parse_format_f) simp
  then have "t \<noteq> []" by auto
  with p assms(3) have e: "e = q" by (simp add: as_decimal_def text_or_def decimal_res_def)
  show "money_text e = Inr t" using c' by (simp add: e q' t money_text_def del: format_f.simps)
  show "is_finite e" by (simp add: e q')
  show "dval e = amount_value t" by (simp add: amount_value_def p e)
qed

lemma row_lines_booked:
  assumes "row_entry x hashes number seller day r = Inr e" and "dw_reasons e = []"
  shows "list_all (\<lambda>l. proper_amount (vl_amount l)) (dw_lines e)"
    and "booked ''debit'' (dw_lines e) = amount_value (sl_pretax_amount (dw_source e)) + amount_value (sl_tax_amount (dw_source e))"
    and "booked ''credit'' (dw_lines e) = amount_value (sl_total_amount (dw_source e))"
proof -
  from assms(1) obtain pt tt ft where
    src: "dw_source e = source_line_of hashes number seller (fst r) (snd r) pt tt ft"
    and m: "money_text (dw_amount e) = Inr pt" "money_text (dw_tax e) = Inr tt" "money_text (dw_total e) = Inr ft"
    and fin: "is_finite (dw_amount e)" "is_finite (dw_tax e)" "is_finite (dw_total e)"
    and ls: "voucher_lines_for_source (dw_source e) (dw_allocation e) number
       (row_accounts (dx_account_required_aux x) (dx_account_table x) (dw_rule e)) = Inr (dw_lines e)"
    by (rule row_entry_Inr) (metis row_money_finite)
  have texts: "sl_pretax_amount (dw_source e) = pt" "sl_tax_amount (dw_source e) = tt" "sl_total_amount (dw_source e) = ft"
    by (simp_all add: src source_line_of_def Let_def)
  note nonneg = row_entry_passes(2-4) [OF assms]
  note proper = money_text_amount(1) [OF m(1) fin(1) nonneg(1)] money_text_amount(1) [OF m(2) fin(2) nonneg(2)]
    money_text_amount(1) [OF m(3) fin(3) nonneg(3)]
  obtain a b c where abc: "as_decimal pt = Inr a" "as_decimal tt = Inr b" "as_decimal ft = Inr c"
    using as_decimal_money proper by metis
  note A = money_text_fixed [OF m(1) fin(1) abc(1)] and B = money_text_fixed [OF m(2) fin(2) abc(2)]
    and C = money_text_fixed [OF m(3) fin(3) abc(3)]
  have pos: "0 \<le> dval a" "0 \<le> dval b" "0 \<le> dval c"
    using A(3) B(3) C(3) proper by (simp_all add: proper_amount_def)
  let ?la = "row_accounts (dx_account_required_aux x) (dx_account_table x) (dw_rule e)"
  let ?line = "source_voucher_line (dw_source e)"
  obtain summary cost taxes payable where
    cost: "?line ''cost'' ''debit'' summary (la_debit_code ?la) (la_debit_name ?la) (la_cost_aux ?la)
        [pa_allocation_id (dw_allocation e)] a = Inr cost"
    and taxes: "(if dec_eq b dec_zero then Inr [] else res_bind (?line ''input_tax'' ''debit'' summary (la_tax_code ?la)
        (la_tax_name ?la) (la_tax_aux ?la) [] b) (\<lambda>l. Inr [l])) = Inr taxes"
    and payable: "?line ''payable'' ''credit'' summary (la_credit_code ?la) (la_credit_name ?la) (la_credit_aux ?la) [] c = Inr payable"
    and all: "dw_lines e = cost # taxes @ [payable]"
    using ls by (auto simp: voucher_lines_for_source_def texts abc res_bind_eq_Inr Let_def)
  note cost' = source_voucher_line_Inr [OF cost A(2) pos(1)] and pay' = source_voucher_line_Inr [OF payable C(2) pos(3)]
  have tax': "list_all (\<lambda>l. proper_amount (vl_amount l)) taxes \<and> booked ''debit'' taxes = amount_value tt
      \<and> booked ''credit'' taxes = 0"
  proof (cases "dec_eq b dec_zero")
    case True
    then have "dval b = 0" using dec_eq_dval [OF B(2), of dec_zero] by (simp add: dint_def)
    with True taxes B(3) show ?thesis by (simp add: booked_def)
  next
    case False
    with taxes obtain l where l: "taxes = [l]" "?line ''input_tax'' ''debit'' summary (la_tax_code ?la)
        (la_tax_name ?la) (la_tax_aux ?la) [] b = Inr l"
      by (auto simp: res_bind_eq_Inr)
    note source_voucher_line_Inr [OF l(2) B(2) pos(2)]
    with B(1) l(1) show ?thesis by (simp add: booked_def)
  qed
  show "list_all (\<lambda>l. proper_amount (vl_amount l)) (dw_lines e)"
    using cost'(3) pay'(3) tax' by (simp add: all)
  show "booked ''debit'' (dw_lines e) = amount_value (sl_pretax_amount (dw_source e)) + amount_value (sl_tax_amount (dw_source e))"
    "booked ''credit'' (dw_lines e) = amount_value (sl_total_amount (dw_source e))"
    using cost' pay' tax' A(1) C(1) by (simp_all add: all texts booked_Cons)
qed

section \<open>Drafts\<close>

text \<open>What a draft of the result is made from.\<close>

lemma generated_draft:
  assumes "generate_voucher_drafts rows account_table x = Inr drafts" and "d \<in> set drafts"
  obtains x' number anchor rs entries totals debit credit matched fingerprints h where
    "rs \<noteq> []" "set rs \<subseteq> set (enumerate 1 rows)"
    "dx_source_dir x' = dx_source_dir x" "dx_account_table x' = normalize_account_table account_table"
    "res_map (row_entry x' (source_file_hashes rs (dx_source_dir x')) number (group_seller rs) (group_date rs)) rs
       = Inr entries"
    "tail_reason (\<lambda>t. T_TOTAL_DIFF @ t)
       (tail_diff (dec_sum (map dw_amount entries) dec_zero) (dec_sum (map dw_tax entries) dec_zero)
         (dec_sum (map dw_total entries) dec_zero)) = Inr totals"
    "side_total ''debit'' (concat (map dw_lines entries)) = Inr debit"
    "side_total ''credit'' (concat (map dw_lines entries)) = Inr credit"
    "d = (assembled_draft x' number anchor (source_file_hashes rs (dx_source_dir x')) (group_seller rs) (group_date rs)
        entries (group_reasons number rs @ concat (map dw_reasons entries) @ totals)
        (group_reasons number rs @ concat (map dw_reasons entries) @ totals = [] \<and> dec_eq debit credit)
        matched fingerprints)\<lparr>dr_proposal_revision_hash := h\<rparr>"
    "number = first_non_empty (map (\<lambda>r. get_val (snd r) F_INVOICE_NO) rs)"
    "dx_rules x' = dx_rules x" "\<exists>key. \<forall>r\<in>set rs. row_key (dx_source_dir x) r = key"
proof -
  from drafts_of_groups [OF assms(1)] obtain x' where
    gen: "res_map (draft_of_key x') (group_rows (dx_source_dir x) rows) = Inr drafts"
    and x': "dx_source_dir x' = dx_source_dir x" "dx_account_table x' = normalize_account_table account_table"
      "dx_rules x' = dx_rules x" by metis
  from res_map_Inr_set [OF gen assms(2)] obtain g where
    g: "g \<in> set (group_rows (dx_source_dir x) rows)" "draft_of_key x' g = Inr d" by blast
  then have rs: "snd g \<noteq> []" "set (snd g) \<subseteq> set (enumerate 1 rows)"
    by (auto simp: group_rows_grouped grouped_def filter_empty_conv)
  have key: "\<exists>key. \<forall>r\<in>set (snd g). row_key (dx_source_dir x) r = key"
    using g(1) by (auto simp: group_rows_grouped grouped_def)
  from g(2) show ?thesis
    unfolding draft_of_key_def by (rule draft_from_group_Inr) (rule that [OF rs x'(1,2) _ _ _ _ _ refl x'(3) key]; assumption)
qed

lemma all_rows_entry:
  assumes "res_map f rs = Inr entries"
  shows "r \<in> set rs \<Longrightarrow> \<exists>e\<in>set entries. f r = Inr e" and "e \<in> set entries \<Longrightarrow> \<exists>r\<in>set rs. f r = Inr e"
proof -
  show "\<exists>e\<in>set entries. f r = Inr e" if "r \<in> set rs"
    using that res_map_Inr_nth [OF assms] res_map_Inr_length [OF assms] by (metis in_set_conv_nth)
  show "e \<in> set entries \<Longrightarrow> \<exists>r\<in>set rs. f r = Inr e" using res_map_Inr_set [OF assms] by blast
qed

lemma one_seller:
  assumes "\<not> 1 < length (group_sellers rs)" and "r \<in> set rs"
  shows "clean (get_val (snd r) F_SELLER) \<in> {[], group_seller rs}"
proof (cases "clean (get_val (snd r) F_SELLER) = []")
  case False
  let ?ts = "filter (\<lambda>t. t \<noteq> []) (map (\<lambda>r. clean (get_val (snd r) F_SELLER)) rs)"
  from False assms(2) have in_ts: "clean (get_val (snd r) F_SELLER) \<in> set ?ts" by auto
  then obtain t ts where ts: "?ts = t # ts" by (cases ?ts) auto
  have g: "group_seller rs = t"
    using ts by (simp add: group_seller_def first_non_empty_def comp_def)
  have "length (dedup ?ts) \<le> 1" using assms(1) by (simp add: group_sellers_def)
  then obtain a where "set (dedup ?ts) \<subseteq> {a}"
    by (cases "dedup ?ts") (auto simp del: set_dedup)
  then have "set ?ts \<subseteq> {a}" by (simp only: set_dedup)
  with in_ts ts g show ?thesis by auto
qed simp

lemma first_non_empty_in:
  assumes "first_non_empty vs \<noteq> []" shows "\<exists>v\<in>set vs. clean v = first_non_empty vs"
proof -
  obtain t ts where ts: "filter (\<lambda>t. t \<noteq> []) (map clean vs) = t # ts"
    using assms by (auto simp: first_non_empty_def split: list.splits)
  then have "t \<in> set (filter (\<lambda>t. t \<noteq> []) (map clean vs))" by simp
  then have "t \<in> clean ` set vs" by auto
  moreover have "first_non_empty vs = t" using ts by (simp add: first_non_empty_def)
  ultimately show ?thesis by auto
qed

lemma one_number:
  assumes number: "number = first_non_empty (map (\<lambda>r. get_val (snd r) F_INVOICE_NO) rs)" "number \<noteq> []"
    and key: "\<forall>r\<in>set rs. row_key dir r = key" and r: "r \<in> set rs"
  shows "row_invoice_no r = number \<or> row_invoice_no r = [] \<and> take 5 number = ''weak:''"
proof -
  have "\<exists>r0\<in>set rs. row_invoice_no r0 = number"
    using first_non_empty_in [of "map (\<lambda>r. get_val (snd r) F_INVOICE_NO) rs"] number by (simp add: row_invoice_no_def)
  then obtain r0 where r0: "r0 \<in> set rs" "row_invoice_no r0 = number" by blast
  then have "key = number" using key number(2) by (force simp: row_key_def text_or_def)
  with key r have "row_key dir r = number" by simp
  then show ?thesis by (auto simp: row_key_def text_or_def split: if_splits)
qed

text \<open>What the resolution of a line promises: a rule of the given rules, active and in scope, preferred among
  those that apply, with its accounts in the account table.\<close>

definition matched_by :: "account_mapping_rule list \<Rightarrow> match_context \<Rightarrow> string dict \<Rightarrow> voucher_rule_resolution \<Rightarrow> bool" where
  "matched_by rules c accounts res \<longleftrightarrow> (\<exists>rule. rr_outcome res = ''matched'' \<and> rr_rule_id res = ru_rule_id rule
     \<and> (\<exists>r\<in>set rules. normalized_rule r = Inr rule) \<and> ru_activation_state rule = ''active'' \<and> scope_matches c rule
     \<and> (\<forall>ns day. normalized_rules rules = Inr ns \<and> normalized_iso_date (mc_effective_date c) ''effective_date'' = Inr day
          \<longrightarrow> preferred (applicable ns c day) rule)
     \<and> accounts \<noteq> []
     \<and> (\<forall>code\<in>{ru_debit_account_code rule, ru_credit_account_code rule, ru_tax_account_code rule}.
          strip code = [] \<or> dhas accounts (strip code)))"

definition row_context :: "voucher_draft \<Rightarrow> vdict \<Rightarrow> match_context" where
  "row_context d row = \<lparr>mc_seller = dr_counterparty_name d, mc_internal_project = clean (get_val row F_PROJECT),
     mc_source_type = ''purchase_invoice'', mc_item = row_item row, mc_effective_date = dr_voucher_date d\<rparr>"

lemma select_rule_in: "select_rule xs = Inr (Some rule) \<Longrightarrow> rule \<in> set xs"
  using select_rule_preferred [of xs] select_rule_unfold [of xs]
  by (cases "xs = []") (auto simp: select_rule_def preferred_def split: if_splits)

lemma res_filter_in: "res_filter f xs = Inr ys \<Longrightarrow> y \<in> set ys \<Longrightarrow> y \<in> set xs \<and> f y = Inr True"
  by (induction xs arbitrary: ys) (auto simp: res_bind_eq_Inr split: if_splits)

lemma resolved_rule:
  assumes res: "resolve_account_mapping rules l c = Inr (res, Some rule)" and accounts: "missing_rule_accounts rule accounts = []"
  shows "matched_by rules c accounts res"
proof -
  obtain m where m: "match_rules rules c = Inr (Some m)" and n: "normalized_rule m = Inr rule"
    and res': "rr_outcome res = ''matched''" "rr_rule_id res = ru_rule_id rule"
    using res by (auto simp: resolve_account_mapping_def Let_def res_bind_eq_Inr split: sum.splits exc.splits option.splits)
  obtain ns ms where ns: "res_map normalized_rule rules = Inr ns" "res_filter (rule_applies_to_context c) ns = Inr ms" "select_rule ms = Inr (Some m)"
    using m by (auto simp: match_rules_def res_bind_eq_Inr)
  note in_ns = res_filter_in [OF ns(2) select_rule_in [OF ns(3)]]
  from res_map_Inr_set [OF ns(1)] in_ns obtain r where r: "r \<in> set rules" "normalized_rule r = Inr m" by blast
  have "rule = m" using normalized_rule_normal [OF r(2)] n by (simp add: rule_normal_def)
  note r = r [folded this] and in_ns = in_ns [folded this]
  have applies: "ru_activation_state rule = ''active''" "scope_matches c rule"
    using in_ns n \<open>rule = m\<close> by (auto simp: rule_applies_to_context_def res_bind_eq_Inr split: if_splits)
  have "preferred (applicable ns' c day) rule"
    if "normalized_rules rules = Inr ns'" "normalized_iso_date (mc_effective_date c) ''effective_date'' = Inr day" for ns' day
    using resolution_outcome [OF that, of l] res by auto
  moreover have "accounts \<noteq> []" "\<forall>code\<in>{ru_debit_account_code rule, ru_credit_account_code rule, ru_tax_account_code rule}.
      strip code = [] \<or> dhas accounts (strip code)"
    using accounts by (auto simp: missing_rule_accounts_def missing_account_def Let_def split: if_splits)
  ultimately show ?thesis unfolding matched_by_def using res' r applies by blast
qed

lemma row_entry_resolution:
  assumes "row_entry x hashes number seller day r = Inr e" and "dw_rule e = Some rule"
  shows "\<exists>l. resolve_account_mapping (dx_rules x) l \<lparr>mc_seller = seller, mc_internal_project = clean (get_val (snd r) F_PROJECT),
     mc_source_type = ''purchase_invoice'', mc_item = row_item (snd r), mc_effective_date = day\<rparr> = Inr (dw_resolution e, Some rule)"
  using assms
  by (cases "row_money (get_val (snd r) F_PRETAX) F_PRETAX (fst r)";
      cases "row_money (get_val (snd r) F_TAX) F_TAX (fst r)";
      cases "row_money (get_val (snd r) F_TOTAL) F_TOTAL (fst r)")
    (auto simp: row_entry_def Let_def res_bind_eq_Inr source_line_of_def)

text \<open>C26: A draft of the tier \<open>auto\<close> has passed every check of the generator. It comes from rows of the index
  that carry its invoice number (but for a number that reads like the key of a row without one, and rows without
  one) and no other seller than its own. The three amounts of each row are written as a sign, digits and a decimal
  part, are finite and not negative, and agree to a cent, and a tax rate is given; so do the sums of the amounts
  over all rows agree to a cent. Each row has been resolved to a rule of the given rules that is active, has the
  row in its scope and, for rules as the store keeps them, is preferred by the specification of the matching; its
  accounts are in the account table. Such a draft still needs a review.\<close>

theorem auto_drafts_are_checked:
  assumes "generate_voucher_drafts rows account_table x = Inr drafts" and "d \<in> set drafts"
    and "dr_review_tier d = ''auto''"
  shows "\<exists>rs number. rs \<noteq> [] \<and> set rs \<subseteq> set (enumerate 1 rows) \<and> source_rows_of d = map (\<lambda>r. int (fst r)) rs
    \<and> list_all row_passes rs
    \<and> \<not> dec_less TAIL_DIFF_LIMIT (tail_diff (dec_sum (map (\<lambda>r. cell_amount (snd r) F_PRETAX) rs) dec_zero)
         (dec_sum (map (\<lambda>r. cell_amount (snd r) F_TAX) rs) dec_zero) (dec_sum (map (\<lambda>r. cell_amount (snd r) F_TOTAL) rs) dec_zero))
    \<and> (\<forall>r\<in>set rs. clean (get_val (snd r) F_SELLER) \<in> {[], dr_counterparty_name d})
    \<and> dr_source_invoice_nos d = [number] \<and> number \<noteq> [] \<and> dr_key_strength d = ''strong''
    \<and> (\<forall>r\<in>set rs. clean (get_val (snd r) F_INVOICE_NO) = number
         \<or> clean (get_val (snd r) F_INVOICE_NO) = [] \<and> take 5 number = ''weak:'')
    \<and> list_all2 (\<lambda>r. matched_by (dx_rules x) (row_context d (snd r)) (normalize_account_table account_table)) rs (dr_rule_resolutions d)
    \<and> dr_execution_readiness d = ''needs_review''"
proof -
  from generated_draft [OF assms(1,2)] obtain x' number anchor rs entries totals ok matched fps h where
    rs: "rs \<noteq> []" "set rs \<subseteq> set (enumerate 1 rows)"
    and x': "dx_account_table x' = normalize_account_table account_table" "dx_rules x' = dx_rules x"
    and rows: "res_map (row_entry x' (source_file_hashes rs (dx_source_dir x')) number (group_seller rs) (group_date rs)) rs
      = Inr entries"
    and totals: "tail_reason (\<lambda>t. T_TOTAL_DIFF @ t) (tail_diff (dec_sum (map dw_amount entries) dec_zero)
      (dec_sum (map dw_tax entries) dec_zero) (dec_sum (map dw_total entries) dec_zero)) = Inr totals"
    and d: "d = (assembled_draft x' number anchor (source_file_hashes rs (dx_source_dir x')) (group_seller rs) (group_date rs)
        entries (group_reasons number rs @ concat (map dw_reasons entries) @ totals) ok matched fps)
        \<lparr>dr_proposal_revision_hash := h\<rparr>"
    and no: "number = first_non_empty (map (\<lambda>r. get_val (snd r) F_INVOICE_NO) rs)"
    and key: "\<exists>key. \<forall>r\<in>set rs. row_key (dx_source_dir x) r = key" by metis
  let ?reasons = "group_reasons number rs @ concat (map dw_reasons entries) @ totals"
  have tier: "?reasons = []" "\<not> list_ex (\<lambda>e. dw_rule e = None) entries"
    using assms(3) by (auto simp: d review_tier_of_def split: if_splits)
  then have clean: "dw_reasons e = []" "\<exists>rule. dw_rule e = Some rule" if "e \<in> set entries" for e
    using that by (auto simp: list_ex_iff)
  have g: "group_reasons number rs = []" "totals = []" using tier(1) by simp_all
  then have number: "number \<noteq> []" and sellers: "\<not> 1 < length (group_sellers rs)"
    by (auto simp: group_reasons_def split: if_splits)
  note len = res_map_Inr_length [OF rows] and nth = res_map_Inr_nth [OF rows]
  have entry: "row_passes (rs ! i)" "dw_amount (entries ! i) = cell_amount (snd (rs ! i)) F_PRETAX"
      "dw_tax (entries ! i) = cell_amount (snd (rs ! i)) F_TAX" "dw_total (entries ! i) = cell_amount (snd (rs ! i)) F_TOTAL"
    if i: "i < length rs" for i
    using row_entry_passes [OF nth [OF i]] clean(1) [of "entries ! i"] i len by simp_all
  have passes: "list_all row_passes rs" using entry(1) by (simp add: list_all_length)
  have sums: "map dw_amount entries = map (\<lambda>r. cell_amount (snd r) F_PRETAX) rs" "map dw_tax entries = map (\<lambda>r. cell_amount (snd r) F_TAX) rs"
      "map dw_total entries = map (\<lambda>r. cell_amount (snd r) F_TOTAL) rs"
    by (rule nth_equalityI; simp add: len entry)+
  have tail: "\<not> dec_less TAIL_DIFF_LIMIT (tail_diff (dec_sum (map dw_amount entries) dec_zero)
      (dec_sum (map dw_tax entries) dec_zero) (dec_sum (map dw_total entries) dec_zero))"
    using totals g(2) by (auto simp: tail_reason_def res_bind_eq_Inr split: if_splits)
  have row_no: "source_rows_of d = map (\<lambda>r. int (fst r)) rs"
  proof -
    have "sl_source_row_no (dw_source (entries ! i)) = int (fst (rs ! i))" if "i < length rs" for i
      using nth [OF that] by (rule row_entry_Inr) (simp add: source_line_of_def Let_def)
    with len show ?thesis
      by (auto simp: d source_rows_of_def intro!: nth_equalityI)
  qed
  have numbers: "\<forall>r\<in>set rs. clean (get_val (snd r) F_INVOICE_NO) = number
      \<or> clean (get_val (snd r) F_INVOICE_NO) = [] \<and> take 5 number = ''weak:''"
    using one_number [OF no number] key by (auto simp: row_invoice_no_def)
  have seller: "\<forall>r\<in>set rs. clean (get_val (snd r) F_SELLER) \<in> {[], dr_counterparty_name d}"
    using one_seller [OF sellers] by (simp add: d assembled_draft_def Let_def)
  have fields_of: "dr_source_invoice_nos d = [number]" "dr_key_strength d = ''strong''" "dr_execution_readiness d = ''needs_review''"
    "dr_rule_resolutions d = map dw_resolution entries" "dr_counterparty_name d = group_seller rs" "dr_voucher_date d = group_date rs"
    using number tier by (simp_all add: d assembled_draft_def new_voucher_draft_def Let_def review_tier_of_def)
  have "matched_by (dx_rules x) (row_context d (snd (rs ! i))) (normalize_account_table account_table) (dw_resolution (entries ! i))"
    if i: "i < length rs" for i
  proof -
    have e: "entries ! i \<in> set entries" using i len by simp
    obtain rule where rule: "dw_rule (entries ! i) = Some rule" using clean(2) [OF e] by blast
    have "missing_rule_accounts rule (normalize_account_table account_table) = []"
      using row_entry_passes(6) [OF nth [OF i] clean(1) [OF e] rule] x' by simp
    then show ?thesis
      using row_entry_resolution [OF nth [OF i] rule] resolved_rule x'(2) by (auto simp: row_context_def fields_of)
  qed
  then have "list_all2 (\<lambda>r. matched_by (dx_rules x) (row_context d (snd r)) (normalize_account_table account_table)) rs (dr_rule_resolutions d)"
    by (simp add: list_all2_conv_all_nth fields_of len)
  then show ?thesis
    using rs row_no passes tail [unfolded sums] seller fields_of(1-3) number numbers by (intro exI [of _ rs] exI [of _ number] conjI)
qed

theorem auto_drafts_are_checked_witness:
  "\<exists>d. generate_voucher_drafts [sample_row] sample_account_table sample_draft_context = Inr [d]
     \<and> dr_review_tier d = ''auto'' \<and> dr_source_invoice_nos d \<noteq> [] \<and> dr_execution_readiness d = ''needs_review''"
proof -
  from sample_index obtain d where
    d: "generate_voucher_drafts [sample_row] sample_account_table sample_draft_context = Inr [d]"
      "dr_review_tier d = ''auto''" by (elim exE conjE)
  with auto_drafts_are_checked [OF d(1) _ d(2)] show ?thesis by auto
qed

text \<open>C27: A draft whose balance flag is set balances in exact arithmetic, and it books its source lines:
  its debit lines add up to the amounts without tax and the taxes of its source lines, its credit
  lines to their totals, and the two sums are equal (as long as they are below \<open>10 ^ 26\<close>, where the
  28 digits of the decimal context hold every cent).\<close>

theorem flagged_drafts_balance:
  assumes "generate_voucher_drafts rows account_table x = Inr drafts" and "d \<in> set drafts"
    and "dr_balance_ok d" and "small (booked ''debit'' (dr_lines d))" and "small (booked ''credit'' (dr_lines d))"
  shows "booked ''debit'' (dr_lines d) = booked ''credit'' (dr_lines d)
    \<and> booked ''debit'' (dr_lines d)
        = sum_list (map (\<lambda>s. amount_value (sl_pretax_amount s) + amount_value (sl_tax_amount s)) (dr_source_lines d))
    \<and> booked ''credit'' (dr_lines d) = sum_list (map (\<lambda>s. amount_value (sl_total_amount s)) (dr_source_lines d))
    \<and> list_all (\<lambda>l. proper_amount (vl_amount l)) (dr_lines d)"
proof -
  from generated_draft [OF assms(1,2)] obtain x' number anchor rs entries totals debit credit matched fps h where
    rows: "res_map (row_entry x' (source_file_hashes rs (dx_source_dir x')) number (group_seller rs) (group_date rs)) rs
      = Inr entries"
    and sides: "side_total ''debit'' (concat (map dw_lines entries)) = Inr debit"
      "side_total ''credit'' (concat (map dw_lines entries)) = Inr credit"
    and d: "d = (assembled_draft x' number anchor (source_file_hashes rs (dx_source_dir x')) (group_seller rs) (group_date rs)
        entries (group_reasons number rs @ concat (map dw_reasons entries) @ totals)
        (group_reasons number rs @ concat (map dw_reasons entries) @ totals = [] \<and> dec_eq debit credit) matched fps)
        \<lparr>dr_proposal_revision_hash := h\<rparr>" by metis
  have lines: "dr_lines d = concat (map dw_lines entries)" "dr_source_lines d = map dw_source entries" by (simp_all add: d)
  from assms(3) have ok: "concat (map dw_reasons entries) = []" "dec_eq debit credit" by (auto simp: d)
  have booked: "list_all (\<lambda>l. proper_amount (vl_amount l)) (dw_lines e)
      \<and> booked ''debit'' (dw_lines e) = amount_value (sl_pretax_amount (dw_source e)) + amount_value (sl_tax_amount (dw_source e))
      \<and> booked ''credit'' (dw_lines e) = amount_value (sl_total_amount (dw_source e))" if e: "e \<in> set entries" for e
  proof -
    from all_rows_entry(2) [OF rows e] obtain r where
      r: "row_entry x' (source_file_hashes rs (dx_source_dir x')) number (group_seller rs) (group_date rs) r = Inr e" by blast
    have "dw_reasons e = []" using ok(1) e by auto
    from row_lines_booked [OF r this] show ?thesis by blast
  qed
  have concat: "booked dir (concat (map dw_lines es)) = sum_list (map (\<lambda>e. booked dir (dw_lines e)) es)" for dir es
    by (induction es) simp_all
  have proper: "list_all (\<lambda>l. proper_amount (vl_amount l)) (dr_lines d)"
    using booked by (fastforce simp: lines list_all_iff)
  obtain t u where t: "side_total ''debit'' (dr_lines d) = Inr t" "dval t = booked ''debit'' (dr_lines d)" "whole_cents t"
    and u: "side_total ''credit'' (dr_lines d) = Inr u" "dval u = booked ''credit'' (dr_lines d)" "whole_cents u"
    using total_of_direction [OF proper assms(4)] total_of_direction [OF proper assms(5)]
    unfolding side_total_direction [OF proper] by blast
  have "debit = t" "credit = u" using sides t(1) u(1) by (simp_all add: lines)
  then have "booked ''debit'' (dr_lines d) = booked ''credit'' (dr_lines d)"
    using ok(2) dec_eq_dval [of t u] t u by (simp add: whole_cents_def)
  moreover have "booked ''debit'' (dr_lines d)
      = sum_list (map (\<lambda>s. amount_value (sl_pretax_amount s) + amount_value (sl_tax_amount s)) (dr_source_lines d))"
    "booked ''credit'' (dr_lines d) = sum_list (map (\<lambda>s. amount_value (sl_total_amount s)) (dr_source_lines d))"
    using booked by (simp_all add: lines concat comp_def cong: map_cong)
  ultimately show ?thesis using proper by blast
qed

theorem flagged_drafts_balance_witness:
  "\<exists>d. generate_voucher_drafts [sample_row] sample_account_table sample_draft_context = Inr [d]
     \<and> dr_balance_ok d \<and> booked ''debit'' (dr_lines d) = 106 \<and> booked ''credit'' (dr_lines d) = 106"
proof -
  from sample_index obtain d where
    d: "generate_voucher_drafts [sample_row] sample_account_table sample_draft_context = Inr [d]" "dr_balance_ok d"
      and lines: "map vl_direction (dr_lines d) = [''debit'', ''debit'', ''credit'']"
        "map vl_amount (dr_lines d) = [''100.00'', ''6.00'', ''106.00'']" by (elim exE conjE)
  then obtain a b c where abc: "dr_lines d = [a, b, c]" by (auto simp: map_eq_Cons_conv)
  have "amount_value ''100.00'' = 100" "amount_value ''6.00'' = 6" "amount_value ''106.00'' = 106"
    by (simp_all add: amount_value_def sample_decimals dint_def power_int_def power2_eq_square)
  with lines have sums: "booked ''debit'' (dr_lines d) = 106" "booked ''credit'' (dr_lines d) = 106"
    by (simp_all add: abc booked_def)
  then have "small (booked ''debit'' (dr_lines d))" "small (booked ''credit'' (dr_lines d))" by (simp_all add: small_def)
  from flagged_drafts_balance [OF d(1) _ d(2) this] d sums show ?thesis by auto
qed

section \<open>Evidence\<close>

text \<open>C28: The evidence digest of a source line is never that of a file outside the source directory: a
  digest that is present is the SHA-256 of the content of a regular file whose resolved path lies
  strictly below the resolved root, whatever name the row gave (a path with \<open>..\<close>, an absolute path or
  a link out of the directory gives no digest).\<close>

theorem evidence_stays_inside:
  assumes "generate_voucher_drafts rows account_table x = Inr drafts" and "d \<in> set drafts"
    and "s \<in> set (dr_source_lines d)" and "sl_source_file_sha256 s \<noteq> []"
  shows "\<exists>tree path content. dx_source_dir x = Some tree \<and> st_resolve tree (sl_source_file s) = Some path
    \<and> (\<exists>below. below \<noteq> [] \<and> path = st_root tree @ below) \<and> st_content tree path = Some content
    \<and> sl_source_file_sha256 s = sha256 content"
proof -
  from generated_draft [OF assms(1,2)] obtain x' number anchor rs entries reasons ok matched fps h where
    dir: "dx_source_dir x' = dx_source_dir x"
    and rows: "res_map (row_entry x' (source_file_hashes rs (dx_source_dir x')) number (group_seller rs) (group_date rs)) rs
      = Inr entries"
    and d: "d = (assembled_draft x' number anchor (source_file_hashes rs (dx_source_dir x')) (group_seller rs) (group_date rs)
        entries reasons ok matched fps)\<lparr>dr_proposal_revision_hash := h\<rparr>" by metis
  from assms(3) obtain e where e: "e \<in> set entries" "s = dw_source e" by (auto simp: d)
  from all_rows_entry(2) [OF rows e(1)] obtain r where
    "row_entry x' (source_file_hashes rs (dx_source_dir x')) number (group_seller rs) (group_date rs) r = Inr e" by blast
  then have "sl_source_file_sha256 s = if_given (dget (source_file_hashes rs (dx_source_dir x)) (sl_source_file s)) []"
    by (rule row_entry_Inr) (simp add: e source_line_of_def Let_def dir)
  with assms(4) obtain tree where tree: "dx_source_dir x = Some tree"
    and sha: "sl_source_file_sha256 s = source_sha256 tree (sl_source_file s)"
    by (auto simp: source_file_hashes_def dget_tabulated if_given_def split: option.splits if_splits)
  from sha assms(4) obtain path content where p: "source_path_within tree (sl_source_file s) = Some path"
    "st_content tree path = Some content" "sl_source_file_sha256 s = sha256 content"
    by (auto simp: source_sha256_def split: option.splits)
  from p(1) have "st_resolve tree (sl_source_file s) = Some path" "path \<noteq> st_root tree"
    "take (length (st_root tree)) path = st_root tree"
    by (auto simp: source_path_within_def split: option.splits if_splits)
  moreover from this(2,3) have "\<exists>below. below \<noteq> [] \<and> path = st_root tree @ below"
    by (metis append_Nil2 append_take_drop_id)
  ultimately show ?thesis using tree p(2,3) by blast
qed

theorem evidence_stays_inside_witness:
  "\<exists>d s tree path. generate_voucher_drafts [sample_row] sample_account_table sample_draft_context = Inr [d]
     \<and> s \<in> set (dr_source_lines d) \<and> dx_source_dir sample_draft_context = Some tree
     \<and> st_resolve tree (sl_source_file s) = Some path \<and> (\<exists>below. below \<noteq> [] \<and> path = st_root tree @ below)"
proof -
  from sample_index obtain d s where
    d: "generate_voucher_drafts [sample_row] sample_account_table sample_draft_context = Inr [d]"
      "dr_source_lines d = [s]" "sl_source_file_sha256 s = sha256 ''x''" by (elim exE conjE)
  have "sl_source_file_sha256 s \<noteq> []" unfolding d(3) by simp
  from evidence_stays_inside [OF d(1) _ _ this] d show ?thesis by fastforce
qed

section \<open>Inputs that stop the generator\<close>

text \<open>
  Two cells stop the generation of all drafts with an exception, while every other malformed cell
  becomes a reason of its own draft: an amount of \<open>10 ^ 26\<close> or more, whose quantization does not
  fit the decimal context, and a date that is not in ISO form when an active rule has the row in
  its scope.
\<close>

lemma huge_amount_raises:
  assumes "prec_bound \<le> c * 10 ^ nat (e + 2)" and "-2 \<le> e"
  shows "money_text (Fin s c e) = Inl InvalidOperation"
    and "parse_decimal v = Some (Fin s c e) \<Longrightarrow> money v f = Inl InvalidOperation"
  using assms by (simp_all add: money_text_def money_def)

lemma bad_date_raises:
  "resolve_account_mapping [sample_stored_rule ''manual''] l (sample_context\<lparr>mc_effective_date := ''2024.05.01''\<rparr>)
     = Inl (ValueError ''must be an ISO date'' [''effective_date''])"
proof -
  let ?c = "sample_context\<lparr>mc_effective_date := ''2024.05.01''\<rparr>"
  have day: "normalized_iso_date ''2024.05.01'' f = Inl (ValueError ''must be an ISO date'' [f])" for f
  proof -
    have "normalize_match_text ''2024.05.01'' = ''2024.05.01''" by (simp add: normalize_solid solid_def byte_def)
    moreover have "from_iso ''2024.05.01'' = None" by (simp add: from_iso_def split_iso_def)
    ultimately show ?thesis by (simp add: normalized_iso_date_def)
  qed
  have "scope_matches ?c (sample_stored_rule ''manual'')" "ru_activation_state (sample_stored_rule ''manual'') = ''active''"
    using sample_applies [of "''manual''"] by (simp_all add: applies_def scope_matches_def)
  moreover have "normalized_rule (sample_stored_rule ''manual'') = Inr (sample_stored_rule ''manual'')"
    using normalized_rules_normal(1) [OF sample_stored_rule(2)] by (simp add: rule_normal_def)
  ultimately show ?thesis
    by (simp add: resolve_account_mapping_def match_rules_def rule_applies_to_context_def day Let_def)
qed

end
