(* ===== verification/Validation_Context.thy ===== *)
theory Validation_Context
  imports Voucher_Drafts
begin

text \<open>
  \<open>ValidationContext\<close> of \<open>bookkeeping/validator.py\<close> and the checks of a voucher that do not look at
  its lines: the catalogs and the ledger profile, the date and the period, the identity of the
  proposal and its revision hash. Each section of \<open>validate\<close> is a function that gives the blockers
  it appends, in order, or the exception it raises.

  \<open>msg\<close> is \<open>str(exc)\<close>: the texts of exceptions are not modelled. A blocker keeps its code, scope,
  field, line index and detail. The company and source directories are \<open>source_tree\<close>s; the files
  of the context do not change while it is loaded.
\<close>

section \<open>The context\<close>

record validation_context =
  vc_company_id :: string
  vc_profile :: "company_ledger_profile option"
  vc_profile_error :: string
  vc_profile_sha256 :: string
  vc_account_payload :: vdict
  vc_account_error :: string
  vc_account_table_sha256 :: string
  vc_aux_payload :: vdict
  vc_aux_error :: string
  vc_aux_catalog_sha256 :: string
  vc_binding_error :: string
  vc_catalogs :: "ledger_catalog_snapshot option"
  vc_mapping_rules_version :: string
  vc_mapping_rules :: "account_mapping_rule list"
  vc_mapping_error :: string
  vc_company_dir :: source_tree
  vc_source_dir :: source_tree
  vc_store :: voucher_status_store
  vc_facts_readiness :: vdict

record validation_files =
  vf_profile :: store_file
  vf_accounts :: store_file
  vf_auxiliary :: store_file
  vf_facts :: store_file
  vf_mapping :: "store_file option"

text \<open>The subclasses of \<open>ValueError\<close>.\<close>

fun is_value_error :: "exc \<Rightarrow> bool" where
  "is_value_error (TypeError s) = False"
| "is_value_error (KeyError s) = False"
| "is_value_error InvalidOperation = False"
| "is_value_error (RuntimeError s) = False"
| "is_value_error (FileNotFound s) = False"
| "is_value_error OSError = False"
| "is_value_error e = True"

fun is_binding_error :: "exc \<Rightarrow> bool" where
  "is_binding_error (FileNotFound s) = True"
| "is_binding_error (RuntimeError s) = True"
| "is_binding_error e = is_value_error e"

text \<open>\<open>try: ... except\<close>, with the value and the error text.\<close>

definition caught :: "(exc \<Rightarrow> bool) \<Rightarrow> (exc \<Rightarrow> string) \<Rightarrow> 'a \<Rightarrow> exc + 'a \<Rightarrow> exc + 'a \<times> string" where
  "caught catch msg dflt r =
    (case r of Inr v \<Rightarrow> Inr (v, []) | Inl e \<Rightarrow> if catch e then Inr (dflt, msg e) else Inl e)"

definition MAPPING_UNBOUND :: string where
  "MAPPING_UNBOUND = [CHR 0xE7, CHR 0xA7, CHR 0x91, CHR 0xE7, CHR 0x9B, CHR 0xAE, CHR 0xE6, CHR 0x98,
     CHR 0xA0, CHR 0xE5, CHR 0xB0, CHR 0x84, CHR 0xE6, CHR 0x9C, CHR 0xAA, CHR 0xE7, CHR 0xBB, CHR 0x91,
     CHR 0xE5, CHR 0xAE, CHR 0x9A, CHR 0xE5, CHR 0xBD, CHR 0x93, CHR 0xE5, CHR 0x89, CHR 0x8D, CHR 0xE8,
     CHR 0xB4, CHR 0xA6, CHR 0xE5, CHR 0xA5, CHR 0x97, CHR 0xE6, CHR 0x88, CHR 0x96, CHR 0xE6, CHR 0xA1,
     CHR 0xA3, CHR 0xE6, CHR 0xA1, CHR 0x88, CHR 0xE6, CHR 0x8C, CHR 0x87, CHR 0xE7, CHR 0xBA, CHR 0xB9]"

definition catalogs_binding :: "ledger_catalog_snapshot \<Rightarrow> exc + mapping_store_binding" where
  "catalogs_binding s = check_binding
     \<lparr>bd_company_id = pf_company_id (ls_profile s), bd_ledger_environment = pf_ledger_environment (ls_profile s),
      bd_ledger_identity_sha256 = pf_ledger_identity_sha256 (ls_profile s),
      bd_ledger_profile_sha256 = ls_profile_file_sha256 s,
      bd_account_table_sha256 = ls_account_file_sha256 s, bd_aux_catalog_sha256 = ls_auxiliary_file_sha256 s\<rparr>"

definition load_context_mapping ::
  "(exc \<Rightarrow> string) \<Rightarrow> (store_file \<Rightarrow> exc + account_mapping_store) \<Rightarrow> ledger_catalog_snapshot option
    \<Rightarrow> store_file option \<Rightarrow> exc + string \<times> account_mapping_rule list \<times> string" where
  "load_context_mapping msg ld_mapping catalogs mapping_file =
    (case mapping_file of
       None \<Rightarrow> Inr ([], [], [])
     | Some f \<Rightarrow>
        (case ld_mapping f of
           Inl e \<Rightarrow> if is_value_error e then Inr ([], [], msg e) else Inl e
         | Inr store \<Rightarrow> Inr (ms_rules_version store, ms_rules store,
             (case catalogs of None \<Rightarrow> []
              | Some s \<Rightarrow> (case catalogs_binding s of
                  Inl e \<Rightarrow> msg e
                | Inr b \<Rightarrow> if ms_binding store \<noteq> Some b then MAPPING_UNBOUND else [])))))"

definition dump_account_catalog_record :: "account_catalog_record \<Rightarrow> vdict" where
  "dump_account_catalog_record r =
    [(''code'', VStr (ac_code r)), (''name'', VStr (ac_name r)), (''enabled'', VBool (ac_enabled r)),
     (''is_leaf'', VBool (ac_is_leaf r)), (''balance_direction'', VStr (ac_balance_direction r)),
     (''required_aux_dimensions'', VList (map VStr (ac_required_aux_dimensions r))),
     (''quantity_enabled'', VBool (ac_quantity_enabled r)),
     (''foreign_currency_enabled'', VBool (ac_foreign_currency_enabled r))]"

definition dump_auxiliary_catalog_record :: "auxiliary_catalog_record \<Rightarrow> vdict" where
  "dump_auxiliary_catalog_record r =
    [(''dimension'', VStr (ax_dimension r)), (''value_id'', VStr (ax_value_id r)), (''code'', VStr (ax_code r)),
     (''name'', VStr (ax_name r)), (''enabled'', VBool (ax_enabled r))]"

definition load_context_profile ::
  "(exc \<Rightarrow> string) \<Rightarrow> ledger_codec \<Rightarrow> store_file \<Rightarrow> exc + (company_ledger_profile option \<times> string) \<times> string" where
  "load_context_profile msg c f = caught is_value_error msg (None, [])
     (if f = NoFile then Inr (None, [])
      else res_bind (load_ledger_profile c f) (\<lambda>p. Inr (Some p, file_sha256 f)))"

definition load_context_accounts ::
  "(exc \<Rightarrow> string) \<Rightarrow> ledger_codec \<Rightarrow> store_file \<Rightarrow> exc + (vdict \<times> string) \<times> string" where
  "load_context_accounts msg c f = caught is_value_error msg ([], [])
     (if f = NoFile then Inr ([], [])
      else res_bind (load_account_catalog c f) (\<lambda>catalog. Inr
        ([(''accounts'', VList (map (\<lambda>r. VDict (dump_account_catalog_record r)) (ae_records catalog)))],
         file_sha256 f)))"

definition load_context_auxiliary ::
  "(exc \<Rightarrow> string) \<Rightarrow> ledger_codec \<Rightarrow> store_file \<Rightarrow> exc + (vdict \<times> string) \<times> string" where
  "load_context_auxiliary msg c f = caught is_value_error msg ([], [])
     (if f = NoFile then Inr ([], [])
      else res_bind (load_auxiliary_catalog c f) (\<lambda>catalog. Inr
        ([(''records'', VList (map (\<lambda>r. VDict (dump_auxiliary_catalog_record r)) (xe_records catalog)))],
         file_sha256 f)))"

definition load_context_catalogs ::
  "(exc \<Rightarrow> string) \<Rightarrow> ledger_codec \<Rightarrow> validation_files \<Rightarrow> bool \<Rightarrow> exc + ledger_catalog_snapshot option \<times> string" where
  "load_context_catalogs msg c files all_read = caught is_binding_error msg None
     (if all_read
      then res_bind (load_bookkeeping_catalogs c (vf_profile files) (vf_accounts files) (vf_auxiliary files)
             (if vf_facts files = NoFile then None else Some (vf_facts files))
             (vf_profile files, vf_accounts files, vf_auxiliary files)) (\<lambda>s. Inr (Some s))
      else Inr None)"

definition load_validation_context ::
  "(exc \<Rightarrow> string) \<Rightarrow> ledger_codec \<Rightarrow> (store_file \<Rightarrow> exc + account_mapping_store) \<Rightarrow> validation_files
    \<Rightarrow> source_tree \<Rightarrow> source_tree \<Rightarrow> voucher_status_store \<Rightarrow> vdict \<Rightarrow> exc + validation_context" where
  "load_validation_context msg c ld_mapping fs company_dir source_dir store facts_readiness =
    res_bind (load_context_profile msg c (vf_profile fs)) (\<lambda>((profile, profile_sha256), profile_error).
    res_bind (load_context_accounts msg c (vf_accounts fs)) (\<lambda>((account_payload, account_sha256), account_error).
    res_bind (load_context_auxiliary msg c (vf_auxiliary fs)) (\<lambda>((aux_payload, aux_sha256), aux_error).
    res_bind (load_context_catalogs msg c fs
      (profile \<noteq> None \<and> account_error = [] \<and> aux_error = [] \<and> account_payload \<noteq> [] \<and> aux_payload \<noteq> []))
      (\<lambda>(catalogs, binding_error).
    res_bind (load_context_mapping msg ld_mapping catalogs (vf_mapping fs)) (\<lambda>(rules_version, rules, mapping_error).
    Inr \<lparr>vc_company_id = vs_company_id store, vc_profile = profile, vc_profile_error = profile_error,
         vc_profile_sha256 = profile_sha256, vc_account_payload = account_payload,
         vc_account_error = account_error, vc_account_table_sha256 = account_sha256,
         vc_aux_payload = aux_payload, vc_aux_error = aux_error, vc_aux_catalog_sha256 = aux_sha256,
         vc_binding_error = binding_error, vc_catalogs = catalogs, vc_mapping_rules_version = rules_version,
         vc_mapping_rules = rules, vc_mapping_error = mapping_error, vc_company_dir = company_dir,
         vc_source_dir = source_dir, vc_store = store, vc_facts_readiness = facts_readiness\<rparr>)))))"

section \<open>Blockers\<close>

definition blocker :: "string \<Rightarrow> string \<Rightarrow> string \<Rightarrow> validation_blocker" where
  "blocker code scope field_name = \<lparr>vb_code = code, vb_scope = scope, vb_field = field_name, vb_line_index = None, vb_detail = []\<rparr>"

definition line_blocker :: "string \<Rightarrow> string \<Rightarrow> nat \<Rightarrow> validation_blocker" where
  "line_blocker code field_name index = (blocker code ''line'' field_name)\<lparr>vb_line_index := Some (int index)\<rparr>"

definition error_blocker :: "string \<Rightarrow> string \<Rightarrow> string \<Rightarrow> validation_blocker" where
  "error_blocker code scope text_of_error = (blocker code scope [])\<lparr>vb_detail := [(''error'', VStr text_of_error)]\<rparr>"

definition blocks :: "bool \<Rightarrow> validation_blocker \<Rightarrow> validation_blocker list" where
  "blocks c b = (if c then [b] else [])"

definition indexed_field :: "string \<Rightarrow> nat \<Rightarrow> string" where
  "indexed_field field_name index = field_name @ ''['' @ nat_text index @ '']''"

lemma blocks_Nil [simp]: "blocks c b = [] \<longleftrightarrow> \<not> c"
  by (simp add: blocks_def)

section \<open>Ledger and profile\<close>

definition catalog_blockers :: "validation_context \<Rightarrow> validation_blocker list" where
  "catalog_blockers c =
     blocks (migration_required (vc_store c)) (blocker ''STATE_MIGRATION_REQUIRED'' ''voucher'' [])
   @ (if vc_account_error c \<noteq> [] then [error_blocker ''ACCOUNT_CATALOG_INVALID'' ''profile'' (vc_account_error c)]
      else blocks (vc_account_table_sha256 c = []) (blocker ''ACCOUNT_CATALOG_MISSING'' ''profile'' []))
   @ (if vc_aux_error c \<noteq> [] then [error_blocker ''AUX_CATALOG_INVALID'' ''profile'' (vc_aux_error c)]
      else blocks (vc_aux_catalog_sha256 c = []) (blocker ''AUX_CATALOG_MISSING'' ''profile'' []))
   @ blocks (vc_binding_error c \<noteq> []) (error_blocker ''LEDGER_CATALOG_IDENTITY_MISMATCH'' ''profile'' (vc_binding_error c))
   @ blocks (vc_mapping_error c \<noteq> []) (error_blocker ''MAPPING_BINDING_INVALID'' ''mapping'' (vc_mapping_error c))"

definition required_profile_fields :: "company_ledger_profile \<Rightarrow> (string \<times> string) list" where
  "required_profile_fields p =
    [(''company_name'', pf_company_name p), (''company_tax_id'', pf_company_tax_id p),
     (''ledger_environment'', pf_ledger_environment p), (''ledger_instance_key'', pf_ledger_instance_key p),
     (''ledger_name'', pf_ledger_name p), (''accounting_standard'', pf_accounting_standard p),
     (''taxpayer_profile'', pf_taxpayer_profile p), (''default_voucher_type'', pf_default_voucher_type p)]"

definition profile_blockers ::
  "validation_context \<Rightarrow> vdict \<Rightarrow> company_ledger_profile \<Rightarrow> exc + validation_blocker list" where
  "profile_blockers c snapshot p =
    res_bind (geti_or snapshot ''ledger_profile_revision'' 0) (\<lambda>revision. Inr
     (concat (map (\<lambda>(k, v). blocks (strip v = []) (blocker ''LEDGER_PROFILE_FIELD_MISSING'' ''profile'' k))
        (required_profile_fields p))
    @ blocks (strip (pf_confirmed_by p) = [] \<or> strip (pf_confirmed_at p) = [])
        (blocker ''LEDGER_PROFILE_UNCONFIRMED'' ''profile'' [])
    @ blocks (\<not> pf_voucher_write_permission_confirmed p)
        (blocker ''VOUCHER_WRITE_PERMISSION_UNCONFIRMED'' ''profile'' [])
    @ blocks (pf_company_id p \<noteq> vc_company_id c \<or> pf_company_id p \<noteq> gets snapshot ''company_id'')
        (blocker ''COMPANY_ID_MISMATCH'' ''profile'' [])
    @ blocks (vs_ledger_environment (vc_store c) \<noteq> pf_ledger_environment p
          \<or> vs_ledger_identity_sha256 (vc_store c) \<noteq> pf_ledger_identity_sha256 p
          \<or> vs_ledger_profile_sha256 (vc_store c) \<noteq> vc_profile_sha256 c)
        (blocker ''STORE_LEDGER_IDENTITY_MISMATCH'' ''profile'' [])
    @ blocks (gets snapshot ''ledger_environment'' \<noteq> pf_ledger_environment p
          \<or> gets snapshot ''ledger_identity_sha256'' \<noteq> pf_ledger_identity_sha256 p)
        (blocker ''PROPOSAL_LEDGER_IDENTITY_DRIFT'' ''profile'' [])
    @ blocks (revision \<noteq> pf_revision p) (blocker ''PROPOSAL_PROFILE_REVISION_DRIFT'' ''profile'' [])
    @ blocks (gets snapshot ''ledger_profile_sha256'' \<noteq> vc_profile_sha256 c)
        (blocker ''PROPOSAL_PROFILE_HASH_DRIFT'' ''profile'' [])
    @ blocks (vc_account_table_sha256 c = [] \<or> pf_account_table_sha256 p \<noteq> vc_account_table_sha256 c)
        (blocker ''ACCOUNT_TABLE_HASH_MISMATCH'' ''profile'' [])
    @ blocks (pf_aux_catalog_sha256 p \<noteq> [] \<and> pf_aux_catalog_sha256 p \<noteq> vc_aux_catalog_sha256 c)
        (blocker ''AUX_CATALOG_HASH_MISMATCH'' ''profile'' [])
    @ blocks (pf_currency p \<noteq> ''CNY'') (blocker ''LEDGER_CURRENCY_UNSUPPORTED'' ''profile'' ''currency'')
    @ blocks (gets snapshot ''voucher_type'' \<noteq> pf_default_voucher_type p)
        (blocker ''VOUCHER_TYPE_PROFILE_MISMATCH'' ''profile'' ''voucher_type'')))"

definition ledger_blockers :: "validation_context \<Rightarrow> vdict \<Rightarrow> exc + validation_blocker list" where
  "ledger_blockers c snapshot =
    (if vc_profile_error c \<noteq> [] then Inr [error_blocker ''LEDGER_PROFILE_INVALID'' ''profile'' (vc_profile_error c)]
     else case vc_profile c of
         None \<Rightarrow> Inr [blocker ''LEDGER_PROFILE_MISSING'' ''profile'' []]
       | Some p \<Rightarrow> profile_blockers c snapshot p)"

section \<open>Date and period\<close>

definition snapshot_period :: "vdict \<Rightarrow> string" where
  "snapshot_period snapshot = gets_or snapshot ''period'' (utake 7 (gets snapshot ''voucher_date''))"

definition date_blockers :: "validation_context \<Rightarrow> vdict \<Rightarrow> validation_blocker list" where
  "date_blockers c snapshot =
    (let period = snapshot_period snapshot; parsed = from_iso (gets snapshot ''voucher_date'')
     in (case parsed of
           None \<Rightarrow> [blocker ''VOUCHER_DATE_INVALID'' ''voucher'' ''voucher_date'']
         | Some d \<Rightarrow> blocks (period \<noteq> month_text d) (blocker ''PERIOD_DATE_MISMATCH'' ''voucher'' ''period''))
      @ (case vc_profile c of
           None \<Rightarrow> []
         | Some p \<Rightarrow>
             blocks (period \<notin> set (pf_open_periods p)) (blocker ''PERIOD_NOT_OPEN'' ''profile'' ''period'')
           @ blocks (pf_closed_through p \<noteq> [] \<and> period \<noteq> [] \<and> period \<le> pf_closed_through p)
               (blocker ''PERIOD_CLOSED'' ''profile'' ''period'')))"

section \<open>The proposal\<close>

definition proposal_blockers ::
  "validation_context \<Rightarrow> string \<Rightarrow> voucher_status_item \<Rightarrow> string \<Rightarrow> string \<Rightarrow> exc + validation_blocker list" where
  "proposal_blockers c key item phase expected =
    (let snapshot = si_snapshot item; current = gets snapshot ''proposal_revision_hash''
     in res_bind (proposal_revision_hash snapshot) (\<lambda>calculated. Inr
       (blocks (gets_or snapshot ''posting_key'' (gets snapshot ''voucher_key'') \<noteq> key)
          (blocker ''POSTING_KEY_MISMATCH'' ''voucher'' [])
      @ blocks (strip (gets snapshot ''anchor_business_key'') = []) (blocker ''BUSINESS_ANCHOR_MISSING'' ''voucher'' [])
      @ blocks (gets_or snapshot ''key_strength'' ''strong'' \<noteq> ''strong'') (blocker ''WEAK_BUSINESS_KEY'' ''voucher'' [])
      @ (if current = [] then [blocker ''PROPOSAL_REVISION_MISSING'' ''voucher'' []]
         else blocks (current \<noteq> calculated) (blocker ''PROPOSAL_REVISION_DRIFT'' ''voucher'' []))
      @ blocks (expected \<noteq> [] \<and> expected \<noteq> current) (blocker ''EXPECTED_REVISION_MISMATCH'' ''voucher'' [])
      @ blocks (phase = ''export'' \<and> si_approved_revision_hash item \<noteq> current)
          (blocker ''APPROVED_REVISION_MISMATCH'' ''voucher'' [])
      @ blocks (gets snapshot ''account_table_sha256'' \<noteq> vc_account_table_sha256 c)
          (blocker ''PROPOSAL_ACCOUNT_TABLE_DRIFT'' ''profile'' [])
      @ blocks (gets snapshot ''aux_catalog_sha256'' \<noteq> vc_aux_catalog_sha256 c)
          (blocker ''PROPOSAL_AUX_CATALOG_DRIFT'' ''profile'' [])
      @ blocks (gets snapshot ''rules_version'' = []) (blocker ''PROPOSAL_MAPPING_VERSION_MISSING'' ''mapping'' [])
      @ blocks (proposal_hash_version snapshot \<noteq> 2) (blocker ''PROPOSAL_HASH_VERSION_STALE'' ''mapping'' []))))"

end
