(* ===== verification/Voucher_Validator.thy ===== *)
theory Voucher_Validator
  imports Validation_Context
begin

text \<open>
  \<open>VoucherExecutabilityValidator\<close> of \<open>bookkeeping/validator.py\<close>: the checks of the source files and
  lines, of the bound mapping resolutions, the allocations, the evidence, and the journal lines of
  a voucher, and their composition \<open>validate\<close>. A loop whose iterations only meet in its accumulators
  is a function of the element (\<open>line_check\<close>); where a later iteration reads what an earlier one
  stored, the state is explicit (\<open>source_check\<close>, \<open>allocation_check\<close>).

  \<open>vresolution\<close> is pydantic's \<open>VoucherRuleResolution.model_validate\<close>.
\<close>

fun res_any :: "('a \<Rightarrow> 'e + bool) \<Rightarrow> 'a list \<Rightarrow> 'e + bool" where
  "res_any f [] = Inr False"
| "res_any f (x # xs) = res_bind (f x) (\<lambda>b. if b then Inr True else res_any f xs)"

definition valid_money :: "pyval \<Rightarrow> dec option" where
  "valid_money v = (case parse_decimal (py_str v) of
     None \<Rightarrow> None | Some d \<Rightarrow> if is_finite d then Some d else None)"

text \<open>\<open>value != value.quantize(Decimal("0.01"))\<close>\<close>

definition not_cents :: "dec \<Rightarrow> exc + bool" where
  "not_cents d = res_bind (quantize_cent round_half_even d) (\<lambda>q. Inr (\<not> dec_eq d q))"

definition money_fields :: "string list" where
  "money_fields = [''pretax_amount'', ''tax_amount'', ''total_amount'']"

section \<open>Source files and lines\<close>

definition inside_or_root :: "source_tree \<Rightarrow> string list \<Rightarrow> bool" where
  "inside_or_root tree path \<longleftrightarrow> take (length (st_root tree)) path = st_root tree"

definition source_file_check :: "source_tree \<Rightarrow> string \<times> pyval \<Rightarrow> exc + validation_blocker list" where
  "source_file_check tree p =
    (let name = fst p; expected = snd p
     in case st_resolve tree name of
          None \<Rightarrow> Inl OSError
        | Some source \<Rightarrow> Inr
            (if \<not> inside_or_root tree source then [blocker ''SOURCE_PATH_OUTSIDE'' ''source'' name]
             else if \<not> truthy expected then [blocker ''SOURCE_HASH_MISSING'' ''source'' name]
             else case st_content tree source of
                None \<Rightarrow> [blocker ''SOURCE_FILE_MISSING'' ''source'' name]
              | Some content \<Rightarrow> blocks (VStr (sha256 content) \<noteq> expected) (blocker ''SOURCE_FILE_CHANGED'' ''source'' name)))"

definition source_file_blockers :: "source_tree \<Rightarrow> vdict \<Rightarrow> exc + validation_blocker list" where
  "source_file_blockers tree source_hashes =
    res_bind (res_map (source_file_check tree) source_hashes) (\<lambda>bs. Inr
      (blocks (source_hashes = []) (blocker ''SOURCE_EVIDENCE_UNBOUND'' ''source'' []) @ concat bs))"

record source_check =
  sc_blockers :: "validation_blocker list"
  sc_by_id :: "vdict dict"
  sc_pretax :: dec
  sc_tax :: dec
  sc_total :: dec

definition source_line_step :: "nat \<times> vdict \<Rightarrow> source_check \<Rightarrow> exc + source_check" where
  "source_line_step p st =
    (let line = snd p; field_name = indexed_field ''source_lines'' (fst p);
         source_line_id = strip (gets line ''source_line_id'');
         complain = (\<lambda>code s. s\<lparr>sc_blockers := sc_blockers s @ [blocker code ''source'' field_name]\<rparr>)
     in if source_line_id = [] \<or> dhas (sc_by_id st) source_line_id
        then Inr (complain ''SOURCE_LINE_ID_INVALID'' st)
        else let st = st\<lparr>sc_by_id := dput source_line_id line (sc_by_id st)\<rparr>
             in case map (\<lambda>k. valid_money (get_val line k)) money_fields of
                  [Some pretax, Some tax, Some full] \<Rightarrow>
                    res_bind (res_any not_cents [pretax, tax, full]) (\<lambda>bad.
                    if bad then Inr (complain ''SOURCE_LINE_AMOUNT_INVALID'' st)
                    else Inr (st\<lparr>sc_blockers := sc_blockers st @ blocks (\<not> dec_eq (dec_add pretax tax) full)
                           (blocker ''SOURCE_LINE_AMOUNT_UNBALANCED'' ''source'' field_name),
                         sc_pretax := dec_add (sc_pretax st) pretax, sc_tax := dec_add (sc_tax st) tax,
                         sc_total := dec_add (sc_total st) full\<rparr>))
                | _ \<Rightarrow> Inr (complain ''SOURCE_LINE_AMOUNT_INVALID'' st))"

definition check_source_lines :: "vdict list \<Rightarrow> exc + source_check" where
  "check_source_lines source_lines = res_fold source_line_step (enumerate 0 source_lines)
     \<lparr>sc_blockers = blocks (source_lines = []) (blocker ''SOURCE_LINES_MISSING'' ''source'' ''source_lines''),
      sc_by_id = [], sc_pretax = dec_zero2, sc_tax = dec_zero2, sc_total = dec_zero2\<rparr>"

section \<open>Mapping resolutions\<close>

definition stored_resolutions ::
  "(pyval \<Rightarrow> voucher_rule_resolution option) \<Rightarrow> vdict \<Rightarrow> nat \<Rightarrow> validation_blocker list \<times> voucher_rule_resolution list" where
  "stored_resolutions vresolution snapshot n =
    (case get_val snapshot ''rule_resolutions'' of
       VList raw \<Rightarrow>
         if length raw \<noteq> n then ([blocker ''PROPOSAL_MAPPING_RESOLUTION_MISSING'' ''mapping'' ''rule_resolutions''], [])
         else (case those (map vresolution raw) of
             None \<Rightarrow> ([blocker ''PROPOSAL_MAPPING_RESOLUTION_INVALID'' ''mapping'' ''rule_resolutions''], [])
           | Some rs \<Rightarrow> ([], rs))
     | _ \<Rightarrow> ([blocker ''PROPOSAL_MAPPING_RESOLUTION_MISSING'' ''mapping'' ''rule_resolutions''], []))"

definition current_resolution ::
  "validation_context \<Rightarrow> vdict \<Rightarrow> vdict \<Rightarrow> exc + voucher_rule_resolution" where
  "current_resolution c snapshot source_line =
    res_bind (resolve_account_mapping (vc_mapping_rules c) (gets source_line ''source_line_id'')
      \<lparr>mc_seller = gets source_line ''seller'', mc_internal_project = gets source_line ''project_name'',
       mc_source_type = gets_or source_line ''source_type'' (gets_or snapshot ''source_type'' ''purchase_invoice''),
       mc_item = gets source_line ''item_name'', mc_effective_date = gets snapshot ''voucher_date''\<rparr>)
      (\<lambda>r. Inr (fst r))"

definition resolution_drift ::
  "validation_context \<Rightarrow> vdict \<Rightarrow> vdict list \<Rightarrow> exc + validation_blocker list" where
  "resolution_drift c snapshot source_lines =
    (let stored = gets snapshot ''mapping_resolution_sha256''
     in if vc_mapping_error c \<noteq> [] then Inr []
        else res_bind (res_map (current_resolution c snapshot) source_lines) (\<lambda>current.
          let sha = mapping_resolution_sha256 current
          in Inr (blocks (stored \<noteq> sha) ((blocker ''PROPOSAL_MAPPING_DRIFT'' ''mapping'' [])
               \<lparr>vb_detail := [(''proposal_resolution_sha256'', VStr stored), (''current_resolution_sha256'', VStr sha)]\<rparr>))))"

definition binding_inconsistent :: "vdict \<Rightarrow> voucher_rule_resolution list \<Rightarrow> exc + bool" where
  "binding_inconsistent snapshot stored =
    (let matched = filter (\<lambda>r. rr_outcome r = ''matched'') stored
     in res_bind (getl snapshot ''rule_ids'') (\<lambda>ids.
        if ids \<noteq> map VStr (dedup (map rr_rule_id matched)) then Inr True
        else res_bind (getl snapshot ''rule_fingerprints'') (\<lambda>fps.
          Inr (fps \<noteq> map VStr (dedup (map rr_rule_fingerprint matched))))))"

definition resolution_blockers ::
  "(pyval \<Rightarrow> voucher_rule_resolution option) \<Rightarrow> validation_context \<Rightarrow> vdict \<Rightarrow> vdict list \<Rightarrow> exc + validation_blocker list" where
  "resolution_blockers vresolution c snapshot source_lines =
    (let (bs, stored) = stored_resolutions vresolution snapshot (length source_lines);
         sha = gets snapshot ''mapping_resolution_sha256''
     in if stored = [] then Inr bs
        else res_bind (binding_inconsistent snapshot stored) (\<lambda>inconsistent.
             res_bind (resolution_drift c snapshot source_lines) (\<lambda>drift. Inr
               (bs
              @ (if sha = [] then [blocker ''PROPOSAL_MAPPING_RESOLUTION_HASH_MISSING'' ''mapping'' ''mapping_resolution_sha256'']
                 else blocks (sha \<noteq> mapping_resolution_sha256 stored)
                   (blocker ''PROPOSAL_MAPPING_RESOLUTION_HASH_DRIFT'' ''mapping'' ''mapping_resolution_sha256''))
              @ blocks inconsistent (blocker ''PROPOSAL_MAPPING_BINDING_INCONSISTENT'' ''mapping'' [])
              @ drift))))"

section \<open>Allocations\<close>

record allocation_check =
  al_blockers :: "validation_blocker list"
  al_by_source :: "vdict list dict"
  al_by_id :: "vdict dict"

definition allocation_amount_bad :: "vdict \<Rightarrow> string \<Rightarrow> exc + bool" where
  "allocation_amount_bad allocation k =
    (case valid_money (get_val allocation k) of
       None \<Rightarrow> Inr True
     | Some d \<Rightarrow> res_bind (not_cents d) (\<lambda>bad. Inr (bad \<or> dec_less d dec_zero)))"

definition allocation_unbalanced :: "vdict \<Rightarrow> bool" where
  "allocation_unbalanced allocation =
    (case map (\<lambda>k. valid_money (get_val allocation k)) money_fields of
       [Some pretax, Some tax, Some full] \<Rightarrow> \<not> dec_eq (dec_add pretax tax) full
     | _ \<Rightarrow> False)"

definition allocation_step :: "vdict dict \<Rightarrow> nat \<times> vdict \<Rightarrow> allocation_check \<Rightarrow> exc + allocation_check" where
  "allocation_step source_by_id p st =
    (let allocation = snd p; field_name = indexed_field ''project_allocations'' (fst p);
         allocation_id = strip (gets allocation ''allocation_id'');
         source_line_id = strip (gets allocation ''source_line_id'');
         complain = (\<lambda>code suffix. Inr (st\<lparr>al_blockers := al_blockers st @ [blocker code ''evidence'' (field_name @ suffix)]\<rparr>))
     in if \<not> dhas source_by_id source_line_id then complain ''PROJECT_ALLOCATION_SOURCE_UNKNOWN'' []
        else if allocation_id = [] then complain ''PROJECT_ALLOCATION_ID_INVALID'' ''.allocation_id''
        else if dhas (al_by_id st) allocation_id then complain ''PROJECT_ALLOCATION_DUPLICATE'' ''.allocation_id''
        else res_bind (res_map (allocation_amount_bad allocation) money_fields) (\<lambda>bad. Inr
          (st\<lparr>al_blockers := al_blockers st
               @ blocks (strip (gets allocation ''project_id'') = [] \<and> strip (gets allocation ''project_name'') = [])
                   (blocker ''PROJECT_ALLOCATION_PROJECT_MISSING'' ''evidence'' (field_name @ ''.project_id''))
               @ concat (map (\<lambda>(k, b). blocks b
                   (blocker ''PROJECT_ALLOCATION_AMOUNT_INVALID'' ''evidence'' (field_name @ ''.'' @ k))) (zip money_fields bad))
               @ blocks (allocation_unbalanced allocation) (blocker ''PROJECT_ALLOCATION_UNBALANCED'' ''evidence'' field_name),
             al_by_id := dput allocation_id allocation (al_by_id st),
             al_by_source := dput source_line_id (if_given (dget (al_by_source st) source_line_id) [] @ [allocation])
               (al_by_source st)\<rparr>)))"

text \<open>\<open>sum((_money(value.get(field)) or Decimal("0")) ...)\<close>\<close>

definition amount_or_zero :: "string \<Rightarrow> vdict \<Rightarrow> dec" where
  "amount_or_zero k v =
    (case valid_money (get_val v k) of
       None \<Rightarrow> dec_zero | Some d \<Rightarrow> if dec_eq d dec_zero then dec_zero else d)"

definition allocation_coverage ::
  "vdict list dict \<Rightarrow> string \<times> vdict \<Rightarrow> validation_blocker list" where
  "allocation_coverage by_source p =
    (let own = if_given (dget by_source (fst p)) []
     in if own = [] then [blocker ''PROJECT_ALLOCATION_MISSING'' ''evidence'' (fst p)]
        else concat (map (\<lambda>k. blocks
          (case valid_money (get_val (snd p) k) of
             None \<Rightarrow> True
           | Some d \<Rightarrow> \<not> dec_eq (dec_sum (map (amount_or_zero k) own) dec_zero) d)
          (blocker ''PROJECT_ALLOCATION_AMOUNT_MISMATCH'' ''evidence'' (fst p @ ''.'' @ k))) money_fields))"

definition check_allocations :: "vdict dict \<Rightarrow> vdict list \<Rightarrow> exc + allocation_check" where
  "check_allocations source_by_id allocations =
    res_bind (res_fold (allocation_step source_by_id) (enumerate 0 allocations)
      \<lparr>al_blockers = [], al_by_source = [], al_by_id = []\<rparr>) (\<lambda>st.
    Inr (st\<lparr>al_blockers := al_blockers st @ concat (map (allocation_coverage (al_by_source st)) source_by_id)\<rparr>))"

end
