(* ===== verification/Voucher_Executability.thy ===== *)
theory Voucher_Executability
  imports Voucher_Validator
begin

text \<open>
  The second half of \<open>validate\<close> in \<open>bookkeeping/validator.py\<close>: the decisions and their evidence, the
  journal lines against the accounts and the source totals, other vouchers and batches, the
  readiness facts of an export, and the function that puts all sections together.
\<close>

section \<open>Evidence\<close>

definition evidence_items :: "pyval \<Rightarrow> vdict list" where
  "evidence_items raw = (case raw of VList xs \<Rightarrow> dicts_of xs | _ \<Rightarrow> [])"

definition evidence_is_confirmed :: "vdict \<Rightarrow> bool" where
  "evidence_is_confirmed v \<longleftrightarrow> list_all (\<lambda>k. strip (gets v k) \<noteq> [])
     [''evidence_id'', ''evidence_type'', ''subject_id'', ''confirmed_by'', ''confirmed_at'']"

definition evidence_source_valid :: "source_tree \<Rightarrow> vdict \<Rightarrow> exc + bool" where
  "evidence_source_valid company_dir v =
    (let digest = strip (gets v ''source_sha256''); source_path = strip (gets v ''source_path'')
     in if gets v ''evidence_type'' = ''manual_confirmation'' then Inr (strip (gets v ''reason'') \<noteq> [])
        else if \<not> is_sha256_text digest \<or> strip (gets v ''source_revision'') = [] \<or> source_path = [] then Inr False
        else case st_resolve company_dir source_path of
            None \<Rightarrow> Inl OSError
          | Some source \<Rightarrow> Inr (inside_or_root company_dir source
              \<and> (case st_content company_dir source of None \<Rightarrow> False | Some content \<Rightarrow> sha256 content = digest)))"

definition evidence_check ::
  "source_tree \<Rightarrow> string list \<Rightarrow> string \<Rightarrow> nat \<times> vdict \<Rightarrow> exc + validation_blocker list" where
  "evidence_check company_dir valid_subjects k p =
    res_bind (evidence_source_valid company_dir (snd p)) (\<lambda>valid. Inr
      ((if \<not> evidence_is_confirmed (snd p)
        then [blocker ''EVIDENCE_CONFIRMATION_INVALID'' ''evidence'' (indexed_field k (fst p))]
        else blocks (gets (snd p) ''subject_id'' \<notin> set valid_subjects)
          (blocker ''EVIDENCE_SUBJECT_MISMATCH'' ''evidence'' (indexed_field k (fst p))))
     @ blocks (\<not> valid) (blocker ''EVIDENCE_SOURCE_INVALID'' ''evidence'' (indexed_field k (fst p)))))"

definition evidence_blockers ::
  "source_tree \<Rightarrow> string list \<Rightarrow> (string \<times> vdict list) list \<Rightarrow> exc + validation_blocker list" where
  "evidence_blockers company_dir valid_subjects groups =
    res_bind (res_map (\<lambda>g. res_bind (res_map (evidence_check company_dir valid_subjects (fst g)) (enumerate 0 (snd g)))
        (\<lambda>bs. Inr (concat bs))) groups) (\<lambda>bs. Inr (concat bs))"

definition has_value :: "string \<Rightarrow> string \<Rightarrow> vdict \<Rightarrow> bool" where
  "has_value k t v \<longleftrightarrow> get_val v k = VStr t"

definition payment_blockers :: "vdict \<Rightarrow> vdict list \<Rightarrow> dec \<Rightarrow> validation_blocker list" where
  "payment_blockers snapshot payment_refs source_total =
    (let payment_state = gets_or snapshot ''payment_state'' ''unknown'';
         bank_refs = filter (has_value ''evidence_type'' ''bank_match'') payment_refs
     in if payment_state = ''unknown'' then [blocker ''PAYMENT_STATE_UNKNOWN'' ''evidence'' ''payment_state'']
        else if payment_state = ''partial'' then [blocker ''PAYMENT_MATCH_PARTIAL'' ''evidence'' ''payment_state'']
        else if payment_state = ''matched''
        then blocks (bank_refs = [] \<or> \<not> dec_eq (dec_sum (map (amount_or_zero ''amount'') bank_refs) dec_zero) source_total)
          (blocker ''PAYMENT_EVIDENCE_MISMATCH'' ''evidence'' ''payment_evidence_refs'')
        else blocks (payment_state \<noteq> ''unmatched'') (blocker ''PAYMENT_STATE_INVALID'' ''evidence'' ''payment_state''))"

definition tax_treatment_of :: "vdict \<Rightarrow> string" where
  "tax_treatment_of snapshot = gets_or snapshot ''tax_treatment'' ''pending''"

definition tax_blockers :: "vdict \<Rightarrow> vdict list \<Rightarrow> string list \<Rightarrow> validation_blocker list" where
  "tax_blockers snapshot tax_refs invoice_subjects =
    (let tax_treatment = tax_treatment_of snapshot
     in if tax_treatment = ''pending'' then [blocker ''TAX_TREATMENT_PENDING'' ''voucher'' ''tax_treatment'']
        else if tax_treatment = ''deductible''
        then blocks (\<not> list_ex (\<lambda>v. has_value ''evidence_type'' ''tax_usage_confirmation'' v
            \<and> gets v ''subject_id'' \<in> set invoice_subjects) tax_refs)
          (blocker ''TAX_DEDUCTIBILITY_EVIDENCE_MISSING'' ''evidence'' ''tax_evidence_refs'')
        else if tax_treatment = ''non_deductible''
        then blocks (tax_refs = []) (blocker ''TAX_EVIDENCE_MISSING'' ''voucher'' ''tax_evidence_refs'')
        else [blocker ''TAX_TREATMENT_INVALID'' ''evidence'' ''tax_treatment''])"

text \<open>Values that can be members of a set.\<close>

fun hashable_value :: "pyval \<Rightarrow> bool" where
  "hashable_value (VList xs) = False"
| "hashable_value (VDict d) = False"
| "hashable_value v = True"

definition RECEIVED_CLASSES :: "string list" where
  "RECEIVED_CLASSES = [''inventory_purchase'', ''raw_material_purchase'', ''project_cost'', ''fixed_asset_purchase'']"

definition receiving_blockers ::
  "vdict \<Rightarrow> string \<Rightarrow> vdict list \<Rightarrow> vdict dict \<Rightarrow> vdict \<Rightarrow> exc + validation_blocker list" where
  "receiving_blockers snapshot business_class receiving_refs source_by_id source_hashes =
    (let receiving_state = gets_or snapshot ''receiving_state'' ''missing''
     in if business_class \<in> set RECEIVED_CLASSES then
          (let covered = map (\<lambda>v. gets v ''subject_id'') (filter (\<lambda>v.
                 (has_value ''evidence_type'' ''inventory_receipt'' v \<or> has_value ''evidence_type'' ''acceptance_record'' v)
                 \<and> has_value ''coverage_state'' ''full'' v) receiving_refs);
               missing = sort (filter (\<lambda>s. s \<notin> set covered) (map fst source_by_id));
               invoice_hashes = map snd source_hashes
           in if \<not> list_all hashable_value invoice_hashes then Inl (TypeError ''unhashable'')
              else Inr (blocks (receiving_state \<noteq> ''full'') (blocker ''RECEIVING_COVERAGE_INCOMPLETE'' ''evidence'' ''receiving_state'')
               @ map (blocker ''RECEIVING_EVIDENCE_MISSING'' ''evidence'') missing
               @ blocks (list_ex (\<lambda>v. VStr (gets v ''source_sha256'') \<in> set invoice_hashes) receiving_refs)
                   (blocker ''RECEIVING_EVIDENCE_NOT_INDEPENDENT'' ''evidence'' ''receiving_evidence_refs'')))
        else Inr (blocks (business_class \<noteq> [] \<and> (receiving_state \<noteq> ''not_applicable''
            \<or> \<not> list_ex (\<lambda>v. has_value ''evidence_type'' ''manual_confirmation'' v
                  \<and> has_value ''coverage_state'' ''not_applicable'' v \<and> strip (gets v ''reason'') \<noteq> []) receiving_refs))
          (blocker ''RECEIVING_NOT_APPLICABLE_UNCONFIRMED'' ''evidence'' ''receiving_state'')))"

definition decision_blockers :: "vdict \<Rightarrow> validation_blocker list" where
  "decision_blockers snapshot =
     blocks (strip (gets snapshot ''business_class'') = []) (blocker ''BUSINESS_CLASS_UNCONFIRMED'' ''voucher'' ''business_class'')
   @ blocks (strip (gets snapshot ''decision_confirmed_by'') = [] \<or> strip (gets snapshot ''decision_confirmed_at'') = [])
       (blocker ''VOUCHER_DECISION_UNCONFIRMED'' ''evidence'' [])"

definition forced_manual_blockers :: "vdict \<Rightarrow> validation_blocker list" where
  "forced_manual_blockers snapshot =
     blocks (gets snapshot ''review_tier'' = ''forced_manual'' \<and> strip (gets snapshot ''decision_confirmed_by'') = [])
       (blocker ''FORCED_MANUAL'' ''voucher'' [])"

section \<open>Accounts\<close>

definition REQUIRED_MARK :: string where
  "REQUIRED_MARK = [CHR 0xE5, CHR 0xBF, CHR 0x85, CHR 0xE5, CHR 0xA1, CHR 0xAB]"

definition put_catalog :: "string \<times> pyval \<Rightarrow> vdict dict \<Rightarrow> vdict dict" where
  "put_catalog p catalog =
    (let cleaned = strip (fst p)
     in if cleaned = [] then catalog
        else dput cleaned (case snd p of VDict d \<Rightarrow> d
          | v \<Rightarrow> [(''code'', VStr cleaned), (''name'', VStr (str_or_empty v))]) catalog)"

definition account_catalog :: "vdict \<Rightarrow> vdict dict" where
  "account_catalog payload =
    (case get_val payload ''accounts'' of
       VList raw \<Rightarrow> fold (\<lambda>d. if strip (gets d ''code'') = [] then id else dput (strip (gets d ''code'')) d) (dicts_of raw) []
     | VDict raw \<Rightarrow> fold put_catalog raw []
     | _ \<Rightarrow> fold put_catalog payload [])"

definition required_flag :: "pyval \<Rightarrow> exc + bool" where
  "required_flag v = (if \<not> hashable_value v then Inl (TypeError ''unhashable'')
     else Inr (v \<in> {VBool True, VInt 1, VFloat ''1.0'', VStr ''required'', VStr REQUIRED_MARK}))"

definition required_aux :: "vdict \<Rightarrow> exc + string list" where
  "required_aux account =
    (case get_default account ''required_aux_dimensions'' (get_default account ''aux_dimensions'' (VList [])) of
       VDict raw \<Rightarrow> res_bind (res_map (\<lambda>p. res_bind (required_flag (snd p)) (\<lambda>b. Inr (if b then [fst p] else []))) raw)
         (\<lambda>ks. Inr (concat ks))
     | VList raw \<Rightarrow> Inr (filter (\<lambda>t. strip t \<noteq> []) (map py_str raw))
     | _ \<Rightarrow> Inr [])"

definition aux_value_exists :: "vdict \<Rightarrow> string \<Rightarrow> string \<Rightarrow> bool" where
  "aux_value_exists payload dimension value =
    (case get_val payload ''records'' of
       VList records \<Rightarrow> list_ex (\<lambda>d. gets d ''dimension'' = dimension \<and> gets d ''value_id'' = value \<and> is_true d ''enabled'')
         (dicts_of records)
     | _ \<Rightarrow>
        (case (case get_default payload ''dimensions'' (VDict payload) of
                 VDict source \<Rightarrow> get_default source dimension (VList []) | _ \<Rightarrow> VList []) of
           VDict values \<Rightarrow> dhas values value \<or> list_ex (\<lambda>d. gets d ''name'' = value) (dicts_of (map snd values))
         | VList values \<Rightarrow> list_ex (\<lambda>v. (case v of VDict d \<Rightarrow> gets_or d ''name'' (gets d ''value'') | _ \<Rightarrow> py_str v) = value) values
         | _ \<Rightarrow> False))"

definition REQUIRED_METADATA :: "string list" where
  "REQUIRED_METADATA = [''enabled'', ''is_leaf'', ''balance_direction'', ''required_aux_dimensions'',
     ''quantity_enabled'', ''foreign_currency_enabled'']"

definition project_aux_mismatch :: "validation_context \<Rightarrow> vdict option \<Rightarrow> string list \<Rightarrow> vdict \<Rightarrow> bool" where
  "project_aux_mismatch c allocation required aux =
    (case (allocation, vc_catalogs c) of
       (Some a, Some catalogs) \<Rightarrow>
         (let project_id = strip (gets a ''project_id'')
          in case (if project_id = [] then None else dget (ls_auxiliary_by_value_id catalogs) project_id) of
               None \<Rightarrow> False
             | Some x \<Rightarrow> ax_dimension x \<in> set required \<and> gets aux (ax_dimension x) \<noteq> project_id)
     | _ \<Rightarrow> False)"

definition account_blockers ::
  "validation_context \<Rightarrow> nat \<Rightarrow> vdict \<Rightarrow> string \<Rightarrow> vdict option \<Rightarrow> exc + validation_blocker list" where
  "account_blockers c index line role allocation =
    (let code = strip (gets line ''account_code'');
         code_field = indexed_field ''lines'' index @ ''.account_code''
     in if code = [] then Inr [line_blocker ''ACCOUNT_CODE_MISSING'' code_field index]
        else case dget (account_catalog (vc_account_payload c)) code of
            None \<Rightarrow> Inr [line_blocker ''ACCOUNT_NOT_FOUND'' code_field index]
          | Some account \<Rightarrow>
              (let account_name = strip (gets account ''name'')
               in res_bind (getd line ''aux'') (\<lambda>aux.
                  res_bind (required_aux account) (\<lambda>required. Inr
                   ((if \<not> list_all (dhas account) REQUIRED_METADATA
                     then [line_blocker ''ACCOUNT_METADATA_UNCONFIRMED'' [] index]
                     else blocks (\<not> is_true account ''enabled'') (line_blocker ''ACCOUNT_DISABLED'' [] index)
                        @ blocks (\<not> is_true account ''is_leaf'') (line_blocker ''ACCOUNT_NOT_LEAF'' [] index)
                        @ blocks (role = ''payable'' \<and> gets account ''balance_direction'' \<noteq> ''credit'')
                            (line_blocker ''PURCHASE_CREDIT_NOT_LIABILITY'' [] index))
                  @ blocks (account_name \<noteq> [] \<and> strip (gets line ''account_name'') \<noteq> account_name)
                      (line_blocker ''ACCOUNT_NAME_MISMATCH'' [] index)
                  @ concat (map (\<lambda>dimension.
                      (let value = strip (gets aux dimension)
                       in if value = [] then [line_blocker ''AUX_REQUIRED'' [] index]
                          else blocks (\<not> aux_value_exists (vc_aux_payload c) dimension value)
                            (line_blocker ''AUX_VALUE_NOT_FOUND'' [] index))) required)
                  @ blocks (role = ''cost'' \<and> project_aux_mismatch c allocation required aux)
                      (line_blocker ''PROJECT_AUX_ALLOCATION_MISMATCH'' [] index))))))"

section \<open>Journal lines\<close>

definition expected_direction :: "string \<Rightarrow> string option" where
  "expected_direction role = (if role = ''cost'' \<or> role = ''input_tax'' then Some ''debit''
     else if role = ''payable'' then Some ''credit'' else None)"

record line_check =
  lc_blockers :: "validation_blocker list"
  lc_counted :: "dec option"
  lc_direction :: string
  lc_role :: string
  lc_cost_ids :: "string list"

text \<open>The role, direction and bindings of a line; the allocation that a cost line is bound to.\<close>

definition bound_allocation :: "vdict dict \<Rightarrow> string \<Rightarrow> string list \<Rightarrow> vdict option" where
  "bound_allocation allocation_by_id role allocation_ids =
    (if role = ''cost'' \<and> length allocation_ids = 1 then dget allocation_by_id (hd allocation_ids) else None)"

definition line_binding_blockers ::
  "vdict dict \<Rightarrow> vdict option \<Rightarrow> nat \<Rightarrow> string \<Rightarrow> string \<Rightarrow> string list \<Rightarrow> string list \<Rightarrow> validation_blocker list" where
  "line_binding_blockers source_by_id allocation index role direction source_ids allocation_ids =
    (let at_field = (\<lambda>suffix. indexed_field ''lines'' index @ suffix)
     in blocks (role \<notin> set LINE_ROLES) (line_blocker ''LINE_ROLE_INVALID'' (at_field ''.line_role'') index)
      @ blocks (expected_direction role \<noteq> None \<and> expected_direction role \<noteq> Some direction)
          (line_blocker ''LINE_ROLE_DIRECTION_MISMATCH'' (at_field ''.direction'') index)
      @ blocks (expected_direction role \<noteq> None \<and> (length source_ids \<noteq> 1 \<or> \<not> dhas source_by_id (hd source_ids)))
          (line_blocker ''LINE_SOURCE_BINDING_INVALID'' (at_field ''.source_line_ids'') index)
      @ (if role = ''cost'' then
           (case allocation of
              None \<Rightarrow> [line_blocker ''LINE_ALLOCATION_BINDING_INVALID'' (at_field ''.allocation_ids'') index]
            | Some a \<Rightarrow> blocks (source_ids \<noteq> [] \<and> gets a ''source_line_id'' \<noteq> hd source_ids)
                (line_blocker ''LINE_ALLOCATION_SOURCE_MISMATCH'' (at_field ''.allocation_ids'') index))
         else blocks (allocation_ids \<noteq> []) (line_blocker ''LINE_ALLOCATION_ROLE_INVALID'' (at_field ''.allocation_ids'') index))
      @ blocks (direction \<noteq> ''debit'' \<and> direction \<noteq> ''credit'')
          (line_blocker ''LINE_DIRECTION_INVALID'' (at_field ''.direction'') index))"

definition valid_scale :: "dec \<Rightarrow> bool" where
  "valid_scale d = (case quantize_cent round_half_even d of Inl e \<Rightarrow> False | Inr q \<Rightarrow> dec_eq d q)"

definition allocation_mismatch :: "string \<Rightarrow> vdict option \<Rightarrow> dec \<Rightarrow> bool" where
  "allocation_mismatch tax_treatment allocation amount =
    (case allocation of
       None \<Rightarrow> False
     | Some a \<Rightarrow> (case valid_money (get_val a (if tax_treatment = ''non_deductible'' then ''total_amount'' else ''pretax_amount'')) of
         None \<Rightarrow> True | Some d \<Rightarrow> \<not> dec_eq amount d))"

definition check_line ::
  "validation_context \<Rightarrow> vdict dict \<Rightarrow> vdict dict \<Rightarrow> string \<Rightarrow> nat \<times> pyval \<Rightarrow> exc + line_check" where
  "check_line c source_by_id allocation_by_id tax_treatment p =
    (let index = fst p; raw = snd p
     in res_bind (if truthy raw then py_dict raw else Inr []) (\<lambda>line.
        res_bind (getl line ''source_line_ids'') (\<lambda>raw_sources.
        res_bind (getl line ''allocation_ids'') (\<lambda>raw_allocations.
        let direction = gets line ''direction''; role = gets line ''line_role'';
            allocation_ids = map py_str raw_allocations;
            allocation = bound_allocation allocation_by_id role allocation_ids;
            amount_field = indexed_field ''lines'' index @ ''.amount'';
            bs = line_binding_blockers source_by_id allocation index role direction (map py_str raw_sources) allocation_ids;
            result = (\<lambda>blockers counted. \<lparr>lc_blockers = blockers, lc_counted = counted, lc_direction = direction,
              lc_role = role, lc_cost_ids = (if allocation = None then [] else allocation_ids)\<rparr>)
        in case valid_money (get_val line ''amount'') of
             Some amount \<Rightarrow>
               if dec_le amount dec_zero
               then res_bind (account_blockers c index line role allocation) (\<lambda>acc. Inr
                 (result (bs @ [line_blocker ''LINE_AMOUNT_INVALID'' amount_field index] @ acc) None))
               else if \<not> valid_scale amount
               then Inr (result (bs @ [line_blocker ''LINE_AMOUNT_SCALE_INVALID'' amount_field index]) None)
               else res_bind (account_blockers c index line role allocation) (\<lambda>acc. Inr
                 (result (bs @ blocks (allocation_mismatch tax_treatment allocation amount)
                      (line_blocker ''LINE_ALLOCATION_AMOUNT_MISMATCH'' amount_field index) @ acc) (Some amount)))
           | None \<Rightarrow> res_bind (account_blockers c index line role allocation) (\<lambda>acc. Inr
               (result (bs @ [line_blocker ''LINE_AMOUNT_INVALID'' amount_field index] @ acc) None))))))"

definition counted_total :: "(line_check \<Rightarrow> bool) \<Rightarrow> line_check list \<Rightarrow> dec" where
  "counted_total P ls = dec_sum
     (concat (map (\<lambda>l. case lc_counted l of None \<Rightarrow> [] | Some d \<Rightarrow> if P l then [d] else []) ls)) dec_zero2"

definition role_total :: "string \<Rightarrow> line_check list \<Rightarrow> dec" where
  "role_total role = counted_total (\<lambda>l. lc_role l = role)"

definition totals_blockers :: "string \<Rightarrow> source_check \<Rightarrow> vdict dict \<Rightarrow> line_check list \<Rightarrow> validation_blocker list" where
  "totals_blockers tax_treatment sources allocation_by_id ls =
    (let debit = counted_total (\<lambda>l. lc_direction l = ''debit'') ls;
         credit = counted_total (\<lambda>l. lc_direction l = ''credit'') ls;
         payable = role_total ''payable'' ls
     in blocks (sort (concat (map lc_cost_ids ls)) \<noteq> sort (map fst allocation_by_id))
          (blocker ''COST_ALLOCATION_COVERAGE_MISMATCH'' ''evidence'' ''project_allocations'')
      @ blocks (\<not> dec_eq debit credit) ((blocker ''VOUCHER_UNBALANCED'' ''voucher'' [])
          \<lparr>vb_detail := [(''debit'', VStr (format_f debit)), (''credit'', VStr (format_f credit))]\<rparr>)
      @ blocks (\<not> dec_eq payable (sc_total sources)) ((blocker ''PAYABLE_TOTAL_MISMATCH'' ''voucher'' [])
          \<lparr>vb_detail := [(''payable'', VStr (format_f payable)), (''source'', VStr (format_f (sc_total sources)))]\<rparr>)
      @ (if tax_treatment = ''deductible''
         then blocks (\<not> dec_eq (role_total ''cost'' ls) (sc_pretax sources) \<or> \<not> dec_eq (role_total ''input_tax'' ls) (sc_tax sources))
           (blocker ''DEDUCTIBLE_TAX_LINES_MISMATCH'' ''voucher'' [])
         else if tax_treatment = ''non_deductible''
         then blocks (\<not> dec_eq (role_total ''input_tax'' ls) dec_zero2 \<or> \<not> dec_eq (role_total ''cost'' ls) (sc_total sources))
           (blocker ''NON_DEDUCTIBLE_TAX_LINES_MISMATCH'' ''voucher'' [])
         else []))"

section \<open>Other vouchers, batches and facts\<close>

definition event_identity :: "vdict \<Rightarrow> string list" where
  "event_identity snapshot = map (\<lambda>k. strip (gets snapshot k)) [''company_id'', ''event_type'', ''anchor_business_key'']"

definition duplicate_event_blockers :: "voucher_status_store \<Rightarrow> string \<Rightarrow> vdict \<Rightarrow> validation_blocker list" where
  "duplicate_event_blockers store key snapshot =
     blocks ([] \<notin> set (event_identity snapshot)
         \<and> list_ex (\<lambda>p. fst p \<noteq> key \<and> event_identity (si_snapshot (snd p)) = event_identity snapshot) (vs_items store))
       (blocker ''DUPLICATE_POSTING_EVENT'' ''voucher'' [])"

definition UNFINISHED_BATCH_STATES :: "batch_state list" where
  "UNFINISHED_BATCH_STATES = [Prepared, DryRunPassed, AwaitingAuthorization, Applying, Partial, Unknown]"

definition batch_blockers :: "voucher_status_store \<Rightarrow> string \<Rightarrow> voucher_status_item \<Rightarrow> string \<Rightarrow> validation_blocker list" where
  "batch_blockers store key item phase =
     blocks (list_ex (\<lambda>p. ib_state (snd p) \<in> set UNFINISHED_BATCH_STATES
         \<and> list_ex (\<lambda>b. bi_posting_key b = key) (ib_items (snd p))
         \<and> (si_batch_id item \<noteq> ib_batch_id (snd p) \<or> phase = ''approve'')) (vs_batches store))
       (blocker ''UNFINISHED_BATCH_EXISTS'' ''batch'' [])"

text \<open>\<open>.get\<close> on a value that is no dict is an \<open>AttributeError\<close>, written \<open>TypeError\<close> here; nothing catches it.\<close>

definition line_has_aux :: "pyval \<Rightarrow> exc + bool" where
  "line_has_aux raw = (case raw of
     VDict line \<Rightarrow> res_bind (getd line ''aux'') (\<lambda>aux. Inr (aux \<noteq> [])) | _ \<Rightarrow> Inl (TypeError ''get''))"

definition fact_blockers :: "vdict \<Rightarrow> string \<Rightarrow> exc + validation_blocker list" where
  "fact_blockers readiness capability =
    (case get_default readiness capability (VDict []) of
       VDict entry \<Rightarrow> Inr (blocks (gets_or entry ''status'' ''not_tested'' \<noteq> ''ready'')
         ((blocker ''FACT_NOT_READY'' ''facts'' capability)\<lparr>vb_detail := entry\<rparr>))
     | _ \<Rightarrow> Inl (TypeError ''get''))"

definition export_blockers :: "vdict \<Rightarrow> pyval list \<Rightarrow> exc + validation_blocker list" where
  "export_blockers readiness raw_lines =
    res_bind (res_any line_has_aux raw_lines) (\<lambda>aux.
    res_bind (res_map (fact_blockers readiness)
      ([''template'', ''grouping'', ''voucher_type'', ''numbering'', ''decimal''] @ (if aux then [''aux''] else []))) (\<lambda>bs.
    Inr (concat bs)))"

section \<open>The whole validation\<close>

definition marker :: "validation_blocker \<Rightarrow> string \<times> string \<times> int option" where
  "marker b = (vb_code b, vb_field b, vb_line_index b)"

definition keep_first :: "validation_blocker \<Rightarrow> validation_blocker list \<Rightarrow> validation_blocker list" where
  "keep_first b kept = (if marker b \<in> marker ` set kept then kept else kept @ [b])"

definition dedup_blockers :: "validation_blocker list \<Rightarrow> validation_blocker list" where
  "dedup_blockers bs = fold keep_first bs []"

definition invoice_subjects_of :: "vdict \<Rightarrow> exc + string list" where
  "invoice_subjects_of snapshot = res_bind (getl snapshot ''source_invoice_nos'') (\<lambda>nos.
     Inr (dedup (filter (\<lambda>t. t \<noteq> []) (map (\<lambda>v. strip (py_str v)) nos))))"

definition snapshot_dicts :: "vdict \<Rightarrow> string \<Rightarrow> exc + vdict list" where
  "snapshot_dicts snapshot k = res_bind (getl snapshot k) (\<lambda>vs. Inr (dicts_of vs))"

definition evidence_section ::
  "validation_context \<Rightarrow> string \<Rightarrow> vdict \<Rightarrow> source_check \<Rightarrow> vdict \<Rightarrow> exc + validation_blocker list" where
  "evidence_section c key snapshot sources source_hashes =
    res_bind (invoice_subjects_of snapshot) (\<lambda>subjects.
    let refs = (\<lambda>k. evidence_items (get_val snapshot k));
        valid_subjects = subjects @ [key] @ map fst (sc_by_id sources);
        business_class = strip (gets snapshot ''business_class'')
    in res_bind (evidence_blockers (vc_company_dir c) valid_subjects
         (map (\<lambda>k. (k, refs k)) [''payment_evidence_refs'', ''tax_evidence_refs'', ''receiving_evidence_refs''])) (\<lambda>evidence.
       res_bind (receiving_blockers snapshot business_class (refs ''receiving_evidence_refs'') (sc_by_id sources) source_hashes)
         (\<lambda>receiving. Inr
       (decision_blockers snapshot @ evidence
        @ payment_blockers snapshot (refs ''payment_evidence_refs'') (sc_total sources)
        @ tax_blockers snapshot (refs ''tax_evidence_refs'') subjects
        @ receiving @ forced_manual_blockers snapshot))))"

definition lines_section ::
  "validation_context \<Rightarrow> vdict \<Rightarrow> source_check \<Rightarrow> allocation_check \<Rightarrow> exc + pyval list \<times> validation_blocker list" where
  "lines_section c snapshot sources allocations =
    res_bind (getl snapshot ''lines'') (\<lambda>raw_lines.
    res_bind (res_map (check_line c (sc_by_id sources) (al_by_id allocations) (tax_treatment_of snapshot))
      (enumerate 0 raw_lines)) (\<lambda>ls. Inr
    (raw_lines, blocks (length raw_lines < 2) (blocker ''LINES_INSUFFICIENT'' ''voucher'' ''lines'')
       @ concat (map lc_blockers ls)
       @ totals_blockers (tax_treatment_of snapshot) sources (al_by_id allocations) ls)))"

definition all_blockers ::
  "(pyval \<Rightarrow> voucher_rule_resolution option) \<Rightarrow> validation_context \<Rightarrow> string \<Rightarrow> voucher_status_item \<Rightarrow> string \<Rightarrow> string
    \<Rightarrow> exc + validation_blocker list" where
  "all_blockers vresolution c key item phase expected =
    (let snapshot = si_snapshot item
     in res_bind (ledger_blockers c snapshot) (\<lambda>ledger.
        res_bind (proposal_blockers c key item phase expected) (\<lambda>proposal.
        res_bind (getd snapshot ''source_file_hashes'') (\<lambda>source_hashes.
        res_bind (source_file_blockers (vc_source_dir c) source_hashes) (\<lambda>files.
        res_bind (snapshot_dicts snapshot ''source_lines'') (\<lambda>source_lines.
        res_bind (check_source_lines source_lines) (\<lambda>sources.
        res_bind (resolution_blockers vresolution c snapshot source_lines) (\<lambda>resolutions.
        res_bind (snapshot_dicts snapshot ''project_allocations'') (\<lambda>raw_allocations.
        res_bind (check_allocations (sc_by_id sources) raw_allocations) (\<lambda>allocations.
        res_bind (evidence_section c key snapshot sources source_hashes) (\<lambda>evidence.
        res_bind (lines_section c snapshot sources allocations) (\<lambda>(raw_lines, line_blockers).
        res_bind (if phase = ''export'' then export_blockers (vc_facts_readiness c) raw_lines else Inr []) (\<lambda>export. Inr
          (catalog_blockers c @ ledger @ date_blockers c snapshot @ proposal @ files @ sc_blockers sources
           @ resolutions @ al_blockers allocations @ evidence @ line_blockers
           @ duplicate_event_blockers (vc_store c) key snapshot
           @ batch_blockers (vc_store c) key item phase @ export))))))))))))))"

definition validate ::
  "(pyval \<Rightarrow> voucher_rule_resolution option) \<Rightarrow> validation_context \<Rightarrow> string \<Rightarrow> voucher_status_item \<Rightarrow> string \<Rightarrow> string
    \<Rightarrow> exc + validation_blocker list" where
  "validate vresolution c key item phase expected =
     res_bind (all_blockers vresolution c key item phase expected) (\<lambda>bs. Inr (dedup_blockers bs))"

text \<open>\<open>assert_executable\<close>: \<open>None\<close> when it returns, the payload of the \<open>VoucherExecutabilityError\<close> otherwise.\<close>

definition assert_executable ::
  "(pyval \<Rightarrow> voucher_rule_resolution option) \<Rightarrow> validation_context \<Rightarrow> string \<Rightarrow> voucher_status_item \<Rightarrow> string \<Rightarrow> string
    \<Rightarrow> exc + (validation_blocker list \<times> int) option" where
  "assert_executable vresolution c key item phase expected =
     res_bind (validate vresolution c key item phase expected) (\<lambda>bs.
     Inr (if bs = [] then None else Some (bs, vs_revision (vc_store c))))"

end
