(* ===== verification/Validator_Soundness.thy ===== *)
theory Validator_Soundness
  imports Voucher_Executability Draft_Checks
begin

text \<open>
  What the validator promises. \<open>validate_Nil\<close> gives the sections of a validation without blockers,
  each with its own list of blockers empty; the lemmas after it read off what an empty section
  means, up to \<open>executable_line\<close> and the totals of the journal lines.
\<close>

section \<open>One blocker per marker\<close>

lemma map_marker_keep_first: "map marker (keep_first b kept) = add_new (marker b) (map marker kept)"
  by (simp add: keep_first_def add_new_def)

lemma map_marker_fold: "map marker (fold keep_first bs kept) = fold add_new (map marker bs) (map marker kept)"
  by (induction bs arbitrary: kept) (simp_all add: map_marker_keep_first)

lemma dedup_blockers_markers: "map marker (dedup_blockers bs) = dedup (map marker bs)"
  by (simp add: dedup_blockers_def dedup_def map_marker_fold)

lemma dedup_blockers_Nil [simp]: "dedup_blockers bs = [] \<longleftrightarrow> bs = []"
proof -
  have "set (map marker (dedup_blockers bs)) = set (map marker bs)" by (simp only: dedup_blockers_markers set_dedup)
  then show ?thesis by auto
qed

lemma fold_keep_first_find:
  assumes "b \<in> set (fold keep_first bs kept)"
  shows "b \<in> set kept \<or> (marker b \<notin> marker ` set kept \<and> find (\<lambda>x. marker x = marker b) bs = Some b)"
  using assms
proof (induction bs arbitrary: kept)
  case (Cons a bs)
  from Cons.IH [of "keep_first a kept"] Cons.prems show ?case
    by (auto simp: keep_first_def split: if_splits)
qed simp

lemma dedup_blockers_first: "b \<in> set (dedup_blockers bs) \<Longrightarrow> find (\<lambda>x. marker x = marker b) bs = Some b"
  using fold_keep_first_find [of b bs "[]"] by (simp add: dedup_blockers_def)

section \<open>A validation without blockers\<close>

lemma validate_Nil_iff: "validate v c key item phase expected = Inr [] \<longleftrightarrow> all_blockers v c key item phase expected = Inr []"
  by (auto simp: validate_def res_bind_eq_Inr)

lemma assert_executable_None:
  "assert_executable v c key item phase expected = Inr None \<longleftrightarrow> validate v c key item phase expected = Inr []"
  by (auto simp: assert_executable_def res_bind_eq_Inr split: if_splits)

lemma all_blockers_Nil:
  assumes "all_blockers v c key item phase expected = Inr []"
  obtains hashes source_lines sources raw_allocations allocations raw_lines where
    "catalog_blockers c = []" "ledger_blockers c (si_snapshot item) = Inr []" "date_blockers c (si_snapshot item) = []"
    "proposal_blockers c key item phase expected = Inr []"
    "getd (si_snapshot item) ''source_file_hashes'' = Inr hashes" "source_file_blockers (vc_source_dir c) hashes = Inr []"
    "snapshot_dicts (si_snapshot item) ''source_lines'' = Inr source_lines"
    "check_source_lines source_lines = Inr sources" "sc_blockers sources = []"
    "resolution_blockers v c (si_snapshot item) source_lines = Inr []"
    "snapshot_dicts (si_snapshot item) ''project_allocations'' = Inr raw_allocations"
    "check_allocations (sc_by_id sources) raw_allocations = Inr allocations" "al_blockers allocations = []"
    "evidence_section c key (si_snapshot item) sources hashes = Inr []"
    "lines_section c (si_snapshot item) sources allocations = Inr (raw_lines, [])"
    "duplicate_event_blockers (vc_store c) key (si_snapshot item) = []"
    "batch_blockers (vc_store c) key item phase = []"
    "phase = ''export'' \<Longrightarrow> export_blockers (vc_facts_readiness c) raw_lines = Inr []"
  using assms unfolding all_blockers_def Let_def res_bind_eq_Inr case_prod_unfold
  apply (elim exE conjE)
  apply (simp only: sum.inject append_is_Nil_conv)
  apply (elim conjE)
  subgoal premises prems for l p hashes f source_lines sources r raw_allocations allocations ev ls ex
    by (rule that [of hashes source_lines sources raw_allocations allocations "fst ls"]; insert prems; simp add: prod_eq_iff)
  done

section \<open>Journal lines\<close>

definition line_of :: "pyval \<Rightarrow> vdict" where
  "line_of raw = (case (if truthy raw then py_dict raw else Inr []) of Inl e \<Rightarrow> [] | Inr line \<Rightarrow> line)"

definition money_value :: "vdict \<Rightarrow> string \<Rightarrow> rat" where
  "money_value d k = (case valid_money (get_val d k) of None \<Rightarrow> 0 | Some m \<Rightarrow> dval m)"

text \<open>A line that can be posted: a positive amount of whole cents on a side, booked on an enabled leaf
  account of the current catalog under its name, with a value for each auxiliary dimension the account
  asks for.\<close>

definition postable_account :: "validation_context \<Rightarrow> vdict \<Rightarrow> vdict \<Rightarrow> bool" where
  "postable_account c line account \<longleftrightarrow>
     dget (account_catalog (vc_account_payload c)) (strip (gets line ''account_code'')) = Some account
     \<and> is_true account ''enabled'' \<and> is_true account ''is_leaf''
     \<and> (gets line ''line_role'' = ''payable'' \<longrightarrow> gets account ''balance_direction'' = ''credit'')
     \<and> (\<exists>aux required. getd line ''aux'' = Inr aux \<and> required_aux account = Inr required
          \<and> (\<forall>k\<in>set required. strip (gets aux k) \<noteq> [] \<and> aux_value_exists (vc_aux_payload c) k (strip (gets aux k))))"

definition executable_line :: "validation_context \<Rightarrow> pyval \<Rightarrow> bool" where
  "executable_line c raw \<longleftrightarrow>
     gets (line_of raw) ''direction'' \<in> {''debit'', ''credit''}
     \<and> (\<exists>m. valid_money (get_val (line_of raw) ''amount'') = Some m \<and> 0 < dval m \<and> whole_cents m)
     \<and> (\<exists>account. postable_account c (line_of raw) account)"

lemma concat_map_Nil: "concat (map f xs) = [] \<longleftrightarrow> (\<forall>x\<in>set xs. f x = [])"
  by auto

lemma account_blockers_Nil:
  assumes "account_blockers c i line role allocation = Inr []" and "role = gets line ''line_role''"
  shows "\<exists>account. postable_account c line account"
proof -
  let ?code = "strip (gets line ''account_code'')"
  have code: "?code \<noteq> []" using assms(1) by (auto simp: account_blockers_def)
  obtain account where acc: "dget (account_catalog (vc_account_payload c)) ?code = Some account"
    using assms(1) code by (cases "dget (account_catalog (vc_account_payload c)) ?code") (simp_all add: account_blockers_def)
  have "\<exists>aux required. getd line ''aux'' = Inr aux \<and> required_aux account = Inr required
    \<and> (is_true account ''enabled'' \<and> is_true account ''is_leaf''
        \<and> (role = ''payable'' \<longrightarrow> gets account ''balance_direction'' = ''credit''))
    \<and> (\<forall>k\<in>set required. (if strip (gets aux k) = [] then [line_blocker ''AUX_REQUIRED'' [] i]
       else blocks (\<not> aux_value_exists (vc_aux_payload c) k (strip (gets aux k))) (line_blocker ''AUX_VALUE_NOT_FOUND'' [] i)) = [])"
    using assms(1) unfolding account_blockers_def Let_def
    apply (simp only: code if_False acc option.case res_bind_eq_Inr)
    apply (elim exE conjE)
    apply (simp only: sum.inject append_is_Nil_conv concat_map_Nil)
    apply (elim conjE)
    subgoal premises prems for aux required
    proof -
      have "list_all (dhas account) REQUIRED_METADATA" using prems(3) by (rule contrapos_pp) simp
      with prems(3) have "is_true account ''enabled'' \<and> is_true account ''is_leaf''
        \<and> (role = ''payable'' \<longrightarrow> gets account ''balance_direction'' = ''credit'')" by simp
      with prems show ?thesis by blast
    qed
    done
  then obtain aux required where aux: "getd line ''aux'' = Inr aux" "required_aux account = Inr required"
    and rest: "is_true account ''enabled''" "is_true account ''is_leaf''"
      "role = ''payable'' \<longrightarrow> gets account ''balance_direction'' = ''credit''"
    and dims: "\<forall>k\<in>set required. (if strip (gets aux k) = [] then [line_blocker ''AUX_REQUIRED'' [] i]
       else blocks (\<not> aux_value_exists (vc_aux_payload c) k (strip (gets aux k))) (line_blocker ''AUX_VALUE_NOT_FOUND'' [] i)) = []"
    by (elim exE conjE)
  have "strip (gets aux k) \<noteq> [] \<and> aux_value_exists (vc_aux_payload c) k (strip (gets aux k))" if "k \<in> set required" for k
    using bspec [OF dims that] by (auto simp: Let_def split: if_split_asm)
  with acc aux rest assms(2) show ?thesis by (auto simp: postable_account_def)
qed

lemma valid_scale_cents: "valid_scale d \<Longrightarrow> is_finite d \<Longrightarrow> whole_cents d"
  using quantize_cent_spec by (auto simp: valid_scale_def split: sum.split_asm)

lemma valid_money_finite: "valid_money v = Some d \<Longrightarrow> is_finite d"
  by (auto simp: valid_money_def split: option.split_asm if_split_asm)

lemma check_line_Nil:
  assumes "check_line c src allocs tt p = Inr l" and "lc_blockers l = []"
  obtains amount where "executable_line c (snd p)" "lc_counted l = Some amount"
    "dval amount = money_value (line_of (snd p)) ''amount''" "whole_cents amount" "0 < dval amount"
    "lc_direction l = gets (line_of (snd p)) ''direction''" "lc_role l = gets (line_of (snd p)) ''line_role''"
proof -
  define checked where "checked = (\<lambda>line bs counted rawa. \<lparr>lc_blockers = bs, lc_counted = counted,
     lc_direction = gets line ''direction'', lc_role = gets line ''line_role'',
     lc_cost_ids = (if bound_allocation allocs (gets line ''line_role'') (map py_str rawa) = None then []
        else map py_str rawa)\<rparr>)"
  from assms(1) obtain line raws rawa where
    line: "(if truthy (snd p) then py_dict (snd p) else Inr []) = Inr line"
    and body: "(let index = fst p; role = gets line ''line_role'';
        allocation = bound_allocation allocs role (map py_str rawa);
        bs = line_binding_blockers src allocation index role (gets line ''direction'') (map py_str raws) (map py_str rawa);
        amount_field = indexed_field ''lines'' index @ ''.amount''
      in case valid_money (get_val line ''amount'') of
           Some amount \<Rightarrow>
             if dec_le amount dec_zero
             then res_bind (account_blockers c index line role allocation) (\<lambda>acc. Inr
               (checked line (bs @ [line_blocker ''LINE_AMOUNT_INVALID'' amount_field index] @ acc) None rawa))
             else if \<not> valid_scale amount
             then Inr (checked line (bs @ [line_blocker ''LINE_AMOUNT_SCALE_INVALID'' amount_field index]) None rawa)
             else res_bind (account_blockers c index line role allocation) (\<lambda>acc. Inr
               (checked line (bs @ blocks (allocation_mismatch tt allocation amount)
                    (line_blocker ''LINE_ALLOCATION_AMOUNT_MISMATCH'' amount_field index) @ acc) (Some amount) rawa))
         | None \<Rightarrow> res_bind (account_blockers c index line role allocation) (\<lambda>acc. Inr
             (checked line (bs @ [line_blocker ''LINE_AMOUNT_INVALID'' amount_field index] @ acc) None rawa))) = Inr l"
    unfolding check_line_def Let_def checked_def res_bind_eq_Inr by (elim exE conjE) blast
  define binding where "binding = line_binding_blockers src (bound_allocation allocs (gets line ''line_role'') (map py_str rawa))
    (fst p) (gets line ''line_role'') (gets line ''direction'') (map py_str raws) (map py_str rawa)"
  have blk: "lc_blockers (checked a b d e) = b" "lc_counted (checked a b d e) = d"
    "lc_direction (checked a b d e) = gets a ''direction''" "lc_role (checked a b d e) = gets a ''line_role''" for a b d e
    by (simp_all add: checked_def)
  note body = body [unfolded Let_def, folded binding_def]
  obtain m where m: "valid_money (get_val line ''amount'') = Some m"
    using body assms(2) by (cases "valid_money (get_val line ''amount'')") (auto simp: res_bind_eq_Inr blk)
  have pos': "\<not> dec_le m dec_zero" using body assms(2) by (auto simp: m res_bind_eq_Inr blk split: if_split_asm)
  have scale: "valid_scale m" using body assms(2) pos' by (auto simp: m blk split: if_split_asm)
  from body pos' scale obtain acc bs where
    acc': "account_blockers c (fst p) line (gets line ''line_role'')
       (bound_allocation allocs (gets line ''line_role'') (map py_str rawa)) = Inr acc"
    and l: "l = checked line (binding @ bs @ acc) (Some m) rawa"
    by (simp add: m res_bind_eq_Inr) blast
  have empty: "acc = []" "binding = []" using assms(2) by (simp_all add: l blk)
  note acc = acc' [unfolded empty]
  have of: "line_of (snd p) = line" using line by (simp add: line_of_def)
  have pos: "0 < dval m" using pos' valid_money_finite [OF m] by (simp add: dec_le_dval dint_def not_le)
  have cents: "whole_cents m" using scale valid_money_finite [OF m] by (rule valid_scale_cents)
  have side: "gets line ''direction'' \<in> {''debit'', ''credit''}"
    using empty(2) by (auto simp: binding_def line_binding_blockers_def Let_def)
  from account_blockers_Nil [OF acc refl] obtain account where account: "postable_account c line account" ..
  have ex: "executable_line c (snd p)"
    unfolding executable_line_def of using side m pos cents account by blast
  show thesis by (rule that [OF ex, of m]) (simp_all add: of l blk money_value_def m cents pos)
qed

section \<open>Sums\<close>

lemma dec_sum_cents_abs:
  assumes "list_all whole_cents ds" and "whole_cents s" and "small (\<bar>dval s\<bar> + sum_list (map (\<lambda>d. \<bar>dval d\<bar>) ds))"
  shows "dval (dec_sum ds s) = dval s + sum_list (map dval ds) \<and> whole_cents (dec_sum ds s)"
  using assms
proof (induction ds arbitrary: s)
  case (Cons d ds)
  have nonneg: "0 \<le> sum_list (map (\<lambda>d. \<bar>dval d\<bar>) ds)" by (rule sum_list_nonneg) auto
  from Cons.prems(3) have small: "\<bar>\<bar>dval s\<bar> + (\<bar>dval d\<bar> + sum_list (map (\<lambda>d. \<bar>dval d\<bar>) ds))\<bar> < 10 ^ 26"
    by (simp add: small_def)
  have step: "small (dval s + dval d)"
    unfolding small_def using small nonneg abs_triangle_ineq [of "dval s" "dval d"] by linarith
  have add: "dval (dec_add s d) = dval s + dval d" "whole_cents (dec_add s d)"
    using dec_add_cents [of s d] Cons.prems step by simp_all
  have "small (\<bar>dval (dec_add s d)\<bar> + sum_list (map (\<lambda>d. \<bar>dval d\<bar>) ds))"
    unfolding small_def add(1) using small nonneg abs_triangle_ineq [of "dval s" "dval d"] by linarith
  with Cons.IH [of "dec_add s d"] Cons.prems add show ?case by (simp add: dec_sum_def)
qed (simp add: dec_sum_def)

lemma whole_cents_zero2 [simp]: "whole_cents dec_zero2" "dval dec_zero2 = 0"
  by (auto simp: whole_cents_def dint_def intro: exI [of _ 0])

definition posted :: "(vdict \<Rightarrow> bool) \<Rightarrow> pyval list \<Rightarrow> rat" where
  "posted Q raws = sum_list (map (\<lambda>raw. money_value (line_of raw) ''amount'') (filter (\<lambda>raw. Q (line_of raw)) raws))"

definition counted_as :: "pyval \<Rightarrow> line_check \<Rightarrow> bool" where
  "counted_as raw l \<longleftrightarrow> (\<exists>a. lc_counted l = Some a \<and> dval a = money_value (line_of raw) ''amount'' \<and> whole_cents a
     \<and> 0 < dval a \<and> lc_direction l = gets (line_of raw) ''direction'' \<and> lc_role l = gets (line_of raw) ''line_role'')"

lemma posted_nonneg:
  assumes "list_all2 counted_as raws ls"
  shows "0 \<le> posted Q raws"
proof -
  have "0 \<le> money_value (line_of raw) ''amount''" if "raw \<in> set raws" for raw
    using assms that by (induction raws ls rule: list_all2_induct) (auto simp: counted_as_def)
  then show ?thesis unfolding posted_def by (intro sum_list_nonneg) auto
qed

lemma posted_le:
  assumes "list_all2 counted_as raws ls"
  shows "posted Q raws \<le> posted (\<lambda>d. True) raws"
  using assms by (induction raws ls rule: list_all2_induct) (auto simp: posted_def counted_as_def)

lemma counted_total_value:
  assumes "list_all2 counted_as raws ls" and "small (posted (\<lambda>d. True) raws)"
    and "\<And>raw l. counted_as raw l \<Longrightarrow> P l = Q (line_of raw)"
  shows "dval (counted_total P ls) = posted Q raws" and "is_finite (counted_total P ls)"
proof -
  define ds where "ds = (\<lambda>ls. concat (map (\<lambda>l. case lc_counted l of None \<Rightarrow> [] | Some d \<Rightarrow> if P l then [d] else []) ls))"
  have "list_all whole_cents (ds ls) \<and> list_all (\<lambda>d. 0 \<le> dval d) (ds ls) \<and> sum_list (map dval (ds ls)) = posted Q raws"
    using assms(1)
  proof (induction raws ls rule: list_all2_induct)
    case (Cons raw raws l ls)
    from Cons.hyps assms(3) have "P l = Q (line_of raw)" by blast
    with Cons show ?case by (auto simp: ds_def posted_def counted_as_def)
  qed (simp add: ds_def posted_def)
  moreover have "small (posted Q raws)"
    using assms(2) posted_le [OF assms(1), of Q] posted_nonneg [OF assms(1), of Q]
    unfolding small_def by linarith
  ultimately have "dval (dec_sum (ds ls) dec_zero2) = posted Q raws \<and> whole_cents (dec_sum (ds ls) dec_zero2)"
    using dec_sum_cents [of "ds ls" dec_zero2] by (simp add: whole_cents_zero2 dint_def)
  then show "dval (counted_total P ls) = posted Q raws" "is_finite (counted_total P ls)"
    by (simp_all add: counted_total_def ds_def whole_cents_def)
qed

lemma lines_section_Nil:
  assumes "lines_section c snapshot sources allocations = Inr (raws, [])"
  obtains ls where "getl snapshot ''lines'' = Inr raws" "2 \<le> length raws" "list_all (executable_line c) raws"
    "list_all2 counted_as raws ls" "totals_blockers (tax_treatment_of snapshot) sources (al_by_id allocations) ls = []"
proof -
  let ?check = "check_line c (sc_by_id sources) (al_by_id allocations) (tax_treatment_of snapshot)"
  have "\<exists>ls. getl snapshot ''lines'' = Inr raws \<and> 2 \<le> length raws \<and> res_map ?check (enumerate 0 raws) = Inr ls
    \<and> (\<forall>l\<in>set ls. lc_blockers l = [])
    \<and> totals_blockers (tax_treatment_of snapshot) sources (al_by_id allocations) ls = []"
    using assms unfolding lines_section_def res_bind_eq_Inr
    apply (elim exE conjE)
    apply (simp only: sum.inject prod.inject append_is_Nil_conv concat_map_Nil blocks_Nil)
    apply (elim conjE)
    subgoal premises prems for raws' ls
      using prems by (simp only: not_less simp_thms)
    done
  then obtain ls where lines: "getl snapshot ''lines'' = Inr raws" "2 \<le> length raws"
    and m: "res_map ?check (enumerate 0 raws) = Inr ls" and none: "\<forall>l\<in>set ls. lc_blockers l = []"
    and totals: "totals_blockers (tax_treatment_of snapshot) sources (al_by_id allocations) ls = []"
    by (elim exE conjE)
  have "list_all (executable_line c) raws \<and> list_all2 counted_as raws ls"
    if "res_map ?check (enumerate n raws) = Inr ls" "\<forall>l\<in>set ls. lc_blockers l = []" for n raws ls
    using that
  proof (induction raws arbitrary: n ls)
    case (Cons raw raws)
    from Cons.prems(1) obtain l rest where l: "?check (n, raw) = Inr l" and r: "res_map ?check (enumerate (Suc n) raws) = Inr rest"
      and ls: "ls = l # rest" by (auto simp: res_bind_eq_Inr)
    from ls Cons.prems(2) have nil: "lc_blockers l = []" "\<forall>l\<in>set rest. lc_blockers l = []" by auto
    have "executable_line c raw \<and> counted_as raw l"
      by (rule check_line_Nil [OF l nil(1)]) (simp add: counted_as_def)
    with Cons.IH [OF r nil(2)] ls show ?case by simp
  qed simp
  from this [OF m none] lines totals that show thesis by blast
qed

section \<open>Source lines\<close>

definition source_total :: "string \<Rightarrow> vdict list \<Rightarrow> rat" where
  "source_total k lines = sum_list (map (\<lambda>d. money_value d k) lines)"

definition source_size :: "string \<Rightarrow> vdict list \<Rightarrow> rat" where
  "source_size k lines = sum_list (map (\<lambda>d. \<bar>money_value d k\<bar>) lines)"

definition source_line_ok :: "vdict \<Rightarrow> bool" where
  "source_line_ok d \<longleftrightarrow> strip (gets d ''source_line_id'') \<noteq> []
     \<and> (\<forall>k\<in>set money_fields. \<exists>m. valid_money (get_val d k) = Some m \<and> whole_cents m)"

lemma not_cents_False: "not_cents d = Inr False \<Longrightarrow> is_finite d \<Longrightarrow> whole_cents d"
  using quantize_cent_spec by (auto simp: not_cents_def res_bind_eq_Inr)

definition the_money :: "vdict \<Rightarrow> string \<Rightarrow> dec" where
  "the_money d k = (case valid_money (get_val d k) of None \<Rightarrow> dec_zero | Some m \<Rightarrow> m)"

lemma source_line_step_Nil:
  assumes "source_line_step p st = Inr st'" and "sc_blockers st' = []"
  shows "sc_blockers st = []" and "source_line_ok (snd p)"
    and "sc_pretax st' = dec_add (sc_pretax st) (the_money (snd p) ''pretax_amount'')"
    and "sc_tax st' = dec_add (sc_tax st) (the_money (snd p) ''tax_amount'')"
    and "sc_total st' = dec_add (sc_total st) (the_money (snd p) ''total_amount'')"
proof -
  have id: "strip (gets (snd p) ''source_line_id'') \<noteq> []"
    "\<not> dhas (sc_by_id st) (strip (gets (snd p) ''source_line_id''))"
    using assms by (auto simp: source_line_step_def Let_def)
  let ?st = "st\<lparr>sc_by_id := dput (strip (gets (snd p) ''source_line_id'')) (snd p) (sc_by_id st)\<rparr>"
  obtain a b c where abc: "valid_money (get_val (snd p) ''pretax_amount'') = Some a"
    "valid_money (get_val (snd p) ''tax_amount'') = Some b" "valid_money (get_val (snd p) ''total_amount'') = Some c"
    using assms id by (auto simp: source_line_step_def Let_def money_fields_def split: option.split_asm)
  obtain bad where bad: "res_any not_cents [a, b, c] = Inr bad"
    using assms(1) id abc by (auto simp: source_line_step_def Let_def money_fields_def res_bind_eq_Inr)
  have good: "\<not> bad" using assms id bad by (auto simp: source_line_step_def Let_def money_fields_def abc)
  have cents: "whole_cents a" "whole_cents b" "whole_cents c"
    using bad good abc valid_money_finite not_cents_False by (auto simp: res_bind_eq_Inr split: if_split_asm)
  then show "source_line_ok (snd p)" using id(1) abc by (simp add: source_line_ok_def money_fields_def)
  have eq: "st' = ?st\<lparr>sc_blockers := sc_blockers st @ blocks (\<not> dec_eq (dec_add a b) c)
       (blocker ''SOURCE_LINE_AMOUNT_UNBALANCED'' ''source'' (indexed_field ''source_lines'' (fst p))),
     sc_pretax := dec_add (sc_pretax st) a, sc_tax := dec_add (sc_tax st) b, sc_total := dec_add (sc_total st) c\<rparr>"
    using assms(1) id bad good by (simp add: source_line_step_def Let_def money_fields_def abc)
  from assms(2) eq show "sc_blockers st = []" by simp
  from eq abc show "sc_pretax st' = dec_add (sc_pretax st) (the_money (snd p) ''pretax_amount'')"
    "sc_tax st' = dec_add (sc_tax st) (the_money (snd p) ''tax_amount'')"
    "sc_total st' = dec_add (sc_total st) (the_money (snd p) ''total_amount'')" by (simp_all add: the_money_def)
qed

lemma source_fold_Nil:
  assumes "res_fold source_line_step ps st = Inr st'" and "sc_blockers st' = []"
  shows "sc_blockers st = [] \<and> list_all source_line_ok (map snd ps)
    \<and> sc_pretax st' = dec_sum (map (\<lambda>p. the_money (snd p) ''pretax_amount'') ps) (sc_pretax st)
    \<and> sc_tax st' = dec_sum (map (\<lambda>p. the_money (snd p) ''tax_amount'') ps) (sc_tax st)
    \<and> sc_total st' = dec_sum (map (\<lambda>p. the_money (snd p) ''total_amount'') ps) (sc_total st)"
  using assms
proof (induction ps arbitrary: st)
  case (Cons p ps)
  from Cons.prems(1) obtain u where u: "source_line_step p st = Inr u" "res_fold source_line_step ps u = Inr st'"
    by (auto simp: res_bind_eq_Inr)
  note ih = Cons.IH [OF u(2) Cons.prems(2)]
  from source_line_step_Nil [OF u(1)] ih show ?case by (simp add: dec_sum_def)
qed (simp add: dec_sum_def)

lemma source_sum:
  assumes "list_all source_line_ok lines" and "k \<in> set money_fields" and "small (source_size k lines)"
  shows "dval (dec_sum (map (\<lambda>d. the_money d k) lines) dec_zero2) = source_total k lines
    \<and> is_finite (dec_sum (map (\<lambda>d. the_money d k) lines) dec_zero2)"
proof -
  have cents: "list_all whole_cents (map (\<lambda>d. the_money d k) lines)"
    using assms(1,2) by (fastforce simp: list_all_iff source_line_ok_def the_money_def)
  have val: "map dval (map (\<lambda>d. the_money d k) lines) = map (\<lambda>d. money_value d k) lines"
    "map (\<lambda>m. \<bar>dval m\<bar>) (map (\<lambda>d. the_money d k) lines) = map (\<lambda>d. \<bar>money_value d k\<bar>) lines"
    by (auto simp: the_money_def money_value_def dint_def split: option.split)
  have zero: "dval dec_zero2 = 0" by (rule whole_cents_zero2)
  have "small (\<bar>dval dec_zero2\<bar> + sum_list (map (\<lambda>m. \<bar>dval m\<bar>) (map (\<lambda>d. the_money d k) lines)))"
    using assms(3) unfolding val zero source_size_def by simp
  from dec_sum_cents_abs [OF cents _ this] show ?thesis
    unfolding val zero source_total_def by (simp add: whole_cents_def del: dval.simps)
qed

lemma check_source_lines_Nil:
  assumes "check_source_lines lines = Inr st" and "sc_blockers st = []" and "\<forall>k\<in>set money_fields. small (source_size k lines)"
  shows "lines \<noteq> []" and "list_all source_line_ok lines"
    and "dval (sc_pretax st) = source_total ''pretax_amount'' lines" "is_finite (sc_pretax st)"
    and "dval (sc_tax st) = source_total ''tax_amount'' lines" "is_finite (sc_tax st)"
    and "dval (sc_total st) = source_total ''total_amount'' lines" "is_finite (sc_total st)"
proof -
  have snds: "map (\<lambda>p. the_money (snd p) k) (enumerate n lines) = map (\<lambda>d. the_money d k) lines" for k n
    by (induction lines arbitrary: n) simp_all
  note facts = source_fold_Nil [OF assms(1) [unfolded check_source_lines_def] assms(2)]
  then show "lines \<noteq> []" by auto
  from facts show ok: "list_all source_line_ok lines" by simp
  have sums: "dval (dec_sum (map (\<lambda>d. the_money d k) lines) dec_zero2) = source_total k lines"
    "is_finite (dec_sum (map (\<lambda>d. the_money d k) lines) dec_zero2)" if "k \<in> set money_fields" for k
    using source_sum [OF ok that] assms(3) that by blast+
  have "''pretax_amount'' \<in> set money_fields" "''tax_amount'' \<in> set money_fields" "''total_amount'' \<in> set money_fields"
    by (simp_all add: money_fields_def)
  note exact = this [THEN sums(1)] this [THEN sums(2)]
  from facts exact show "dval (sc_pretax st) = source_total ''pretax_amount'' lines" "is_finite (sc_pretax st)"
    "dval (sc_tax st) = source_total ''tax_amount'' lines" "is_finite (sc_tax st)"
    "dval (sc_total st) = source_total ''total_amount'' lines" "is_finite (sc_total st)"
    by (simp_all add: snds del: dval.simps)
qed

section \<open>Executable vouchers balance\<close>

definition has_text :: "string \<Rightarrow> string \<Rightarrow> vdict \<Rightarrow> bool" where
  "has_text k t d \<longleftrightarrow> gets d k = t"

lemma evidence_section_Nil:
  assumes "evidence_section c key snapshot sources hashes = Inr []"
  obtains refs subjects where "tax_blockers snapshot refs subjects = []" "decision_blockers snapshot = []"
proof -
  have "\<exists>refs subjects. tax_blockers snapshot refs subjects = [] \<and> decision_blockers snapshot = []"
    using assms unfolding evidence_section_def Let_def res_bind_eq_Inr
    by (elim exE conjE) (simp only: sum.inject append_is_Nil_conv, blast)
  with that show thesis by blast
qed

lemma tax_blockers_Nil: "tax_blockers snapshot refs subjects = [] \<Longrightarrow>
    tax_treatment_of snapshot = ''deductible'' \<or> tax_treatment_of snapshot = ''non_deductible''"
  by (auto simp: tax_blockers_def Let_def split: if_split_asm)

text \<open>What the lines book on each role, for the two tax treatments.\<close>

definition books_sources :: "string \<Rightarrow> pyval list \<Rightarrow> vdict list \<Rightarrow> bool" where
  "books_sources tax_treatment raws src \<longleftrightarrow>
     posted (has_text ''line_role'' ''payable'') raws = source_total ''total_amount'' src
     \<and> (if tax_treatment = ''deductible''
        then posted (has_text ''line_role'' ''cost'') raws = source_total ''pretax_amount'' src
           \<and> posted (has_text ''line_role'' ''input_tax'') raws = source_total ''tax_amount'' src
        else posted (has_text ''line_role'' ''cost'') raws = source_total ''total_amount'' src
           \<and> posted (has_text ''line_role'' ''input_tax'') raws = 0)"

lemma totals_blockers_Nil:
  assumes "totals_blockers tt st allocs ls = []" and ls: "list_all2 counted_as raws ls"
    and small: "small (posted (\<lambda>d. True) raws)" and tt: "tt = ''deductible'' \<or> tt = ''non_deductible''"
    and st: "dval (sc_pretax st) = source_total ''pretax_amount'' src" "is_finite (sc_pretax st)"
      "dval (sc_tax st) = source_total ''tax_amount'' src" "is_finite (sc_tax st)"
      "dval (sc_total st) = source_total ''total_amount'' src" "is_finite (sc_total st)"
  shows "posted (has_text ''direction'' ''debit'') raws = posted (has_text ''direction'' ''credit'') raws"
    and "books_sources tt raws src"
proof -
  have side: "dval (counted_total (\<lambda>l. lc_direction l = d) ls) = posted (has_text ''direction'' d) raws"
    "is_finite (counted_total (\<lambda>l. lc_direction l = d) ls)" for d
    by (rule counted_total_value [OF ls small, where Q = "has_text ''direction'' d"]; auto simp: counted_as_def has_text_def)+
  have role: "dval (role_total r ls) = posted (has_text ''line_role'' r) raws" "is_finite (role_total r ls)" for r
    unfolding role_total_def
    by (rule counted_total_value [OF ls small, where Q = "has_text ''line_role'' r"]; auto simp: counted_as_def has_text_def)+
  have zero: "dval dec_zero2 = 0" "is_finite dec_zero2" using whole_cents_zero2 by simp_all
  have eqs: "dec_eq (counted_total (\<lambda>l. lc_direction l = ''debit'') ls) (counted_total (\<lambda>l. lc_direction l = ''credit'') ls)"
    "dec_eq (role_total ''payable'' ls) (sc_total st)"
    "tt = ''deductible'' \<Longrightarrow> dec_eq (role_total ''cost'' ls) (sc_pretax st) \<and> dec_eq (role_total ''input_tax'' ls) (sc_tax st)"
    "tt = ''non_deductible'' \<Longrightarrow> dec_eq (role_total ''input_tax'' ls) dec_zero2 \<and> dec_eq (role_total ''cost'' ls) (sc_total st)"
    using assms(1) unfolding totals_blockers_def Let_def by (simp_all del: dec_eq.simps)
  show "posted (has_text ''direction'' ''debit'') raws = posted (has_text ''direction'' ''credit'') raws"
    using eqs(1) by (simp add: dec_eq_dval side del: dec_eq.simps)
  from tt show "books_sources tt raws src"
  proof
    assume tt: "tt = ''deductible''"
    with eqs(2) eqs(3) show ?thesis
      by (simp add: books_sources_def dec_eq_dval role st del: dec_eq.simps dval.simps)
  next
    assume tt: "tt = ''non_deductible''"
    with eqs(2) eqs(4) show ?thesis
      by (simp add: books_sources_def dec_eq_dval role st zero del: dec_eq.simps dval.simps)
  qed
qed

lemma executable_balance:
  assumes "validate v c key item phase expected = Inr []"
    and "getl (si_snapshot item) ''lines'' = Inr raws" and "snapshot_dicts (si_snapshot item) ''source_lines'' = Inr src"
    and "small (posted (\<lambda>d. True) raws)" and "\<forall>k\<in>set money_fields. small (source_size k src)"
  shows "2 \<le> length raws \<and> list_all (executable_line c) raws
    \<and> posted (has_text ''direction'' ''debit'') raws = posted (has_text ''direction'' ''credit'') raws
    \<and> tax_treatment_of (si_snapshot item) \<in> {''deductible'', ''non_deductible''}
    \<and> books_sources (tax_treatment_of (si_snapshot item)) raws src"
proof -
  from assms(1) have all: "all_blockers v c key item phase expected = Inr []" by (simp only: validate_Nil_iff)
  obtain hashes src' sources allocations raws' where
    src: "snapshot_dicts (si_snapshot item) ''source_lines'' = Inr src'" "check_source_lines src' = Inr sources" "sc_blockers sources = []"
    and ev: "evidence_section c key (si_snapshot item) sources hashes = Inr []"
    and lines: "lines_section c (si_snapshot item) sources allocations = Inr (raws', [])"
    by (rule all_blockers_Nil [OF all]) blast
  from lines obtain ls where ls: "getl (si_snapshot item) ''lines'' = Inr raws'" "2 \<le> length raws'" "list_all (executable_line c) raws'"
    "list_all2 counted_as raws' ls"
    and totals: "totals_blockers (tax_treatment_of (si_snapshot item)) sources (al_by_id allocations) ls = []"
    by (rule lines_section_Nil)
  have raws: "raws' = raws" using ls(1) assms(2) by simp
  have src': "src' = src" using src(1) assms(3) by simp
  obtain refs subjects where "tax_blockers (si_snapshot item) refs subjects = []"
    by (rule evidence_section_Nil [OF ev])
  then have tt: "tax_treatment_of (si_snapshot item) = ''deductible'' \<or> tax_treatment_of (si_snapshot item) = ''non_deductible''"
    by (rule tax_blockers_Nil)
  note st = check_source_lines_Nil(3-8) [OF src(2) [unfolded src'] src(3) assms(5)]
  note sums = totals_blockers_Nil [OF totals ls(4) [unfolded raws] assms(4) tt st]
  from ls(2,3) tt sums show ?thesis unfolding raws by blast
qed

section \<open>Executable vouchers are current\<close>

text \<open>One ledger: the profile, the store and the proposal name the same company and ledger, and the
  proposal was built on the current profile and catalogs.\<close>

definition ledger_agrees :: "validation_context \<Rightarrow> vdict \<Rightarrow> bool" where
  "ledger_agrees c snapshot \<longleftrightarrow> (\<exists>p. vc_profile c = Some p
     \<and> pf_company_id p = vc_company_id c \<and> gets snapshot ''company_id'' = vc_company_id c
     \<and> pf_ledger_environment p = vs_ledger_environment (vc_store c)
     \<and> gets snapshot ''ledger_environment'' = vs_ledger_environment (vc_store c)
     \<and> pf_ledger_identity_sha256 p = vs_ledger_identity_sha256 (vc_store c)
     \<and> gets snapshot ''ledger_identity_sha256'' = vs_ledger_identity_sha256 (vc_store c)
     \<and> vs_ledger_profile_sha256 (vc_store c) = vc_profile_sha256 c
     \<and> gets snapshot ''ledger_profile_sha256'' = vc_profile_sha256 c
     \<and> geti_or snapshot ''ledger_profile_revision'' 0 = Inr (pf_revision p)
     \<and> pf_account_table_sha256 p = vc_account_table_sha256 c
     \<and> gets snapshot ''account_table_sha256'' = vc_account_table_sha256 c
     \<and> gets snapshot ''aux_catalog_sha256'' = vc_aux_catalog_sha256 c
     \<and> pf_voucher_write_permission_confirmed p \<and> pf_currency p = ''CNY'')"

definition period_is_open :: "validation_context \<Rightarrow> vdict \<Rightarrow> bool" where
  "period_is_open c snapshot \<longleftrightarrow> (\<exists>p d. vc_profile c = Some p \<and> from_iso (gets snapshot ''voucher_date'') = Some d
     \<and> snapshot_period snapshot = month_text d \<and> month_text d \<in> set (pf_open_periods p)
     \<and> \<not> (pf_closed_through p \<noteq> [] \<and> month_text d \<noteq> [] \<and> month_text d \<le> pf_closed_through p))"

definition proposal_is_bound :: "voucher_status_item \<Rightarrow> string \<Rightarrow> string \<Rightarrow> string \<Rightarrow> bool" where
  "proposal_is_bound item key phase expected \<longleftrightarrow>
    (let h = gets (si_snapshot item) ''proposal_revision_hash''
     in h \<noteq> [] \<and> proposal_revision_hash (si_snapshot item) = Inr h
        \<and> (expected \<noteq> [] \<longrightarrow> expected = h) \<and> (phase = ''export'' \<longrightarrow> si_approved_revision_hash item = h)
        \<and> gets_or (si_snapshot item) ''posting_key'' (gets (si_snapshot item) ''voucher_key'') = key
        \<and> proposal_hash_version (si_snapshot item) = 2)"

definition sources_unchanged :: "validation_context \<Rightarrow> vdict \<Rightarrow> bool" where
  "sources_unchanged c snapshot \<longleftrightarrow> (\<exists>hashes. getd snapshot ''source_file_hashes'' = Inr hashes \<and> hashes \<noteq> []
     \<and> (\<forall>(name, h)\<in>set hashes. \<exists>path content. st_resolve (vc_source_dir c) name = Some path
          \<and> inside_or_root (vc_source_dir c) path \<and> st_content (vc_source_dir c) path = Some content
          \<and> h = VStr (sha256 content)))"

definition mapping_is_current :: "validation_context \<Rightarrow> vdict \<Rightarrow> bool" where
  "mapping_is_current c snapshot \<longleftrightarrow> (\<exists>src current. snapshot_dicts snapshot ''source_lines'' = Inr src
     \<and> res_map (current_resolution c snapshot) src = Inr current
     \<and> gets snapshot ''mapping_resolution_sha256'' = mapping_resolution_sha256 current)"

lemma ledger_blockers_Nil:
  assumes "ledger_blockers c snapshot = Inr []" and "proposal_blockers c key item phase expected = Inr []"
    and "si_snapshot item = snapshot"
  shows "ledger_agrees c snapshot"
proof -
  obtain p where p: "vc_profile c = Some p" and nil: "profile_blockers c snapshot p = Inr []"
    using assms(1) by (auto simp: ledger_blockers_def split: if_split_asm option.split_asm)
  obtain revision where rev: "geti_or snapshot ''ledger_profile_revision'' 0 = Inr revision"
    using nil by (auto simp: profile_blockers_def res_bind_eq_Inr)
  have tables: "gets snapshot ''account_table_sha256'' = vc_account_table_sha256 c"
    "gets snapshot ''aux_catalog_sha256'' = vc_aux_catalog_sha256 c"
    using assms(2) unfolding proposal_blockers_def Let_def assms(3) res_bind_eq_Inr
    by (elim exE conjE, simp only: sum.inject append_is_Nil_conv blocks_Nil, blast)+
  from nil rev p tables show ?thesis unfolding profile_blockers_def
    by (simp only: rev res_bind_simps sum.inject append_is_Nil_conv blocks_Nil) (auto simp: ledger_agrees_def rev)
qed

lemma date_blockers_Nil:
  assumes "date_blockers c snapshot = []" and "vc_profile c = Some p"
  shows "period_is_open c snapshot"
  using assms by (auto simp: date_blockers_def Let_def period_is_open_def split: option.split_asm)

lemma proposal_blockers_Nil:
  assumes "proposal_blockers c key item phase expected = Inr []"
  shows "proposal_is_bound item key phase expected"
proof -
  from assms obtain h where h: "proposal_revision_hash (si_snapshot item) = Inr h"
    by (auto simp: proposal_blockers_def Let_def res_bind_eq_Inr)
  show ?thesis using assms unfolding proposal_blockers_def Let_def h res_bind_simps
    by (simp only: sum.inject append_is_Nil_conv blocks_Nil)
      (auto simp: proposal_is_bound_def Let_def h split: if_split_asm)
qed

lemma source_file_blockers_Nil:
  assumes "getd snapshot ''source_file_hashes'' = Inr hashes" and "source_file_blockers (vc_source_dir c) hashes = Inr []"
  shows "sources_unchanged c snapshot"
proof -
  obtain bs where bs: "res_map (source_file_check (vc_source_dir c)) hashes = Inr bs" and nil: "\<forall>b\<in>set bs. b = []"
    and ne: "hashes \<noteq> []"
    using assms(2) by (auto simp: source_file_blockers_def res_bind_eq_Inr)
  have "\<exists>path content. st_resolve (vc_source_dir c) (fst p) = Some path \<and> inside_or_root (vc_source_dir c) path
    \<and> st_content (vc_source_dir c) path = Some content \<and> snd p = VStr (sha256 content)" if "p \<in> set hashes" for p
  proof -
    from that obtain i where i: "i < length hashes" "hashes ! i = p" by (auto simp: in_set_conv_nth)
    have "source_file_check (vc_source_dir c) p = Inr (bs ! i)" using res_map_Inr_nth [OF bs i(1)] i(2) by simp
    moreover have "bs ! i = []" using nil i(1) res_map_Inr_length [OF bs] by simp
    ultimately show ?thesis
      by (auto simp: source_file_check_def Let_def split: option.split_asm if_split_asm)
  qed
  with assms(1) ne show ?thesis unfolding sources_unchanged_def by fastforce
qed

lemma those_map_Nil: "those (map f xs) = Some [] \<Longrightarrow> xs = []"
  by (cases xs) (auto split: option.split_asm)

lemma stored_resolutions_Nil: "stored_resolutions v snapshot n = ([], []) \<Longrightarrow> n = 0"
  by (auto dest: those_map_Nil simp: stored_resolutions_def split: pyval.split_asm if_split_asm option.split_asm)

lemma resolution_blockers_Nil:
  assumes "snapshot_dicts snapshot ''source_lines'' = Inr src" and "src \<noteq> []"
    and "resolution_blockers v c snapshot src = Inr []" and "vc_mapping_error c = []"
  shows "mapping_is_current c snapshot"
proof -
  obtain bs stored where st: "stored_resolutions v snapshot (length src) = (bs, stored)" by fastforce
  have ne: "stored \<noteq> []"
    using assms(2,3) st stored_resolutions_Nil [of v snapshot "length src"] by (auto simp: resolution_blockers_def)
  obtain drift where "resolution_drift c snapshot src = Inr drift" and "drift = []"
    using assms(3) ne by (auto simp: resolution_blockers_def st Let_def res_bind_eq_Inr)
  then show ?thesis using assms(1,4)
    by (auto simp: resolution_drift_def Let_def res_bind_eq_Inr mapping_is_current_def)
qed

lemma executable_current:
  assumes "validate v c key item phase expected = Inr []"
  shows "ledger_agrees c (si_snapshot item) \<and> period_is_open c (si_snapshot item)
    \<and> proposal_is_bound item key phase expected \<and> sources_unchanged c (si_snapshot item)
    \<and> mapping_is_current c (si_snapshot item)"
proof -
  from assms have all: "all_blockers v c key item phase expected = Inr []" by (simp only: validate_Nil_iff)
  obtain hashes src sources where
    nils: "catalog_blockers c = []" "ledger_blockers c (si_snapshot item) = Inr []" "date_blockers c (si_snapshot item) = []"
      "proposal_blockers c key item phase expected = Inr []"
    and hashes: "getd (si_snapshot item) ''source_file_hashes'' = Inr hashes" "source_file_blockers (vc_source_dir c) hashes = Inr []"
    and src: "snapshot_dicts (si_snapshot item) ''source_lines'' = Inr src" "check_source_lines src = Inr sources" "sc_blockers sources = []"
    and res: "resolution_blockers v c (si_snapshot item) src = Inr []"
    by (rule all_blockers_Nil [OF all]) blast
  have ledger: "ledger_agrees c (si_snapshot item)" using ledger_blockers_Nil [OF nils(2,4) refl] .
  then obtain p where "vc_profile c = Some p" by (auto simp: ledger_agrees_def)
  note period = date_blockers_Nil [OF nils(3) this]
  have "src \<noteq> []"
    using source_fold_Nil [OF src(2) [unfolded check_source_lines_def] src(3)] by auto
  moreover have "vc_mapping_error c = []" using nils(1) by (auto simp: catalog_blockers_def)
  ultimately have "mapping_is_current c (si_snapshot item)" using resolution_blockers_Nil [OF src(1) _ res] by blast
  with ledger period proposal_blockers_Nil [OF nils(4)] source_file_blockers_Nil [OF hashes] show ?thesis by blast
qed

section \<open>Executable vouchers are posted once\<close>

lemma executable_unique:
  assumes "validate v c key item phase expected = Inr []"
  shows "([] \<notin> set (event_identity (si_snapshot item)) \<longrightarrow> (\<forall>(k, other)\<in>set (vs_items (vc_store c)).
       k \<noteq> key \<longrightarrow> event_identity (si_snapshot other) \<noteq> event_identity (si_snapshot item)))
    \<and> (\<forall>(n, b)\<in>set (vs_batches (vc_store c)). ib_state b \<in> set UNFINISHED_BATCH_STATES
       \<longrightarrow> key \<in> bi_posting_key ` set (ib_items b) \<longrightarrow> phase \<noteq> ''approve'' \<and> si_batch_id item = ib_batch_id b)"
proof -
  from assms have all: "all_blockers v c key item phase expected = Inr []" by (simp only: validate_Nil_iff)
  have dup: "duplicate_event_blockers (vc_store c) key (si_snapshot item) = []"
    and batch: "batch_blockers (vc_store c) key item phase = []"
    by (rule all_blockers_Nil [OF all], assumption)+
  from dup have "[] \<in> set (event_identity (si_snapshot item)) \<or> (\<forall>p\<in>set (vs_items (vc_store c)).
       fst p = key \<or> event_identity (si_snapshot (snd p)) \<noteq> event_identity (si_snapshot item))"
    unfolding duplicate_event_blockers_def blocks_Nil list_ex_iff by blast
  moreover from batch have "\<forall>p\<in>set (vs_batches (vc_store c)). ib_state (snd p) \<in> set UNFINISHED_BATCH_STATES
    \<longrightarrow> key \<in> bi_posting_key ` set (ib_items (snd p)) \<longrightarrow> si_batch_id item = ib_batch_id (snd p) \<and> phase \<noteq> ''approve''"
    unfolding batch_blockers_def blocks_Nil list_ex_iff by blast
  ultimately show ?thesis by fastforce
qed

end
