(* ===== verification/Executable_Vouchers.thy ===== *)
theory Executable_Vouchers
  imports Validator_Soundness Import_Batches
begin

text \<open>
  The theorems on the validator, with a voucher that is executable: one purchase of 106.00 with its
  tax not deductible, booked on two accounts.
\<close>

section \<open>An executable voucher\<close>

definition sample_confirmation :: pyval where
  "sample_confirmation = VDict [(''evidence_id'', VStr ''e''), (''evidence_type'', VStr ''manual_confirmation''),
     (''subject_id'', VStr ''k''), (''confirmed_by'', VStr ''b''), (''confirmed_at'', VStr ''t''),
     (''reason'', VStr ''r''), (''coverage_state'', VStr ''not_applicable'')]"

definition sample_money_fields :: vdict where
  "sample_money_fields = [(''pretax_amount'', VStr ''100.00''), (''tax_amount'', VStr ''6.00''), (''total_amount'', VStr ''106.00'')]"

definition sample_source_dict :: vdict where
  "sample_source_dict = (''source_line_id'', VStr ''s'') # sample_money_fields"

definition sample_allocation_dict :: vdict where
  "sample_allocation_dict = (''source_line_id'', VStr ''s'') # (''allocation_id'', VStr ''a'')
     # (''project_name'', VStr ''p'') # sample_money_fields"

definition posting_line :: "string \<Rightarrow> string \<Rightarrow> string \<Rightarrow> pyval list \<Rightarrow> pyval" where
  "posting_line role direction code allocations = VDict [(''line_role'', VStr role), (''direction'', VStr direction),
     (''amount'', VStr ''106.00''), (''account_code'', VStr code), (''account_name'', VStr code),
     (''source_line_ids'', VList [VStr ''s'']), (''allocation_ids'', VList allocations)]"

definition posting_lines :: "pyval list" where
  "posting_lines = [posting_line ''cost'' ''debit'' ''x'' [VStr ''a''], posting_line ''payable'' ''credit'' ''y'' []]"

definition unmatched_resolution :: voucher_rule_resolution where
  "unmatched_resolution = \<lparr>rr_source_line_id = ''s'', rr_outcome = ''unmatched'', rr_rule_id = [],
     rr_rule_fingerprint = [], rr_candidate_rule_ids = [], rr_candidate_rule_fingerprints = []\<rparr>"

definition sample_voucher :: "string \<Rightarrow> vdict" where
  "sample_voucher h =
    [(''posting_key'', VStr ''k''), (''company_id'', VStr ''x''), (''ledger_environment'', VStr ''test''),
     (''ledger_identity_sha256'', VStr ''i''), (''ledger_profile_revision'', VInt 1),
     (''ledger_profile_sha256'', VStr ''p''), (''account_table_sha256'', VStr ''t''),
     (''aux_catalog_sha256'', VStr ''u''), (''voucher_type'', VStr ''x''), (''voucher_date'', VStr ''2024-05-31''),
     (''anchor_business_key'', VStr ''n''), (''event_type'', VStr ''purchase_recognition''),
     (''proposal_hash_version'', VInt 2), (''rules_version'', VStr ''v''),
     (''source_file_hashes'', VDict [(''f'', VStr (sha256 ''x''))]),
     (''source_lines'', VList [VDict sample_source_dict]),
     (''rule_resolutions'', VList [VNone]),
     (''mapping_resolution_sha256'', VStr (mapping_resolution_sha256 [unmatched_resolution])),
     (''business_class'', VStr ''period_expense''), (''decision_confirmed_by'', VStr ''b''),
     (''decision_confirmed_at'', VStr ''t''), (''payment_state'', VStr ''unmatched''),
     (''tax_treatment'', VStr ''non_deductible''), (''tax_evidence_refs'', VList [sample_confirmation]),
     (''receiving_state'', VStr ''not_applicable''), (''receiving_evidence_refs'', VList [sample_confirmation]),
     (''project_allocations'', VList [VDict sample_allocation_dict]), (''lines'', VList posting_lines),
     (''proposal_revision_hash'', VStr h)]"

lemma sample_voucher_fields:
  "get_val (sample_voucher h) ''posting_key'' = VStr ''k''" "get_val (sample_voucher h) ''company_id'' = VStr ''x''"
  "get_val (sample_voucher h) ''ledger_environment'' = VStr ''test''"
  "get_val (sample_voucher h) ''ledger_identity_sha256'' = VStr ''i''"
  "get_val (sample_voucher h) ''ledger_profile_revision'' = VInt 1"
  "get_val (sample_voucher h) ''ledger_profile_sha256'' = VStr ''p''"
  "get_val (sample_voucher h) ''account_table_sha256'' = VStr ''t''"
  "get_val (sample_voucher h) ''aux_catalog_sha256'' = VStr ''u''" "get_val (sample_voucher h) ''voucher_type'' = VStr ''x''"
  "get_val (sample_voucher h) ''voucher_date'' = VStr ''2024-05-31''" "get_val (sample_voucher h) ''period'' = VNone"
  "get_val (sample_voucher h) ''anchor_business_key'' = VStr ''n''"
  "get_val (sample_voucher h) ''event_type'' = VStr ''purchase_recognition''"
  "get_val (sample_voucher h) ''proposal_hash_version'' = VInt 2" "get_val (sample_voucher h) ''rules_version'' = VStr ''v''"
  "get_val (sample_voucher h) ''key_strength'' = VNone" "get_val (sample_voucher h) ''review_tier'' = VNone"
  "get_val (sample_voucher h) ''source_type'' = VNone" "get_val (sample_voucher h) ''rule_ids'' = VNone"
  "get_val (sample_voucher h) ''rule_fingerprints'' = VNone" "get_val (sample_voucher h) ''source_invoice_nos'' = VNone"
  "get_val (sample_voucher h) ''source_file_hashes'' = VDict [(''f'', VStr (sha256 ''x''))]"
  "get_val (sample_voucher h) ''source_lines'' = VList [VDict sample_source_dict]"
  "get_val (sample_voucher h) ''rule_resolutions'' = VList [VNone]"
  "get_val (sample_voucher h) ''mapping_resolution_sha256'' = VStr (mapping_resolution_sha256 [unmatched_resolution])"
  "get_val (sample_voucher h) ''business_class'' = VStr ''period_expense''"
  "get_val (sample_voucher h) ''decision_confirmed_by'' = VStr ''b''"
  "get_val (sample_voucher h) ''decision_confirmed_at'' = VStr ''t''"
  "get_val (sample_voucher h) ''payment_state'' = VStr ''unmatched''"
  "get_val (sample_voucher h) ''payment_evidence_refs'' = VNone"
  "get_val (sample_voucher h) ''tax_treatment'' = VStr ''non_deductible''"
  "get_val (sample_voucher h) ''tax_evidence_refs'' = VList [sample_confirmation]"
  "get_val (sample_voucher h) ''receiving_state'' = VStr ''not_applicable''"
  "get_val (sample_voucher h) ''receiving_evidence_refs'' = VList [sample_confirmation]"
  "get_val (sample_voucher h) ''project_allocations'' = VList [VDict sample_allocation_dict]"
  "get_val (sample_voucher h) ''lines'' = VList posting_lines"
  "get_val (sample_voucher h) ''proposal_revision_hash'' = VStr h"
  by (simp_all add: sample_voucher_def get_val_def)

definition sample_profile_cny :: company_ledger_profile where
  "sample_profile_cny = sample_profile\<lparr>pf_currency := ''CNY'', pf_ledger_identity_sha256 := ''i'',
     pf_account_table_sha256 := ''t'', pf_aux_catalog_sha256 := ''u''\<rparr>"

definition sample_accounts_payload :: vdict where
  "sample_accounts_payload = [(''accounts'', VList (map (\<lambda>r. VDict (dump_account_catalog_record r))
     [sample_account, sample_account\<lparr>ac_code := ''y'', ac_name := ''y'', ac_balance_direction := ''credit''\<rparr>]))]"

definition ready_facts :: vdict where
  "ready_facts = map (\<lambda>k. (k, VDict [(''status'', VStr ''ready'')])) [''template'', ''grouping'', ''voucher_type'', ''numbering'', ''decimal'']"

definition sample_validation_context :: validation_context where
  "sample_validation_context = \<lparr>vc_company_id = ''x'', vc_profile = Some sample_profile_cny, vc_profile_error = [],
     vc_profile_sha256 = ''p'', vc_account_payload = sample_accounts_payload, vc_account_error = [],
     vc_account_table_sha256 = ''t'', vc_aux_payload = [], vc_aux_error = [], vc_aux_catalog_sha256 = ''u'',
     vc_binding_error = [], vc_catalogs = None, vc_mapping_rules_version = ''v'', vc_mapping_rules = [],
     vc_mapping_error = [], vc_company_dir = \<lparr>st_root = [], st_resolve = (\<lambda>s. None), st_content = (\<lambda>p. None)\<rparr>,
     vc_source_dir = \<lparr>st_root = [''r''], st_resolve = (\<lambda>s. Some [''r'', s]), st_content = (\<lambda>p. Some ''x'')\<rparr>,
     vc_store = (sample_store [(''k'', sample_item Approved), (''o'', sample_item Draft)])\<lparr>vs_batches := [(''b'', sample_batch Prepared)],
       vs_company_id := ''x'', vs_ledger_environment := ''test'',
       vs_ledger_identity_sha256 := ''i'', vs_ledger_profile_sha256 := ''p''\<rparr>,
     vc_facts_readiness = ready_facts\<rparr>"

definition voucher_revision :: string where
  "voucher_revision = (case proposal_revision_hash (sample_voucher []) of Inl e \<Rightarrow> [] | Inr h \<Rightarrow> h)"

definition sample_approved :: voucher_status_item where
  "sample_approved = (sample_item Approved)\<lparr>si_snapshot := sample_voucher voucher_revision,
     si_approved_revision_hash := voucher_revision, si_batch_id := ''b''\<rparr>"

lemma sample_strips:
  "strip ''x'' = ''x''" "strip ''y'' = ''y''" "strip ''k'' = ''k''" "strip ''n'' = ''n''" "strip ''e'' = ''e''" "strip ''b'' = ''b''"
  "strip ''t'' = ''t''" "strip ''r'' = ''r''" "strip ''s'' = ''s''" "strip ''a'' = ''a''" "strip ''p'' = ''p''" "strip [] = []"
  "strip ''test'' = ''test''" "strip ''period_expense'' = ''period_expense''"
  "strip ''manual_confirmation'' = ''manual_confirmation''" "strip ''purchase_recognition'' = ''purchase_recognition''"
  by code_simp+

lemma sample_dates:
  "from_iso ''2024-05-31'' = Some (2024, 5, 31)" "month_text (2024, 5, 31) = ''2024-05''" "utake 7 ''2024-05-31'' = ''2024-05''"
  by code_simp+

lemma sample_period_order: "\<not> ''2024-05'' \<le> (''2024-04'' :: string)"
  by code_simp

lemma voucher_revision: "proposal_revision_hash (sample_voucher h) = Inr voucher_revision" and voucher_revision_not_Nil: "voucher_revision \<noteq> []"
proof -
  have get: "get_val (sample_voucher h) k = get_val (sample_voucher []) k" if "k \<noteq> ''proposal_revision_hash''" for h k
    using that by (simp add: sample_voucher_def get_val_def)
  have keys: "''proposal_revision_hash'' \<notin> set stable_list_fields" "''proposal_revision_hash'' \<notin> fst ` set stable_text_fields"
    by (simp_all add: stable_list_fields_def stable_text_fields_def)
  have cong: "res_map f ks = res_map g ks" if "\<And>k. k \<in> set ks \<Longrightarrow> f k = g k" for f g :: "string \<Rightarrow> exc + string \<times> pyval" and ks
    using that by (induction ks) simp_all
  have lists: "res_map (list_field (sample_voucher h)) stable_list_fields = res_map (list_field (sample_voucher [])) stable_list_fields" for h
  proof (rule cong)
    fix k assume "k \<in> set stable_list_fields"
    with keys(1) have "k \<noteq> ''proposal_revision_hash''" by auto
    from get [OF this, of h] show "list_field (sample_voucher h) k = list_field (sample_voucher []) k"
      by (simp add: list_field_def getl_def)
  qed
  have texts: "map (\<lambda>f. (fst f, VStr (gets_or (sample_voucher h) (fst f) (snd f)))) stable_text_fields
      = map (\<lambda>f. (fst f, VStr (gets_or (sample_voucher []) (fst f) (snd f)))) stable_text_fields" for h
  proof (rule map_cong [OF refl])
    fix f assume "f \<in> set stable_text_fields"
    with keys(2) have "fst f \<noteq> ''proposal_revision_hash''" by force
    from get [OF this, of h] show "(fst f, VStr (gets_or (sample_voucher h) (fst f) (snd f)))
        = (fst f, VStr (gets_or (sample_voucher []) (fst f) (snd f)))" by (simp add: gets_or_def)
  qed
  have "proposal_stable (sample_voucher h) = proposal_stable (sample_voucher [])" for h
    by (simp add: proposal_stable_def lists [of h] texts [of h] geti_or_def getd_def getl_def proposal_hash_version_def
        sample_voucher_fields gets_or_def [of "sample_voucher h" "''mapping_resolution_sha256''"] gets_or_def [of "sample_voucher []" "''mapping_resolution_sha256''"])
  then have same: "proposal_revision_hash (sample_voucher h) = proposal_revision_hash (sample_voucher [])" for h
    unfolding proposal_revision_hash_def by (rule arg_cong)
  have "\<exists>xs. list_field (sample_voucher []) k = Inr xs" if "k \<in> set stable_list_fields" for k
  proof -
    have "list_all (typed_field (sample_voucher [])) stable_list_fields"
      by (simp add: stable_list_fields_def typed_field_def sample_voucher_def get_val_def)
    with that have "typed_field (sample_voucher []) k" by (simp add: list_all_iff)
    then show ?thesis by (cases "get_val (sample_voucher []) k") (simp_all add: typed_field_def list_field_def getl_def)
  qed
  then obtain ls where "res_map (list_field (sample_voucher [])) stable_list_fields = Inr ls"
    using res_map_total [of stable_list_fields "list_field (sample_voucher [])"] by blast
  then have "\<exists>v. proposal_stable (sample_voucher []) = Inr v"
    by (simp add: proposal_stable_def geti_or_def getd_def getl_def sample_voucher_fields)
  then obtain v where "proposal_revision_hash (sample_voucher []) = Inr (canonical_sha256 (VDict v))"
    by (auto simp: proposal_revision_hash_def)
  with same show "proposal_revision_hash (sample_voucher h) = Inr voucher_revision" "voucher_revision \<noteq> []"
    by (simp_all add: voucher_revision_def)
qed

lemmas sample_context_defs = sample_validation_context_def sample_profile_cny_def sample_profile_def

lemma sample_ledger:
  "catalog_blockers sample_validation_context = []"
  "ledger_blockers sample_validation_context (sample_voucher h) = Inr []"
  "date_blockers sample_validation_context (sample_voucher h) = []"
  by (simp_all add: catalog_blockers_def ledger_blockers_def profile_blockers_def date_blockers_def sample_context_defs
      migration_required_def sample_store_def initial_store_def STATUS_SCHEMA_VERSION_def required_profile_fields_def
      geti_or_def gets_or_def sample_voucher_fields sample_strips sample_dates snapshot_period_def sample_period_order)

lemma sample_proposal:
  "proposal_blockers sample_validation_context ''k'' sample_approved ''export'' [] = Inr []"
  using voucher_revision_not_Nil
  by (simp add: proposal_blockers_def sample_approved_def voucher_revision gets_or_def sample_voucher_fields sample_strips
      proposal_hash_version_def geti_or_def sample_validation_context_def)

lemma sample_money_ok:
  "valid_money (VStr ''100.00'') = Some (Fin False 10000 (-2))" "valid_money (VStr ''6.00'') = Some (Fin False 600 (-2))"
  "valid_money (VStr ''106.00'') = Some (Fin False 10600 (-2))"
  by (simp_all add: valid_money_def sample_parse_amounts)

lemma sample_cents:
  "not_cents (Fin False 10000 (-2)) = Inr False" "not_cents (Fin False 600 (-2)) = Inr False"
  "not_cents (Fin False 10600 (-2)) = Inr False" "valid_scale (Fin False 10600 (-2))"
  by (simp_all add: not_cents_def valid_scale_def prec_bound_def)

lemmas sample_arith = scale_to_def dint_def Let_def fix_prec_def prec_bound_def

definition sample_sources :: source_check where
  "sample_sources = \<lparr>sc_blockers = [], sc_by_id = [(''s'', sample_source_dict)], sc_pretax = Fin False 10000 (-2),
     sc_tax = Fin False 600 (-2), sc_total = Fin False 10600 (-2)\<rparr>"

lemma sample_check_sources: "check_source_lines [sample_source_dict] = Inr sample_sources"
  by (simp add: check_source_lines_def source_line_step_def sample_source_dict_def sample_money_fields_def gets_or_def
      get_val_def Let_def sample_strips money_fields_def sample_money_ok sample_cents sample_sources_def sample_arith dhas_def)

lemma sample_files:
  "getd (sample_voucher h) ''source_file_hashes'' = Inr [(''f'', VStr (sha256 ''x''))]"
  "source_file_blockers (vc_source_dir sample_validation_context) [(''f'', VStr (sha256 ''x''))] = Inr []"
  by (simp_all add: getd_def sample_voucher_fields source_file_blockers_def source_file_check_def
      sample_validation_context_def inside_or_root_def)

lemma sample_resolutions:
  "resolution_blockers (\<lambda>v. Some unmatched_resolution) sample_validation_context (sample_voucher h) [sample_source_dict] = Inr []"
proof -
  have n: "normalize_match_text ''s'' = ''s''" by (simp add: normalize_solid solid_def byte_def)
  have m: "match_rules [] x = Inr None" for x by (simp add: match_rules_def Let_def select_rule_def)
  have g: "gets sample_source_dict ''source_line_id'' = ''s''" by (simp add: gets_or_def get_val_def sample_source_dict_def)
  have r: "current_resolution sample_validation_context (sample_voucher h) sample_source_dict = Inr unmatched_resolution"
    by (simp add: current_resolution_def resolve_account_mapping_def m n g unmatched_resolution_def sample_validation_context_def Let_def)
  have ne: "mapping_resolution_sha256 [unmatched_resolution] \<noteq> []" by (simp add: mapping_resolution_sha256_def)
  have o: "rr_outcome unmatched_resolution = ''unmatched''" by (simp add: unmatched_resolution_def)
  have e: "vc_mapping_error sample_validation_context = []" by (simp add: sample_validation_context_def)
  have st: "stored_resolutions (\<lambda>v. Some unmatched_resolution) (sample_voucher h) (length [sample_source_dict]) = ([], [unmatched_resolution])"
    by (simp add: stored_resolutions_def sample_voucher_fields)
  have b: "binding_inconsistent (sample_voucher h) [unmatched_resolution] = Inr False"
    by (simp add: binding_inconsistent_def getl_def sample_voucher_fields o dedup_def)
  have "resolution_drift sample_validation_context (sample_voucher h) [sample_source_dict] = Inr []"
    by (simp add: resolution_drift_def e r gets_or_def sample_voucher_fields Let_def)
  with ne st b show ?thesis
    by (simp add: resolution_blockers_def gets_or_def sample_voucher_fields Let_def)
qed

definition sample_allocations :: allocation_check where
  "sample_allocations = \<lparr>al_blockers = [], al_by_source = [(''s'', [sample_allocation_dict])],
     al_by_id = [(''a'', sample_allocation_dict)]\<rparr>"

lemma sample_allocation_fields:
  "get_val sample_allocation_dict ''allocation_id'' = VStr ''a''" "get_val sample_allocation_dict ''source_line_id'' = VStr ''s''"
  "get_val sample_allocation_dict ''project_name'' = VStr ''p''" "get_val sample_allocation_dict ''project_id'' = VNone"
  "get_val sample_allocation_dict ''pretax_amount'' = VStr ''100.00''" "get_val sample_allocation_dict ''tax_amount'' = VStr ''6.00''"
  "get_val sample_allocation_dict ''total_amount'' = VStr ''106.00''"
  "get_val sample_source_dict ''pretax_amount'' = VStr ''100.00''" "get_val sample_source_dict ''tax_amount'' = VStr ''6.00''"
  "get_val sample_source_dict ''total_amount'' = VStr ''106.00''"
  by (simp_all add: sample_allocation_dict_def sample_source_dict_def sample_money_fields_def get_val_def)

lemma sample_check_allocations: "check_allocations (sc_by_id sample_sources) [sample_allocation_dict] = Inr sample_allocations"
  by (simp add: check_allocations_def allocation_step_def sample_sources_def sample_allocation_fields gets_or_def sample_strips
      dhas_def allocation_amount_bad_def sample_money_ok sample_cents money_fields_def allocation_unbalanced_def Let_def
      sample_allocations_def allocation_coverage_def if_given_def amount_or_zero_def dec_sum_def sample_arith)

lemma sample_confirmation_refs:
  "dicts_of [sample_confirmation] = [[(''evidence_id'', VStr ''e''), (''evidence_type'', VStr ''manual_confirmation''),
     (''subject_id'', VStr ''k''), (''confirmed_by'', VStr ''b''), (''confirmed_at'', VStr ''t''),
     (''reason'', VStr ''r''), (''coverage_state'', VStr ''not_applicable'')]]"
  by (simp add: dicts_of_def sample_confirmation_def)

lemma sample_evidence:
  "evidence_section sample_validation_context ''k'' (sample_voucher h) sample_sources [(''f'', VStr (sha256 ''x''))] = Inr []"
  by (simp add: evidence_section_def invoice_subjects_of_def getl_def sample_voucher_fields evidence_items_def
      sample_confirmation_refs evidence_blockers_def evidence_check_def evidence_source_valid_def gets_or_def get_val_def [of "_ # _"]
      evidence_is_confirmed_def sample_strips payment_blockers_def tax_blockers_def tax_treatment_of_def receiving_blockers_def
      RECEIVED_CLASSES_def has_value_def decision_blockers_def forced_manual_blockers_def Let_def dedup_def)

lemma sample_accounts_catalog:
  "account_catalog sample_accounts_payload = [(''x'', dump_account_catalog_record sample_account),
     (''y'', dump_account_catalog_record (sample_account\<lparr>ac_code := ''y'', ac_name := ''y'', ac_balance_direction := ''credit''\<rparr>))]"
  by (simp add: account_catalog_def sample_accounts_payload_def get_val_def dicts_of_def dump_account_catalog_record_def
      sample_account_def gets_or_def sample_strips)

lemma posting_line_fields:
  fixes role direction code as
  defines "line \<equiv> [(''line_role'', VStr role), (''direction'', VStr direction), (''amount'', VStr ''106.00''),
     (''account_code'', VStr code), (''account_name'', VStr code), (''source_line_ids'', VList [VStr ''s'']),
     (''allocation_ids'', VList as)]"
  shows "posting_line role direction code as = VDict line"
    and "get_val line ''line_role'' = VStr role" "get_val line ''direction'' = VStr direction"
    "get_val line ''amount'' = VStr ''106.00''" "get_val line ''account_code'' = VStr code"
    "get_val line ''account_name'' = VStr code" "get_val line ''source_line_ids'' = VList [VStr ''s'']"
    "get_val line ''allocation_ids'' = VList as" "get_val line ''aux'' = VNone"
  by (simp_all add: line_def posting_line_def get_val_def)

lemma sample_account_ok:
  assumes "get_val line ''account_code'' = VStr code" "get_val line ''account_name'' = VStr code" "get_val line ''aux'' = VNone"
    and "code = ''x'' \<and> role = ''cost'' \<or> code = ''y'' \<and> role = ''payable''"
  shows "account_blockers sample_validation_context i line role allocation = Inr []"
proof -
  have ctx: "vc_account_payload sample_validation_context = sample_accounts_payload" "vc_catalogs sample_validation_context = None"
    by (simp_all add: sample_validation_context_def)
  have mis: "\<not> project_aux_mismatch sample_validation_context a r x" for a r x
    by (simp add: project_aux_mismatch_def ctx split: option.split)
  show ?thesis using assms
    by (auto simp: account_blockers_def Let_def gets_or_def sample_strips ctx sample_accounts_catalog getd_def
        dump_account_catalog_record_def sample_account_def required_aux_def get_default_def REQUIRED_METADATA_def dhas_def
        is_true_def get_val_def [of "_ # _"] mis)
qed

lemmas sample_cost_account = sample_account_ok [where code = "''x''" and role = "''cost''", simplified]
lemmas sample_payable_account = sample_account_ok [where code = "''y''" and role = "''payable''", simplified]

definition sample_check :: "string \<Rightarrow> string \<Rightarrow> string list \<Rightarrow> line_check" where
  "sample_check role direction ids = \<lparr>lc_blockers = [], lc_counted = Some (Fin False 10600 (-2)), lc_direction = direction,
     lc_role = role, lc_cost_ids = ids\<rparr>"

lemma sample_check_line:
  "check_line sample_validation_context (sc_by_id sample_sources) (al_by_id sample_allocations) ''non_deductible''
     (i, posting_line ''cost'' ''debit'' ''x'' [VStr ''a'']) = Inr (sample_check ''cost'' ''debit'' [''a''])"
  "check_line sample_validation_context (sc_by_id sample_sources) (al_by_id sample_allocations) ''non_deductible''
     (i, posting_line ''payable'' ''credit'' ''y'' []) = Inr (sample_check ''payable'' ''credit'' [])"
proof -
  have pos: "\<not> dec_le (Fin False 10600 (-2)) dec_zero" by (simp add: dec_le_def sample_arith)
  have m: "\<not> allocation_mismatch ''non_deductible'' (Some sample_allocation_dict) (Fin False 10600 (-2))"
    "\<not> allocation_mismatch ''non_deductible'' None d" for d
    by (simp_all add: allocation_mismatch_def sample_allocation_fields sample_money_ok)
  show "check_line sample_validation_context (sc_by_id sample_sources) (al_by_id sample_allocations) ''non_deductible''
     (i, posting_line ''cost'' ''debit'' ''x'' [VStr ''a'']) = Inr (sample_check ''cost'' ''debit'' [''a''])"
    by (simp add: check_line_def posting_line_fields getl_def gets_or_def sample_money_ok pos sample_cents m
        bound_allocation_def sample_allocations_def sample_sources_def sample_cost_account sample_check_def sample_allocation_fields
        line_binding_blockers_def LINE_ROLES_def expected_direction_def dhas_def Let_def del: dec_eq.simps)
  show "check_line sample_validation_context (sc_by_id sample_sources) (al_by_id sample_allocations) ''non_deductible''
     (i, posting_line ''payable'' ''credit'' ''y'' []) = Inr (sample_check ''payable'' ''credit'' [])"
    by (simp add: check_line_def posting_line_fields getl_def gets_or_def sample_money_ok pos sample_cents m
        bound_allocation_def sample_allocations_def sample_sources_def sample_payable_account sample_check_def
        line_binding_blockers_def LINE_ROLES_def expected_direction_def dhas_def Let_def del: dec_eq.simps)
qed

lemma sample_lines_section:
  "lines_section sample_validation_context (sample_voucher h) sample_sources sample_allocations = Inr (posting_lines, [])"
proof -
  have tt: "tax_treatment_of (sample_voucher h) = ''non_deductible''"
    by (simp add: tax_treatment_of_def gets_or_def sample_voucher_fields)
  have "totals_blockers ''non_deductible'' sample_sources (al_by_id sample_allocations)
      [sample_check ''cost'' ''debit'' [''a''], sample_check ''payable'' ''credit'' []] = []"
    by (simp add: totals_blockers_def Let_def sample_check_def counted_total_def role_total_def dec_sum_def
        sample_allocations_def sample_sources_def sample_arith)
  then show ?thesis
    by (simp add: lines_section_def tt getl_def sample_voucher_fields posting_lines_def sample_check_line sample_check_def)
qed

lemma sample_export: "export_blockers (vc_facts_readiness sample_validation_context) posting_lines = Inr []"
  by (simp add: export_blockers_def posting_lines_def line_has_aux_def posting_line_fields getd_def fact_blockers_def
      sample_validation_context_def ready_facts_def get_default_def gets_or_def get_val_def)

lemma sample_valid: "validate (\<lambda>v. Some unmatched_resolution) sample_validation_context ''k'' sample_approved ''export'' [] = Inr []"
proof -
  have snap: "si_snapshot sample_approved = sample_voucher voucher_revision" by (simp add: sample_approved_def)
  have d: "snapshot_dicts (sample_voucher h) ''source_lines'' = Inr [sample_source_dict]"
    "snapshot_dicts (sample_voucher h) ''project_allocations'' = Inr [sample_allocation_dict]" for h
    by (simp_all add: snapshot_dicts_def getl_def sample_voucher_fields dicts_of_def)
  have store: "duplicate_event_blockers (vc_store sample_validation_context) ''k'' (sample_voucher h) = []"
    "batch_blockers (vc_store sample_validation_context) ''k'' sample_approved ''export'' = []" for h
    by (simp_all add: duplicate_event_blockers_def batch_blockers_def sample_validation_context_def sample_store_def
        event_identity_def gets_or_def sample_voucher_fields sample_strips sample_item_def get_val_def [of "_ # _"]
        sample_approved_def sample_batch_def)
  have nil: "sc_blockers sample_sources = []" "al_blockers sample_allocations = []"
    by (simp_all add: sample_sources_def sample_allocations_def)
  show ?thesis unfolding validate_Nil_iff
    by (simp add: all_blockers_def snap sample_ledger sample_proposal sample_files d sample_check_sources nil sample_resolutions
        sample_check_allocations sample_evidence sample_lines_section sample_export store Let_def)
qed

lemma sample_assert: "assert_executable (\<lambda>v. Some unmatched_resolution) sample_validation_context ''k'' sample_approved ''export'' [] = Inr None"
  using sample_valid by (simp only: assert_executable_None)

section \<open>What executable means\<close>

text \<open>C31: A voucher that the validator lets pass can be posted: it has at least two lines, each with a
  positive amount of whole cents on an enabled leaf account of the current catalog; in exact arithmetic
  its debits equal its credits, its payables are the total of its source lines, and its cost and tax
  lines are the source amounts that its tax treatment asks for. The sums must stay below
  \<open>10 ^ 26\<close>, where the 28 digits of the decimal context are exact.\<close>

theorem executable_vouchers_balance:
  assumes "assert_executable vresolution c key item phase expected = Inr None"
    and "getl (si_snapshot item) ''lines'' = Inr raws" and "snapshot_dicts (si_snapshot item) ''source_lines'' = Inr src"
    and "small (posted (\<lambda>d. True) raws)" and "\<forall>k\<in>set money_fields. small (source_size k src)"
  shows "2 \<le> length raws \<and> list_all (executable_line c) raws
    \<and> posted (has_text ''direction'' ''debit'') raws = posted (has_text ''direction'' ''credit'') raws
    \<and> tax_treatment_of (si_snapshot item) \<in> {''deductible'', ''non_deductible''}
    \<and> books_sources (tax_treatment_of (si_snapshot item)) raws src"
  using assms(1) unfolding assert_executable_None by (rule executable_balance) (rule assms)+

lemma sample_values:
  "money_value sample_source_dict ''pretax_amount'' = 100" "money_value sample_source_dict ''tax_amount'' = 6"
  "money_value sample_source_dict ''total_amount'' = 106" "money_value (line_of (posting_line role direction code as)) ''amount'' = 106"
  by (simp_all add: money_value_def sample_allocation_fields sample_money_ok dint_def power_int_def power2_eq_square
      line_of_def posting_line_fields)

theorem executable_vouchers_balance_witness:
  "posted (has_text ''direction'' ''debit'') posting_lines = posted (has_text ''direction'' ''credit'') posting_lines
    \<and> list_all (executable_line sample_validation_context) posting_lines
    \<and> books_sources ''non_deductible'' posting_lines [sample_source_dict]"
proof -
  have snap: "si_snapshot sample_approved = sample_voucher voucher_revision" by (simp add: sample_approved_def)
  have tt: "tax_treatment_of (si_snapshot sample_approved) = ''non_deductible''"
    unfolding snap by (simp add: tax_treatment_of_def gets_or_def sample_voucher_fields)
  have "getl (si_snapshot sample_approved) ''lines'' = Inr posting_lines"
    "snapshot_dicts (si_snapshot sample_approved) ''source_lines'' = Inr [sample_source_dict]"
    unfolding snap by (simp_all add: getl_def sample_voucher_fields posting_lines_def snapshot_dicts_def dicts_of_def)
  moreover have "small (posted (\<lambda>d. True) posting_lines)" by (simp add: posted_def posting_lines_def sample_values small_def)
  moreover have "\<forall>k\<in>set money_fields. small (source_size k [sample_source_dict])"
    by (simp add: money_fields_def source_size_def sample_values small_def)
  ultimately show ?thesis using executable_vouchers_balance [OF sample_assert] unfolding tt by blast
qed

text \<open>C32: A voucher that the validator lets pass is current: the profile, the store and the proposal name one
  ledger and one set of catalogs, its period is the month of its date, open and not closed, its proposal
  hash is recomputed from its content (and is the approved one at an export), its source files are unchanged
  inside the source directory, and resolving its source lines again gives the bound resolutions.\<close>

theorem executable_vouchers_are_current:
  assumes "assert_executable vresolution c key item phase expected = Inr None"
  shows "ledger_agrees c (si_snapshot item) \<and> period_is_open c (si_snapshot item)
    \<and> proposal_is_bound item key phase expected \<and> sources_unchanged c (si_snapshot item)
    \<and> mapping_is_current c (si_snapshot item)"
  using assms unfolding assert_executable_None by (rule executable_current)

theorem executable_vouchers_are_current_witness:
  "ledger_agrees sample_validation_context (sample_voucher voucher_revision)
    \<and> proposal_revision_hash (sample_voucher voucher_revision) = Inr (si_approved_revision_hash sample_approved)"
proof -
  have snap: "si_snapshot sample_approved = sample_voucher voucher_revision" by (simp add: sample_approved_def)
  from executable_vouchers_are_current [OF sample_assert] show ?thesis
    by (simp add: snap proposal_is_bound_def Let_def)
qed

text \<open>C33: A voucher that the validator lets pass is posted once: no other voucher of the store has the identity
  of its business event, and no unfinished batch holds it, except its own batch when it is exported.\<close>

theorem executable_vouchers_are_posted_once:
  assumes "assert_executable vresolution c key item phase expected = Inr None"
  shows "([] \<notin> set (event_identity (si_snapshot item)) \<longrightarrow> (\<forall>(k, other)\<in>set (vs_items (vc_store c)).
       k \<noteq> key \<longrightarrow> event_identity (si_snapshot other) \<noteq> event_identity (si_snapshot item)))
    \<and> (\<forall>(n, b)\<in>set (vs_batches (vc_store c)). ib_state b \<in> set UNFINISHED_BATCH_STATES
       \<longrightarrow> key \<in> bi_posting_key ` set (ib_items b) \<longrightarrow> phase \<noteq> ''approve'' \<and> si_batch_id item = ib_batch_id b)"
  using assms unfolding assert_executable_None by (rule executable_unique)

theorem executable_vouchers_are_posted_once_witness:
  "event_identity (si_snapshot (sample_item Draft)) \<noteq> event_identity (si_snapshot sample_approved)
    \<and> ''k'' \<in> bi_posting_key ` set (ib_items (sample_batch Prepared)) \<and> si_batch_id sample_approved = ib_batch_id (sample_batch Prepared)"
proof -
  have snap: "si_snapshot sample_approved = sample_voucher voucher_revision" by (simp add: sample_approved_def)
  have id: "[] \<notin> set (event_identity (si_snapshot sample_approved))"
    unfolding snap by (simp add: event_identity_def gets_or_def sample_voucher_fields sample_strips)
  have store: "vs_items (vc_store sample_validation_context) = [(''k'', sample_item Approved), (''o'', sample_item Draft)]"
    "vs_batches (vc_store sample_validation_context) = [(''b'', sample_batch Prepared)]"
    by (simp_all add: sample_validation_context_def sample_store_def)
  have held: "''k'' \<in> bi_posting_key ` set (ib_items (sample_batch Prepared))" "ib_state (sample_batch Prepared) \<in> set UNFINISHED_BATCH_STATES"
    by (simp_all add: sample_batch_def sample_batch_item_def UNFINISHED_BATCH_STATES_def)
  from executable_vouchers_are_posted_once [OF sample_assert] id held show ?thesis unfolding store by simp
qed

end
