(* ===== verification/Write_Lock.thy ===== *)
theory Write_Lock
  imports Prelude "HOL-Library.Sublist"
begin

text \<open>
  \<open>bookkeeping_write_lock\<close> of \<open>bookkeeping/repository.py\<close>, the lock that every write of a bookkeeping
  file runs under, as interleaved steps. An agent is a thread of a process. A directory (the key) has one
  reentrant thread lock in each process, one lock file for all processes, and each thread counts how often
  it holds a directory in its own \<open>_HELD_LOCKS.counts\<close>. An agent runs a script of \<open>Enter\<close>, the
  \<open>with\<close> statement, and \<open>Leave\<close>, the end of its block, normal or by an exception. The states between
  the calls that may block are phases: \<open>Entered\<close> after the thread lock was acquired, \<open>Opening\<close> before
  the lock file, \<open>Closing\<close> before the thread lock is released.

  Acquiring the lock file may also raise, with no block run. \<open>fcntl.flock\<close> waits; on Windows the byte is
  read before it is locked, which the lock of another handle forbids (\<open>PermissionError\<close>), and \<open>LK_LOCK\<close>
  gives up after ten tries; the directory or the file may also be unusable. \<open>fails k held\<close> says whether
  the acquisition of \<open>k\<close> may raise while another agent holds it (\<open>held\<close>) or not; \<open>os_lock_fails\<close> is its
  value for \<open>_acquire_os_lock\<close>. What raises is the event \<open>Refuse a n\<close>: the exception leaves the \<open>with\<close>
  statement, which releases the thread lock, and is caught outside the \<open>n\<close> innermost open blocks.
  \<open>ag_ran\<close> and \<open>ag_refused\<close> record which blocks were run and which acquisitions raised; no step reads them.

  The lemmas: \<open>lock_inv\<close> relates the counts, the stacks of open blocks and the owners; \<open>work\<close> decreases
  with each event; where nested directories are entered in a fixed order, an agent can always step;
  \<open>log_inv\<close> relates the blocks run, refused and left to the script.
\<close>

section \<open>The lock\<close>

type_synonym agent = "nat \<times> nat"

datatype lock_cmd = Enter string | Leave

datatype lock_phase = Running | Entered string | Opening string | Closing string

record agent_state =
  ag_script :: "lock_cmd list"
  ag_phase :: lock_phase
  ag_stack :: "(string \<times> bool) list"
  ag_held :: "nat dict"
  ag_ran :: "string list"
  ag_refused :: "string list"

record lock_state =
  lk_threads :: "nat \<times> string \<Rightarrow> (nat \<times> nat) option"
  lk_files :: "string \<Rightarrow> agent option"
  lk_agents :: "agent \<Rightarrow> agent_state"

text \<open>\<open>threading.RLock\<close>: the owner and how often it is held.\<close>

definition rlock_acquire :: "nat \<Rightarrow> (nat \<times> nat) option \<Rightarrow> (nat \<times> nat) option" where
  "rlock_acquire t l = (case l of None \<Rightarrow> Some (t, 1) | Some (owner, n) \<Rightarrow> if owner = t then Some (t, n + 1) else None)"

definition rlock_release :: "(nat \<times> nat) option \<Rightarrow> (nat \<times> nat) option" where
  "rlock_release l = (case l of None \<Rightarrow> None | Some (owner, n) \<Rightarrow> if n \<le> 1 then None else Some (owner, n - 1))"

definition held_count :: "agent_state \<Rightarrow> string \<Rightarrow> nat" where
  "held_count g k = (case dget (ag_held g) k of None \<Rightarrow> 0 | Some n \<Rightarrow> n)"

definition put_agent :: "agent \<Rightarrow> agent_state \<Rightarrow> lock_state \<Rightarrow> lock_state" where
  "put_agent a g s = s\<lparr>lk_agents := (lk_agents s)(a := g)\<rparr>"

text \<open>The next step of an agent; \<open>None\<close> when it is blocked or has finished.\<close>

definition enter_step :: "agent \<Rightarrow> string \<Rightarrow> lock_cmd list \<Rightarrow> lock_state \<Rightarrow> lock_state option" where
  "enter_step a k rest s =
    (case rlock_acquire (snd a) (lk_threads s (fst a, k)) of
       None \<Rightarrow> None
     | Some l \<Rightarrow> Some (put_agent a ((lk_agents s a)\<lparr>ag_script := rest, ag_phase := Entered k\<rparr>)
         (s\<lparr>lk_threads := (lk_threads s)((fst a, k) := Some l)\<rparr>)))"

definition entered_step :: "agent \<Rightarrow> string \<Rightarrow> lock_state \<Rightarrow> lock_state option" where
  "entered_step a k s =
    (let g = lk_agents s a
     in Some (put_agent a
          (if 0 < held_count g k
           then g\<lparr>ag_phase := Running, ag_held := dput k (held_count g k + 1) (ag_held g), ag_stack := (k, False) # ag_stack g,
                  ag_ran := ag_ran g @ [k]\<rparr>
           else g\<lparr>ag_phase := Opening k\<rparr>) s))"

definition opening_step :: "agent \<Rightarrow> string \<Rightarrow> lock_state \<Rightarrow> lock_state option" where
  "opening_step a k s =
    (let g = lk_agents s a
     in if lk_files s k \<noteq> None then None
        else Some (put_agent a
          (g\<lparr>ag_phase := Running, ag_held := dput k 1 (ag_held g), ag_stack := (k, True) # ag_stack g,
              ag_ran := ag_ran g @ [k]\<rparr>)
          (s\<lparr>lk_files := (lk_files s)(k := Some a)\<rparr>)))"

definition leave_step :: "agent \<Rightarrow> lock_cmd list \<Rightarrow> lock_state \<Rightarrow> lock_state option" where
  "leave_step a rest s =
    (let g = lk_agents s a
     in case ag_stack g of
          [] \<Rightarrow> None
        | (k, outermost) # st \<Rightarrow>
            (let g' = g\<lparr>ag_script := rest, ag_phase := Closing k, ag_stack := st\<rparr>
             in Some (if outermost
                  then put_agent a (g'\<lparr>ag_held := ddel k (ag_held g)\<rparr>) (s\<lparr>lk_files := (lk_files s)(k := None)\<rparr>)
                  else put_agent a (g'\<lparr>ag_held := dput k (held_count g k - 1) (ag_held g)\<rparr>) s)))"

definition closing_step :: "agent \<Rightarrow> string \<Rightarrow> lock_state \<Rightarrow> lock_state option" where
  "closing_step a k s = Some (put_agent a ((lk_agents s a)\<lparr>ag_phase := Running\<rparr>)
     (s\<lparr>lk_threads := (lk_threads s)((fst a, k) := rlock_release (lk_threads s (fst a, k)))\<rparr>))"

definition agent_step :: "agent \<Rightarrow> lock_state \<Rightarrow> lock_state option" where
  "agent_step a s =
    (case ag_phase (lk_agents s a) of
       Running \<Rightarrow> (case ag_script (lk_agents s a) of
           [] \<Rightarrow> None
         | Enter k # rest \<Rightarrow> enter_step a k rest s
         | Leave # rest \<Rightarrow> leave_step a rest s)
     | Entered k \<Rightarrow> entered_step a k s
     | Opening k \<Rightarrow> opening_step a k s
     | Closing k \<Rightarrow> closing_step a k s)"

text \<open>An acquisition that raises. The rest of the refused block, and of the enclosing blocks that the exception
  leaves, is skipped; each enclosing block is still closed by its \<open>finally\<close>.\<close>

definition os_lock_fails :: "bool \<Rightarrow> string \<Rightarrow> bool \<Rightarrow> bool" where
  "os_lock_fails windows k held \<longleftrightarrow> windows \<and> held"

fun skip_blocks :: "nat \<Rightarrow> lock_cmd list \<Rightarrow> lock_cmd list" where
  "skip_blocks 0 cs = cs"
| "skip_blocks (Suc n) [] = []"
| "skip_blocks (Suc n) (Enter k # cs) = skip_blocks (Suc (Suc n)) cs"
| "skip_blocks (Suc n) (Leave # cs) = skip_blocks n cs"

definition refuse_step :: "(string \<Rightarrow> bool \<Rightarrow> bool) \<Rightarrow> agent \<Rightarrow> nat \<Rightarrow> lock_state \<Rightarrow> lock_state option" where
  "refuse_step fails a n s =
    (let g = lk_agents s a
     in case ag_phase g of
          Opening k \<Rightarrow>
            if fails k (lk_files s k \<noteq> None) \<and> n \<le> length (ag_stack g)
            then Some (put_agent a (g\<lparr>ag_phase := Closing k,
              ag_script := replicate n Leave @ skip_blocks (Suc n) (ag_script g), ag_refused := ag_refused g @ [k]\<rparr>) s)
            else None
        | _ \<Rightarrow> None)"

datatype lock_event = Step agent | Refuse agent nat

fun next_lock :: "(string \<Rightarrow> bool \<Rightarrow> bool) \<Rightarrow> lock_event \<Rightarrow> lock_state \<Rightarrow> lock_state option" where
  "next_lock fails (Step a) s = agent_step a s"
| "next_lock fails (Refuse a n) s = refuse_step fails a n s"

inductive lock_run :: "(string \<Rightarrow> bool \<Rightarrow> bool) \<Rightarrow> lock_state \<Rightarrow> lock_state \<Rightarrow> bool" for fails s where
  start: "lock_run fails s s"
| step: "lock_run fails s t \<Longrightarrow> next_lock fails e t = Some u \<Longrightarrow> lock_run fails s u"

inductive_cases lock_runE: "lock_run fails s t"

definition start_state :: "(agent \<Rightarrow> lock_cmd list) \<Rightarrow> lock_state" where
  "start_state scripts = \<lparr>lk_threads = (\<lambda>l. None), lk_files = (\<lambda>k. None),
     lk_agents = (\<lambda>a. \<lparr>ag_script = scripts a, ag_phase = Running, ag_stack = [], ag_held = [],
       ag_ran = [], ag_refused = []\<rparr>)\<rparr>"

section \<open>Guarded steps\<close>

text \<open>The states from which every run reaches a goal, whatever the scheduler picks.\<close>

inductive inevitable :: "('a \<Rightarrow> 's \<Rightarrow> 's option) \<Rightarrow> ('s \<Rightarrow> bool) \<Rightarrow> 's \<Rightarrow> bool" for next_of goal where
  reached: "goal s \<Longrightarrow> inevitable next_of goal s"
| later: "next_of a s = Some t \<Longrightarrow> (\<And>b u. next_of b s = Some u \<Longrightarrow> inevitable next_of goal u) \<Longrightarrow> inevitable next_of goal s"

locale guarded_steps =
  fixes next_of :: "'a \<Rightarrow> 's \<Rightarrow> 's option" and inv :: "'s \<Rightarrow> bool" and goal :: "'s \<Rightarrow> bool" and work :: "'s \<Rightarrow> nat"
  assumes preserved: "inv s \<Longrightarrow> next_of a s = Some t \<Longrightarrow> inv t"
    and decreases: "inv s \<Longrightarrow> next_of a s = Some t \<Longrightarrow> work t < work s"
    and progress: "inv s \<Longrightarrow> \<not> goal s \<Longrightarrow> \<exists>a t. next_of a s = Some t"
begin

lemma inevitable_goal: "inv s \<Longrightarrow> inevitable next_of goal s"
proof (induction "work s" arbitrary: s rule: less_induct)
  case less
  show ?case
  proof (cases "goal s")
    case True
    then show ?thesis by (rule reached)
  next
    case False
    with progress less.prems obtain a t where "next_of a s = Some t" by blast
    then show ?thesis
      by (rule later) (use less decreases preserved in blast)
  qed
qed

end

section \<open>The invariant\<close>

definition depth :: "agent_state \<Rightarrow> string \<Rightarrow> nat" where
  "depth g k = length (filter (\<lambda>p. fst p = k) (ag_stack g))"

definition pending :: "agent_state \<Rightarrow> string list" where
  "pending g = (case ag_phase g of Entered k \<Rightarrow> [k] | Opening k \<Rightarrow> [k] | _ \<Rightarrow> [])"

definition owned :: "agent_state \<Rightarrow> string \<Rightarrow> nat" where
  "owned g k = depth g k + (case ag_phase g of Running \<Rightarrow> 0
     | Entered j \<Rightarrow> if j = k then 1 else 0 | Opening j \<Rightarrow> if j = k then 1 else 0 | Closing j \<Rightarrow> if j = k then 1 else 0)"

text \<open>Blocks are closed in the reverse order; \<open>nest\<close> says what may be entered inside open blocks.\<close>

fun proper :: "(string list \<Rightarrow> string \<Rightarrow> bool) \<Rightarrow> string list \<Rightarrow> lock_cmd list \<Rightarrow> bool" where
  "proper nest st [] \<longleftrightarrow> st = []"
| "proper nest st (Enter k # cs) \<longleftrightarrow> nest st k \<and> proper nest (k # st) cs"
| "proper nest st (Leave # cs) \<longleftrightarrow> (case st of [] \<Rightarrow> False | k # st' \<Rightarrow> proper nest st' cs)"

fun stack_kinds :: "(string \<times> bool) list \<Rightarrow> bool" where
  "stack_kinds [] \<longleftrightarrow> True"
| "stack_kinds ((k, outermost) # st) \<longleftrightarrow> (outermost \<longleftrightarrow> k \<notin> fst ` set st) \<and> stack_kinds st"

definition agent_inv :: "(string list \<Rightarrow> string \<Rightarrow> bool) \<Rightarrow> agent_state \<Rightarrow> bool" where
  "agent_inv nest g \<longleftrightarrow> (\<forall>k. held_count g k = depth g k) \<and> stack_kinds (ag_stack g)
     \<and> (\<forall>k. ag_phase g = Opening k \<longrightarrow> depth g k = 0)
     \<and> (\<forall>k\<in>set (pending g). nest (map fst (ag_stack g)) k)
     \<and> proper nest (pending g @ map fst (ag_stack g)) (ag_script g)"

definition idle :: "agent_state \<Rightarrow> bool" where
  "idle g \<longleftrightarrow> ag_script g = [] \<and> ag_phase g = Running \<and> ag_stack g = []"

definition thread_count :: "(nat \<times> string \<Rightarrow> (nat \<times> nat) option) \<Rightarrow> agent \<Rightarrow> string \<Rightarrow> nat" where
  "thread_count locks a k = (case locks (fst a, k) of None \<Rightarrow> 0 | Some (t, n) \<Rightarrow> if t = snd a then n else 0)"

definition lock_inv :: "agent set \<Rightarrow> (string list \<Rightarrow> string \<Rightarrow> bool) \<Rightarrow> lock_state \<Rightarrow> bool" where
  "lock_inv A nest s \<longleftrightarrow>
     (\<forall>a. agent_inv nest (lk_agents s a)) \<and> (\<forall>a. a \<notin> A \<longrightarrow> idle (lk_agents s a))
     \<and> (\<forall>a k. owned (lk_agents s a) k = thread_count (lk_threads s) a k)
     \<and> (\<forall>l t n. lk_threads s l = Some (t, n) \<longrightarrow> 0 < n)
     \<and> (\<forall>a k. lk_files s k = Some a \<longleftrightarrow> 0 < depth (lk_agents s a) k)"

lemma depth_in_stack: "0 < depth g k \<longleftrightarrow> k \<in> fst ` set (ag_stack g)"
  by (auto simp: depth_def filter_empty_conv)

text \<open>An agent changes its own state, one thread lock and one lock file.\<close>

lemma lock_inv_update:
  assumes inv: "lock_inv A nest s" and a: "a \<in> A"
    and t: "lk_agents t = (lk_agents s)(a := g)"
    and own: "agent_inv nest g" "\<And>k. owned g k = thread_count (lk_threads t) a k"
    and others: "\<And>b k. b \<noteq> a \<Longrightarrow> thread_count (lk_threads t) b k = thread_count (lk_threads s) b k"
    and pos: "\<And>l u n. lk_threads t l = Some (u, n) \<Longrightarrow> 0 < n"
    and files: "\<And>k. lk_files t k = Some a \<longleftrightarrow> 0 < depth g k"
      "\<And>b k. b \<noteq> a \<Longrightarrow> lk_files t k = Some b \<longleftrightarrow> lk_files s k = Some b"
  shows "lock_inv A nest t"
  using assms unfolding lock_inv_def by (auto simp: t)

lemma agent_in_A:
  assumes "lock_inv A nest s" and "agent_step a s = Some t"
  shows "a \<in> A"
proof (rule ccontr)
  assume "a \<notin> A"
  with assms(1) have "idle (lk_agents s a)" unfolding lock_inv_def by blast
  with assms(2) show False by (simp add: agent_step_def idle_def)
qed

lemma lock_inv_agent: "lock_inv A nest s \<Longrightarrow> agent_inv nest (lk_agents s a)"
  unfolding lock_inv_def by blast

lemma lock_inv_owned: "lock_inv A nest s \<Longrightarrow> owned (lk_agents s a) k = thread_count (lk_threads s) a k"
  unfolding lock_inv_def by blast

lemma lock_inv_pos: "lock_inv A nest s \<Longrightarrow> lk_threads s l = Some (u, n) \<Longrightarrow> 0 < n"
  unfolding lock_inv_def by blast

lemma lock_inv_files: "lock_inv A nest s \<Longrightarrow> lk_files s k = Some a \<longleftrightarrow> 0 < depth (lk_agents s a) k"
  unfolding lock_inv_def by blast

lemma dget_ddel: "dget (ddel k d) j = (if j = k then None else dget d j)"
  by (induction d) (auto simp: ddel_def)

lemma acquire_count:
  assumes "rlock_acquire (snd a) (locks (fst a, k)) = Some l"
  shows "thread_count (locks((fst a, k) := Some l)) a j = thread_count locks a j + (if j = k then 1 else 0)"
    and "b \<noteq> a \<Longrightarrow> thread_count (locks((fst a, k) := Some l)) b j = thread_count locks b j"
    and "0 < snd l"
  using assms by (cases a; cases b; cases l; auto simp: thread_count_def rlock_acquire_def split: option.split_asm if_split_asm)+

lemma release_count:
  assumes "0 < thread_count locks a k"
  shows "thread_count (locks((fst a, k) := rlock_release (locks (fst a, k)))) a j
      = thread_count locks a j - (if j = k then 1 else 0)"
    and "b \<noteq> a \<Longrightarrow> thread_count (locks((fst a, k) := rlock_release (locks (fst a, k)))) b j = thread_count locks b j"
    and "rlock_release (locks (fst a, k)) = Some (u, n) \<Longrightarrow> 0 < n"
  using assms
  by (cases a; cases b; auto simp: thread_count_def rlock_release_def split: option.split_asm option.split if_split_asm)+

lemma enter_keeps:
  assumes inv: "lock_inv A nest s" and a: "a \<in> A" and phase: "ag_phase (lk_agents s a) = Running"
    and script: "ag_script (lk_agents s a) = Enter k # rest" and step: "enter_step a k rest s = Some t"
  shows "lock_inv A nest t"
proof -
  let ?g = "lk_agents s a" and ?h = "(lk_agents s a)\<lparr>ag_script := rest, ag_phase := Entered k\<rparr>"
  from step obtain l where l: "rlock_acquire (snd a) (lk_threads s (fst a, k)) = Some l"
    and t: "t = put_agent a ?h (s\<lparr>lk_threads := (lk_threads s)((fst a, k) := Some l)\<rparr>)"
    by (auto simp: enter_step_def split: option.split_asm)
  show ?thesis
  proof (rule lock_inv_update [OF inv a, of t ?h])
    show "agent_inv nest ?h"
      using lock_inv_agent [OF inv, of a] by (auto simp: agent_inv_def phase script pending_def depth_def held_count_def)
    show "owned ?h j = thread_count (lk_threads t) a j" for j
      using lock_inv_owned [OF inv, of a j] acquire_count(1) [of a "lk_threads s" k l j, OF l]
      by (simp add: t put_agent_def owned_def depth_def phase)
    show "0 < n" if "lk_threads t x = Some (u, n)" for x u n
      using that acquire_count(3) [of a "lk_threads s" k l, OF l] lock_inv_pos [OF inv] by (auto simp: t put_agent_def split: if_split_asm)
  qed (use lock_inv_files [OF inv] acquire_count(2) [of a "lk_threads s" k l, OF l] in \<open>auto simp: t put_agent_def depth_def\<close>)
qed

lemma entered_keeps:
  assumes inv: "lock_inv A nest s" and a: "a \<in> A" and phase: "ag_phase (lk_agents s a) = Entered k"
    and step: "entered_step a k s = Some t"
  shows "lock_inv A nest t"
proof -
  let ?g = "lk_agents s a"
  have g: "agent_inv nest ?g" using inv by (rule lock_inv_agent)
  show ?thesis
  proof (cases "0 < held_count ?g k")
    case True
    let ?h = "?g\<lparr>ag_phase := Running, ag_held := dput k (held_count ?g k + 1) (ag_held ?g), ag_stack := (k, False) # ag_stack ?g,
      ag_ran := ag_ran ?g @ [k]\<rparr>"
    have t: "t = put_agent a ?h s" using step True by (simp add: entered_step_def Let_def)
    have held: "0 < depth ?g k" using g True by (simp add: agent_inv_def)
    show ?thesis
    proof (rule lock_inv_update [OF inv a, of t ?h])
      show "agent_inv nest ?h"
        using g True held by (auto simp: agent_inv_def phase pending_def depth_in_stack) (auto simp: held_count_def depth_def dget_dput)
      show "owned ?h j = thread_count (lk_threads t) a j" for j
        using lock_inv_owned [OF inv, of a j] by (auto simp: t put_agent_def owned_def depth_def phase split: if_split_asm)
    qed (use lock_inv_files [OF inv] lock_inv_pos [OF inv] held in \<open>auto simp: t put_agent_def depth_def\<close>)
  next
    case False
    let ?h = "?g\<lparr>ag_phase := Opening k\<rparr>"
    have t: "t = put_agent a ?h s" using step False by (simp add: entered_step_def Let_def)
    show ?thesis
    proof (rule lock_inv_update [OF inv a, of t ?h])
      show "agent_inv nest ?h"
        using g False by (auto simp: agent_inv_def phase pending_def) (auto simp: held_count_def depth_def)
      show "owned ?h j = thread_count (lk_threads t) a j" for j
        using lock_inv_owned [OF inv, of a j] by (auto simp: t put_agent_def owned_def depth_def phase split: if_split_asm)
    qed (use lock_inv_files [OF inv] lock_inv_pos [OF inv] in \<open>auto simp: t put_agent_def depth_def\<close>)
  qed
qed

lemma opening_keeps:
  assumes inv: "lock_inv A nest s" and a: "a \<in> A" and phase: "ag_phase (lk_agents s a) = Opening k"
    and step: "opening_step a k s = Some t"
  shows "lock_inv A nest t"
proof -
  let ?g = "lk_agents s a"
  let ?h = "?g\<lparr>ag_phase := Running, ag_held := dput k 1 (ag_held ?g), ag_stack := (k, True) # ag_stack ?g,
    ag_ran := ag_ran ?g @ [k]\<rparr>"
  have g: "agent_inv nest ?g" using inv by (rule lock_inv_agent)
  have free: "lk_files s k = None" and t: "t = put_agent a ?h (s\<lparr>lk_files := (lk_files s)(k := Some a)\<rparr>)"
    using step by (simp_all only: opening_step_def Let_def split: if_split_asm) simp_all
  have none: "depth ?g k = 0" using g phase by (simp add: agent_inv_def)
  then have new: "k \<notin> fst ` set (ag_stack ?g)" using depth_in_stack [of ?g k] by simp
  show ?thesis
  proof (rule lock_inv_update [OF inv a, of t ?h])
    show "agent_inv nest ?h"
      using g none new by (auto simp: agent_inv_def phase pending_def) (auto simp: held_count_def depth_def dget_dput)
    show "owned ?h j = thread_count (lk_threads t) a j" for j
      using lock_inv_owned [OF inv, of a j] by (auto simp: t put_agent_def owned_def depth_def phase split: if_split_asm)
    show "(lk_files t j = Some a) = (0 < depth ?h j)" for j
      using lock_inv_files [OF inv, of j a] by (auto simp: t put_agent_def depth_def)
    show "(lk_files t j = Some b) = (lk_files s j = Some b)" if "b \<noteq> a" for b j
      using that free by (auto simp: t put_agent_def)
  qed (use lock_inv_pos [OF inv] in \<open>auto simp: t put_agent_def\<close>)
qed

lemma leave_keeps:
  assumes inv: "lock_inv A nest s" and a: "a \<in> A" and phase: "ag_phase (lk_agents s a) = Running"
    and script: "ag_script (lk_agents s a) = Leave # rest" and step: "leave_step a rest s = Some t"
  shows "lock_inv A nest t"
proof -
  let ?g = "lk_agents s a"
  have g: "agent_inv nest ?g" using inv by (rule lock_inv_agent)
  obtain k outermost st where st: "ag_stack ?g = (k, outermost) # st"
    using step by (auto simp: leave_step_def Let_def split: list.split_asm)
  let ?h = "\<lambda>held. ?g\<lparr>ag_script := rest, ag_phase := Closing k, ag_stack := st, ag_held := held\<rparr>"
  have d: "depth ?g j = depth (?h held) j + (if j = k then 1 else 0)" for j held by (simp add: depth_def st)
  have kinds: "outermost \<longleftrightarrow> k \<notin> fst ` set st" using g by (simp add: agent_inv_def st)
  have last: "outermost \<longleftrightarrow> depth (?h held) k = 0" for held
    using kinds depth_in_stack [of "?h held" k] by auto
  have own: "owned (?h held) j = thread_count (lk_threads s) a j" for held j
    using lock_inv_owned [OF inv, of a j] d [of j held] by (auto simp: owned_def phase)
  have keep: "agent_inv nest (?h held)" if "\<And>j. held_count (?h held) j = depth (?h held) j" for held
    using g that by (auto simp: agent_inv_def phase script pending_def st)
  have held_is: "held_count ?g j = depth ?g j" for j using g by (simp add: agent_inv_def)
  show ?thesis
  proof (cases outermost)
    case True
    let ?held = "ddel k (ag_held ?g)"
    have t: "t = put_agent a (?h ?held) (s\<lparr>lk_files := (lk_files s)(k := None)\<rparr>)"
      using step True by (simp add: leave_step_def Let_def st)
    have mine: "lk_files s k = Some a" using lock_inv_files [OF inv, of k a] d [of k "[]"] by simp
    have count: "held_count (?h ?held) j = depth (?h ?held) j" for j
      using held_is [of j] d [of j ?held] last [of ?held] True by (auto simp: held_count_def dget_ddel)
    show ?thesis
    proof (rule lock_inv_update [OF inv a, of t "?h ?held"])
      show "agent_inv nest (?h ?held)" using count by (rule keep)
      show "(lk_files t j = Some a) = (0 < depth (?h ?held) j)" for j
        using lock_inv_files [OF inv, of j a] d [of j ?held] last [of ?held] True by (auto simp: t put_agent_def)
      show "(lk_files t j = Some b) = (lk_files s j = Some b)" if "b \<noteq> a" for b j
        using that mine by (auto simp: t put_agent_def)
    qed (use own lock_inv_pos [OF inv] in \<open>auto simp: t put_agent_def\<close>)
  next
    case False
    let ?held = "dput k (held_count ?g k - 1) (ag_held ?g)"
    have t: "t = put_agent a (?h ?held) s" using step False by (simp add: leave_step_def Let_def st)
    have count: "held_count (?h ?held) j = depth (?h ?held) j" for j
      using held_is [of j] held_is [of k] d [of j ?held] by (auto simp: held_count_def dget_dput)
    show ?thesis
    proof (rule lock_inv_update [OF inv a, of t "?h ?held"])
      show "agent_inv nest (?h ?held)" using count by (rule keep)
      show "(lk_files t j = Some a) = (0 < depth (?h ?held) j)" for j
        using lock_inv_files [OF inv, of j a] d [of j ?held] last [of ?held] False by (auto simp: t put_agent_def)
    qed (use own lock_inv_pos [OF inv] in \<open>auto simp: t put_agent_def\<close>)
  qed
qed

lemma closing_keeps:
  assumes inv: "lock_inv A nest s" and a: "a \<in> A" and phase: "ag_phase (lk_agents s a) = Closing k"
    and step: "closing_step a k s = Some t"
  shows "lock_inv A nest t"
proof -
  let ?g = "lk_agents s a" and ?h = "(lk_agents s a)\<lparr>ag_phase := Running\<rparr>"
  have t: "t = put_agent a ?h (s\<lparr>lk_threads := (lk_threads s)((fst a, k) := rlock_release (lk_threads s (fst a, k)))\<rparr>)"
    using step by (simp add: closing_step_def)
  have mine: "0 < thread_count (lk_threads s) a k"
    using lock_inv_owned [OF inv, of a k] by (simp add: owned_def phase)
  show ?thesis
  proof (rule lock_inv_update [OF inv a, of t ?h])
    show "agent_inv nest ?h"
      using lock_inv_agent [OF inv, of a] by (auto simp: agent_inv_def phase pending_def) (auto simp: held_count_def depth_def)
    show "owned ?h j = thread_count (lk_threads t) a j" for j
      using lock_inv_owned [OF inv, of a j] release_count(1) [where a = a and locks = "lk_threads s" and k = k, OF mine, of j]
      by (auto simp: t put_agent_def owned_def depth_def phase)
    show "0 < n" if "lk_threads t x = Some (u, n)" for x u n
      using that release_count(3) [where a = a and locks = "lk_threads s" and k = k, OF mine] lock_inv_pos [OF inv] by (auto simp: t put_agent_def split: if_split_asm)
  qed (use lock_inv_files [OF inv] release_count(2) [where a = a and locks = "lk_threads s" and k = k, OF mine] in \<open>auto simp: t put_agent_def depth_def\<close>)
qed

lemma lock_inv_step:
  assumes inv: "lock_inv A nest s" and step: "agent_step a s = Some t"
  shows "lock_inv A nest t"
proof -
  note a = agent_in_A [OF assms]
  show ?thesis
  proof (cases "ag_phase (lk_agents s a)")
    case Running
    show ?thesis
    proof (cases "ag_script (lk_agents s a)")
      case Nil
      with step Running show ?thesis by (simp add: agent_step_def)
    next
      case (Cons c rest)
      show ?thesis
      proof (cases c)
        case (Enter k)
        with step Running Cons show ?thesis
          by (intro enter_keeps [OF inv a Running]) (simp_all add: agent_step_def)
      next
        case Leave
        with step Running Cons show ?thesis
          by (intro leave_keeps [OF inv a Running]) (simp_all add: agent_step_def)
      qed
    qed
  next
    case (Entered k)
    with step show ?thesis by (intro entered_keeps [OF inv a Entered]) (simp add: agent_step_def)
  next
    case (Opening k)
    with step show ?thesis by (intro opening_keeps [OF inv a Opening]) (simp add: agent_step_def)
  next
    case (Closing k)
    with step show ?thesis by (intro closing_keeps [OF inv a Closing]) (simp add: agent_step_def)
  qed
qed

lemma proper_skip: "proper nest st cs \<Longrightarrow> n \<le> length st \<Longrightarrow> proper nest (drop n st) (skip_blocks n cs)"
proof (induction n cs arbitrary: st rule: skip_blocks.induct)
  case (3 n k cs)
  from "3.IH" [of "k # st"] "3.prems" show ?case by simp
next
  case (4 n cs)
  then show ?case by (cases st) auto
qed auto

lemma proper_leave: "n \<le> length st \<Longrightarrow> proper nest st (replicate n Leave @ cs) \<longleftrightarrow> proper nest (drop n st) cs"
proof (induction n arbitrary: st)
  case (Suc n)
  then show ?case by (cases st) auto
qed simp

lemma refuse_keeps:
  assumes inv: "lock_inv A nest s" and step: "refuse_step fails a n s = Some t"
  shows "lock_inv A nest t"
proof -
  let ?g = "lk_agents s a"
  obtain k where phase: "ag_phase ?g = Opening k" and n: "n \<le> length (ag_stack ?g)"
    using step by (auto simp: refuse_step_def Let_def split: lock_phase.split_asm if_split_asm)
  let ?h = "?g\<lparr>ag_phase := Closing k, ag_script := replicate n Leave @ skip_blocks (Suc n) (ag_script ?g),
    ag_refused := ag_refused ?g @ [k]\<rparr>"
  have t: "t = put_agent a ?h s"
    using step by (simp add: refuse_step_def Let_def phase split: if_split_asm)
  have g: "agent_inv nest ?g" using inv by (rule lock_inv_agent)
  have a: "a \<in> A"
  proof (rule ccontr)
    assume "a \<notin> A"
    with inv have "idle ?g" unfolding lock_inv_def by blast
    with phase show False by (simp add: idle_def)
  qed
  have "proper nest (k # map fst (ag_stack ?g)) (ag_script ?g)"
    using g by (simp add: agent_inv_def phase pending_def)
  from proper_skip [OF this, of "Suc n"] n
  have "proper nest (map fst (ag_stack ?g)) (replicate n Leave @ skip_blocks (Suc n) (ag_script ?g))"
    by (simp add: proper_leave)
  then have own: "agent_inv nest ?h"
    using g by (auto simp: agent_inv_def phase pending_def) (auto simp: held_count_def depth_def)
  show ?thesis
  proof (rule lock_inv_update [OF inv a, of t ?h])
    show "owned ?h j = thread_count (lk_threads t) a j" for j
      using lock_inv_owned [OF inv, of a j] by (auto simp: t put_agent_def owned_def depth_def phase split: if_split_asm)
    show "0 < m" if "lk_threads t x = Some (u, m)" for x u m
      using that lock_inv_pos [OF inv] by (simp add: t put_agent_def)
    show "(lk_files t j = Some a) = (0 < depth ?h j)" for j
      using lock_inv_files [OF inv, of j a] by (simp add: t put_agent_def depth_def)
  qed (use own in \<open>simp_all add: t put_agent_def thread_count_def\<close>)
qed

lemma next_lock_keeps: "lock_inv A nest s \<Longrightarrow> next_lock fails e s = Some t \<Longrightarrow> lock_inv A nest t"
  by (cases e) (auto dest: lock_inv_step refuse_keeps)

lemma start_inv:
  assumes "\<And>a. a \<in> A \<Longrightarrow> proper nest [] (scripts a)" and "\<And>a. a \<notin> A \<Longrightarrow> scripts a = []"
  shows "lock_inv A nest (start_state scripts)"
proof -
  have p: "proper nest [] (scripts a)" for a using assms by (cases "a \<in> A") auto
  then show ?thesis
    by (simp add: lock_inv_def start_state_def agent_inv_def held_count_def depth_def pending_def idle_def owned_def
        thread_count_def assms(2))
qed

lemma lock_run_inv: "lock_run fails s t \<Longrightarrow> lock_inv A nest s \<Longrightarrow> lock_inv A nest t"
  by (induction rule: lock_run.induct) (blast intro: next_lock_keeps)+

lemma inv_exclusive:
  assumes "lock_inv A nest s" and "0 < depth (lk_agents s a) k" and "0 < depth (lk_agents s b) k"
  shows "a = b"
  using lock_inv_files [OF assms(1), of k a] lock_inv_files [OF assms(1), of k b] assms(2,3) by simp

section \<open>No deadlock\<close>

definition ranked :: "(string \<Rightarrow> nat) \<Rightarrow> string list \<Rightarrow> string \<Rightarrow> bool" where
  "ranked rank st k \<longleftrightarrow> k \<in> set st \<or> (\<forall>j\<in>set st. rank j < rank k)"

definition wants :: "agent_state \<Rightarrow> string \<Rightarrow> bool" where
  "wants g k \<longleftrightarrow> ag_phase g = Running \<and> (\<exists>rest. ag_script g = Enter k # rest) \<or> ag_phase g = Opening k"

lemma blocked_wants:
  assumes inv: "lock_inv A nest s" and "\<not> idle (lk_agents s a)" and none: "agent_step a s = None"
  shows "\<exists>k. wants (lk_agents s a) k"
proof -
  let ?g = "lk_agents s a"
  have p: "proper nest (pending ?g @ map fst (ag_stack ?g)) (ag_script ?g)"
    using lock_inv_agent [OF inv, of a] by (simp add: agent_inv_def)
  show ?thesis
  proof (cases "ag_phase ?g")
    case Running
    show ?thesis
    proof (cases "ag_script ?g")
      case Nil
      with p Running assms(2) show ?thesis by (simp add: pending_def idle_def)
    next
      case (Cons c rest)
      show ?thesis
      proof (cases c)
        case Leave
        with p Cons Running obtain q st where "ag_stack ?g = q # st" by (auto simp: pending_def split: list.split_asm)
        with none Running Cons Leave show ?thesis by (cases q) (simp add: agent_step_def leave_step_def Let_def)
      qed (use Running Cons in \<open>auto simp: wants_def\<close>)
    qed
  qed (use none in \<open>auto simp: agent_step_def entered_step_def closing_step_def wants_def Let_def\<close>)
qed

lemma holder_wants:
  assumes inv: "lock_inv A (ranked rank) s" and none: "agent_step b s = None" and held: "0 < depth (lk_agents s b) k"
  shows "\<exists>j. wants (lk_agents s b) j \<and> rank k < rank j"
proof -
  let ?g = "lk_agents s b"
  have g: "agent_inv (ranked rank) ?g" using inv by (rule lock_inv_agent)
  have "\<not> idle ?g" using held by (auto simp: idle_def depth_def)
  then obtain j where j: "wants ?g j" using blocked_wants [OF inv _ none] by blast
  have in_stack: "k \<in> fst ` set (ag_stack ?g)" using held depth_in_stack by blast
  have "ranked rank (map fst (ag_stack ?g)) j \<and> j \<notin> fst ` set (ag_stack ?g)"
  proof (cases "ag_phase ?g = Running")
    case True
    with j obtain rest where script: "ag_script ?g = Enter j # rest" by (auto simp: wants_def)
    have "rlock_acquire (snd b) (lk_threads s (fst b, j)) = None"
      using none by (simp add: agent_step_def True script enter_step_def split: option.split_asm)
    then have "thread_count (lk_threads s) b j = 0"
      by (auto simp: rlock_acquire_def thread_count_def split: option.split_asm if_split_asm)
    then have "depth ?g j = 0" using lock_inv_owned [OF inv, of b j] by (simp add: owned_def)
    then have "j \<notin> fst ` set (ag_stack ?g)" using depth_in_stack [of ?g j] by simp
    with g show ?thesis by (simp add: agent_inv_def True script pending_def)
  next
    case False
    with j have phase: "ag_phase ?g = Opening j" by (auto simp: wants_def)
    with g have "depth ?g j = 0" by (simp add: agent_inv_def)
    then have "j \<notin> fst ` set (ag_stack ?g)" using depth_in_stack [of ?g j] by simp
    with g show ?thesis by (simp add: agent_inv_def phase pending_def)
  qed
  with in_stack have "rank k < rank j" by (auto simp: ranked_def)
  with j show ?thesis by blast
qed

lemma blocked_holder:
  assumes inv: "lock_inv A nest s" and none: "\<And>b. agent_step b s = None" and want: "wants (lk_agents s a) k"
  shows "\<exists>b. 0 < depth (lk_agents s b) k"
proof -
  have file_held: "\<exists>b. 0 < depth (lk_agents s b) k" if "ag_phase (lk_agents s c) = Opening k" for c
  proof -
    have "lk_files s k \<noteq> None" using none [of c] by (auto simp: agent_step_def that opening_step_def Let_def split: if_split_asm)
    then show ?thesis using lock_inv_files [OF inv] by blast
  qed
  show ?thesis
  proof (cases "ag_phase (lk_agents s a) = Opening k")
    case False
    with want obtain rest where phase: "ag_phase (lk_agents s a) = Running" "ag_script (lk_agents s a) = Enter k # rest"
      by (auto simp: wants_def)
    then have "rlock_acquire (snd a) (lk_threads s (fst a, k)) = None"
      using none [of a] by (simp add: agent_step_def enter_step_def split: option.split_asm)
    then obtain u n where u: "lk_threads s (fst a, k) = Some (u, n)"
      by (auto simp: rlock_acquire_def split: option.split_asm)
    have "0 < owned (lk_agents s (fst a, u)) k"
      using lock_inv_owned [OF inv, of "(fst a, u)" k] lock_inv_pos [OF inv u] by (simp add: thread_count_def u)
    moreover have "ag_phase (lk_agents s (fst a, u)) \<noteq> Entered k" "ag_phase (lk_agents s (fst a, u)) \<noteq> Closing k"
      using none [of "(fst a, u)"] by (auto simp: agent_step_def entered_step_def closing_step_def Let_def)
    ultimately have "0 < depth (lk_agents s (fst a, u)) k \<or> ag_phase (lk_agents s (fst a, u)) = Opening k"
      by (auto simp: owned_def split: lock_phase.split_asm if_split_asm)
    with file_held show ?thesis by blast
  qed (rule file_held)
qed

lemma wants_unique: "wants g j \<Longrightarrow> wants g k \<Longrightarrow> j = k"
  by (auto simp: wants_def)

lemma wants_finite: "finite {k. wants g k}"
proof (cases "\<exists>k. wants g k")
  case True
  then obtain k where "wants g k" ..
  then have "{k. wants g k} = {k}" using wants_unique by auto
  then show ?thesis by simp
qed simp

lemma some_agent_steps:
  assumes inv: "lock_inv A (ranked rank) s" and fin: "finite A" and busy: "\<not> idle (lk_agents s a)"
  shows "\<exists>b t. agent_step b s = Some t"
proof (rule ccontr)
  assume "\<nexists>b t. agent_step b s = Some t"
  then have none: "agent_step b s = None" for b by (metis option.exhaust)
  let ?K = "{k. \<exists>b\<in>A. wants (lk_agents s b) k}"
  have "?K = (\<Union>b\<in>A. {k. wants (lk_agents s b) k})" by auto
  then have fin: "finite (rank ` ?K)" using fin wants_finite by simp
  have inA: "b \<in> A" if "wants (lk_agents s b) k" for b k
  proof (rule ccontr)
    assume "b \<notin> A"
    with inv have "idle (lk_agents s b)" unfolding lock_inv_def by blast
    with that show False by (auto simp: wants_def idle_def)
  qed
  obtain k where "wants (lk_agents s a) k" using blocked_wants [OF inv busy none] by blast
  then have "rank ` ?K \<noteq> {}" using inA by blast
  from Max_in [OF fin this] obtain m b where m: "wants (lk_agents s b) m" "rank m = Max (rank ` ?K)" by auto
  obtain c where "0 < depth (lk_agents s c) m" using blocked_holder [OF inv none m(1)] by blast
  from holder_wants [OF inv none this] obtain j where j: "wants (lk_agents s c) j" "rank m < rank j" by blast
  then have "rank j \<le> Max (rank ` ?K)" using fin inA by (intro Max_ge) blast+
  with m(2) j(2) show False by simp
qed

section \<open>Every run ends\<close>

fun cmd_work :: "lock_cmd \<Rightarrow> nat" where
  "cmd_work (Enter k) = 4"
| "cmd_work Leave = 2"

fun phase_work :: "lock_phase \<Rightarrow> nat" where
  "phase_work Running = 0"
| "phase_work (Entered k) = 3"
| "phase_work (Opening k) = 2"
| "phase_work (Closing k) = 1"

definition agent_work :: "agent_state \<Rightarrow> nat" where
  "agent_work g = sum_list (map cmd_work (ag_script g)) + phase_work (ag_phase g)"

definition lock_work :: "agent set \<Rightarrow> lock_state \<Rightarrow> nat" where
  "lock_work A s = (\<Sum>a\<in>A. agent_work (lk_agents s a))"

lemmas agent_step_defs = agent_step_def enter_step_def entered_step_def opening_step_def leave_step_def closing_step_def

lemma agent_step_work:
  assumes "agent_step a s = Some t"
  shows "agent_work (lk_agents t a) < agent_work (lk_agents s a)" and "b \<noteq> a \<Longrightarrow> lk_agents t b = lk_agents s b"
  using assms by (auto simp: agent_step_defs Let_def agent_work_def put_agent_def
      split: lock_phase.split_asm list.split_asm lock_cmd.split_asm option.split_asm if_split_asm)

lemma skip_work:
  "proper nest st cs \<Longrightarrow> n \<le> length st \<Longrightarrow> sum_list (map cmd_work (skip_blocks n cs)) + 2 * n \<le> sum_list (map cmd_work cs)"
proof (induction n cs arbitrary: st rule: skip_blocks.induct)
  case (3 n k cs)
  from "3.IH" [of "k # st"] "3.prems" show ?case by simp
next
  case (4 n cs)
  then show ?case by (cases st) auto
qed auto

lemma refuse_step_work:
  assumes inv: "lock_inv A nest s" and step: "refuse_step fails a n s = Some t"
  shows "agent_work (lk_agents t a) < agent_work (lk_agents s a)" and "b \<noteq> a \<Longrightarrow> lk_agents t b = lk_agents s b"
proof -
  let ?g = "lk_agents s a"
  obtain k where phase: "ag_phase ?g = Opening k" and n: "n \<le> length (ag_stack ?g)"
    using step by (auto simp: refuse_step_def Let_def split: lock_phase.split_asm if_split_asm)
  have t: "t = put_agent a (?g\<lparr>ag_phase := Closing k, ag_script := replicate n Leave @ skip_blocks (Suc n) (ag_script ?g),
    ag_refused := ag_refused ?g @ [k]\<rparr>) s"
    using step by (simp add: refuse_step_def Let_def phase split: if_split_asm)
  have "proper nest (k # map fst (ag_stack ?g)) (ag_script ?g)"
    using lock_inv_agent [OF inv, of a] by (simp add: agent_inv_def phase pending_def)
  from skip_work [OF this, of "Suc n"] n
  show "agent_work (lk_agents t a) < agent_work ?g"
    by (simp add: t put_agent_def agent_work_def phase sum_list_replicate)
  show "b \<noteq> a \<Longrightarrow> lk_agents t b = lk_agents s b" by (simp add: t put_agent_def)
qed

lemma work_decreases:
  assumes "finite A" and "a \<in> A" and "agent_work (lk_agents t a) < agent_work (lk_agents s a)"
    and "\<And>b. b \<noteq> a \<Longrightarrow> lk_agents t b = lk_agents s b"
  shows "lock_work A t < lock_work A s"
  unfolding lock_work_def
proof (rule sum_strict_mono_ex1 [OF assms(1)])
  show "\<forall>x\<in>A. agent_work (lk_agents t x) \<le> agent_work (lk_agents s x)"
    using assms(3,4) by (metis le_eq_less_or_eq)
  show "\<exists>x\<in>A. agent_work (lk_agents t x) < agent_work (lk_agents s x)"
    using assms(2,3) by blast
qed

lemma next_lock_work:
  assumes inv: "lock_inv A nest s" and "finite A" and step: "next_lock fails e s = Some t"
  shows "lock_work A t < lock_work A s"
proof (cases e)
  case (Step a)
  with step have "agent_step a s = Some t" by simp
  with inv agent_step_work [OF this] show ?thesis by (blast intro: work_decreases [OF assms(2)] agent_in_A)
next
  case (Refuse a n)
  with step have step: "refuse_step fails a n s = Some t" by simp
  have "a \<in> A"
  proof (rule ccontr)
    assume "a \<notin> A"
    with inv have "idle (lk_agents s a)" unfolding lock_inv_def by blast
    with step show False by (simp add: refuse_step_def idle_def)
  qed
  with refuse_step_work [OF inv step] show ?thesis by (blast intro: work_decreases [OF assms(2)])
qed

section \<open>Which blocks were run\<close>

fun entered :: "lock_cmd list \<Rightarrow> string list" where
  "entered [] = []"
| "entered (Enter k # cs) = k # entered cs"
| "entered (Leave # cs) = entered cs"

definition agent_log :: "agent_state \<Rightarrow> string list" where
  "agent_log g = ag_ran g @ pending g @ entered (ag_script g)"

definition log_inv :: "(string \<Rightarrow> bool \<Rightarrow> bool) \<Rightarrow> (agent \<Rightarrow> lock_cmd list) \<Rightarrow> lock_state \<Rightarrow> bool" where
  "log_inv fails scripts s \<longleftrightarrow> (\<forall>a. subseq (agent_log (lk_agents s a)) (entered (scripts a))
     \<and> (ag_refused (lk_agents s a) = [] \<longrightarrow> agent_log (lk_agents s a) = entered (scripts a))
     \<and> (\<forall>k\<in>set (ag_refused (lk_agents s a)). \<exists>held. fails k held))"

lemma agent_step_log:
  assumes "agent_step a s = Some t"
  shows "agent_log (lk_agents t a) = agent_log (lk_agents s a)" and "ag_refused (lk_agents t a) = ag_refused (lk_agents s a)"
  using assms by (auto simp: agent_step_defs Let_def agent_log_def pending_def put_agent_def
      split: lock_phase.split_asm list.split_asm lock_cmd.split_asm option.split_asm if_split_asm)

lemma entered_replicate: "entered (replicate n Leave @ cs) = entered cs"
  by (induction n) simp_all

lemma entered_skip: "subseq (entered (skip_blocks n cs)) (entered cs)"
  by (induction n cs rule: skip_blocks.induct) auto

lemma next_lock_log:
  assumes log: "log_inv fails scripts s" and step: "next_lock fails e s = Some t"
  shows "log_inv fails scripts t"
proof (cases e)
  case (Step a)
  with step have "agent_step a s = Some t" by simp
  from agent_step_log [OF this] agent_step_work(2) [OF this] log show ?thesis
    unfolding log_inv_def by metis
next
  case (Refuse a n)
  let ?g = "lk_agents s a"
  from step Refuse have step: "refuse_step fails a n s = Some t" by simp
  then obtain k where phase: "ag_phase ?g = Opening k" and f: "fails k (lk_files s k \<noteq> None)"
    by (auto simp: refuse_step_def Let_def split: lock_phase.split_asm if_split_asm)
  have t: "t = put_agent a (?g\<lparr>ag_phase := Closing k, ag_script := replicate n Leave @ skip_blocks (Suc n) (ag_script ?g),
    ag_refused := ag_refused ?g @ [k]\<rparr>) s"
    using step by (simp add: refuse_step_def Let_def phase split: if_split_asm)
  have "subseq (agent_log (lk_agents t a)) (agent_log ?g)"
    unfolding t put_agent_def agent_log_def pending_def
    by (simp add: phase entered_replicate) (intro list_emb_append_mono list_emb_Cons entered_skip subseq_order.order_refl)
  then have "subseq (agent_log (lk_agents t a)) (entered (scripts a))"
    using log subseq_order.order_trans unfolding log_inv_def by blast
  with log f show ?thesis by (auto simp: log_inv_def t put_agent_def)
qed

lemma start_log: "log_inv fails scripts (start_state scripts)"
  by (simp add: log_inv_def start_state_def agent_log_def pending_def)

text \<open>Every agent has finished, and every lock is free again.\<close>

definition all_free :: "lock_state \<Rightarrow> bool" where
  "all_free s \<longleftrightarrow> (\<forall>a. idle (lk_agents s a)) \<and> (\<forall>l. lk_threads s l = None) \<and> (\<forall>k. lk_files s k = None)"

lemma idle_all_free:
  assumes inv: "lock_inv A nest s" and idle: "\<And>a. idle (lk_agents s a)"
  shows "all_free s"
proof -
  have "lk_threads s l = None" for l
  proof (rule ccontr)
    assume "lk_threads s l \<noteq> None"
    then obtain u n where u: "lk_threads s l = Some (u, n)" by fastforce
    have "owned (lk_agents s (fst l, u)) (snd l) = n"
      using lock_inv_owned [OF inv, of "(fst l, u)" "snd l"] by (simp add: thread_count_def u)
    moreover have "owned (lk_agents s (fst l, u)) (snd l) = 0"
      using idle [of "(fst l, u)"] by (simp add: owned_def idle_def depth_def)
    ultimately show False using lock_inv_pos [OF inv u] by simp
  qed
  moreover have "lk_files s k = None" for k
  proof (rule ccontr)
    assume "lk_files s k \<noteq> None"
    then obtain b where "lk_files s k = Some b" by blast
    then show False using lock_inv_files [OF inv, of k b] idle [of b] by (simp add: idle_def depth_def)
  qed
  ultimately show ?thesis using idle by (simp only: all_free_def) blast
qed

text \<open>The blocks that were run: all of the script where no acquisition raised.\<close>

definition scripts_run :: "(string \<Rightarrow> bool \<Rightarrow> bool) \<Rightarrow> (agent \<Rightarrow> lock_cmd list) \<Rightarrow> lock_state \<Rightarrow> bool" where
  "scripts_run fails scripts s \<longleftrightarrow> (\<forall>a. subseq (ag_ran (lk_agents s a)) (entered (scripts a))
     \<and> (ag_refused (lk_agents s a) = [] \<longrightarrow> ag_ran (lk_agents s a) = entered (scripts a))
     \<and> (\<forall>k\<in>set (ag_refused (lk_agents s a)). \<exists>held. fails k held))"

lemma idle_scripts_run: "log_inv fails scripts s \<Longrightarrow> all_free s \<Longrightarrow> scripts_run fails scripts s"
  by (auto simp: log_inv_def scripts_run_def all_free_def idle_def agent_log_def pending_def)

definition lock_ready ::
  "agent set \<Rightarrow> (string \<Rightarrow> nat) \<Rightarrow> (string \<Rightarrow> bool \<Rightarrow> bool) \<Rightarrow> (agent \<Rightarrow> lock_cmd list) \<Rightarrow> lock_state \<Rightarrow> bool" where
  "lock_ready A rank fails scripts s \<longleftrightarrow> finite A \<and> lock_inv A (ranked rank) s \<and> log_inv fails scripts s"

interpretation write_lock: guarded_steps "next_lock fails" "lock_ready A rank fails scripts"
  "\<lambda>s. all_free s \<and> scripts_run fails scripts s" "lock_work A" for A rank fails scripts
proof unfold_locales
  fix e s t assume "lock_ready A rank fails scripts s" and step: "next_lock fails e s = Some t"
  then have inv: "finite A" "lock_inv A (ranked rank) s" "log_inv fails scripts s" by (simp_all add: lock_ready_def)
  from next_lock_keeps [OF inv(2) step] next_lock_log [OF inv(3) step] inv(1)
  show "lock_ready A rank fails scripts t" by (simp add: lock_ready_def)
  show "lock_work A t < lock_work A s" using next_lock_work [OF inv(2,1) step] .
next
  fix s assume ready: "lock_ready A rank fails scripts s" and "\<not> (all_free s \<and> scripts_run fails scripts s)"
  then have "\<not> all_free s" using idle_scripts_run unfolding lock_ready_def by blast
  with ready obtain a where "\<not> idle (lk_agents s a)" using idle_all_free unfolding lock_ready_def by blast
  with ready obtain b t where "agent_step b s = Some t" using some_agent_steps unfolding lock_ready_def by blast
  then have "next_lock fails (Step b) s = Some t" by simp
  then show "\<exists>e t. next_lock fails e s = Some t" by blast
qed

section \<open>What the lock guarantees\<close>

text \<open>C36: At most one agent, over all threads and all processes, is inside the blocks that hold the write
  lock of a directory, in every interleaving of any scripts of nested blocks, also where acquisitions of the
  lock file raise; meanwhile the lock file is its, and the count it keeps of a directory is the number of its
  open blocks on it.\<close>

theorem write_lock_is_exclusive:
  assumes "lock_run fails (start_state scripts) s" and "\<And>a. proper (\<lambda>st k. True) [] (scripts a)"
    and "k \<in> fst ` set (ag_stack (lk_agents s a))"
  shows "lk_files s k = Some a \<and> held_count (lk_agents s a) k = length (filter (\<lambda>p. fst p = k) (ag_stack (lk_agents s a)))
    \<and> (\<forall>b. k \<in> fst ` set (ag_stack (lk_agents s b)) \<longrightarrow> b = a)"
proof -
  have inv: "lock_inv UNIV (\<lambda>st k. True) s"
    using lock_run_inv [OF assms(1) start_inv [of UNIV "\<lambda>st k. True" scripts]] assms(2) by blast
  have "0 < depth (lk_agents s a) k" using assms(3) depth_in_stack by blast
  with lock_inv_files [OF inv, of k] lock_inv_agent [OF inv, of a] inv_exclusive [OF inv] show ?thesis
    by (simp add: agent_inv_def depth_def [symmetric] depth_in_stack [symmetric])
qed

text \<open>C37: Writers do not block each other for ever: where nested blocks enter directories in a fixed order
  (the operations of this program nest one directory only), every interleaving of finitely many agents, with
  or without acquisitions that raise, comes to an end with every agent finished and every lock free, whatever
  is scheduled next. An agent then has run all blocks of its script, in order, unless an acquisition of its
  own raised; where the lock file is waited for, as with \<open>fcntl.flock\<close>, none does. On Windows an
  acquisition may raise while the directory is held; then the block it was for was not run.\<close>

theorem write_lock_ends:
  assumes "finite A" and "\<And>a. a \<notin> A \<Longrightarrow> scripts a = []" and "\<And>a. a \<in> A \<Longrightarrow> proper (ranked rank) [] (scripts a)"
  shows "inevitable (next_lock fails)
    (\<lambda>s. all_free s \<and> (\<forall>a. subseq (ag_ran (lk_agents s a)) (entered (scripts a))
       \<and> (ag_refused (lk_agents s a) = [] \<longrightarrow> ag_ran (lk_agents s a) = entered (scripts a))
       \<and> (\<forall>k\<in>set (ag_refused (lk_agents s a)). \<exists>held. fails k held)))
    (start_state scripts)"
  using write_lock.inevitable_goal [of A rank fails scripts "start_state scripts"]
  by (simp add: lock_ready_def assms start_inv start_log scripts_run_def)

text \<open>Two threads of one process and a third in another: one of them nests the directory.\<close>

definition sample_scripts :: "agent \<Rightarrow> lock_cmd list" where
  "sample_scripts = (\<lambda>a. [])((0, 0) := [Enter ''d'', Enter ''d'', Leave, Leave], (0, 1) := [Enter ''d'', Leave],
     (1, 0) := [Enter ''d'', Leave])"

theorem write_lock_ends_witness:
  "\<forall>windows. inevitable (next_lock (os_lock_fails windows))
    (\<lambda>s. all_free s \<and> (\<forall>a. subseq (ag_ran (lk_agents s a)) (entered (sample_scripts a))
       \<and> (ag_refused (lk_agents s a) = [] \<longrightarrow> ag_ran (lk_agents s a) = entered (sample_scripts a))
       \<and> (\<forall>k\<in>set (ag_refused (lk_agents s a)). \<exists>held. os_lock_fails windows k held)))
    (start_state sample_scripts)"
  by (intro allI, rule write_lock_ends [of "{(0, 0), (0, 1), (1, 0)}" _ "\<lambda>k. 0"]) (auto simp: sample_scripts_def ranked_def)

definition sample_steps :: "lock_event list \<Rightarrow> lock_state option" where
  "sample_steps es = fold (\<lambda>e r. Option.bind r (next_lock (os_lock_fails True) e)) es (Some (start_state sample_scripts))"

lemma sample_steps_run: "sample_steps es = Some s \<Longrightarrow> lock_run (os_lock_fails True) (start_state sample_scripts) s"
proof (induction es arbitrary: s rule: rev_induct)
  case Nil
  then show ?case by (simp add: sample_steps_def lock_run.start)
next
  case (snoc e es)
  then obtain t where "sample_steps es = Some t" "next_lock (os_lock_fails True) e t = Some s"
    by (auto simp: sample_steps_def bind_eq_Some_conv)
  with snoc.IH show ?case by (blast intro: lock_run.step)
qed

lemmas sample_steps_defs = sample_steps_def agent_step_defs refuse_step_def os_lock_fails_def start_state_def
  sample_scripts_def put_agent_def held_count_def rlock_acquire_def rlock_release_def Let_def

text \<open>On Windows, another process that wants the directory while it is held runs no block at all.\<close>

theorem contention_refuses_on_windows:
  "\<exists>s. lock_run (os_lock_fails True) (start_state sample_scripts) s \<and> ag_refused (lk_agents s (1, 0)) = [''d'']
     \<and> ag_ran (lk_agents s (1, 0)) = [] \<and> idle (lk_agents s (1, 0))"
proof -
  let ?es = "[Step (0, 0), Step (0, 0), Step (0, 0), Step (1, 0), Step (1, 0), Refuse (1, 0) 0, Step (1, 0)]"
  define s where "s = the (sample_steps ?es)"
  have "\<exists>s. sample_steps ?es = Some s" by (simp add: sample_steps_defs)
  then have s: "sample_steps ?es = Some s" by (auto simp: s_def)
  have "ag_refused (lk_agents s (1, 0)) = [''d''] \<and> ag_ran (lk_agents s (1, 0)) = [] \<and> idle (lk_agents s (1, 0))"
    unfolding s_def by (simp add: sample_steps_defs idle_def)
  with sample_steps_run [OF s] show ?thesis by blast
qed

theorem write_lock_is_exclusive_witness:
  "\<exists>s. lock_run (os_lock_fails True) (start_state sample_scripts) s \<and> lk_files s ''d'' = Some (0, 0)
     \<and> held_count (lk_agents s (0, 0)) ''d'' = 2 \<and> agent_step (0, 1) s = None"
proof -
  let ?es = "map Step [(0, 0), (0, 0), (0, 0), (1, 0), (1, 0), (0, 0), (0, 0)]"
  define s where "s = the (sample_steps ?es)"
  have "\<exists>s. sample_steps ?es = Some s" by (simp add: sample_steps_defs)
  then have s: "sample_steps ?es = Some s" by (auto simp: s_def)
  have facts: "map fst (ag_stack (lk_agents s (0, 0))) = [''d'', ''d'']" "agent_step (0, 1) s = None"
    unfolding s_def by (simp_all add: sample_steps_defs)
  have stack: "''d'' \<in> fst ` set (ag_stack (lk_agents s (0, 0)))" using arg_cong [OF facts(1), of set] by simp
  have len: "length (filter (\<lambda>p. fst p = ''d'') (ag_stack (lk_agents s (0, 0)))) = 2"
    using arg_cong [OF facts(1), of "\<lambda>ks. length (filter (\<lambda>k. k = ''d'') ks)"] by (simp add: filter_map o_def)
  have "proper (\<lambda>st k. True) [] (sample_scripts a)" for a by (simp add: sample_scripts_def)
  from write_lock_is_exclusive [OF sample_steps_run [OF s] this stack] len facts(2) sample_steps_run [OF s] show ?thesis by metis
qed

end
