(* ===== verification/Migration_Texts.thy ===== *)
theory Migration_Texts
  imports Py_Text
begin

text \<open>
  The messages of the issues that \<open>mapping_migration.py\<close> reports. They are part of the hashed preview;
  each is written by the bytes of its UTF-8 encoding.
\<close>

text \<open>a rule must be an object\<close>
definition M_RULE_OBJECT :: string where
  "M_RULE_OBJECT =
    [CHR ''v'', CHR ''1'', CHR 0x20, CHR 0xE8, CHR 0xA7, CHR 0x84, CHR 0xE5, CHR 0x88, CHR 0x99,
     CHR 0xE5, CHR 0xBF, CHR 0x85, CHR 0xE9, CHR 0xA1, CHR 0xBB, CHR 0xE6, CHR 0x98, CHR 0xAF,
     CHR 0xE5, CHR 0xAF, CHR 0xB9, CHR 0xE8, CHR 0xB1, CHR 0xA1]"

text \<open>a rule has unknown fields\<close>
definition M_RULE_UNKNOWN :: string where
  "M_RULE_UNKNOWN =
    [CHR ''v'', CHR ''1'', CHR 0x20, CHR 0xE8, CHR 0xA7, CHR 0x84, CHR 0xE5, CHR 0x88, CHR 0x99,
     CHR 0xE5, CHR 0x90, CHR 0xAB, CHR 0xE6, CHR 0x9C, CHR 0xAA, CHR 0xE7, CHR 0x9F, CHR 0xA5,
     CHR 0xE5, CHR 0xAD, CHR 0x97, CHR 0xE6, CHR 0xAE, CHR 0xB5]"

text \<open>the rule id is not that of the seller and the project\<close>
definition M_RULE_ID :: string where
  "M_RULE_ID =
    [CHR ''v'', CHR ''1'', CHR 0x20, CHR ''r'', CHR ''u'', CHR ''l'', CHR ''e'', CHR ''_'', CHR ''i'',
     CHR ''d'', CHR 0x20, CHR 0xE4, CHR 0xB8, CHR 0x8E, CHR 0xE6, CHR 0x97, CHR 0xA7, CHR 0xE7,
     CHR 0x89, CHR 0x88, CHR 0x20, CHR ''s'', CHR ''e'', CHR ''l'', CHR ''l'', CHR ''e'', CHR ''r'',
     CHR ''/'', CHR ''p'', CHR ''r'', CHR ''o'', CHR ''j'', CHR ''e'', CHR ''c'', CHR ''t'', CHR 0x20,
     CHR 0xE8, CHR 0x8C, CHR 0x83, CHR 0xE5, CHR 0x9B, CHR 0xB4, CHR 0xE4, CHR 0xB8, CHR 0x8D,
     CHR 0xE4, CHR 0xB8, CHR 0x80, CHR 0xE8, CHR 0x87, CHR 0xB4]"

text \<open>the auxiliary values must be an object\<close>
definition M_AUX_OBJECT :: string where
  "M_AUX_OBJECT =
    [CHR ''v'', CHR ''1'', CHR 0x20, CHR 0xE8, CHR 0xBE, CHR 0x85, CHR 0xE5, CHR 0x8A, CHR 0xA9,
     CHR 0xE6, CHR 0xA0, CHR 0xB8, CHR 0xE7, CHR 0xAE, CHR 0x97, CHR 0xE5, CHR 0xBF, CHR 0x85,
     CHR 0xE9, CHR 0xA1, CHR 0xBB, CHR 0xE6, CHR 0x98, CHR 0xAF, CHR 0xE5, CHR 0xAF, CHR 0xB9,
     CHR 0xE8, CHR 0xB1, CHR 0xA1]"

text \<open>the auxiliary values must be confirmed again\<close>
definition M_AUX_RECONFIRM :: string where
  "M_AUX_RECONFIRM =
    [CHR ''v'', CHR ''1'', CHR 0x20, CHR 0xE8, CHR 0xBE, CHR 0x85, CHR 0xE5, CHR 0x8A, CHR 0xA9,
     CHR 0xE6, CHR 0xA0, CHR 0xB8, CHR 0xE7, CHR 0xAE, CHR 0x97, CHR 0xE5, CHR 0x80, CHR 0xBC,
     CHR 0xE6, CHR 0x9C, CHR 0xAA, CHR 0xE7, CHR 0xBB, CHR 0x91, CHR 0xE5, CHR 0xAE, CHR 0x9A,
     CHR 0xE6, CHR 0xAD, CHR 0xA3, CHR 0xE5, CHR 0xBC, CHR 0x8F, CHR 0xE8, CHR 0xB4, CHR 0xA6,
     CHR 0xE5, CHR 0xA5, CHR 0x97, CHR 0xE7, CHR 0xA8, CHR 0xB3, CHR 0xE5, CHR 0xAE, CHR 0x9A,
     CHR 0x20, CHR ''I'', CHR ''D'', CHR 0xEF, CHR 0xBC, CHR 0x8C, CHR 0xE5, CHR 0xBF, CHR 0x85,
     CHR 0xE9, CHR 0xA1, CHR 0xBB, CHR 0xE9, CHR 0x87, CHR 0x8D, CHR 0xE6, CHR 0x96, CHR 0xB0,
     CHR 0xE7, CHR 0xA1, CHR 0xAE, CHR 0xE8, CHR 0xAE, CHR 0xA4]"

text \<open>the root has unknown fields\<close>
definition M_ROOT_UNKNOWN :: string where
  "M_ROOT_UNKNOWN =
    [CHR ''v'', CHR ''1'', CHR 0x20, CHR 0xE6, CHR 0xA0, CHR 0xB9, CHR 0xE5, CHR 0xAF, CHR 0xB9,
     CHR 0xE8, CHR 0xB1, CHR 0xA1, CHR 0xE5, CHR 0x90, CHR 0xAB, CHR 0xE6, CHR 0x9C, CHR 0xAA,
     CHR 0xE7, CHR 0x9F, CHR 0xA5, CHR 0xE5, CHR 0xAD, CHR 0x97, CHR 0xE6, CHR 0xAE, CHR 0xB5]"

text \<open>no version: read as version 1\<close>
definition M_IMPLICIT_V1 :: string where
  "M_IMPLICIT_V1 =
    [CHR 0xE6, CHR 0x96, CHR 0x87, CHR 0xE4, CHR 0xBB, CHR 0xB6, CHR 0xE6, CHR 0x9C, CHR 0xAA,
     CHR 0xE5, CHR 0xA3, CHR 0xB0, CHR 0xE6, CHR 0x98, CHR 0x8E, CHR 0x20, CHR ''v'', CHR ''e'',
     CHR ''r'', CHR ''s'', CHR ''i'', CHR ''o'', CHR ''n'', CHR 0xEF, CHR 0xBC, CHR 0x8C, CHR 0xE6,
     CHR 0x8C, CHR 0x89, CHR 0xE5, CHR 0x8E, CHR 0x86, CHR 0xE5, CHR 0x8F, CHR 0xB2, CHR 0x20,
     CHR ''v'', CHR ''1'', CHR 0x20, CHR 0xE5, CHR 0x90, CHR 0x88, CHR 0xE5, CHR 0x90, CHR 0x8C,
     CHR 0xE9, CHR 0xA2, CHR 0x84, CHR 0xE8, CHR 0xA7, CHR 0x88]"

text \<open>the revision must be a natural number\<close>
definition M_REVISION :: string where
  "M_REVISION =
    [CHR ''v'', CHR ''1'', CHR 0x20, CHR ''r'', CHR ''e'', CHR ''v'', CHR ''i'', CHR ''s'', CHR ''i'',
     CHR ''o'', CHR ''n'', CHR 0x20, CHR 0xE5, CHR 0xBF, CHR 0x85, CHR 0xE9, CHR 0xA1, CHR 0xBB,
     CHR 0xE6, CHR 0x98, CHR 0xAF, CHR 0xE9, CHR 0x9D, CHR 0x9E, CHR 0xE8, CHR 0xB4, CHR 0x9F,
     CHR 0xE6, CHR 0x95, CHR 0xB4, CHR 0xE6, CHR 0x95, CHR 0xB0]"

text \<open>the rules must be an array\<close>
definition M_RULES_ARRAY :: string where
  "M_RULES_ARRAY =
    [CHR ''v'', CHR ''1'', CHR 0x20, CHR ''r'', CHR ''u'', CHR ''l'', CHR ''e'', CHR ''s'', CHR 0x20,
     CHR 0xE5, CHR 0xBF, CHR 0x85, CHR 0xE9, CHR 0xA1, CHR 0xBB, CHR 0xE6, CHR 0x98, CHR 0xAF,
     CHR 0xE6, CHR 0x95, CHR 0xB0, CHR 0xE7, CHR 0xBB, CHR 0x84]"

text \<open>several rules get the same scope\<close>
definition M_COLLISION :: string where
  "M_COLLISION =
    [CHR 0xE5, CHR 0xA4, CHR 0x9A, CHR 0xE6, CHR 0x9D, CHR 0xA1, CHR 0x20, CHR ''v'', CHR ''1'',
     CHR 0x20, CHR 0xE8, CHR 0xA7, CHR 0x84, CHR 0xE5, CHR 0x88, CHR 0x99, CHR 0xE8, CHR 0xBF,
     CHR 0x81, CHR 0xE7, CHR 0xA7, CHR 0xBB, CHR 0xE5, CHR 0x90, CHR 0x8E, CHR 0xE8, CHR 0x90,
     CHR 0xBD, CHR 0xE5, CHR 0x85, CHR 0xA5, CHR 0xE5, CHR 0x90, CHR 0x8C, CHR 0xE4, CHR 0xB8,
     CHR 0x80, CHR 0x20, CHR ''v'', CHR ''2'', CHR 0x20, CHR 0xE8, CHR 0x8C, CHR 0x83, CHR 0xE5,
     CHR 0x9B, CHR 0xB4]"

end
