(* ===== verification/Mapping_Migration.thy ===== *)
theory Mapping_Migration
  imports Migration_Texts Mapping_Writes
begin

text \<open>
  \<open>bookkeeping/mapping_migration.py\<close>: the preview of the migration of an account mapping of version 1,
  and its application, which names the source and the preview it was confirmed for. The migrated rules
  wait for a confirmation; a receipt under the key of the request makes a repeated request return the
  first result.

  The mapping file and the backup beside it are \<open>store_file\<close>s. Both stay unchanged while an operation
  runs (it holds the write lock). \<open>vrule\<close> is pydantic's check of an \<open>AccountMappingRule\<close> and \<open>msg\<close> is
  \<open>str(exc)\<close>. The subclasses of \<open>ValueError\<close> of the module are \<open>ValueError\<close>s here.
\<close>

definition MIGRATION_CONTRACT :: string where
  "MIGRATION_CONTRACT = ''mapping-v1-to-v2-20260711''"

definition ROOT_FIELDS :: "string list" where
  "ROOT_FIELDS = [''version'', ''revision'', ''updated_at'', ''rules_version'', ''rules'']"

definition RULE_FIELDS :: "string list" where
  "RULE_FIELDS = [''rule_id'', ''match_seller'', ''match_internal_project'', ''debit_account_code'',
     ''debit_account_name'', ''credit_account_code'', ''credit_account_name'', ''tax_account_code'',
     ''aux_dimensions'', ''source'', ''confirmed_at'', ''confirmed_by'']"

section \<open>Reading\<close>

fun read_json_bytes :: "store_file \<Rightarrow> exc + string \<times> vdict" where
  "read_json_bytes NoFile = Inl (ValueError ''cannot read the mapping'' [])"
| "read_json_bytes (File b (Some (VDict d))) = Inr (b, d)"
| "read_json_bytes (File b v) = Inl (ValueError ''the mapping is not a JSON object'' [])"

definition source_version :: "vdict \<Rightarrow> exc + int" where
  "source_version payload =
    (case py_int (get_default payload ''version'' (VInt 1)) of
       Inl e \<Rightarrow> Inl (ValueError ''version must be an integer'' []) | Inr v \<Rightarrow> Inr v)"

definition legacy_rule_id :: "string \<Rightarrow> string \<Rightarrow> string" where
  "legacy_rule_id seller project =
     sha1 (join mapping_key_separator [normalize_match_text seller, normalize_match_text project])"

section \<open>Issues\<close>

record migration_issue =
  mi_code :: string
  mi_message :: string
  mi_detail :: vdict

definition issue :: "string \<Rightarrow> string \<Rightarrow> vdict \<Rightarrow> migration_issue" where
  "issue code message detail = \<lparr>mi_code = code, mi_message = message, mi_detail = detail\<rparr>"

definition dump_issue :: "migration_issue \<Rightarrow> pyval" where
  "dump_issue i = VDict [(''code'', VStr (mi_code i)), (''message'', VStr (mi_message i)), (''detail'', VDict (mi_detail i))]"

text \<open>\<open>sorted(set(d) - fields)\<close>\<close>

definition unknown_fields :: "string list \<Rightarrow> vdict \<Rightarrow> string list" where
  "unknown_fields known d = sort (dedup (filter (\<lambda>k. k \<notin> set known) (map fst d)))"

definition issue_if :: "bool \<Rightarrow> migration_issue \<Rightarrow> migration_issue list" where
  "issue_if c i = (if c then [i] else [])"

section \<open>A rule\<close>

record rule_migration =
  rm_legacy_rule_id :: string
  rm_target_rule :: account_mapping_rule

definition defaults_applied :: vdict where
  "defaults_applied = [(''match_source_type'', VStr ''purchase_invoice''), (''match_item'', VStr []), (''effective_from'', VStr []),
     (''effective_to'', VStr []), (''priority'', VInt 0), (''business_class'', VStr []),
     (''activation_state'', VStr ''pending_reconfirmation'')]"

definition dump_rule_migration :: "rule_migration \<Rightarrow> pyval" where
  "dump_rule_migration m = VDict
    [(''legacy_rule_id'', VStr (rm_legacy_rule_id m)), (''target_rule_id'', VStr (ru_rule_id (rm_target_rule m))),
     (''defaults_applied'', VDict defaults_applied), (''target_rule'', VDict (dump_account_mapping_rule (rm_target_rule m)))]"

definition rule_index :: "nat \<Rightarrow> string \<times> pyval" where
  "rule_index index = (''rule_index'', VInt (int index))"

definition raw_aux :: "vdict \<Rightarrow> vdict" where
  "raw_aux raw = (case get_default raw ''aux_dimensions'' (VDict []) of VDict d \<Rightarrow> d | _ \<Rightarrow> [])"

definition stored_legacy_id :: "vdict \<Rightarrow> string" where
  "stored_legacy_id raw = normalize_match_text (gets raw ''rule_id'')"

definition expected_legacy_id :: "vdict \<Rightarrow> string" where
  "expected_legacy_id raw = legacy_rule_id (normalize_match_text (gets raw ''match_seller''))
     (normalize_match_text (gets raw ''match_internal_project''))"

definition rule_conflicts :: "nat \<Rightarrow> vdict \<Rightarrow> migration_issue list" where
  "rule_conflicts index raw =
    (let unknown = unknown_fields RULE_FIELDS raw; stored = stored_legacy_id raw; expected = expected_legacy_id raw
     in issue_if (unknown \<noteq> []) (issue ''LEGACY_RULE_UNKNOWN_FIELDS'' M_RULE_UNKNOWN
          [rule_index index, (''fields'', VList (map VStr unknown))])
      @ issue_if (stored = [] \<or> stored \<noteq> expected) (issue ''LEGACY_RULE_ID_MISMATCH'' M_RULE_ID
          [rule_index index, (''stored_rule_id'', VStr stored), (''expected_rule_id'', VStr expected)])
      @ issue_if (\<not> is_dict (get_default raw ''aux_dimensions'' (VDict []))) (issue ''LEGACY_AUX_INVALID'' M_AUX_OBJECT [rule_index index]))"

definition rule_warnings :: "nat \<Rightarrow> vdict \<Rightarrow> migration_issue list" where
  "rule_warnings index raw =
     issue_if (raw_aux raw \<noteq> []) (issue ''LEGACY_AUX_RECONFIRMATION_REQUIRED'' M_AUX_RECONFIRM [rule_index index])"

definition pending_rule :: "vdict \<Rightarrow> account_mapping_rule" where
  "pending_rule raw =
    \<lparr>ru_rule_id = ''pending'', ru_match_seller = normalize_match_text (gets raw ''match_seller''),
     ru_match_source_type = ''purchase_invoice'', ru_match_item = [],
     ru_match_internal_project = normalize_match_text (gets raw ''match_internal_project''),
     ru_effective_from = [], ru_effective_to = [], ru_priority = 0, ru_business_class = [],
     ru_debit_account_code = strip (gets raw ''debit_account_code''),
     ru_debit_account_name = strip (gets raw ''debit_account_name''),
     ru_credit_account_code = strip (gets raw ''credit_account_code''),
     ru_credit_account_name = strip (gets raw ''credit_account_name''),
     ru_tax_account_code = strip (gets raw ''tax_account_code''),
     ru_aux_dimensions = map (\<lambda>p. (fst p, py_str (snd p))) (raw_aux raw),
     ru_activation_state = ''pending_reconfirmation'',
     ru_legacy_rule_ids = [text_or (stored_legacy_id raw) (expected_legacy_id raw)],
     ru_source = gets raw ''source'', ru_confirmed_at = gets raw ''confirmed_at'', ru_confirmed_by = gets raw ''confirmed_by''\<rparr>"

definition migrate_rule ::
  "(exc \<Rightarrow> string) \<Rightarrow> (vdict \<Rightarrow> account_mapping_rule option) \<Rightarrow> nat \<times> pyval
    \<Rightarrow> rule_migration option \<times> migration_issue list \<times> migration_issue list" where
  "migrate_rule msg vrule p =
    (let index = fst p
     in case snd p of
          VDict raw \<Rightarrow>
            (case res_bind (parse_rule vrule (VDict (dump_account_mapping_rule (pending_rule raw)))) normalize_mapping_rule of
               Inl e \<Rightarrow> (None, rule_conflicts index raw @ [issue ''LEGACY_RULE_INVALID'' (msg e) [rule_index index]], rule_warnings index raw)
             | Inr rule \<Rightarrow>
                 (Some \<lparr>rm_legacy_rule_id = text_or (stored_legacy_id raw) (expected_legacy_id raw), rm_target_rule = rule\<rparr>,
                  rule_conflicts index raw, rule_warnings index raw))
        | _ \<Rightarrow> (None, [issue ''LEGACY_RULE_INVALID'' M_RULE_OBJECT [rule_index index]], []))"

section \<open>Preview\<close>

record migration_preview =
  mv_required :: bool
  mv_source_sha256 :: string
  mv_source_revision :: int
  mv_target_rules_version :: string
  mv_preview_hash :: string
  mv_rule_mappings :: "rule_migration list"
  mv_reconfirm :: "string list"
  mv_conflicts :: "migration_issue list"
  mv_warnings :: "migration_issue list"

definition root_conflicts :: "vdict \<Rightarrow> migration_issue list" where
  "root_conflicts payload =
    (let unknown = unknown_fields ROOT_FIELDS payload
     in issue_if (unknown \<noteq> []) (issue ''LEGACY_ROOT_UNKNOWN_FIELDS'' M_ROOT_UNKNOWN [(''fields'', VList (map VStr unknown))]))"

definition legacy_revision :: "vdict \<Rightarrow> int" where
  "legacy_revision payload = (case py_int (get_default payload ''revision'' (VInt 0)) of Inl e \<Rightarrow> -1 | Inr r \<Rightarrow> r)"

definition raw_rules_of :: "vdict \<Rightarrow> pyval list" where
  "raw_rules_of payload = (case get_default payload ''rules'' (VList []) of VList xs \<Rightarrow> xs | _ \<Rightarrow> [])"

definition legacy_ids_at :: "rule_migration list \<Rightarrow> string \<Rightarrow> string list" where
  "legacy_ids_at ms k = map rm_legacy_rule_id (filter (\<lambda>m. ru_rule_id (rm_target_rule m) = k) ms)"

definition collisions :: "rule_migration list \<Rightarrow> migration_issue list" where
  "collisions ms = concat (map (\<lambda>k. issue_if (1 < length (legacy_ids_at ms k))
      (issue ''TARGET_SCOPE_COLLISION'' M_COLLISION
        [(''target_rule_id'', VStr k), (''legacy_rule_ids'', VList (map VStr (legacy_ids_at ms k)))]))
     (sort (dedup (map (\<lambda>m. ru_rule_id (rm_target_rule m)) ms))))"

definition target_version ::
  "(exc \<Rightarrow> string) \<Rightarrow> account_mapping_rule list \<Rightarrow> mapping_store_binding \<Rightarrow> migration_issue list
    \<Rightarrow> string \<times> migration_issue list" where
  "target_version msg target_rules binding conflicts =
    (if list_ex (\<lambda>i. mi_code i = ''TARGET_SCOPE_COLLISION'') conflicts then ([], [])
     else case mapping_rules_version target_rules (Some binding) of
         Inl e \<Rightarrow> ([], [issue ''TARGET_RULES_INVALID'' (msg e) []])
       | Inr v \<Rightarrow> (v, []))"

definition preview_core ::
  "string \<Rightarrow> int \<Rightarrow> string \<Rightarrow> string \<Rightarrow> mapping_store_binding \<Rightarrow> rule_migration list \<Rightarrow> migration_issue list
    \<Rightarrow> migration_issue list \<Rightarrow> vdict" where
  "preview_core source_sha256 revision rules_version target_rules_version binding ms conflicts warnings =
    [(''migration_contract'', VStr MIGRATION_CONTRACT), (''source_schema_version'', VInt 1),
     (''target_schema_version'', VInt MAPPING_VERSION), (''source_sha256'', VStr source_sha256),
     (''source_revision'', VInt (max revision 0)), (''source_rules_version'', VStr rules_version),
     (''target_rules_version'', VStr target_rules_version), (''binding'', VDict (binding_payload binding)),
     (''rule_mappings'', VList (map dump_rule_migration ms)), (''conflicts'', VList (map dump_issue conflicts)),
     (''warnings'', VList (map dump_issue warnings))]"

text \<open>What \<open>_migrate_rule\<close> gives for each legacy rule, and the loop that collects it.\<close>

type_synonym migrated_entry = "rule_migration option \<times> migration_issue list \<times> migration_issue list"

definition migrated_entries ::
  "(exc \<Rightarrow> string) \<Rightarrow> (vdict \<Rightarrow> account_mapping_rule option) \<Rightarrow> vdict \<Rightarrow> migrated_entry list" where
  "migrated_entries msg vrule payload = map (migrate_rule msg vrule) (enumerate 0 (raw_rules_of payload))"

definition rule_mappings_of :: "migrated_entry list \<Rightarrow> rule_migration list" where
  "rule_mappings_of entries = concat (map (\<lambda>r. case fst r of None \<Rightarrow> [] | Some m \<Rightarrow> [m]) entries)"

definition legacy_conflicts :: "vdict \<Rightarrow> migrated_entry list \<Rightarrow> migration_issue list" where
  "legacy_conflicts payload entries = root_conflicts payload
     @ issue_if (legacy_revision payload < 0) (issue ''LEGACY_REVISION_INVALID'' M_REVISION [])
     @ issue_if (\<not> is_list (get_default payload ''rules'' (VList []))) (issue ''LEGACY_RULES_INVALID'' M_RULES_ARRAY [])
     @ concat (map (\<lambda>r. fst (snd r)) entries) @ collisions (rule_mappings_of entries)"

definition legacy_warnings :: "vdict \<Rightarrow> migrated_entry list \<Rightarrow> migration_issue list" where
  "legacy_warnings payload entries = issue_if (\<not> dhas payload ''version'') (issue ''IMPLICIT_V1_SCHEMA'' M_IMPLICIT_V1 [])
     @ concat (map (\<lambda>r. snd (snd r)) entries)"

definition target_rules_of ::
  "(vdict \<Rightarrow> account_mapping_rule option) \<Rightarrow> rule_migration list \<Rightarrow> exc + account_mapping_rule list" where
  "target_rules_of vrule ms =
     res_map (\<lambda>m. parse_rule vrule (VDict (dump_account_mapping_rule (rm_target_rule m)))) ms"

definition preview_v1 ::
  "(exc \<Rightarrow> string) \<Rightarrow> (vdict \<Rightarrow> account_mapping_rule option) \<Rightarrow> string \<Rightarrow> vdict \<Rightarrow> mapping_store_binding
    \<Rightarrow> exc + migration_preview" where
  "preview_v1 msg vrule raw payload binding =
    (let revision = legacy_revision payload;
         entries = migrated_entries msg vrule payload;
         ms = rule_mappings_of entries;
         conflicts = legacy_conflicts payload entries;
         warnings = legacy_warnings payload entries
     in res_bind (target_rules_of vrule ms) (\<lambda>target_rules.
        let target = target_version msg target_rules binding conflicts;
            all_conflicts = conflicts @ snd target
        in Inr \<lparr>mv_required = True, mv_source_sha256 = sha256 raw, mv_source_revision = max revision 0,
             mv_target_rules_version = fst target,
             mv_preview_hash = canonical_sha256 (VDict (preview_core (sha256 raw) revision (gets payload ''rules_version'')
               (fst target) binding ms all_conflicts warnings)),
             mv_rule_mappings = ms, mv_reconfirm = sort (map (\<lambda>m. ru_rule_id (rm_target_rule m)) ms),
             mv_conflicts = all_conflicts, mv_warnings = warnings\<rparr>))"

definition preview_mapping_migration ::
  "(exc \<Rightarrow> string) \<Rightarrow> (vdict \<Rightarrow> account_mapping_rule option) \<Rightarrow> mapping_store_binding \<Rightarrow> store_file \<Rightarrow> exc + migration_preview" where
  "preview_mapping_migration msg vrule binding f =
    res_bind (read_json_bytes f) (\<lambda>(raw, payload).
    res_bind (source_version payload) (\<lambda>version.
    if version = MAPPING_VERSION
    then res_bind (load_mapping vrule f) (\<lambda>store. Inr
      \<lparr>mv_required = False, mv_source_sha256 = sha256 raw, mv_source_revision = ms_revision store,
       mv_target_rules_version = ms_rules_version store, mv_preview_hash = [], mv_rule_mappings = [],
       mv_reconfirm = [], mv_conflicts = [], mv_warnings = []\<rparr>)
    else if version \<noteq> 1 then Inl (ValueError ''cannot migrate from this version'' [])
    else preview_v1 msg vrule raw payload binding))"

section \<open>Application\<close>

record migration_request =
  mr_confirm :: bool
  mr_source_sha256 :: string
  mr_preview_hash :: string
  mr_expected_revision :: int
  mr_confirmed_by :: string
  mr_command_id :: string

definition receipt_key :: "mapping_store_binding \<Rightarrow> migration_request \<Rightarrow> string" where
  "receipt_key binding r = canonical_sha256 (VDict
    [(''source_sha256'', VStr (mr_source_sha256 r)), (''preview_hash'', VStr (mr_preview_hash r)),
     (''expected_revision'', VInt (mr_expected_revision r)), (''binding'', VDict (binding_payload binding)),
     (''confirmed_by'', VStr (strip (mr_confirmed_by r))), (''command_id'', VStr (strip (mr_command_id r)))])"

text \<open>The name of the backup, after the name of the mapping file.\<close>

definition backup_name :: "string \<Rightarrow> string \<Rightarrow> string" where
  "backup_name path_name source_sha256 = path_name @ ''.v1-'' @ take 12 source_sha256 @ ''.bak''"

definition write_exact_backup :: "store_file \<Rightarrow> string \<Rightarrow> store_file \<Rightarrow> exc + store_file" where
  "write_exact_backup f source_sha256 backup =
    (if backup \<noteq> NoFile
     then (if file_sha256 backup \<noteq> source_sha256 then Inl (ValueError ''the backup has other content'' []) else Inr backup)
     else if file_sha256 f \<noteq> source_sha256 then Inl (ValueError ''the backup does not verify'' []) else Inr f)"

record migration_outcome =
  mo_already_applied :: bool
  mo_backup_name :: string
  mo_revision :: int
  mo_rules_version :: string
  mo_receipt :: vdict

definition idempotent_result :: "account_mapping_store \<Rightarrow> string \<Rightarrow> migration_outcome option" where
  "idempotent_result store key =
    (case dget (ms_migration_receipts store) key of
       None \<Rightarrow> None
     | Some receipt \<Rightarrow> Some \<lparr>mo_already_applied = True, mo_backup_name = gets receipt ''backup_file'',
         mo_revision = ms_revision store, mo_rules_version = ms_rules_version store, mo_receipt = receipt\<rparr>)"

definition migration_receipt ::
  "string \<Rightarrow> string \<Rightarrow> mapping_store_binding \<Rightarrow> migration_request \<Rightarrow> int \<Rightarrow> string \<Rightarrow> vdict" where
  "migration_receipt path_name now binding r revision target_rules_version =
    [(''receipt_id'', VStr (receipt_key binding r)), (''migration_contract'', VStr MIGRATION_CONTRACT),
     (''source_schema_version'', VInt 1), (''target_schema_version'', VInt MAPPING_VERSION),
     (''source_sha256'', VStr (mr_source_sha256 r)), (''source_revision'', VInt revision),
     (''preview_hash'', VStr (mr_preview_hash r)), (''target_rules_version'', VStr target_rules_version),
     (''backup_file'', VStr (backup_name path_name (mr_source_sha256 r))),
     (''confirmed_by'', VStr (strip (mr_confirmed_by r))), (''command_id'', VStr (strip (mr_command_id r))),
     (''migrated_at'', VStr now)]"

definition request_checks :: "migration_request \<Rightarrow> exc + unit" where
  "request_checks r =
    (if \<not> mr_confirm r then Inl (ValueError ''confirm=true is required'' [])
     else if strip (mr_confirmed_by r) = [] \<or> strip (mr_command_id r) = []
     then Inl (ValueError ''confirmed_by and command_id are required'' [])
     else if length (uchars (mr_source_sha256 r)) \<noteq> 64 \<or> length (uchars (mr_preview_hash r)) \<noteq> 64
     then Inl (ValueError ''malformed digests'' []) else Inr ())"

definition migrated_mapping ::
  "(vdict \<Rightarrow> account_mapping_rule option) \<Rightarrow> string \<Rightarrow> string \<Rightarrow> mapping_store_binding \<Rightarrow> migration_request
    \<Rightarrow> int \<Rightarrow> migration_preview \<Rightarrow> exc + account_mapping_store \<times> vdict" where
  "migrated_mapping vrule path_name now binding r revision preview =
    res_bind (target_rules_of vrule (mv_rule_mappings preview)) (\<lambda>rules.
    let receipt = migration_receipt path_name now binding r revision (mv_target_rules_version preview)
    in res_bind (mapping_rules_version rules (Some binding)) (\<lambda>v. Inr
      (\<lparr>ms_version = MAPPING_VERSION, ms_revision = revision + 1, ms_updated_at = now, ms_rules_version = v,
        ms_rules = rules, ms_binding = Some binding, ms_migration_receipts = [(receipt_key binding r, receipt)]\<rparr>, receipt)))"

text \<open>The part of \<open>apply_mapping_migration\<close> after the branch for a file of version 2.\<close>

definition apply_v1 ::
  "(exc \<Rightarrow> string) \<Rightarrow> (vdict \<Rightarrow> account_mapping_rule option) \<Rightarrow> string \<Rightarrow> string \<Rightarrow> mapping_store_binding \<Rightarrow> migration_request
    \<Rightarrow> string \<Rightarrow> vdict \<Rightarrow> store_file \<Rightarrow> store_file \<Rightarrow> exc + store_file \<times> store_file \<times> migration_outcome" where
  "apply_v1 msg vrule path_name now binding r raw payload f backup =
    (if sha256 raw \<noteq> mr_source_sha256 r then Inl (ValueError ''the source has changed'' [])
     else res_bind (py_int (get_default payload ''revision'' (VInt 0))) (\<lambda>revision.
      if revision \<noteq> mr_expected_revision r then Inl (RevisionConflict ''mapping'' (mr_expected_revision r) revision)
      else res_bind (preview_mapping_migration msg vrule binding f) (\<lambda>preview.
      if mv_preview_hash preview \<noteq> mr_preview_hash r then Inl (ValueError ''the preview is stale'' [])
      else if mv_conflicts preview \<noteq> [] then Inl (ValueError ''the migration has conflicts'' [])
      else res_bind (write_exact_backup f (mr_source_sha256 r) backup) (\<lambda>b.
      res_bind (migrated_mapping vrule path_name now binding r revision preview) (\<lambda>(store, receipt).
      res_bind (load_mapping vrule (mapping_to_file store)) (\<lambda>verified.
      if ms_rules_version verified \<noteq> ms_rules_version store \<or> ms_binding verified \<noteq> Some binding
      then Inl (RuntimeError ''mapping v2 verification failed'')
      else Inr (mapping_to_file store, b, \<lparr>mo_already_applied = False, mo_backup_name = backup_name path_name (mr_source_sha256 r),
        mo_revision = ms_revision verified, mo_rules_version = ms_rules_version verified, mo_receipt = receipt\<rparr>)))))))"

definition apply_mapping_migration ::
  "(exc \<Rightarrow> string) \<Rightarrow> (vdict \<Rightarrow> account_mapping_rule option) \<Rightarrow> string \<Rightarrow> string \<Rightarrow> mapping_store_binding \<Rightarrow> migration_request
    \<Rightarrow> store_file \<Rightarrow> store_file \<Rightarrow> exc + store_file \<times> store_file \<times> migration_outcome" where
  "apply_mapping_migration msg vrule path_name now binding r f backup =
    res_bind (request_checks r) (\<lambda>_.
    res_bind (read_json_bytes f) (\<lambda>(raw, payload).
    res_bind (source_version payload) (\<lambda>version.
    if version = MAPPING_VERSION
    then res_bind (load_mapping vrule f) (\<lambda>store.
      case idempotent_result store (receipt_key binding r) of
        Some result \<Rightarrow> Inr (f, backup, result)
      | None \<Rightarrow> Inl (ValueError ''the mapping is not the previewed source'' []))
    else apply_v1 msg vrule path_name now binding r raw payload f backup)))"

end
