(* ===== verification/Migration_Replay.thy ===== *)
theory Migration_Replay
  imports Mapping_Migration
begin

text \<open>
  What \<open>apply_mapping_migration\<close> does with a mapping of version 1, and with a request that comes twice.
  Validating the dump of a rule is taken to fail or to give the rule back, as pydantic documents for
  \<open>model_validate\<close> after \<open>model_dump\<close>.
\<close>

section \<open>A migrated rule\<close>

lemma migrate_rule_clean:
  assumes "migrate_rule msg vrule (i, v) = (om, [], ws)"
    and dumps: "\<And>r r'. vrule (dump_account_mapping_rule r) = Some r' \<Longrightarrow> r' = r"
  shows "\<exists>d r. v = VDict d \<and> normalized_rule (pending_rule d) = Inr r \<and> stored_legacy_id d = expected_legacy_id d
    \<and> om = Some \<lparr>rm_legacy_rule_id = stored_legacy_id d, rm_target_rule = r\<rparr>"
proof (cases v)
  case (VDict d)
  let ?p = "parse_rule vrule (VDict (dump_account_mapping_rule (pending_rule d)))"
  from assms(1) VDict obtain r where r: "res_bind ?p normalize_mapping_rule = Inr r"
    and om: "om = Some \<lparr>rm_legacy_rule_id = text_or (stored_legacy_id d) (expected_legacy_id d), rm_target_rule = r\<rparr>"
    and none: "rule_conflicts i d = []"
    by (auto simp: migrate_rule_def Let_def split: sum.splits)
  have "?p = Inr (pending_rule d)"
    using r dumps [of "pending_rule d"] by (auto simp: res_bind_eq_Inr split: option.splits)
  then have n: "normalized_rule (pending_rule d) = Inr r" using r by (simp add: normalize_mapping_rule_def)
  have ids: "stored_legacy_id d \<noteq> []" "stored_legacy_id d = expected_legacy_id d"
    using none by (auto simp: rule_conflicts_def Let_def issue_if_def split: if_splits)
  then have "text_or (stored_legacy_id d) (expected_legacy_id d) = stored_legacy_id d" by (simp add: text_or_def)
  with VDict n ids om show ?thesis by auto
qed (use assms(1) in \<open>auto simp: migrate_rule_def\<close>)

lemma normalized_pending:
  assumes "normalized_rule (pending_rule d) = Inr r"
  shows "ru_activation_state r = ''pending_reconfirmation''
    \<and> ru_debit_account_code r = strip (gets d ''debit_account_code'')
    \<and> ru_credit_account_code r = strip (gets d ''credit_account_code'')
    \<and> ru_tax_account_code r = strip (gets d ''tax_account_code'')
    \<and> ru_match_seller r = normalize_match_text (gets d ''match_seller'')
    \<and> ru_match_internal_project r = normalize_match_text (gets d ''match_internal_project'')
    \<and> ru_legacy_rule_ids r = [text_or (stored_legacy_id d) (expected_legacy_id d)]
    \<and> ru_source r = gets d ''source'' \<and> rule_normal r"
  using normalized_rule_Inr [OF assms] normalized_rule_normal [OF assms]
  by (auto simp: with_scope_def pending_rule_def)

text \<open>The stored rule \<open>r\<close> is the migration of the legacy rule \<open>v\<close>.\<close>

definition migrated_rule :: "pyval \<Rightarrow> account_mapping_rule \<Rightarrow> bool" where
  "migrated_rule v r \<longleftrightarrow> (case v of
     VDict d \<Rightarrow> ru_legacy_rule_ids r = [normalize_match_text (gets d ''rule_id'')]
       \<and> ru_match_seller r = normalize_match_text (gets d ''match_seller'')
       \<and> ru_match_internal_project r = normalize_match_text (gets d ''match_internal_project'')
       \<and> ru_debit_account_code r = strip (gets d ''debit_account_code'')
       \<and> ru_credit_account_code r = strip (gets d ''credit_account_code'')
       \<and> ru_tax_account_code r = strip (gets d ''tax_account_code'')
       \<and> ru_source r = gets d ''source'' \<and> ru_activation_state r = ''pending_reconfirmation''
   | _ \<Rightarrow> False)"

lemma migrated_rule_pending: "migrated_rule v r \<Longrightarrow> ru_activation_state r = ''pending_reconfirmation''"
  by (cases v) (simp_all add: migrated_rule_def)

lemma migrated_rule_clean:
  assumes "migrate_rule msg vrule (i, v) = (om, [], ws)"
    and "\<And>r r'. vrule (dump_account_mapping_rule r) = Some r' \<Longrightarrow> r' = r"
  shows "\<exists>m. om = Some m \<and> migrated_rule v (rm_target_rule m) \<and> rule_normal (rm_target_rule m)"
proof -
  obtain d r where v: "v = VDict d" and n: "normalized_rule (pending_rule d) = Inr r"
    and ids: "stored_legacy_id d = expected_legacy_id d"
    and om: "om = Some \<lparr>rm_legacy_rule_id = stored_legacy_id d, rm_target_rule = r\<rparr>"
    using migrate_rule_clean [OF assms] by blast
  have "ru_legacy_rule_ids r = [stored_legacy_id d]"
    using normalized_pending [OF n] ids by (simp add: text_or_def)
  then show ?thesis
    using normalized_pending [OF n] by (simp add: om v migrated_rule_def stored_legacy_id_def)
qed

lemma targets_back:
  assumes "target_rules_of vrule ms = Inr rules"
    and "\<And>r r'. vrule (dump_account_mapping_rule r) = Some r' \<Longrightarrow> r' = r"
  shows "rules = map rm_target_rule ms \<and> (\<forall>r\<in>set rules. vrule (dump_account_mapping_rule r) = Some r)"
  using assms(1)
proof (induction ms arbitrary: rules)
  case (Cons m ms)
  then obtain r rs where r: "vrule (dump_account_mapping_rule (rm_target_rule m)) = Some r"
    and "target_rules_of vrule ms = Inr rs" "rules = r # rs"
    by (auto simp: target_rules_of_def res_bind_eq_Inr split: option.splits)
  with assms(2) [OF r] Cons.IH [of rs] show ?case by simp
qed (simp add: target_rules_of_def)

lemma concat_Nil_iff: "concat (map f xs) = [] \<longleftrightarrow> (\<forall>x\<in>set xs. f x = [])"
  by (induction xs) auto

lemma preview_clean:
  assumes "preview_v1 msg vrule raw payload b = Inr p" and "mv_conflicts p = []"
    and dumps: "\<And>r r'. vrule (dump_account_mapping_rule r) = Some r' \<Longrightarrow> r' = r"
  shows "0 \<le> legacy_revision payload
    \<and> list_all2 (\<lambda>v r. migrated_rule v r \<and> rule_normal r) (raw_rules_of payload) (map rm_target_rule (mv_rule_mappings p))
    \<and> mapping_rules_version (map rm_target_rule (mv_rule_mappings p)) (Some b) = Inr (mv_target_rules_version p)"
proof -
  let ?raw = "raw_rules_of payload" and ?es = "migrated_entries msg vrule payload"
  let ?ms = "rule_mappings_of ?es" and ?cs = "legacy_conflicts payload ?es"
  obtain target where target: "target_rules_of vrule ?ms = Inr target"
    and p: "mv_rule_mappings p = ?ms" "mv_target_rules_version p = fst (target_version msg target b ?cs)"
      "?cs @ snd (target_version msg target b ?cs) = []"
    using assms(1,2) unfolding preview_v1_def Let_def by (auto simp: res_bind_eq_Inr)
  have nil: "?cs = []" "snd (target_version msg target b ?cs) = []" using p(3) by auto
  have t: "target = map rm_target_rule ?ms" using targets_back [OF target dumps] by blast
  have rev: "0 \<le> legacy_revision payload"
    using nil(1) by (auto simp: legacy_conflicts_def issue_if_def split: if_splits)
  let ?m = "\<lambda>i. migrate_rule msg vrule (i, ?raw ! i)"
  have each: "\<exists>m. fst (?m i) = Some m \<and> migrated_rule (?raw ! i) (rm_target_rule m) \<and> rule_normal (rm_target_rule m)"
    if "i < length ?raw" for i
  proof -
    have "?m i \<in> set ?es"
      using that unfolding migrated_entries_def set_map
      by (intro imageI) (auto simp: in_set_conv_nth nth_enumerate_eq intro!: exI [of _ i])
    then have "fst (snd (?m i)) = []"
      using nil(1) by (auto simp: legacy_conflicts_def concat_Nil_iff)
    then obtain om ws where "?m i = (om, [], ws)" by (metis prod.collapse)
    from migrated_rule_clean [OF this dumps] this show ?thesis by auto
  qed
  let ?g = "\<lambda>r. the (fst (migrate_rule msg vrule r))"
  have ms: "?ms = map ?g (enumerate 0 ?raw)"
    unfolding rule_mappings_of_def migrated_entries_def map_map comp_def
  proof (rule concat_map_single)
    fix q assume "q \<in> set (enumerate 0 ?raw)"
    then obtain i where "q = (i, ?raw ! i)" "i < length ?raw"
      by (auto simp: in_set_conv_nth nth_enumerate_eq)
    then show "(case fst (migrate_rule msg vrule q) of None \<Rightarrow> [] | Some m \<Rightarrow> [m]) = [?g q]"
      using each by fastforce
  qed
  have "list_all2 (\<lambda>v r. migrated_rule v r \<and> rule_normal r) ?raw (map rm_target_rule ?ms)"
    using each by (fastforce simp: list_all2_conv_all_nth ms nth_enumerate_eq)
  moreover have "mapping_rules_version target (Some b) = Inr (fst (target_version msg target b ?cs))"
    using nil by (auto simp: target_version_def split: sum.splits)
  ultimately show ?thesis using rev by (simp add: p t)
qed

section \<open>Applying and repeating\<close>

lemma source_version_mapping [simp]: "source_version (mapping_payload s) = Inr (ms_version s)"
  by (simp add: source_version_def mapping_payload_def get_default_def)

lemma read_mapping_file: "\<exists>raw. mapping_to_file s = File raw (Some (VDict (mapping_payload s)))
    \<and> read_json_bytes (mapping_to_file s) = Inr (raw, mapping_payload s)"
  by (simp add: mapping_to_file_def atomic_write_json_durable_def)

lemma read_json_bytes_Inr: "read_json_bytes f = Inr (raw, d) \<Longrightarrow> f = File raw (Some (VDict d))"
  by (cases f rule: read_json_bytes.cases) auto

lemma apply_v1_Inr:
  assumes "apply_v1 msg vrule name now b r raw payload f backup = Inr (f', b', out)"
    and "source_version payload = Inr version" "version \<noteq> MAPPING_VERSION" "read_json_bytes f = Inr (raw, payload)"
  obtains preview store receipt verified where "version = 1" "sha256 raw = mr_source_sha256 r"
      "py_int (get_default payload ''revision'' (VInt 0)) = Inr (mr_expected_revision r)"
      "preview_v1 msg vrule raw payload b = Inr preview" "mv_preview_hash preview = mr_preview_hash r"
      "mv_conflicts preview = []" "write_exact_backup f (mr_source_sha256 r) backup = Inr b'"
      "migrated_mapping vrule name now b r (mr_expected_revision r) preview = Inr (store, receipt)"
      "f' = mapping_to_file store" "load_mapping vrule f' = Inr verified"
      "out = \<lparr>mo_already_applied = False, mo_backup_name = backup_name name (mr_source_sha256 r),
         mo_revision = ms_revision verified, mo_rules_version = ms_rules_version verified, mo_receipt = receipt\<rparr>"
proof -
  have p: "preview_mapping_migration msg vrule b f =
      (if version = 1 then preview_v1 msg vrule raw payload b else Inl (ValueError ''cannot migrate from this version'' []))"
    using assms(2-4) by (simp add: preview_mapping_migration_def)
  show ?thesis
    using assms(1) that unfolding apply_v1_def p by (auto simp: res_bind_eq_Inr split: if_splits)
qed

text \<open>A successful application is a replay or a migration.\<close>

lemma apply_Inr:
  assumes "apply_mapping_migration msg vrule name now b r f backup = Inr (f', b', out)"
  obtains raw payload version where "request_checks r = Inr ()" "read_json_bytes f = Inr (raw, payload)"
    "source_version payload = Inr version"
    "if version = MAPPING_VERSION
     then f' = f \<and> b' = backup \<and> (\<exists>store. load_mapping vrule f = Inr store \<and> idempotent_result store (receipt_key b r) = Some out)
     else apply_v1 msg vrule name now b r raw payload f backup = Inr (f', b', out)"
proof -
  note a = assms [unfolded apply_mapping_migration_def]
  obtain raw payload where c: "request_checks r = Inr ()" and rd: "read_json_bytes f = Inr (raw, payload)"
    using a by (cases "request_checks r"; cases "read_json_bytes f") auto
  obtain version where sv: "source_version payload = Inr version"
    using a c rd by (cases "source_version payload") auto
  show ?thesis
    by (rule that [OF c rd sv]) (use a c rd sv in \<open>auto simp: res_bind_eq_Inr split: option.splits\<close>)
qed

lemma migrated_mapping_ok:
  assumes "migrated_mapping vrule name now b r revision preview = Inr (store, receipt)"
    and "check_binding b = Inr b" and "0 \<le> revision"
    and "list_all rule_normal (map rm_target_rule (mv_rule_mappings preview))"
    and dumps: "\<And>r r'. vrule (dump_account_mapping_rule r) = Some r' \<Longrightarrow> r' = r"
  shows "ms_rules store = map rm_target_rule (mv_rule_mappings preview) \<and> mapping_ok store
    \<and> ms_revision store = revision + 1 \<and> ms_binding store = Some b
    \<and> ms_migration_receipts store = [(receipt_key b r, receipt)]
    \<and> receipt = migration_receipt name now b r revision (mv_target_rules_version preview)
    \<and> load_mapping vrule (mapping_to_file store) = Inr store"
proof -
  let ?rs = "map rm_target_rule (mv_rule_mappings preview)"
  obtain rules v where rules: "target_rules_of vrule (mv_rule_mappings preview) = Inr rules"
    and v: "mapping_rules_version rules (Some b) = Inr v"
    and s: "store = \<lparr>ms_version = MAPPING_VERSION, ms_revision = revision + 1, ms_updated_at = now, ms_rules_version = v,
        ms_rules = rules, ms_binding = Some b, ms_migration_receipts = [(receipt_key b r, receipt)]\<rparr>"
    and receipt: "receipt = migration_receipt name now b r revision (mv_target_rules_version preview)"
    using assms(1) by (auto simp: migrated_mapping_def Let_def res_bind_eq_Inr)
  note tb = targets_back [OF rules dumps]
  have "normalized_rules rules = Inr rules"
    using v assms(4) tb by (auto simp: mapping_rules_version_def res_bind_eq_Inr normalized_rules_def res_map_normal split: if_splits)
  then have ok: "mapping_ok store" using v assms(2,3) by (simp add: mapping_ok_def s binding_ok_def)
  have "load_mapping vrule (mapping_to_file store) = Inr store"
    by (rule load_mapping_written [OF ok]) (use tb s in simp)
  then show ?thesis using ok tb receipt by (simp add: s)
qed

text \<open>The store after a migration.\<close>

lemma fresh_migration:
  assumes "apply_mapping_migration msg vrule name now b r f backup = Inr (f', b', out)"
    and "\<not> mo_already_applied out" and b: "check_binding b = Inr b"
    and dumps: "\<And>r r'. vrule (dump_account_mapping_rule r) = Some r' \<Longrightarrow> r' = r"
  obtains raw payload store version where "f = File raw (Some (VDict payload))"
    "sha256 raw = mr_source_sha256 r" "write_exact_backup f (mr_source_sha256 r) backup = Inr b'"
    "f' = mapping_to_file store" "load_mapping vrule f' = Inr store" "mapping_ok store"
    "ms_revision store = mr_expected_revision r + 1" "ms_binding store = Some b"
    "list_all2 (\<lambda>v r. migrated_rule v r \<and> rule_normal r) (raw_rules_of payload) (ms_rules store)"
    "ms_migration_receipts store = [(receipt_key b r, migration_receipt name now b r (mr_expected_revision r) version)]"
    "out = \<lparr>mo_already_applied = False, mo_backup_name = backup_name name (mr_source_sha256 r),
       mo_revision = ms_revision store, mo_rules_version = ms_rules_version store,
       mo_receipt = migration_receipt name now b r (mr_expected_revision r) version\<rparr>"
    "request_checks r = Inr ()"
proof -
  obtain raw payload version where c: "request_checks r = Inr ()" and rd: "read_json_bytes f = Inr (raw, payload)"
    and sv: "source_version payload = Inr version"
    and rest: "if version = MAPPING_VERSION
      then f' = f \<and> b' = backup \<and> (\<exists>store. load_mapping vrule f = Inr store \<and> idempotent_result store (receipt_key b r) = Some out)
      else apply_v1 msg vrule name now b r raw payload f backup = Inr (f', b', out)"
    using assms(1) by (rule apply_Inr)
  have v: "version \<noteq> MAPPING_VERSION"
    using rest assms(2) by (auto simp: idempotent_result_def split: option.splits)
  with rest have a: "apply_v1 msg vrule name now b r raw payload f backup = Inr (f', b', out)" by simp
  obtain preview store receipt verified where sha: "sha256 raw = mr_source_sha256 r"
    and rev: "py_int (get_default payload ''revision'' (VInt 0)) = Inr (mr_expected_revision r)"
    and pv: "preview_v1 msg vrule raw payload b = Inr preview" "mv_conflicts preview = []"
    and bk: "write_exact_backup f (mr_source_sha256 r) backup = Inr b'"
    and mg: "migrated_mapping vrule name now b r (mr_expected_revision r) preview = Inr (store, receipt)"
    and f': "f' = mapping_to_file store" and ld: "load_mapping vrule f' = Inr verified"
    and out: "out = \<lparr>mo_already_applied = False, mo_backup_name = backup_name name (mr_source_sha256 r),
         mo_revision = ms_revision verified, mo_rules_version = ms_rules_version verified, mo_receipt = receipt\<rparr>"
    by (rule apply_v1_Inr [OF a sv v rd])
  note clean = preview_clean [OF pv dumps]
  have nn: "0 \<le> mr_expected_revision r" using clean rev by (simp add: legacy_revision_def)
  have rn: "list_all rule_normal (map rm_target_rule (mv_rule_mappings preview))"
    using clean by (auto simp: list_all2_conv_all_nth list_all_length)
  note m = migrated_mapping_ok [OF mg b nn rn dumps]
  have vs: "verified = store" using m ld f' by simp
  show ?thesis
    by (rule that [OF read_json_bytes_Inr [OF rd] sha bk f'])
      (use m clean out ld c in \<open>auto simp: vs\<close>)
qed

lemma pending_rules_match_nothing:
  assumes "list_all2 (\<lambda>v r. migrated_rule v r \<and> rule_normal r) raw rules"
    and "normalized_iso_date (mc_effective_date c) ''effective_date'' = Inr day"
  shows "match_rules rules c = Inr None"
proof -
  have n: "list_all rule_normal rules"
    using assms(1) by (auto simp: list_all2_conv_all_nth list_all_length)
  have "ru_activation_state r = ''pending_reconfirmation''" if "r \<in> set rules" for r
    using assms(1) that by (auto simp: list_all2_conv_all_nth in_set_conv_nth migrated_rule_pending)
  then have "filter (applies c day) rules = []"
    by (auto simp: applies_def filter_empty_conv)
  then show ?thesis
    using match_rules_select [OF n assms(2)] by (simp add: select_rule_def)
qed

lemma backup_verified:
  "write_exact_backup f h backup = Inr b' \<Longrightarrow> file_sha256 b' = h \<and> (backup = NoFile \<longrightarrow> b' = f) \<and> (backup \<noteq> NoFile \<longrightarrow> b' = backup)"
  by (auto simp: write_exact_backup_def split: if_splits)

lemma apply_migrated:
  assumes "load_mapping vrule (mapping_to_file store) = Inr store" and "mapping_ok store"
  shows "apply_mapping_migration msg vrule name now b r (mapping_to_file store) backup
    = res_bind (request_checks r) (\<lambda>_. case idempotent_result store (receipt_key b r) of
        Some result \<Rightarrow> Inr (mapping_to_file store, backup, result)
      | None \<Rightarrow> Inl (ValueError ''the mapping is not the previewed source'' []))"
proof -
  obtain raw where "read_json_bytes (mapping_to_file store) = Inr (raw, mapping_payload store)"
    using read_mapping_file by blast
  moreover have "ms_version store = MAPPING_VERSION" using assms(2) by (simp add: mapping_ok_def)
  ultimately show ?thesis using assms(1) by (simp add: apply_mapping_migration_def)
qed

lemma receipt_result:
  assumes "ms_migration_receipts store = [(k, migration_receipt name now b r n v)]"
  shows "idempotent_result store k = Some \<lparr>mo_already_applied = True, mo_backup_name = backup_name name (mr_source_sha256 r),
      mo_revision = ms_revision store, mo_rules_version = ms_rules_version store,
      mo_receipt = migration_receipt name now b r n v\<rparr>"
    and "k' \<noteq> k \<Longrightarrow> idempotent_result store k' = None"
  using assms by (simp_all add: idempotent_result_def migration_receipt_def gets_or_def get_val_def backup_name_def)

section \<open>A sample\<close>

definition legacy_rule :: vdict where
  "legacy_rule = [(''rule_id'', VStr (legacy_rule_id ''a'' [])), (''match_seller'', VStr ''a''),
     (''debit_account_code'', VStr ''1405''), (''credit_account_code'', VStr ''2202''), (''source'', VStr ''manual'')]"

definition legacy_file :: store_file where
  "legacy_file = File ''legacy'' (Some (VDict [(''version'', VInt 1), (''revision'', VInt 3), (''rules'', VList [VDict legacy_rule])]))"

text \<open>A validator that knows the two rules of the sample.\<close>

definition legacy_target :: account_mapping_rule where
  "legacy_target = with_scope (pending_rule legacy_rule) [] []"

definition legacy_vrule :: "vdict \<Rightarrow> account_mapping_rule option" where
  "legacy_vrule d = find (\<lambda>r. dump_account_mapping_rule r = d) [pending_rule legacy_rule, legacy_target]"

definition legacy_binding :: mapping_store_binding where
  "legacy_binding = \<lparr>bd_company_id = ''c'', bd_ledger_environment = ''test'', bd_ledger_identity_sha256 = sha256 [],
     bd_ledger_profile_sha256 = sha256 [], bd_account_table_sha256 = sha256 [], bd_aux_catalog_sha256 = sha256 []\<rparr>"

definition legacy_request :: migration_request where
  "legacy_request = \<lparr>mr_confirm = True, mr_source_sha256 = sha256 ''legacy'',
     mr_preview_hash = (case preview_mapping_migration (\<lambda>_. []) legacy_vrule legacy_binding legacy_file of
        Inl e \<Rightarrow> [] | Inr p \<Rightarrow> mv_preview_hash p),
     mr_expected_revision = 3, mr_confirmed_by = ''ann'', mr_command_id = ''m-1''\<rparr>"

lemma dump_rule_inj: "dump_account_mapping_rule r = dump_account_mapping_rule q \<Longrightarrow> r = q"
proof -
  have "map (\<lambda>p. (fst p, VStr (snd p))) a = map (\<lambda>p. (fst p, VStr (snd p))) b \<Longrightarrow> a = b" for a b :: "string dict"
    by (rule map_injective) (auto simp: inj_def)
  moreover have "map VStr a = map VStr b \<Longrightarrow> a = b" for a b
    by (rule map_injective) (auto simp: inj_def)
  ultimately show "dump_account_mapping_rule r = dump_account_mapping_rule q \<Longrightarrow> r = q"
    by (cases r; cases q) (simp add: dump_account_mapping_rule_def text_items_def)
qed

lemma legacy_vrule_dumps: "legacy_vrule (dump_account_mapping_rule r) = Some r' \<Longrightarrow> r' = r"
  by (auto simp: legacy_vrule_def dump_rule_inj split: if_splits)

lemma legacy_vrule_known:
  "legacy_vrule (dump_account_mapping_rule (pending_rule legacy_rule)) = Some (pending_rule legacy_rule)"
  "legacy_vrule (dump_account_mapping_rule legacy_target) = Some legacy_target"
  by (auto simp: legacy_vrule_def dest: dump_rule_inj)

lemma legacy_id: "stored_legacy_id legacy_rule = expected_legacy_id legacy_rule" "stored_legacy_id legacy_rule \<noteq> []"
proof -
  have "solid t" if "list_all is_hex_digit t" for t
    using that by (auto simp: solid_def list_all_iff is_hex_digit_def is_digit_def)
  moreover have "list_all is_hex_digit (sha1 x)" for x
    using word_hex_digits by (auto simp: sha1_def list_all_iff)
  ultimately have "solid (sha1 x)" for x by blast
  then have s: "stored_legacy_id legacy_rule = legacy_rule_id ''a'' []"
    by (simp add: stored_legacy_id_def legacy_rule_def gets_or_def get_val_def legacy_rule_id_def normalize_solid)
  show "stored_legacy_id legacy_rule \<noteq> []" by (simp add: s legacy_rule_id_def)
  show "stored_legacy_id legacy_rule = expected_legacy_id legacy_rule"
    unfolding s by (simp add: expected_legacy_id_def legacy_rule_def gets_or_def get_val_def legacy_rule_id_def)
qed

lemma legacy_target_normal: "normalized_rule (pending_rule legacy_rule) = Inr legacy_target"
  by (simp add: normalized_rule_def normalized_iso_date_def legacy_target_def with_scope_def pending_rule_def Let_def)

lemma legacy_migrate: "migrate_rule msg legacy_vrule (i, VDict legacy_rule)
    = (Some \<lparr>rm_legacy_rule_id = stored_legacy_id legacy_rule, rm_target_rule = legacy_target\<rparr>, [], [])"
proof -
  have "rule_conflicts i legacy_rule = []"
    using legacy_id
    by (simp add: rule_conflicts_def unknown_fields_def issue_if_def)
      (simp add: legacy_rule_def RULE_FIELDS_def get_default_def dedup_def)
  moreover have "rule_warnings i legacy_rule = []"
    by (simp add: rule_warnings_def issue_if_def raw_aux_def legacy_rule_def get_default_def)
  ultimately show ?thesis
    using legacy_id by (simp add: migrate_rule_def legacy_vrule_known normalize_mapping_rule_def legacy_target_normal text_or_def)
qed

lemma legacy_normalized: "normalized_rules [legacy_target] = Inr [legacy_target]"
  using normalized_rule_normal [OF legacy_target_normal] by (simp add: normalized_rules_def rule_normal_def)

definition legacy_payload :: vdict where
  "legacy_payload = [(''version'', VInt 1), (''revision'', VInt 3), (''rules'', VList [VDict legacy_rule])]"

lemma legacy_entries: "migrated_entries msg legacy_vrule legacy_payload
    = [(Some \<lparr>rm_legacy_rule_id = stored_legacy_id legacy_rule, rm_target_rule = legacy_target\<rparr>, [], [])]"
  by (simp add: migrated_entries_def raw_rules_of_def get_default_def legacy_migrate legacy_payload_def)

lemma legacy_preview: "\<exists>p. preview_v1 msg legacy_vrule raw legacy_payload legacy_binding = Inr p \<and> mv_conflicts p = []
    \<and> is_sha256_text (mv_preview_hash p)
    \<and> mv_rule_mappings p = [\<lparr>rm_legacy_rule_id = stored_legacy_id legacy_rule, rm_target_rule = legacy_target\<rparr>]"
proof -
  let ?m = "\<lparr>rm_legacy_rule_id = stored_legacy_id legacy_rule, rm_target_rule = legacy_target\<rparr>"
  have ms: "rule_mappings_of (migrated_entries msg legacy_vrule legacy_payload) = [?m]"
    by (simp add: legacy_entries rule_mappings_of_def)
  have col: "collisions [?m] = []"
    by (simp add: collisions_def legacy_ids_at_def dedup_def add_new_def issue_if_def)
  have cs: "legacy_conflicts legacy_payload (migrated_entries msg legacy_vrule legacy_payload) = []"
    unfolding legacy_conflicts_def ms col unfolding legacy_entries root_conflicts_def unknown_fields_def
    by (simp add: issue_if_def)
      (simp add: legacy_payload_def ROOT_FIELDS_def legacy_revision_def get_default_def dedup_def)
  obtain v where v: "mapping_rules_version [legacy_target] (Some legacy_binding) = Inr v"
    using rules_version_total [OF legacy_normalized] by blast
  have "target_rules_of legacy_vrule [?m] = Inr [legacy_target]"
    by (simp add: target_rules_of_def legacy_vrule_known)
  moreover have "target_version msg [legacy_target] legacy_binding [] = (v, [])"
    by (simp add: target_version_def v)
  ultimately show ?thesis by (simp add: preview_v1_def Let_def ms cs)
qed

lemma legacy_actor: "mr_confirm legacy_request" "strip (mr_confirmed_by legacy_request) \<noteq> []"
    "strip (mr_command_id legacy_request) \<noteq> []"
  by (simp_all add: legacy_request_def) code_simp+

lemma legacy_binding_ok: "check_binding legacy_binding = Inr legacy_binding"
proof -
  have "strip ''c'' \<noteq> []" by code_simp
  then show ?thesis by (simp add: check_binding_def legacy_binding_def)
qed

lemma legacy_apply: "\<exists>f' b' out. apply_mapping_migration (\<lambda>_. []) legacy_vrule ''m.json'' ''t'' legacy_binding legacy_request
      legacy_file NoFile = Inr (f', b', out) \<and> \<not> mo_already_applied out"
proof -
  let ?m = "\<lparr>rm_legacy_rule_id = stored_legacy_id legacy_rule, rm_target_rule = legacy_target\<rparr>"
  obtain p where p: "preview_v1 (\<lambda>_. []) legacy_vrule ''legacy'' legacy_payload legacy_binding = Inr p" "mv_conflicts p = []"
    "is_sha256_text (mv_preview_hash p)" "mv_rule_mappings p = [?m]"
    using legacy_preview by blast
  have f: "legacy_file = File ''legacy'' (Some (VDict legacy_payload))" by (simp add: legacy_file_def legacy_payload_def)
  have sv: "source_version legacy_payload = Inr 1" by (simp add: source_version_def legacy_payload_def get_default_def)
  have pm: "preview_mapping_migration (\<lambda>_. []) legacy_vrule legacy_binding legacy_file = Inr p"
    using p(1) by (simp add: preview_mapping_migration_def f sv MAPPING_VERSION_def)
  have h: "mr_preview_hash legacy_request = mv_preview_hash p"
    by (simp add: legacy_request_def pm)
  have c: "request_checks legacy_request = Inr ()"
    using p(3) sha256_text [of "''legacy''", unfolded is_sha256_text_def ulen_def] legacy_actor
    by (simp add: request_checks_def h) (simp add: legacy_request_def is_sha256_text_def ulen_def)
  obtain v where v: "mapping_rules_version [legacy_target] (Some legacy_binding) = Inr v"
    using rules_version_total [OF legacy_normalized] by blast
  obtain store receipt where mg: "migrated_mapping legacy_vrule ''m.json'' ''t'' legacy_binding legacy_request 3 p = Inr (store, receipt)"
    by (simp add: migrated_mapping_def p(4) target_rules_of_def legacy_vrule_known v Let_def)
  have "load_mapping legacy_vrule (mapping_to_file store) = Inr store" "ms_binding store = Some legacy_binding"
    using migrated_mapping_ok [OF mg legacy_binding_ok _ _ legacy_vrule_dumps] normalized_rule_normal [OF legacy_target_normal] by (simp_all add: p(4))
  moreover have rq: "mr_source_sha256 legacy_request = sha256 ''legacy''" "mr_expected_revision legacy_request = 3"
      "py_int (get_default legacy_payload ''revision'' (VInt 0)) = Inr 3"
    by (simp_all add: legacy_request_def legacy_payload_def get_default_def)
  ultimately show ?thesis
    using sv p(2) mg pm
    by (simp add: apply_mapping_migration_def c MAPPING_VERSION_def f apply_v1_def h write_exact_backup_def rq)
qed

section \<open>Properties\<close>

text \<open>C34: A migration that succeeds was made from the file whose digest the request names; a backup with
  that digest exists; the store it leaves is valid, bound to the ledger, one revision further, and holds
  one rule per legacy rule, in order, with its accounts, scope and origin. None of them is active: until
  a rule is confirmed again, no invoice line matches one.\<close>

theorem migration_awaits_confirmation:
  assumes "apply_mapping_migration msg vrule name now b r f backup = Inr (f', b', out)"
    and "\<not> mo_already_applied out" and "check_binding b = Inr b"
    and "\<And>r r'. vrule (dump_account_mapping_rule r) = Some r' \<Longrightarrow> r' = r"
  shows "\<exists>raw payload store. f = File raw (Some (VDict payload))
    \<and> file_sha256 f = mr_source_sha256 r \<and> file_sha256 b' = mr_source_sha256 r \<and> (backup = NoFile \<longrightarrow> b' = f)
    \<and> load_mapping vrule f' = Inr store \<and> mapping_ok store \<and> ms_binding store = Some b
    \<and> ms_revision store = mr_expected_revision r + 1
    \<and> list_all2 migrated_rule (raw_rules_of payload) (ms_rules store)
    \<and> (\<forall>c day. normalized_iso_date (mc_effective_date c) ''effective_date'' = Inr day
         \<longrightarrow> match_rules (ms_rules store) c = Inr None)"
proof -
  obtain raw payload store where f: "f = File raw (Some (VDict payload))" "sha256 raw = mr_source_sha256 r"
    and bk: "write_exact_backup f (mr_source_sha256 r) backup = Inr b'"
    and st: "load_mapping vrule f' = Inr store" "mapping_ok store" "ms_revision store = mr_expected_revision r + 1"
      "ms_binding store = Some b"
    and rules: "list_all2 (\<lambda>v r. migrated_rule v r \<and> rule_normal r) (raw_rules_of payload) (ms_rules store)"
    by (rule fresh_migration [OF assms])
  have "list_all2 migrated_rule (raw_rules_of payload) (ms_rules store)"
    using rules by (rule list_all2_mono) simp
  then show ?thesis
    using f backup_verified [OF bk] st pending_rules_match_nothing [OF rules]
    by (intro exI [of _ raw] exI [of _ payload] exI [of _ store]) auto
qed

theorem migration_awaits_confirmation_witness:
  "\<exists>f' b' out store. apply_mapping_migration (\<lambda>_. []) legacy_vrule ''m.json'' ''t'' legacy_binding legacy_request
      legacy_file NoFile = Inr (f', b', out) \<and> load_mapping legacy_vrule f' = Inr store
    \<and> ms_revision store = 4 \<and> length (ms_rules store) = 1 \<and> match_rules (ms_rules store) sample_context = Inr None"
proof -
  obtain f' b' out where a: "apply_mapping_migration (\<lambda>_. []) legacy_vrule ''m.json'' ''t'' legacy_binding legacy_request
      legacy_file NoFile = Inr (f', b', out)" "\<not> mo_already_applied out"
    using legacy_apply by blast
  show ?thesis
    using migration_awaits_confirmation [OF a legacy_binding_ok legacy_vrule_dumps] a sample_date
    by (fastforce simp: legacy_file_def raw_rules_of_def get_default_def legacy_request_def dest: list_all2_lengthD)
qed

text \<open>C35: A migration request is carried out once. Repeated on the files it left, with the clock advanced, it
  changes neither of them and returns the same backup, revision, content hash and receipt, marked as
  already applied; any other request on the migrated file is refused.\<close>

theorem migration_is_idempotent:
  assumes "apply_mapping_migration msg vrule name now b r f backup = Inr (f', b', out)"
    and "\<not> mo_already_applied out" and "check_binding b = Inr b"
    and "\<And>r r'. vrule (dump_account_mapping_rule r) = Some r' \<Longrightarrow> r' = r"
  shows "apply_mapping_migration msg' vrule name now' b r f' b' = Inr (f', b', out\<lparr>mo_already_applied := True\<rparr>)
    \<and> (receipt_key b r' \<noteq> receipt_key b r \<longrightarrow> (\<exists>e. apply_mapping_migration msg' vrule name now' b r' f' b' = Inl e))"
proof -
  obtain store version where st: "f' = mapping_to_file store" "load_mapping vrule f' = Inr store" "mapping_ok store"
    and rc: "ms_migration_receipts store
      = [(receipt_key b r, migration_receipt name now b r (mr_expected_revision r) version)]"
    and out: "out = \<lparr>mo_already_applied = False, mo_backup_name = backup_name name (mr_source_sha256 r),
       mo_revision = ms_revision store, mo_rules_version = ms_rules_version store,
       mo_receipt = migration_receipt name now b r (mr_expected_revision r) version\<rparr>"
    and c: "request_checks r = Inr ()"
    by (rule fresh_migration [OF assms])
  have "load_mapping vrule (mapping_to_file store) = Inr store" using st by simp
  note again = apply_migrated [OF this st(3)]
  show ?thesis
    unfolding st(1) again using receipt_result [OF rc] c out by (cases "request_checks r'") simp_all
qed

theorem migration_is_idempotent_witness:
  "\<exists>f' b' out. apply_mapping_migration (\<lambda>_. []) legacy_vrule ''m.json'' ''t'' legacy_binding legacy_request
      legacy_file NoFile = Inr (f', b', out) \<and> \<not> mo_already_applied out
    \<and> apply_mapping_migration (\<lambda>_. []) legacy_vrule ''m.json'' ''t2'' legacy_binding legacy_request f' b'
      = Inr (f', b', out\<lparr>mo_already_applied := True\<rparr>)"
proof -
  obtain f' b' out where a: "apply_mapping_migration (\<lambda>_. []) legacy_vrule ''m.json'' ''t'' legacy_binding legacy_request
      legacy_file NoFile = Inr (f', b', out)" "\<not> mo_already_applied out"
    using legacy_apply by blast
  show ?thesis
    using migration_is_idempotent [OF a legacy_binding_ok legacy_vrule_dumps] a by blast
qed

end
