(* ===== verification/Cost_Texts.thy ===== *)
theory Cost_Texts
  imports Voucher_Texts
begin

text \<open>
  The texts of \<open>cost_analysis.py\<close> and \<open>costs.py\<close>: column names (\<open>H_\<close>), status values (\<open>S_\<close>) and
  messages (\<open>M_\<close>), written by the bytes of their UTF-8 encodings with the meaning of each above it.
\<close>

text \<open>buyer\<close>
definition H_BUYER :: string where
  "H_BUYER =
    [CHR 0xE8, CHR 0xB4, CHR 0xAD, CHR 0xE4, CHR 0xB9, CHR 0xB0, CHR 0xE6, CHR 0x96, CHR 0xB9]"

text \<open>unit price without tax\<close>
definition H_UNIT_PRICE :: string where
  "H_UNIT_PRICE =
    [CHR 0xE5, CHR 0x8D, CHR 0x95, CHR 0xE4, CHR 0xBB, CHR 0xB7, CHR ''('', CHR 0xE9, CHR 0x99,
     CHR 0xA4, CHR 0xE7, CHR 0xA8, CHR 0x8E, CHR '')'']"

text \<open>average unit price with tax\<close>
definition H_AVG_TAX :: string where
  "H_AVG_TAX =
    [CHR 0xE5, CHR 0xB9, CHR 0xB3, CHR 0xE5, CHR 0x9D, CHR 0x87, CHR 0xE5, CHR 0x8D, CHR 0x95,
     CHR 0xE4, CHR 0xBB, CHR 0xB7, CHR ''('', CHR 0xE5, CHR 0x90, CHR 0xAB, CHR 0xE7, CHR 0xA8,
     CHR 0x8E, CHR '')'']"

text \<open>average unit price without tax\<close>
definition H_AVG :: string where
  "H_AVG =
    [CHR 0xE5, CHR 0xB9, CHR 0xB3, CHR 0xE5, CHR 0x9D, CHR 0x87, CHR 0xE5, CHR 0x8D, CHR 0x95,
     CHR 0xE4, CHR 0xBB, CHR 0xB7, CHR ''('', CHR 0xE9, CHR 0x99, CHR 0xA4, CHR 0xE7, CHR 0xA8,
     CHR 0x8E, CHR '')'']"

text \<open>total quantity\<close>
definition H_QUANTITY_SUM :: string where
  "H_QUANTITY_SUM =
    [CHR 0xE6, CHR 0x95, CHR 0xB0, CHR 0xE9, CHR 0x87, CHR 0x8F, CHR 0xE5, CHR 0x90, CHR 0x88,
     CHR 0xE8, CHR 0xAE, CHR 0xA1]"

text \<open>total without tax\<close>
definition H_PRETAX_SUM :: string where
  "H_PRETAX_SUM =
    [CHR 0xE9, CHR 0x87, CHR 0x91, CHR 0xE9, CHR 0xA2, CHR 0x9D, CHR ''('', CHR 0xE9, CHR 0x99,
     CHR 0xA4, CHR 0xE7, CHR 0xA8, CHR 0x8E, CHR '')'', CHR 0xE5, CHR 0x90, CHR 0x88, CHR 0xE8,
     CHR 0xAE, CHR 0xA1]"

text \<open>total tax\<close>
definition H_TAX_SUM :: string where
  "H_TAX_SUM =
    [CHR 0xE7, CHR 0xA8, CHR 0x8E, CHR 0xE9, CHR 0x87, CHR 0x91, CHR 0xE5, CHR 0x90, CHR 0x88,
     CHR 0xE8, CHR 0xAE, CHR 0xA1]"

text \<open>average stock price without tax\<close>
definition H_STOCK_AVG :: string where
  "H_STOCK_AVG =
    [CHR 0xE5, CHR 0xBA, CHR 0x93, CHR 0xE5, CHR 0xAD, CHR 0x98, CHR 0xE5, CHR 0xB9, CHR 0xB3,
     CHR 0xE5, CHR 0x9D, CHR 0x87, CHR 0xE5, CHR 0x8D, CHR 0x95, CHR 0xE4, CHR 0xBB, CHR 0xB7,
     CHR ''('', CHR 0xE9, CHR 0x99, CHR 0xA4, CHR 0xE7, CHR 0xA8, CHR 0x8E, CHR '')'']"

text \<open>average stock price with tax\<close>
definition H_STOCK_AVG_TAX :: string where
  "H_STOCK_AVG_TAX =
    [CHR 0xE5, CHR 0xBA, CHR 0x93, CHR 0xE5, CHR 0xAD, CHR 0x98, CHR 0xE5, CHR 0xB9, CHR 0xB3,
     CHR 0xE5, CHR 0x9D, CHR 0x87, CHR 0xE5, CHR 0x8D, CHR 0x95, CHR 0xE4, CHR 0xBB, CHR 0xB7,
     CHR ''('', CHR 0xE5, CHR 0x90, CHR 0xAB, CHR 0xE7, CHR 0xA8, CHR 0x8E, CHR '')'']"

text \<open>average purchase price with tax\<close>
definition H_PURCHASE_AVG_TAX :: string where
  "H_PURCHASE_AVG_TAX =
    [CHR 0xE9, CHR 0x87, CHR 0x87, CHR 0xE8, CHR 0xB4, CHR 0xAD, CHR 0xE5, CHR 0x8F, CHR 0x82,
     CHR 0xE8, CHR 0x80, CHR 0x83, CHR 0xE5, CHR 0xB9, CHR 0xB3, CHR 0xE5, CHR 0x9D, CHR 0x87,
     CHR 0xE5, CHR 0x8D, CHR 0x95, CHR 0xE4, CHR 0xBB, CHR 0xB7, CHR ''('', CHR 0xE5, CHR 0x90,
     CHR 0xAB, CHR 0xE7, CHR 0xA8, CHR 0x8E, CHR '')'']"

text \<open>invoice numbers\<close>
definition H_INVOICES :: string where
  "H_INVOICES =
    [CHR 0xE6, CHR 0xB6, CHR 0x89, CHR 0xE5, CHR 0x8F, CHR 0x8A, CHR 0xE5, CHR 0x8F, CHR 0x91,
     CHR 0xE7, CHR 0xA5, CHR 0xA8, CHR 0xE5, CHR 0x8F, CHR 0xB7, CHR 0xE7, CHR 0xA0, CHR 0x81]"

text \<open>number of invoices\<close>
definition H_INVOICE_COUNT :: string where
  "H_INVOICE_COUNT =
    [CHR 0xE5, CHR 0x8F, CHR 0x91, CHR 0xE7, CHR 0xA5, CHR 0xA8, CHR 0xE5, CHR 0xBC, CHR 0xA0,
     CHR 0xE6, CHR 0x95, CHR 0xB0]"

text \<open>number of detail rows\<close>
definition H_DETAIL_COUNT :: string where
  "H_DETAIL_COUNT =
    [CHR 0xE6, CHR 0x98, CHR 0x8E, CHR 0xE7, CHR 0xBB, CHR 0x86, CHR 0xE8, CHR 0xA1, CHR 0x8C,
     CHR 0xE6, CHR 0x95, CHR 0xB0]"

text \<open>invoiced quantity\<close>
definition H_INVOICED :: string where
  "H_INVOICED =
    [CHR 0xE5, CHR 0xB7, CHR 0xB2, CHR 0xE5, CHR 0xBC, CHR 0x80, CHR 0xE6, CHR 0x95, CHR 0xB0,
     CHR 0xE9, CHR 0x87, CHR 0x8F]"

text \<open>quantity not invoiced\<close>
definition H_UNINVOICED :: string where
  "H_UNINVOICED =
    [CHR 0xE6, CHR 0x9C, CHR 0xAA, CHR 0xE5, CHR 0xBC, CHR 0x80, CHR 0xE6, CHR 0x95, CHR 0xB0,
     CHR 0xE9, CHR 0x87, CHR 0x8F]"

text \<open>invoicing status\<close>
definition H_STATUS :: string where
  "H_STATUS =
    [CHR 0xE5, CHR 0xBC, CHR 0x80, CHR 0xE7, CHR 0xA5, CHR 0xA8, CHR 0xE7, CHR 0x8A, CHR 0xB6,
     CHR 0xE6, CHR 0x80, CHR 0x81]"

text \<open>invoiced reference total\<close>
definition H_INVOICED_TOTAL :: string where
  "H_INVOICED_TOTAL =
    [CHR 0xE5, CHR 0xB7, CHR 0xB2, CHR 0xE5, CHR 0xBC, CHR 0x80, CHR 0xE5, CHR 0x8F, CHR 0x82,
     CHR 0xE8, CHR 0x80, CHR 0x83, CHR 0xE4, CHR 0xBB, CHR 0xB7, CHR 0xE7, CHR 0xA8, CHR 0x8E,
     CHR 0xE5, CHR 0x90, CHR 0x88, CHR 0xE8, CHR 0xAE, CHR 0xA1]"

text \<open>reference amount not invoiced\<close>
definition H_REST_AMOUNT :: string where
  "H_REST_AMOUNT =
    [CHR 0xE6, CHR 0x9C, CHR 0xAA, CHR 0xE5, CHR 0xBC, CHR 0x80, CHR 0xE5, CHR 0x8F, CHR 0x82,
     CHR 0xE8, CHR 0x80, CHR 0x83, CHR 0xE9, CHR 0x87, CHR 0x91, CHR 0xE9, CHR 0xA2, CHR 0x9D,
     CHR ''('', CHR 0xE9, CHR 0x99, CHR 0xA4, CHR 0xE7, CHR 0xA8, CHR 0x8E, CHR '')'']"

text \<open>reference tax not invoiced\<close>
definition H_REST_TAX :: string where
  "H_REST_TAX =
    [CHR 0xE6, CHR 0x9C, CHR 0xAA, CHR 0xE5, CHR 0xBC, CHR 0x80, CHR 0xE5, CHR 0x8F, CHR 0x82,
     CHR 0xE8, CHR 0x80, CHR 0x83, CHR 0xE7, CHR 0xA8, CHR 0x8E, CHR 0xE9, CHR 0x87, CHR 0x91]"

text \<open>reference total not invoiced\<close>
definition H_REST_TOTAL :: string where
  "H_REST_TOTAL =
    [CHR 0xE6, CHR 0x9C, CHR 0xAA, CHR 0xE5, CHR 0xBC, CHR 0x80, CHR 0xE5, CHR 0x8F, CHR 0x82,
     CHR 0xE8, CHR 0x80, CHR 0x83, CHR 0xE4, CHR 0xBB, CHR 0xB7, CHR 0xE7, CHR 0xA8, CHR 0x8E,
     CHR 0xE5, CHR 0x90, CHR 0x88, CHR 0xE8, CHR 0xAE, CHR 0xA1]"

text \<open>reference markup rate\<close>
definition H_MARKUP :: string where
  "H_MARKUP =
    [CHR 0xE5, CHR 0x8F, CHR 0x82, CHR 0xE8, CHR 0x80, CHR 0x83, CHR 0xE5, CHR 0x8A, CHR 0xA0,
     CHR 0xE4, CHR 0xBB, CHR 0xB7, CHR 0xE7, CHR 0x8E, CHR 0x87]"

text \<open>time of the status\<close>
definition H_UPDATED :: string where
  "H_UPDATED =
    [CHR 0xE7, CHR 0x8A, CHR 0xB6, CHR 0xE6, CHR 0x80, CHR 0x81, CHR 0xE6, CHR 0x9B, CHR 0xB4,
     CHR 0xE6, CHR 0x96, CHR 0xB0, CHR 0xE6, CHR 0x97, CHR 0xB6, CHR 0xE9, CHR 0x97, CHR 0xB4]"

text \<open>invoice type\<close>
definition H_CATEGORY :: string where
  "H_CATEGORY =
    [CHR 0xE5, CHR 0x8F, CHR 0x91, CHR 0xE7, CHR 0xA5, CHR 0xA8, CHR 0xE5, CHR 0xA4, CHR 0xA7,
     CHR 0xE7, CHR 0xB1, CHR 0xBB]"

text \<open>business type\<close>
definition H_BUSINESS :: string where
  "H_BUSINESS =
    [CHR 0xE7, CHR 0x89, CHR 0xB9, CHR 0xE5, CHR 0xAE, CHR 0x9A, CHR 0xE4, CHR 0xB8, CHR 0x9A,
     CHR 0xE5, CHR 0x8A, CHR 0xA1, CHR 0xE7, CHR 0xB1, CHR 0xBB, CHR 0xE5, CHR 0x9E, CHR 0x8B]"

text \<open>status of the classification\<close>
definition H_CLASS_STATUS :: string where
  "H_CLASS_STATUS =
    [CHR 0xE7, CHR 0xB1, CHR 0xBB, CHR 0xE5, CHR 0x9E, CHR 0x8B, CHR 0xE8, CHR 0xAF, CHR 0x86,
     CHR 0xE5, CHR 0x88, CHR 0xAB, CHR 0xE7, CHR 0x8A, CHR 0xB6, CHR 0xE6, CHR 0x80, CHR 0x81]"

text \<open>issue of the classification\<close>
definition H_CLASS_ISSUE :: string where
  "H_CLASS_ISSUE =
    [CHR 0xE7, CHR 0xB1, CHR 0xBB, CHR 0xE5, CHR 0x9E, CHR 0x8B, CHR 0xE8, CHR 0xAF, CHR 0x86,
     CHR 0xE5, CHR 0x88, CHR 0xAB, CHR 0xE8, CHR 0xAF, CHR 0xB4, CHR 0xE6, CHR 0x98, CHR 0x8E]"

text \<open>amount of the invoice without tax\<close>
definition H_HEAD_PRETAX :: string where
  "H_HEAD_PRETAX =
    [CHR 0xE5, CHR 0x8F, CHR 0x91, CHR 0xE7, CHR 0xA5, CHR 0xA8, CHR 0xE9, CHR 0x87, CHR 0x91,
     CHR 0xE9, CHR 0xA2, CHR 0x9D, CHR ''('', CHR 0xE9, CHR 0x99, CHR 0xA4, CHR 0xE7, CHR 0xA8,
     CHR 0x8E, CHR '')'']"

text \<open>parsed amount\<close>
definition H_PARSED_PRETAX :: string where
  "H_PARSED_PRETAX =
    [CHR 0xE8, CHR 0xA7, CHR 0xA3, CHR 0xE6, CHR 0x9E, CHR 0x90, CHR 0xE9, CHR 0x87, CHR 0x91,
     CHR 0xE9, CHR 0xA2, CHR 0x9D, CHR ''('', CHR 0xE9, CHR 0x99, CHR 0xA4, CHR 0xE7, CHR 0xA8,
     CHR 0x8E, CHR '')'']"

text \<open>difference of the amounts\<close>
definition H_DIFF_PRETAX :: string where
  "H_DIFF_PRETAX =
    [CHR 0xE5, CHR 0xB7, CHR 0xAE, CHR 0xE5, CHR 0xBC, CHR 0x82, CHR ''('', CHR 0xE9, CHR 0x99,
     CHR 0xA4, CHR 0xE7, CHR 0xA8, CHR 0x8E, CHR '')'']"

text \<open>tax of the invoice\<close>
definition H_HEAD_TAX :: string where
  "H_HEAD_TAX =
    [CHR 0xE5, CHR 0x8F, CHR 0x91, CHR 0xE7, CHR 0xA5, CHR 0xA8, CHR 0xE7, CHR 0xA8, CHR 0x8E,
     CHR 0xE9, CHR 0x87, CHR 0x91]"

text \<open>parsed tax\<close>
definition H_PARSED_TAX :: string where
  "H_PARSED_TAX =
    [CHR 0xE8, CHR 0xA7, CHR 0xA3, CHR 0xE6, CHR 0x9E, CHR 0x90, CHR 0xE7, CHR 0xA8, CHR 0x8E,
     CHR 0xE9, CHR 0x87, CHR 0x91]"

text \<open>difference of the taxes\<close>
definition H_DIFF_TAX :: string where
  "H_DIFF_TAX =
    [CHR 0xE5, CHR 0xB7, CHR 0xAE, CHR 0xE5, CHR 0xBC, CHR 0x82, CHR ''('', CHR 0xE7, CHR 0xA8,
     CHR 0x8E, CHR 0xE9, CHR 0x87, CHR 0x91, CHR '')'']"

text \<open>status of the check\<close>
definition H_CHECK_STATUS :: string where
  "H_CHECK_STATUS =
    [CHR 0xE6, CHR 0xA0, CHR 0xA1, CHR 0xE9, CHR 0xAA, CHR 0x8C, CHR 0xE7, CHR 0x8A, CHR 0xB6,
     CHR 0xE6, CHR 0x80, CHR 0x81]"

text \<open>message\<close>
definition H_MESSAGE :: string where
  "H_MESSAGE =
    [CHR 0xE8, CHR 0xAF, CHR 0xB4, CHR 0xE6, CHR 0x98, CHR 0x8E]"

text \<open>price without tax\<close>
definition H_EX_TAX :: string where
  "H_EX_TAX =
    [CHR 0xE9, CHR 0x99, CHR 0xA4, CHR 0xE7, CHR 0xA8, CHR 0x8E, CHR 0xE4, CHR 0xBB, CHR 0xB7]"

text \<open>time of the invoice\<close>
definition H_OPEN_TIME :: string where
  "H_OPEN_TIME =
    [CHR 0xE5, CHR 0xBC, CHR 0x80, CHR 0xE7, CHR 0xA5, CHR 0xA8, CHR 0xE6, CHR 0x97, CHR 0xB6,
     CHR 0xE9, CHR 0x97, CHR 0xB4]"

text \<open>path of the file\<close>
definition H_FILE_PATH :: string where
  "H_FILE_PATH =
    [CHR 0xE6, CHR 0x96, CHR 0x87, CHR 0xE4, CHR 0xBB, CHR 0xB6, CHR 0xE8, CHR 0xB7, CHR 0xAF,
     CHR 0xE5, CHR 0xBE, CHR 0x84]"

text \<open>passed\<close>
definition S_PASSED :: string where
  "S_PASSED =
    [CHR 0xE9, CHR 0x80, CHR 0x9A, CHR 0xE8, CHR 0xBF, CHR 0x87]"

text \<open>to be checked\<close>
definition S_REVIEW :: string where
  "S_REVIEW =
    [CHR 0xE5, CHR 0xBE, CHR 0x85, CHR 0xE6, CHR 0xA0, CHR 0xB8, CHR 0xE5, CHR 0xAF, CHR 0xB9]"

text \<open>not invoiced\<close>
definition S_NOT_INVOICED :: string where
  "S_NOT_INVOICED =
    [CHR 0xE6, CHR 0x9C, CHR 0xAA, CHR 0xE5, CHR 0xBC, CHR 0x80, CHR 0xE5, CHR 0x85, CHR 0xB7]"

text \<open>invoiced\<close>
definition S_INVOICED :: string where
  "S_INVOICED =
    [CHR 0xE5, CHR 0xB7, CHR 0xB2, CHR 0xE5, CHR 0xBC, CHR 0x80, CHR 0xE5, CHR 0x85, CHR 0xB7]"

text \<open>partly invoiced\<close>
definition S_PARTLY :: string where
  "S_PARTLY =
    [CHR 0xE9, CHR 0x83, CHR 0xA8, CHR 0xE5, CHR 0x88, CHR 0x86, CHR 0xE5, CHR 0xBC, CHR 0x80,
     CHR 0xE5, CHR 0x85, CHR 0xB7]"

text \<open>locked\<close>
definition S_LOCKED :: string where
  "S_LOCKED =
    [CHR 0xE5, CHR 0xB7, CHR 0xB2, CHR 0xE9, CHR 0x94, CHR 0x81, CHR 0xE5, CHR 0xAE, CHR 0x9A]"

text \<open>lock\<close>
definition S_LOCK :: string where
  "S_LOCK =
    [CHR 0xE9, CHR 0x94, CHR 0x81, CHR 0xE5, CHR 0xAE, CHR 0x9A]"

text \<open>unknown seller\<close>
definition S_NO_SELLER :: string where
  "S_NO_SELLER =
    [CHR 0xE6, CHR 0x9C, CHR 0xAA, CHR 0xE8, CHR 0xAF, CHR 0x86, CHR 0xE5, CHR 0x88, CHR 0xAB,
     CHR 0xE9, CHR 0x94, CHR 0x80, CHR 0xE5, CHR 0x94, CHR 0xAE, CHR 0xE6, CHR 0x96, CHR 0xB9]"

text \<open>unknown project\<close>
definition S_NO_PROJECT :: string where
  "S_NO_PROJECT =
    [CHR 0xE6, CHR 0x9C, CHR 0xAA, CHR 0xE8, CHR 0xAF, CHR 0x86, CHR 0xE5, CHR 0x88, CHR 0xAB,
     CHR 0xE9, CHR 0xA1, CHR 0xB9, CHR 0xE7, CHR 0x9B, CHR 0xAE]"

text \<open>unknown tax rate\<close>
definition S_NO_RATE :: string where
  "S_NO_RATE =
    [CHR 0xE7, CHR 0xA8, CHR 0x8E, CHR 0xE7, CHR 0x8E, CHR 0x87, CHR 0xE6, CHR 0x9C, CHR 0xAA,
     CHR 0xE8, CHR 0xAF, CHR 0x86, CHR 0xE5, CHR 0x88, CHR 0xAB]"

text \<open>no cost rows\<close>
definition M_NO_ROWS :: string where
  "M_NO_ROWS =
    [CHR 0xE6, CHR 0x9C, CHR 0xAA, CHR 0xE8, CHR 0xAF, CHR 0x86, CHR 0xE5, CHR 0x88, CHR 0xAB,
     CHR 0xE5, CHR 0x88, CHR 0xB0, CHR 0xE6, CHR 0x88, CHR 0x90, CHR 0xE6, CHR 0x9C, CHR 0xAC,
     CHR 0xE6, CHR 0x98, CHR 0x8E, CHR 0xE7, CHR 0xBB, CHR 0x86, CHR 0xE8, CHR 0xA1, CHR 0x8C]"

text \<open>the invoice has no amount without tax\<close>
definition M_HEAD_AMOUNT :: string where
  "M_HEAD_AMOUNT =
    [CHR 0xE7, CHR 0xA5, CHR 0xA8, CHR 0xE5, CHR 0xA4, CHR 0xB4, CHR 0xE9, CHR 0x99, CHR 0xA4,
     CHR 0xE7, CHR 0xA8, CHR 0x8E, CHR 0xE9, CHR 0x87, CHR 0x91, CHR 0xE9, CHR 0xA2, CHR 0x9D,
     CHR 0xE7, CHR 0xBC, CHR 0xBA, CHR 0xE5, CHR 0xA4, CHR 0xB1]"

text \<open>a row has no amount without tax\<close>
definition M_ROW_AMOUNT :: string where
  "M_ROW_AMOUNT =
    [CHR 0xE6, CHR 0x98, CHR 0x8E, CHR 0xE7, CHR 0xBB, CHR 0x86, CHR 0xE9, CHR 0x99, CHR 0xA4,
     CHR 0xE7, CHR 0xA8, CHR 0x8E, CHR 0xE9, CHR 0x87, CHR 0x91, CHR 0xE9, CHR 0xA2, CHR 0x9D,
     CHR 0xE7, CHR 0xBC, CHR 0xBA, CHR 0xE5, CHR 0xA4, CHR 0xB1]"

text \<open>the amounts differ\<close>
definition M_AMOUNT_DIFF :: string where
  "M_AMOUNT_DIFF =
    [CHR 0xE9, CHR 0x99, CHR 0xA4, CHR 0xE7, CHR 0xA8, CHR 0x8E, CHR 0xE9, CHR 0x87, CHR 0x91,
     CHR 0xE9, CHR 0xA2, CHR 0x9D, CHR 0xE6, CHR 0xA0, CHR 0xA1, CHR 0xE9, CHR 0xAA, CHR 0x8C,
     CHR 0xE4, CHR 0xB8, CHR 0x8D, CHR 0xE9, CHR 0x80, CHR 0x9A, CHR 0xE8, CHR 0xBF, CHR 0x87]"

text \<open>the invoice has no tax\<close>
definition M_HEAD_TAX :: string where
  "M_HEAD_TAX =
    [CHR 0xE7, CHR 0xA5, CHR 0xA8, CHR 0xE5, CHR 0xA4, CHR 0xB4, CHR 0xE7, CHR 0xA8, CHR 0x8E,
     CHR 0xE9, CHR 0xA2, CHR 0x9D, CHR 0xE7, CHR 0xBC, CHR 0xBA, CHR 0xE5, CHR 0xA4, CHR 0xB1]"

text \<open>a row has no tax\<close>
definition M_ROW_TAX :: string where
  "M_ROW_TAX =
    [CHR 0xE6, CHR 0x98, CHR 0x8E, CHR 0xE7, CHR 0xBB, CHR 0x86, CHR 0xE7, CHR 0xA8, CHR 0x8E,
     CHR 0xE9, CHR 0xA2, CHR 0x9D, CHR 0xE7, CHR 0xBC, CHR 0xBA, CHR 0xE5, CHR 0xA4, CHR 0xB1]"

text \<open>the taxes differ\<close>
definition M_TAX_DIFF :: string where
  "M_TAX_DIFF =
    [CHR 0xE7, CHR 0xA8, CHR 0x8E, CHR 0xE9, CHR 0xA2, CHR 0x9D, CHR 0xE6, CHR 0xA0, CHR 0xA1,
     CHR 0xE9, CHR 0xAA, CHR 0x8C, CHR 0xE4, CHR 0xB8, CHR 0x8D, CHR 0xE9, CHR 0x80, CHR 0x9A,
     CHR 0xE8, CHR 0xBF, CHR 0x87]"

text \<open>the type of the invoice is to be checked\<close>
definition M_CLASS :: string where
  "M_CLASS =
    [CHR 0xE5, CHR 0x8F, CHR 0x91, CHR 0xE7, CHR 0xA5, CHR 0xA8, CHR 0xE7, CHR 0xB1, CHR 0xBB,
     CHR 0xE5, CHR 0x9E, CHR 0x8B, CHR 0xE8, CHR 0xAF, CHR 0x86, CHR 0xE5, CHR 0x88, CHR 0xAB,
     CHR 0xE5, CHR 0xBE, CHR 0x85, CHR 0xE6, CHR 0xA0, CHR 0xB8, CHR 0xE5, CHR 0xAF, CHR 0xB9]"

text \<open>candidates of the same invoice\<close>
definition M_CANDIDATES :: string where
  "M_CANDIDATES =
    [CHR 0xEF, CHR 0xBC, CHR 0x9B, CHR 0xE5, CHR 0x90, CHR 0x8C, CHR 0xE7, CHR 0xA5, CHR 0xA8,
     CHR 0xE5, CHR 0x80, CHR 0x99, CHR 0xE9, CHR 0x80, CHR 0x89, CHR 0xEF, CHR 0xBC, CHR 0x9A]"

text \<open>fullwidth semicolon\<close>
definition FULL_SEMICOLON :: string where
  "FULL_SEMICOLON =
    [CHR 0xEF, CHR 0xBC, CHR 0x9B]"

text \<open>fullwidth percent sign\<close>
definition FULL_PERCENT :: string where
  "FULL_PERCENT =
    [CHR 0xEF, CHR 0xBC, CHR 0x85]"

lemmas cost_status_defs = S_PASSED_def S_REVIEW_def S_NOT_INVOICED_def S_INVOICED_def S_PARTLY_def

lemmas cost_field_defs = H_BUYER_def H_UNIT_PRICE_def H_AVG_TAX_def H_AVG_def H_QUANTITY_SUM_def
  H_PRETAX_SUM_def H_TAX_SUM_def H_STOCK_AVG_def H_STOCK_AVG_TAX_def H_PURCHASE_AVG_TAX_def
  H_INVOICES_def H_INVOICE_COUNT_def H_DETAIL_COUNT_def H_INVOICED_def H_UNINVOICED_def H_STATUS_def
  H_INVOICED_TOTAL_def H_REST_AMOUNT_def H_REST_TAX_def H_REST_TOTAL_def H_MARKUP_def H_UPDATED_def
  H_CATEGORY_def H_BUSINESS_def H_CLASS_STATUS_def H_CLASS_ISSUE_def H_HEAD_PRETAX_def
  H_PARSED_PRETAX_def H_DIFF_PRETAX_def H_HEAD_TAX_def H_PARSED_TAX_def H_DIFF_TAX_def
  H_CHECK_STATUS_def H_MESSAGE_def H_EX_TAX_def H_OPEN_TIME_def H_FILE_PATH_def

end
