(* ===== verification/Dec_Arith.thy ===== *)
theory Dec_Arith
  imports Py_Decimal
begin

text \<open>
  More of \<open>decimal.Decimal\<close>, for the cost analysis: products, quotients, rounding to any number of
  places, comparisons that raise on a NaN, and \<open>float()\<close> with the \<open>repr\<close> of a float.

  A quotient has 28 digits, rounded half even; an exact one has the exponent nearest to the difference of
  the exponents. \<open>float_text\<close> is exact: the nearest double (ties to even, subnormal numbers and
  infinities included) and the shortest digits that give it back.
\<close>

section \<open>Products and quotients\<close>

definition dec_sign :: "dec \<Rightarrow> bool" where
  "dec_sign a = (case a of Fin s c e \<Rightarrow> s | Inf s \<Rightarrow> s | Nan b \<Rightarrow> False)"

definition is_nan :: "dec \<Rightarrow> bool" where
  "is_nan a = (case a of Nan b \<Rightarrow> True | _ \<Rightarrow> False)"

definition is_zero :: "dec \<Rightarrow> bool" where
  "is_zero a = (case a of Fin s c e \<Rightarrow> c = 0 | _ \<Rightarrow> False)"

fun dec_mul :: "dec \<Rightarrow> dec \<Rightarrow> exc + dec" where
  "dec_mul (Fin s c e) (Fin s' c' e') = Inr (fix_prec (s \<noteq> s') (c * c') (e + e'))"
| "dec_mul a b =
    (if a = Nan True \<or> b = Nan True then Inl InvalidOperation
     else if is_nan a \<or> is_nan b then Inr (Nan False)
     else if is_zero a \<or> is_zero b then Inl InvalidOperation
     else Inr (Inf (dec_sign a \<noteq> dec_sign b)))"

text \<open>The zeros that an exact quotient drops: at most \<open>k\<close> of them.\<close>

fun drop_zeros :: "nat \<Rightarrow> nat \<Rightarrow> int \<Rightarrow> nat \<times> int" where
  "drop_zeros 0 c e = (c, e)"
| "drop_zeros (Suc k) c e = (if c mod 10 = 0 then drop_zeros k (c div 10) (e + 1) else (c, e))"

definition div_digits :: "nat \<Rightarrow> nat \<Rightarrow> nat \<times> nat \<times> int" where
  "div_digits c c' =
    (let shift = int (length (nat_text c')) - int (length (nat_text c)) + 29
     in if 0 \<le> shift then (c * 10 ^ nat shift div c', c * 10 ^ nat shift mod c', shift)
        else (c div (c' * 10 ^ nat (- shift)), c mod (c' * 10 ^ nat (- shift)), shift))"

fun dec_div :: "dec \<Rightarrow> dec \<Rightarrow> exc + dec" where
  "dec_div (Fin s c e) (Fin s' c' e') =
    (if c' = 0 then (if c = 0 then Inl InvalidOperation else Inl (RuntimeError ''division by zero''))
     else if c = 0 then Inr (Fin (s \<noteq> s') 0 (e - e'))
     else let (q, r, shift) = div_digits c c'; exp = e - e' - shift
          in if r \<noteq> 0 then Inr (fix_prec (s \<noteq> s') (if q mod 5 = 0 then q + 1 else q) exp)
             else let (q', exp') = drop_zeros (nat shift) q exp in Inr (fix_prec (s \<noteq> s') q' exp'))"
| "dec_div a b =
    (if a = Nan True \<or> b = Nan True then Inl InvalidOperation
     else if is_nan a \<or> is_nan b then Inr (Nan False)
     else case (a, b) of
         (Inf s, Inf s') \<Rightarrow> Inl InvalidOperation
       | (Inf s, _) \<Rightarrow> Inr (Inf (s \<noteq> dec_sign b))
       | (_, _) \<Rightarrow> Inr (Fin (dec_sign a \<noteq> dec_sign b) 0 (-1000026)))"

section \<open>Comparison and rounding\<close>

text \<open>\<open>a < b\<close>, \<open>a <= b\<close>, which raise on a NaN.\<close>

definition dec_cmp :: "(dec \<Rightarrow> dec \<Rightarrow> bool) \<Rightarrow> dec \<Rightarrow> dec \<Rightarrow> exc + bool" where
  "dec_cmp f a b = (if is_nan a \<or> is_nan b then Inl InvalidOperation else Inr (f a b))"

abbreviation lt_res :: "dec \<Rightarrow> dec \<Rightarrow> exc + bool" where "lt_res \<equiv> dec_cmp dec_less"
abbreviation le_res :: "dec \<Rightarrow> dec \<Rightarrow> exc + bool" where "le_res \<equiv> dec_cmp dec_le"

text \<open>\<open>x.quantize(Decimal("0.1"), rounding=r)\<close>, with \<open>p\<close> places.\<close>

fun quantize_to :: "nat \<Rightarrow> (nat \<Rightarrow> nat \<Rightarrow> nat) \<Rightarrow> dec \<Rightarrow> exc + dec" where
  "quantize_to p rnd (Fin s c e) =
     (let c' = (if - int p \<le> e then c * 10 ^ nat (e + int p) else rnd c (nat (- int p - e)))
      in if c' < prec_bound then Inr (Fin s c' (- int p)) else Inl InvalidOperation)"
| "quantize_to p rnd (Inf s) = Inl InvalidOperation"
| "quantize_to p rnd (Nan b) = (if b then Inl InvalidOperation else Inr (Nan False))"

lemma quantize_to_cent: "quantize_to 2 rnd x = quantize_cent rnd x"
  by (cases x) (simp_all add: Let_def)

section \<open>Floats\<close>

fun bit_len :: "nat \<Rightarrow> nat" where
  "bit_len n = (if n = 0 then 0 else Suc (bit_len (n div 2)))"

declare bit_len.simps [simp del]

definition round_ratio :: "nat \<Rightarrow> nat \<Rightarrow> nat" where
  "round_ratio n d = (let q = n div d; r = n mod d in if d < 2 * r \<or> (2 * r = d \<and> odd q) then q + 1 else q)"

definition scaled_ratio :: "nat \<Rightarrow> nat \<Rightarrow> int \<Rightarrow> nat \<times> nat" where
  "scaled_ratio n d k = (if 0 \<le> k then (n, d * 2 ^ nat k) else (n * 2 ^ nat (- k), d))"

text \<open>The double nearest to \<open>n / d\<close>, as mantissa and exponent.\<close>

definition nearest_double :: "nat \<Rightarrow> nat \<Rightarrow> nat \<times> int" where
  "nearest_double n d =
    (let k0 = int (bit_len n) - int (bit_len d) - 53;
         k = max (-1074) (if 2 ^ 53 \<le> fst (scaled_ratio n d k0) div snd (scaled_ratio n d k0) then k0 + 1 else k0);
         m = round_ratio (fst (scaled_ratio n d k)) (snd (scaled_ratio n d k))
     in if m = 2 ^ 53 then (2 ^ 52, k + 1) else (m, k))"

definition ten_ratio :: "nat \<Rightarrow> int \<Rightarrow> nat \<times> nat" where
  "ten_ratio c e = (if 0 \<le> e then (c * 10 ^ nat e, 1) else (c, 10 ^ nat (- e)))"

text \<open>The \<open>p\<close> digits nearest to \<open>n / d\<close>, where \<open>10 ^ (x - 1) <= n / d < 10 ^ x\<close>.\<close>

definition digits_at :: "nat \<Rightarrow> nat \<Rightarrow> int \<Rightarrow> nat \<Rightarrow> nat \<times> int" where
  "digits_at n d x p =
    (let e = x - int p; r = (if 0 \<le> e then round_ratio n (d * 10 ^ nat e) else round_ratio (n * 10 ^ nat (- e)) d)
     in if r = 10 ^ p then (10 ^ (p - 1), e + 1) else (r, e))"

fun shortest_from :: "nat \<Rightarrow> nat \<Rightarrow> nat \<times> int \<Rightarrow> nat \<Rightarrow> nat \<Rightarrow> int \<Rightarrow> nat \<times> int" where
  "shortest_from fuel p t n d x =
    (let (c, e) = digits_at n d x p
     in if fuel = 0 \<or> nearest_double (fst (ten_ratio c e)) (snd (ten_ratio c e)) = t then (c, e)
        else shortest_from (fuel - 1) (p + 1) t n d x)"

declare shortest_from.simps [simp del]

text \<open>\<open>x\<close> with \<open>10 ^ (x - 1) <= n / d < 10 ^ x\<close>.\<close>

definition decimal_point :: "nat \<Rightarrow> nat \<Rightarrow> int" where
  "decimal_point n d =
    (if d \<le> n then int (length (nat_text (n div d)))
     else let z = length (nat_text (d div n)) in if n * 10 ^ (z - 1) = d \<or> d < n * 10 ^ (z - 1) then 2 - int z else 1 - int z)"

text \<open>\<open>repr\<close>: fixed notation from \<open>1e-04\<close> to below \<open>1e16\<close>, an exponent of two digits or more otherwise.\<close>

definition float_digits :: "nat \<Rightarrow> int \<Rightarrow> string" where
  "float_digits c e =
    (let ds = nat_text c; x = int (length ds) + e
     in if -4 < x \<and> x \<le> 16
        then (if x \<le> 0 then ''0.'' @ replicate (nat (- x)) CHR ''0'' @ ds
              else if int (length ds) \<le> x then ds @ replicate (nat x - length ds) CHR ''0'' @ ''.0''
              else take (nat x) ds @ ''.'' @ drop (nat x) ds)
        else take 1 ds @ (if length ds = 1 then [] else ''.'' @ drop 1 ds) @ ''e''
             @ (if x - 1 < 0 then ''-'' else ''+'') @ pad_left 2 (nat_text (nat \<bar>x - 1\<bar>)))"

fun strip_zeros :: "nat \<Rightarrow> nat \<Rightarrow> int \<Rightarrow> nat \<times> int" where
  "strip_zeros 0 c e = (c, e)"
| "strip_zeros (Suc k) c e = (if c mod 10 = 0 then strip_zeros k (c div 10) (e + 1) else (c, e))"

definition double_text :: "nat \<times> int \<Rightarrow> string" where
  "double_text t =
    (let n = (if 0 \<le> snd t then fst t * 2 ^ nat (snd t) else fst t); d = (if 0 \<le> snd t then 1 else 2 ^ nat (- snd t));
         c = shortest_from 17 1 t n d (decimal_point n d); z = strip_zeros 17 (fst c) (snd c)
     in float_digits (fst z) (snd z))"

text \<open>\<open>repr(float(x))\<close>\<close>

fun float_text :: "dec \<Rightarrow> string" where
  "float_text (Fin s c e) =
    (let r = ten_ratio c e; t = nearest_double (fst r) (snd r)
     in (if s then ''-'' else []) @ (if c = 0 \<or> fst t = 0 then ''0.0''
          else if 971 < snd t then ''inf'' else double_text t))"
| "float_text (Inf s) = (if s then ''-inf'' else ''inf'')"
| "float_text (Nan b) = ''nan''"

end
