(* ===== verification/Cost_Numbers.thy ===== *)
theory Cost_Numbers
  imports Cost_Texts Dec_Arith State_Files
begin

text \<open>
  The numbers of \<open>projections/cost_analysis.py\<close>: reading a cell, writing a number, average prices, the
  reference markup and the parts of a reference amount that are invoiced.

  A cell is a \<open>pyval\<close>; a missing column is \<open>None\<close>. A \<open>Decimal\<close> that the code hands to a function of an
  \<open>object\<close> is the text that \<open>str(value or "")\<close> gives, \<open>dec_or_empty\<close>. Numbers that the code puts in a row
  for display are floats (\<open>number\<close>); a comparison with a NaN raises \<open>InvalidOperation\<close>.
\<close>

section \<open>Texts\<close>

definition clean_text :: "pyval \<Rightarrow> string" where
  "clean_text v = strip (replace1 nbsp '' '' (str_or_empty v))"

definition cell :: "vdict \<Rightarrow> string \<Rightarrow> string" where
  "cell row k = clean_text (get_val row k)"

definition remove_chars :: "string list \<Rightarrow> string \<Rightarrow> string" where
  "remove_chars cs s = concat (filter (\<lambda>x. x \<notin> set cs) (uchars s))"

definition to_decimal_text :: "string \<Rightarrow> dec option" where
  "to_decimal_text t =
    (if t = [] then None
     else let u = strip (remove_chars ['','', YEN, FULL_YEN, ''%''] t) in if u = [] then None else parse_decimal u)"

definition to_decimal :: "pyval \<Rightarrow> dec option" where
  "to_decimal v = to_decimal_text (clean_text v)"

abbreviation dec_at :: "vdict \<Rightarrow> string \<Rightarrow> dec option" where
  "dec_at row k \<equiv> to_decimal (get_val row k)"

text \<open>\<open>str(d)\<close>: scientific notation for a positive exponent and for small numbers.\<close>

fun dec_text :: "dec \<Rightarrow> string" where
  "dec_text (Fin s c e) =
    (let ds = nat_text c; left = int (length ds) + e
     in (if s then ''-'' else []) @
       (if e \<le> 0 \<and> -6 < left then format_digits c e
        else take 1 ds @ (if length ds = 1 then [] else ''.'' @ drop 1 ds) @ ''E''
          @ (if left - 1 < 0 then ''-'' else ''+'') @ nat_text (nat \<bar>left - 1\<bar>)))"
| "dec_text (Inf s) = (if s then ''-Infinity'' else ''Infinity'')"
| "dec_text (Nan b) = (if b then ''sNaN'' else ''NaN'')"

definition dec_or_empty :: "dec \<Rightarrow> string" where
  "dec_or_empty d = (if is_zero d then [] else dec_text d)"

section \<open>Writing numbers\<close>

text \<open>\<open>_number(value, places)\<close>, \<open>_decimal_text(value, places)\<close> with the number of places.\<close>

definition number :: "nat \<Rightarrow> dec option \<Rightarrow> exc + pyval" where
  "number p v = (case v of None \<Rightarrow> Inr (VStr [])
     | Some d \<Rightarrow> res_bind (quantize_to p round_half_up d) (\<lambda>q. Inr (VFloat (float_text q))))"

definition rstrip_char :: "char \<Rightarrow> string \<Rightarrow> string" where
  "rstrip_char c s = rev (dropWhile (\<lambda>x. x = c) (rev s))"

definition trim_zeros :: "string \<Rightarrow> string" where
  "trim_zeros t = (let u = (if CHR ''.'' \<in> set t then rstrip_char CHR ''.'' (rstrip_char CHR ''0'' t) else t)
     in if u = [] then ''0'' else u)"

definition decimal_text :: "nat \<Rightarrow> dec option \<Rightarrow> exc + string" where
  "decimal_text p v = (case v of None \<Rightarrow> Inr ''0''
     | Some d \<Rightarrow> res_bind (quantize_to p round_half_up d) (\<lambda>q. Inr (trim_zeros (format_f q))))"

definition text_of_number :: "nat \<Rightarrow> pyval \<Rightarrow> exc + string" where
  "text_of_number p v = (case to_decimal v of None \<Rightarrow> Inr [] | Some d \<Rightarrow> decimal_text p (Some d))"

abbreviation money_cell :: "pyval \<Rightarrow> exc + string" where "money_cell \<equiv> text_of_number 2"
abbreviation quantity_cell :: "pyval \<Rightarrow> exc + string" where "quantity_cell \<equiv> text_of_number 3"
abbreviation unit_price_cell :: "pyval \<Rightarrow> exc + string" where "unit_price_cell \<equiv> text_of_number 6"

definition ends_with_percent :: "string \<Rightarrow> bool" where
  "ends_with_percent t \<longleftrightarrow> t \<noteq> [] \<and> last t = CHR ''%''"

definition tax_rate_text :: "pyval \<Rightarrow> exc + string" where
  "tax_rate_text v =
    (let t = replace1 FULL_PERCENT ''%'' (clean_text v)
     in if t = [] then Inr []
        else if ends_with_percent t
        then (case to_decimal_text (strip (replace1 nbsp '' '' (butlast t))) of None \<Rightarrow> Inr []
              | Some d \<Rightarrow> res_bind (decimal_text 3 (Some d)) (\<lambda>u. Inr (u @ ''%'')))
        else case to_decimal_text t of None \<Rightarrow> Inr []
          | Some d \<Rightarrow>
              res_bind (le_res dec_zero d) (\<lambda>low. res_bind (if low then le_res d (Fin False 1 0) else Inr False) (\<lambda>share.
              res_bind (if share then dec_mul d (Fin False 100 0) else Inr d) (\<lambda>n.
              res_bind (decimal_text 3 (Some n)) (\<lambda>u. Inr (u @ ''%''))))))"

section \<open>Average prices\<close>

text \<open>The loops return \<open>None\<close> at the first row without a usable number: \<open>unless bad f\<close>.\<close>

definition unless :: "exc + bool \<Rightarrow> (unit \<Rightarrow> exc + 'a option) \<Rightarrow> exc + 'a option" where
  "unless bad f = res_bind bad (\<lambda>b. if b then Inr None else f ())"

definition negative :: "dec \<Rightarrow> exc + bool" where
  "negative d = lt_res d dec_zero"

definition not_positive :: "dec \<Rightarrow> exc + bool" where
  "not_positive d = le_res d dec_zero"

definition some_res :: "exc + 'a \<Rightarrow> exc + 'a option" where
  "some_res r = res_bind r (\<lambda>x. Inr (Some x))"

definition detail_average_unit_price_with_tax :: "vdict \<Rightarrow> exc + dec option" where
  "detail_average_unit_price_with_tax row =
    (case (dec_at row F_PRETAX, dec_at row F_TAX, dec_at row F_QUANTITY) of
       (Some amount, Some tax, Some quantity) \<Rightarrow>
         unless (not_positive quantity) (\<lambda>_. unless (negative amount) (\<lambda>_. unless (negative tax) (\<lambda>_.
           some_res (res_bind (dec_add_res amount tax) (\<lambda>t. dec_div t quantity)))))
     | _ \<Rightarrow> Inr None)"

definition detail_average_unit_price :: "vdict \<Rightarrow> exc + dec option" where
  "detail_average_unit_price row =
    (case (dec_at row F_PRETAX, dec_at row F_QUANTITY) of
       (Some amount, Some quantity) \<Rightarrow>
         unless (not_positive quantity) (\<lambda>_. unless (negative amount) (\<lambda>_. some_res (dec_div amount quantity)))
     | _ \<Rightarrow> Inr None)"

definition detail_rows_with_tax_average :: "vdict list \<Rightarrow> exc + vdict list" where
  "detail_rows_with_tax_average rows = res_map (\<lambda>row.
     res_bind (detail_average_unit_price_with_tax row) (\<lambda>v. res_bind (number 2 v) (\<lambda>n. Inr (dput H_AVG_TAX n row)))) rows"

text \<open>The totals of a loop: what each row adds to the amount, and its quantity.\<close>

fun weighted_totals :: "(vdict \<Rightarrow> exc + (dec \<times> dec) option) \<Rightarrow> vdict list \<Rightarrow> dec \<times> dec \<Rightarrow> exc + (dec \<times> dec) option" where
  "weighted_totals f [] t = Inr (Some t)"
| "weighted_totals f (row # rows) t =
    res_bind (f row) (\<lambda>v. case v of None \<Rightarrow> Inr None
      | Some (a, q) \<Rightarrow> res_bind (dec_add_res (fst t) a) (\<lambda>a'. res_bind (dec_add_res (snd t) q) (\<lambda>q'. weighted_totals f rows (a', q'))))"

definition weighted_average :: "(vdict \<Rightarrow> exc + (dec \<times> dec) option) \<Rightarrow> vdict list \<Rightarrow> exc + dec option" where
  "weighted_average f rows =
    res_bind (weighted_totals f rows (dec_zero, dec_zero)) (\<lambda>t. case t of None \<Rightarrow> Inr None
      | Some (a, q) \<Rightarrow> if rows = [] then Inr None else unless (not_positive q) (\<lambda>_. some_res (dec_div a q)))"

definition pretax_and_quantity :: "vdict \<Rightarrow> exc + (dec \<times> dec) option" where
  "pretax_and_quantity row =
    (case (dec_at row F_PRETAX, dec_at row F_QUANTITY) of
       (Some amount, Some quantity) \<Rightarrow>
         unless (not_positive quantity) (\<lambda>_. unless (negative amount) (\<lambda>_. Inr (Some (amount, quantity))))
     | _ \<Rightarrow> Inr None)"

definition taxed_and_quantity :: "vdict \<Rightarrow> exc + (dec \<times> dec) option" where
  "taxed_and_quantity row =
    (case (dec_at row F_PRETAX, dec_at row F_TAX, dec_at row F_QUANTITY) of
       (Some amount, Some tax, Some quantity) \<Rightarrow>
         unless (not_positive quantity) (\<lambda>_. unless (negative amount) (\<lambda>_. unless (negative tax) (\<lambda>_.
           res_bind (dec_add_res amount tax) (\<lambda>t. Inr (Some (t, quantity))))))
     | _ \<Rightarrow> Inr None)"

definition total_and_quantity :: "vdict \<Rightarrow> exc + (dec \<times> dec) option" where
  "total_and_quantity row =
    (case (dec_at row F_TOTAL, dec_at row F_QUANTITY) of
       (Some gross, Some quantity) \<Rightarrow>
         unless (not_positive quantity) (\<lambda>_. unless (negative gross) (\<lambda>_. Inr (Some (gross, quantity))))
     | _ \<Rightarrow> Inr None)"

definition stock_average_unit_price :: "vdict list \<Rightarrow> exc + dec option" where
  "stock_average_unit_price = weighted_average pretax_and_quantity"

definition stock_average_unit_price_with_tax :: "vdict list \<Rightarrow> exc + dec option" where
  "stock_average_unit_price_with_tax = weighted_average taxed_and_quantity"

definition weighted_unit_price_with_tax_from_total :: "vdict list \<Rightarrow> exc + dec option" where
  "weighted_unit_price_with_tax_from_total = weighted_average total_and_quantity"

fun price_sum :: "(vdict \<Rightarrow> exc + dec option) \<Rightarrow> vdict list \<Rightarrow> dec \<Rightarrow> exc + dec option" where
  "price_sum f [] t = Inr (Some t)"
| "price_sum f (row # rows) t =
    res_bind (f row) (\<lambda>v. case v of None \<Rightarrow> Inr None | Some p \<Rightarrow> res_bind (dec_add_res t p) (price_sum f rows))"

definition price_mean :: "(vdict \<Rightarrow> exc + dec option) \<Rightarrow> vdict list \<Rightarrow> exc + dec option" where
  "price_mean f rows =
    res_bind (price_sum f rows dec_zero) (\<lambda>t. case t of None \<Rightarrow> Inr None
      | Some s \<Rightarrow> if rows = [] then Inr None else some_res (dec_div s (Fin False (length rows) 0)))"

definition purchase_reference_average_unit_price :: "vdict list \<Rightarrow> exc + dec option" where
  "purchase_reference_average_unit_price = price_mean detail_average_unit_price"

definition purchase_reference_average_unit_price_with_tax :: "vdict list \<Rightarrow> exc + dec option" where
  "purchase_reference_average_unit_price_with_tax = price_mean detail_average_unit_price_with_tax"

definition sum_decimal :: "vdict list \<Rightarrow> string \<Rightarrow> exc + dec" where
  "sum_decimal rows field =
    res_fold (\<lambda>row t. case dec_at row field of None \<Rightarrow> Inr t | Some d \<Rightarrow> dec_add_res t d) rows dec_zero"
section \<open>The reference markup\<close>

abbreviation dec_one :: dec where "dec_one \<equiv> Fin False 1 0"
abbreviation dec_hundred :: dec where "dec_hundred \<equiv> Fin False 100 0"

definition DEFAULT_REFERENCE_MARKUP_RATE :: dec where
  "DEFAULT_REFERENCE_MARKUP_RATE = Fin False 8 (-2)"

definition REFERENCE_OUTPUT_TAX_RATE :: dec where
  "REFERENCE_OUTPUT_TAX_RATE = Fin False 13 (-2)"

text \<open>A candidate of \<open>normalize_reference_markup_rate\<close>: \<open>None\<close> to go on with the next one.\<close>

definition markup_candidate :: "string \<Rightarrow> exc + dec option" where
  "markup_candidate candidate =
    (let t = replace1 FULL_PERCENT ''%'' (strip (replace1 nbsp '' '' candidate)); is_percent = ends_with_percent t;
         u = (if is_percent then strip (butlast t) else t)
     in if t = [] then Inr None
        else case parse_decimal u of
            None \<Rightarrow> Inr None
          | Some n \<Rightarrow>
              if \<not> is_finite n \<or> dec_less n dec_zero then Inr None
              else if is_percent \<or> dec_less dec_one n then some_res (dec_div n dec_hundred)
              else Inr (Some n))"

fun first_candidate :: "string list \<Rightarrow> exc + dec" where
  "first_candidate [] = Inr DEFAULT_REFERENCE_MARKUP_RATE"
| "first_candidate (c # cs) = res_bind (markup_candidate c) (\<lambda>v. case v of None \<Rightarrow> first_candidate cs | Some r \<Rightarrow> Inr r)"

text \<open>The arguments are \<open>str(value or "")\<close> and \<open>str(default or "")\<close>.\<close>

definition normalize_reference_markup_rate :: "string \<Rightarrow> string \<Rightarrow> exc + dec" where
  "normalize_reference_markup_rate value dflt =
     first_candidate [value, dflt, dec_or_empty DEFAULT_REFERENCE_MARKUP_RATE]"

abbreviation default_rate_text :: string where
  "default_rate_text \<equiv> dec_or_empty DEFAULT_REFERENCE_MARKUP_RATE"

text \<open>\<open>(?:[0-9]+(?:\.[0-9]*)?|\.[0-9]+)\<close>\<close>

definition unsigned_number :: "string \<Rightarrow> bool" where
  "unsigned_number t \<longleftrightarrow>
    (let i = takeWhile is_digit t; r = dropWhile is_digit t
     in (i \<noteq> [] \<and> (r = [] \<or> (hd r = CHR ''.'' \<and> list_all is_digit (tl r))))
        \<or> (i = [] \<and> r \<noteq> [] \<and> hd r = CHR ''.'' \<and> tl r \<noteq> [] \<and> list_all is_digit (tl r)))"

definition normalize_reference_markup_percent :: "pyval \<Rightarrow> exc + dec" where
  "normalize_reference_markup_percent v =
    (let t = replace1 FULL_PERCENT ''%'' (clean_text v); u = (if ends_with_percent t then strip (butlast t) else t)
     in if \<not> unsigned_number u then Inl (ValueError ''the markup is not a number'' [])
        else case parse_decimal u of
            None \<Rightarrow> Inl (ValueError ''the markup is not a number'' [])
          | Some n \<Rightarrow> if \<not> is_finite n \<or> dec_less n dec_zero then Inl (ValueError ''the markup is not a number'' [])
                      else dec_div n dec_hundred)"

text \<open>These take a rate as a \<open>Decimal\<close> and normalize it again.\<close>

definition renormalized :: "dec \<Rightarrow> exc + dec" where
  "renormalized rate = normalize_reference_markup_rate (dec_or_empty rate) default_rate_text"

definition reference_markup_multiplier :: "dec \<Rightarrow> exc + dec" where
  "reference_markup_multiplier rate = res_bind (renormalized rate) (\<lambda>r. dec_add_res dec_one r)"

definition reference_markup_percent_text :: "dec \<Rightarrow> exc + string" where
  "reference_markup_percent_text rate =
     res_bind (renormalized rate) (\<lambda>r. res_bind (dec_mul r dec_hundred) (\<lambda>n. decimal_text 3 (Some n)))"

definition reference_markup_display :: "dec \<Rightarrow> exc + string" where
  "reference_markup_display rate = res_bind (reference_markup_percent_text rate) (\<lambda>t. Inr (t @ ''%''))"

text \<open>\<open>fold\<close> is \<open>str.casefold\<close>.\<close>

definition cost_truthy :: "(string \<Rightarrow> string) \<Rightarrow> pyval \<Rightarrow> bool" where
  "cost_truthy cf v =
    (case v of VBool b \<Rightarrow> b
     | _ \<Rightarrow> cf (clean_text v) \<in> {''1'', ''true'', ''yes'', ''y'', ''locked'', S_LOCKED, S_LOCK})"

record markup_meta =
  mk_rate :: dec
  mk_display :: string
  mk_percent :: string
  mk_locked :: bool

definition markup_of_rate :: "dec \<Rightarrow> bool \<Rightarrow> exc + markup_meta" where
  "markup_of_rate rate locked =
    res_bind (reference_markup_display rate) (\<lambda>d. res_bind (reference_markup_percent_text rate) (\<lambda>p.
      Inr \<lparr>mk_rate = rate, mk_display = d, mk_percent = p, mk_locked = locked\<rparr>))"

definition row_markup_rate :: "vdict \<Rightarrow> dec \<Rightarrow> exc + dec" where
  "row_markup_rate item fallback =
    res_bind (renormalized fallback) (\<lambda>rate.
    if cell item ''reference_markup_rate_percent'' \<noteq> []
    then normalize_reference_markup_percent (get_val item ''reference_markup_rate_percent'')
    else if cell item ''reference_markup_rate'' \<noteq> []
    then normalize_reference_markup_rate (str_or_empty (get_val item ''reference_markup_rate'')) (dec_or_empty fallback)
    else if cell item ''markup_rate'' \<noteq> []
    then normalize_reference_markup_rate (str_or_empty (get_val item ''markup_rate'')) (dec_or_empty fallback)
    else Inr rate)"

definition row_markup_meta :: "(string \<Rightarrow> string) \<Rightarrow> vdict \<Rightarrow> dec \<Rightarrow> bool \<Rightarrow> exc + markup_meta" where
  "row_markup_meta cf item fallback locked =
    res_bind (row_markup_rate item fallback) (\<lambda>rate.
      markup_of_rate rate (cost_truthy cf (get_default item ''reference_markup_locked'' (VBool locked))))"

definition reference_output_average_unit_price_with_tax :: "dec option \<Rightarrow> dec \<Rightarrow> exc + dec option" where
  "reference_output_average_unit_price_with_tax avg rate =
    (case avg of None \<Rightarrow> Inr None
     | Some p \<Rightarrow> res_bind (reference_markup_multiplier rate) (\<lambda>m. res_bind (dec_mul p m) (\<lambda>r.
         res_bind (dec_add_res dec_one REFERENCE_OUTPUT_TAX_RATE) (\<lambda>f. some_res (dec_mul r f)))))"

section \<open>Invoiced parts\<close>

definition clamp_decimal :: "dec \<Rightarrow> dec \<Rightarrow> dec \<Rightarrow> exc + dec" where
  "clamp_decimal v lo hi =
    res_bind (lt_res v lo) (\<lambda>low. if low then Inr lo else res_bind (lt_res hi v) (\<lambda>high. Inr (if high then hi else v)))"

definition invoice_status :: "dec \<Rightarrow> dec \<Rightarrow> exc + string" where
  "invoice_status quantity invoiced =
    res_bind (not_positive invoiced) (\<lambda>none. if none then Inr S_NOT_INVOICED
    else res_bind (lt_res dec_zero quantity) (\<lambda>pos. res_bind (if pos then le_res quantity invoiced else Inr False) (\<lambda>done.
      Inr (if done then S_INVOICED else S_PARTLY))))"

definition ratio_part :: "dec \<Rightarrow> dec \<Rightarrow> dec \<Rightarrow> exc + dec" where
  "ratio_part v quantity part =
    res_bind (not_positive quantity) (\<lambda>q. res_bind (if q then Inr True else not_positive part) (\<lambda>none.
      if none then Inr dec_zero else res_bind (dec_mul v part) (\<lambda>m. dec_div m quantity)))"

text \<open>\<open>max(value, Decimal("0"))\<close>\<close>

definition max_zero :: "dec \<Rightarrow> exc + dec" where
  "max_zero v = res_bind (lt_res v dec_zero) (\<lambda>neg. Inr (if neg then dec_zero else v))"

definition locked_reference_part :: "vdict \<Rightarrow> string \<Rightarrow> dec \<Rightarrow> dec \<Rightarrow> dec \<Rightarrow> exc + dec" where
  "locked_reference_part item field current_total quantity invoiced =
    res_bind (not_positive invoiced) (\<lambda>none. if none then Inr dec_zero
    else case dec_at item field of
        Some v \<Rightarrow> max_zero v
      | None \<Rightarrow> ratio_part current_total quantity invoiced)"

definition dec_sub_res :: "dec \<Rightarrow> dec \<Rightarrow> exc + dec" where
  "dec_sub_res a b = dec_add_res a (dec_neg b)"

definition remaining_reference_part :: "dec \<Rightarrow> dec \<Rightarrow> exc + dec" where
  "remaining_reference_part current_total locked =
    res_bind (dec_sub_res current_total locked) (\<lambda>r. res_bind (not_positive r) (\<lambda>none. Inr (if none then dec_zero else r)))"

end
