(* ===== verification/Cost_Reports.thy ===== *)
theory Cost_Reports
  imports Cost_Numbers
begin

text \<open>
  The tables of \<open>projections/cost_analysis.py\<close> over the cost rows: the check of each invoice against its
  rows, the summaries by seller, by specification and by reference, the breakdown of one invoice and of a
  selection, and the lookup of the saved status of a reference.

  A row of a table is built column by column (\<open>build_row\<close>): the first number that cannot be written
  raises. Two rows of the cost table are told apart by their position, as the code does by identity.
  \<open>cf\<close> is \<open>str.casefold\<close> and \<open>canonical\<close> the resolved text of a path.
\<close>

section \<open>Tables\<close>

definition build_row :: "(string \<times> (exc + pyval)) list \<Rightarrow> exc + vdict" where
  "build_row columns = res_map (\<lambda>p. res_bind (snd p) (\<lambda>v. Inr (fst p, v))) columns"

definition str_col :: "string \<Rightarrow> string \<Rightarrow> string \<times> (exc + pyval)" where
  "str_col k t = (k, Inr (VStr t))"

definition num_col :: "string \<Rightarrow> nat \<Rightarrow> exc + dec option \<Rightarrow> string \<times> (exc + pyval)" where
  "num_col k p v = (k, res_bind v (number p))"

text \<open>\<open>sorted(groups.items())\<close> of the rows grouped by a key.\<close>

definition group_by :: "('r \<Rightarrow> 'k::linorder) \<Rightarrow> 'r list \<Rightarrow> ('k \<times> 'r list) list" where
  "group_by key rows = map (\<lambda>k. (k, filter (\<lambda>r. key r = k) rows)) (sort (dedup (map key rows)))"

definition cells :: "string list \<Rightarrow> vdict \<Rightarrow> string list" where
  "cells ks row = map (cell row) ks"

definition distinct_cells :: "vdict list \<Rightarrow> string \<Rightarrow> string list" where
  "distinct_cells rows k = dedup (filter (\<lambda>t. t \<noteq> []) (map (\<lambda>r. cell r k) rows))"

section \<open>The check of an invoice\<close>

text \<open>\<open>a or b\<close>\<close>

definition val_or :: "pyval \<Rightarrow> pyval \<Rightarrow> pyval" where
  "val_or a b = (if truthy a then a else b)"

record cost_check =
  cc_invoice_amount :: "dec option"
  cc_invoice_tax :: "dec option"
  cc_parsed_amount :: dec
  cc_parsed_tax :: dec
  cc_amount_ok :: bool
  cc_tax_ok :: bool
  cc_issue :: string

definition cc_score :: "cost_check \<Rightarrow> nat" where
  "cc_score c = (if cc_amount_ok c then 1 else 0) + (if cc_tax_ok c then 1 else 0)"

definition values_complete :: "vdict list \<Rightarrow> string \<Rightarrow> bool" where
  "values_complete rows k \<longleftrightarrow> rows \<noteq> [] \<and> list_all (\<lambda>r. dec_at r k \<noteq> None) rows"

definition within_tolerance :: "dec option \<Rightarrow> bool \<Rightarrow> dec \<Rightarrow> exc + bool" where
  "within_tolerance expected full parsed =
    (case expected of None \<Rightarrow> Inr False
     | Some d \<Rightarrow> if \<not> full then Inr False
                else res_bind (dec_sub_res parsed d) (\<lambda>x. le_res (dec_abs x) (Fin False 2 (-2))))"

definition side_issue :: "dec option \<Rightarrow> bool \<Rightarrow> bool \<Rightarrow> string \<Rightarrow> string \<Rightarrow> string \<Rightarrow> string list" where
  "side_issue expected full ok missing row_missing differs =
    (if expected = None then [missing] else if \<not> full then [row_missing] else if \<not> ok then [differs] else [])"

definition cost_validation :: "vdict list \<Rightarrow> vdict \<Rightarrow> exc + cost_check" where
  "cost_validation rows invoice =
    (let amount = to_decimal (val_or (get_val invoice H_HEAD_PRETAX) (get_val invoice H_EX_TAX));
         tax = to_decimal (val_or (get_val invoice H_HEAD_TAX) (get_val invoice F_TAX));
         amounts = values_complete rows F_PRETAX; taxes = values_complete rows F_TAX
     in res_bind (sum_decimal rows F_PRETAX) (\<lambda>parsed_amount.
        res_bind (sum_decimal rows F_TAX) (\<lambda>parsed_tax.
        res_bind (within_tolerance amount amounts parsed_amount) (\<lambda>amount_ok.
        res_bind (within_tolerance tax taxes parsed_tax) (\<lambda>tax_ok.
          Inr \<lparr>cc_invoice_amount = amount, cc_invoice_tax = tax, cc_parsed_amount = parsed_amount,
            cc_parsed_tax = parsed_tax, cc_amount_ok = amount_ok, cc_tax_ok = tax_ok,
            cc_issue = join FULL_SEMICOLON
              (if rows = [] then [M_NO_ROWS]
               else side_issue amount amounts amount_ok M_HEAD_AMOUNT M_ROW_AMOUNT M_AMOUNT_DIFF
                 @ side_issue tax taxes tax_ok M_HEAD_TAX M_ROW_TAX M_TAX_DIFF)\<rparr>)))))"

fun split_uchars :: "string \<Rightarrow> string list \<Rightarrow> string list list" where
  "split_uchars sep [] = [[]]"
| "split_uchars sep (x # xs) =
    (if x = sep then [] # split_uchars sep xs
     else case split_uchars sep xs of [] \<Rightarrow> [[x]] | y # ys \<Rightarrow> (x # y) # ys)"

definition merge_issue_text :: "string list \<Rightarrow> string" where
  "merge_issue_text texts = join FULL_SEMICOLON (dedup (filter (\<lambda>t. t \<noteq> [])
     (map strip (concat (map (\<lambda>t. map concat (split_uchars FULL_SEMICOLON (uchars t))) texts)))))"

record cost_analysis =
  ca_source :: string
  ca_rows :: "vdict list"
  ca_invoice :: vdict
  ca_status :: string
  ca_message :: string
  ca_amount_ok :: bool
  ca_tax_ok :: bool
  ca_score :: nat
  ca_source_format :: string
  ca_source_path :: string

definition finalize_cost_analysis :: "cost_analysis \<Rightarrow> exc + cost_analysis" where
  "finalize_cost_analysis a =
    res_bind (cost_validation (ca_rows a) (ca_invoice a)) (\<lambda>v.
    let r = a\<lparr>ca_amount_ok := cc_amount_ok v, ca_tax_ok := cc_tax_ok v, ca_score := cc_score v\<rparr>
    in if ca_status a \<in> {''failed'', ''skipped''} then Inr r
       else Inr (r\<lparr>ca_invoice := ddel ''_detail_parse_issue'' (ca_invoice a),
         ca_status := (if cc_score v = 2 then ''ok'' else ''needs_review''),
         ca_message := merge_issue_text [ca_message a, gets (ca_invoice a) ''_detail_parse_issue'', cc_issue v]\<rparr>))"

definition diff_of :: "dec \<Rightarrow> dec option \<Rightarrow> exc + dec option" where
  "diff_of parsed expected = (case expected of None \<Rightarrow> Inr None | Some d \<Rightarrow> some_res (dec_sub_res parsed d))"

definition check_status :: "cost_check \<Rightarrow> vdict \<Rightarrow> string" where
  "check_status v invoice =
    (if cc_amount_ok v \<and> cc_tax_ok v \<and> cell invoice H_CLASS_STATUS = ''ok'' then S_PASSED else S_REVIEW)"

definition class_issue :: "vdict \<Rightarrow> string" where
  "class_issue invoice =
    (if cell invoice H_CLASS_STATUS \<noteq> ''ok'' \<and> cell invoice H_CLASS_ISSUE = [] then M_CLASS else cell invoice H_CLASS_ISSUE)"

definition check_row :: "vdict list \<Rightarrow> cost_analysis \<Rightarrow> exc + vdict" where
  "check_row rows a =
    (let invoice = ca_invoice a; source = strip (replace1 nbsp '' '' (ca_source a));
         detail = filter (\<lambda>r. cell r F_FILE = source) rows
     in res_bind (cost_validation detail invoice) (\<lambda>v. build_row
       [str_col F_FILE source,
        (H_CATEGORY, Inr (get_default invoice H_CATEGORY (VStr []))), (H_BUSINESS, Inr (get_default invoice H_BUSINESS (VStr []))),
        (H_CLASS_STATUS, Inr (get_default invoice H_CLASS_STATUS (VStr []))), (H_CLASS_ISSUE, Inr (get_default invoice H_CLASS_ISSUE (VStr []))),
        (F_SELLER, Inr (get_default invoice F_SELLER (VStr []))), (F_INVOICE_NO, Inr (get_default invoice F_INVOICE_NO (VStr []))),
        (F_DATE, Inr (val_or (get_default invoice F_DATE (VStr [])) (get_default invoice H_OPEN_TIME (VStr [])))),
        (H_DETAIL_COUNT, Inr (VInt (int (length detail)))),
        num_col H_HEAD_PRETAX 2 (Inr (cc_invoice_amount v)), num_col H_PARSED_PRETAX 2 (Inr (Some (cc_parsed_amount v))),
        num_col H_DIFF_PRETAX 2 (diff_of (cc_parsed_amount v) (cc_invoice_amount v)),
        num_col H_HEAD_TAX 2 (Inr (cc_invoice_tax v)), num_col H_PARSED_TAX 2 (Inr (Some (cc_parsed_tax v))),
        num_col H_DIFF_TAX 2 (diff_of (cc_parsed_tax v) (cc_invoice_tax v)),
        num_col F_TOTAL 2 (some_res (sum_decimal detail F_TOTAL)),
        str_col H_CHECK_STATUS (check_status v invoice),
        str_col H_MESSAGE (merge_issue_text [ca_message a, cc_issue v, class_issue invoice])]))"

definition check_rows :: "vdict list \<Rightarrow> cost_analysis list \<Rightarrow> exc + vdict list" where
  "check_rows rows analyses = res_map (check_row rows) analyses"

section \<open>Summaries\<close>

definition sum_col :: "string \<Rightarrow> nat \<Rightarrow> vdict list \<Rightarrow> string \<Rightarrow> string \<times> (exc + pyval)" where
  "sum_col k p rows field = num_col k p (some_res (sum_decimal rows field))"

definition seller_of :: "vdict \<Rightarrow> string" where
  "seller_of row = (if cell row F_SELLER = [] then S_NO_SELLER else cell row F_SELLER)"

definition seller_summary :: "vdict list \<Rightarrow> exc + vdict list" where
  "seller_summary rows = res_map (\<lambda>(seller, g). build_row
     [str_col F_SELLER seller, (H_INVOICE_COUNT, Inr (VInt (int (length (distinct_cells g F_INVOICE_NO))))),
      (H_DETAIL_COUNT, Inr (VInt (int (length g)))), sum_col H_QUANTITY_SUM 3 g F_QUANTITY,
      sum_col H_PRETAX_SUM 2 g F_PRETAX, sum_col H_TAX_SUM 2 g F_TAX, sum_col F_TOTAL 2 g F_TOTAL]) (group_by seller_of rows)"

definition spec_keys :: "string list" where
  "spec_keys = [F_SELLER, F_INVOICE_CODE, F_PROJECT, F_MODEL, F_UNIT]"

definition project_spec_summary :: "vdict list \<Rightarrow> exc + vdict list" where
  "project_spec_summary rows = res_map (\<lambda>(key, g). build_row
     (map2 str_col spec_keys key
      @ [sum_col H_QUANTITY_SUM 3 g F_QUANTITY,
         num_col H_AVG 2 (stock_average_unit_price g), num_col H_AVG_TAX 2 (stock_average_unit_price_with_tax g),
         num_col H_STOCK_AVG 2 (stock_average_unit_price g), num_col H_STOCK_AVG_TAX 2 (stock_average_unit_price_with_tax g),
         num_col H_PURCHASE_AVG_TAX 2 (purchase_reference_average_unit_price_with_tax g),
         sum_col H_PRETAX_SUM 2 g F_PRETAX, sum_col H_TAX_SUM 2 g F_TAX, sum_col F_TOTAL 2 g F_TOTAL,
         str_col H_INVOICES (join '','' (sort (distinct_cells g F_INVOICE_NO)))])) (group_by (cells spec_keys) rows)"

section \<open>References\<close>

definition reference_key_values :: "string list \<Rightarrow> string list" where
  "reference_key_values vs = map (\<lambda>v. strip (collapse_space (strip (replace1 nbsp '' '' v)))) vs"

definition reference_key :: "string list \<Rightarrow> string" where
  "reference_key vs = sha1 (join [CHR 0x1F] (reference_key_values vs))"

definition legacy_plain_reference_key :: "string list \<Rightarrow> string" where
  "legacy_plain_reference_key vs = join ''|'' (map (\<lambda>v. strip (replace1 nbsp '' '' v)) vs)"

type_synonym status_items = "vdict dict"

definition reference_status_item :: "status_items \<Rightarrow> string \<Rightarrow> string list \<Rightarrow> vdict" where
  "reference_status_item items key vs =
    (case filter (\<lambda>k. dget items k \<noteq> None) [key, legacy_plain_reference_key vs, join ''|'' (reference_key_values vs)] of
       [] \<Rightarrow> [] | k # ks \<Rightarrow> the (dget items k))"

definition ref_keys :: "string list" where
  "ref_keys = [F_INVOICE_CODE, F_PROJECT, F_MODEL, F_UNIT]"

text \<open>\<open>_to_decimal(...) or Decimal("0")\<close>\<close>

definition dec_or_zero :: "dec option \<Rightarrow> dec" where
  "dec_or_zero v = (case v of None \<Rightarrow> dec_zero | Some d \<Rightarrow> if is_zero d then dec_zero else d)"

record reference_amounts =
  ra_quantity :: dec
  ra_invoiced :: dec
  ra_uninvoiced :: dec
  ra_status :: string
  ra_unit_price :: "dec option"
  ra_unit_price_with_tax :: "dec option"
  ra_amount :: dec
  ra_tax :: dec
  ra_total :: dec
  ra_invoiced_amount :: dec
  ra_invoiced_tax :: dec
  ra_invoiced_total :: dec
  ra_rest_amount :: dec
  ra_rest_tax :: dec
  ra_rest_total :: dec

definition positive :: "dec \<Rightarrow> exc + bool" where
  "positive d = lt_res dec_zero d"

text \<open>The amount, tax and total of the reference for a quantity at the average price.\<close>

definition reference_totals :: "dec option \<Rightarrow> dec \<Rightarrow> dec \<Rightarrow> exc + dec \<times> dec \<times> dec" where
  "reference_totals avg quantity multiplier =
    res_bind (case avg of None \<Rightarrow> Inr dec_zero
      | Some p \<Rightarrow> res_bind (positive quantity) (\<lambda>pos. if pos then dec_mul p quantity else Inr dec_zero)) (\<lambda>base.
    res_bind (dec_mul base multiplier) (\<lambda>amount.
    res_bind (dec_mul amount REFERENCE_OUTPUT_TAX_RATE) (\<lambda>tax.
    res_bind (dec_add_res amount tax) (\<lambda>gross. Inr (amount, tax, gross)))))"

definition invoiced_within :: "vdict \<Rightarrow> dec \<Rightarrow> exc + dec" where
  "invoiced_within item quantity =
    res_bind (positive quantity) (\<lambda>pos.
      clamp_decimal (dec_or_zero (dec_at item ''invoiced_quantity'')) dec_zero (if pos then quantity else dec_zero))"

definition price_times :: "dec option \<Rightarrow> dec \<Rightarrow> exc + dec option" where
  "price_times avg m = (case avg of None \<Rightarrow> Inr None | Some p \<Rightarrow> some_res (dec_mul p m))"

definition reference_amounts_of :: "vdict list \<Rightarrow> vdict \<Rightarrow> dec \<Rightarrow> exc + reference_amounts" where
  "reference_amounts_of g item rate =
    res_bind (sum_decimal g F_QUANTITY) (\<lambda>quantity.
    res_bind (sum_decimal g F_PRETAX) (\<lambda>_.
    res_bind (stock_average_unit_price g) (\<lambda>avg.
    res_bind (reference_markup_multiplier rate) (\<lambda>multiplier.
    res_bind (reference_output_average_unit_price_with_tax avg rate) (\<lambda>taxed_price.
    res_bind (reference_totals avg quantity multiplier) (\<lambda>(amount, tax, gross).
    res_bind (invoiced_within item quantity) (\<lambda>invoiced.
    res_bind (dec_sub_res quantity invoiced) (\<lambda>uninvoiced.
    res_bind (invoice_status quantity invoiced) (\<lambda>status.
    res_bind (locked_reference_part item ''invoiced_reference_amount'' amount quantity invoiced) (\<lambda>locked_amount.
    res_bind (locked_reference_part item ''invoiced_reference_tax'' tax quantity invoiced) (\<lambda>locked_tax.
    res_bind (locked_reference_part item ''invoiced_reference_total_with_tax'' gross quantity invoiced) (\<lambda>locked_total.
    res_bind (remaining_reference_part amount locked_amount) (\<lambda>rest_amount.
    res_bind (remaining_reference_part tax locked_tax) (\<lambda>rest_tax.
    res_bind (remaining_reference_part gross locked_total) (\<lambda>rest_total.
    res_bind (price_times avg multiplier) (\<lambda>price.
      Inr \<lparr>ra_quantity = quantity, ra_invoiced = invoiced, ra_uninvoiced = uninvoiced, ra_status = status,
        ra_unit_price = price, ra_unit_price_with_tax = taxed_price, ra_amount = amount, ra_tax = tax, ra_total = gross,
        ra_invoiced_amount = locked_amount, ra_invoiced_tax = locked_tax, ra_invoiced_total = locked_total,
        ra_rest_amount = rest_amount, ra_rest_tax = rest_tax, ra_rest_total = rest_total\<rparr>))))))))))))))))"

definition reference_row :: "(string \<Rightarrow> string) \<Rightarrow> status_items \<Rightarrow> dec \<Rightarrow> string list \<times> vdict list \<Rightarrow> exc + vdict" where
  "reference_row cf items fallback kg =
    (let key = fst kg; item = reference_status_item items (reference_key key) key
     in res_bind (row_markup_meta cf item fallback False) (\<lambda>markup.
        res_bind (reference_amounts_of (snd kg) item (mk_rate markup)) (\<lambda>r. build_row
          (map2 str_col ref_keys key
           @ [num_col H_QUANTITY_SUM 3 (Inr (Some (ra_quantity r))), num_col H_INVOICED 3 (Inr (Some (ra_invoiced r))),
              num_col H_UNINVOICED 3 (Inr (Some (ra_uninvoiced r))), str_col H_STATUS (ra_status r),
              num_col H_AVG 2 (Inr (ra_unit_price r)), num_col H_AVG_TAX 2 (Inr (ra_unit_price_with_tax r)),
              num_col H_PRETAX_SUM 2 (Inr (Some (ra_amount r))), num_col H_TAX_SUM 2 (Inr (Some (ra_tax r))),
              num_col F_TOTAL 2 (Inr (Some (ra_total r))), num_col H_INVOICED_TOTAL 2 (Inr (Some (ra_invoiced_total r))),
              num_col H_REST_AMOUNT 2 (Inr (Some (ra_rest_amount r))), num_col H_REST_TAX 2 (Inr (Some (ra_rest_tax r))),
              num_col H_REST_TOTAL 2 (Inr (Some (ra_rest_total r))), str_col H_MARKUP (mk_display markup),
              str_col H_UPDATED (cell item ''updated_at'')]))))"

definition invoice_reference_summary ::
  "(string \<Rightarrow> string) \<Rightarrow> vdict list \<Rightarrow> status_items \<Rightarrow> string \<Rightarrow> exc + vdict list" where
  "invoice_reference_summary cf rows items rate =
    res_bind (normalize_reference_markup_rate rate default_rate_text) (\<lambda>fallback.
      res_map (reference_row cf items fallback) (group_by (cells ref_keys) rows))"

end
