(* ===== verification/Cost_Build.thy ===== *)
theory Cost_Build
  imports Cost_Reports "HOL-Library.Product_Lexorder"
begin

text \<open>
  The rest of \<open>projections/cost_analysis.py\<close>: the breakdown of an invoice and of a selection of invoices,
  the saved status of the references and its merge with the workbook, the choice among the files of one
  invoice, and \<open>build_cost_analysis_outputs\<close>.

  Reading a PDF, OFD or XML file (\<open>analyze_cost_invoice\<close> before its last step) is the parameter
  \<open>analyze\<close>, and what \<open>pathlib\<close> says of a path is a \<open>source_file\<close>. A sheet of the workbook is the list of
  its rows. Progress callbacks are left out.
\<close>

section \<open>Breakdowns\<close>

definition first_part_after_slash :: "string \<Rightarrow> string" where
  "first_part_after_slash t = rev (takeWhile (\<lambda>c. c \<noteq> CHR ''/'') (rev t))"

definition backslash :: string where
  "backslash = [CHR 0x5C]"

text \<open>The tokens of a path: itself and its last part, as written and resolved.\<close>

definition path_tokens :: "string \<Rightarrow> string list" where
  "path_tokens t = [t, first_part_after_slash (rstrip_char CHR ''/'' t)]"

definition source_match_tokens :: "(string \<Rightarrow> string) \<Rightarrow> (string \<Rightarrow> string) \<Rightarrow> pyval list \<Rightarrow> string list" where
  "source_match_tokens cf canonical vs = filter (\<lambda>t. t \<noteq> []) (concat (map (\<lambda>v.
     let t = clean_text v; c = cf (replace1 backslash ''/'' (canonical t))
     in if t = [] then []
        else path_tokens (cf (replace1 backslash ''/'' t)) @ (if c = [] then [] else path_tokens c)) vs))"

type_synonym placed_rows = "(nat \<times> vdict) list"

definition match_invoice_cost_rows ::
  "(string \<Rightarrow> string) \<Rightarrow> (string \<Rightarrow> string) \<Rightarrow> placed_rows \<Rightarrow> pyval list \<Rightarrow> pyval list \<Rightarrow> placed_rows \<times> string" where
  "match_invoice_cost_rows cf canonical rows invoice_numbers source_values =
    (let numbers = filter (\<lambda>t. t \<noteq> []) (map clean_text invoice_numbers);
         by_number = filter (\<lambda>r. cell (snd r) F_INVOICE_NO \<in> set numbers) rows;
         tokens = source_match_tokens cf canonical source_values;
         by_source = filter (\<lambda>r. set (source_match_tokens cf canonical [get_val (snd r) F_FILE]) \<inter> set tokens \<noteq> {}) rows
     in if by_number \<noteq> [] then (by_number, ''invoice_number'')
        else if tokens \<noteq> [] \<and> by_source \<noteq> [] then (by_source, ''source_file'')
        else ([], ''none''))"

definition breakdown_spec_keys :: "string list" where
  "breakdown_spec_keys = [F_PROJECT, F_MODEL, F_UNIT]"

definition spec_breakdown :: "string list \<times> vdict list \<Rightarrow> exc + vdict" where
  "spec_breakdown kg = build_row
     (map2 str_col [''project_name'', ''specification'', ''unit''] (fst kg)
      @ [sum_col ''quantity_total'' 3 (snd kg) F_QUANTITY,
         num_col ''arithmetic_average_unit_price_pretax'' 2 (purchase_reference_average_unit_price (snd kg)),
         num_col ''arithmetic_average_unit_price_with_tax'' 2 (purchase_reference_average_unit_price_with_tax (snd kg)),
         num_col ''weighted_average_unit_price_pretax'' 2 (stock_average_unit_price (snd kg)),
         num_col ''weighted_average_unit_price_with_tax'' 2 (weighted_unit_price_with_tax_from_total (snd kg))])"

definition project_columns :: "string \<Rightarrow> vdict list \<Rightarrow> (string \<times> (exc + pyval)) list" where
  "project_columns project_name rows =
     [str_col ''project_name'' project_name,
      str_col ''display_project_name'' (if project_name = [] then S_NO_PROJECT else project_name),
      sum_col ''quantity_total'' 3 rows F_QUANTITY, sum_col ''amount_pretax_total'' 2 rows F_PRETAX,
      sum_col ''total_with_tax'' 2 rows F_TOTAL,
      (''specs'', res_bind (res_map spec_breakdown (group_by (cells breakdown_spec_keys) rows)) (\<lambda>xs. Inr (VList (map VDict xs))))]"

definition cost_project_breakdown :: "string \<Rightarrow> vdict list \<Rightarrow> exc + vdict" where
  "cost_project_breakdown project_name rows = build_row (project_columns project_name rows)"

definition invoice_cost_breakdown ::
  "(string \<Rightarrow> string) \<Rightarrow> (string \<Rightarrow> string) \<Rightarrow> (string \<Rightarrow> string) \<Rightarrow> vdict list \<Rightarrow> pyval \<Rightarrow> pyval \<Rightarrow> pyval \<Rightarrow> exc + vdict" where
  "invoice_cost_breakdown cf canonical path_name rows invoice_number source_path source_file =
    (let number = clean_text invoice_number;
         (found, strategy) = match_invoice_cost_rows cf canonical (enumerate 0 rows) [VStr number] [source_path, source_file];
         source = (if clean_text source_file \<noteq> [] then clean_text source_file else path_name (clean_text source_path));
         head = [str_col ''match_strategy'' strategy, str_col ''invoice_number'' number, str_col ''source_file'' source,
           (''detail_count'', Inr (VInt (int (length found))))]
     in if found = [] then build_row ((''available'', Inr (VBool False)) # head @ [(''projects'', Inr (VList []))])
        else res_bind (res_map (\<lambda>(p, g). cost_project_breakdown p g) (group_by (\<lambda>r. cell r F_PROJECT) (map snd found))) (\<lambda>projects.
          build_row ((''available'', Inr (VBool True)) # head @ [(''projects'', Inr (VList (map VDict projects)))])))"

text \<open>The rows of each family in turn, each row once; how many families matched, and how.\<close>

definition add_family ::
  "(string \<Rightarrow> string) \<Rightarrow> (string \<Rightarrow> string) \<Rightarrow> placed_rows \<Rightarrow> vdict \<Rightarrow> placed_rows \<times> nat \<times> nat \<times> nat \<Rightarrow> placed_rows \<times> nat \<times> nat \<times> nat" where
  "add_family cf canonical rows family st =
    (case st of (acc, matched, numbers, sources) \<Rightarrow>
     let list_at = (\<lambda>k. case get_val family k of VList xs \<Rightarrow> xs | _ \<Rightarrow> []);
         (found, strategy) = match_invoice_cost_rows cf canonical rows (list_at ''invoice_numbers'')
           (list_at ''source_paths'' @ list_at ''source_files'')
     in if found = [] then st
        else (acc @ filter (\<lambda>r. fst r \<notin> set (map fst acc)) found, matched + 1,
              numbers + (if strategy = ''invoice_number'' then 1 else 0), sources + (if strategy = ''source_file'' then 1 else 0)))"

definition rate_order :: "string \<times> string \<Rightarrow> string list" where
  "rate_order p = [fst p, if snd p = [] then cp [0xFFFF] else snd p]"

definition selection_cost_breakdown ::
  "(string \<Rightarrow> string) \<Rightarrow> (string \<Rightarrow> string) \<Rightarrow> vdict list \<Rightarrow> vdict list \<Rightarrow> exc + vdict" where
  "selection_cost_breakdown cf canonical rows families =
    (case fold (add_family cf canonical (enumerate 0 rows)) families ([], 0, 0, 0) of (placed, matched, numbers, sources) \<Rightarrow>
     let found = map snd placed
     in res_bind (res_map (\<lambda>r. res_bind (tax_rate_text (get_val r F_RATE)) (\<lambda>rate. Inr ((cell r F_PROJECT, rate), r))) found) (\<lambda>keyed.
        let groups = map (\<lambda>k. (k, map snd (filter (\<lambda>q. fst q = k) keyed))) (sort_key rate_order (dedup (map fst keyed)))
        in res_bind (res_map (\<lambda>(k, g). build_row (project_columns (fst k) g
             @ [str_col ''tax_rate'' (snd k), str_col ''display_tax_rate'' (if snd k = [] then S_NO_RATE else snd k)])) groups) (\<lambda>projects.
          build_row [(''available'', Inr (VBool (found \<noteq> []))), (''matched_invoice_count'', Inr (VInt (int matched))),
            (''unmatched_invoice_count'', Inr (VInt (max 0 (int (length families) - int matched)))),
            (''detail_count'', Inr (VInt (int (length found)))),
            (''match_strategy_counts'', Inr (VDict [(''invoice_number'', VInt (int numbers)), (''source_file'', VInt (int sources))])),
            (''projects'', Inr (VList (map VDict projects)))])))"

section \<open>The saved status\<close>

definition fill_from :: "(string \<times> string) \<Rightarrow> vdict \<Rightarrow> vdict" where
  "fill_from p d = (if cell d (snd p) = [] \<and> cell d (fst p) \<noteq> [] then dput (snd p) (get_val d (fst p)) d else d)"

definition status_aliases :: "(string \<times> string) list" where
  "status_aliases =
    [(''locked_reference_amount'', ''invoiced_reference_amount''),
     (''locked_reference_tax_amount'', ''invoiced_reference_tax''),
     (''locked_reference_total_with_tax'', ''invoiced_reference_total_with_tax'')]"

definition put_default :: "string \<Rightarrow> pyval \<Rightarrow> vdict \<Rightarrow> vdict" where
  "put_default k v d = (if dget d k = None then dput k v d else d)"

definition normalized_status :: "string \<Rightarrow> vdict \<Rightarrow> vdict" where
  "normalized_status key item =
     fill_from (''markup_rate'', ''reference_markup_rate'')
       (fold fill_from status_aliases (put_default ''reference_key'' (VStr key) item))"

definition load_status_item :: "string \<times> pyval \<Rightarrow> status_items \<Rightarrow> status_items" where
  "load_status_item p items =
    (case snd p of
       VDict item \<Rightarrow>
         (let key = (if cell item ''reference_key'' \<noteq> [] then cell item ''reference_key'' else strip (replace1 nbsp '' '' (fst p)))
          in if key = [] then items else dput key (normalized_status key item) items)
     | _ \<Rightarrow> items)"

definition load_reference_status :: "store_file \<Rightarrow> status_items" where
  "load_reference_status f =
    (case f of
       File b (Some (VDict d)) \<Rightarrow> (case get_val d ''items'' of VDict raw \<Rightarrow> fold load_status_item raw [] | _ \<Rightarrow> [])
     | _ \<Rightarrow> [])"

definition reference_status_payload :: "string \<Rightarrow> status_items \<Rightarrow> dec \<Rightarrow> bool \<Rightarrow> exc + vdict" where
  "reference_status_payload now items rate locked =
    res_bind (renormalized rate) (\<lambda>r. build_row
      [(''version'', Inr (VInt 1)), str_col ''updated_at'' now,
       (''reference_markup_rate'', res_bind (decimal_text 6 (Some r)) (\<lambda>t. Inr (VStr t))),
       (''reference_markup_rate_percent'', res_bind (reference_markup_percent_text r) (\<lambda>t. Inr (VStr t))),
       (''reference_markup_locked'', Inr (VBool locked)),
       (''items'', Inr (VDict (map (\<lambda>p. (fst p, VDict (snd p)))
          (filter (\<lambda>p. strip (replace1 nbsp '' '' (fst p)) \<noteq> []) (dsorted items)))))])"

text \<open>\<open>json.dumps(payload, ensure_ascii=False, indent=2)\<close> as the content of a file.\<close>

definition plain_json_file :: "vdict \<Rightarrow> store_file" where
  "plain_json_file d = File (json_pretty 0 (VDict d)) (Some (VDict d))"

definition write_reference_status :: "string \<Rightarrow> status_items \<Rightarrow> dec \<Rightarrow> bool \<Rightarrow> exc + store_file" where
  "write_reference_status now items rate locked =
     res_bind (reference_status_payload now items rate locked) (\<lambda>d. Inr (plain_json_file d))"

text \<open>A row of the reference sheet as the status it stands for; \<open>None\<close> when it says nothing.\<close>

definition workbook_status_item :: "vdict \<Rightarrow> exc + (string \<times> vdict) option" where
  "workbook_status_item row =
    (let key = cells ref_keys row; reference = reference_key key; invoiced = dec_or_zero (dec_at row H_INVOICED);
         markup_text = cell row H_MARKUP
     in res_bind (not_positive invoiced) (\<lambda>none.
        if none \<and> markup_text = [] then Inr None
        else res_bind (normalize_reference_markup_rate markup_text default_rate_text) (\<lambda>rate.
        let amount = dec_or_zero (dec_at row H_PRETAX_SUM); tax = dec_or_zero (dec_at row H_TAX_SUM);
            gross = dec_or_zero (dec_at row F_TOTAL); locked = dec_or_zero (dec_at row H_INVOICED_TOTAL)
        in res_bind (not_positive gross) (\<lambda>no_total.
           res_bind (if no_total then Inr dec_zero else dec_div locked gross) (\<lambda>ratio.
           let text_col = (\<lambda>k p r. (k, res_bind r (\<lambda>d. res_bind (decimal_text p (Some d)) (\<lambda>t. Inr (VStr t)))))
           in some_res (res_bind (build_row
             (str_col ''reference_key'' reference # map2 str_col [''item_code'', ''item_name'', ''spec'', ''unit''] key
              @ [text_col ''invoiced_quantity'' 3 (Inr invoiced),
                 text_col ''quantity_total'' 3 (Inr (dec_or_zero (dec_at row H_QUANTITY_SUM))),
                 text_col ''reference_amount_total'' 6 (Inr amount), text_col ''reference_tax_total'' 6 (Inr tax),
                 text_col ''reference_total_with_tax'' 6 (Inr gross), text_col ''reference_markup_rate'' 6 (Inr rate),
                 (''reference_markup_rate_percent'', res_bind (reference_markup_percent_text rate) (\<lambda>t. Inr (VStr t))),
                 (''reference_markup_locked'', Inr (VBool False)),
                 text_col ''invoiced_reference_amount'' 6 (dec_mul amount ratio),
                 text_col ''invoiced_reference_tax'' 6 (dec_mul tax ratio),
                 text_col ''invoiced_reference_total_with_tax'' 6 (Inr locked),
                 str_col ''updated_at'' (cell row H_UPDATED)])) (\<lambda>item. Inr (reference, item))))))))"

definition load_workbook_reference_status :: "vdict list \<Rightarrow> exc + status_items" where
  "load_workbook_reference_status sheet =
    res_fold (\<lambda>row items. res_bind (workbook_status_item row) (\<lambda>v. case v of
       None \<Rightarrow> Inr items | Some (k, item) \<Rightarrow> Inr (dput k item items))) sheet []"

definition merge_fields :: "string list" where
  "merge_fields =
    [''reference_key'', ''item_code'', ''item_name'', ''spec'', ''unit'', ''quantity_total'', ''reference_amount_total'',
     ''reference_tax_total'', ''reference_total_with_tax'', ''reference_markup_rate'', ''reference_markup_rate_percent'',
     ''reference_markup_locked'', ''invoiced_reference_amount'', ''invoiced_reference_tax'',
     ''invoiced_reference_total_with_tax'', ''updated_at'']"

definition merge_field :: "vdict \<Rightarrow> string \<Rightarrow> vdict \<times> bool \<Rightarrow> vdict \<times> bool" where
  "merge_field workbook_item k st =
    (if cell (fst st) k = [] \<and> cell workbook_item k \<noteq> [] then (dput k (get_val workbook_item k) (fst st), True) else st)"

definition merge_status_item :: "string \<times> vdict \<Rightarrow> status_items \<times> bool \<Rightarrow> status_items \<times> bool" where
  "merge_status_item p st =
    (case dget (fst st) (fst p) of
       None \<Rightarrow> (dput (fst p) (snd p) (fst st), True)
     | Some item \<Rightarrow>
         (let r = fold (merge_field (snd p)) merge_fields (item, snd st) in (dput (fst p) (fst r) (fst st), snd r)))"

definition merge_reference_status :: "status_items \<Rightarrow> status_items \<Rightarrow> status_items \<times> bool" where
  "merge_reference_status json_items workbook_items = fold merge_status_item workbook_items (json_items, False)"

section \<open>The files of an invoice\<close>

text \<open>What \<open>pathlib\<close> says of a path: its text, name, stem, lower suffix, resolved and casefolded text.\<close>

record source_file =
  sf_path :: string
  sf_name :: string
  sf_stem :: string
  sf_suffix :: string
  sf_canonical :: string
  sf_folded :: string

definition suffix_priority :: "string \<Rightarrow> int" where
  "suffix_priority s = (if s = ''.xml'' then 0 else if s = ''.ofd'' then 1 else if s = ''.pdf'' then 2 else 99)"

definition cost_source_priority :: "source_file \<Rightarrow> int" where
  "cost_source_priority f = suffix_priority (sf_suffix f)"

text \<open>The first maximal run of 8 to 20 digits.\<close>

definition is_udigit :: "string \<Rightarrow> bool" where
  "is_udigit ch \<longleftrightarrow> (case ascii_digits ch of [c] \<Rightarrow> is_digit c | _ \<Rightarrow> False)"

function digit_runs :: "string list \<Rightarrow> string list list" where
  "digit_runs xs =
    (if xs = [] then []
     else if is_udigit (hd xs) then takeWhile is_udigit xs # digit_runs (dropWhile is_udigit xs)
     else digit_runs (tl xs))"
  by pat_completeness auto
termination
proof (relation "measure length")
  fix xs :: "string list"
  assume "xs \<noteq> []" "is_udigit (hd xs)"
  then show "(dropWhile is_udigit xs, xs) \<in> measure length"
    by (cases xs) (auto intro: le_imp_less_Suc length_dropWhile_le)
next
  fix xs :: "string list"
  assume "xs \<noteq> []"
  then show "(tl xs, xs) \<in> measure length" by (cases xs) auto
qed simp

declare digit_runs.simps [simp del]

definition valid_invoice_number :: "string \<Rightarrow> string" where
  "valid_invoice_number t =
    (case filter (\<lambda>r. 8 \<le> length r \<and> length r \<le> 20) (digit_runs (uchars t)) of [] \<Rightarrow> [] | r # rs \<Rightarrow> concat r)"

definition metadata_value :: "vdict \<Rightarrow> string list \<Rightarrow> string" where
  "metadata_value metadata ks = (case filter (\<lambda>t. t \<noteq> []) (map (cell metadata) ks) of [] \<Rightarrow> [] | t # ts \<Rightarrow> t)"

definition cost_family_key :: "source_file \<Rightarrow> vdict \<Rightarrow> string" where
  "cost_family_key f metadata =
    (let by_metadata = valid_invoice_number (metadata_value metadata [F_INVOICE_NO, ''invoice_number'']);
         number = (if by_metadata \<noteq> [] then by_metadata else valid_invoice_number (sf_stem f))
     in if number \<noteq> [] then ''invoice:'' @ number else ''path:'' @ sf_canonical f)"

definition attempt_text :: "cost_analysis \<Rightarrow> string" where
  "attempt_text a =
    (let message = strip (replace1 nbsp '' '' (ca_message a))
     in ca_source_format a @ '':'' @ (if ca_status a = [] then ''unknown'' else ca_status a)
        @ (if message = [] then [] else ''('' @ message @ '')''))"

definition analysis_attempt_summary :: "cost_analysis list \<Rightarrow> string" where
  "analysis_attempt_summary attempts = join '' / '' (map attempt_text attempts)"

definition attempt_rank :: "cost_analysis \<Rightarrow> int \<times> int \<times> int \<times> int" where
  "attempt_rank a = (int (ca_score a), if ca_rows a \<noteq> [] then 1 else 0,
     if ca_status a \<notin> {''failed'', ''skipped''} then 1 else 0, - suffix_priority (''.'' @ ca_source_format a))"

text \<open>\<open>max(xs, key=f)\<close>: the first element with the greatest key.\<close>

definition max_by :: "('a \<Rightarrow> 'k::linorder) \<Rightarrow> 'a list \<Rightarrow> 'a" where
  "max_by f xs = fold (\<lambda>y m. if f m < f y then y else m) (tl xs) (hd xs)"

type_synonym analyzer = "source_file \<Rightarrow> vdict \<Rightarrow> exc + cost_analysis"

definition attempt :: "analyzer \<Rightarrow> source_file \<times> vdict \<Rightarrow> exc + cost_analysis" where
  "attempt analyze c =
    res_bind (analyze (fst c) (snd c)) (\<lambda>raw. res_bind (finalize_cost_analysis raw) (\<lambda>a.
      Inr (a\<lparr>ca_source_format := drop 1 (sf_suffix (fst c)), ca_source_path := sf_path (fst c)\<rparr>)))"

definition candidate_order :: "source_file \<times> vdict \<Rightarrow> int \<times> string" where
  "candidate_order c = (cost_source_priority (fst c), sf_folded (fst c))"

definition selected_analysis :: "cost_analysis list \<Rightarrow> cost_analysis" where
  "selected_analysis attempts =
    (let best = max_by attempt_rank attempts; message = strip (replace1 nbsp '' '' (ca_message best))
     in if 1 < length attempts \<and> ca_status best \<noteq> ''ok''
        then best\<lparr>ca_message := (if message = [] then M_NO_ROWS else message) @ M_CANDIDATES @ analysis_attempt_summary attempts\<rparr>
        else best)"

definition select_cost_analysis ::
  "analyzer \<Rightarrow> (source_file \<times> vdict) list \<Rightarrow> exc + cost_analysis option \<times> cost_analysis list" where
  "select_cost_analysis analyze candidates =
    res_bind (res_map (attempt analyze) (sort_key candidate_order candidates)) (\<lambda>attempts.
      Inr (if attempts = [] then None else Some (selected_analysis attempts), attempts))"

section \<open>All outputs\<close>

definition normalize_metadata_index :: "(string \<Rightarrow> string) \<Rightarrow> vdict list \<Rightarrow> vdict dict" where
  "normalize_metadata_index canonical rows =
    fold (\<lambda>row index.
      let path = clean_text (val_or (val_or (get_val row H_FILE_PATH) (get_val row ''file_path'')) (get_val row ''path''))
      in if path = [] then index else dput (canonical path) row index) rows []"

text \<open>The groups in the order in which their first file comes.\<close>

definition source_groups :: "vdict dict \<Rightarrow> source_file list \<Rightarrow> (source_file \<times> vdict) list list" where
  "source_groups index files =
    (let pairs = map (\<lambda>f. (f, case dget index (sf_canonical f) of None \<Rightarrow> [] | Some m \<Rightarrow> m)) files
     in map (\<lambda>k. filter (\<lambda>p. cost_family_key (fst p) (snd p) = k) pairs)
          (dedup (map (\<lambda>p. cost_family_key (fst p) (snd p)) pairs)))"

record cost_outputs =
  co_detail :: "vdict list"
  co_sellers :: "vdict list"
  co_specs :: "vdict list"
  co_references :: "vdict list"
  co_checks :: "vdict list"
  co_csv :: "vdict list"
  co_status_file :: store_file
  co_analyses :: "cost_analysis list"
  co_attempts :: nat
  co_groups :: nat
  co_mismatches :: nat

definition DETAIL_HEADERS :: "string list" where
  "DETAIL_HEADERS = [F_SELLER, H_BUYER, F_INVOICE_NO, F_DATE, F_REMARK_ITEM, F_PROJECT, F_MODEL, F_UNIT, F_QUANTITY,
     H_UNIT_PRICE, H_AVG_TAX, F_PRETAX, F_RATE, F_TAX, F_TOTAL, F_INVOICE_CODE, F_FILE]"

definition csv_rows :: "vdict list \<Rightarrow> vdict list" where
  "csv_rows rows = map (\<lambda>row. map (\<lambda>h. (h, get_default row h (VStr []))) DETAIL_HEADERS) rows"

definition status_file_payload :: "store_file \<Rightarrow> vdict" where
  "status_file_payload f = (case f of File b (Some (VDict d)) \<Rightarrow> d | _ \<Rightarrow> [])"

definition build_cost_analysis_outputs ::
  "(string \<Rightarrow> string) \<Rightarrow> (string \<Rightarrow> string) \<Rightarrow> analyzer \<Rightarrow> string \<Rightarrow> source_file list \<Rightarrow> vdict list \<Rightarrow> string
    \<Rightarrow> store_file \<Rightarrow> vdict list \<Rightarrow> exc + cost_outputs" where
  "build_cost_analysis_outputs cf canonical analyze now files metadata markup_rate status_json reference_sheet =
    (let groups = source_groups (normalize_metadata_index canonical metadata) files;
         payload = status_file_payload status_json
     in res_bind (res_map (select_cost_analysis analyze) groups) (\<lambda>selected.
        let analyses = concat (map (\<lambda>s. case fst s of None \<Rightarrow> [] | Some a \<Rightarrow> [a]) selected);
            detail = concat (map ca_rows analyses)
        in res_bind (check_rows detail analyses) (\<lambda>checks.
           res_bind (normalize_reference_markup_rate (case dget payload ''reference_markup_rate'' of None \<Rightarrow> markup_rate | Some v \<Rightarrow> str_or_empty v)
               default_rate_text) (\<lambda>rate.
           res_bind (load_workbook_reference_status reference_sheet) (\<lambda>sheet_items.
           let locked = cost_truthy cf (get_default payload ''reference_markup_locked'' (VBool False));
               (items, changed) = merge_reference_status (load_reference_status status_json) sheet_items
           in res_bind (if changed then write_reference_status now items rate locked else Inr status_json) (\<lambda>status_file.
              res_bind (detail_rows_with_tax_average detail) (\<lambda>enriched.
              res_bind (seller_summary detail) (\<lambda>sellers.
              res_bind (project_spec_summary detail) (\<lambda>specs.
              res_bind (invoice_reference_summary cf detail items (dec_or_empty rate)) (\<lambda>references.
                Inr \<lparr>co_detail = enriched, co_sellers = sellers, co_specs = specs, co_references = references, co_checks = checks,
                  co_csv = csv_rows enriched, co_status_file = status_file, co_analyses = analyses,
                  co_attempts = length (concat (map snd selected)), co_groups = length groups,
                  co_mismatches = length (filter (\<lambda>r. get_val r H_CHECK_STATUS \<noteq> VStr S_PASSED) checks)\<rparr>))))))))))"

end
