(* ===== verification/Cost_Service.thy ===== *)
theory Cost_Service
  imports Cost_Build
begin

text \<open>
  \<open>projections/costs.py\<close>: what the service shows of the cost tables (the reference rows with what is
  invoiced of them, and how far the tables lag behind the invoices), and \<open>save_reference_status\<close>, by which
  the user sets invoiced quantities and markups (what it writes to the status file; the handler with
  the refresh of the workbook that follows is \<open>save_references\<close> of Cost_Tables).

  The files are arguments: the rows of the detail CSV, the status file and the reference sheet of the
  workbook. \<open>norm_path\<close>, \<open>path_name\<close> and \<open>path_suffix\<close> are \<open>str(Path(t))\<close>, its name and its lower suffix. A number of
  this file is read by \<open>service_decimal\<close>, for which a text that is no number is zero. The sums of floats of
  \<open>_reference_stats\<close> are left out.
\<close>

section \<open>Numbers and keys\<close>

definition text_at :: "vdict \<Rightarrow> string \<Rightarrow> string" where
  "text_at d k = strip (gets d k)"

definition service_decimal :: "pyval \<Rightarrow> dec" where
  "service_decimal v =
    (let t = strip (remove_chars ['',''] (str_or_empty v))
     in if t = [] then dec_zero else case parse_decimal t of None \<Rightarrow> dec_zero | Some d \<Rightarrow> d)"

definition user_quantity :: "pyval \<Rightarrow> exc + dec" where
  "user_quantity v =
    (let t = strip (str_or_empty v)
     in if t = [] then Inr dec_zero
        else if \<not> unsigned_number t then Inl (ValueError ''the invoiced quantity is not a number'' [])
        else case parse_decimal t of
            None \<Rightarrow> Inl (ValueError ''the invoiced quantity is not a number'' [])
          | Some d \<Rightarrow> if is_finite d then Inr d else Inl (ValueError ''the invoiced quantity is not a number'' []))"

text \<open>\<open>_decimal_text\<close> of this file rounds half even.\<close>

definition service_text :: "nat \<Rightarrow> dec \<Rightarrow> exc + string" where
  "service_text p d = res_bind (quantize_to p round_half_even d) (\<lambda>q. Inr (trim_zeros (format_f q)))"

definition row_values :: "vdict \<Rightarrow> string list" where
  "row_values row = map (gets row) ref_keys"

definition service_reference_key :: "vdict \<Rightarrow> string" where
  "service_reference_key row = reference_key (row_values row)"

definition reference_aliases :: "vdict \<Rightarrow> string list" where
  "reference_aliases row = dedup (filter (\<lambda>t. t \<noteq> [])
     [service_reference_key row, join ''|'' (map strip (row_values row)), join ''|'' (reference_key_values (row_values row))])"

section \<open>The status file\<close>

definition fill_text_from :: "(string \<times> string) \<Rightarrow> vdict \<Rightarrow> vdict" where
  "fill_text_from p d = (if text_at d (snd p) = [] \<and> text_at d (fst p) \<noteq> [] then dput (snd p) (get_val d (fst p)) d else d)"

definition normalize_status_item :: "string \<Rightarrow> vdict \<Rightarrow> vdict" where
  "normalize_status_item raw_key item =
    (let key = strip (str_or_empty (val_or (val_or (get_val item ''reference_key'') (get_val item ''key'')) (VStr raw_key)));
         keyed = (if key = [] then item else put_default ''reference_key'' (VStr key) item)
     in fill_text_from (''markup_rate'', ''reference_markup_rate'') (fold fill_text_from status_aliases keyed))"

definition read_status_item :: "string \<times> pyval \<Rightarrow> status_items \<Rightarrow> status_items" where
  "read_status_item p items =
    (case snd p of
       VDict item \<Rightarrow>
         (let key = strip (str_or_empty (val_or (val_or (get_val item ''reference_key'') (get_val item ''key'')) (VStr (strip (fst p)))))
          in if key = [] then items else dput key (normalize_status_item key item) items)
     | _ \<Rightarrow> items)"

definition read_reference_status :: "store_file \<Rightarrow> status_items" where
  "read_reference_status f =
    (let payload = status_file_payload f
     in case get_default payload ''items'' (VDict payload) of VDict raw \<Rightarrow> fold read_status_item raw [] | _ \<Rightarrow> [])"

definition service_markup_rate :: "vdict \<Rightarrow> dec \<Rightarrow> exc + dec" where
  "service_markup_rate item fallback =
    res_bind (renormalized fallback) (\<lambda>rate.
    if text_at item ''reference_markup_rate_percent'' \<noteq> []
    then normalize_reference_markup_percent (get_val item ''reference_markup_rate_percent'')
    else if text_at item ''reference_markup_rate'' \<noteq> []
    then normalize_reference_markup_rate (gets item ''reference_markup_rate'') (dec_or_empty fallback)
    else if text_at item ''markup_rate'' \<noteq> []
    then normalize_reference_markup_rate (gets item ''markup_rate'') (dec_or_empty fallback)
    else Inr rate)"

definition service_truthy :: "(string \<Rightarrow> string) \<Rightarrow> pyval \<Rightarrow> bool" where
  "service_truthy cf v =
    (case v of VBool b \<Rightarrow> b
     | _ \<Rightarrow> cf (strip (str_or_empty v)) \<in> {''1'', ''true'', ''yes'', ''y'', ''locked'', S_LOCKED, S_LOCK})"

definition service_row_markup :: "(string \<Rightarrow> string) \<Rightarrow> vdict \<Rightarrow> markup_meta \<Rightarrow> exc + markup_meta" where
  "service_row_markup cf item fallback =
    res_bind (service_markup_rate item (mk_rate fallback)) (\<lambda>rate.
      markup_of_rate rate (service_truthy cf (get_default item ''reference_markup_locked'' (VBool (mk_locked fallback)))))"

definition service_markup_meta :: "(string \<Rightarrow> string) \<Rightarrow> store_file \<Rightarrow> string \<Rightarrow> exc + markup_meta" where
  "service_markup_meta cf f configured =
    (let payload = status_file_payload f
     in res_bind (normalize_reference_markup_rate
          (case dget payload ''reference_markup_rate'' of None \<Rightarrow> configured | Some v \<Rightarrow> str_or_empty v) default_rate_text) (\<lambda>rate.
        markup_of_rate rate (service_truthy cf (get_default payload ''reference_markup_locked'' (VBool False)))))"

definition service_status_payload :: "string \<Rightarrow> status_items \<Rightarrow> markup_meta \<Rightarrow> exc + vdict" where
  "service_status_payload now items markup =
    res_bind (renormalized (mk_rate markup)) (\<lambda>r. build_row
      [(''version'', Inr (VInt 1)), str_col ''updated_at'' now,
       (''reference_markup_rate'', res_bind (service_text 6 r) (\<lambda>t. Inr (VStr t))),
       (''reference_markup_rate_percent'', res_bind (reference_markup_percent_text r) (\<lambda>t. Inr (VStr t))),
       (''reference_markup_locked'', Inr (VBool (mk_locked markup))),
       (''items'', Inr (VDict (map (\<lambda>p. (fst p, VDict (snd p))) (filter (\<lambda>p. fst p \<noteq> []) (dsorted items)))))])"

section \<open>The reference sheet\<close>

definition sheet_status_item :: "string \<Rightarrow> vdict \<Rightarrow> exc + (string \<times> vdict) option" where
  "sheet_status_item configured row =
    (let key = service_reference_key row; invoiced = service_decimal (get_val row H_INVOICED); markup_text = text_at row H_MARKUP
     in res_bind (not_positive invoiced) (\<lambda>none.
        if none \<and> markup_text = [] then Inr None
        else res_bind (normalize_reference_markup_rate markup_text configured) (\<lambda>rate.
        let gross = service_decimal (get_val row F_TOTAL); locked = service_decimal (get_val row H_INVOICED_TOTAL)
        in res_bind (not_positive gross) (\<lambda>no_total.
           res_bind (if no_total then Inr dec_zero else dec_div locked gross) (\<lambda>ratio.
           let text_col = (\<lambda>k p r. (k, res_bind r (\<lambda>d. res_bind (service_text p d) (\<lambda>t. Inr (VStr t)))))
           in some_res (res_bind (build_row
             (str_col ''reference_key'' key # map2 str_col [''item_code'', ''item_name'', ''spec'', ''unit''] (row_values row)
              @ [text_col ''invoiced_quantity'' 3 (Inr invoiced),
                 text_col ''quantity_total'' 3 (Inr (service_decimal (get_val row H_QUANTITY_SUM))),
                 text_col ''reference_total_with_tax'' 6 (Inr gross), text_col ''reference_markup_rate'' 6 (Inr rate),
                 (''reference_markup_rate_percent'', res_bind (reference_markup_percent_text rate) (\<lambda>t. Inr (VStr t))),
                 (''reference_markup_locked'', Inr (VBool False)),
                 text_col ''invoiced_reference_amount'' 6 (dec_mul (service_decimal (get_val row H_PRETAX_SUM)) ratio),
                 text_col ''invoiced_reference_tax'' 6 (dec_mul (service_decimal (get_val row H_TAX_SUM)) ratio),
                 text_col ''invoiced_reference_total_with_tax'' 6 (Inr locked),
                 str_col ''updated_at'' (gets row H_UPDATED)])) (\<lambda>item. Inr (key, item))))))))"

definition sheet_reference_status :: "string \<Rightarrow> vdict list \<Rightarrow> exc + status_items" where
  "sheet_reference_status configured sheet =
    res_fold (\<lambda>row items. res_bind (sheet_status_item configured row) (\<lambda>v. case v of
       None \<Rightarrow> Inr items | Some (k, item) \<Rightarrow> Inr (dput k item items))) sheet []"

definition sheet_fill_fields :: "string list" where
  "sheet_fill_fields = [''invoiced_reference_amount'', ''invoiced_reference_tax'', ''invoiced_reference_total_with_tax'',
     ''reference_markup_rate'', ''reference_markup_rate_percent'', ''reference_markup_locked'', ''updated_at'']"

definition status_for_reference :: "string list \<Rightarrow> string \<Rightarrow> status_items \<Rightarrow> status_items \<Rightarrow> vdict" where
  "status_for_reference aliases key items sheet =
    (let saved = (case filter (\<lambda>a. dget items a \<noteq> None) aliases of [] \<Rightarrow> [] | a # as \<Rightarrow> the (dget items a));
         from_sheet = (case dget sheet key of None \<Rightarrow> [] | Some w \<Rightarrow> w);
         status = (if from_sheet = [] then saved else if saved = [] then from_sheet
           else fold (\<lambda>k d. if text_at d k = [] \<and> text_at from_sheet k \<noteq> [] then dput k (get_val from_sheet k) d else d)
                  sheet_fill_fields saved)
     in if status = [] then [] else normalize_status_item key status)"

section \<open>The reference rows\<close>

definition service_sum :: "vdict list \<Rightarrow> string \<Rightarrow> exc + dec" where
  "service_sum rows k = res_fold (\<lambda>row t. dec_add_res t (service_decimal (get_val row k))) rows dec_zero"

definition service_locked_part :: "vdict \<Rightarrow> string \<Rightarrow> dec \<Rightarrow> dec \<Rightarrow> dec \<Rightarrow> exc + dec" where
  "service_locked_part status field current_total quantity invoiced =
    res_bind (not_positive invoiced) (\<lambda>none. if none then Inr dec_zero
    else let v = service_decimal (get_val status field)
         in res_bind (if is_zero v \<and> text_at status field = []
              then ratio_part current_total quantity invoiced else Inr v) (\<lambda>w. max_zero w))"

definition service_status_text :: "dec \<Rightarrow> dec \<Rightarrow> exc + string" where
  "service_status_text quantity invoiced =
    res_bind (positive quantity) (\<lambda>pos. res_bind (if pos then le_res quantity invoiced else Inr False) (\<lambda>done.
      Inr (if done then S_INVOICED else if is_zero invoiced then S_NOT_INVOICED else S_PARTLY)))"

definition float_col :: "string \<Rightarrow> exc + dec \<Rightarrow> string \<times> (exc + pyval)" where
  "float_col k r = (k, res_bind r (\<lambda>d. if d = Nan True then Inl (ValueError ''float of a signalling NaN'' []) else Inr (VFloat (float_text d))))"

definition price_col :: "string \<Rightarrow> dec option \<Rightarrow> string \<times> (exc + pyval)" where
  "price_col k v = (case v of None \<Rightarrow> (k, Inr (VInt 0)) | Some d \<Rightarrow> float_col k (Inr d))"

text \<open>\<open>max(Decimal("0"), a - b)\<close>\<close>

definition rest_of :: "dec \<Rightarrow> dec \<Rightarrow> exc + dec" where
  "rest_of a b = res_bind (dec_sub_res a b) (\<lambda>d. res_bind (positive d) (\<lambda>pos. Inr (if pos then d else dec_zero)))"

text \<open>What is invoiced of a group: at most its quantity.\<close>

definition service_invoiced :: "vdict \<Rightarrow> dec \<Rightarrow> exc + dec" where
  "service_invoiced status quantity =
    (let v = service_decimal (get_val status ''invoiced_quantity'')
     in res_bind (lt_res quantity v) (\<lambda>over. Inr (if over then quantity else v)))"

definition reference_columns ::
  "vdict \<Rightarrow> vdict list \<Rightarrow> markup_meta \<Rightarrow> dec \<Rightarrow> dec option \<Rightarrow> dec \<times> dec \<times> dec \<Rightarrow> dec \<Rightarrow> exc + (string \<times> (exc + pyval)) list" where
  "reference_columns status g markup quantity avg totals invoiced =
    (case totals of (amount, tax, gross) \<Rightarrow>
     res_bind (stock_average_unit_price_with_tax g) (\<lambda>avg_tax.
     res_bind (purchase_reference_average_unit_price_with_tax g) (\<lambda>purchase_avg.
     res_bind (reference_output_average_unit_price_with_tax avg (mk_rate markup)) (\<lambda>reference_avg.
     res_bind (service_locked_part status ''invoiced_reference_amount'' amount quantity invoiced) (\<lambda>locked_amount.
     res_bind (service_locked_part status ''invoiced_reference_tax'' tax quantity invoiced) (\<lambda>locked_tax.
     res_bind (service_locked_part status ''invoiced_reference_total_with_tax'' gross quantity invoiced) (\<lambda>locked_total.
     res_bind (service_status_text quantity invoiced) (\<lambda>status_text. Inr
       [float_col ''quantity'' (Inr quantity), price_col ''average_unit_price'' avg, price_col ''average_unit_price_with_tax'' avg_tax,
        price_col ''purchase_reference_average_unit_price_with_tax'' purchase_avg,
        float_col ''amount'' (service_sum g F_PRETAX), float_col ''tax_amount'' (service_sum g F_TAX),
        float_col ''total_with_tax'' (service_sum g F_TOTAL), str_col ''markup_rate'' (mk_display markup),
        (''reference_markup_rate'', res_bind (service_text 6 (mk_rate markup)) (\<lambda>t. Inr (VStr t))),
        str_col ''reference_markup_rate_percent'' (mk_percent markup), (''reference_markup_locked'', Inr (VBool (mk_locked markup))),
        (if is_zero quantity then (''reference_average_unit_price'', Inr (VInt 0)) else float_col ''reference_average_unit_price'' (dec_div amount quantity)),
        price_col ''reference_average_unit_price_with_tax'' reference_avg,
        float_col ''reference_amount'' (Inr amount), float_col ''reference_tax_amount'' (Inr tax), float_col ''reference_total_with_tax'' (Inr gross),
        float_col ''invoiced_quantity'' (Inr invoiced), float_col ''uninvoiced_quantity'' (rest_of quantity invoiced),
        (''invoice_status'', Inr (val_or (get_val status ''invoice_status'') (VStr status_text))),
        float_col ''invoiced_reference_amount'' (Inr locked_amount), float_col ''invoiced_reference_tax_amount'' (Inr locked_tax),
        float_col ''invoiced_reference_total_with_tax'' (Inr locked_total),
        float_col ''uninvoiced_reference_amount'' (rest_of amount locked_amount), float_col ''uninvoiced_reference_tax'' (rest_of tax locked_tax),
        float_col ''uninvoiced_reference_total_with_tax'' (rest_of gross locked_total),
        str_col ''status_updated_at'' (gets status ''updated_at'')]))))))))"

definition build_reference_row ::
  "(string \<Rightarrow> string) \<Rightarrow> status_items \<Rightarrow> status_items \<Rightarrow> markup_meta \<Rightarrow> string \<times> vdict list \<Rightarrow> exc + vdict" where
  "build_reference_row cf items sheet fallback kg =
    (let key = fst kg; g = snd kg; status = status_for_reference (reference_aliases (hd g)) key items sheet
     in res_bind (service_sum g F_QUANTITY) (\<lambda>quantity.
        res_bind (service_row_markup cf status fallback) (\<lambda>markup.
        res_bind (reference_markup_multiplier (mk_rate markup)) (\<lambda>multiplier.
        res_bind (stock_average_unit_price g) (\<lambda>avg.
        res_bind (reference_totals avg quantity multiplier) (\<lambda>totals.
        res_bind (service_invoiced status quantity) (\<lambda>invoiced.
        res_bind (reference_columns status g markup quantity avg totals invoiced) (\<lambda>columns.
          build_row (str_col ''key'' key # map (\<lambda>h. (h, Inr (get_default (hd g) h (VStr [])))) ref_keys @ columns)))))))))"

definition build_reference_rows ::
  "(string \<Rightarrow> string) \<Rightarrow> vdict list \<Rightarrow> status_items \<Rightarrow> store_file \<Rightarrow> vdict list \<Rightarrow> string \<Rightarrow> exc + vdict list" where
  "build_reference_rows cf detail items f sheet configured =
    res_bind (sheet_reference_status configured sheet) (\<lambda>workbook.
    res_bind (service_markup_meta cf f configured) (\<lambda>fallback.
      res_map (build_reference_row cf items workbook fallback) (group_by service_reference_key detail)))"

section \<open>Saving\<close>

definition requested_quantity :: "vdict \<Rightarrow> vdict \<Rightarrow> exc + dec \<times> bool" where
  "requested_quantity item existing =
    (let old = service_decimal (get_val existing ''invoiced_quantity'')
     in if dhas item ''invoiced_quantity''
        then res_bind (user_quantity (get_val item ''invoiced_quantity'')) (\<lambda>q. res_bind (dec_eq_res old q) (\<lambda>same. Inr (q, \<not> same)))
        else Inr (old, False))"

definition requested_rate :: "vdict \<Rightarrow> dec \<Rightarrow> dec \<Rightarrow> exc + dec" where
  "requested_rate item fallback existing =
    (if text_at item ''reference_markup_rate_percent'' \<noteq> []
     then normalize_reference_markup_percent (get_val item ''reference_markup_rate_percent'')
     else if text_at item ''markup_rate'' \<noteq> [] then normalize_reference_markup_percent (get_val item ''markup_rate'')
     else if text_at item ''reference_markup_rate'' \<noteq> []
     then normalize_reference_markup_rate (gets item ''reference_markup_rate'') (dec_or_empty fallback)
     else Inr existing)"

definition requested_lock :: "(string \<Rightarrow> string) \<Rightarrow> vdict \<Rightarrow> bool \<Rightarrow> bool" where
  "requested_lock cf item existing =
    (if dhas item ''reference_markup_locked'' then service_truthy cf (get_val item ''reference_markup_locked'')
     else if dhas item ''locked'' then service_truthy cf (get_val item ''locked'')
     else existing)"

definition saved_part :: "vdict \<Rightarrow> bool \<Rightarrow> dec \<Rightarrow> dec \<Rightarrow> string \<Rightarrow> dec \<Rightarrow> exc + dec" where
  "saved_part existing quantity_changed invoiced ratio field current_total =
    res_bind (not_positive invoiced) (\<lambda>none. if none then Inr dec_zero
    else if quantity_changed \<or> text_at existing field = [] then dec_mul current_total ratio
    else max_zero (service_decimal (get_val existing field)))"

record saved_figures =
  sg_amount :: dec
  sg_tax :: dec
  sg_total :: dec
  sg_ratio :: dec
  sg_status :: string

definition saved_figures_of :: "vdict \<Rightarrow> dec \<Rightarrow> dec \<Rightarrow> dec \<Rightarrow> exc + saved_figures" where
  "saved_figures_of row quantity invoiced rate =
    res_bind (reference_markup_multiplier rate) (\<lambda>multiplier.
    res_bind (dec_mul (service_decimal (get_val row ''average_unit_price'')) multiplier) (\<lambda>price.
    res_bind (dec_mul price quantity) (\<lambda>amount.
    res_bind (dec_mul amount REFERENCE_OUTPUT_TAX_RATE) (\<lambda>tax.
    res_bind (dec_add_res amount tax) (\<lambda>gross.
    res_bind (if is_zero quantity then Inr dec_zero else dec_div invoiced quantity) (\<lambda>ratio.
    res_bind (service_status_text quantity invoiced) (\<lambda>status.
      Inr \<lparr>sg_amount = amount, sg_tax = tax, sg_total = gross, sg_ratio = ratio, sg_status = status\<rparr>)))))))"

definition saved_item ::
  "string \<Rightarrow> string \<Rightarrow> vdict \<Rightarrow> vdict \<Rightarrow> dec \<Rightarrow> dec \<Rightarrow> bool \<Rightarrow> dec \<Rightarrow> bool \<Rightarrow> saved_figures \<Rightarrow> exc + vdict" where
  "saved_item now key row existing quantity invoiced quantity_changed rate locked g =
    (let text_col = (\<lambda>k p r. (k, res_bind r (\<lambda>d. res_bind (service_text p d) (\<lambda>t. Inr (VStr t)))));
         part = saved_part existing quantity_changed invoiced (sg_ratio g)
     in build_row
      (str_col ''reference_key'' key
       # map2 (\<lambda>k h. (k, Inr (get_default row h (VStr [])))) [''item_code'', ''item_name'', ''spec'', ''unit''] ref_keys
       @ [str_col ''invoiced_quantity'' (dec_text invoiced), text_col ''quantity_total'' 3 (Inr quantity),
          text_col ''reference_amount_total'' 6 (Inr (sg_amount g)), text_col ''reference_tax_total'' 6 (Inr (sg_tax g)),
          text_col ''reference_total_with_tax'' 6 (Inr (sg_total g)), text_col ''reference_markup_rate'' 6 (Inr rate),
          (''reference_markup_rate_percent'', res_bind (reference_markup_percent_text rate) (\<lambda>t. Inr (VStr t))),
          (''reference_markup_locked'', Inr (VBool locked)),
          text_col ''invoiced_reference_amount'' 6 (part ''invoiced_reference_amount'' (sg_amount g)),
          text_col ''invoiced_reference_tax'' 6 (part ''invoiced_reference_tax'' (sg_tax g)),
          text_col ''invoiced_reference_total_with_tax'' 6 (part ''invoiced_reference_total_with_tax'' (sg_total g)),
          str_col ''invoice_status'' (sg_status g), str_col ''updated_at'' now]))"

text \<open>The checks of a requested quantity.\<close>

definition within_stock :: "dec \<Rightarrow> dec \<Rightarrow> exc + unit" where
  "within_stock invoiced quantity =
    res_bind (negative invoiced) (\<lambda>neg. if neg then Inl (ValueError ''the invoiced quantity is negative'' [])
    else res_bind (lt_res quantity invoiced) (\<lambda>over. if over then Inl (ValueError ''the invoiced quantity exceeds the total'' []) else Inr ()))"

definition keeps_reference :: "dec \<Rightarrow> dec \<Rightarrow> bool \<Rightarrow> markup_meta \<Rightarrow> exc + bool" where
  "keeps_reference invoiced rate locked fallback =
    res_bind (positive invoiced) (\<lambda>pos. if pos then Inr True
    else res_bind (dec_eq_res rate (mk_rate fallback)) (\<lambda>same. Inr (\<not> same \<or> locked \<noteq> mk_locked fallback)))"

definition save_row ::
  "(string \<Rightarrow> string) \<Rightarrow> string \<Rightarrow> markup_meta \<Rightarrow> status_items \<Rightarrow> string \<Rightarrow> vdict \<Rightarrow> vdict \<Rightarrow> status_items \<Rightarrow> exc + status_items" where
  "save_row cf now fallback workbook key row item current =
    (let existing = status_for_reference (reference_aliases row) key current workbook; quantity = service_decimal (get_val row ''quantity'')
     in res_bind (service_row_markup cf existing fallback) (\<lambda>existing_markup.
        res_bind (requested_quantity item existing) (\<lambda>(invoiced, quantity_changed).
        res_bind (within_stock invoiced quantity) (\<lambda>_.
        res_bind (requested_rate item (mk_rate fallback) (mk_rate existing_markup)) (\<lambda>rate.
        res_bind (saved_figures_of row quantity invoiced rate) (\<lambda>figures.
        let locked = requested_lock cf item (mk_locked existing_markup);
            cleared = fold ddel (filter (\<lambda>a. a \<noteq> key) (reference_aliases row)) current
        in res_bind (keeps_reference invoiced rate locked fallback) (\<lambda>keep.
           if \<not> keep then Inr (ddel key cleared)
           else res_bind (saved_item now key row existing quantity invoiced quantity_changed rate locked figures) (\<lambda>saved.
             Inr (dput key saved cleared)))))))))"

definition save_reference ::
  "(string \<Rightarrow> string) \<Rightarrow> string \<Rightarrow> markup_meta \<Rightarrow> status_items \<Rightarrow> vdict dict \<Rightarrow> vdict \<Rightarrow> status_items \<Rightarrow> exc + status_items" where
  "save_reference cf now fallback workbook by_key item current =
    (let key = text_at item ''key''
     in case (if key = [] then None else dget by_key key) of
          None \<Rightarrow> Inr current
        | Some row \<Rightarrow> save_row cf now fallback workbook key row item current)"

definition save_reference_status ::
  "(string \<Rightarrow> string) \<Rightarrow> string \<Rightarrow> string \<Rightarrow> vdict list \<Rightarrow> vdict list \<Rightarrow> vdict list \<Rightarrow> store_file \<Rightarrow> exc + store_file" where
  "save_reference_status cf now configured detail sheet requests f =
    (let current = read_reference_status f
     in res_bind (service_markup_meta cf f configured) (\<lambda>fallback.
        res_bind (sheet_reference_status configured sheet) (\<lambda>workbook.
        res_bind (build_reference_rows cf detail current f sheet configured) (\<lambda>rows.
        let by_key = fold (\<lambda>r. dput (gets r ''key'') r) rows []
        in res_bind (res_fold (save_reference cf now fallback workbook by_key) requests current) (\<lambda>items.
           res_bind (service_status_payload now items fallback) (\<lambda>d. Inr (plain_json_file d)))))))"

section \<open>How far the tables lag behind\<close>

definition source_keys :: "(string \<Rightarrow> string) \<Rightarrow> (string \<Rightarrow> string) \<Rightarrow> (string \<Rightarrow> string) \<Rightarrow> string \<Rightarrow> string list" where
  "source_keys cf norm_path path_name v =
    (let t = strip v in if t = [] then [] else norm_path t # (if path_name t = [] then [] else [cf (path_name t)]))"

definition number_key :: "vdict \<Rightarrow> string list" where
  "number_key row =
    (let n = valid_invoice_number (str_or_empty (val_or (get_val row F_INVOICE_NO) (get_val row ''invoice_number'')))
     in if n = [] then [] else [''invoice:'' @ n])"

definition summary_source :: "vdict \<Rightarrow> string" where
  "summary_source row = str_or_empty (val_or (val_or (get_val row H_FILE_PATH) (get_val row ''source_path'')) (get_val row F_FILE))"

text \<open>The invoices of the summary, each with the keys under which its cost rows may stand.\<close>

definition add_summary_row ::
  "(string \<Rightarrow> string) \<Rightarrow> (string \<Rightarrow> string) \<Rightarrow> (string \<Rightarrow> string) \<Rightarrow> (string \<Rightarrow> string) \<Rightarrow> vdict \<Rightarrow> string list dict \<Rightarrow> string list dict" where
  "add_summary_row cf norm_path path_name path_suffix row groups =
    (let source = summary_source row
     in if path_suffix source \<notin> {''.pdf'', ''.ofd'', ''.xml''} then groups
        else let k = (case number_key row of [] \<Rightarrow> ''source:'' @ norm_path source | n # ns \<Rightarrow> n)
             in dput k ((case dget groups k of None \<Rightarrow> [] | Some ks \<Rightarrow> ks) @ source_keys cf norm_path path_name source @ number_key row) groups)"

definition cost_source_groups ::
  "(string \<Rightarrow> string) \<Rightarrow> (string \<Rightarrow> string) \<Rightarrow> (string \<Rightarrow> string) \<Rightarrow> (string \<Rightarrow> string) \<Rightarrow> vdict list \<Rightarrow> string list dict" where
  "cost_source_groups cf norm_path path_name path_suffix rows = fold (add_summary_row cf norm_path path_name path_suffix) rows []"

definition sources_from_rows :: "(string \<Rightarrow> string) \<Rightarrow> vdict list \<Rightarrow> string list" where
  "sources_from_rows norm_path rows =
    dedup (concat (map (\<lambda>row. let s = val_or (get_val row F_FILE) (get_val row ''source_file'')
      in if truthy s then [norm_path (py_str s)] else []) rows))"

definition H_FILE_NAME :: string where
  "H_FILE_NAME = F_FILE @ [CHR 0xE5, CHR 0x90, CHR 0x8D]"

definition keys_from_rows :: "(string \<Rightarrow> string) \<Rightarrow> (string \<Rightarrow> string) \<Rightarrow> (string \<Rightarrow> string) \<Rightarrow> vdict list \<Rightarrow> string list" where
  "keys_from_rows cf norm_path path_name rows =
    concat (map (\<lambda>row. source_keys cf norm_path path_name
       (str_or_empty (val_or (val_or (get_val row F_FILE) (get_val row ''source_file'')) (get_val row H_FILE_NAME))) @ number_key row) rows)"

record sync_status =
  sy_source :: nat
  sy_parsed :: nat
  sy_checked :: nat
  sy_pending :: nat
  sy_not_parsed :: nat
  sy_review :: nat
  sy_state :: string

definition sync_state :: "nat \<Rightarrow> nat \<Rightarrow> nat \<Rightarrow> string" where
  "sync_state waiting not_parsed review =
    (if 0 < not_parsed \<or> 0 < review then ''needs_review'' else if 0 < waiting then ''pending'' else ''fresh'')"

text \<open>The groups whose keys meet the keys of some rows.\<close>

definition groups_meeting :: "string list dict \<Rightarrow> string list \<Rightarrow> string list" where
  "groups_meeting groups ks = map fst (filter (\<lambda>p. set (snd p) \<inter> set ks \<noteq> {}) groups)"

definition sync_of_groups :: "string list dict \<Rightarrow> string list \<Rightarrow> string list \<Rightarrow> string list \<Rightarrow> sync_status" where
  "sync_of_groups groups parsed_keys checked_keys review_keys =
    (let parsed = groups_meeting groups parsed_keys; checked = groups_meeting groups checked_keys;
         waiting = filter (\<lambda>k. k \<notin> set parsed) (map fst groups); not_parsed = filter (\<lambda>k. k \<notin> set parsed) checked;
         review = groups_meeting groups review_keys
     in \<lparr>sy_source = length groups, sy_parsed = length parsed, sy_checked = length checked, sy_pending = length waiting,
         sy_not_parsed = length not_parsed, sy_review = length review,
         sy_state = sync_state (length waiting) (length not_parsed) (length review)\<rparr>)"

definition sync_of_sources :: "string list \<Rightarrow> string list \<Rightarrow> string list \<Rightarrow> sync_status" where
  "sync_of_sources parsed checked review =
    (let not_parsed = filter (\<lambda>s. s \<notin> set parsed) checked
     in \<lparr>sy_source = length (if parsed = [] then checked else parsed), sy_parsed = length parsed, sy_checked = length checked,
         sy_pending = 0, sy_not_parsed = length not_parsed, sy_review = length review,
         sy_state = sync_state 0 (length not_parsed) (length review)\<rparr>)"

definition service_sync_status ::
  "(string \<Rightarrow> string) \<Rightarrow> (string \<Rightarrow> string) \<Rightarrow> (string \<Rightarrow> string) \<Rightarrow> (string \<Rightarrow> string) \<Rightarrow> vdict list \<Rightarrow> bool
    \<Rightarrow> vdict list \<Rightarrow> vdict list \<Rightarrow> sync_status" where
  "service_sync_status cf norm_path path_name path_suffix summary outputs_exist detail checks =
    (let groups = cost_source_groups cf norm_path path_name path_suffix summary;
         review = filter (\<lambda>r. text_at r H_CHECK_STATUS \<noteq> S_PASSED) checks; ks = keys_from_rows cf norm_path path_name;
         zero = \<lparr>sy_source = 0, sy_parsed = 0, sy_checked = 0, sy_pending = 0, sy_not_parsed = 0, sy_review = 0, sy_state = ''empty''\<rparr>
     in if groups = [] \<and> detail = [] \<and> checks = [] then zero
        else if \<not> outputs_exist
        then zero\<lparr>sy_source := length groups, sy_state := ''not_generated'', sy_pending := length groups\<rparr>
        else if groups \<noteq> [] then sync_of_groups groups (ks detail) (ks checks) (ks review)
        else sync_of_sources (sources_from_rows norm_path detail) (sources_from_rows norm_path checks) (sources_from_rows norm_path review))"

end
