(* ===== verification/Cost_Checks.thy ===== *)
theory Cost_Checks
  imports Cost_Service
begin

text \<open>
  What the cost tables promise: an invoice marked as passed adds up, and a saved reference stays within its
  stock. Two lemmas record where a zero is taken for a missing value.
\<close>

section \<open>Rows\<close>

lemma build_row_dget:
  "build_row columns = Inr r \<Longrightarrow> dget columns k = Some (Inr v) \<Longrightarrow> dget r k = Some v"
  unfolding build_row_def
  by (induction columns arbitrary: r) (auto simp: res_bind_eq_Inr split: if_splits)

lemma build_row_total: "(\<And>p. p \<in> set columns \<Longrightarrow> \<exists>v. snd p = Inr v) \<Longrightarrow> \<exists>r. build_row columns = Inr r"
  unfolding build_row_def by (rule res_map_total) fastforce

section \<open>Exact sums\<close>

text \<open>An amount of at most six decimals below \<open>10 ^ b\<close>.\<close>

definition short_amount :: "nat \<Rightarrow> dec \<Rightarrow> bool" where
  "short_amount b d \<longleftrightarrow> (case d of Fin s c e \<Rightarrow> -6 \<le> e \<and> \<bar>dval d\<bar> < 10 ^ b | _ \<Rightarrow> False)"

lemma scale_below:
  assumes "-6 \<le> m" and "\<bar>of_int v * 10 powi m\<bar> < (10::rat) ^ 22"
  shows "\<bar>v\<bar> < int prec_bound"
proof -
  have "(10::rat) powi (-6) \<le> 10 powi m" using assms(1) by (intro power_int_increasing) auto
  then have "\<bar>of_int v\<bar> * (10::rat) powi (-6) \<le> \<bar>of_int v\<bar> * 10 powi m" by (intro mult_left_mono) auto
  also have "\<dots> < 10 ^ 22" using assms(2) by (simp add: abs_mult)
  finally have "\<bar>of_int v\<bar> < (10::rat) ^ 28" by (simp add: power_int_minus field_simps)
  then have "of_int \<bar>v\<bar> < (of_int (10 ^ 28) :: rat)" by simp
  then show ?thesis unfolding prec_bound_def of_int_less_iff by simp
qed

lemma plain_add:
  assumes a: "a = Fin s c e" "-6 \<le> e" and b: "b = Fin s' c' e'" "-6 \<le> e'"
    and small: "\<bar>dval a + dval b\<bar> < 10 ^ 22"
  shows "\<exists>s c e. dec_add a b = Fin s c e \<and> -6 \<le> e" and "dval (dec_add a b) = dval a + dval b"
proof -
  let ?m = "min e e'" let ?v = "scale_to ?m s c e + scale_to ?m s' c' e'"
  have "of_int ?v * 10 powi ?m = dval a + dval b"
    using scale_to_val [of ?m e s c] scale_to_val [of ?m e' s' c'] a b by (simp add: distrib_right)
  then have fits: "\<bar>?v\<bar> < int prec_bound" using small a(2) b(2) by (intro scale_below [of ?m]) simp_all
  then have "sum_fits a b" by (simp add: a b Let_def)
  then show "dval (dec_add a b) = dval a + dval b" by (rule dval_add)
  show "\<exists>s c e. dec_add a b = Fin s c e \<and> -6 \<le> e"
    using fits a b by (simp add: Let_def fix_prec_small nat_less_iff)
qed

definition value_at :: "string \<Rightarrow> vdict \<Rightarrow> rat" where
  "value_at k row = (case dec_at row k of None \<Rightarrow> 0 | Some d \<Rightarrow> dval d)"

definition plain_cells :: "vdict list \<Rightarrow> string \<Rightarrow> bool" where
  "plain_cells rows k \<longleftrightarrow> length rows < 10 ^ 9
     \<and> list_all (\<lambda>r. case dec_at r k of None \<Rightarrow> True | Some d \<Rightarrow> short_amount 12 d) rows"

lemma exact_fold:
  assumes "list_all (\<lambda>r. case dec_at r k of None \<Rightarrow> True | Some d \<Rightarrow> short_amount 12 d) rows"
    and "t = Fin s c e" "-6 \<le> e" and "\<bar>dval t\<bar> \<le> of_nat n * 10 ^ 12" and "n + length rows < 10 ^ 9"
    and "res_fold (\<lambda>row t. case dec_at row k of None \<Rightarrow> Inr t | Some d \<Rightarrow> dec_add_res t d) rows t = Inr u"
  shows "dval u = dval t + sum_list (map (value_at k) rows) \<and> (\<exists>s c e. u = Fin s c e \<and> -6 \<le> e)
    \<and> \<bar>dval u\<bar> \<le> of_nat (n + length rows) * 10 ^ 12"
  using assms
proof (induction rows arbitrary: t s c e n)
  case (Cons row rows)
  show ?case
  proof (cases "dec_at row k")
    case None
    have "\<bar>dval t\<bar> \<le> of_nat (Suc n) * 10 ^ 12" using Cons.prems(4) by (simp add: algebra_simps del: dval.simps)
    moreover have "res_fold (\<lambda>row t. case dec_at row k of None \<Rightarrow> Inr t | Some d \<Rightarrow> dec_add_res t d) rows t = Inr u"
      using Cons.prems(6) None by simp
    ultimately have "dval u = dval t + sum_list (map (value_at k) rows) \<and> (\<exists>s c e. u = Fin s c e \<and> -6 \<le> e)
      \<and> \<bar>dval u\<bar> \<le> of_nat (Suc n + length rows) * 10 ^ 12"
      using Cons.prems(1,5) by (intro Cons.IH [OF _ Cons.prems(2,3)]) simp_all
    moreover have "sum_list (map (value_at k) (row # rows)) = sum_list (map (value_at k) rows)" "Suc n + length rows = n + length (row # rows)"
      using None by (simp_all add: value_at_def)
    ultimately show ?thesis by metis
  next
    case (Some d)
    with Cons.prems(1) obtain s' c' e' where d: "d = Fin s' c' e'" "-6 \<le> e'" "\<bar>dval d\<bar> < 10 ^ 12"
      by (auto simp: short_amount_def split: dec.splits)
    have nb: "(of_nat (Suc n) :: rat) \<le> 10 ^ 9"
    proof -
      have "Suc n \<le> 10 ^ 9" using Cons.prems(5) by simp
      then have "(of_nat (Suc n) :: rat) \<le> of_nat (10 ^ 9)" by (rule of_nat_mono)
      then show ?thesis by simp
    qed
    have s1: "\<bar>dval t + dval d\<bar> \<le> of_nat (Suc n) * 10 ^ 12"
      using Cons.prems(4) d(3) by (simp add: algebra_simps)
    also have "\<dots> \<le> 10 ^ 9 * 10 ^ 12" using nb by (intro mult_right_mono) simp_all
    also have "\<dots> < 10 ^ 22" by simp
    finally have small: "\<bar>dval t + dval d\<bar> < 10 ^ 22" .
    note pa = plain_add [OF Cons.prems(2,3) d(1,2) small]
    obtain s2 c2 e2 where e2: "dec_add t d = Fin s2 c2 e2" "-6 \<le> e2" using pa(1) by blast
    have "dec_add_res t d = Inr (dec_add t d)" by (simp add: dec_add_res_def Cons.prems(2) d(1))
    with Cons.prems(6) Some have "res_fold (\<lambda>row t. case dec_at row k of None \<Rightarrow> Inr t | Some d \<Rightarrow> dec_add_res t d) rows (dec_add t d) = Inr u"
      by simp
    then have "dval u = dval (dec_add t d) + sum_list (map (value_at k) rows) \<and> (\<exists>s c e. u = Fin s c e \<and> -6 \<le> e)
      \<and> \<bar>dval u\<bar> \<le> of_nat (Suc n + length rows) * 10 ^ 12"
      using Cons.prems(1,5) s1 pa(2) by (intro Cons.IH [OF _ e2]) simp_all
    moreover have "dval t + sum_list (map (value_at k) (row # rows)) = dval (dec_add t d) + sum_list (map (value_at k) rows)"
      "Suc n + length rows = n + length (row # rows)"
      using Some pa(2) by (simp_all add: value_at_def)
    ultimately show ?thesis by metis
  qed
qed auto

lemma sum_decimal_exact:
  assumes "sum_decimal rows k = Inr u" and "plain_cells rows k"
  shows "dval u = sum_list (map (value_at k) rows) \<and> (\<exists>s c e. u = Fin s c e \<and> -6 \<le> e) \<and> \<bar>dval u\<bar> \<le> 10 ^ 9 * 10 ^ 12"
proof -
  have f: "dval u = dval dec_zero + sum_list (map (value_at k) rows) \<and> (\<exists>s c e. u = Fin s c e \<and> -6 \<le> e)
    \<and> \<bar>dval u\<bar> \<le> of_nat (0 + length rows) * 10 ^ 12"
    using assms unfolding sum_decimal_def plain_cells_def
    by (intro exact_fold [of k rows dec_zero False 0 0 0]) (auto simp: dint_def)
  have "length rows \<le> 10 ^ 9" using assms(2) by (simp add: plain_cells_def)
  then have "(of_nat (length rows) :: rat) \<le> of_nat (10 ^ 9)" by (rule of_nat_mono)
  then have "(of_nat (length rows) :: rat) * 10 ^ 12 \<le> 10 ^ 9 * 10 ^ 12" by (intro mult_right_mono) simp_all
  moreover have "\<bar>dval u\<bar> \<le> of_nat (length rows) * 10 ^ 12" using f unfolding add_0 by blast
  ultimately have "\<bar>dval u\<bar> \<le> 10 ^ 9 * 10 ^ 12" by (rule order_trans [rotated])
  moreover have "dval dec_zero = 0" by (simp add: dint_def)
  ultimately show ?thesis using f by (simp only: simp_thms add_0)
qed

lemma within_tolerance_exact:
  assumes "within_tolerance x full parsed = Inr True" and "parsed = Fin s c e" "-6 \<le> e" "\<bar>dval parsed\<bar> \<le> 10 ^ 9 * 10 ^ 12"
    and "\<And>d. x = Some d \<Longrightarrow> short_amount 12 d"
  shows "full \<and> (\<exists>d. x = Some d \<and> \<bar>dval parsed - dval d\<bar> \<le> 2 / 100)"
proof -
  obtain d where x: "x = Some d" and full: full
    and le: "res_bind (dec_sub_res parsed d) (\<lambda>x. le_res (dec_abs x) (Fin False 2 (-2))) = Inr True"
    using assms(1) by (auto simp: within_tolerance_def split: option.splits if_splits)
  from assms(5) [OF x] obtain s' c' e' where d: "d = Fin s' c' e'" "-6 \<le> e'" "\<bar>dval d\<bar> < 10 ^ 12"
    by (auto simp: short_amount_def split: dec.splits)
  have neg: "dec_neg d = Fin (\<not> s') c' e'" "dval (dec_neg d) = - dval d" by (auto simp: d(1) dint_def)
  have "\<bar>dval parsed + dval (dec_neg d)\<bar> < 10 ^ 22"
    using assms(4) d(3) neg(2) by (simp add: abs_if split: if_splits)
  note pa = plain_add [OF assms(2,3) neg(1) d(2) this]
  obtain s2 c2 e2 where e2: "dec_add parsed (dec_neg d) = Fin s2 c2 e2" "-6 \<le> e2" using pa(1) by blast
  have sub: "dec_sub_res parsed d = Inr (Fin s2 c2 e2)"
    using e2(1) by (simp add: dec_sub_res_def dec_add_res_def assms(2) neg(1))
  have c2: "c2 < prec_bound"
  proof -
    have "\<bar>dint s2 c2\<bar> < int prec_bound"
      using pa(2) assms(4) d(3) neg(2) e2 by (intro scale_below [of e2]) (auto simp: abs_if split: if_splits)
    then show ?thesis by (simp add: dint_def split: if_splits)
  qed
  have "dec_le (Fin False c2 e2) (Fin False 2 (-2))"
    using le sub c2 by (simp add: dec_cmp_def is_nan_def fix_prec_small split: if_splits)
  then have "dval (Fin False c2 e2) \<le> dval (Fin False 2 (-2))" by (simp add: dec_le_dval)
  moreover have "dval (Fin False c2 e2) = \<bar>dval (Fin s2 c2 e2)\<bar>"
    using powi_pos [of e2] by (simp add: dint_def abs_mult)
  moreover have "dval (Fin False 2 (-2)) = 2 / 100" by (simp add: dint_def power_int_minus)
  ultimately have "\<bar>dval parsed - dval d\<bar> \<le> 2 / 100" using pa(2) e2(1) neg(2) by simp
  then show ?thesis using x full by blast
qed
section \<open>A passed check\<close>

definition invoice_rows :: "vdict list \<Rightarrow> cost_analysis \<Rightarrow> vdict list" where
  "invoice_rows rows a = filter (\<lambda>r. cell r F_FILE = strip (replace1 nbsp '' '' (ca_source a))) rows"

definition head_amount :: "vdict \<Rightarrow> dec option" where
  "head_amount invoice = to_decimal (val_or (get_val invoice H_HEAD_PRETAX) (get_val invoice H_EX_TAX))"

definition head_tax :: "vdict \<Rightarrow> dec option" where
  "head_tax invoice = to_decimal (val_or (get_val invoice H_HEAD_TAX) (get_val invoice F_TAX))"

lemma cost_validation_Inr:
  assumes "cost_validation rows invoice = Inr v"
  shows "sum_decimal rows F_PRETAX = Inr (cc_parsed_amount v) \<and> sum_decimal rows F_TAX = Inr (cc_parsed_tax v)
    \<and> within_tolerance (head_amount invoice) (values_complete rows F_PRETAX) (cc_parsed_amount v) = Inr (cc_amount_ok v)
    \<and> within_tolerance (head_tax invoice) (values_complete rows F_TAX) (cc_parsed_tax v) = Inr (cc_tax_ok v)"
  using assms unfolding cost_validation_def Let_def head_amount_def [symmetric] head_tax_def [symmetric]
  by (auto simp: res_bind_eq_Inr)

lemma check_status_passed:
  "check_status v invoice = S_PASSED \<longleftrightarrow> cc_amount_ok v \<and> cc_tax_ok v \<and> cell invoice H_CLASS_STATUS = ''ok''"
proof -
  have "S_REVIEW \<noteq> S_PASSED" by (simp add: cost_status_defs)
  then show ?thesis by (simp add: check_status_def)
qed

lemma check_row_status:
  assumes "check_row rows a = Inr r"
  shows "\<exists>v. cost_validation (invoice_rows rows a) (ca_invoice a) = Inr v
    \<and> get_val r H_CHECK_STATUS = VStr (check_status v (ca_invoice a))"
proof -
  obtain v where v: "cost_validation (invoice_rows rows a) (ca_invoice a) = Inr v"
    using assms unfolding check_row_def Let_def invoice_rows_def by (auto simp: res_bind_eq_Inr)
  note b = assms [unfolded check_row_def Let_def invoice_rows_def [symmetric] v res_bind_simps]
  have "dget r H_CHECK_STATUS = Some (VStr (check_status v (ca_invoice a)))"
    by (rule build_row_dget [OF b]) (simp add: str_col_def num_col_def cost_field_defs row_field_defs)
  then show ?thesis using v by (simp add: get_val_def)
qed

lemma complete_rows: "values_complete rows k \<Longrightarrow> rows \<noteq> [] \<and> (\<forall>r\<in>set rows. dec_at r k \<noteq> None)"
  by (simp add: values_complete_def list_all_iff)

lemma passed_side:
  assumes "within_tolerance x (values_complete rows k) parsed = Inr True" and "sum_decimal rows k = Inr parsed"
    and "plain_cells rows k" and "\<And>d. x = Some d \<Longrightarrow> short_amount 12 d"
  shows "values_complete rows k \<and> (\<exists>d. x = Some d \<and> \<bar>sum_list (map (value_at k) rows) - dval d\<bar> \<le> 2 / 100)"
proof -
  note e = sum_decimal_exact [OF assms(2,3)]
  obtain s c n where p: "parsed = Fin s c n" "-6 \<le> n" using e by blast
  have b: "\<bar>dval parsed\<bar> \<le> 10 ^ 9 * 10 ^ 12" using e by blast
  have "dval parsed = sum_list (map (value_at k) rows)" using e by blast
  then show ?thesis using within_tolerance_exact [OF assms(1) p b assms(4)] by metis
qed

text \<open>C7: An invoice that the cost table marks as passed adds up: it has rows, each with an amount and a tax, its
  type was recognized, and the exact sums of both columns differ from the amount and the tax of its head
  by at most two cents, for amounts of at most six decimals below \<open>10 ^ 12\<close>.\<close>

theorem passed_invoices_add_up:
  assumes "check_row rows a = Inr r" and "get_val r H_CHECK_STATUS = VStr S_PASSED"
    and "plain_cells (invoice_rows rows a) F_PRETAX" and "plain_cells (invoice_rows rows a) F_TAX"
    and "\<And>d. head_amount (ca_invoice a) = Some d \<or> head_tax (ca_invoice a) = Some d \<Longrightarrow> short_amount 12 d"
  shows "invoice_rows rows a \<noteq> [] \<and> cell (ca_invoice a) H_CLASS_STATUS = ''ok''
    \<and> (\<forall>row\<in>set (invoice_rows rows a). dec_at row F_PRETAX \<noteq> None \<and> dec_at row F_TAX \<noteq> None)
    \<and> (\<exists>amount tax. head_amount (ca_invoice a) = Some amount \<and> head_tax (ca_invoice a) = Some tax
         \<and> \<bar>sum_list (map (value_at F_PRETAX) (invoice_rows rows a)) - dval amount\<bar> \<le> 2 / 100
         \<and> \<bar>sum_list (map (value_at F_TAX) (invoice_rows rows a)) - dval tax\<bar> \<le> 2 / 100)"
proof -
  obtain v where v: "cost_validation (invoice_rows rows a) (ca_invoice a) = Inr v"
    and s: "check_status v (ca_invoice a) = S_PASSED"
    using check_row_status [OF assms(1)] assms(2) by auto
  have ok: "cc_amount_ok v" "cc_tax_ok v" "cell (ca_invoice a) H_CLASS_STATUS = ''ok''"
    using s check_status_passed by blast+
  note cv = cost_validation_Inr [OF v]
  have "within_tolerance (head_amount (ca_invoice a)) (values_complete (invoice_rows rows a) F_PRETAX) (cc_parsed_amount v) = Inr True"
    "within_tolerance (head_tax (ca_invoice a)) (values_complete (invoice_rows rows a) F_TAX) (cc_parsed_tax v) = Inr True"
    using cv ok by simp_all
  note sides = passed_side [OF this(1) _ assms(3)] passed_side [OF this(2) _ assms(4)]
  show ?thesis
    using sides cv ok(3) complete_rows assms(5) by blast
qed

definition sample_cost_row :: vdict where
  "sample_cost_row = [(F_FILE, VStr ''a.xml''), (F_PRETAX, VStr ''100.00''), (F_TAX, VStr ''13.00'')]"

definition sample_analysis :: cost_analysis where
  "sample_analysis = \<lparr>ca_source = ''a.xml'', ca_rows = [sample_cost_row],
     ca_invoice = [(H_HEAD_PRETAX, VStr ''100.00''), (H_HEAD_TAX, VStr ''13.01''), (H_CLASS_STATUS, VStr ''ok'')],
     ca_status = ''ok'', ca_message = [], ca_amount_ok = True, ca_tax_ok = True, ca_score = 2,
     ca_source_format = ''xml'', ca_source_path = ''a.xml''\<rparr>"
lemma cost_sample_parse:
  "to_decimal (VStr ''100.00'') = Some (Fin False 10000 (-2))"
  "to_decimal (VStr ''13.00'') = Some (Fin False 1300 (-2))"
  "to_decimal (VStr ''13.01'') = Some (Fin False 1301 (-2))"
  "clean_text (VStr ''a.xml'') = ''a.xml''" "clean_text (VStr ''ok'') = ''ok''"
  by code_simp+

lemma cost_sample_cells:
  "get_val sample_cost_row F_PRETAX = VStr ''100.00''" "get_val sample_cost_row F_TAX = VStr ''13.00''"
  "get_val sample_cost_row F_FILE = VStr ''a.xml''" "get_val sample_cost_row F_TOTAL = VNone"
  "get_val (ca_invoice sample_analysis) H_HEAD_PRETAX = VStr ''100.00''"
  "get_val (ca_invoice sample_analysis) H_HEAD_TAX = VStr ''13.01''"
  "get_val (ca_invoice sample_analysis) H_CLASS_STATUS = VStr ''ok''"
  by (simp_all add: get_val_def sample_cost_row_def sample_analysis_def)
    (simp_all add: row_field_defs cost_field_defs)

lemma sample_heads:
  "head_amount (ca_invoice sample_analysis) = Some (Fin False 10000 (-2))"
  "head_tax (ca_invoice sample_analysis) = Some (Fin False 1301 (-2))"
  by (simp_all add: head_amount_def head_tax_def val_or_def cost_sample_cells cost_sample_parse)

lemma sample_rows: "invoice_rows [sample_cost_row] sample_analysis = [sample_cost_row]"
proof -
  have "strip (replace1 nbsp '' '' ''a.xml'') = ''a.xml''" using cost_sample_parse(4) by (simp add: clean_text_def)
  then show ?thesis
    by (simp add: invoice_rows_def cell_def cost_sample_cells cost_sample_parse) (simp add: sample_analysis_def)
qed

lemma sample_validation: "\<exists>v. cost_validation [sample_cost_row] (ca_invoice sample_analysis) = Inr v \<and> cc_amount_ok v \<and> cc_tax_ok v
    \<and> cc_invoice_amount v = Some (Fin False 10000 (-2)) \<and> cc_invoice_tax v = Some (Fin False 1301 (-2))
    \<and> cc_parsed_amount v = Fin False 10000 (-2) \<and> cc_parsed_tax v = Fin False 1300 (-2)"
proof -
  have sums: "sum_decimal [sample_cost_row] F_PRETAX = Inr (Fin False 10000 (-2))"
    "sum_decimal [sample_cost_row] F_TAX = Inr (Fin False 1300 (-2))"
    by (simp_all add: sum_decimal_def cost_sample_cells cost_sample_parse dec_add_res_def scale_to_def dint_def fix_prec_def prec_bound_def Let_def)
  have tol: "within_tolerance (Some (Fin False 10000 (-2))) True (Fin False 10000 (-2)) = Inr True"
    "within_tolerance (Some (Fin False 1301 (-2))) True (Fin False 1300 (-2)) = Inr True"
    by (simp_all add: within_tolerance_def dec_sub_res_def dec_add_res_def scale_to_def dint_def fix_prec_def prec_bound_def
        dec_cmp_def is_nan_def dec_le_def Let_def)
  have full: "values_complete [sample_cost_row] F_PRETAX" "values_complete [sample_cost_row] F_TAX"
    by (simp_all add: values_complete_def cost_sample_cells cost_sample_parse)
  show ?thesis
    unfolding cost_validation_def Let_def head_amount_def [symmetric] head_tax_def [symmetric]
    by (simp add: sample_heads sums tol full)
qed

lemma number_cents: "c < 1000000 \<Longrightarrow> \<exists>v. number 2 (Some (Fin s c (-2))) = Inr v"
  by (simp add: number_def prec_bound_def Let_def)

lemma cost_sample_check: "\<exists>r. check_row [sample_cost_row] sample_analysis = Inr r \<and> get_val r H_CHECK_STATUS = VStr S_PASSED"
proof -
  obtain v where v: "cost_validation [sample_cost_row] (ca_invoice sample_analysis) = Inr v"
    and ok: "cc_amount_ok v" "cc_tax_ok v"
    and n: "cc_invoice_amount v = Some (Fin False 10000 (-2))" "cc_invoice_tax v = Some (Fin False 1301 (-2))"
      "cc_parsed_amount v = Fin False 10000 (-2)" "cc_parsed_tax v = Fin False 1300 (-2)"
    using sample_validation by blast
  have diffs: "diff_of (Fin False 10000 (-2)) (Some (Fin False 10000 (-2))) = Inr (Some (Fin False 0 (-2)))"
    "diff_of (Fin False 1300 (-2)) (Some (Fin False 1301 (-2))) = Inr (Some (Fin True 1 (-2)))"
    by (simp_all add: diff_of_def some_res_def dec_sub_res_def dec_add_res_def scale_to_def dint_def fix_prec_def prec_bound_def Let_def)
  have gross: "sum_decimal [sample_cost_row] F_TOTAL = Inr dec_zero"
    by (simp add: sum_decimal_def cost_sample_cells to_decimal_def clean_text_def to_decimal_text_def strip_def strip_chars_def replace1_def)
  have zero: "\<exists>v. number 2 (Some dec_zero) = Inr v" by (simp add: number_def prec_bound_def Let_def)
  have cents: "\<exists>v. number 2 (Some (Fin False 10000 (-2))) = Inr v" "\<exists>v. number 2 (Some (Fin False 1300 (-2))) = Inr v"
    "\<exists>v. number 2 (Some (Fin False 1301 (-2))) = Inr v" "\<exists>v. number 2 (Some (Fin False 0 (-2))) = Inr v"
    "\<exists>v. number 2 (Some (Fin True (Suc 0) (-2))) = Inr v"
    by (rule number_cents, simp)+
  have "\<exists>r. check_row [sample_cost_row] sample_analysis = Inr r"
    unfolding check_row_def Let_def invoice_rows_def [symmetric] sample_rows v res_bind_simps
    by (rule build_row_total)
      (auto simp: str_col_def num_col_def n diffs gross some_res_def cents zero)
  then obtain r where r: "check_row [sample_cost_row] sample_analysis = Inr r" by blast
  have "check_status v (ca_invoice sample_analysis) = S_PASSED"
    using ok by (simp add: check_status_passed cell_def cost_sample_cells cost_sample_parse)
  then show ?thesis using check_row_status [OF r] v r by (auto simp: sample_rows)
qed

theorem passed_invoices_add_up_witness:
  "\<exists>r. check_row [sample_cost_row] sample_analysis = Inr r \<and> get_val r H_CHECK_STATUS = VStr S_PASSED
    \<and> \<bar>sum_list (map (value_at F_TAX) [sample_cost_row]) - dval (Fin False 1301 (-2))\<bar> \<le> 2 / 100"
proof -
  obtain r where r: "check_row [sample_cost_row] sample_analysis = Inr r" "get_val r H_CHECK_STATUS = VStr S_PASSED"
    using cost_sample_check by blast
  have plain: "plain_cells [sample_cost_row] F_PRETAX" "plain_cells [sample_cost_row] F_TAX"
    by (simp_all add: plain_cells_def cost_sample_cells cost_sample_parse short_amount_def dint_def power_int_minus)
  have heads: "short_amount 12 d"
    if "head_amount (ca_invoice sample_analysis) = Some d \<or> head_tax (ca_invoice sample_analysis) = Some d" for d
    using that by (auto simp: sample_heads short_amount_def dint_def power_int_minus)
  have "\<exists>tax. head_tax (ca_invoice sample_analysis) = Some tax
      \<and> \<bar>sum_list (map (value_at F_TAX) [sample_cost_row]) - dval tax\<bar> \<le> 2 / 100"
    using passed_invoices_add_up [OF r _ _ heads] plain unfolding sample_rows by blast
  then show ?thesis using r by (simp only: sample_heads option.inject) blast
qed

section \<open>Zeros\<close>

text \<open>A tax of zero that the PDF reader stored as a float counts as a missing tax, while the text of the XML
  reader does not.\<close>

lemma zero_float_is_missing:
  "res_bind (number 2 (Some dec_zero)) (\<lambda>v. Inr (to_decimal v)) = Inr None"
  "to_decimal (VStr ''0'') = Some dec_zero"
proof -
  show "res_bind (number 2 (Some dec_zero)) (\<lambda>v. Inr (to_decimal v)) = Inr None"
    by (simp add: number_def prec_bound_def Let_def to_decimal_def clean_text_def str_or_empty_def
        to_decimal_text_def strip_def strip_chars_def replace1_def)
  show "to_decimal (VStr ''0'') = Some dec_zero" by code_simp
qed

text \<open>A markup of zero percent, as the user enters it, multiplies by 1.08; one of 150 percent by 1.015.\<close>

lemma markup_texts:
  "parse_decimal ''0.08'' = Some (Fin False 8 (-2))" "parse_decimal ''1.5'' = Some (Fin False 15 (-1))"
  "parse_decimal ''0'' = Some dec_zero" "parse_decimal ''150'' = Some (Fin False 150 0)"
  "unsigned_number ''0''" "unsigned_number ''150''"
  "clean_text (VStr ''0'') = ''0''" "clean_text (VStr ''150'') = ''150''"
  "replace1 FULL_PERCENT ''%'' ''0'' = ''0''" "replace1 FULL_PERCENT ''%'' ''150'' = ''150''"
  "strip (replace1 nbsp '' '' ''0.08'') = ''0.08''" "strip (replace1 nbsp '' '' ''1.5'') = ''1.5''"
  "replace1 FULL_PERCENT ''%'' ''0.08'' = ''0.08''" "replace1 FULL_PERCENT ''%'' ''1.5'' = ''1.5''"
  "strip (replace1 nbsp '' '' []) = []" "replace1 FULL_PERCENT ''%'' [] = []"
  "dec_or_empty (Fin False 0 0) = []" "dec_or_empty (Fin False 15 (-1)) = ''1.5''" "dec_or_empty (Fin False 8 (-2)) = ''0.08''"
  by code_simp+

lemma drop_zeros_numeral:
  "drop_zeros (numeral k) c e = (if c mod 10 = 0 then drop_zeros (pred_numeral k) (c div 10) (e + 1) else (c, e))"
  using drop_zeros.simps(2) [of "pred_numeral k" c e] by (simp only: numeral_eq_Suc [symmetric])

lemma quotients:
  "dec_div (Fin False 150 0) dec_hundred = Inr (Fin False 15 (-1))"
  "dec_div (Fin False 15 (-1)) dec_hundred = Inr (Fin False 15 (-3))"
proof -
  have l: "length (nat_text 100) = 3" "length (nat_text 150) = 3" "length (nat_text 15) = 2"
    by code_simp+
  have d: "div_digits 150 100 = (15 * 10 ^ 28, 0, 29)" "div_digits 15 100 = (15 * 10 ^ 28, 0, 30)"
    by (simp_all add: div_digits_def l Let_def)
  show "dec_div (Fin False 150 0) dec_hundred = Inr (Fin False 15 (-1))"
    by (simp add: d drop_zeros_numeral fix_prec_def prec_bound_def)
  show "dec_div (Fin False 15 (-1)) dec_hundred = Inr (Fin False 15 (-3))"
    by (simp add: d drop_zeros_numeral fix_prec_def prec_bound_def)
qed

lemma markup_normalized_twice:
  "res_bind (normalize_reference_markup_percent (VStr ''0'')) reference_markup_multiplier = Inr (Fin False 108 (-2))"
  "res_bind (normalize_reference_markup_percent (VStr ''150'')) reference_markup_multiplier = Inr (Fin False 1015 (-3))"
proof -
  have z: "normalize_reference_markup_percent (VStr ''0'') = Inr (Fin False 0 0)"
    by (simp add: normalize_reference_markup_percent_def markup_texts ends_with_percent_def Let_def)
  have p: "normalize_reference_markup_percent (VStr ''150'') = Inr (Fin False 15 (-1))"
    by (simp add: normalize_reference_markup_percent_def markup_texts ends_with_percent_def quotients scale_to_def dint_def Let_def del: dec_div.simps)
  show "res_bind (normalize_reference_markup_percent (VStr ''0'')) reference_markup_multiplier = Inr (Fin False 108 (-2))"
    by (simp add: z reference_markup_multiplier_def renormalized_def normalize_reference_markup_rate_def markup_candidate_def
        markup_texts ends_with_percent_def some_res_def quotients DEFAULT_REFERENCE_MARKUP_RATE_def
        dec_add_res_def scale_to_def dint_def fix_prec_def prec_bound_def Let_def del: dec_div.simps)
  show "res_bind (normalize_reference_markup_percent (VStr ''150'')) reference_markup_multiplier = Inr (Fin False 1015 (-3))"
    by (simp add: p reference_markup_multiplier_def renormalized_def normalize_reference_markup_rate_def markup_candidate_def
        markup_texts ends_with_percent_def some_res_def quotients DEFAULT_REFERENCE_MARKUP_RATE_def
        dec_add_res_def scale_to_def dint_def fix_prec_def prec_bound_def Let_def del: dec_div.simps)
qed

end
