(* ===== verification/Cost_Stock.thy ===== *)
theory Cost_Stock
  imports Cost_Checks Draft_Groups
begin

text \<open>
  A saved reference stays within its stock: whatever requests the user sends, \<open>save_reference_status\<close> writes
  no invoiced quantity below zero or above the quantity of its row.
\<close>

section \<open>One request\<close>

lemma dec_le_of_not_less: "\<not> is_nan a \<Longrightarrow> \<not> is_nan b \<Longrightarrow> \<not> dec_less a b \<Longrightarrow> dec_le b a"
  by (cases a; cases b) (auto simp: is_nan_def dec_le_def Let_def min.commute)

lemma within_stock_bounds:
  "within_stock invoiced quantity = Inr u \<Longrightarrow> dec_le dec_zero invoiced \<and> dec_le invoiced quantity"
  by (auto simp: within_stock_def negative_def dec_cmp_def res_bind_eq_Inr intro!: dec_le_of_not_less split: if_splits)

text \<open>An item with an invoiced quantity within the stock of its row.\<close>

definition stocked :: "vdict list \<Rightarrow> string \<times> vdict \<Rightarrow> bool" where
  "stocked rows p \<longleftrightarrow> (\<exists>row\<in>set rows. \<exists>q. gets row ''key'' = fst p
     \<and> get_val (snd p) ''invoiced_quantity'' = VStr (dec_text q)
     \<and> dec_le dec_zero q \<and> dec_le q (service_decimal (get_val row ''quantity'')))"

lemma saved_item_quantity:
  assumes "saved_item now key row existing quantity invoiced changed rate locked g = Inr d"
  shows "get_val d ''invoiced_quantity'' = VStr (dec_text invoiced)"
proof -
  have "dget d ''invoiced_quantity'' = Some (VStr (dec_text invoiced))"
    by (rule build_row_dget [OF assms [unfolded saved_item_def Let_def]])
      (simp add: str_col_def ref_keys_def)
  then show ?thesis by (simp add: get_val_def)
qed

lemma set_ddel: "p \<in> set (ddel k d) \<Longrightarrow> p \<in> set d"
  by (auto simp: ddel_def)

lemma set_fold_ddel: "p \<in> set (fold ddel ks d) \<Longrightarrow> p \<in> set d"
  by (induction ks arbitrary: d) (auto dest: set_ddel)

lemma save_row_items:
  assumes "save_row cf now fallback workbook key row item current = Inr items" and "p \<in> set items"
  shows "p \<in> set current \<or> (fst p = key \<and> (\<exists>q. get_val (snd p) ''invoiced_quantity'' = VStr (dec_text q)
    \<and> dec_le dec_zero q \<and> dec_le q (service_decimal (get_val row ''quantity''))))"
proof -
  let ?e = "status_for_reference (reference_aliases row) key current workbook"
  let ?c = "fold ddel (filter (\<lambda>a. a \<noteq> key) (reference_aliases row)) current"
  let ?q = "service_decimal (get_val row ''quantity'')"
  obtain m :: markup_meta and req u rate figures keep where within: "within_stock (fst req) ?q = Inr u"
    and rest: "(if \<not> keep then Inr (ddel key ?c)
        else res_bind (saved_item now key row ?e ?q (fst req) (snd req) rate (requested_lock cf item (mk_locked m)) figures)
          (\<lambda>saved. Inr (dput key saved ?c))) = Inr items"
    using assms(1) unfolding save_row_def Let_def res_bind_eq_Inr split_beta by (elim exE conjE) (rule that; assumption)
  show ?thesis
  proof (cases keep)
    case False
    then have "p \<in> set ?c" using rest assms(2) by (auto dest: set_ddel)
    then show ?thesis by (simp add: set_fold_ddel)
  next
    case True
    then obtain saved
      where saved: "saved_item now key row ?e ?q (fst req) (snd req) rate (requested_lock cf item (mk_locked m)) figures = Inr saved"
        and items: "items = dput key saved ?c"
      using rest by (auto simp: res_bind_eq_Inr)
    from assms(2) have "p = (key, saved) \<or> p \<in> set ?c" unfolding items by (rule set_dput)
    then show ?thesis using saved_item_quantity [OF saved] within_stock_bounds [OF within] set_fold_ddel
      by (metis fst_conv snd_conv)
  qed
qed

section \<open>A list of requests\<close>

lemma save_reference_items:
  assumes "save_reference cf now fallback workbook by_key item current = Inr items" and "p \<in> set items"
    and "\<And>k row. dget by_key k = Some row \<Longrightarrow> row \<in> set rows \<and> gets row ''key'' = k"
  shows "p \<in> set current \<or> stocked rows p"
proof (cases "if text_at item ''key'' = [] then None else dget by_key (text_at item ''key'')")
  case None
  then show ?thesis using assms(1,2) by (simp add: save_reference_def Let_def)
next
  case (Some row)
  then have s: "save_row cf now fallback workbook (text_at item ''key'') row item current = Inr items"
    using assms(1) by (simp add: save_reference_def Let_def)
  have "row \<in> set rows" "gets row ''key'' = text_at item ''key''"
    using Some assms(3) by (auto split: if_splits)
  then show ?thesis using save_row_items [OF s assms(2)] unfolding stocked_def by metis
qed

lemma rows_by_key:
  assumes "dget (fold (\<lambda>r. dput (gets r ''key'') r) rows d) k = Some row"
    and "\<And>k row. dget d k = Some row \<Longrightarrow> row \<in> set all \<and> gets row ''key'' = k" and "set rows \<subseteq> set all"
  shows "row \<in> set all \<and> gets row ''key'' = k"
  using assms
proof (induction rows arbitrary: d)
  case (Cons r rows)
  show ?case
    by (rule Cons.IH [OF Cons.prems(1) [unfolded fold_simps]]) (use Cons.prems(2,3) in \<open>auto simp: dget_dput split: if_splits\<close>)
qed simp

lemma payload_items:
  assumes "service_status_payload now items markup = Inr d"
  shows "get_val d ''items'' = VDict (map (\<lambda>p. (fst p, VDict (snd p))) (filter (\<lambda>p. fst p \<noteq> []) (dsorted items)))"
proof -
  obtain r where r: "renormalized (mk_rate markup) = Inr r"
    using assms unfolding service_status_payload_def res_bind_eq_Inr by blast
  note b = assms [unfolded service_status_payload_def r res_bind_simps]
  have "dget d ''items'' = Some (VDict (map (\<lambda>p. (fst p, VDict (snd p))) (filter (\<lambda>p. fst p \<noteq> []) (dsorted items))))"
    by (rule build_row_dget [OF b]) (simp add: str_col_def)
  then show ?thesis by (simp add: get_val_def)
qed

text \<open>C9: Saving reference statuses keeps every invoiced quantity within its stock. Whatever the requests,
  when \<open>save_reference_status\<close> succeeds, every item of the file it writes stood in the file before,
  unchanged, or it belongs to a row of the current stock and its invoiced quantity is a number between
  zero and the quantity of that row.\<close>

theorem saved_references_within_stock:
  assumes "save_reference_status cf now configured detail sheet requests f = Inr g"
  shows "\<exists>rows items. build_reference_rows cf detail (read_reference_status f) f sheet configured = Inr rows
    \<and> get_val (status_file_payload g) ''items'' = VDict (map (\<lambda>p. (fst p, VDict (snd p))) items)
    \<and> (\<forall>p\<in>set items. p \<in> set (read_reference_status f) \<or> stocked rows p)"
proof -
  let ?b = "\<lambda>rows. fold (\<lambda>r. dput (gets r ''key'') r) rows []"
  obtain fallback workbook rows items d
    where rows: "build_reference_rows cf detail (read_reference_status f) f sheet configured = Inr rows"
      and items: "res_fold (save_reference cf now fallback workbook (?b rows)) requests (read_reference_status f) = Inr items"
      and d: "service_status_payload now items fallback = Inr d" and g: "g = plain_json_file d"
    using assms unfolding save_reference_status_def Let_def res_bind_eq_Inr by blast
  have index: "row \<in> set rows \<and> gets row ''key'' = k" if "dget (?b rows) k = Some row" for k row
    by (rule rows_by_key [OF that]) simp_all
  have "\<forall>p\<in>set items. p \<in> set (read_reference_status f) \<or> stocked rows p"
    by (rule res_fold_invariant [OF items]) (use save_reference_items [OF _ _ index] in blast)+
  moreover have "get_val (status_file_payload g) ''items'' = VDict (map (\<lambda>p. (fst p, VDict (snd p))) (filter (\<lambda>p. fst p \<noteq> []) (dsorted items)))"
    by (simp add: g status_file_payload_def plain_json_file_def payload_items [OF d])
  ultimately show ?thesis using rows
    by (intro exI [of _ rows] exI [of _ "filter (\<lambda>p. fst p \<noteq> []) (dsorted items)"]) simp
qed

section \<open>An invoiced quantity of one out of two\<close>

definition stock_row :: vdict where
  "stock_row = [(F_PROJECT, VStr ''p''), (F_QUANTITY, VStr ''2''), (F_PRETAX, VStr ''2'')]"

definition stock_key :: string where "stock_key = service_reference_key stock_row"

definition stock_request :: vdict where
  "stock_request = [(''key'', VStr stock_key), (''invoiced_quantity'', VStr ''1'')]"

lemma stock_key_strip: "strip stock_key = stock_key" and stock_key_set: "stock_key \<noteq> []"
proof -
  have "is_hex_digit c" if "c \<in> set (sha1 s)" for c s
    using that word_hex_digits by (auto simp: sha1_def list_all_iff)
  then have "solid stock_key"
    by (force simp: solid_def list_all_iff stock_key_def service_reference_key_def reference_key_def is_hex_digit_def is_digit_def)
  then show "strip stock_key = stock_key" by (rule strip_solid)
  show "stock_key \<noteq> []" by (simp add: stock_key_def service_reference_key_def reference_key_def)
qed

lemma stock_parse:
  "to_decimal (VStr ''2'') = Some (Fin False 2 0)" "service_decimal (VStr ''2'') = Fin False 2 0"
  "service_decimal (VFloat ''2.0'') = Fin False 20 (-1)" "service_decimal (VFloat ''1.0'') = Fin False 10 (-1)"
  "user_quantity (VStr ''1'') = Inr (Fin False 1 0)"
  "service_decimal VNone = dec_zero" "to_decimal VNone = None"
  by code_simp+

lemma stock_cells:
  "get_val stock_row F_QUANTITY = VStr ''2''" "get_val stock_row F_PRETAX = VStr ''2''" "get_val stock_row F_TAX = VNone"
  "get_val stock_row F_TOTAL = VNone"
  by (simp_all add: get_val_def stock_row_def) (simp_all add: row_field_defs)

lemma stock_digits: "nat_text 2 = ''2''" "nat_text 1 = ''1''" "nat_text (Suc 0) = ''1''"
  "length (nat_text 216) = 3" "length (nat_text 20) = 2"
  by code_simp+

lemma strip_zeros_none: "c mod 10 \<noteq> 0 \<Longrightarrow> strip_zeros k c e = (c, e)"
  by (cases k) simp_all

lemma stock_doubles: "nearest_double 2 1 = (2 ^ 52, -51)" "nearest_double 1 1 = (2 ^ 52, -52)"
proof -
  have b: "bit_len 0 = 0" by (subst bit_len.simps) simp
  have b1: "bit_len 1 = 1" by (subst bit_len.simps) (simp add: b)
  have "bit_len 2 = 2" by (subst bit_len.simps) (use b1 in simp)
  note bits = b1 this
  have k: "scaled_ratio 2 1 (-52) = (2 ^ 53, 1)" "scaled_ratio 2 1 (-51) = (2 ^ 52, 1)"
    "scaled_ratio 1 1 (-53) = (2 ^ 53, 1)" "scaled_ratio 1 1 (-52) = (2 ^ 52, 1)"
    by (simp_all add: scaled_ratio_def)
  have r: "round_ratio (2 ^ 52) 1 = 2 ^ 52"
    by (simp add: round_ratio_def)
  have e: "int 2 - int 1 - 53 = -52" "int 1 - int 1 - 53 = -53" "(-52::int) + 1 = -51" "(-53::int) + 1 = -52"
    "max (-1074) (-51::int) = -51" "max (-1074) (-52::int) = -52" "((2::nat) ^ 53 \<le> 2 ^ 53 div 1) = True" "((2::nat) ^ 52 = 2 ^ 53) = False"
    by simp_all
  show "nearest_double 2 1 = (2 ^ 52, -51)"
    unfolding nearest_double_def bits Let_def e k r fst_conv snd_conv if_True if_False by (rule refl)
  show "nearest_double 1 1 = (2 ^ 52, -52)"
    unfolding nearest_double_def bits Let_def e k r fst_conv snd_conv if_True if_False by (rule refl)
qed

lemma stock_floats: "float_text (Fin False 2 0) = ''2.0''" "float_text (Fin False 1 0) = ''1.0''"
proof -
  have two: "shortest_from 17 1 (2 ^ 52, -51) (2 ^ 52) (2 ^ 51) 1 = (2, 0)"
    by (subst shortest_from.simps) (simp add: digits_at_def round_ratio_def ten_ratio_def stock_doubles [unfolded One_nat_def])
  have one: "shortest_from 17 1 (2 ^ 52, -52) (2 ^ 52) (2 ^ 52) 1 = (1, 0)"
    by (subst shortest_from.simps) (simp add: digits_at_def round_ratio_def ten_ratio_def stock_doubles [unfolded One_nat_def])
  have point: "decimal_point (2 ^ 52) (2 ^ 51) = 1" "decimal_point (2 ^ 52) (2 ^ 52) = 1"
    by (simp_all add: decimal_point_def stock_digits)
  have zeros: "strip_zeros 17 2 0 = (2, 0)" "strip_zeros 17 1 0 = (1, 0)"
    by (simp_all add: strip_zeros_none)
  have "double_text (2 ^ 52, -51) = ''2.0''"
    unfolding double_text_def Let_def using two point(1) zeros(1) by (simp add: float_digits_def stock_digits)
  moreover have "double_text (2 ^ 52, -52) = ''1.0''"
    unfolding double_text_def Let_def using one point(2) zeros(2) by (simp add: float_digits_def stock_digits)
  ultimately show "float_text (Fin False 2 0) = ''2.0''" "float_text (Fin False 1 0) = ''1.0''"
    by (simp_all add: ten_ratio_def stock_doubles [unfolded One_nat_def] Let_def)
qed

lemma stock_quotients:
  "dec_div (Fin False 2 0) (Fin False 2 0) = Inr (Fin False 1 0)"
  "dec_div (Fin False 216 (-2)) (Fin False 2 0) = Inr (Fin False 108 (-2))"
  "dec_div (Fin False 1 0) (Fin False 20 (-1)) = Inr (Fin False 5 (-1))"
proof -
  have d: "div_digits 2 2 = (10 ^ 29, 0, 29)" "div_digits 216 2 = (108 * 10 ^ 27, 0, 27)" "div_digits 1 20 = (5 * 10 ^ 28, 0, 30)"
    by (simp_all add: div_digits_def stock_digits Let_def)
  show "dec_div (Fin False 2 0) (Fin False 2 0) = Inr (Fin False 1 0)"
    "dec_div (Fin False 216 (-2)) (Fin False 2 0) = Inr (Fin False 108 (-2))"
    "dec_div (Fin False 1 0) (Fin False 20 (-1)) = Inr (Fin False 5 (-1))"
    by (simp_all add: d [simplified] drop_zeros_numeral fix_prec_def prec_bound_def)
qed

text \<open>The markup without a status file.\<close>

definition stock_markup :: markup_meta where
  "stock_markup = \<lparr>mk_rate = Fin False 8 (-2), mk_display = ''8%'', mk_percent = ''8'', mk_locked = False\<rparr>"

lemma default_rate: "normalize_reference_markup_rate ''0.08'' ''0.08'' = Inr (Fin False 8 (-2))"
  "renormalized (Fin False 8 (-2)) = Inr (Fin False 8 (-2))"
  "reference_markup_multiplier (Fin False 8 (-2)) = Inr (Fin False 108 (-2))"
proof -
  show n: "normalize_reference_markup_rate ''0.08'' ''0.08'' = Inr (Fin False 8 (-2))"
    by (simp add: normalize_reference_markup_rate_def markup_candidate_def
        markup_texts ends_with_percent_def DEFAULT_REFERENCE_MARKUP_RATE_def scale_to_def dint_def Let_def)
  then show r: "renormalized (Fin False 8 (-2)) = Inr (Fin False 8 (-2))"
    by (simp add: renormalized_def markup_texts DEFAULT_REFERENCE_MARKUP_RATE_def)
  show "reference_markup_multiplier (Fin False 8 (-2)) = Inr (Fin False 108 (-2))"
    by (simp add: r reference_markup_multiplier_def dec_add_res_def scale_to_def dint_def fix_prec_def prec_bound_def Let_def)
qed

lemma default_percent: "reference_markup_percent_text (Fin False 8 (-2)) = Inr ''8''"
proof -
  have eight: "digit_char 8 = CHR ''8''" "digit_char 0 = CHR ''0''" by code_simp+
  have n: "nat_text 8000 = ''8000''"
    by (simp add: nat_text.simps eight)
  have t: "trim_zeros (format_f (Fin False 8000 (-3))) = ''8''"
    by (simp add: format_digits_def pad_left_def n trim_zeros_def rstrip_char_def Let_def)
  have "dec_mul (Fin False 8 (-2)) dec_hundred = Inr (Fin False 800 (-2))"
    by (simp add: fix_prec_def prec_bound_def)
  then show ?thesis
    by (simp add: reference_markup_percent_text_def default_rate decimal_text_def t [unfolded format_f.simps, simplified] prec_bound_def Let_def)
qed

lemma default_markup: "markup_of_rate (Fin False 8 (-2)) False = Inr stock_markup"
  by (simp add: markup_of_rate_def reference_markup_display_def default_percent stock_markup_def)

lemma service_markup_missing: "service_markup_meta cf (File [] None) ''0.08'' = Inr stock_markup"
proof -
  have "default_rate_text = ''0.08''" by (simp add: DEFAULT_REFERENCE_MARKUP_RATE_def markup_texts)
  then show ?thesis
    by (simp add: service_markup_meta_def status_file_payload_def default_rate default_markup service_truthy_def get_default_def)
qed

lemma service_row_markup_empty: "service_row_markup cf [] stock_markup = Inr stock_markup"
proof -
  have "mk_rate stock_markup = Fin False 8 (-2)" "mk_locked stock_markup = False" by (simp_all add: stock_markup_def)
  then show ?thesis
    by (simp add: service_row_markup_def service_markup_rate_def default_rate default_markup service_truthy_def text_at_def gets_or_def get_val_def get_default_def)
qed

lemma status_missing: "status_for_reference as k [] [] = []"
  by (simp add: status_for_reference_def)

section \<open>The row of the stock\<close>

lemmas stock_arith = dec_add_res_def scale_to_def dint_def fix_prec_def prec_bound_def dec_cmp_def is_nan_def dec_le_def Let_def

lemma stock_sums:
  "service_sum [stock_row] F_QUANTITY = Inr (Fin False 2 0)" "service_sum [stock_row] F_PRETAX = Inr (Fin False 2 0)"
  "service_sum [stock_row] F_TAX = Inr dec_zero" "service_sum [stock_row] F_TOTAL = Inr dec_zero"
  by (simp_all add: service_sum_def stock_cells stock_parse stock_arith)

lemma stock_averages:
  "stock_average_unit_price [stock_row] = Inr (Some (Fin False 1 0))" "stock_average_unit_price_with_tax [stock_row] = Inr None"
  "purchase_reference_average_unit_price_with_tax [stock_row] = Inr None"
proof -
  have "pretax_and_quantity stock_row = Inr (Some (Fin False 2 0, Fin False 2 0))"
    by (simp add: pretax_and_quantity_def stock_cells stock_parse unless_def not_positive_def negative_def stock_arith)
  moreover have "dec_add_res dec_zero (Fin False 2 0) = Inr (Fin False 2 0)"
    by (simp add: stock_arith)
  moreover have "not_positive (Fin False 2 0) = Inr False" by (simp add: not_positive_def stock_arith)
  ultimately show "stock_average_unit_price [stock_row] = Inr (Some (Fin False 1 0))"
    by (simp add: stock_average_unit_price_def weighted_average_def unless_def some_res_def stock_quotients del: dec_div.simps)
  show "stock_average_unit_price_with_tax [stock_row] = Inr None"
    by (simp add: stock_average_unit_price_with_tax_def weighted_average_def taxed_and_quantity_def stock_cells stock_parse)
  show "purchase_reference_average_unit_price_with_tax [stock_row] = Inr None"
    by (simp add: purchase_reference_average_unit_price_with_tax_def price_mean_def
        detail_average_unit_price_with_tax_def stock_cells stock_parse)
qed

lemma stock_reference:
  "reference_output_average_unit_price_with_tax (Some (Fin False 1 0)) (Fin False 8 (-2)) = Inr (Some (Fin False 12204 (-4)))"
  "reference_totals (Some (Fin False 1 0)) (Fin False 2 0) (Fin False 108 (-2))
    = Inr (Fin False 216 (-2), Fin False 2808 (-4), Fin False 24408 (-4))"
  by (simp_all add: reference_output_average_unit_price_with_tax_def default_rate some_res_def REFERENCE_OUTPUT_TAX_RATE_def
      reference_totals_def positive_def stock_arith)

lemma float_col_ok: "d \<noteq> Nan True \<Longrightarrow> float_col k (Inr d) = (k, Inr (VFloat (float_text d)))"
  by (simp add: float_col_def)

lemma stock_rests:
  "rest_of (Fin False 2 0) dec_zero = Inr (Fin False 2 0)" "rest_of (Fin False 216 (-2)) dec_zero = Inr (Fin False 216 (-2))"
  "rest_of (Fin False 2808 (-4)) dec_zero = Inr (Fin False 2808 (-4))" "rest_of (Fin False 24408 (-4)) dec_zero = Inr (Fin False 24408 (-4))"
  by (simp_all add: rest_of_def dec_sub_res_def positive_def stock_arith)

lemma service_text_small:
  "\<exists>t. service_text 3 (Fin False 20 (-1)) = Inr t" "\<exists>t. service_text 6 (Fin False 8 (-2)) = Inr t"
  "\<exists>t. service_text 6 (Fin False 21600 (-4)) = Inr t" "\<exists>t. service_text 6 (Fin False 280800 (-6)) = Inr t"
  "\<exists>t. service_text 6 (Fin False 2440800 (-6)) = Inr t" "\<exists>t. service_text 6 (Fin False 108000 (-5)) = Inr t"
  "\<exists>t. service_text 6 (Fin False 1404000 (-7)) = Inr t" "\<exists>t. service_text 6 (Fin False 12204000 (-7)) = Inr t"
  by (simp_all add: service_text_def round_half_even_def prec_bound_def Let_def)

lemma stock_row_built:
  obtains r where "build_reference_row cf [] [] stock_markup (stock_key, [stock_row]) = Inr r"
    and "get_val r ''key'' = VStr stock_key" and "get_val r ''quantity'' = VFloat ''2.0''"
    and "get_val r ''average_unit_price'' = VFloat ''1.0''"
proof -
  have rate: "mk_rate stock_markup = Fin False 8 (-2)" by (simp add: stock_markup_def)
  have none: "service_invoiced [] (Fin False 2 0) = Inr dec_zero"
    by (simp add: service_invoiced_def get_val_def stock_parse stock_arith)
  have locked: "service_locked_part [] k t q dec_zero = Inr dec_zero" for k t q
    by (simp add: service_locked_part_def not_positive_def stock_arith)
  have status: "service_status_text (Fin False 2 0) dec_zero = Inr S_NOT_INVOICED"
    by (simp add: service_status_text_def positive_def is_zero_def stock_arith)
  obtain columns where columns: "reference_columns [] [stock_row] stock_markup (Fin False 2 0) (Some (Fin False 1 0))
      (Fin False 216 (-2), Fin False 2808 (-4), Fin False 24408 (-4)) dec_zero = Inr columns"
    and ok: "\<And>p. p \<in> set columns \<Longrightarrow> \<exists>v. snd p = Inr v"
    and cols: "dget columns ''key'' = None" "dget columns ''quantity'' = Some (Inr (VFloat ''2.0''))"
      "dget columns ''average_unit_price'' = Some (Inr (VFloat ''1.0''))"
  proof -
    obtain t where t: "service_text 6 (Fin False 8 (-2)) = Inr t" using service_text_small(2) by blast
    show ?thesis
      by (rule that) (unfold reference_columns_def prod.case rate locked status stock_averages stock_reference res_bind_simps, rule refl,
        auto simp: float_col_ok price_col_def str_col_def t is_zero_def stock_sums stock_quotients stock_rests stock_floats stock_floats [unfolded One_nat_def]
          simp del: dec_div.simps float_text.simps)
  qed
  have b: "build_reference_row cf [] [] stock_markup (stock_key, [stock_row])
      = build_row (str_col ''key'' stock_key # map (\<lambda>h. (h, Inr (get_default stock_row h (VStr [])))) ref_keys @ columns)"
    unfolding build_reference_row_def Let_def fst_conv snd_conv list.sel status_missing
    by (simp only: stock_sums service_row_markup_empty rate default_rate stock_averages stock_reference none columns res_bind_simps)
  obtain r where r: "build_row (str_col ''key'' stock_key # map (\<lambda>h. (h, Inr (get_default stock_row h (VStr [])))) ref_keys @ columns) = Inr r"
    using build_row_total [of "str_col ''key'' stock_key # map (\<lambda>h. (h, Inr (get_default stock_row h (VStr [])))) ref_keys @ columns"] ok
    by (force simp: str_col_def)
  have skip: "dget (map (\<lambda>h. (h, Inr (get_default stock_row h (VStr [])))) ref_keys @ columns) k = dget columns k"
    if "k \<in> {''key'', ''quantity'', ''average_unit_price''}" for k
    using that by (auto simp: ref_keys_def row_field_defs)
  note got = build_row_dget [OF r]
  show ?thesis
  proof (rule that)
    show "build_reference_row cf [] [] stock_markup (stock_key, [stock_row]) = Inr r" using b r by simp
    show "get_val r ''key'' = VStr stock_key" using got [of "''key''"] by (simp add: str_col_def get_val_def)
    show "get_val r ''quantity'' = VFloat ''2.0''" using got [of "''quantity''"] skip cols(2) by (simp add: str_col_def get_val_def)
    show "get_val r ''average_unit_price'' = VFloat ''1.0''"
      using got [of "''average_unit_price''"] skip cols(3) by (simp add: str_col_def get_val_def)
  qed
qed

section \<open>The save\<close>

lemma stock_key_at: "text_at stock_request ''key'' = stock_key"
  using stock_key_strip stock_key_set by (simp add: stock_request_def text_at_def gets_or_def get_val_def)

lemma stock_request_cells:
  "text_at stock_request ''reference_markup_rate_percent'' = []" "text_at stock_request ''markup_rate'' = []"
  "text_at stock_request ''reference_markup_rate'' = []" "dhas stock_request ''invoiced_quantity''"
  "get_val stock_request ''invoiced_quantity'' = VStr ''1''"
  "\<not> dhas stock_request ''reference_markup_locked''" "\<not> dhas stock_request ''locked''"
  by (simp_all add: stock_request_def text_at_def gets_or_def get_val_def dhas_def)

definition stock_figures :: saved_figures where
  "stock_figures = \<lparr>sg_amount = Fin False 21600 (-4), sg_tax = Fin False 280800 (-6), sg_total = Fin False 2440800 (-6),
     sg_ratio = Fin False 5 (-1), sg_status = S_PARTLY\<rparr>"

lemma stock_saved_figures:
  assumes "get_val r ''average_unit_price'' = VFloat ''1.0''"
  shows "saved_figures_of r (Fin False 20 (-1)) (Fin False 1 0) (Fin False 8 (-2)) = Inr stock_figures"
proof -
  have s: "service_status_text (Fin False 20 (-1)) (Fin False 1 0) = Inr S_PARTLY"
    by (simp add: service_status_text_def positive_def is_zero_def stock_arith)
  have m: "dec_mul (Fin False 10 (-1)) (Fin False 108 (-2)) = Inr (Fin False 1080 (-3))"
    "dec_mul (Fin False 1080 (-3)) (Fin False 20 (-1)) = Inr (Fin False 21600 (-4))"
    "dec_mul (Fin False 21600 (-4)) REFERENCE_OUTPUT_TAX_RATE = Inr (Fin False 280800 (-6))"
    "dec_add_res (Fin False 21600 (-4)) (Fin False 280800 (-6)) = Inr (Fin False 2440800 (-6))"
    by (simp_all add: REFERENCE_OUTPUT_TAX_RATE_def stock_arith)
  have z: "is_zero (Fin False 20 (-1)) = False" by (simp add: is_zero_def)
  show ?thesis
    unfolding saved_figures_of_def default_rate assms stock_parse m s z if_False stock_quotients res_bind_simps
    by (simp add: stock_figures_def)
qed

lemma stock_item_saved: "\<exists>d. saved_item now stock_key r [] (Fin False 20 (-1)) (Fin False 1 0) True (Fin False 8 (-2)) False stock_figures = Inr d"
proof -
  have part: "saved_part [] True (Fin False 1 0) (Fin False 5 (-1)) k t = dec_mul t (Fin False 5 (-1))" for k t
    by (simp add: saved_part_def not_positive_def stock_arith)
  have m: "dec_mul (Fin False 21600 (-4)) (Fin False 5 (-1)) = Inr (Fin False 108000 (-5))"
    "dec_mul (Fin False 280800 (-6)) (Fin False 5 (-1)) = Inr (Fin False 1404000 (-7))"
    "dec_mul (Fin False 2440800 (-6)) (Fin False 5 (-1)) = Inr (Fin False 12204000 (-7))"
    by (simp_all add: stock_arith)
  obtain t1 t2 t3 t4 t5 t6 t7 t8 where t: "service_text 3 (Fin False 20 (-1)) = Inr t1" "service_text 6 (Fin False 8 (-2)) = Inr t2"
    "service_text 6 (Fin False 21600 (-4)) = Inr t3" "service_text 6 (Fin False 280800 (-6)) = Inr t4"
    "service_text 6 (Fin False 2440800 (-6)) = Inr t5" "service_text 6 (Fin False 108000 (-5)) = Inr t6"
    "service_text 6 (Fin False 1404000 (-7)) = Inr t7" "service_text 6 (Fin False 12204000 (-7)) = Inr t8"
    using service_text_small by blast
  show ?thesis
    unfolding saved_item_def Let_def
    by (rule build_row_total) (auto simp: str_col_def ref_keys_def stock_figures_def part [unfolded One_nat_def] m t default_percent simp del: dec_mul.simps)
qed

lemma get_val_empty: "get_val [] k = VNone"
  by (simp add: get_val_def)

lemma stock_saved_row:
  assumes "get_val r ''quantity'' = VFloat ''2.0''" and "get_val r ''average_unit_price'' = VFloat ''1.0''"
  shows "\<exists>items. save_row cf now stock_markup [] stock_key r stock_request [] = Inr items"
proof -
  have rate: "mk_rate stock_markup = Fin False 8 (-2)" "mk_locked stock_markup = False" by (simp_all add: stock_markup_def)
  have q: "requested_quantity stock_request [] = Inr (Fin False 1 0, True)"
    by (simp add: requested_quantity_def stock_request_cells stock_parse stock_parse [unfolded One_nat_def] get_val_empty dec_eq_res_def stock_arith)
  have w: "within_stock (Fin False 1 0) (Fin False 20 (-1)) = Inr ()"
    by (simp add: within_stock_def negative_def stock_arith)
  have p: "requested_rate stock_request (Fin False 8 (-2)) (Fin False 8 (-2)) = Inr (Fin False 8 (-2))"
    by (simp add: requested_rate_def stock_request_cells)
  have l: "requested_lock cf stock_request False = False" by (simp add: requested_lock_def stock_request_cells)
  have k: "keeps_reference (Fin False 1 0) (Fin False 8 (-2)) False stock_markup = Inr True"
    by (simp add: keeps_reference_def positive_def stock_arith)
  obtain d where d: "saved_item now stock_key r [] (Fin False 20 (-1)) (Fin False 1 0) True (Fin False 8 (-2)) False stock_figures = Inr d"
    using stock_item_saved by blast
  show ?thesis
    unfolding save_row_def Let_def status_missing assms(1) stock_parse service_row_markup_empty res_bind_simps q prod.case w rate p
      stock_saved_figures [OF assms(2)] l k
    by (simp add: d [unfolded One_nat_def])
qed

lemma stock_payload: "\<exists>d. service_status_payload now items stock_markup = Inr d"
proof -
  obtain t where "service_text 6 (Fin False 8 (-2)) = Inr t" using service_text_small(2) by blast
  moreover have "mk_rate stock_markup = Fin False 8 (-2)" by (simp add: stock_markup_def)
  ultimately show ?thesis
    unfolding service_status_payload_def
    by (simp only: default_rate res_bind_simps) (rule build_row_total, auto simp: str_col_def default_percent)
qed

lemma stock_saves: "\<exists>g. save_reference_status cf now ''0.08'' [stock_row] [] [stock_request] (File [] None) = Inr g"
proof -
  obtain r where r: "build_reference_row cf [] [] stock_markup (stock_key, [stock_row]) = Inr r"
    and cells: "get_val r ''key'' = VStr stock_key" "get_val r ''quantity'' = VFloat ''2.0''"
      "get_val r ''average_unit_price'' = VFloat ''1.0''"
    by (rule stock_row_built)
  obtain items where items: "save_row cf now stock_markup [] stock_key r stock_request [] = Inr items"
    using stock_saved_row [OF cells(2,3)] by blast
  obtain d where d: "service_status_payload now items stock_markup = Inr d" using stock_payload by blast
  have none: "read_reference_status (File [] None) = []"
    by (simp add: read_reference_status_def status_file_payload_def get_default_def)
  have sheet: "sheet_reference_status ''0.08'' [] = Inr []" by (simp add: sheet_reference_status_def)
  have group: "group_by service_reference_key [stock_row] = [(stock_key, [stock_row])]"
    by (simp add: group_by_def stock_key_def dedup_def add_new_def)
  have rows: "build_reference_rows cf [stock_row] [] (File [] None) [] ''0.08'' = Inr [r]"
    by (simp add: build_reference_rows_def sheet service_markup_missing group r)
  have key: "gets r ''key'' = stock_key" using cells(1) stock_key_set by (simp add: gets_or_def)
  have "save_reference cf now stock_markup [] [(stock_key, r)] stock_request [] = Inr items"
    by (simp add: save_reference_def stock_key_at stock_key_set items)
  then show ?thesis
    by (simp add: save_reference_status_def none service_markup_missing sheet rows key d)
qed

theorem saved_references_within_stock_witness:
  "\<exists>g rows items. save_reference_status (\<lambda>t. t) ''now'' ''0.08'' [stock_row] [] [stock_request] (File [] None) = Inr g
    \<and> build_reference_rows (\<lambda>t. t) [stock_row] [] (File [] None) [] ''0.08'' = Inr rows
    \<and> get_val (status_file_payload g) ''items'' = VDict (map (\<lambda>p. (fst p, VDict (snd p))) items)
    \<and> (\<forall>p\<in>set items. stocked rows p)"
proof -
  obtain g where g: "save_reference_status (\<lambda>t. t) ''now'' ''0.08'' [stock_row] [] [stock_request] (File [] None) = Inr g"
    using stock_saves by blast
  have "read_reference_status (File [] None) = []"
    by (simp add: read_reference_status_def status_file_payload_def get_default_def)
  note result = saved_references_within_stock [OF g, unfolded this]
  obtain rows items where "build_reference_rows (\<lambda>t. t) [stock_row] [] (File [] None) [] ''0.08'' = Inr rows"
    and "get_val (status_file_payload g) ''items'' = VDict (map (\<lambda>p. (fst p, VDict (snd p))) items)"
    and "\<forall>p\<in>set items. p \<in> set [] \<or> stocked rows p"
    using result by (elim exE conjE) (rule that)
  then show ?thesis using g by (intro exI conjI) (assumption | simp)+
qed

end
