(* ===== verification/Class_Texts.thy ===== *)
theory Class_Texts
  imports Py_Text
begin

text \<open>
  The texts of \<open>extraction/classification.py\<close>: invoice types (\<open>IT_\<close>), business types (\<open>BT_\<close>) with their
  aliases, prefixes of labels and messages (\<open>CM_\<close>), and the column names of the summary (\<open>H_\<close>), written by the bytes of their UTF-8 encodings. An alias
  that is not ASCII is given by its code points (\<open>cp\<close>).
\<close>

text \<open>special VAT invoice\<close>
definition IT_SPECIAL :: string where
  "IT_SPECIAL =
    [CHR 0xE5, CHR 0xA2, CHR 0x9E, CHR 0xE5, CHR 0x80, CHR 0xBC, CHR 0xE7, CHR 0xA8, CHR 0x8E,
     CHR 0xE4, CHR 0xB8, CHR 0x93, CHR 0xE7, CHR 0x94, CHR 0xA8, CHR 0xE5, CHR 0x8F, CHR 0x91,
     CHR 0xE7, CHR 0xA5, CHR 0xA8]"

text \<open>ordinary VAT invoice\<close>
definition IT_ORDINARY :: string where
  "IT_ORDINARY =
    [CHR 0xE5, CHR 0xA2, CHR 0x9E, CHR 0xE5, CHR 0x80, CHR 0xBC, CHR 0xE7, CHR 0xA8, CHR 0x8E,
     CHR 0xE6, CHR 0x99, CHR 0xAE, CHR 0xE9, CHR 0x80, CHR 0x9A, CHR 0xE5, CHR 0x8F, CHR 0x91,
     CHR 0xE7, CHR 0xA5, CHR 0xA8]"

text \<open>electronic invoice (ordinary)\<close>
definition IT_ORDINARY_TITLE :: string where
  "IT_ORDINARY_TITLE =
    [CHR 0xE7, CHR 0x94, CHR 0xB5, CHR 0xE5, CHR 0xAD, CHR 0x90, CHR 0xE5, CHR 0x8F, CHR 0x91,
     CHR 0xE7, CHR 0xA5, CHR 0xA8, CHR ''('', CHR 0xE6, CHR 0x99, CHR 0xAE, CHR 0xE9, CHR 0x80,
     CHR 0x9A, CHR 0xE5, CHR 0x8F, CHR 0x91, CHR 0xE7, CHR 0xA5, CHR 0xA8, CHR '')'']"

text \<open>electronic invoice\<close>
definition E_INVOICE :: string where
  "E_INVOICE =
    [CHR 0xE7, CHR 0x94, CHR 0xB5, CHR 0xE5, CHR 0xAD, CHR 0x90, CHR 0xE5, CHR 0x8F, CHR 0x91,
     CHR 0xE7, CHR 0xA5, CHR 0xA8]"

text \<open>standard electronic invoice\<close>
definition BT_STANDARD :: string where
  "BT_STANDARD =
    [CHR 0xE6, CHR 0xA0, CHR 0x87, CHR 0xE5, CHR 0x87, CHR 0x86, CHR 0xE7, CHR 0x94, CHR 0xB5,
     CHR 0xE5, CHR 0xAD, CHR 0x90, CHR 0xE5, CHR 0x8F, CHR 0x91, CHR 0xE7, CHR 0xA5, CHR 0xA8]"

text \<open>rare earth\<close>
definition BT_RARE_EARTH :: string where
  "BT_RARE_EARTH =
    [CHR 0xE7, CHR 0xA8, CHR 0x80, CHR 0xE5, CHR 0x9C, CHR 0x9F]"

text \<open>building services\<close>
definition BT_BUILDING :: string where
  "BT_BUILDING =
    [CHR 0xE5, CHR 0xBB, CHR 0xBA, CHR 0xE7, CHR 0xAD, CHR 0x91, CHR 0xE6, CHR 0x9C, CHR 0x8D,
     CHR 0xE5, CHR 0x8A, CHR 0xA1]"

text \<open>passenger transport\<close>
definition BT_PASSENGER :: string where
  "BT_PASSENGER =
    [CHR 0xE6, CHR 0x97, CHR 0x85, CHR 0xE5, CHR 0xAE, CHR 0xA2, CHR 0xE8, CHR 0xBF, CHR 0x90,
     CHR 0xE8, CHR 0xBE, CHR 0x93]"

text \<open>freight\<close>
definition BT_FREIGHT :: string where
  "BT_FREIGHT =
    [CHR 0xE8, CHR 0xB4, CHR 0xA7, CHR 0xE7, CHR 0x89, CHR 0xA9, CHR 0xE8, CHR 0xBF, CHR 0x90,
     CHR 0xE8, CHR 0xBE, CHR 0x93]"

text \<open>sale of real estate\<close>
definition BT_ESTATE_SALE :: string where
  "BT_ESTATE_SALE =
    [CHR 0xE4, CHR 0xB8, CHR 0x8D, CHR 0xE5, CHR 0x8A, CHR 0xA8, CHR 0xE4, CHR 0xBA, CHR 0xA7,
     CHR 0xE9, CHR 0x94, CHR 0x80, CHR 0xE5, CHR 0x94, CHR 0xAE]"

text \<open>lease of real estate\<close>
definition BT_ESTATE_LEASE :: string where
  "BT_ESTATE_LEASE =
    [CHR 0xE4, CHR 0xB8, CHR 0x8D, CHR 0xE5, CHR 0x8A, CHR 0xA8, CHR 0xE4, CHR 0xBA, CHR 0xA7,
     CHR 0xE7, CHR 0xBB, CHR 0x8F, CHR 0xE8, CHR 0x90, CHR 0xA5, CHR 0xE7, CHR 0xA7, CHR 0x9F,
     CHR 0xE8, CHR 0xB5, CHR 0x81]"

text \<open>purchase of farm products\<close>
definition BT_AGRICULTURAL :: string where
  "BT_AGRICULTURAL =
    [CHR 0xE5, CHR 0x86, CHR 0x9C, CHR 0xE4, CHR 0xBA, CHR 0xA7, CHR 0xE5, CHR 0x93, CHR 0x81,
     CHR 0xE6, CHR 0x94, CHR 0xB6, CHR 0xE8, CHR 0xB4, CHR 0xAD]"

text \<open>purchase of solar power\<close>
definition BT_PHOTOVOLTAIC :: string where
  "BT_PHOTOVOLTAIC =
    [CHR 0xE5, CHR 0x85, CHR 0x89, CHR 0xE4, CHR 0xBC, CHR 0x8F, CHR 0xE6, CHR 0x94, CHR 0xB6,
     CHR 0xE8, CHR 0xB4, CHR 0xAD]"

text \<open>vehicle and vessel tax\<close>
definition BT_VESSEL_TAX :: string where
  "BT_VESSEL_TAX =
    [CHR 0xE4, CHR 0xBB, CHR 0xA3, CHR 0xE6, CHR 0x94, CHR 0xB6, CHR 0xE8, CHR 0xBD, CHR 0xA6,
     CHR 0xE8, CHR 0x88, CHR 0xB9, CHR 0xE7, CHR 0xA8, CHR 0x8E]"

text \<open>sale of own farm products\<close>
definition BT_SELF_PRODUCED :: string where
  "BT_SELF_PRODUCED =
    [CHR 0xE8, CHR 0x87, CHR 0xAA, CHR 0xE4, CHR 0xBA, CHR 0xA7, CHR 0xE5, CHR 0x86, CHR 0x9C,
     CHR 0xE4, CHR 0xBA, CHR 0xA7, CHR 0xE5, CHR 0x93, CHR 0x81, CHR 0xE9, CHR 0x94, CHR 0x80,
     CHR 0xE5, CHR 0x94, CHR 0xAE]"

text \<open>differential taxation, invoice of the difference\<close>
definition BT_DIFFERENCE :: string where
  "BT_DIFFERENCE =
    [CHR 0xE5, CHR 0xB7, CHR 0xAE, CHR 0xE9, CHR 0xA2, CHR 0x9D, CHR 0xE5, CHR 0xBE, CHR 0x81,
     CHR 0xE7, CHR 0xA8, CHR 0x8E, CHR 0xE5, CHR 0xB7, CHR 0xAE, CHR 0xE9, CHR 0xA2, CHR 0x9D,
     CHR 0xE5, CHR 0xBC, CHR 0x80, CHR 0xE7, CHR 0xA5, CHR 0xA8]"

text \<open>differential taxation, invoice of the full amount\<close>
definition BT_FULL :: string where
  "BT_FULL =
    [CHR 0xE5, CHR 0xB7, CHR 0xAE, CHR 0xE9, CHR 0xA2, CHR 0x9D, CHR 0xE5, CHR 0xBE, CHR 0x81,
     CHR 0xE7, CHR 0xA8, CHR 0x8E, CHR 0xE5, CHR 0x85, CHR 0xA8, CHR 0xE9, CHR 0xA2, CHR 0x9D,
     CHR 0xE5, CHR 0xBC, CHR 0x80, CHR 0xE7, CHR 0xA5, CHR 0xA8]"

text \<open>the evidence for the invoice type conflicts\<close>
definition CM_MAJOR_CONFLICT :: string where
  "CM_MAJOR_CONFLICT =
    [CHR 0xE5, CHR 0x8F, CHR 0x91, CHR 0xE7, CHR 0xA5, CHR 0xA8, CHR 0xE5, CHR 0xA4, CHR 0xA7,
     CHR 0xE7, CHR 0xB1, CHR 0xBB, CHR 0xE8, CHR 0xAF, CHR 0x81, CHR 0xE6, CHR 0x8D, CHR 0xAE,
     CHR 0xE5, CHR 0x86, CHR 0xB2, CHR 0xE7, CHR 0xAA, CHR 0x81, CHR 0xEF, CHR 0xBC, CHR 0x9A]"

text \<open>the evidence for the business type conflicts\<close>
definition CM_BUSINESS_CONFLICT :: string where
  "CM_BUSINESS_CONFLICT =
    [CHR 0xE7, CHR 0x89, CHR 0xB9, CHR 0xE5, CHR 0xAE, CHR 0x9A, CHR 0xE4, CHR 0xB8, CHR 0x9A,
     CHR 0xE5, CHR 0x8A, CHR 0xA1, CHR 0xE8, CHR 0xAF, CHR 0x81, CHR 0xE6, CHR 0x8D, CHR 0xAE,
     CHR 0xE5, CHR 0x86, CHR 0xB2, CHR 0xE7, CHR 0xAA, CHR 0x81, CHR 0xEF, CHR 0xBC, CHR 0x9A]"

text \<open>unknown business label\<close>
definition CM_UNKNOWN :: string where
  "CM_UNKNOWN =
    [CHR 0xE6, CHR 0x9C, CHR 0xAA, CHR 0xE7, CHR 0x9F, CHR 0xA5, CHR 0xE7, CHR 0x89, CHR 0xB9,
     CHR 0xE5, CHR 0xAE, CHR 0x9A, CHR 0xE4, CHR 0xB8, CHR 0x9A, CHR 0xE5, CHR 0x8A, CHR 0xA1,
     CHR 0xE6, CHR 0xA0, CHR 0x87, CHR 0xE7, CHR 0xAD, CHR 0xBE, CHR 0xEF, CHR 0xBC, CHR 0x9A]"

text \<open>invoice type not recognized\<close>
definition CM_NO_MAJOR :: string where
  "CM_NO_MAJOR =
    [CHR 0xE6, CHR 0x9C, CHR 0xAA, CHR 0xE8, CHR 0xAF, CHR 0x86, CHR 0xE5, CHR 0x88, CHR 0xAB,
     CHR 0xE5, CHR 0x8F, CHR 0x91, CHR 0xE7, CHR 0xA5, CHR 0xA8, CHR 0xE5, CHR 0xA4, CHR 0xA7,
     CHR 0xE7, CHR 0xB1, CHR 0xBB]"

text \<open>business type not recognized\<close>
definition CM_NO_BUSINESS :: string where
  "CM_NO_BUSINESS =
    [CHR 0xE6, CHR 0x9C, CHR 0xAA, CHR 0xE8, CHR 0xAF, CHR 0x86, CHR 0xE5, CHR 0x88, CHR 0xAB,
     CHR 0xE7, CHR 0x89, CHR 0xB9, CHR 0xE5, CHR 0xAE, CHR 0x9A, CHR 0xE4, CHR 0xB8, CHR 0x9A,
     CHR 0xE5, CHR 0x8A, CHR 0xA1, CHR 0xE7, CHR 0xB1, CHR 0xBB, CHR 0xE5, CHR 0x9E, CHR 0x8B]"

text \<open>conflict\<close>
definition CM_CONFLICT :: string where
  "CM_CONFLICT =
    [CHR 0xE5, CHR 0x86, CHR 0xB2, CHR 0xE7, CHR 0xAA, CHR 0x81]"

text \<open>the invoice types of one invoice conflict\<close>
definition CM_FAMILY_MAJOR :: string where
  "CM_FAMILY_MAJOR =
    [CHR 0xE5, CHR 0x90, CHR 0x8C, CHR 0xE7, CHR 0xA5, CHR 0xA8, CHR 0xE5, CHR 0x8F, CHR 0x91,
     CHR 0xE7, CHR 0xA5, CHR 0xA8, CHR 0xE5, CHR 0xA4, CHR 0xA7, CHR 0xE7, CHR 0xB1, CHR 0xBB,
     CHR 0xE5, CHR 0x86, CHR 0xB2, CHR 0xE7, CHR 0xAA, CHR 0x81, CHR 0xEF, CHR 0xBC, CHR 0x9A]"

text \<open>the business types of one invoice conflict\<close>
definition CM_FAMILY_BUSINESS :: string where
  "CM_FAMILY_BUSINESS =
    [CHR 0xE5, CHR 0x90, CHR 0x8C, CHR 0xE7, CHR 0xA5, CHR 0xA8, CHR 0xE7, CHR 0x89, CHR 0xB9,
     CHR 0xE5, CHR 0xAE, CHR 0x9A, CHR 0xE4, CHR 0xB8, CHR 0x9A, CHR 0xE5, CHR 0x8A, CHR 0xA1,
     CHR 0xE7, CHR 0xB1, CHR 0xBB, CHR 0xE5, CHR 0x9E, CHR 0x8B, CHR 0xE5, CHR 0x86, CHR 0xB2,
     CHR 0xE7, CHR 0xAA, CHR 0x81, CHR 0xEF, CHR 0xBC, CHR 0x9A]"

text \<open>invoice type\<close>
definition CM_MAJOR :: string where
  "CM_MAJOR =
    [CHR 0xE5, CHR 0x8F, CHR 0x91, CHR 0xE7, CHR 0xA5, CHR 0xA8, CHR 0xE5, CHR 0xA4, CHR 0xA7,
     CHR 0xE7, CHR 0xB1, CHR 0xBB]"

text \<open>business\<close>
definition CM_BUSINESS :: string where
  "CM_BUSINESS =
    [CHR 0xE7, CHR 0x89, CHR 0xB9, CHR 0xE5, CHR 0xAE, CHR 0x9A, CHR 0xE4, CHR 0xB8, CHR 0x9A,
     CHR 0xE5, CHR 0x8A, CHR 0xA1]"

text \<open>duplicate invoice\<close>
definition DUPLICATE_LABEL :: string where
  "DUPLICATE_LABEL =
    [CHR 0xE9, CHR 0x87, CHR 0x8D, CHR 0xE5, CHR 0xA4, CHR 0x8D, CHR 0xE5, CHR 0x8F, CHR 0x91,
     CHR 0xE7, CHR 0xA5, CHR 0xA8]"

text \<open>name of the file\<close>
definition H_NAME :: string where
  "H_NAME =
    [CHR 0xE6, CHR 0x96, CHR 0x87, CHR 0xE4, CHR 0xBB, CHR 0xB6, CHR 0xE5, CHR 0x90, CHR 0x8D]"

text \<open>type of the invoice\<close>
definition H_INVOICE_TYPE :: string where
  "H_INVOICE_TYPE =
    [CHR 0xE5, CHR 0x8F, CHR 0x91, CHR 0xE7, CHR 0xA5, CHR 0xA8, CHR 0xE7, CHR 0xB1, CHR 0xBB,
     CHR 0xE5, CHR 0x9E, CHR 0x8B]"

text \<open>amount of the invoice\<close>
definition H_AMOUNT :: string where
  "H_AMOUNT =
    [CHR 0xE5, CHR 0xBC, CHR 0x80, CHR 0xE7, CHR 0xA5, CHR 0xA8, CHR 0xE9, CHR 0x87, CHR 0x91,
     CHR 0xE9, CHR 0xA2, CHR 0x9D]"

text \<open>state of the manual edit\<close>
definition H_EDITED :: string where
  "H_EDITED =
    [CHR 0xE6, CHR 0x89, CHR 0x8B, CHR 0xE6, CHR 0x94, CHR 0xB9, CHR 0xE7, CHR 0x8A, CHR 0xB6,
     CHR 0xE6, CHR 0x80, CHR 0x81]"

text \<open>edited by hand\<close>
definition S_EDITED :: string where
  "S_EDITED =
    [CHR 0xE5, CHR 0xB7, CHR 0xB2, CHR 0xE6, CHR 0x89, CHR 0x8B, CHR 0xE6, CHR 0x94, CHR 0xB9]"

text \<open>the aliases of each business type, in the order of the table\<close>

definition BUSINESS_ALIASES :: "(string \<times> string list) list" where
  "BUSINESS_ALIASES =
    [(BT_STANDARD,
       [cp [0x6807, 0x51C6, 0x7535, 0x5B50, 0x53D1, 0x7968],
        cp [0x6807, 0x51C6, 0x53D1, 0x7968],
        cp [0x6807, 0x51C6]]),
     (BT_RARE_EARTH,
       [''XT'',
        cp [0x7A00, 0x571F],
        cp [0x7A00, 0x571F, 0x53D1, 0x7968]]),
     (BT_BUILDING,
       [cp [0x5EFA, 0x7B51, 0x670D, 0x52A1],
        cp [0x5EFA, 0x7B51, 0x670D, 0x52A1, 0x53D1, 0x7968]]),
     (BT_PASSENGER,
       [cp [0x65C5, 0x5BA2, 0x8FD0, 0x8F93],
        cp [0x65C5, 0x5BA2, 0x8FD0, 0x8F93, 0x670D, 0x52A1],
        cp [0x65C5, 0x5BA2, 0x8FD0, 0x8F93, 0x670D, 0x52A1, 0x53D1, 0x7968]]),
     (BT_FREIGHT,
       [cp [0x8D27, 0x7269, 0x8FD0, 0x8F93],
        cp [0x8D27, 0x7269, 0x8FD0, 0x8F93, 0x670D, 0x52A1],
        cp [0x8D27, 0x7269, 0x8FD0, 0x8F93, 0x670D, 0x52A1, 0x53D1, 0x7968]]),
     (BT_ESTATE_SALE,
       [cp [0x4E0D, 0x52A8, 0x4EA7, 0x9500, 0x552E],
        cp [0x9500, 0x552E, 0x4E0D, 0x52A8, 0x4EA7],
        cp [0x4E0D, 0x52A8, 0x4EA7, 0x9500, 0x552E, 0x53D1, 0x7968]]),
     (BT_ESTATE_LEASE,
       [cp [0x4E0D, 0x52A8, 0x4EA7, 0x7ECF, 0x8425, 0x79DF, 0x8D41],
        cp [0x4E0D, 0x52A8, 0x4EA7, 0x7ECF, 0x8425, 0x79DF, 0x8D41, 0x670D, 0x52A1],
        cp [0x4E0D, 0x52A8, 0x4EA7, 0x79DF, 0x8D41],
        cp [0x7ECF, 0x8425, 0x79DF, 0x8D41]]),
     (BT_AGRICULTURAL,
       [cp [0x519C, 0x4EA7, 0x54C1, 0x6536, 0x8D2D],
        cp [0x519C, 0x4EA7, 0x54C1, 0x6536, 0x8D2D, 0x53D1, 0x7968]]),
     (BT_PHOTOVOLTAIC,
       [cp [0x5149, 0x4F0F, 0x6536, 0x8D2D],
        cp [0x5149, 0x4F0F, 0x6536, 0x8D2D, 0x53D1, 0x7968]]),
     (BT_VESSEL_TAX,
       [cp [0x4EE3, 0x6536, 0x8F66, 0x8239, 0x7A0E],
        cp [0x8F66, 0x8239, 0x7A0E, 0x4EE3, 0x6536]]),
     (BT_SELF_PRODUCED,
       [cp [0x81EA, 0x4EA7, 0x519C, 0x4EA7, 0x54C1, 0x9500, 0x552E],
        cp [0x81EA, 0x4EA7, 0x519C, 0x4EA7, 0x54C1, 0x9500, 0x552E, 0x53D1, 0x7968],
        cp [0x81EA, 0x4EA7, 0x519C, 0x4EA7, 0x54C1]]),
     (BT_DIFFERENCE,
       [cp [0x5DEE, 0x989D, 0x5F81, 0x7A0E, 0x5DEE, 0x989D, 0x5F00, 0x7968],
        cp [0x5DEE, 0x989D, 0x5F81, 0x7A0E, 0x28, 0x5DEE, 0x989D, 0x5F00, 0x7968, 0x29],
        cp [0x5DEE, 0x989D, 0x5F00, 0x7968]]),
     (BT_FULL,
       [cp [0x5DEE, 0x989D, 0x5F81, 0x7A0E, 0x5168, 0x989D, 0x5F00, 0x7968],
        cp [0x5DEE, 0x989D, 0x5F81, 0x7A0E, 0x28, 0x5168, 0x989D, 0x5F00, 0x7968, 0x29],
        cp [0x5168, 0x989D, 0x5F00, 0x7968]])]"

text \<open>specific business type, specific business, business type, business label, invoice label, label\<close>

definition LABEL_PREFIXES :: "string list list" where
  "LABEL_PREFIXES = map uchars
    [cp [0x7279, 0x5B9A, 0x4E1A, 0x52A1, 0x7C7B, 0x578B],
     cp [0x7279, 0x5B9A, 0x4E1A, 0x52A1],
     cp [0x4E1A, 0x52A1, 0x7C7B, 0x578B],
     cp [0x4E1A, 0x52A1, 0x6807, 0x7B7E],
     cp [0x53D1, 0x7968, 0x6807, 0x7B7E],
     cp [0x6807, 0x7B7E]]"

lemmas message_defs = CM_MAJOR_CONFLICT_def CM_BUSINESS_CONFLICT_def CM_UNKNOWN_def CM_NO_MAJOR_def
  CM_NO_BUSINESS_def CM_CONFLICT_def CM_FAMILY_MAJOR_def CM_FAMILY_BUSINESS_def CM_MAJOR_def
  CM_BUSINESS_def

end
