(* ===== verification/Invoice_Classification.thy ===== *)
theory Invoice_Classification
  imports Class_Texts Cost_Texts "HOL-Library.While_Combinator" "HOL-Library.Monad_Syntax"
begin

text \<open>
  \<open>extraction/classification.py\<close>: the type of an invoice and its business type from the evidence that the
  readers collect, and whether that evidence is complete, missing or contradictory.

  \<open>nfkc\<close> is \<open>unicodedata.normalize("NFKC", t)\<close>. The two loops of \<open>_strip_label_wrapper\<close> are
  \<open>while_option\<close>: \<open>None\<close> stands for a loop that does not end, so that the theorems show that they do. A set of
  candidates is a list without repetitions.
\<close>

section \<open>Texts\<close>

definition unify_dash :: "string \<Rightarrow> string" where
  "unify_dash x =
    (if x \<in> {cp [0x2014], cp [0x2013], cp [0xFF0D], cp [0x2015]} then ''-'' else if x = cp [0xFF0F] then ''/'' else x)"

definition normalize_classification_chars :: "(string \<Rightarrow> string) \<Rightarrow> string \<Rightarrow> string list" where
  "normalize_classification_chars nfkc v = filter (\<lambda>x. \<not> uspace x) (map unify_dash (uchars (nfkc v)))"

definition normalize_classification_text :: "(string \<Rightarrow> string) \<Rightarrow> string \<Rightarrow> string" where
  "normalize_classification_text nfkc v = concat (normalize_classification_chars nfkc v)"

lemma not_uspace_hd: "byte (hd ch) \<notin> {9, 10, 11, 12, 13, 28, 29, 30, 31, 32, 0xC2, 0xE1, 0xE2, 0xE3} \<Longrightarrow> \<not> uspace ch"
  by (cases ch) (auto simp: uspace_def)

text \<open>\<open>t.strip(cs)\<close> and \<open>t.lstrip(cs)\<close>\<close>

definition lstrip_set :: "string list \<Rightarrow> string list \<Rightarrow> string list" where
  "lstrip_set cs xs = dropWhile (\<lambda>x. x \<in> set cs) xs"

definition strip_set :: "string list \<Rightarrow> string list \<Rightarrow> string list" where
  "strip_set cs xs = rev (dropWhile (\<lambda>x. x \<in> set cs) (rev (lstrip_set cs xs)))"

definition full_colon :: string where
  "full_colon = cp [0xFF1A]"

definition label_ends :: "string list" where
  "label_ends = [full_colon, '':'', '';'', cp [0xFF1B], '','', cp [0xFF0C], cp [0x3002]]"

definition label_separators :: "string list" where
  "label_separators = [full_colon, '':'', ''-'']"

fun text_contains :: "string \<Rightarrow> string \<Rightarrow> bool" where
  "text_contains p [] = (p = [])"
| "text_contains p (c # cs) = (starts_with p (c # cs) \<or> text_contains p cs)"

section \<open>Labels\<close>

text \<open>One pass of the first loop: the first prefix that fits is cut off.\<close>

definition drop_label :: "string list \<Rightarrow> string list \<times> bool" where
  "drop_label t =
    (case filter (\<lambda>p. take (length p) t = p) LABEL_PREFIXES of
       [] \<Rightarrow> (t, False)
     | p # ps \<Rightarrow> (lstrip_set label_separators (drop (length p) t), True))"

definition drop_labels :: "string list \<Rightarrow> string list option" where
  "drop_labels t =
     map_option fst (while_option (\<lambda>s. snd s \<and> fst s \<noteq> []) (\<lambda>s. drop_label (fst s)) (t, True))"

definition wrapped :: "string list \<Rightarrow> bool" where
  "wrapped t \<longleftrightarrow> 2 \<le> length t
     \<and> (hd t, last t) \<in> {(''('', '')''), (''['', '']''), (cp [0x3010], cp [0x3011]), (''<'', ''>'')}"

definition unwrap :: "string list \<Rightarrow> string list" where
  "unwrap t = strip_set label_separators (tl (butlast t))"

definition strip_label_wrapper :: "(string \<Rightarrow> string) \<Rightarrow> string \<Rightarrow> string option" where
  "strip_label_wrapper nfkc v = do {
     t \<leftarrow> drop_labels (strip_set label_ends (normalize_classification_chars nfkc v));
     u \<leftarrow> while_option wrapped unwrap t;
     Some (concat u)
   }"

definition canonical_business_type :: "(string \<Rightarrow> string) \<Rightarrow> string \<Rightarrow> string option" where
  "canonical_business_type nfkc v = do {
     t \<leftarrow> strip_label_wrapper nfkc v;
     Some (if t = [] then []
       else case filter (\<lambda>p. t \<in> set (map (normalize_classification_text nfkc) (snd p))) BUSINESS_ALIASES of
         [] \<Rightarrow> [] | p # ps \<Rightarrow> fst p)
   }"

section \<open>Evidence\<close>

text \<open>The pattern \<open>(?<!...)\<close> of the code looks for \<open>IT_SPECIAL\<close> too, so the first test covers it.\<close>

definition major_evidence :: "(string \<Rightarrow> string) \<Rightarrow> string \<Rightarrow> string list" where
  "major_evidence nfkc v =
    (let t = normalize_classification_text nfkc v
     in (if text_contains IT_SPECIAL t then [IT_SPECIAL] else [])
        @ (if text_contains IT_ORDINARY t \<or> text_contains IT_ORDINARY_TITLE t then [IT_ORDINARY] else []))"

definition invoice_type_candidates :: "(string \<Rightarrow> string) \<Rightarrow> string list \<Rightarrow> string list" where
  "invoice_type_candidates nfkc values = dedup (concat (map (major_evidence nfkc) values))"

text \<open>A label with its business type, which is empty for an unknown label.\<close>

definition label_evidence :: "(string \<Rightarrow> string) \<Rightarrow> string \<Rightarrow> (string \<times> string) list option" where
  "label_evidence nfkc v = do {
     raw \<leftarrow> strip_label_wrapper nfkc v;
     if raw = [] then Some [] else do { c \<leftarrow> canonical_business_type nfkc raw; Some [(raw, c)] }
   }"

definition business_type_candidates :: "(string \<Rightarrow> string) \<Rightarrow> string list \<Rightarrow> (string list \<times> string list) option" where
  "business_type_candidates nfkc values = do {
     found \<leftarrow> those (map (label_evidence nfkc) values);
     Some (dedup (map snd (filter (\<lambda>p. snd p \<noteq> []) (concat found))),
           dedup (map fst (filter (\<lambda>p. snd p = []) (concat found))))
   }"

definition bracket_open :: "string list" where
  "bracket_open = [''('', cp [0xFF08], ''['', cp [0x3010]]"

definition bracket_close :: "string list" where
  "bracket_close = ['')'', cp [0xFF09], '']'', cp [0x3011]]"

text \<open>\<open>re.findall\<close> of an opening bracket, a text without closing brackets and a closing bracket.\<close>

function bracketed :: "string list \<Rightarrow> string list" where
  "bracketed xs =
    (case xs of [] \<Rightarrow> []
     | x # ys \<Rightarrow>
         let inner = takeWhile (\<lambda>y. y \<notin> set bracket_close) ys; rest = dropWhile (\<lambda>y. y \<notin> set bracket_close) ys
         in if x \<in> set bracket_open \<and> inner \<noteq> [] \<and> rest \<noteq> [] then concat inner # bracketed (tl rest) else bracketed ys)"
  by pat_completeness auto
termination
proof (relation "measure length")
  fix xs ys inner rest :: "string list" and x :: string
  assume "xs = x # ys" and r: "rest = dropWhile (\<lambda>y. y \<notin> set bracket_close) ys"
  then show "(tl rest, xs) \<in> measure length"
    using length_dropWhile_le [of "\<lambda>y. y \<notin> set bracket_close" ys] by simp
qed auto

declare bracketed.simps [simp del]

definition title_value :: "(string \<Rightarrow> string) \<Rightarrow> string \<Rightarrow> string list option" where
  "title_value nfkc v =
    (let t = normalize_classification_text nfkc v
     in if t = [] then Some []
        else do {
          inner \<leftarrow> those (map (strip_label_wrapper nfkc) (bracketed (uchars v)));
          types \<leftarrow> those (map (canonical_business_type nfkc) inner);
          own \<leftarrow> canonical_business_type nfkc t;
          Some (map fst (filter (\<lambda>p. snd p \<noteq> []) (zip inner types)) @ (if own = [] then [] else [t]))
        })"

definition title_business_values :: "(string \<Rightarrow> string) \<Rightarrow> string list \<Rightarrow> string list option" where
  "title_business_values nfkc values = map_option concat (those (map (title_value nfkc) values))"

section \<open>The result\<close>

record classification_result =
  cr_invoice_type :: string
  cr_business_type :: string
  cr_status :: string
  cr_issue :: string

definition classification_status :: "string \<Rightarrow> string \<Rightarrow> string list \<Rightarrow> string \<times> string" where
  "classification_status invoice_type business_type issues =
    (let given = filter (\<lambda>t. t \<noteq> []) (map strip issues)
     in if list_ex (text_contains CM_CONFLICT) given then (''conflict'', join FULL_SEMICOLON (dedup given))
        else let issue = join FULL_SEMICOLON (dedup (given @ (if invoice_type = [] then [CM_NO_MAJOR] else [])
                 @ (if business_type = [] then [CM_NO_BUSINESS] else [])))
             in if invoice_type \<noteq> [] \<and> business_type \<noteq> [] \<and> issue = [] then (''ok'', []) else (''needs_review'', issue))"

definition single :: "string list \<Rightarrow> string" where
  "single xs = (case xs of [x] \<Rightarrow> x | _ \<Rightarrow> [])"

definition conflict_issue :: "string \<Rightarrow> string list \<Rightarrow> string list" where
  "conflict_issue message xs = (if 1 < length xs then [message @ join '' / '' (sort xs)] else [])"

definition default_business_type :: "(string \<Rightarrow> string) \<Rightarrow> string list \<Rightarrow> bool \<Rightarrow> string \<Rightarrow> string list \<Rightarrow> string" where
  "default_business_type nfkc titles allow_standard invoice_type known =
    (if known = [] \<and> allow_standard
        \<and> (invoice_type \<noteq> [] \<or> text_contains E_INVOICE (concat (map (normalize_classification_text nfkc) titles)))
     then BT_STANDARD else single known)"

definition classify_evidence ::
  "(string \<Rightarrow> string) \<Rightarrow> string list \<Rightarrow> bool \<Rightarrow> string list \<Rightarrow> string list \<Rightarrow> string list \<Rightarrow> classification_result" where
  "classify_evidence nfkc titles allow_standard majors known unknown =
    (let invoice_type = single majors;
         business_type = (if unknown \<noteq> [] then [] else default_business_type nfkc titles allow_standard invoice_type known);
         issues = conflict_issue CM_MAJOR_CONFLICT majors @ conflict_issue CM_BUSINESS_CONFLICT known
           @ (if unknown \<noteq> [] then [CM_UNKNOWN @ join '' / '' unknown] else []);
         result = classification_status invoice_type business_type issues
     in \<lparr>cr_invoice_type = invoice_type, cr_business_type = business_type, cr_status = fst result, cr_issue = snd result\<rparr>)"

definition business_evidence ::
  "(string \<Rightarrow> string) \<Rightarrow> string list \<Rightarrow> string list \<Rightarrow> string list \<Rightarrow> (string list \<times> string list) option" where
  "business_evidence nfkc titles labels structured_business = do {
     from_titles \<leftarrow> title_business_values nfkc titles;
     business_type_candidates nfkc (labels @ structured_business @ from_titles)
   }"

definition classify_invoice ::
  "(string \<Rightarrow> string) \<Rightarrow> string list \<Rightarrow> string list \<Rightarrow> string list \<Rightarrow> string list \<Rightarrow> bool \<Rightarrow> classification_result option" where
  "classify_invoice nfkc titles labels structured_types structured_business allow_standard = do {
     evidence \<leftarrow> business_evidence nfkc titles labels structured_business;
     Some (classify_evidence nfkc titles allow_standard (invoice_type_candidates nfkc (titles @ structured_types))
       (fst evidence) (snd evidence))
   }"

end
