(* ===== verification/Classification_Checks.thy ===== *)
theory Classification_Checks
  imports Invoice_Classification "HOL-Library.Sublist"
begin

text \<open>
  What the classification promises: the loops that cut labels off end with a part of the text, and an
  invoice is classified exactly when its evidence is complete and free of contradictions.
\<close>

section \<open>The loops end\<close>

lemma sublist_lstrip_set: "sublist (lstrip_set cs xs) xs"
  unfolding lstrip_set_def by (rule suffix_imp_sublist) (simp add: suffix_dropWhile)

lemma sublist_strip_set: "sublist (strip_set cs xs) xs"
proof -
  have "sublist (rev (strip_set cs xs)) (rev (lstrip_set cs xs))"
    unfolding strip_set_def rev_rev_ident by (rule suffix_imp_sublist) (simp add: suffix_dropWhile)
  then have "sublist (strip_set cs xs) (lstrip_set cs xs)" by (simp add: sublist_rev)
  then show ?thesis using sublist_lstrip_set by (rule sublist_order.order.trans)
qed

lemma sublist_length: "sublist xs ys \<Longrightarrow> length xs \<le> length ys"
  by (auto simp: sublist_def)

lemma label_prefix_not_Nil: "p \<in> set LABEL_PREFIXES \<Longrightarrow> p \<noteq> []"
  by (auto simp: LABEL_PREFIXES_def cp_def utf8_def)

lemma drop_label_cases:
  obtains (none) "drop_label t = (t, False)" "\<forall>p\<in>set LABEL_PREFIXES. take (length p) t \<noteq> p"
  | (some) p where "p \<in> set LABEL_PREFIXES" "take (length p) t = p" "drop_label t = (lstrip_set label_separators (drop (length p) t), True)"
proof (cases "filter (\<lambda>p. take (length p) t = p) LABEL_PREFIXES")
  case Nil
  then show ?thesis by (intro none) (auto simp: drop_label_def filter_empty_conv)
next
  case (Cons p ps)
  have "p \<in> set (filter (\<lambda>p. take (length p) t = p) LABEL_PREFIXES)" unfolding Cons by simp
  then have "p \<in> set LABEL_PREFIXES" "take (length p) t = p" by auto
  then show ?thesis using Cons by (intro some [of p]) (simp_all add: drop_label_def)
qed

lemma drop_label_sublist: "sublist (fst (drop_label t)) t"
proof (cases t rule: drop_label_cases)
  case none
  then show ?thesis by simp
next
  case (some p)
  have "sublist (drop (length p) t) t" by (simp add: suffix_drop suffix_imp_sublist)
  with sublist_lstrip_set have "sublist (lstrip_set label_separators (drop (length p) t)) t" by (rule sublist_order.order.trans)
  then show ?thesis using some(3) by simp
qed

lemma drop_label_shorter: "snd (drop_label t) \<Longrightarrow> length (fst (drop_label t)) < length t"
proof (cases t rule: drop_label_cases)
  case (some p)
  have "0 < length p" using label_prefix_not_Nil [OF some(1)] by simp
  moreover have "length (lstrip_set label_separators (drop (length p) t)) \<le> length (drop (length p) t)"
    by (rule sublist_length [OF sublist_lstrip_set])
  moreover have "length p \<le> length t" using arg_cong [OF some(2), of length] by simp
  ultimately have "length (lstrip_set label_separators (drop (length p) t)) < length t" unfolding length_drop by linarith
  then show ?thesis using some(3) by simp
qed simp

lemma drop_labels_ends: "\<exists>u. drop_labels t = Some u \<and> sublist u t \<and> (u = [] \<or> (\<forall>p\<in>set LABEL_PREFIXES. take (length p) u \<noteq> p))"
proof -
  let ?b = "\<lambda>s::string list \<times> bool. snd s \<and> fst s \<noteq> []" and ?c = "\<lambda>s::string list \<times> bool. drop_label (fst s)"
  let ?P = "\<lambda>s::string list \<times> bool. sublist (fst s) t \<and> (snd s \<or> (\<forall>p\<in>set LABEL_PREFIXES. take (length p) (fst s) \<noteq> p))"
  have step: "?P (?c s)" if "?P s" for s
  proof -
    have "sublist (fst (drop_label (fst s))) t" using drop_label_sublist that by (blast intro: sublist_order.order.trans)
    moreover have "snd (drop_label (fst s)) \<or> (\<forall>p\<in>set LABEL_PREFIXES. take (length p) (fst (drop_label (fst s))) \<noteq> p)"
      by (cases "fst s" rule: drop_label_cases) simp_all
    ultimately show ?thesis by blast
  qed
  have less: "length (fst (?c s)) + (if snd (?c s) then 1 else 0) < length (fst s) + (if snd s then 1 else 0)" if "?b s" for s
  proof (cases "snd (drop_label (fst s))")
    case True
    then show ?thesis using drop_label_shorter [OF True] that by simp
  next
    case False
    then show ?thesis using sublist_length [OF drop_label_sublist [of "fst s"]] that by simp
  qed
  have "\<exists>s. while_option ?b ?c (t, True) = Some s"
    by (rule measure_while_option_Some [where P = ?P and f = "\<lambda>s. length (fst s) + (if snd s then 1 else 0)"])
      (use step less in auto)
  then obtain s where s: "while_option ?b ?c (t, True) = Some s" by blast
  have "?P s" by (rule while_option_rule [where P = ?P, OF _ s]) (use step in auto)
  moreover have "\<not> ?b s" by (rule while_option_stop [OF s])
  ultimately show ?thesis unfolding drop_labels_def s by auto
qed

lemma unwrap_shorter: "wrapped t \<Longrightarrow> length (unwrap t) < length t"
  using sublist_length [OF sublist_strip_set, of label_separators "tl (butlast t)"]
  unfolding unwrap_def wrapped_def length_tl length_butlast by (elim conjE) linarith

lemma unwrap_sublist: "sublist (unwrap t) t"
proof -
  have "sublist (tl (butlast t)) t"
  proof (cases t rule: rev_cases)
    case (snoc xs x)
    have "sublist (tl xs) xs" by (simp add: suffix_imp_sublist suffix_tl)
    then show ?thesis using snoc by (auto simp: sublist_appendI intro: sublist_order.order.trans)
  qed simp
  with sublist_strip_set show ?thesis unfolding unwrap_def by (rule sublist_order.order.trans)
qed

lemma unwrap_ends: "\<exists>u. while_option wrapped unwrap t = Some u \<and> sublist u t \<and> \<not> wrapped u"
proof -
  have "\<exists>u. while_option wrapped unwrap t = Some u"
    by (rule measure_while_option_Some [where P = "\<lambda>_. True" and f = length]) (simp_all add: unwrap_shorter)
  then obtain u where u: "while_option wrapped unwrap t = Some u" by blast
  have "sublist u t"
    by (rule while_option_rule [where P = "\<lambda>u. sublist u t", OF _ u])
      (use unwrap_sublist in \<open>blast intro: sublist_order.order.trans\<close>)+
  then show ?thesis using u while_option_stop [OF u] by blast
qed

lemma strip_label_ends:
  "\<exists>u. strip_label_wrapper nfkc v = Some (concat u) \<and> sublist u (normalize_classification_chars nfkc v) \<and> \<not> wrapped u"
proof -
  let ?n = "normalize_classification_chars nfkc v"
  obtain t where t: "drop_labels (strip_set label_ends ?n) = Some t" "sublist t (strip_set label_ends ?n)"
    using drop_labels_ends by blast
  obtain u where u: "while_option wrapped unwrap t = Some u" "sublist u t" "\<not> wrapped u"
    using unwrap_ends by blast
  have "sublist u ?n"
    using u(2) t(2) sublist_strip_set by (blast intro: sublist_order.order.trans)
  then show ?thesis using t(1) u by (auto simp: strip_label_wrapper_def)
qed

lemma canonical_total: "\<exists>c. canonical_business_type nfkc v = Some c \<and> (c = [] \<or> c \<in> fst ` set BUSINESS_ALIASES)"
proof -
  obtain u where u: "strip_label_wrapper nfkc v = Some (concat u)" using strip_label_ends by blast
  let ?found = "filter (\<lambda>p. concat u \<in> set (map (normalize_classification_text nfkc) (snd p))) BUSINESS_ALIASES"
  have c: "canonical_business_type nfkc v = Some (if concat u = [] then [] else case ?found of [] \<Rightarrow> [] | p # ps \<Rightarrow> fst p)"
    by (simp only: canonical_business_type_def u bind.bind_lunit)
  have "p \<in> set BUSINESS_ALIASES" if "?found = p # ps" for p ps
  proof -
    have "p \<in> set ?found" unfolding that by simp
    then show ?thesis by simp
  qed
  then show ?thesis unfolding c by (cases ?found) simp_all
qed

text \<open>C39: Cutting the labels and brackets off a text ends for every text, whatever the Unicode normalization
  gives: neither loop of \<open>_strip_label_wrapper\<close> runs forever. The result is a contiguous part of the
  normalized text and is not wrapped in brackets any more, and the business type looked up for it is one
  of the table or empty.\<close>

theorem label_stripping_ends:
  "\<exists>u c. strip_label_wrapper nfkc v = Some (concat u) \<and> canonical_business_type nfkc v = Some c
    \<and> sublist u (normalize_classification_chars nfkc v) \<and> \<not> wrapped u
    \<and> c \<in> insert [] (fst ` set BUSINESS_ALIASES)"
  using strip_label_ends [of nfkc v] canonical_total [of nfkc v] by blast

section \<open>The evidence decides\<close>

lemma those_total: "(\<And>x. x \<in> set xs \<Longrightarrow> \<exists>y. f x = Some y) \<Longrightarrow> \<exists>ys. those (map f xs) = Some ys"
  by (induction xs) (simp, fastforce)

lemma label_evidence_total: "\<exists>ps. label_evidence nfkc v = Some ps"
proof -
  obtain u where u: "strip_label_wrapper nfkc v = Some u" using strip_label_ends by blast
  obtain c where "canonical_business_type nfkc u = Some c" using canonical_total by blast
  then show ?thesis by (simp add: label_evidence_def u)
qed

lemma title_value_total: "\<exists>vs. title_value nfkc v = Some vs"
proof -
  have "\<exists>y. strip_label_wrapper nfkc x = Some y" for x using strip_label_ends by blast
  then obtain inner where inner: "those (map (strip_label_wrapper nfkc) (bracketed (uchars v))) = Some inner"
    using those_total by metis
  have "\<exists>y. canonical_business_type nfkc x = Some y" for x using canonical_total by blast
  then obtain types own where "those (map (canonical_business_type nfkc) inner) = Some types"
    "canonical_business_type nfkc (normalize_classification_text nfkc v) = Some own"
    using those_total by metis
  then show ?thesis by (simp add: title_value_def Let_def inner)
qed

lemma candidates_shape:
  "business_type_candidates nfkc values = Some (known, unknown) \<Longrightarrow> [] \<notin> set known"
  by (auto simp: business_type_candidates_def Option.bind_eq_Some_conv)

lemma business_evidence_total:
  "\<exists>known unknown. business_evidence nfkc titles labels structured = Some (known, unknown) \<and> [] \<notin> set known"
proof -
  obtain vs where t: "title_business_values nfkc titles = Some vs"
    using those_total [of titles "title_value nfkc"] title_value_total by (auto simp: title_business_values_def)
  obtain known unknown where c: "business_type_candidates nfkc (labels @ structured @ vs) = Some (known, unknown)"
    using those_total [of "labels @ structured @ vs" "label_evidence nfkc"] label_evidence_total
    by (auto simp: business_type_candidates_def)
  then show ?thesis using candidates_shape [OF c] by (simp add: business_evidence_def t)
qed

lemma majors_shape: "set (invoice_type_candidates nfkc values) \<subseteq> {IT_SPECIAL, IT_ORDINARY}"
  by (auto simp: invoice_type_candidates_def major_evidence_def Let_def split: if_splits)

lemma texts_not_Nil: "IT_SPECIAL \<noteq> []" "IT_ORDINARY \<noteq> []" "BT_STANDARD \<noteq> []" "CM_NO_MAJOR \<noteq> []" "CM_NO_BUSINESS \<noteq> []" "CM_CONFLICT \<noteq> []"
  by (simp_all add: IT_SPECIAL_def IT_ORDINARY_def BT_STANDARD_def message_defs)

lemma single_not_Nil: "[] \<notin> set xs \<Longrightarrow> single xs \<noteq> [] \<longleftrightarrow> length xs = 1"
  by (cases xs) (auto simp: single_def split: list.splits)

lemma join_Nil_iff: "[] \<notin> set xs \<Longrightarrow> join sep xs = [] \<longleftrightarrow> xs = []"
  by (cases xs; cases "tl xs") auto

lemma dedup_Nil_iff [simp]: "dedup xs = [] \<longleftrightarrow> xs = []"
  by (metis set_dedup set_empty)

lemma status_conflict:
  assumes "i \<in> set issues" and "text_contains CM_CONFLICT (strip i)"
  shows "fst (classification_status a b issues) = ''conflict'' \<and> snd (classification_status a b issues) \<noteq> []"
proof -
  let ?g = "filter (\<lambda>t. t \<noteq> []) (map strip issues)"
  have "strip i \<noteq> []" using assms(2) texts_not_Nil by auto
  then have i: "strip i \<in> set ?g" using assms(1) by simp
  then have "list_ex (text_contains CM_CONFLICT) ?g" using assms(2) unfolding list_ex_iff by blast
  then have s: "classification_status a b issues = (''conflict'', join FULL_SEMICOLON (dedup ?g))"
    by (simp only: classification_status_def Let_def if_True)
  have "?g \<noteq> []" using i by (metis empty_iff empty_set)
  then have "join FULL_SEMICOLON (dedup ?g) \<noteq> []" by (subst join_Nil_iff) simp_all
  then show ?thesis unfolding s by simp
qed

lemma status_ok:
  "fst (classification_status a b issues) = ''ok'' \<longleftrightarrow> a \<noteq> [] \<and> b \<noteq> [] \<and> (\<forall>i\<in>set issues. strip i = [])"
  "snd (classification_status a b issues) = [] \<longleftrightarrow> fst (classification_status a b issues) = ''ok''"
proof -
  let ?g = "filter (\<lambda>t. t \<noteq> []) (map strip issues)"
  let ?e = "(if a = [] then [CM_NO_MAJOR] else []) @ (if b = [] then [CM_NO_BUSINESS] else [])"
  have g: "?g = [] \<longleftrightarrow> (\<forall>i\<in>set issues. strip i = [])" by (simp add: filter_empty_conv)
  define issue where "issue = join FULL_SEMICOLON (dedup (?g @ ?e))"
  have e: "issue = [] \<longleftrightarrow> ?g = [] \<and> a \<noteq> [] \<and> b \<noteq> []"
    unfolding issue_def by (subst join_Nil_iff) (use texts_not_Nil in auto)
  have "(fst (classification_status a b issues) = ''ok'' \<longleftrightarrow> a \<noteq> [] \<and> b \<noteq> [] \<and> (\<forall>i\<in>set issues. strip i = []))
    \<and> (snd (classification_status a b issues) = [] \<longleftrightarrow> fst (classification_status a b issues) = ''ok'')"
  proof (cases "list_ex (text_contains CM_CONFLICT) ?g")
    case True
    then obtain i where "i \<in> set issues" "text_contains CM_CONFLICT (strip i)" "strip i \<noteq> []" by (auto simp: list_ex_iff)
    then show ?thesis using status_conflict [of i issues a b] by auto
  next
    case False
    have c: "classification_status a b issues = (if a \<noteq> [] \<and> b \<noteq> [] \<and> issue = [] then (''ok'', []) else (''needs_review'', issue))"
      by (simp only: classification_status_def Let_def if_not_P [OF False] issue_def)
    show ?thesis using e g by (auto simp: c)
  qed
  then show "fst (classification_status a b issues) = ''ok'' \<longleftrightarrow> a \<noteq> [] \<and> b \<noteq> [] \<and> (\<forall>i\<in>set issues. strip i = [])"
    "snd (classification_status a b issues) = [] \<longleftrightarrow> fst (classification_status a b issues) = ''ok''"
    by blast+
qed

lemma strip_chars_keep:
  assumes "list_all (\<lambda>x. \<not> uspace x) xs" and "xs \<noteq> []"
  shows "strip_chars (xs @ ys) = xs @ rev (dropWhile uspace (rev ys))"
proof -
  have first: "dropWhile uspace (xs @ ys) = xs @ ys"
    using assms by (cases xs) auto
  have "\<not> uspace (hd (rev xs))" "rev xs \<noteq> []"
    using assms by (auto simp: list_all_iff hd_rev)
  then have "dropWhile uspace (rev xs) = rev xs" by (cases "rev xs") auto
  then have "dropWhile uspace (rev ys @ rev xs) = dropWhile uspace (rev ys) @ rev xs"
    by (cases "\<forall>y\<in>set (rev ys). uspace y") (auto simp: dropWhile_append)
  then show ?thesis by (simp add: strip_chars_def first)
qed

lemma text_contains_append: "text_contains p (a @ p @ b)"
proof (induction a)
  case Nil
  have "starts_with p (p @ b)" by (simp add: starts_with_def)
  then show ?case by (cases "p @ b") auto
qed simp

lemma strip_conflict:
  assumes "uchars (m @ s) = xs @ ys" and "list_all (\<lambda>x. \<not> uspace x) xs" and "concat xs = a @ CM_CONFLICT"
  shows "text_contains CM_CONFLICT (strip (m @ s))"
proof -
  have "CM_CONFLICT \<noteq> []" by (rule texts_not_Nil)
  then have "xs \<noteq> []" using assms(3) by auto
  then have "strip (m @ s) = (a @ CM_CONFLICT) @ concat (rev (dropWhile uspace (rev ys)))"
    by (simp add: strip_def assms(1) strip_chars_keep [OF assms(2)] assms(3))
  then show ?thesis by (simp add: text_contains_append)
qed

lemma conflict_messages:
  "text_contains CM_CONFLICT (strip (CM_MAJOR_CONFLICT @ s))" "text_contains CM_CONFLICT (strip (CM_BUSINESS_CONFLICT @ s))"
proof -
  show "text_contains CM_CONFLICT (strip (CM_MAJOR_CONFLICT @ s))"
    by (rule strip_conflict [where xs = "butlast (uchars CM_MAJOR_CONFLICT)" and ys = "uchars (drop 24 CM_MAJOR_CONFLICT @ s)"
          and a = "take 18 CM_MAJOR_CONFLICT"])
      (auto simp: message_defs cont_byte_def byte_def uspace_def)
  show "text_contains CM_CONFLICT (strip (CM_BUSINESS_CONFLICT @ s))"
    by (rule strip_conflict [where xs = "butlast (uchars CM_BUSINESS_CONFLICT)" and ys = "uchars (drop 24 CM_BUSINESS_CONFLICT @ s)"
          and a = "take 18 CM_BUSINESS_CONFLICT"])
      (auto simp: message_defs cont_byte_def byte_def uspace_def)
qed

lemma unify_dash_hd: "byte (hd ch) \<notin> {0xE2, 0xEF} \<Longrightarrow> unify_dash ch = ch"
  by (auto simp: unify_dash_def cp_def utf8_def byte_def)

lemma normalize_special: "normalize_classification_text (\<lambda>t. t) IT_SPECIAL = IT_SPECIAL"
proof -
  have u: "uchars IT_SPECIAL = [[CHR 0xE5, CHR 0xA2, CHR 0x9E], [CHR 0xE5, CHR 0x80, CHR 0xBC], [CHR 0xE7, CHR 0xA8, CHR 0x8E],
     [CHR 0xE4, CHR 0xB8, CHR 0x93], [CHR 0xE7, CHR 0x94, CHR 0xA8], [CHR 0xE5, CHR 0x8F, CHR 0x91], [CHR 0xE7, CHR 0xA5, CHR 0xA8]]"
    by (simp add: IT_SPECIAL_def cont_byte_def byte_def)
  have "\<forall>x\<in>set (uchars IT_SPECIAL). byte (hd x) \<in> {0xE4, 0xE5, 0xE7}" unfolding u by (simp add: byte_def)
  then have "\<forall>x\<in>set (uchars IT_SPECIAL). unify_dash x = x \<and> \<not> uspace x"
    by (auto intro!: unify_dash_hd not_uspace_hd)
  then show ?thesis
    by (simp add: normalize_classification_text_def normalize_classification_chars_def map_idI cong: map_cong)
qed

lemma special_evidence: "invoice_type_candidates (\<lambda>t. t) [IT_SPECIAL] = [IT_SPECIAL]"
  by (simp add: invoice_type_candidates_def major_evidence_def normalize_special)
   (simp add: IT_SPECIAL_def IT_ORDINARY_def IT_ORDINARY_TITLE_def starts_with_def dedup_id)

text \<open>C38: The evidence decides the classification, and classifying always ends. An invoice is classified as
  \<open>ok\<close> exactly when there is evidence for one invoice type, no unknown label, and evidence for one business
  type or for none where the standard one may be assumed; then both types are those of the evidence and
  no issue is left. Evidence for two types is a conflict, and every other result names an issue.\<close>

theorem classification_follows_evidence:
  "\<exists>known unknown r. business_evidence nfkc titles labels structured_business = Some (known, unknown)
    \<and> classify_invoice nfkc titles labels structured_types structured_business allow_standard = Some r
    \<and> (cr_status r = ''ok'' \<longleftrightarrow> length (invoice_type_candidates nfkc (titles @ structured_types)) = 1 \<and> unknown = []
         \<and> (length known = 1 \<or> known = [] \<and> allow_standard))
    \<and> (cr_status r = ''ok'' \<longrightarrow> invoice_type_candidates nfkc (titles @ structured_types) = [cr_invoice_type r]
         \<and> cr_business_type r = (if known = [] then BT_STANDARD else hd known))
    \<and> (1 < length (invoice_type_candidates nfkc (titles @ structured_types)) \<or> 1 < length known \<longrightarrow> cr_status r = ''conflict'')
    \<and> (cr_issue r = [] \<longleftrightarrow> cr_status r = ''ok'')"
proof -
  let ?m = "invoice_type_candidates nfkc (titles @ structured_types)"
  obtain known unknown where e: "business_evidence nfkc titles labels structured_business = Some (known, unknown)" "[] \<notin> set known"
    using business_evidence_total by blast
  let ?r = "classify_evidence nfkc titles allow_standard ?m known unknown"
  have m: "[] \<notin> set ?m" using majors_shape texts_not_Nil by fastforce
  let ?b = "if unknown \<noteq> [] then [] else default_business_type nfkc titles allow_standard (single ?m) known"
  let ?i = "conflict_issue CM_MAJOR_CONFLICT ?m @ conflict_issue CM_BUSINESS_CONFLICT known
    @ (if unknown \<noteq> [] then [CM_UNKNOWN @ join '' / '' unknown] else [])"
  have r: "cr_status ?r = fst (classification_status (single ?m) ?b ?i)" "cr_issue ?r = snd (classification_status (single ?m) ?b ?i)"
    "cr_invoice_type ?r = single ?m" "cr_business_type ?r = ?b"
    by (simp_all add: classify_evidence_def Let_def)
  have conflict: "cr_status ?r = ''conflict''" if c: "1 < length ?m \<or> 1 < length known"
  proof -
    have "\<exists>i\<in>set ?i. text_contains CM_CONFLICT (strip i)"
      using c conflict_messages by (auto simp: conflict_issue_def)
    then show ?thesis using status_conflict r(1) by metis
  qed
  have ok: "cr_status ?r = ''ok'' \<longleftrightarrow> single ?m \<noteq> [] \<and> ?b \<noteq> [] \<and> (\<forall>i\<in>set ?i. strip i = [])"
    unfolding r by (rule status_ok)
  have default: "?b \<noteq> [] \<longleftrightarrow> length known = 1 \<or> known = [] \<and> allow_standard" if "single ?m \<noteq> []" "unknown = []"
    using that single_not_Nil [OF e(2)] texts_not_Nil by (auto simp: default_business_type_def single_def)
  have calm: "?i = []" if "length ?m = 1" "length known \<le> 1" "unknown = []"
    using that by (simp add: conflict_issue_def)
  have iff: "cr_status ?r = ''ok'' \<longleftrightarrow> length ?m = 1 \<and> unknown = [] \<and> (length known = 1 \<or> known = [] \<and> allow_standard)"
  proof
    assume s: "cr_status ?r = ''ok''"
    then have "single ?m \<noteq> []" "?b \<noteq> []" unfolding ok by blast+
    moreover from \<open>?b \<noteq> []\<close> have "unknown = []" by (simp split: if_splits)
    ultimately show "length ?m = 1 \<and> unknown = [] \<and> (length known = 1 \<or> known = [] \<and> allow_standard)"
      using default single_not_Nil [OF m] by blast
  next
    assume a: "length ?m = 1 \<and> unknown = [] \<and> (length known = 1 \<or> known = [] \<and> allow_standard)"
    then have "?i = []" by (intro calm) auto
    moreover have "single ?m \<noteq> []" "?b \<noteq> []" using a default single_not_Nil [OF m] by blast+
    ultimately show "cr_status ?r = ''ok''" unfolding ok by (simp only: list.set(1)) blast
  qed
  have types: "?m = [cr_invoice_type ?r] \<and> cr_business_type ?r = (if known = [] then BT_STANDARD else hd known)"
    if s: "cr_status ?r = ''ok''"
  proof -
    have "length ?m = 1" "unknown = []" "length known = 1 \<or> known = [] \<and> allow_standard" using s iff by blast+
    then show ?thesis unfolding r(3,4)
      using m by (cases ?m; cases known) (auto simp: single_def default_business_type_def)
  qed
  have "classify_invoice nfkc titles labels structured_types structured_business allow_standard = Some ?r"
    by (simp add: classify_invoice_def e(1))
  moreover have "cr_issue ?r = [] \<longleftrightarrow> cr_status ?r = ''ok''" unfolding r(1,2) by (rule status_ok)
  ultimately show ?thesis using e(1) iff types conflict by blast
qed

theorem classification_follows_evidence_witness: "\<exists>r. classify_invoice (\<lambda>t. t) [] [] [IT_SPECIAL] [] True = Some r \<and> cr_status r = ''ok''
    \<and> cr_invoice_type r = IT_SPECIAL \<and> cr_business_type r = BT_STANDARD"
proof -
  have "business_evidence (\<lambda>t. t) [] [] [] = Some ([], [])"
    by (simp add: business_evidence_def title_business_values_def business_type_candidates_def dedup_def)
  then show ?thesis
    using classification_follows_evidence [of "\<lambda>t. t" "[]" "[]" "[]" "[IT_SPECIAL]" True] special_evidence by auto
qed

end
