(* ===== verification/Invoice_Summary.thy ===== *)
theory Invoice_Summary
  imports Invoice_Classification Cost_Build
begin

text \<open>
  The summary of the invoices of a directory: \<open>apply_invoice_family_corrections\<close> of \<open>extraction/parsers.py\<close>,
  which lets the files of one invoice correct each other, and \<open>projections/summary.py\<close>.

  Reading one file, \<open>extract_invoice_record\<close>, and the test whether a company name looks wrong,
  \<open>_party_value_is_suspicious\<close>, are the parameters \<open>extract\<close> and \<open>suspicious\<close>. The records of one run are
  different objects, so a record is told by its position. A row is a dictionary of texts.
\<close>

record invoice_record =
  iv_invoice_key :: string
  iv_source_file :: string
  iv_source_path :: string
  iv_file_type :: string
  iv_invoice_number :: string
  iv_invoice_type :: string
  iv_business_type :: string
  iv_classification_status :: string
  iv_classification_issue :: string
  iv_invoice_date :: string
  iv_seller :: string
  iv_buyer :: string
  iv_amount :: string
  iv_pretax_amount :: string
  iv_tax_rate :: string
  iv_tax_amount :: string
  iv_duplicate :: bool
  iv_duplicate_label :: string
  iv_updated_at :: string

section \<open>Families\<close>

definition family_key :: "source_file \<Rightarrow> invoice_record \<Rightarrow> string" where
  "family_key f record_of =
    (let number = uchars (iv_invoice_number record_of)
     in if number \<noteq> [] \<and> list_all is_udigit number \<and> 8 \<le> length number \<and> length number \<le> 20 then iv_invoice_number record_of
        else case filter (\<lambda>r. length r = 20) (digit_runs (uchars (sf_stem f))) of [] \<Rightarrow> [] | r # rs \<Rightarrow> concat r)"

text \<open>The first usable name among the files of the family, those of XML files first.\<close>

definition best_party :: "(string \<Rightarrow> bool) \<Rightarrow> (invoice_record \<Rightarrow> string) \<Rightarrow> invoice_record list \<Rightarrow> string" where
  "best_party suspicious party family =
    (case concat (map (\<lambda>t. filter (\<lambda>r. iv_file_type r = t \<and> strip (party r) \<noteq> [] \<and> \<not> suspicious (strip (party r))) family)
        [''xml'', ''ofd'', ''pdf'']) of [] \<Rightarrow> [] | r # rs \<Rightarrow> strip (party r))"

definition family_types :: "(invoice_record \<Rightarrow> string) \<Rightarrow> invoice_record list \<Rightarrow> string list" where
  "family_types kind family = dedup (filter (\<lambda>t. t \<noteq> []) (map (\<lambda>r. strip (kind r)) family))"

definition split_issues :: "string \<Rightarrow> string list" where
  "split_issues t = filter (\<lambda>i. i \<noteq> []) (map strip (map concat (split_uchars FULL_SEMICOLON (uchars t))))"

definition corrected_party :: "(string \<Rightarrow> bool) \<Rightarrow> string \<Rightarrow> bool \<Rightarrow> string \<Rightarrow> string" where
  "corrected_party suspicious best is_xml old = (if \<not> is_xml \<and> best \<noteq> [] \<and> (old = [] \<or> suspicious old) then best else old)"

text \<open>A missing type is taken over from the family, unless the record itself has a conflict about it.\<close>

definition corrected_type :: "string list \<Rightarrow> string \<Rightarrow> bool \<Rightarrow> string" where
  "corrected_type types old own_conflict =
    (if length types \<le> 1 \<and> old = [] \<and> single types \<noteq> [] \<and> \<not> own_conflict then single types else old)"

definition corrected_record :: "(string \<Rightarrow> bool) \<Rightarrow> invoice_record list \<Rightarrow> invoice_record \<Rightarrow> invoice_record" where
  "corrected_record suspicious family r =
    (let majors = family_types iv_invoice_type family; businesses = family_types iv_business_type family;
         in_conflict = iv_classification_status r = ''conflict''; is_xml = iv_file_type r = ''xml'';
         invoice_type = corrected_type majors (iv_invoice_type r) (in_conflict \<and> text_contains CM_MAJOR (iv_classification_issue r));
         business_type = corrected_type businesses (iv_business_type r) (in_conflict \<and> text_contains CM_BUSINESS (iv_classification_issue r));
         issues = filter (\<lambda>i. \<not> (i = CM_NO_MAJOR \<and> strip invoice_type \<noteq> []) \<and> \<not> (i = CM_NO_BUSINESS \<and> strip business_type \<noteq> []))
           (split_issues (iv_classification_issue r) @ conflict_issue CM_FAMILY_MAJOR majors @ conflict_issue CM_FAMILY_BUSINESS businesses);
         result = (if 1 < length majors \<or> 1 < length businesses then (''conflict'', join FULL_SEMICOLON (dedup issues))
           else classification_status (strip invoice_type) (strip business_type) issues)
     in r\<lparr>iv_seller := corrected_party suspicious (best_party suspicious iv_seller family) is_xml (iv_seller r),
          iv_buyer := corrected_party suspicious (best_party suspicious iv_buyer family) is_xml (iv_buyer r),
          iv_invoice_type := invoice_type, iv_business_type := business_type,
          iv_classification_status := fst result, iv_classification_issue := snd result\<rparr>)"

definition apply_invoice_family_corrections ::
  "(string \<Rightarrow> bool) \<Rightarrow> invoice_record list \<Rightarrow> source_file list \<Rightarrow> invoice_record list" where
  "apply_invoice_family_corrections suspicious records files =
    (let keyed = map2 (\<lambda>r f. (family_key f r, r)) records files
     in map (\<lambda>(k, r). if k = [] then r else corrected_record suspicious (map snd (filter (\<lambda>p. fst p = k) keyed)) r) keyed
        @ drop (length files) records)"

section \<open>The rows\<close>

fun mark_duplicates_from :: "string list \<Rightarrow> invoice_record list \<Rightarrow> invoice_record list" where
  "mark_duplicates_from seen [] = []"
| "mark_duplicates_from seen (r # rs) =
    (let number = strip (iv_invoice_number r); twin = number \<noteq> [] \<and> number \<in> set seen
     in r\<lparr>iv_duplicate := twin, iv_duplicate_label := (if twin then DUPLICATE_LABEL else [])\<rparr> # mark_duplicates_from (number # seen) rs)"

definition mark_duplicates :: "invoice_record list \<Rightarrow> invoice_record list" where
  "mark_duplicates records = mark_duplicates_from [] records"

type_synonym text_row = "string dict"

definition cell_at :: "text_row \<Rightarrow> string \<Rightarrow> string" where
  "cell_at row k = (case dget row k of None \<Rightarrow> [] | Some t \<Rightarrow> t)"

definition SUMMARY_HEADERS :: "string list" where
  "SUMMARY_HEADERS = [H_NAME, H_FILE_PATH, H_INVOICE_TYPE, H_BUSINESS, H_CLASS_STATUS, H_CLASS_ISSUE, F_INVOICE_NO, H_OPEN_TIME,
     F_SELLER, H_BUYER, H_AMOUNT, F_RATE, H_EX_TAX, F_TAX, DUPLICATE_LABEL, H_EDITED]"

definition summary_row :: "invoice_record \<Rightarrow> text_row" where
  "summary_row r =
    [(H_NAME, iv_source_file r), (H_FILE_PATH, iv_source_path r), (H_INVOICE_TYPE, iv_invoice_type r), (H_BUSINESS, iv_business_type r),
     (H_CLASS_STATUS, iv_classification_status r), (H_CLASS_ISSUE, iv_classification_issue r), (F_INVOICE_NO, iv_invoice_number r),
     (H_OPEN_TIME, iv_invoice_date r), (F_SELLER, iv_seller r), (H_BUYER, iv_buyer r), (H_AMOUNT, iv_amount r), (F_RATE, iv_tax_rate r),
     (H_EX_TAX, iv_pretax_amount r), (F_TAX, iv_tax_amount r), (DUPLICATE_LABEL, iv_duplicate_label r), (H_EDITED, [])]"

section \<open>The two files\<close>

text \<open>
  The CSV file is its header and its rows. A workbook is missing, or no workbook, or the cells of its active sheet as
  \<open>openpyxl\<close> returns them: \<open>reread\<close> is what it returns for a text that was written. A date in a cell stands for
  its text. The CSV file is written by the program only, and can be read.
\<close>

type_synonym csv_file = "(string list \<times> text_row list) option"

datatype book_file = NoBook | BadBook | Book "pyval list list"

definition write_csv_rows :: "string list \<Rightarrow> text_row list \<Rightarrow> csv_file" where
  "write_csv_rows headers rows = Some (headers, map (\<lambda>row. map (\<lambda>h. (h, cell_at row h)) headers) rows)"

definition read_csv_rows :: "csv_file \<Rightarrow> text_row list" where
  "read_csv_rows f = (case f of None \<Rightarrow> [] | Some (headers, rows) \<Rightarrow> rows)"

definition write_summary_xlsx :: "(string \<Rightarrow> pyval) \<Rightarrow> text_row list \<Rightarrow> book_file" where
  "write_summary_xlsx reread rows = Book (map (map reread) (SUMMARY_HEADERS # map (\<lambda>row. map (cell_at row) SUMMARY_HEADERS) rows))"

definition header_cells :: "pyval list list \<Rightarrow> string list" where
  "header_cells grid = (case grid of [] \<Rightarrow> [] | line # lines \<Rightarrow> map (\<lambda>v. strip (str_or_empty v)) line)"

definition summary_schema_needs_refresh :: "csv_file \<Rightarrow> book_file \<Rightarrow> bool" where
  "summary_schema_needs_refresh csv book =
    (case (csv, book) of
       (Some (headers, rows), Book grid) \<Rightarrow>
         \<not> set SUMMARY_HEADERS \<subseteq> set (map strip headers) \<or> \<not> set SUMMARY_HEADERS \<subseteq> set (header_cells grid)
     | _ \<Rightarrow> True)"

section \<open>The build\<close>

definition SUPPORTED_EXTS :: "string list" where
  "SUPPORTED_EXTS = [''.pdf'', ''.ofd'', ''.xml'']"

text \<open>\<open>sf_folded\<close> of a file found below the directory is the casefolded text of its path.\<close>

definition supported_invoice_files :: "source_file list \<Rightarrow> source_file list" where
  "supported_invoice_files dir = sort_key sf_folded
     (filter (\<lambda>f. sf_suffix f \<in> set SUPPORTED_EXTS \<and> take 2 (sf_name f) \<noteq> ''~$'') dir)"

text \<open>Every file in turn. \<open>progress\<close> is the callback on the caller's state: how many files are done, of how many.\<close>

fun extract_all ::
  "(source_file \<Rightarrow> exc + invoice_record) \<Rightarrow> (nat \<Rightarrow> nat \<Rightarrow> 'p \<Rightarrow> 'p) \<Rightarrow> nat \<Rightarrow> nat \<Rightarrow> source_file list \<Rightarrow> 'p
    \<Rightarrow> (exc + invoice_record list) \<times> 'p" where
  "extract_all extract progress done all [] p = (Inr [], p)"
| "extract_all extract progress done all (f # fs) p =
    (case extract f of
       Inl e \<Rightarrow> (Inl e, p)
     | Inr r \<Rightarrow> (case extract_all extract progress (done + 1) all fs (progress (done + 1) all p) of
         (Inl e, q) \<Rightarrow> (Inl e, q)
       | (Inr rs, q) \<Rightarrow> (Inr (r # rs), q)))"

definition summary_records :: "(string \<Rightarrow> bool) \<Rightarrow> source_file list \<Rightarrow> invoice_record list \<Rightarrow> invoice_record list" where
  "summary_records suspicious files records = mark_duplicates (apply_invoice_family_corrections suspicious records files)"

record summary_files =
  su_csv :: csv_file
  su_xlsx :: book_file

definition build_summary ::
  "(source_file \<Rightarrow> exc + invoice_record) \<Rightarrow> (string \<Rightarrow> bool) \<Rightarrow> (string \<Rightarrow> pyval) \<Rightarrow> (nat \<Rightarrow> nat \<Rightarrow> 'p \<Rightarrow> 'p) \<Rightarrow> source_file list \<Rightarrow> 'p
    \<Rightarrow> (exc + invoice_record list \<times> summary_files) \<times> 'p" where
  "build_summary extract suspicious reread progress dir p =
    (let files = supported_invoice_files dir
     in case extract_all extract progress 0 (length files) files (progress 0 (length files) p) of
         (Inl e, q) \<Rightarrow> (Inl e, q)
       | (Inr records, q) \<Rightarrow>
           (let final = summary_records suspicious files records; rows = map summary_row final
            in (Inr (final, \<lparr>su_csv = write_csv_rows SUMMARY_HEADERS rows, su_xlsx = write_summary_xlsx reread rows\<rparr>), q)))"

section \<open>What the build keeps\<close>

lemma extract_all_length: "extract_all extract progress k n fs p = (Inr rs, q) \<Longrightarrow> length rs = length fs"
  by (induction fs arbitrary: k p rs) (auto split: sum.splits prod.splits)

lemma extract_all_nth:
  "extract_all extract progress k n fs p = (Inr rs, q) \<Longrightarrow> i < length fs \<Longrightarrow> extract (fs ! i) = Inr (rs ! i)"
proof (induction fs arbitrary: k p rs i)
  case (Cons f fs)
  then show ?case by (cases i) (auto split: sum.splits prod.splits)
qed simp

lemma corrected_record_path [simp]: "iv_source_path (corrected_record suspicious family r) = iv_source_path r"
  by (simp add: corrected_record_def Let_def)

lemma mark_duplicates_from_paths [simp]:
  "map iv_source_path (mark_duplicates_from seen rs) = map iv_source_path rs"
  by (induction rs arbitrary: seen) (simp_all add: Let_def)

lemma corrections_paths:
  assumes "length records = length files"
  shows "map iv_source_path (apply_invoice_family_corrections suspicious records files) = map iv_source_path records"
  using assms by (auto simp: apply_invoice_family_corrections_def Let_def intro!: nth_equalityI)

lemma summary_records_paths:
  assumes "length records = length files"
  shows "map iv_source_path (summary_records suspicious files records) = map iv_source_path records"
  using corrections_paths [OF assms] by (simp add: summary_records_def mark_duplicates_def)

lemma length_summary_records:
  assumes "length records = length files"
  shows "length (summary_records suspicious files records) = length records"
  using arg_cong [OF summary_records_paths [OF assms], of length] by simp

end
