(* ===== verification/Monitor_Texts.thy ===== *)
theory Monitor_Texts
  imports Main
begin

text \<open>
  The texts of \<open>monitoring/\<close>: messages of the progress (\<open>PM_\<close>) and of the notification (\<open>NM_\<close>), and the names of
  the sheets of the cost workbook (\<open>T_\<close>), by the bytes of their UTF-8 encodings.
\<close>

text \<open>the summary is being prepared\<close>
definition PM_START :: string where
  "PM_START =
    [CHR 0xE6, CHR 0xAD, CHR 0xA3, CHR 0xE5, CHR 0x9C, CHR 0xA8, CHR 0xE5, CHR 0x87, CHR 0x86,
     CHR 0xE5, CHR 0xA4, CHR 0x87, CHR 0xE6, CHR 0xB1, CHR 0x87, CHR 0xE6, CHR 0x80, CHR 0xBB]"

text \<open>checking the saved edits\<close>
definition PM_EDITS :: string where
  "PM_EDITS =
    [CHR 0xE6, CHR 0xAD, CHR 0xA3, CHR 0xE5, CHR 0x9C, CHR 0xA8, CHR 0xE6, CHR 0xA3, CHR 0x80,
     CHR 0xE6, CHR 0x9F, CHR 0xA5, CHR 0xE5, CHR 0xB7, CHR 0xB2, CHR 0xE4, CHR 0xBF, CHR 0x9D,
     CHR 0xE5, CHR 0xAD, CHR 0x98, CHR 0xE7, CHR 0x9A, CHR 0x84, CHR 0xE6, CHR 0x89, CHR 0x8B,
     CHR 0xE5, CHR 0xB7, CHR 0xA5, CHR 0xE4, CHR 0xBF, CHR 0xAE, CHR 0xE8, CHR 0xAE, CHR 0xA2]"

text \<open>scanning the invoice files\<close>
definition PM_SCAN :: string where
  "PM_SCAN =
    [CHR 0xE6, CHR 0xAD, CHR 0xA3, CHR 0xE5, CHR 0x9C, CHR 0xA8, CHR 0xE6, CHR 0x89, CHR 0xAB,
     CHR 0xE6, CHR 0x8F, CHR 0x8F, CHR 0xE5, CHR 0x8F, CHR 0x91, CHR 0xE7, CHR 0xA5, CHR 0xA8,
     CHR 0xE6, CHR 0x96, CHR 0x87, CHR 0xE4, CHR 0xBB, CHR 0xB6]"

text \<open>the directory is up to date\<close>
definition PM_CURRENT :: string where
  "PM_CURRENT =
    [CHR 0xE5, CHR 0xBD, CHR 0x93, CHR 0xE5, CHR 0x89, CHR 0x8D, CHR 0xE5, CHR 0x8F, CHR 0x91,
     CHR 0xE7, CHR 0xA5, CHR 0xA8, CHR 0xE7, CHR 0x9B, CHR 0xAE, CHR 0xE5, CHR 0xBD, CHR 0x95,
     CHR 0xE5, CHR 0xB7, CHR 0xB2, CHR 0xE6, CHR 0x98, CHR 0xAF, CHR 0xE6, CHR 0x9C, CHR 0x80,
     CHR 0xE6, CHR 0x96, CHR 0xB0]"

text \<open>updating the cost tables\<close>
definition PM_SCHEMA :: string where
  "PM_SCHEMA =
    [CHR 0xE6, CHR 0xAD, CHR 0xA3, CHR 0xE5, CHR 0x9C, CHR 0xA8, CHR 0xE6, CHR 0x9B, CHR 0xB4,
     CHR 0xE6, CHR 0x96, CHR 0xB0, CHR 0xE6, CHR 0x88, CHR 0x90, CHR 0xE6, CHR 0x9C, CHR 0xAC,
     CHR 0xE5, CHR 0x88, CHR 0x86, CHR 0xE6, CHR 0x9E, CHR 0x90, CHR 0xE8, CHR 0xA1, CHR 0xA8]"

text \<open>the cost tables are updated\<close>
definition PM_SCHEMA_DONE :: string where
  "PM_SCHEMA_DONE =
    [CHR 0xE6, CHR 0x88, CHR 0x90, CHR 0xE6, CHR 0x9C, CHR 0xAC, CHR 0xE5, CHR 0x88, CHR 0x86,
     CHR 0xE6, CHR 0x9E, CHR 0x90, CHR 0xE8, CHR 0xA1, CHR 0xA8, CHR 0xE5, CHR 0xB7, CHR 0xB2,
     CHR 0xE6, CHR 0x9B, CHR 0xB4, CHR 0xE6, CHR 0x96, CHR 0xB0]"

text \<open>building the summary\<close>
definition PM_SUMMARY :: string where
  "PM_SUMMARY =
    [CHR 0xE6, CHR 0xAD, CHR 0xA3, CHR 0xE5, CHR 0x9C, CHR 0xA8, CHR 0xE7, CHR 0x94, CHR 0x9F,
     CHR 0xE6, CHR 0x88, CHR 0x90, CHR 0xE6, CHR 0x99, CHR 0xAE, CHR 0xE9, CHR 0x80, CHR 0x9A,
     CHR 0xE6, CHR 0xB1, CHR 0x87, CHR 0xE6, CHR 0x80, CHR 0xBB]"

text \<open>applying the saved edits\<close>
definition PM_APPLY :: string where
  "PM_APPLY =
    [CHR 0xE6, CHR 0xAD, CHR 0xA3, CHR 0xE5, CHR 0x9C, CHR 0xA8, CHR 0xE5, CHR 0xBA, CHR 0x94,
     CHR 0xE7, CHR 0x94, CHR 0xA8, CHR 0xE5, CHR 0xB7, CHR 0xB2, CHR 0xE4, CHR 0xBF, CHR 0x9D,
     CHR 0xE5, CHR 0xAD, CHR 0x98, CHR 0xE7, CHR 0x9A, CHR 0x84, CHR 0xE6, CHR 0x89, CHR 0x8B,
     CHR 0xE5, CHR 0xB7, CHR 0xA5, CHR 0xE4, CHR 0xBF, CHR 0xAE, CHR 0xE8, CHR 0xAE, CHR 0xA2]"

text \<open>building the cost tables\<close>
definition PM_COST :: string where
  "PM_COST =
    [CHR 0xE6, CHR 0xAD, CHR 0xA3, CHR 0xE5, CHR 0x9C, CHR 0xA8, CHR 0xE7, CHR 0x94, CHR 0x9F,
     CHR 0xE6, CHR 0x88, CHR 0x90, CHR 0xE6, CHR 0x88, CHR 0x90, CHR 0xE6, CHR 0x9C, CHR 0xAC,
     CHR 0xE5, CHR 0x88, CHR 0x86, CHR 0xE6, CHR 0x9E, CHR 0x90]"

text \<open>reading the cost invoices\<close>
definition PM_COST_FILES :: string where
  "PM_COST_FILES =
    [CHR 0xE6, CHR 0xAD, CHR 0xA3, CHR 0xE5, CHR 0x9C, CHR 0xA8, CHR 0xE8, CHR 0xA7, CHR 0xA3,
     CHR 0xE6, CHR 0x9E, CHR 0x90, CHR 0xE6, CHR 0x88, CHR 0x90, CHR 0xE6, CHR 0x9C, CHR 0xAC,
     CHR 0xE5, CHR 0x8F, CHR 0x91, CHR 0xE7, CHR 0xA5, CHR 0xA8]"

text \<open>confirming the processed files\<close>
definition PM_FINAL :: string where
  "PM_FINAL =
    [CHR 0xE6, CHR 0xAD, CHR 0xA3, CHR 0xE5, CHR 0x9C, CHR 0xA8, CHR 0xE7, CHR 0xA1, CHR 0xAE,
     CHR 0xE8, CHR 0xAE, CHR 0xA4, CHR 0xE5, CHR 0xB7, CHR 0xB2, CHR 0xE5, CHR 0xA4, CHR 0x84,
     CHR 0xE7, CHR 0x90, CHR 0x86, CHR 0xE6, CHR 0x96, CHR 0x87, CHR 0xE4, CHR 0xBB, CHR 0xB6]"

text \<open>done, with so many invoices (before the number)\<close>
definition PM_DONE :: string where
  "PM_DONE =
    [CHR 0xE6, CHR 0xB1, CHR 0x87, CHR 0xE6, CHR 0x80, CHR 0xBB, CHR 0xE5, CHR 0xB7, CHR 0xB2,
     CHR 0xE5, CHR 0xAE, CHR 0x8C, CHR 0xE6, CHR 0x88, CHR 0x90, CHR 0xEF, CHR 0xBC, CHR 0x8C,
     CHR 0xE5, CHR 0x85, CHR 0xB1, CHR 0x20]"

text \<open>done, with so many invoices (after the number)\<close>
definition PM_DONE_END :: string where
  "PM_DONE_END =
    [CHR 0x20, CHR 0xE6, CHR 0x9D, CHR 0xA1, CHR 0xE5, CHR 0x8F, CHR 0x91, CHR 0xE7, CHR 0xA5, CHR 0xA8]"

text \<open>the summary failed\<close>
definition PM_FAILED :: string where
  "PM_FAILED =
    [CHR 0xE6, CHR 0xB1, CHR 0x87, CHR 0xE6, CHR 0x80, CHR 0xBB, CHR 0xE5, CHR 0xA4, CHR 0xB1,
     CHR 0xE8, CHR 0xB4, CHR 0xA5]"

text \<open>invoice files changed\<close>
definition NM_TITLE :: string where
  "NM_TITLE =
    [CHR 0xE5, CHR 0x8F, CHR 0x91, CHR 0xE7, CHR 0xA5, CHR 0xA8, CHR 0xE6, CHR 0x96, CHR 0x87,
     CHR 0xE4, CHR 0xBB, CHR 0xB6, CHR 0xE5, CHR 0x8F, CHR 0x98, CHR 0xE5, CHR 0x8C, CHR 0x96]"

text \<open>added\<close>
definition NM_ADDED :: string where
  "NM_ADDED =
    [CHR 0xE6, CHR 0x96, CHR 0xB0, CHR 0xE5, CHR 0xA2, CHR 0x9E, CHR 0x20]"

text \<open>updated\<close>
definition NM_UPDATED :: string where
  "NM_UPDATED =
    [CHR 0xEF, CHR 0xBC, CHR 0x8C, CHR 0xE6, CHR 0x9B, CHR 0xB4, CHR 0xE6, CHR 0x96, CHR 0xB0, CHR 0x20]"

text \<open>deleted\<close>
definition NM_DELETED :: string where
  "NM_DELETED =
    [CHR 0xEF, CHR 0xBC, CHR 0x8C, CHR 0xE5, CHR 0x88, CHR 0xA0, CHR 0xE9, CHR 0x99, CHR 0xA4, CHR 0x20]"

text \<open>sheet of the details\<close>
definition T_DETAIL :: string where
  "T_DETAIL =
    [CHR 0xE5, CHR 0x8F, CHR 0x91, CHR 0xE7, CHR 0xA5, CHR 0xA8, CHR 0xE6, CHR 0x98, CHR 0x8E,
     CHR 0xE7, CHR 0xBB, CHR 0x86]"

text \<open>sheet of the sellers\<close>
definition T_SELLERS :: string where
  "T_SELLERS =
    [CHR 0xE9, CHR 0x94, CHR 0x80, CHR 0xE5, CHR 0x94, CHR 0xAE, CHR 0xE6, CHR 0x96, CHR 0xB9,
     CHR 0xE6, CHR 0xB1, CHR 0x87, CHR 0xE6, CHR 0x80, CHR 0xBB]"

text \<open>sheet of the specifications\<close>
definition T_SPECS :: string where
  "T_SPECS =
    [CHR 0xE9, CHR 0xA1, CHR 0xB9, CHR 0xE7, CHR 0x9B, CHR 0xAE, CHR 0xE8, CHR 0xA7, CHR 0x84,
     CHR 0xE6, CHR 0xA0, CHR 0xBC, CHR 0xE6, CHR 0xB1, CHR 0x87, CHR 0xE6, CHR 0x80, CHR 0xBB]"

text \<open>sheet of the references\<close>
definition T_REFERENCE :: string where
  "T_REFERENCE =
    [CHR 0xE5, CHR 0xBC, CHR 0x80, CHR 0xE7, CHR 0xA5, CHR 0xA8, CHR 0xE5, CHR 0x8F, CHR 0x82,
     CHR 0xE8, CHR 0x80, CHR 0x83]"

text \<open>sheet of the checks\<close>
definition T_CHECKS :: string where
  "T_CHECKS =
    [CHR 0xE5, CHR 0x8F, CHR 0x91, CHR 0xE7, CHR 0xA5, CHR 0xA8, CHR 0xE6, CHR 0xA0, CHR 0xA1,
     CHR 0xE9, CHR 0xAA, CHR 0x8C]"

lemmas sheet_defs = T_DETAIL_def T_SELLERS_def T_SPECS_def T_REFERENCE_def T_CHECKS_def

end
