(* ===== verification/Cost_Tables.thy ===== *)
theory Cost_Tables
  imports Cost_Service Monitor_Texts
begin

text \<open>
  The files of the cost service (\<open>CostProjectionService\<close> in \<open>projections/costs.py\<close>, \<open>_write_workbook\<close> in
  \<open>projections/cost_analysis.py\<close>): the detail CSV, the workbook and the status file, when their columns are out of
  date, the refresh of the columns, the saving of references and the rebuild.

  A workbook is missing, or no workbook, or its sheets as \<open>openpyxl\<close> reads them back; \<open>reread\<close> is what it returns
  for a value that was written. A CSV cell is read back as the text of its value. Formats of cells are left out.
\<close>

definition SELLER_SUMMARY_HEADERS :: "string list" where
  "SELLER_SUMMARY_HEADERS = [F_SELLER, H_INVOICE_COUNT, H_DETAIL_COUNT, H_QUANTITY_SUM, H_PRETAX_SUM, H_TAX_SUM, F_TOTAL]"

definition PROJECT_SPEC_SUMMARY_HEADERS :: "string list" where
  "PROJECT_SPEC_SUMMARY_HEADERS = [F_SELLER, F_INVOICE_CODE, F_PROJECT, F_MODEL, F_UNIT, H_QUANTITY_SUM, H_AVG, H_AVG_TAX,
     H_STOCK_AVG, H_STOCK_AVG_TAX, H_PURCHASE_AVG_TAX, H_PRETAX_SUM, H_TAX_SUM, F_TOTAL, H_INVOICES]"

definition INVOICE_REFERENCE_HEADERS :: "string list" where
  "INVOICE_REFERENCE_HEADERS = [F_INVOICE_CODE, F_PROJECT, F_MODEL, F_UNIT, H_QUANTITY_SUM, H_INVOICED, H_UNINVOICED, H_STATUS,
     H_AVG, H_AVG_TAX, H_PRETAX_SUM, H_TAX_SUM, F_TOTAL, H_INVOICED_TOTAL, H_REST_AMOUNT, H_REST_TAX, H_REST_TOTAL, H_MARKUP,
     H_UPDATED]"

definition CHECK_HEADERS :: "string list" where
  "CHECK_HEADERS = [F_FILE, H_CATEGORY, H_BUSINESS, H_CLASS_STATUS, H_CLASS_ISSUE, F_SELLER, F_INVOICE_NO, F_DATE, H_DETAIL_COUNT,
     H_HEAD_PRETAX, H_PARSED_PRETAX, H_DIFF_PRETAX, H_HEAD_TAX, H_PARSED_TAX, H_DIFF_TAX, F_TOTAL, H_CHECK_STATUS, H_MESSAGE]"

section \<open>The files\<close>

type_synonym table = "string list \<times> vdict list"

datatype cost_book = NoCosts | BadCosts | Costs "(string \<times> table) list"

record cost_files =
  cf_detail :: "table option"
  cf_book :: cost_book
  cf_status :: store_file

definition csv_cell :: "pyval \<Rightarrow> pyval" where
  "csv_cell v = VStr (if v = VNone then [] else py_str v)"

definition table_of :: "(pyval \<Rightarrow> pyval) \<Rightarrow> string list \<Rightarrow> vdict list \<Rightarrow> table" where
  "table_of cell_back headers rows = (headers, map (\<lambda>row. map (\<lambda>h. (h, cell_back (get_default row h (VStr [])))) headers) rows)"

definition table_rows :: "table option \<Rightarrow> vdict list" where
  "table_rows t = (case t of None \<Rightarrow> [] | Some (headers, rows) \<Rightarrow> rows)"

definition read_workbook_sheet :: "cost_book \<Rightarrow> string \<Rightarrow> vdict list" where
  "read_workbook_sheet book name =
    (case book of Costs sheets \<Rightarrow> map (map (\<lambda>(h, v). (h, if v = VNone then VStr [] else v))) (table_rows (dget sheets name)) | _ \<Rightarrow> [])"

definition workbook_headers :: "cost_book \<Rightarrow> string \<Rightarrow> string list" where
  "workbook_headers book name =
    (case book of Costs sheets \<Rightarrow> (case dget sheets name of None \<Rightarrow> [] | Some t \<Rightarrow> fst t) | _ \<Rightarrow> [])"

definition workbook_of ::
  "(pyval \<Rightarrow> pyval) \<Rightarrow> vdict list \<Rightarrow> vdict list \<Rightarrow> vdict list \<Rightarrow> vdict list \<Rightarrow> vdict list \<Rightarrow> cost_book" where
  "workbook_of reread detail sellers specs references checks = Costs
     [(T_DETAIL, table_of reread DETAIL_HEADERS detail), (T_SELLERS, table_of reread SELLER_SUMMARY_HEADERS sellers),
      (T_SPECS, table_of reread PROJECT_SPEC_SUMMARY_HEADERS specs), (T_REFERENCE, table_of reread INVOICE_REFERENCE_HEADERS references),
      (T_CHECKS, table_of reread CHECK_HEADERS checks)]"

definition write_workbook ::
  "(string \<Rightarrow> string) \<Rightarrow> (pyval \<Rightarrow> pyval) \<Rightarrow> vdict list \<Rightarrow> vdict list \<Rightarrow> status_items \<Rightarrow> string \<Rightarrow> exc + cost_book" where
  "write_workbook cf reread detail checks items rate =
    res_bind (detail_rows_with_tax_average detail) (\<lambda>enriched.
    res_bind (seller_summary detail) (\<lambda>sellers.
    res_bind (project_spec_summary detail) (\<lambda>specs.
    res_bind (invoice_reference_summary cf detail items rate) (\<lambda>references.
      Inr (workbook_of reread enriched sellers specs references checks)))))"

section \<open>Columns out of date\<close>

definition sheet_outdated :: "cost_book \<Rightarrow> string \<times> string list \<Rightarrow> bool" where
  "sheet_outdated book p \<longleftrightarrow> \<not> set (snd p) \<subseteq> set (workbook_headers book (fst p))"

definition required_sheets :: "(string \<times> string list) list" where
  "required_sheets = [(T_DETAIL, DETAIL_HEADERS), (T_SPECS, PROJECT_SPEC_SUMMARY_HEADERS), (T_REFERENCE, INVOICE_REFERENCE_HEADERS),
     (T_CHECKS, CHECK_HEADERS)]"

definition needs_schema_refresh :: "cost_files \<Rightarrow> bool" where
  "needs_schema_refresh c \<longleftrightarrow>
    (case cf_detail c of None \<Rightarrow> False | Some (headers, rows) \<Rightarrow> \<not> set DETAIL_HEADERS \<subseteq> set headers)
    \<or> cf_book c \<noteq> NoCosts \<and> list_ex (sheet_outdated (cf_book c)) required_sheets"

text \<open>What the workbook says of a reference fills the gaps of the status file.\<close>

definition fill_status :: "string \<times> vdict \<Rightarrow> status_items \<Rightarrow> status_items" where
  "fill_status p items =
    (case dget items (fst p) of
       None \<Rightarrow> dput (fst p) (snd p) items
     | Some item \<Rightarrow> dput (fst p) (fold (\<lambda>(k, v) d. if text_at d k = [] \<and> strip (str_or_empty v) \<noteq> [] then dput k v d else d) (snd p) item) items)"

definition refresh_schema_from_current_detail ::
  "(string \<Rightarrow> string) \<Rightarrow> (pyval \<Rightarrow> pyval) \<Rightarrow> string \<Rightarrow> cost_files \<Rightarrow> exc + bool \<times> cost_files" where
  "refresh_schema_from_current_detail cf reread configured c =
    (case cf_detail c of
       None \<Rightarrow> Inr (False, c)
     | Some t \<Rightarrow>
         res_bind (service_markup_meta cf (cf_status c) configured) (\<lambda>markup.
         res_bind (sheet_reference_status configured (read_workbook_sheet (cf_book c) T_REFERENCE)) (\<lambda>from_book.
         res_bind (detail_rows_with_tax_average (table_rows (Some t))) (\<lambda>enriched.
         res_bind (write_workbook cf reread (table_rows (Some t)) (read_workbook_sheet (cf_book c) T_CHECKS)
             (fold fill_status from_book (read_reference_status (cf_status c))) (dec_or_empty (mk_rate markup))) (\<lambda>book.
           Inr (True, c\<lparr>cf_detail := Some (table_of csv_cell DETAIL_HEADERS enriched), cf_book := book\<rparr>))))))"

section \<open>Saving references\<close>

text \<open>The handler writes the status file by \<open>save_reference_status\<close> of Cost_Service and then builds the workbook
  again from the detail and the saved items. A refresh that raises leaves the status file written and the old
  workbook.\<close>

definition refresh_workbook_from_current_detail ::
  "(string \<Rightarrow> string) \<Rightarrow> (pyval \<Rightarrow> pyval) \<Rightarrow> dec \<Rightarrow> cost_files \<Rightarrow> exc + cost_files" where
  "refresh_workbook_from_current_detail cf reread rate c =
    (case cf_detail c of
       None \<Rightarrow> Inr c
     | Some t \<Rightarrow>
         res_bind (write_workbook cf reread (table_rows (Some t)) (read_workbook_sheet (cf_book c) T_CHECKS)
             (read_reference_status (cf_status c)) (dec_or_empty rate)) (\<lambda>book.
           Inr (c\<lparr>cf_book := book\<rparr>)))"

definition save_references ::
  "(string \<Rightarrow> string) \<Rightarrow> (pyval \<Rightarrow> pyval) \<Rightarrow> string \<Rightarrow> string \<Rightarrow> vdict list \<Rightarrow> cost_files \<Rightarrow> (exc + bool) \<times> cost_files" where
  "save_references cf reread now configured requests c =
    (case res_bind (service_markup_meta cf (cf_status c) configured) (\<lambda>fallback.
          res_bind (save_reference_status cf now configured (table_rows (cf_detail c))
              (read_workbook_sheet (cf_book c) T_REFERENCE) requests (cf_status c)) (\<lambda>g. Inr (mk_rate fallback, g))) of
       Inl e \<Rightarrow> (Inl e, c)
     | Inr (rate, g) \<Rightarrow>
         (case refresh_workbook_from_current_detail cf reread rate (c\<lparr>cf_status := g\<rparr>) of
            Inl e \<Rightarrow> (Inl e, c\<lparr>cf_status := g\<rparr>)
          | Inr d \<Rightarrow> (Inr (cf_book d \<noteq> NoCosts), d)))"

text \<open>Whether or not the refresh succeeds, the status file is the old one or the one of Cost_Service, whose
  quantities stay within the stock (property saved_references_within_stock).\<close>

lemma references_saved:
  assumes "save_references cf reread now configured requests c = (r, d)"
  shows "cf_detail d = cf_detail c \<and> (r = Inl e \<longrightarrow> cf_book d = cf_book c)
    \<and> (d = c \<or> save_reference_status cf now configured (table_rows (cf_detail c))
          (read_workbook_sheet (cf_book c) T_REFERENCE) requests (cf_status c) = Inr (cf_status d))"
  using assms
  by (auto simp: save_references_def refresh_workbook_from_current_detail_def res_bind_eq_Inr
      split: sum.splits prod.splits option.splits if_splits)

section \<open>The rebuild\<close>

definition cost_rebuild ::
  "(string \<Rightarrow> string) \<Rightarrow> (string \<Rightarrow> string) \<Rightarrow> analyzer \<Rightarrow> (pyval \<Rightarrow> pyval) \<Rightarrow> string \<Rightarrow> source_file list \<Rightarrow> vdict list \<Rightarrow> string
    \<Rightarrow> cost_files \<Rightarrow> exc + nat \<times> cost_files" where
  "cost_rebuild cf canonical analyze reread now files metadata configured c =
    res_bind (service_markup_meta cf (cf_status c) configured) (\<lambda>markup.
    res_bind (build_cost_analysis_outputs cf canonical analyze now files metadata (dec_or_empty (mk_rate markup)) (cf_status c)
        (read_workbook_sheet (cf_book c) T_REFERENCE)) (\<lambda>out.
      Inr (length (co_detail out),
        \<lparr>cf_detail = Some (table_of csv_cell DETAIL_HEADERS (co_csv out)),
         cf_book = workbook_of reread (co_detail out) (co_sellers out) (co_specs out) (co_references out) (co_checks out),
         cf_status = co_status_file out\<rparr>)))"

text \<open>How many invoices the rebuild reports as read: all of them, or those before the first that fails.\<close>

definition groups_read :: "(string \<Rightarrow> string) \<Rightarrow> analyzer \<Rightarrow> source_file list \<Rightarrow> vdict list \<Rightarrow> nat \<times> nat" where
  "groups_read canonical analyze files metadata =
    (let groups = source_groups (normalize_metadata_index canonical metadata) files
     in (length (takeWhile (\<lambda>g. \<not> isl (select_cost_analysis analyze g)) groups), length groups))"

section \<open>After a rebuild\<close>

lemma sheet_names: "distinct [T_DETAIL, T_SELLERS, T_SPECS, T_REFERENCE, T_CHECKS]"
  by (simp add: sheet_defs)

lemma workbook_of_headers:
  "workbook_headers (workbook_of reread detail sellers specs references checks) T_DETAIL = DETAIL_HEADERS"
  "workbook_headers (workbook_of reread detail sellers specs references checks) T_SPECS = PROJECT_SPEC_SUMMARY_HEADERS"
  "workbook_headers (workbook_of reread detail sellers specs references checks) T_REFERENCE = INVOICE_REFERENCE_HEADERS"
  "workbook_headers (workbook_of reread detail sellers specs references checks) T_CHECKS = CHECK_HEADERS"
  using sheet_names by (simp_all add: workbook_headers_def workbook_of_def table_of_def)

lemma rebuilt_tables_are_current:
  assumes "cost_rebuild cf canonical analyze reread now files metadata configured c = Inr (n, d)"
  shows "cf_detail d \<noteq> None \<and> cf_book d \<noteq> NoCosts \<and> \<not> needs_schema_refresh d"
  using assms
  by (auto simp: cost_rebuild_def res_bind_eq_Inr needs_schema_refresh_def sheet_outdated_def required_sheets_def workbook_of_headers)
    (simp_all add: table_of_def workbook_of_def)

end
