(* ===== verification/Monitor_State.thy ===== *)
theory Monitor_State
  imports Invoice_Summary Cost_Tables
begin

text \<open>
  \<open>monitoring/state.py\<close>: the files the monitor keeps for one target (the record of processed files, the manual
  edits, the status, the progress of the running synchronization and the business log), the comparison of the
  invoice files with that record, and the way of an edited cell from the workbook into the edits and from there
  into every later summary.

  \<open>monitor_env\<close> holds what lies outside: the files found below the watched directory, \<open>Path.resolve\<close>
  (\<open>en_canonical\<close>), \<open>stat\<close> of a path (modification time and size), the readers of invoices, the clock, what
  \<open>openpyxl\<close> reads back of a written value, the text of an exception. The locks are not part of this model: its
  operations are those of the owner of the lock. The backup copy of an unreadable file is left out, as is the text
  of an exception in the log of an unreadable file. In this theory writing a file does not fail; which calls of a
  synchronization raise says \<open>en_fails\<close>, that \<open>Monitor_Sync\<close> asks at each call, by the kind of the
  call and the state it is made in.
\<close>

record monitor_profile =
  pf_target_id :: string
  pf_watch_dir :: string
  pf_workspace_dir :: string
  pf_state_dir :: string
  pf_log_path :: string
  pf_interval :: int

type_synonym log_line = "string \<times> string \<times> string"

record monitor_state =
  mo_csv :: csv_file
  mo_xlsx :: book_file
  mo_processed :: store_file
  mo_overrides :: store_file
  mo_status :: store_file
  mo_progress :: store_file
  mo_cost :: cost_files
  mo_log :: "log_line list"                      \<comment> \<open>level, action, message\<close>
  mo_events :: "(string \<times> vdict \<times> vdict) list"
  mo_published :: "(vdict \<times> bool) list"          \<comment> \<open>the snapshots of the progress, and whether they were written\<close>

record monitor_env =
  en_profile :: monitor_profile
  en_now :: string
  en_dir :: "source_file list"
  en_runtime_dir :: "source_file \<Rightarrow> bool"        \<comment> \<open>below a directory of temporary files\<close>
  en_stat :: "string \<Rightarrow> (int \<times> int) option"
  en_canonical :: "string \<Rightarrow> string"
  en_casefold :: "string \<Rightarrow> string"
  en_extract :: "source_file \<Rightarrow> exc + invoice_record"
  en_suspicious :: "string \<Rightarrow> bool"
  en_analyze :: analyzer
  en_reread :: "pyval \<Rightarrow> pyval"
  en_markup_rate :: string
  en_torn :: "cost_files \<Rightarrow> cost_files"         \<comment> \<open>the cost files after a failed write of them\<close>
  en_torn_summary :: "csv_file \<times> book_file \<Rightarrow> csv_file \<times> book_file" \<comment> \<open>the same for the summary\<close>
  en_msg :: "exc \<Rightarrow> string"
  en_notified :: "(string \<times> string \<times> string) list" \<comment> \<open>what the notification of the platform logs\<close>
  en_notify_disabled :: bool
  en_fails :: "string \<Rightarrow> monitor_state \<Rightarrow> exc option" \<comment> \<open>whether a call raises\<close>

definition log_event :: "string \<Rightarrow> string \<Rightarrow> string \<Rightarrow> monitor_state \<Rightarrow> monitor_state" where
  "log_event level action message s = s\<lparr>mo_log := mo_log s @ [(level, action, message)]\<rparr>"

definition reread_text :: "monitor_env \<Rightarrow> string \<Rightarrow> pyval" where
  "reread_text env t = en_reread env (VStr t)"

section \<open>The invoice files\<close>

type_synonym vdicts = "vdict dict"

definition file_signature :: "monitor_env \<Rightarrow> string \<Rightarrow> int \<times> int" where
  "file_signature env path = (case en_stat env path of None \<Rightarrow> (0, 0) | Some s \<Rightarrow> s)"

definition snapshot_entry :: "monitor_env \<Rightarrow> source_file \<Rightarrow> vdict" where
  "snapshot_entry env f =
    (let sig = file_signature env (sf_path f); key = en_canonical env (sf_path f)
     in [(''path'', VStr key), (''name'', VStr (sf_name f)), (''suffix'', VStr (sf_suffix f)),
         (''mtime_ns'', VInt (fst sig)), (''size'', VInt (snd sig))])"

definition source_snapshot :: "monitor_env \<Rightarrow> vdicts" where
  "source_snapshot env =
    fold (\<lambda>f. dput (en_canonical env (sf_path f)) (snapshot_entry env f)) (supported_invoice_files (en_dir env)) []"

section \<open>The record of processed files\<close>

definition processed_item :: "monitor_env \<Rightarrow> vdicts \<Rightarrow> string \<Rightarrow> text_row \<Rightarrow> vdict" where
  "processed_item env current key row =
    (let sig = (case dget current key of
         None \<Rightarrow> (VInt (fst (file_signature env key)), VInt (snd (file_signature env key)))
       | Some d \<Rightarrow> (get_val d ''mtime_ns'', get_val d ''size''))
     in [(''invoice_no'', VStr (strip (cell_at row F_INVOICE_NO))), (''seller'', VStr (strip (cell_at row F_SELLER))),
         (''amount'', VStr (strip (cell_at row H_AMOUNT))), (''processed_at'', VStr (en_now env)),
         (''mtime_ns'', fst sig), (''size'', snd sig)])"

definition rebuild_processed_from_summary :: "monitor_env \<Rightarrow> csv_file \<Rightarrow> vdicts" where
  "rebuild_processed_from_summary env csv =
    fold (\<lambda>row rebuilt.
      let key = en_canonical env (cell_at row H_FILE_PATH)
      in if key = [] then rebuilt else dput key (processed_item env (source_snapshot env) key row) rebuilt) (read_csv_rows csv) []"

definition processed_payload :: "monitor_env \<Rightarrow> vdicts \<Rightarrow> vdict" where
  "processed_payload env files =
    [(''version'', VInt 1), (''files'', VDict (map (\<lambda>p. (fst p, VDict (snd p))) files)), (''updated_at'', VStr (en_now env))]"

definition save_processed :: "monitor_env \<Rightarrow> vdicts \<Rightarrow> monitor_state \<Rightarrow> monitor_state" where
  "save_processed env files s = s\<lparr>mo_processed := plain_json_file (processed_payload env files)\<rparr>"

definition processed_files :: "monitor_env \<Rightarrow> vdict \<Rightarrow> vdicts" where
  "processed_files env payload =
    (let raw = (case get_val payload ''files'' of VDict d \<Rightarrow> d | _ \<Rightarrow> payload)
     in fold (\<lambda>p files. case snd p of VDict item \<Rightarrow> dput (en_canonical env (fst p)) item files | _ \<Rightarrow> files) raw [])"

text \<open>A file that is no JSON is rebuilt from the summary.\<close>

definition load_processed :: "monitor_env \<Rightarrow> monitor_state \<Rightarrow> vdicts \<times> monitor_state" where
  "load_processed env s =
    (case mo_processed s of
       NoFile \<Rightarrow> ([], s)
     | File b None \<Rightarrow>
         (let rebuilt = rebuild_processed_from_summary env (mo_csv s)
          in (rebuilt, save_processed env rebuilt (log_event ''WARN'' ''PROCESSED_REBUILT'' [] s)))
     | File b (Some v) \<Rightarrow> (case v of VDict payload \<Rightarrow> (processed_files env payload, s) | _ \<Rightarrow> ([], s)))"

section \<open>Changes\<close>

record source_changes =
  sc_added :: "string list"
  sc_updated :: "string list"
  sc_deleted :: "string list"

definition changed :: "source_changes \<Rightarrow> bool" where
  "changed c \<longleftrightarrow> sc_added c \<noteq> [] \<or> sc_updated c \<noteq> [] \<or> sc_deleted c \<noteq> []"

definition as_counts :: "source_changes \<Rightarrow> vdict" where
  "as_counts c = [(''added'', VInt (int (length (sc_added c)))), (''updated'', VInt (int (length (sc_updated c)))),
     (''deleted'', VInt (int (length (sc_deleted c))))]"

definition stale :: "vdict \<Rightarrow> vdict \<Rightarrow> exc + bool" where
  "stale old sig =
    (let mtime = val_or (val_or (get_val old ''mtime_ns'') (get_val old ''mtime'')) (VInt 0)
     in res_bind (py_int mtime) (\<lambda>a. res_bind (geti_or sig ''mtime_ns'' 0) (\<lambda>b.
        if a \<noteq> b then Inr True
        else res_bind (geti_or old ''size'' 0) (\<lambda>c. res_bind (geti_or sig ''size'' 0) (\<lambda>d. Inr (c \<noteq> d))))))"

definition compare_file :: "vdicts \<Rightarrow> string \<times> vdict \<Rightarrow> source_changes \<Rightarrow> exc + source_changes" where
  "compare_file previous p c =
    (case dget previous (fst p) of
       None \<Rightarrow> Inr (c\<lparr>sc_added := sc_added c @ [fst p]\<rparr>)
     | Some old \<Rightarrow>
         if old = [] then Inr (c\<lparr>sc_added := sc_added c @ [fst p]\<rparr>)
         else res_bind (stale old (snd p)) (\<lambda>b. Inr (if b then c\<lparr>sc_updated := sc_updated c @ [fst p]\<rparr> else c)))"

definition source_changes_between :: "vdicts \<Rightarrow> vdicts \<Rightarrow> exc + source_changes" where
  "source_changes_between previous current =
    res_bind (res_fold (compare_file previous) current \<lparr>sc_added = [], sc_updated = [], sc_deleted = []\<rparr>) (\<lambda>c.
      Inr \<lparr>sc_added = sort (sc_added c), sc_updated = sort (sc_updated c),
        sc_deleted = sort (filter (\<lambda>k. dget current k = None) (dkeys previous))\<rparr>)"

definition detect_source_changes :: "monitor_env \<Rightarrow> monitor_state \<Rightarrow> (exc + source_changes) \<times> monitor_state" where
  "detect_source_changes env s =
    (let (previous, s') = load_processed env s in (source_changes_between previous (source_snapshot env), s'))"

section \<open>Manual edits\<close>

definition EDITABLE_FIELDS :: "string list" where
  "EDITABLE_FIELDS = [F_SELLER, H_AMOUNT, F_INVOICE_NO]"

record manual_override =
  ov_source_path :: string
  ov_fields :: text_row
  ov_updated_at :: string

type_synonym overrides = "manual_override dict"

definition cleaned_fields :: "vdict \<Rightarrow> text_row" where
  "cleaned_fields given =
    map (\<lambda>h. (h, strip (str_or_empty (get_val given h)))) (filter (\<lambda>h. dhas given h) EDITABLE_FIELDS)"

definition load_override :: "monitor_env \<Rightarrow> string \<times> pyval \<Rightarrow> overrides \<Rightarrow> exc + overrides" where
  "load_override env p items =
    (case snd p of
       VDict raw \<Rightarrow>
         (case val_or (get_val raw ''source_path'') (VStr (fst p)) of
            VStr path \<Rightarrow>
              (let key = en_canonical env path;
                   cleaned = cleaned_fields (case get_val raw ''fields'' of VDict d \<Rightarrow> d | _ \<Rightarrow> [])
               in Inr (if cleaned = [] then items
                    else dput key \<lparr>ov_source_path = key, ov_fields = cleaned, ov_updated_at = gets raw ''updated_at''\<rparr> items))
          | _ \<Rightarrow> Inl (TypeError ''path''))
     | _ \<Rightarrow> Inr items)"

definition load_manual_overrides :: "monitor_env \<Rightarrow> store_file \<Rightarrow> exc + overrides" where
  "load_manual_overrides env f =
    (let payload = status_file_payload f
     in res_fold (load_override env) (case get_val payload ''items'' of VDict d \<Rightarrow> d | _ \<Rightarrow> payload) [])"

definition override_payload :: "manual_override \<Rightarrow> vdict" where
  "override_payload m = [(''source_path'', VStr (ov_source_path m)),
     (''fields'', VDict (map (\<lambda>p. (fst p, VStr (snd p))) (ov_fields m))), (''updated_at'', VStr (ov_updated_at m))]"

definition save_manual_overrides :: "monitor_env \<Rightarrow> overrides \<Rightarrow> store_file" where
  "save_manual_overrides env items = plain_json_file
     [(''version'', VInt 1), (''items'', VDict (map (\<lambda>p. (fst p, VDict (override_payload (snd p)))) items)),
      (''updated_at'', VStr (en_now env))]"

text \<open>One row of the summary under the edits: the row, and whether it changed.\<close>

definition apply_field :: "string \<times> string \<Rightarrow> text_row \<times> bool \<Rightarrow> text_row \<times> bool" where
  "apply_field p st =
    (if fst p \<in> set EDITABLE_FIELDS \<and> cell_at (fst st) (fst p) \<noteq> snd p then (dput (fst p) (snd p) (fst st), True) else st)"

definition apply_override :: "monitor_env \<Rightarrow> overrides \<Rightarrow> text_row \<Rightarrow> text_row \<times> bool" where
  "apply_override env items row =
    (case dget items (en_canonical env (cell_at row H_FILE_PATH)) of
       None \<Rightarrow> (row, False)
     | Some m \<Rightarrow>
         (let (edited, touched) = fold apply_field (ov_fields m) (row, False)
          in if touched then (dput H_EDITED S_EDITED edited, True) else (edited, False)))"

definition write_both :: "monitor_env \<Rightarrow> text_row list \<Rightarrow> monitor_state \<Rightarrow> monitor_state" where
  "write_both env rows s =
    s\<lparr>mo_csv := write_csv_rows SUMMARY_HEADERS rows, mo_xlsx := write_summary_xlsx (reread_text env) rows\<rparr>"

definition apply_manual_overrides_to_summary :: "monitor_env \<Rightarrow> monitor_state \<Rightarrow> exc + nat \<times> monitor_state" where
  "apply_manual_overrides_to_summary env s =
    res_bind (load_manual_overrides env (mo_overrides s)) (\<lambda>items.
      let results = map (apply_override env items) (read_csv_rows (mo_csv s)); applied = length (filter snd results)
      in Inr (applied,
           if applied = 0 then s
           else log_event ''INFO'' ''MANUAL_EDIT_APPLIED'' (''applied='' @ int_text (int applied)) (write_both env (map fst results) s)))"

text \<open>A workbook whose first row names the columns; a column without a name is left out.\<close>

definition sheet_row :: "string list \<Rightarrow> pyval list \<Rightarrow> text_row" where
  "sheet_row headers values_of =
    fold (\<lambda>(i, h) row. if h = [] then row
        else dput h (if i < length values_of then strip (str_or_empty (values_of ! i)) else []) row) (enumerate 0 headers) []"

definition read_summary_xlsx_rows :: "book_file \<Rightarrow> text_row list option" where
  "read_summary_xlsx_rows book =
    (case book of
       NoBook \<Rightarrow> Some []
     | BadBook \<Rightarrow> None
     | Book grid \<Rightarrow> Some (map (sheet_row (header_cells grid)) (tl grid)))"

text \<open>The row of the CSV that belongs to a path: the last one that names it.\<close>

definition row_of_path :: "monitor_env \<Rightarrow> text_row list \<Rightarrow> string \<Rightarrow> nat option" where
  "row_of_path env rows key =
    (case filter (\<lambda>i. cell_at (rows ! i) H_FILE_PATH \<noteq> [] \<and> en_canonical env (cell_at (rows ! i) H_FILE_PATH) = key) [0..<length rows] of
       [] \<Rightarrow> None | i # hits \<Rightarrow> Some (last (i # hits)))"

definition edited_fields :: "text_row \<Rightarrow> text_row \<Rightarrow> text_row" where
  "edited_fields xrow target =
    map (\<lambda>h. (h, strip (cell_at xrow h))) (filter (\<lambda>h. strip (cell_at xrow h) \<noteq> strip (cell_at target h)) EDITABLE_FIELDS)"

record edit_scan =
  es_rows :: "text_row list"
  es_overrides :: overrides
  es_changed :: nat
  es_log :: "log_line list"

definition merged_override :: "monitor_env \<Rightarrow> string \<Rightarrow> text_row \<Rightarrow> overrides \<Rightarrow> manual_override" where
  "merged_override env key fields_of items =
    \<lparr>ov_source_path = key,
     ov_fields = dupdate (case dget items key of None \<Rightarrow> [] | Some m \<Rightarrow> ov_fields m) fields_of,
     ov_updated_at = en_now env\<rparr>"

definition scan_row :: "monitor_env \<Rightarrow> text_row \<Rightarrow> edit_scan \<Rightarrow> edit_scan" where
  "scan_row env xrow st =
    (let key = en_canonical env (cell_at xrow H_FILE_PATH)
     in case (if key = [] then None else row_of_path env (es_rows st) key) of
          None \<Rightarrow> st
        | Some i \<Rightarrow>
            (let target = es_rows st ! i; edits = edited_fields xrow target
             in if edits = [] then st
                else \<lparr>es_rows = (es_rows st)[i := dput H_EDITED S_EDITED (dupdate target edits)],
                  es_overrides = dput key (merged_override env key edits (es_overrides st)) (es_overrides st),
                  es_changed = es_changed st + 1,
                  es_log = es_log st @ [(''INFO'', ''MANUAL_EDIT_DETECTED'',
                    ''path='' @ key @ '' fields='' @ join '','' (sort (map fst edits)))]\<rparr>))"

definition changed_rows_text :: "nat \<Rightarrow> string" where
  "changed_rows_text n = ''changed_rows='' @ int_text (int n)"

definition sync_excel_manual_edits :: "monitor_env \<Rightarrow> monitor_state \<Rightarrow> exc + nat \<times> monitor_state" where
  "sync_excel_manual_edits env s =
    (if mo_csv s = None \<or> mo_xlsx s = NoBook then Inr (0, s)
     else case read_summary_xlsx_rows (mo_xlsx s) of
         None \<Rightarrow> Inr (0, log_event ''WARN'' ''MANUAL_SYNC_GUARD_BLOCK'' ''summary workbook locked or unreadable: '' s)
       | Some xrows \<Rightarrow>
           res_bind (load_manual_overrides env (mo_overrides s)) (\<lambda>items.
             let scan = fold (scan_row env) xrows \<lparr>es_rows = read_csv_rows (mo_csv s), es_overrides = items, es_changed = 0, es_log = []\<rparr>;
                 logged = s\<lparr>mo_log := mo_log s @ es_log scan\<rparr>
             in Inr (es_changed scan,
                  if es_changed scan = 0 then logged
                  else log_event ''INFO'' ''MANUAL_EDIT_AUTO_SYNC'' (changed_rows_text (es_changed scan))
                    ((write_both env (es_rows scan) (log_event ''INFO'' ''MANUAL_SYNC_GUARD_PASS'' (changed_rows_text (es_changed scan)) logged))
                       \<lparr>mo_overrides := save_manual_overrides env (es_overrides scan)\<rparr>))))"

section \<open>Status\<close>

definition update_status :: "monitor_env \<Rightarrow> vdict \<Rightarrow> monitor_state \<Rightarrow> monitor_state" where
  "update_status env updates s =
    (let profile = en_profile env; payload = dupdate (dupdate (status_file_payload (mo_status s)) updates)
        [(''target_id'', VStr (pf_target_id profile)), (''watch_dir'', VStr (pf_watch_dir profile)),
         (''workspace_dir'', VStr (pf_workspace_dir profile)), (''state_dir'', VStr (pf_state_dir profile)),
         (''log_path'', VStr (pf_log_path profile)), (''sync_interval_seconds'', VInt (pf_interval profile)),
         (''updated_at'', VStr (en_now env))]
     in s\<lparr>mo_status := plain_json_file payload\<rparr>)"

definition count_at :: "vdict \<Rightarrow> string \<Rightarrow> int" where
  "count_at d k = (case get_val d k of VInt i \<Rightarrow> i | _ \<Rightarrow> 0)"

definition notify_invoice_change :: "monitor_env \<Rightarrow> string \<Rightarrow> vdict \<Rightarrow> monitor_state \<Rightarrow> monitor_state" where
  "notify_invoice_change env trigger counts s =
    (if count_at counts ''added'' + count_at counts ''updated'' + count_at counts ''deleted'' + count_at counts ''blocked'' \<le> 0
     then log_event ''INFO'' ''NOTIFY_SKIP'' (''zero change trigger='' @ trigger) s
     else if en_notify_disabled env then log_event ''INFO'' ''NOTIFY_SKIP'' (''disabled by env trigger='' @ trigger) s
     else let message = NM_ADDED @ int_text (count_at counts ''added'') @ NM_UPDATED @ int_text (count_at counts ''updated'')
            @ NM_DELETED @ int_text (count_at counts ''deleted'');
          attempted = log_event ''INFO'' ''NOTIFY_ATTEMPT'' (''title='' @ NM_TITLE @ '' message='' @ message) s
        in attempted\<lparr>mo_log := mo_log attempted @ en_notified env\<rparr>)"

end
