(* ===== verification/Monitor_Sync.thy ===== *)
theory Monitor_Sync
  imports Monitor_State
begin

text \<open>
  One synchronization: \<open>SyncProgress\<close> of \<open>monitoring/state.py\<close> and \<open>MonitorSynchronizer\<close> of
  \<open>monitoring/sync.py\<close>. A run holds the state of the monitor and the progress. Each call that writes may raise:
  \<open>attempt_call\<close> asks \<open>en_fails\<close>, under the name of the call (\<open>log\<close>, \<open>status\<close>, \<open>event\<close>, \<open>notify\<close>, \<open>processed\<close>,
  \<open>summary\<close>), and \<open>run_bind\<close> ends a sequence of calls at the first exception. An exception of the rebuild or of
  what follows it is caught and reported as a failed synchronization; any other, also one of the handler, is
  raised to the caller. A snapshot of the progress that cannot be written is dropped, as in the code.

  The percentage of a fraction is computed as the code does, in floats: \<open>double_ratio n d\<close> is the float nearest to
  \<open>n / d\<close>, as a fraction, and \<open>round_div\<close> rounds half to even. The steps of a progress callback that is called
  between pure computations are replayed in order by \<open>progress_steps\<close>.
\<close>

section \<open>Percentages\<close>

definition round_div :: "nat \<Rightarrow> nat \<Rightarrow> nat" where
  "round_div n d =
    (let q = n div d; r = 2 * (n mod d) in if r < d \<or> r = d \<and> even q then q else q + 1)"

fun bits :: "nat \<Rightarrow> nat" where
  "bits n = (if n = 0 then 0 else Suc (bits (n div 2)))"

declare bits.simps [simp del]

definition double_ratio :: "nat \<Rightarrow> nat \<Rightarrow> nat \<times> nat" where
  "double_ratio n d =
    (if n = 0 then (0, 1)
     else let s = 2 ^ (54 + bits d); w = 2 ^ (bits (n * s div d) - 53) in (round_div (n * s) (d * w) * w, s))"

definition fraction_percent :: "nat \<Rightarrow> nat \<Rightarrow> nat \<Rightarrow> nat \<Rightarrow> nat" where
  "fraction_percent completed all lo hi =
    (let (a, b) = (if all = 0 \<or> all \<le> completed then (1, 1) else double_ratio completed all);
         (c, d) = double_ratio ((hi - lo) * a) b;
         (e, f) = double_ratio (lo * d + c) d
     in round_div e f)"

section \<open>Progress\<close>

record sync_progress =
  sp_trigger :: string
  sp_task_id :: string
  sp_operation_id :: string
  sp_started_at :: string
  sp_percent :: int
  sp_processed_count :: int
  sp_total_count :: int

record publication =
  pu_status :: string
  pu_phase :: string
  pu_message :: string
  pu_percent :: int
  pu_processed :: "int option"
  pu_total :: "int option"
  pu_error :: string

definition new_sync_progress :: "monitor_env \<Rightarrow> string \<Rightarrow> string \<Rightarrow> string \<Rightarrow> sync_progress" where
  "new_sync_progress env trigger task_id operation_id =
    \<lparr>sp_trigger = (if trigger = [] then ''sync'' else trigger), sp_task_id = task_id, sp_operation_id = operation_id,
     sp_started_at = en_now env, sp_percent = 0, sp_processed_count = 0, sp_total_count = 0\<rparr>"

definition counted :: "int option \<Rightarrow> int \<Rightarrow> int" where
  "counted given old = (case given of None \<Rightarrow> old | Some n \<Rightarrow> max 0 n)"

definition published :: "publication \<Rightarrow> sync_progress \<Rightarrow> sync_progress" where
  "published u p =
    (let processed = counted (pu_processed u) (sp_processed_count p); all = counted (pu_total u) (sp_total_count p)
     in p\<lparr>sp_processed_count := (if all \<noteq> 0 then min processed all else processed), sp_total_count := all,
          sp_percent := max (sp_percent p) (min 100 (max 0 (pu_percent u)))\<rparr>)"

definition progress_payload :: "monitor_env \<Rightarrow> publication \<Rightarrow> sync_progress \<Rightarrow> vdict" where
  "progress_payload env u p =
    [(''version'', VInt 1), (''operation_id'', VStr (sp_operation_id p)), (''task_id'', VStr (sp_task_id p)),
     (''target_id'', VStr (pf_target_id (en_profile env))), (''trigger'', VStr (sp_trigger p)), (''status'', VStr (pu_status u)),
     (''phase'', VStr (pu_phase u)), (''message'', VStr (pu_message u)), (''percent'', VInt (sp_percent p)),
     (''processed_count'', VInt (sp_processed_count p)), (''total_count'', VInt (sp_total_count p)),
     (''started_at'', VStr (sp_started_at p)), (''updated_at'', VStr (en_now env)), (''error'', VStr (pu_error u))]
    @ (if pu_status u \<noteq> ''running'' then [(''finished_at'', VStr (en_now env))] else [])"

type_synonym run = "monitor_state \<times> sync_progress"

text \<open>\<open>mo_published\<close> records the snapshots for the statements about them; no step reads it.\<close>

definition publish :: "monitor_env \<Rightarrow> publication \<Rightarrow> run \<Rightarrow> run" where
  "publish env u run =
    (let s = fst run; p = published u (snd run); payload = progress_payload env u p; written = (en_fails env ''progress'' s = None)
     in (s\<lparr>mo_progress := (if written then plain_json_file payload else mo_progress s),
           mo_published := mo_published s @ [(payload, written)]\<rparr>, p))"

definition report :: "monitor_env \<Rightarrow> string \<Rightarrow> string \<Rightarrow> int \<Rightarrow> run \<Rightarrow> run" where
  "report env phase message percent = publish env
     \<lparr>pu_status = ''running'', pu_phase = phase, pu_message = message, pu_percent = percent, pu_processed = None, pu_total = None, pu_error = []\<rparr>"

definition report_fraction :: "monitor_env \<Rightarrow> string \<Rightarrow> string \<Rightarrow> nat \<Rightarrow> nat \<Rightarrow> nat \<Rightarrow> nat \<Rightarrow> run \<Rightarrow> run" where
  "report_fraction env phase message lo hi completed all = publish env
     \<lparr>pu_status = ''running'', pu_phase = phase, pu_message = message, pu_percent = int (fraction_percent completed all lo hi),
      pu_processed = Some (int completed), pu_total = Some (int all), pu_error = []\<rparr>"

definition start_progress :: "monitor_env \<Rightarrow> run \<Rightarrow> run" where
  "start_progress env = report env ''preparing'' PM_START 0"

definition complete_progress :: "monitor_env \<Rightarrow> string \<Rightarrow> run \<Rightarrow> run" where
  "complete_progress env message = publish env
     \<lparr>pu_status = ''success'', pu_phase = ''complete'', pu_message = message, pu_percent = 100, pu_processed = None, pu_total = None, pu_error = []\<rparr>"

definition fail_progress :: "monitor_env \<Rightarrow> string \<Rightarrow> run \<Rightarrow> run" where
  "fail_progress env message run = publish env
     \<lparr>pu_status = ''failed'', pu_phase = ''failed'', pu_message = PM_FAILED, pu_percent = sp_percent (snd run), pu_processed = None,
      pu_total = None, pu_error = message\<rparr> run"

definition progress_steps :: "(nat \<Rightarrow> nat \<Rightarrow> run \<Rightarrow> run) \<Rightarrow> nat \<Rightarrow> nat \<Rightarrow> run \<Rightarrow> run" where
  "progress_steps progress done all = fold (\<lambda>i. progress i all) [0..<done + 1]"

section \<open>The request\<close>

record sync_request =
  rq_trigger :: string
  rq_force :: bool
  rq_paths :: "string list"
  rq_emit :: bool
  rq_notify :: bool
  rq_task_id :: string
  rq_operation_id :: string

section \<open>Calls that may raise\<close>

type_synonym 'a outcome = "(exc + 'a) \<times> run"

abbreviation on_state :: "(monitor_state \<Rightarrow> monitor_state) \<Rightarrow> run \<Rightarrow> run" where
  "on_state f run \<equiv> (f (fst run), snd run)"

definition attempt_call :: "monitor_env \<Rightarrow> string \<Rightarrow> (monitor_state \<Rightarrow> monitor_state) \<Rightarrow> run \<Rightarrow> unit outcome" where
  "attempt_call env call f run = (case en_fails env call (fst run) of None \<Rightarrow> (Inr (), on_state f run) | Some e \<Rightarrow> (Inl e, run))"

definition run_bind :: "'a outcome \<Rightarrow> ('a \<Rightarrow> run \<Rightarrow> 'b outcome) \<Rightarrow> 'b outcome" where
  "run_bind x k = (case x of (Inl e, r) \<Rightarrow> (Inl e, r) | (Inr a, r) \<Rightarrow> k a r)"

definition except :: "'a outcome \<Rightarrow> (exc \<Rightarrow> run \<Rightarrow> 'a outcome) \<Rightarrow> 'a outcome" where
  "except x handler = (case x of (Inl e, r) \<Rightarrow> handler e r | (Inr a, r) \<Rightarrow> (Inr a, r))"

lemma run_bind_simps [simp]: "run_bind (Inl e, r) k = (Inl e, r)" "run_bind (Inr a, r) k = k a r"
  by (simp_all add: run_bind_def)

lemma except_simps [simp]: "except (Inl e, r) h = h e r" "except (Inr a, r) h = (Inr a, r)"
  by (simp_all add: except_def)

lemma run_bind_eq_Inr: "run_bind x k = (Inr b, r') \<longleftrightarrow> (\<exists>a r. x = (Inr a, r) \<and> k a r = (Inr b, r'))"
  by (auto simp: run_bind_def split: prod.splits sum.splits)

lemma attempt_call_eq_Inr: "attempt_call env call f r = (Inr u, r') \<longleftrightarrow> en_fails env call (fst r) = None \<and> r' = on_state f r"
  by (auto simp: attempt_call_def split: option.splits)

lemma attempt_call_ok: "en_fails env call (fst r) = None \<Longrightarrow> attempt_call env call f r = (Inr (), on_state f r)"
  by (simp add: attempt_call_def)

definition append_event :: "monitor_env \<Rightarrow> sync_request \<Rightarrow> string \<Rightarrow> vdict \<Rightarrow> vdict \<Rightarrow> run \<Rightarrow> unit outcome" where
  "append_event env rq event_type payload error run =
    (if rq_emit rq then attempt_call env ''event'' (\<lambda>s. s\<lparr>mo_events := mo_events s @ [(event_type, payload, error)]\<rparr>) run else (Inr (), run))"

definition sync_action :: "string \<Rightarrow> string" where
  "sync_action trigger =
    (if trigger \<in> {''startup'', ''startup_sync''} then ''STARTUP_SYNC''
     else if trigger \<in> {''event'', ''event_sync''} then ''EVENT_SYNC''
     else if trigger \<in> {''periodic'', ''periodic_sync''} then ''PERIODIC_SYNC''
     else if trigger = ''manual_edit'' then ''MANUAL_EDIT_SYNC'' else ''SYNC'')"

definition trigger_field :: "sync_request \<Rightarrow> string \<times> pyval" where
  "trigger_field rq = (''trigger'', VStr (rq_trigger rq))"

definition target_field :: "monitor_env \<Rightarrow> string \<times> pyval" where
  "target_field env = (''target_id'', VStr (pf_target_id (en_profile env)))"

definition idle_status :: "monitor_env \<Rightarrow> sync_request \<Rightarrow> vdict" where
  "idle_status env rq =
    [(''status'', VStr ''idle''), (''last_sync_at'', VStr (en_now env)), (''last_trigger'', VStr (rq_trigger rq)), (''last_error'', VStr [])]"

text \<open>\<open>except Exception as exc\<close> of the two halves that write\<close>

definition sync_failed :: "monitor_env \<Rightarrow> sync_request \<Rightarrow> string \<Rightarrow> exc \<Rightarrow> run \<Rightarrow> vdict outcome" where
  "sync_failed env rq action e run =
    (let t = en_msg env e; error = [(''message'', VStr t), trigger_field rq]
     in run_bind (attempt_call env ''log'' (log_event ''ERROR'' action t) run) (\<lambda>_ r1.
        run_bind (attempt_call env ''status''
          (update_status env [(''status'', VStr ''failed''), (''last_error'', VStr t), (''last_trigger'', VStr (rq_trigger rq))]) r1) (\<lambda>_ r2.
        run_bind (append_event env rq ''monitor.sync_failed'' [] error (fail_progress env t r2)) (\<lambda>_ r3.
          (Inr [(''ok'', VBool False), (''error'', VStr t), trigger_field rq], r3)))))"

section \<open>The cost tables\<close>

definition summary_metadata :: "csv_file \<Rightarrow> vdict list" where
  "summary_metadata csv = map (\<lambda>row.
     [(F_FILE, VStr (cell_at row H_FILE_PATH)), (F_SELLER, VStr (cell_at row F_SELLER)), (H_BUYER, VStr (cell_at row H_BUYER)),
      (F_INVOICE_NO, VStr (cell_at row F_INVOICE_NO)), (F_DATE, VStr (cell_at row H_OPEN_TIME)), (H_AMOUNT, VStr (cell_at row H_AMOUNT)),
      (H_EX_TAX, VStr (cell_at row H_EX_TAX)), (F_TAX, VStr (cell_at row F_TAX)), (H_CATEGORY, VStr (cell_at row H_INVOICE_TYPE)),
      (H_BUSINESS, VStr (cell_at row H_BUSINESS)), (H_CLASS_STATUS, VStr (cell_at row H_CLASS_STATUS)),
      (H_CLASS_ISSUE, VStr (cell_at row H_CLASS_ISSUE))]) (read_csv_rows csv)"

definition iter_cost_invoice_files :: "monitor_env \<Rightarrow> source_file list" where
  "iter_cost_invoice_files env = sort_key sf_folded
     (filter (\<lambda>f. sf_suffix f \<in> set SUPPORTED_EXTS \<and> take 2 (sf_name f) \<noteq> ''~$'') (filter (\<lambda>f. \<not> en_runtime_dir env f) (en_dir env)))"

definition costs_told :: "monitor_env \<Rightarrow> (nat \<Rightarrow> nat \<Rightarrow> run \<Rightarrow> run) \<Rightarrow> run \<Rightarrow> run" where
  "costs_told env progress run =
    (let (done, all) = groups_read (en_canonical env) (en_analyze env) (iter_cost_invoice_files env) (summary_metadata (mo_csv (fst run)))
     in if isl (service_markup_meta (en_casefold env) (cf_status (mo_cost (fst run))) (en_markup_rate env)) then run
        else progress_steps progress done all run)"

definition rebuild_costs :: "monitor_env \<Rightarrow> (nat \<Rightarrow> nat \<Rightarrow> run \<Rightarrow> run) \<Rightarrow> run \<Rightarrow> nat outcome" where
  "rebuild_costs env progress run =
    (let c = mo_cost (fst run); files = iter_cost_invoice_files env; metadata = summary_metadata (mo_csv (fst run));
         told = costs_told env progress run
     in case cost_rebuild (en_casefold env) (en_canonical env) (en_analyze env) (en_reread env) (en_now env) files metadata (en_markup_rate env) c of
         Inl e \<Rightarrow> (Inl e, on_state (\<lambda>s. s\<lparr>mo_cost := en_torn env c\<rparr>) told)
       | Inr (n, d) \<Rightarrow> (Inr n, on_state (\<lambda>s. s\<lparr>mo_cost := d\<rparr>) told))"

section \<open>The two halves that write\<close>

definition schema_refreshed :: "monitor_env \<Rightarrow> sync_request \<Rightarrow> vdict \<Rightarrow> nat \<Rightarrow> run \<Rightarrow> vdict outcome" where
  "schema_refreshed env rq counts manual_changed run =
    (case refresh_schema_from_current_detail (en_casefold env) (en_reread env) (en_markup_rate env) (mo_cost (fst run)) of
       Inl e \<Rightarrow> (Inl e, on_state (\<lambda>s. s\<lparr>mo_cost := en_torn env (mo_cost s)\<rparr>) run)
     | Inr (refreshed, c) \<Rightarrow>
         (let payload = trigger_field rq # counts @ [(''manual_changed'', VInt (int manual_changed)),
                (''cost_schema_refreshed'', VBool refreshed), (''rebuilt'', VBool False), target_field env]
          in run_bind (attempt_call env ''status'' (update_status env (idle_status env rq)) (on_state (\<lambda>s. s\<lparr>mo_cost := c\<rparr>) run)) (\<lambda>_ r1.
             run_bind (append_event env rq ''cost_analysis.updated'' [target_field env, (''schema_refreshed'', VBool refreshed)] []
               (complete_progress env PM_SCHEMA_DONE r1)) (\<lambda>_ r2.
             run_bind (append_event env rq ''monitor.sync_completed'' payload [] r2) (\<lambda>_ r3.
               (Inr ((''ok'', VBool True) # payload), r3))))))"

definition refresh_cost_schema :: "monitor_env \<Rightarrow> sync_request \<Rightarrow> vdict \<Rightarrow> nat \<Rightarrow> run \<Rightarrow> vdict outcome" where
  "refresh_cost_schema env rq counts manual_changed run =
    run_bind (attempt_call env ''log'' (log_event ''INFO'' ''COST_SCHEMA_REFRESH'' (''trigger='' @ rq_trigger rq)) run) (\<lambda>_ logged.
      except (schema_refreshed env rq counts manual_changed (report env ''cost_schema'' PM_SCHEMA 8 logged))
        (sync_failed env rq ''COST_SCHEMA_REFRESH_FAILED''))"

text \<open>The summary, the edits, the costs and the record of processed files, in this order.\<close>

definition write_summary :: "monitor_env \<Rightarrow> summary_files \<Rightarrow> run \<Rightarrow> unit outcome" where
  "write_summary env files run =
    (case en_fails env ''summary'' (fst run) of
       None \<Rightarrow> (Inr (), on_state (\<lambda>s. s\<lparr>mo_csv := su_csv files, mo_xlsx := su_xlsx files\<rparr>) run)
     | Some e \<Rightarrow> (let torn = en_torn_summary env (mo_csv (fst run), mo_xlsx (fst run))
         in (Inl e, on_state (\<lambda>s. s\<lparr>mo_csv := fst torn, mo_xlsx := snd torn\<rparr>) run)))"

definition apply_edits :: "monitor_env \<Rightarrow> run \<Rightarrow> nat outcome" where
  "apply_edits env run =
    (case apply_manual_overrides_to_summary env (fst run) of
       Inl e \<Rightarrow> (Inl e, run)
     | Inr (applied, s) \<Rightarrow> (Inr applied, (s, snd run)))"

definition rebuild_tables :: "monitor_env \<Rightarrow> run \<Rightarrow> (nat \<times> nat \<times> nat) outcome" where
  "rebuild_tables env run =
    run_bind (build_summary (en_extract env) (en_suspicious env) (reread_text env) (report_fraction env ''summary'' PM_SUMMARY 8 52) (en_dir env)
      (report env ''summary'' PM_SUMMARY 8 run)) (\<lambda>built r1.
    run_bind (write_summary env (snd built) r1) (\<lambda>_ r2.
    run_bind (apply_edits env (report env ''summary'' PM_APPLY 52 r2)) (\<lambda>applied r3.
    run_bind (rebuild_costs env (report_fraction env ''cost'' PM_COST_FILES 52 92) (report env ''cost'' PM_COST 52 r3)) (\<lambda>detail_count r4.
      let n = length (supported_invoice_files (en_dir env))
      in (Inr (length (fst built), applied, detail_count),
          progress_steps (report_fraction env ''finalizing'' PM_FINAL 92 99) n n (report env ''finalizing'' PM_FINAL 92 r4))))))"

definition record_processed :: "monitor_env \<Rightarrow> run \<Rightarrow> unit outcome" where
  "record_processed env = attempt_call env ''processed'' (\<lambda>s. save_processed env (rebuild_processed_from_summary env (mo_csv s)) s)"

definition rebuild_all :: "monitor_env \<Rightarrow> run \<Rightarrow> (nat \<times> nat \<times> nat) outcome" where
  "rebuild_all env run =
    run_bind (rebuild_tables env run) (\<lambda>counts r1. run_bind (record_processed env r1) (\<lambda>_ r2. (Inr counts, r2)))"

definition synced_edits :: "monitor_env \<Rightarrow> sync_request \<Rightarrow> nat \<Rightarrow> run \<Rightarrow> unit outcome" where
  "synced_edits env rq manual_changed run =
    (if manual_changed \<noteq> 0
     then append_event env rq ''manual_edit.synced'' [(''changed_rows'', VInt (int manual_changed)), target_field env] [] run
     else (Inr (), run))"

definition notified :: "monitor_env \<Rightarrow> sync_request \<Rightarrow> vdict \<Rightarrow> run \<Rightarrow> unit outcome" where
  "notified env rq counts run =
    (if rq_notify rq then attempt_call env ''notify'' (notify_invoice_change env (rq_trigger rq) counts) run else (Inr (), run))"

definition sync_completed ::
  "monitor_env \<Rightarrow> sync_request \<Rightarrow> vdict \<Rightarrow> nat \<Rightarrow> bool \<Rightarrow> bool \<Rightarrow> nat \<times> nat \<times> nat \<Rightarrow> run \<Rightarrow> vdict outcome" where
  "sync_completed env rq counts manual_changed summary_stale cost_stale result run =
    (let summary_count = fst result;
         payload = trigger_field rq # counts @ [(''manual_changed'', VInt (int manual_changed)),
           (''manual_applied'', VInt (int (fst (snd result)))),
           (''summary_schema_refreshed'', VBool summary_stale), (''cost_schema_refreshed'', VBool cost_stale),
           (''summary_count'', VInt (int summary_count)), (''cost_detail_count'', VInt (int (snd (snd result)))), (''rebuilt'', VBool True),
           target_field env]
     in run_bind (attempt_call env ''status'' (update_status env (idle_status env rq)) run) (\<lambda>_ r1.
        run_bind (append_event env rq ''invoice.changed'' payload []
          (complete_progress env (PM_DONE @ int_text (int summary_count) @ PM_DONE_END) r1)) (\<lambda>_ r2.
        run_bind (append_event env rq ''cost_analysis.updated'' (target_field env # counts) [] r2) (\<lambda>_ r3.
        run_bind (append_event env rq ''monitor.sync_completed'' payload [] r3) (\<lambda>_ r4.
        run_bind (synced_edits env rq manual_changed r4) (\<lambda>_ r5.
        run_bind (notified env rq counts r5) (\<lambda>_ r6.
          (Inr ((''ok'', VBool True) # payload), r6))))))))"

definition bool_text :: "bool \<Rightarrow> string" where
  "bool_text b = (if b then ''True'' else ''False'')"

definition counts_text :: "vdict \<Rightarrow> bool \<Rightarrow> string" where
  "counts_text counts force = ''added='' @ int_text (count_at counts ''added'') @ '' updated='' @ int_text (count_at counts ''updated'')
     @ '' deleted='' @ int_text (count_at counts ''deleted'') @ '' force='' @ bool_text force"

section \<open>The synchronization\<close>

definition nothing_to_do :: "monitor_env \<Rightarrow> sync_request \<Rightarrow> vdict \<Rightarrow> nat \<Rightarrow> run \<Rightarrow> vdict outcome" where
  "nothing_to_do env rq counts manual_changed run =
    (let payload = trigger_field rq # counts @ [(''manual_changed'', VInt (int manual_changed)), (''rebuilt'', VBool False)]
     in run_bind (attempt_call env ''status'' (update_status env [(''status'', VStr ''idle''), (''last_checked_at'', VStr (en_now env)),
          (''last_trigger'', VStr (rq_trigger rq))]) run) (\<lambda>_ r1.
        run_bind (append_event env rq ''monitor.heartbeat'' payload [] (complete_progress env PM_CURRENT r1)) (\<lambda>_ r2.
          (Inr ((''ok'', VBool True) # payload), r2))))"

definition rebuild_and_report ::
  "monitor_env \<Rightarrow> sync_request \<Rightarrow> vdict \<Rightarrow> nat \<Rightarrow> bool \<Rightarrow> bool \<Rightarrow> run \<Rightarrow> vdict outcome" where
  "rebuild_and_report env rq counts manual_changed summary_stale cost_stale run =
    run_bind (attempt_call env ''log'' (log_event ''INFO'' (sync_action (rq_trigger rq)) (counts_text counts (rq_force rq))) run) (\<lambda>_ logged.
      except (run_bind (rebuild_all env logged) (sync_completed env rq counts manual_changed summary_stale cost_stale))
        (sync_failed env rq ''SYNC_FAILED''))"

definition act_on_changes :: "monitor_env \<Rightarrow> sync_request \<Rightarrow> nat \<Rightarrow> source_changes \<Rightarrow> run \<Rightarrow> vdict outcome" where
  "act_on_changes env rq manual_changed changes run =
    (let s = fst run; counts = as_counts changes;
         summary_missing = (mo_csv s = None \<or> mo_xlsx s = NoBook);
         summary_stale = (\<not> summary_missing \<and> summary_schema_needs_refresh (mo_csv s) (mo_xlsx s));
         cost_missing = (cf_detail (mo_cost s) = None \<or> cf_book (mo_cost s) = NoCosts);
         cost_stale = (\<not> cost_missing \<and> needs_schema_refresh (mo_cost s));
         other = (rq_force rq \<or> changed changes \<or> summary_missing \<or> summary_stale \<or> cost_missing \<or> manual_changed \<noteq> 0)
     in if \<not> other \<and> \<not> cost_stale then nothing_to_do env rq counts manual_changed run
        else if \<not> other then refresh_cost_schema env rq counts manual_changed run
        else rebuild_and_report env rq counts manual_changed summary_stale cost_stale run)"

definition detect_with_progress :: "monitor_env \<Rightarrow> run \<Rightarrow> source_changes outcome" where
  "detect_with_progress env run =
    (let (found, s) = detect_source_changes env (fst run); n = length (supported_invoice_files (en_dir env))
     in (found, progress_steps (report_fraction env ''scanning'' PM_SCAN 0 8) n n (s, snd run)))"

definition take_over_edits :: "monitor_env \<Rightarrow> run \<Rightarrow> nat outcome" where
  "take_over_edits env run =
    (case sync_excel_manual_edits env (fst run) of
       Inl e \<Rightarrow> (Inl e, run)
     | Inr (manual_changed, s) \<Rightarrow> (Inr manual_changed, (s, snd run)))"

definition run_sync_locked :: "monitor_env \<Rightarrow> sync_request \<Rightarrow> run \<Rightarrow> vdict outcome" where
  "run_sync_locked env rq run =
    run_bind (attempt_call env ''status'' (update_status env
      [(''status'', VStr ''syncing''), (''last_trigger'', VStr (rq_trigger rq)), (''last_event_paths'', VList (map VStr (rq_paths rq)))]) run) (\<lambda>_ r1.
    run_bind (take_over_edits env (report env ''preparing'' PM_EDITS 0 r1)) (\<lambda>manual_changed r2.
    run_bind (detect_with_progress env (report env ''scanning'' PM_SCAN 0 r2)) (\<lambda>changes r3.
      act_on_changes env rq manual_changed changes r3)))"

definition run_sync :: "monitor_env \<Rightarrow> sync_request \<Rightarrow> monitor_state \<Rightarrow> (exc + vdict) \<times> monitor_state" where
  "run_sync env rq s =
    (case run_sync_locked env rq (start_progress env (s, new_sync_progress env (rq_trigger rq) (rq_task_id rq) (rq_operation_id rq))) of
       (Inl e, r) \<Rightarrow> (Inl e, fst (fail_progress env (en_msg env e) r))
     | (Inr payload, r) \<Rightarrow> (Inr payload, fst r))"

end
