(* ===== verification/Monitor_Edits.thy ===== *)
theory Monitor_Edits
  imports Monitor_State
begin

text \<open>
  The way of a cell that the user edits in the workbook: it is recorded as a manual edit, is written to the summary,
  and is written again over every later summary.
\<close>

section \<open>Names of columns\<close>

lemma strip_plain:
  assumes "\<forall>c\<in>set t. byte c \<notin> {9, 10, 11, 12, 13, 28, 29, 30, 31, 32, 0xC2, 0xE1, 0xE2, 0xE3}"
  shows "strip t = t"
proof -
  have "\<not> uspace x" if "x \<in> set (uchars t)" for x
  proof -
    have "[] \<notin> set (uchars t)" by (induction t rule: uchars.induct) auto
    with that have "x \<noteq> []" by auto
    then have "hd x \<in> set t" using that by (metis UN_I concat_uchars hd_in_set set_concat)
    then show ?thesis using assms by (intro not_uspace_hd) simp
  qed
  then have "dropWhile uspace (uchars t) = uchars t" "dropWhile uspace (rev (uchars t)) = rev (uchars t)"
    by (cases "uchars t = []"; simp add: dropWhile_eq_self_iff hd_rev)+
  then show ?thesis by (simp add: strip_def strip_chars_def)
qed

lemma headers_plain:
  assumes "h \<in> set SUMMARY_HEADERS"
  shows "strip h = h" "h \<noteq> []" "hd h \<noteq> CHR ''=''"
proof -
  have "\<forall>h\<in>set SUMMARY_HEADERS. (\<forall>c\<in>set h. byte c \<notin> {9, 10, 11, 12, 13, 28, 29, 30, 31, 32, 0xC2, 0xE1, 0xE2, 0xE3})
      \<and> h \<noteq> [] \<and> hd h \<noteq> CHR ''=''"
    by (simp add: SUMMARY_HEADERS_def H_NAME_def H_FILE_PATH_def H_INVOICE_TYPE_def H_BUSINESS_def H_CLASS_STATUS_def H_CLASS_ISSUE_def
      F_INVOICE_NO_def H_OPEN_TIME_def F_SELLER_def H_BUYER_def H_AMOUNT_def F_RATE_def H_EX_TAX_def F_TAX_def DUPLICATE_LABEL_def
      H_EDITED_def byte_def)
  with assms show "strip h = h" "h \<noteq> []" "hd h \<noteq> CHR ''=''" by (auto intro!: strip_plain)
qed

section \<open>Edits as they are kept\<close>

lemma editable_distinct: "distinct EDITABLE_FIELDS"
  by (simp add: EDITABLE_FIELDS_def F_SELLER_def H_AMOUNT_def F_INVOICE_NO_def)

lemma editable_other: "H_FILE_PATH \<notin> set EDITABLE_FIELDS" "H_EDITED \<notin> set EDITABLE_FIELDS" "H_EDITED \<noteq> H_FILE_PATH"
  by (simp_all add: EDITABLE_FIELDS_def F_SELLER_def H_AMOUNT_def F_INVOICE_NO_def H_FILE_PATH_def H_EDITED_def)

lemma editable_headers: "set EDITABLE_FIELDS \<subseteq> set SUMMARY_HEADERS" "H_FILE_PATH \<in> set SUMMARY_HEADERS"
  by (simp_all add: EDITABLE_FIELDS_def SUMMARY_HEADERS_def)

definition override_wf :: "monitor_env \<Rightarrow> string \<Rightarrow> manual_override \<Rightarrow> bool" where
  "override_wf env k m \<longleftrightarrow> en_canonical env k = k \<and> ov_source_path m = k \<and> dict_wf (ov_fields m) \<and> ov_fields m \<noteq> []
     \<and> (\<forall>p\<in>set (ov_fields m). fst p \<in> set EDITABLE_FIELDS \<and> strip (snd p) = snd p)"

definition overrides_wf :: "monitor_env \<Rightarrow> overrides \<Rightarrow> bool" where
  "overrides_wf env items \<longleftrightarrow> dict_wf items \<and> (\<forall>p\<in>set items. override_wf env (fst p) (snd p))"

lemma overrides_wf_dput: "overrides_wf env items \<Longrightarrow> override_wf env k m \<Longrightarrow> overrides_wf env (dput k m items)"
proof -
  assume wf: "overrides_wf env items" and m: "override_wf env k m"
  have "override_wf env (fst p) (snd p)" if "p \<in> set (dput k m items)" for p
    using set_dput [OF that] wf m by (cases "p = (k, m)") (simp_all add: overrides_wf_def)
  then show ?thesis using wf by (simp add: overrides_wf_def)
qed

lemma cleaned_fields_wf:
  "dict_wf (cleaned_fields d)" "p \<in> set (cleaned_fields d) \<Longrightarrow> fst p \<in> set EDITABLE_FIELDS \<and> strip (snd p) = snd p"
  using editable_distinct by (auto simp: cleaned_fields_def dict_wf_def comp_def)

lemma load_override_wf:
  assumes "\<And>t. en_canonical env (en_canonical env t) = en_canonical env t"
    and "load_override env p items = Inr items'" and "overrides_wf env items"
  shows "overrides_wf env items'"
proof -
  have new: "override_wf env (en_canonical env path) \<lparr>ov_source_path = en_canonical env path, ov_fields = cleaned_fields d, ov_updated_at = u\<rparr>"
    if "cleaned_fields d \<noteq> []" for path d u
    using that assms(1) cleaned_fields_wf by (auto simp: override_wf_def)
  show ?thesis
    using assms(2,3) by (auto simp: load_override_def Let_def intro!: overrides_wf_dput new split: pyval.splits if_splits)
qed

lemma load_manual_overrides_wf:
  assumes "\<And>t. en_canonical env (en_canonical env t) = en_canonical env t" and "load_manual_overrides env f = Inr items"
  shows "overrides_wf env items"
proof -
  have "overrides_wf env []" by (simp add: overrides_wf_def)
  with assms(2) [unfolded load_manual_overrides_def Let_def] show ?thesis
    by (rule res_fold_invariant) (rule load_override_wf [OF assms(1)])
qed

section \<open>Saving and loading\<close>

definition reloaded :: "manual_override \<Rightarrow> manual_override" where
  "reloaded m = m\<lparr>ov_fields := cleaned_fields (map (\<lambda>p. (fst p, VStr (snd p))) (ov_fields m))\<rparr>"

lemma dget_map_VStr: "dget (map (\<lambda>p. (fst p, VStr (snd p))) d) k = map_option VStr (dget d k)"
  by (induction d) auto

lemma dget_map_pairs: "dget (map (\<lambda>h. (h, g h)) hs) k = (if k \<in> set hs then Some (g k) else None)"
  by (induction hs) auto

lemma reloaded_fields:
  assumes "override_wf env k m"
  shows "dget (ov_fields (reloaded m)) h = dget (ov_fields m) h" "dict_wf (ov_fields (reloaded m))"
    "set (map fst (ov_fields (reloaded m))) \<subseteq> set EDITABLE_FIELDS" "ov_fields (reloaded m) \<noteq> []"
proof -
  let ?v = "map (\<lambda>p. (fst p, VStr (snd p))) (ov_fields m)"
  have kept: "h \<in> set EDITABLE_FIELDS \<and> strip w = w" if "dget (ov_fields m) h = Some w" for h w
    using assms dget_Some_in [OF that] by (auto simp: override_wf_def)
  show same: "dget (ov_fields (reloaded m)) h = dget (ov_fields m) h" for h
    using kept [of h] by (cases "dget (ov_fields m) h")
      (auto simp: reloaded_def cleaned_fields_def dget_map_pairs dhas_def dget_map_VStr get_val_def)
  show "dict_wf (ov_fields (reloaded m))" "set (map fst (ov_fields (reloaded m))) \<subseteq> set EDITABLE_FIELDS"
    using cleaned_fields_wf by (auto simp: reloaded_def)
  have "hd (ov_fields m) \<in> set (ov_fields m)" using assms by (simp add: override_wf_def)
  then have "dget (ov_fields m) (fst (hd (ov_fields m))) \<noteq> None" by (auto simp: dget_None_iff)
  with same [of "fst (hd (ov_fields m))"] show "ov_fields (reloaded m) \<noteq> []" by auto
qed

lemma load_saved_override:
  assumes "override_wf env k m"
  shows "load_override env (k, VDict (override_payload m)) items = Inr (dput k (reloaded m) items)"
proof -
  have m: "en_canonical env k = k" "ov_source_path m = k" using assms by (simp_all add: override_wf_def)
  have "get_val (override_payload m) ''fields'' = VDict (map (\<lambda>p. (fst p, VStr (snd p))) (ov_fields m))"
    "get_val (override_payload m) ''source_path'' = VStr k" "gets (override_payload m) ''updated_at'' = ov_updated_at m"
    by (simp_all add: override_payload_def get_val_def gets_or_def m)
  moreover have "cleaned_fields (map (\<lambda>p. (fst p, VStr (snd p))) (ov_fields m)) \<noteq> []"
    using reloaded_fields(4) [OF assms] by (simp add: reloaded_def)
  moreover have "val_or (VStr k) (VStr k) = VStr k" by (simp add: val_or_def)
  ultimately show ?thesis using m by (cases m) (simp add: load_override_def reloaded_def Let_def)
qed

lemma load_saved_overrides:
  assumes "overrides_wf env items" and same: "en_canonical env' = en_canonical env"
  shows "load_manual_overrides env' (save_manual_overrides env'' items) = Inr (fold (\<lambda>p. dput (fst p) (reloaded (snd p))) items [])"
proof -
  have "res_fold (load_override env') (map (\<lambda>p. (fst p, VDict (override_payload (snd p)))) xs) acc
      = Inr (fold (\<lambda>p. dput (fst p) (reloaded (snd p))) xs acc)" if "set xs \<subseteq> set items" for xs acc
    using that
  proof (induction xs arbitrary: acc)
    case (Cons p xs)
    have "override_wf env' (fst p) (snd p)"
      using assms(1) same Cons.prems by (auto simp: overrides_wf_def override_wf_def)
    then show ?case using Cons by (simp add: load_saved_override)
  qed simp
  then show ?thesis
    by (simp add: load_manual_overrides_def save_manual_overrides_def plain_json_file_def status_file_payload_def get_val_def)
qed

section \<open>Applying\<close>

lemma cell_at_dput: "cell_at (dput k v row) h = (if h = k then v else cell_at row h)"
  by (simp add: cell_at_def dget_dput)

lemma apply_fields_cell:
  assumes "dict_wf fs" and "set (map fst fs) \<subseteq> set EDITABLE_FIELDS"
  shows "cell_at (fst (fold apply_field fs (row, b))) h = (case dget fs h of None \<Rightarrow> cell_at row h | Some v \<Rightarrow> v)"
  using assms
proof (induction fs arbitrary: row b)
  case (Cons p fs)
  obtain k v where p: "p = (k, v)" by (cases p)
  have k: "k \<in> set EDITABLE_FIELDS" "dget fs k = None" "dict_wf fs"
    using Cons.prems by (auto simp: p dict_wf_def dget_None_iff)
  have "apply_field p (row, b) = (if cell_at row k \<noteq> v then dput k v row else row, b \<or> cell_at row k \<noteq> v)"
    using k by (simp add: apply_field_def p)
  then show ?case
    using Cons.IH [OF k(3), of "if cell_at row k \<noteq> v then dput k v row else row"] Cons.prems k(2)
    by (auto simp: p cell_at_dput split: option.splits)
qed simp

lemma apply_fields_untouched: "fold apply_field fs (row, b) = (row', False) \<Longrightarrow> row' = row \<and> \<not> b"
proof (induction fs arbitrary: row b)
  case (Cons p fs)
  then show ?case by (auto simp: apply_field_def split: if_splits)
qed simp

lemma apply_override_cells:
  assumes "dget items (en_canonical env (cell_at row H_FILE_PATH)) = Some m" and "dict_wf (ov_fields m)"
    and "set (map fst (ov_fields m)) \<subseteq> set EDITABLE_FIELDS" and "h \<in> set EDITABLE_FIELDS"
  shows "cell_at (fst (apply_override env items row)) h = (case dget (ov_fields m) h of None \<Rightarrow> cell_at row h | Some v \<Rightarrow> v)"
  using apply_fields_cell [OF assms(2,3), of row False h] assms(1,4) editable_other
  by (auto simp: apply_override_def split_beta Let_def cell_at_dput)

lemma apply_fields_path: "cell_at (fst (fold apply_field fs (row, b))) H_FILE_PATH = cell_at row H_FILE_PATH"
proof (induction fs arbitrary: row b)
  case (Cons p fs)
  then show ?case using editable_other(1)
    by (cases "apply_field p (row, b)") (auto simp: apply_field_def cell_at_dput split: if_splits)
qed simp

lemma apply_override_path [simp]: "cell_at (fst (apply_override env items row)) H_FILE_PATH = cell_at row H_FILE_PATH"
  using apply_fields_path editable_other(3)
  by (auto simp: apply_override_def split_beta Let_def cell_at_dput split: option.splits)

lemma apply_override_untouched: "\<not> snd (apply_override env items row) \<Longrightarrow> fst (apply_override env items row) = row"
proof (cases "dget items (en_canonical env (cell_at row H_FILE_PATH))")
  case (Some m)
  moreover assume "\<not> snd (apply_override env items row)"
  ultimately show ?thesis
    using apply_fields_untouched [of "ov_fields m" row False "fst (fold apply_field (ov_fields m) (row, False))"]
    by (cases "fold apply_field (ov_fields m) (row, False)") (auto simp: apply_override_def split: if_splits)
qed (simp add: apply_override_def)

lemma written_cell: "h \<in> set headers \<Longrightarrow> row \<in> set (read_csv_rows (write_csv_rows headers rows)) \<Longrightarrow>
    \<exists>r\<in>set rows. cell_at row h = cell_at r h \<and> (\<forall>h'\<in>set headers. cell_at row h' = cell_at r h')"
  by (auto simp: read_csv_rows_def write_csv_rows_def cell_at_def dget_map_pairs)

text \<open>After the edits were applied, every row of the summary carries them.\<close>

lemma applied_rows:
  assumes "load_manual_overrides env (mo_overrides s) = Inr items" and "apply_manual_overrides_to_summary env s = Inr (n, s')"
    and "row \<in> set (read_csv_rows (mo_csv s'))"
  shows "\<exists>r\<in>set (read_csv_rows (mo_csv s)). \<forall>h\<in>set SUMMARY_HEADERS. cell_at row h = cell_at (fst (apply_override env items r)) h"
proof -
  let ?rows = "read_csv_rows (mo_csv s)"
  let ?results = "map (apply_override env items) ?rows"
  let ?n = "length (filter snd ?results)"
  have "?n = n \<and> (if ?n = 0 then s
      else log_event ''INFO'' ''MANUAL_EDIT_APPLIED'' (''applied='' @ int_text (int ?n)) (write_both env (map fst ?results) s)) = s'"
    by (rule assms(2) [unfolded apply_manual_overrides_to_summary_def assms(1) res_bind_simps Let_def sum.inject prod.inject])
  then have s': "mo_csv s' = (if ?n = 0 then mo_csv s else write_csv_rows SUMMARY_HEADERS (map fst ?results))"
    by (auto simp: log_event_def write_both_def)
  show ?thesis
  proof (cases "?n = 0")
    case True
    then have "\<forall>r\<in>set ?rows. \<not> snd (apply_override env items r)" by (auto simp: filter_empty_conv)
    moreover have "row \<in> set ?rows" using assms(3) True s' by simp
    ultimately show ?thesis using apply_override_untouched by metis
  next
    case False
    then have "mo_csv s' = write_csv_rows SUMMARY_HEADERS (map fst ?results)" using s' by simp
    with assms(3) obtain r where "r \<in> set (map fst ?results)" "\<forall>h\<in>set SUMMARY_HEADERS. cell_at row h = cell_at r h"
      using written_cell [OF editable_headers(2)] by metis
    then show ?thesis by auto
  qed
qed

section \<open>Finding the edits\<close>

abbreviation path_cells :: "text_row list \<Rightarrow> string list" where
  "path_cells rows \<equiv> map (\<lambda>r. cell_at r H_FILE_PATH) rows"

lemma row_of_path_cong:
  assumes "path_cells rows = path_cells rows'"
  shows "row_of_path env rows key = row_of_path env rows' key"
proof -
  have len: "length rows = length rows'" using assms by (rule map_eq_imp_length_eq)
  have "cell_at (rows ! i) H_FILE_PATH = cell_at (rows' ! i) H_FILE_PATH" if "i < length rows" for i
    using arg_cong [OF assms, of "\<lambda>xs. xs ! i"] that len by simp
  then have "filter (\<lambda>i. cell_at (rows ! i) H_FILE_PATH \<noteq> [] \<and> en_canonical env (cell_at (rows ! i) H_FILE_PATH) = key) [0..<length rows]
      = filter (\<lambda>i. cell_at (rows' ! i) H_FILE_PATH \<noteq> [] \<and> en_canonical env (cell_at (rows' ! i) H_FILE_PATH) = key) [0..<length rows]"
    by (intro filter_cong) auto
  then show ?thesis by (simp add: row_of_path_def len)
qed

lemma row_of_path_Some:
  assumes "row_of_path env rows key = Some i"
  shows "i < length rows" "cell_at (rows ! i) H_FILE_PATH \<noteq> []" "en_canonical env (cell_at (rows ! i) H_FILE_PATH) = key"
proof -
  let ?hits = "filter (\<lambda>i. cell_at (rows ! i) H_FILE_PATH \<noteq> [] \<and> en_canonical env (cell_at (rows ! i) H_FILE_PATH) = key) [0..<length rows]"
  have "?hits \<noteq> []" "i = last ?hits" using assms by (auto simp: row_of_path_def split: list.splits)
  then have "i \<in> set ?hits" using last_in_set by blast
  then show "i < length rows" "cell_at (rows ! i) H_FILE_PATH \<noteq> []" "en_canonical env (cell_at (rows ! i) H_FILE_PATH) = key" by auto
qed

lemma edited_fields_wf:
  "dict_wf (edited_fields x target)" "p \<in> set (edited_fields x target) \<Longrightarrow> fst p \<in> set EDITABLE_FIELDS \<and> strip (snd p) = snd p"
  using editable_distinct by (auto simp: edited_fields_def dict_wf_def comp_def)

lemma dget_edited_fields:
  "dget (edited_fields x target) h =
    (if h \<in> set EDITABLE_FIELDS \<and> strip (cell_at x h) \<noteq> strip (cell_at target h) then Some (strip (cell_at x h)) else None)"
  by (simp add: edited_fields_def dget_map_pairs)

lemma dget_dupdate_wf: "dict_wf e \<Longrightarrow> dget (dupdate d e) k = (case dget e k of None \<Rightarrow> dget d k | Some v \<Rightarrow> Some v)"
proof (induction e arbitrary: d)
  case (Cons p e)
  then have "dict_wf e" "dget e (fst p) = None" by (auto simp: dict_wf_def dget_None_iff)
  then show ?case using Cons.IH [of "dput (fst p) (snd p) d"] by (auto simp: dupdate_def dget_dput split: option.splits)
qed (simp add: dupdate_def)

lemma dupdate_wf: "dict_wf d \<Longrightarrow> dict_wf (dupdate d e)"
  by (induction e arbitrary: d) (auto simp: dupdate_def)

lemma set_dupdate: "p \<in> set (dupdate d e) \<Longrightarrow> p \<in> set d \<or> p \<in> set e"
proof (induction e arbitrary: d)
  case (Cons q e)
  then have "p \<in> set (dput (fst q) (snd q) d) \<or> p \<in> set e" by (auto simp: dupdate_def)
  then show ?case using set_dput [of p "fst q" "snd q" d] by auto
qed (simp add: dupdate_def)

lemma cell_at_dupdate: "dict_wf e \<Longrightarrow> cell_at (dupdate row e) h = (case dget e h of None \<Rightarrow> cell_at row h | Some v \<Rightarrow> v)"
  by (simp add: cell_at_def dget_dupdate_wf split: option.splits)

text \<open>What one row of the workbook does.\<close>

lemma scan_row_cases:
  obtains (skip) "scan_row env x st = st"
  | (edit) i edits where "row_of_path env (es_rows st) (en_canonical env (cell_at x H_FILE_PATH)) = Some i"
      "edits = edited_fields x (es_rows st ! i)" "edits \<noteq> []"
      "es_rows (scan_row env x st) = (es_rows st)[i := dput H_EDITED S_EDITED (dupdate (es_rows st ! i) edits)]"
      "es_overrides (scan_row env x st) = dput (en_canonical env (cell_at x H_FILE_PATH))
         (merged_override env (en_canonical env (cell_at x H_FILE_PATH)) edits (es_overrides st)) (es_overrides st)"
      "es_changed (scan_row env x st) = es_changed st + 1"
proof (cases "if en_canonical env (cell_at x H_FILE_PATH) = [] then None
    else row_of_path env (es_rows st) (en_canonical env (cell_at x H_FILE_PATH))")
  case None
  then show ?thesis by (intro skip) (simp add: scan_row_def)
next
  case (Some i)
  show ?thesis
  proof (cases "edited_fields x (es_rows st ! i) = []")
    case True
    with Some show ?thesis by (intro skip) (simp add: scan_row_def)
  next
    case False
    with Some show ?thesis by (intro edit [OF _ refl]) (auto simp: scan_row_def Let_def split: if_splits)
  qed
qed

lemma scan_row_paths: "path_cells (es_rows (scan_row env x st)) = path_cells (es_rows st)"
proof (cases rule: scan_row_cases [of env x st])
  case (edit i edits)
  have "dget edits H_FILE_PATH = None" using editable_other(1) edit(2) by (simp add: dget_edited_fields)
  then have "cell_at (dput H_EDITED S_EDITED (dupdate (es_rows st ! i) edits)) H_FILE_PATH = cell_at (es_rows st ! i) H_FILE_PATH"
    using editable_other(3) edit(2) by (simp add: cell_at_dput cell_at_dupdate edited_fields_wf)
  then have "(path_cells (es_rows st))[i := cell_at (dput H_EDITED S_EDITED (dupdate (es_rows st ! i) edits)) H_FILE_PATH]
      = path_cells (es_rows st)"
    using row_of_path_Some(1) [OF edit(1)] by (metis list_update_id nth_map)
  then show ?thesis by (simp add: edit(4) map_update)
qed simp

lemma scan_paths: "path_cells (es_rows (fold (scan_row env) xs st)) = path_cells (es_rows st)"
  by (induction xs arbitrary: st) (simp_all add: scan_row_paths)

lemma scan_row_other:
  assumes "en_canonical env (cell_at x H_FILE_PATH) \<noteq> k" and "row_of_path env (es_rows st) k = Some i"
  shows "es_rows (scan_row env x st) ! i = es_rows st ! i \<and> dget (es_overrides (scan_row env x st)) k = dget (es_overrides st) k"
proof (cases rule: scan_row_cases [of env x st])
  case (edit j edits)
  have "j \<noteq> i" using row_of_path_Some(3) [OF edit(1)] row_of_path_Some(3) [OF assms(2)] assms(1) by auto
  then show ?thesis using assms(1) by (simp add: edit(4,5) dget_dput)
qed simp

lemma scan_other:
  assumes "\<forall>x\<in>set xs. en_canonical env (cell_at x H_FILE_PATH) \<noteq> k" and "row_of_path env (es_rows st) k = Some i"
  shows "es_rows (fold (scan_row env) xs st) ! i = es_rows st ! i
    \<and> dget (es_overrides (fold (scan_row env) xs st)) k = dget (es_overrides st) k"
  using assms
proof (induction xs arbitrary: st)
  case (Cons x xs)
  have "row_of_path env (es_rows (scan_row env x st)) k = Some i"
    using Cons.prems(2) row_of_path_cong [OF scan_row_paths] by metis
  then show ?case using Cons scan_row_other [of env x k st i] by simp
qed simp

lemma scan_grows: "es_changed st \<le> es_changed (fold (scan_row env) xs st)"
proof (induction xs arbitrary: st)
  case (Cons x xs)
  have "es_changed st \<le> es_changed (scan_row env x st)" by (cases rule: scan_row_cases [of env x st]) simp_all
  then show ?case using Cons [of "scan_row env x st"] by simp
qed simp

lemma merged_override_wf:
  assumes "overrides_wf env items" and "en_canonical env k = k" and "edits = edited_fields x target" "edits \<noteq> []"
  shows "override_wf env k (merged_override env k edits items)"
proof -
  define old where "old = (case dget items k of None \<Rightarrow> [] | Some m \<Rightarrow> ov_fields m)"
  have old: "dict_wf old \<and> (\<forall>p\<in>set old. fst p \<in> set EDITABLE_FIELDS \<and> strip (snd p) = snd p)"
  proof (cases "dget items k")
    case (Some m)
    then have "override_wf env k m" using assms(1) dget_Some_in [OF Some] by (auto simp: overrides_wf_def)
    then show ?thesis using Some by (simp add: old_def override_wf_def)
  qed (simp add: old_def)
  have "dupdate old edits \<noteq> []"
  proof -
    have "dget edits (fst (hd edits)) \<noteq> None" using assms(4) by (auto simp: dget_None_iff)
    then have "dget (dupdate old edits) (fst (hd edits)) \<noteq> None"
      using assms(3) by (auto simp: dget_dupdate_wf edited_fields_wf)
    then show ?thesis by auto
  qed
  moreover have "fst p \<in> set EDITABLE_FIELDS \<and> strip (snd p) = snd p" if "p \<in> set (dupdate old edits)" for p
    using set_dupdate [OF that] old edited_fields_wf(2) assms(3) by blast
  ultimately show ?thesis
    using assms(2) old by (simp add: override_wf_def merged_override_def dupdate_wf flip: old_def)
qed

lemma scan_overrides_wf:
  assumes "\<And>t. en_canonical env (en_canonical env t) = en_canonical env t"
  shows "overrides_wf env (es_overrides st) \<Longrightarrow> overrides_wf env (es_overrides (fold (scan_row env) xs st))"
proof (induction xs arbitrary: st)
  case (Cons x xs)
  have "overrides_wf env (es_overrides (scan_row env x st))"
  proof (cases rule: scan_row_cases [of env x st])
    case (edit i edits)
    show ?thesis unfolding edit(5)
      by (rule overrides_wf_dput [OF Cons.prems merged_override_wf [OF Cons.prems assms edit(2,3)]])
  qed (simp add: Cons.prems)
  then show ?case using Cons.IH by simp
qed simp

lemma scan_finds_edit:
  assumes "row_of_path env (es_rows st) k = Some i" and "en_canonical env (cell_at x H_FILE_PATH) = k" and "k \<noteq> []"
    and "h \<in> set EDITABLE_FIELDS" and "strip (cell_at x h) \<noteq> strip (cell_at (es_rows st ! i) h)"
  shows "cell_at (es_rows (scan_row env x st) ! i) h = strip (cell_at x h)"
    "\<exists>m. dget (es_overrides (scan_row env x st)) k = Some m \<and> dget (ov_fields m) h = Some (strip (cell_at x h))"
    "es_changed (scan_row env x st) = es_changed st + 1"
proof -
  let ?edits = "edited_fields x (es_rows st ! i)"
  have hit: "dget ?edits h = Some (strip (cell_at x h))" using assms(4,5) by (simp add: dget_edited_fields)
  then have ne: "?edits \<noteq> []" by auto
  have step: "scan_row env x st = \<lparr>es_rows = (es_rows st)[i := dput H_EDITED S_EDITED (dupdate (es_rows st ! i) ?edits)],
      es_overrides = dput k (merged_override env k ?edits (es_overrides st)) (es_overrides st), es_changed = es_changed st + 1,
      es_log = es_log (scan_row env x st)\<rparr>"
    using assms(1-3) ne by (simp add: scan_row_def Let_def)
  show "cell_at (es_rows (scan_row env x st) ! i) h = strip (cell_at x h)"
    using hit assms(4) editable_other(2) row_of_path_Some(1) [OF assms(1)]
    by (subst step) (auto simp: cell_at_dput cell_at_dupdate edited_fields_wf)
  show "\<exists>m. dget (es_overrides (scan_row env x st)) k = Some m \<and> dget (ov_fields m) h = Some (strip (cell_at x h))"
    using hit by (subst step) (simp add: merged_override_def dget_dupdate_wf edited_fields_wf)
  show "es_changed (scan_row env x st) = es_changed st + 1" by (subst step) simp
qed

section \<open>An edit survives\<close>

text \<open>C5: A cell that the user edits in the workbook is never lost. If one row of the workbook names a file of the
  summary and its seller, amount or invoice number differs, the synchronization of the edits writes the new text
  into the summary and records it; and whenever the recorded edits are applied to a summary, whatever it was rebuilt
  from, every row of that file carries the text of the user. (Resolving a resolved path changes nothing; the
  recorded edits so far can be read.)\<close>

theorem manual_edits_survive:
  assumes canonical: "\<forall>t. en_canonical env (en_canonical env t) = en_canonical env t"
    and present: "mo_csv s \<noteq> None" "read_summary_xlsx_rows (mo_xlsx s) = Some (xs @ x # ys)" "mo_xlsx s \<noteq> NoBook"
    and readable: "load_manual_overrides env (mo_overrides s) = Inr items"
    and key: "en_canonical env (cell_at x H_FILE_PATH) = k" "k \<noteq> []" "row_of_path env (read_csv_rows (mo_csv s)) k = Some i"
    and once: "\<forall>y\<in>set (xs @ ys). en_canonical env (cell_at y H_FILE_PATH) \<noteq> k"
    and edit: "h \<in> set EDITABLE_FIELDS" "strip (cell_at x h) \<noteq> strip (cell_at (read_csv_rows (mo_csv s) ! i) h)"
  shows "\<exists>n s'. sync_excel_manual_edits env s = Inr (n, s') \<and> 0 < n
    \<and> cell_at (read_csv_rows (mo_csv s') ! i) h = strip (cell_at x h)
    \<and> (\<forall>env' t. en_canonical env' = en_canonical env \<and> mo_overrides t = mo_overrides s' \<longrightarrow>
         (\<exists>m t'. apply_manual_overrides_to_summary env' t = Inr (m, t')
           \<and> (\<forall>row\<in>set (read_csv_rows (mo_csv t')). en_canonical env (cell_at row H_FILE_PATH) = k \<longrightarrow> cell_at row h = strip (cell_at x h))))"
proof -
  define st0 where "st0 = \<lparr>es_rows = read_csv_rows (mo_csv s), es_overrides = items, es_changed = 0, es_log = []\<rparr>"
  define st1 where "st1 = fold (scan_row env) xs st0"
  define st2 where "st2 = scan_row env x st1"
  define scan where "scan = fold (scan_row env) ys st2"
  have scan_all: "fold (scan_row env) (xs @ x # ys) st0 = scan" by (simp add: scan_def st1_def st2_def)
  have at: "row_of_path env (es_rows st) k = Some i" if "path_cells (es_rows st) = path_cells (es_rows st0)" for st :: edit_scan
    using row_of_path_cong [OF that] key(3) by (simp add: st0_def)
  have p1: "path_cells (es_rows st1) = path_cells (es_rows st0)" unfolding st1_def by (rule scan_paths)
  have p2: "path_cells (es_rows st2) = path_cells (es_rows st0)" unfolding st2_def using p1 scan_row_paths by metis
  have p3: "path_cells (es_rows scan) = path_cells (es_rows st0)" unfolding scan_def using p2 scan_paths by metis
  have "es_rows st1 ! i = read_csv_rows (mo_csv s) ! i"
    using scan_other [of xs env k st0 i] once at [of st0] by (simp add: st1_def) (simp add: st0_def)
  with edit have "strip (cell_at x h) \<noteq> strip (cell_at (es_rows st1 ! i) h)" by simp
  note found = scan_finds_edit [OF at [OF p1] key(1,2) edit(1) this, folded st2_def]
  have later: "es_rows scan ! i = es_rows st2 ! i" "dget (es_overrides scan) k = dget (es_overrides st2) k"
    using scan_other [of ys env k st2 i] once at [OF p2] by (simp_all add: scan_def)
  have n: "0 < es_changed scan" using found(3) scan_grows [of st2 env ys] by (simp add: scan_def)
  obtain m where m: "dget (es_overrides scan) k = Some m" "dget (ov_fields m) h = Some (strip (cell_at x h))"
    using found(2) later(2) by auto
  have wf: "overrides_wf env (es_overrides scan)"
    unfolding scan_all [symmetric]
    by (rule scan_overrides_wf) (use canonical load_manual_overrides_wf [OF _ readable] in \<open>simp_all add: st0_def\<close>)
  obtain s' where sync: "sync_excel_manual_edits env s = Inr (es_changed scan, s')"
    and s': "mo_csv s' = write_csv_rows SUMMARY_HEADERS (es_rows scan)" "mo_overrides s' = save_manual_overrides env (es_overrides scan)"
    using present n readable scan_all
    by (simp add: sync_excel_manual_edits_def Let_def log_event_def write_both_def flip: st0_def)
  have i: "i < length (es_rows scan)" using row_of_path_Some(1) [OF at [OF p3]] .
  have "cell_at (read_csv_rows (mo_csv s') ! i) h = cell_at (es_rows scan ! i) h"
    using i edit(1) editable_headers(1) by (auto simp: s' read_csv_rows_def write_csv_rows_def cell_at_def dget_map_pairs)
  then have cell: "cell_at (read_csv_rows (mo_csv s') ! i) h = strip (cell_at x h)" using later(1) found(1) by simp
  have "\<exists>n t'. apply_manual_overrides_to_summary env' t = Inr (n, t')
      \<and> (\<forall>row\<in>set (read_csv_rows (mo_csv t')). en_canonical env (cell_at row H_FILE_PATH) = k \<longrightarrow> cell_at row h = strip (cell_at x h))"
    if same: "en_canonical env' = en_canonical env" "mo_overrides t = mo_overrides s'" for env' t
  proof -
    let ?items = "fold (\<lambda>p. dput (fst p) (reloaded (snd p))) (es_overrides scan) []"
    have load: "load_manual_overrides env' (mo_overrides t) = Inr ?items"
      unfolding same(2) s'(2) by (rule load_saved_overrides [OF wf same(1)])
    have in_items: "(k, m) \<in> set (es_overrides scan)" using m(1) by (rule dget_Some_in)
    have mk: "override_wf env k m" using wf in_items by (auto simp: overrides_wf_def)
    have "dget ?items k = Some (reloaded m)"
      using pd.get_fold_put_in [of fst "es_overrides scan" "(k, m)" "\<lambda>p. reloaded (snd p)" "[]"] wf in_items
      by (simp add: overrides_wf_def dict_wf_def)
    note cells = apply_override_cells [OF _ reloaded_fields(2,3) [OF mk] edit(1), unfolded reloaded_fields(1) [OF mk] m(2), simplified]
    obtain n t' where applied: "apply_manual_overrides_to_summary env' t = Inr (n, t')"
      using load by (simp add: apply_manual_overrides_to_summary_def Let_def)
    have "cell_at row h = strip (cell_at x h)"
      if row: "row \<in> set (read_csv_rows (mo_csv t'))" "en_canonical env (cell_at row H_FILE_PATH) = k" for row
    proof -
      obtain r where r: "\<forall>h\<in>set SUMMARY_HEADERS. cell_at row h = cell_at (fst (apply_override env' ?items r)) h"
        using applied_rows [OF load applied row(1)] by blast
      then have "cell_at row H_FILE_PATH = cell_at r H_FILE_PATH" using editable_headers(2) by simp
      with row(2) same(1) have "dget ?items (en_canonical env' (cell_at r H_FILE_PATH)) = Some (reloaded m)"
        using \<open>dget ?items k = Some (reloaded m)\<close> by simp
      then have "cell_at (fst (apply_override env' ?items r)) h = strip (cell_at x h)" by (rule cells)
      then show ?thesis using r edit(1) editable_headers(1) by auto
    qed
    then show ?thesis using applied by blast
  qed
  then show ?thesis using sync n cell by blast
qed

section \<open>A sample\<close>

definition sample_env :: "(source_file \<Rightarrow> exc + invoice_record) \<Rightarrow> source_file list \<Rightarrow> monitor_env" where
  "sample_env extract dir =
    \<lparr>en_profile = \<lparr>pf_target_id = ''t'', pf_watch_dir = ''w'', pf_workspace_dir = ''v'', pf_state_dir = ''s'', pf_log_path = ''l'', pf_interval = 60\<rparr>,
     en_now = ''now'', en_dir = dir, en_runtime_dir = (\<lambda>f. True), en_stat = (\<lambda>t. Some (7, 9)), en_canonical = (\<lambda>t. t),
     en_casefold = (\<lambda>t. t), en_extract = extract, en_suspicious = (\<lambda>t. False),
     en_analyze = (\<lambda>f m. Inl OSError), en_reread = (\<lambda>v. case v of VStr t \<Rightarrow> if t = [] \<or> hd t = CHR ''='' then VNone else v | _ \<Rightarrow> v),
     en_markup_rate = ''0.08'', en_torn = (\<lambda>c. c), en_torn_summary = (\<lambda>c. c), en_msg = (\<lambda>e. ''failed''), en_notified = [], en_notify_disabled = True,
     en_fails = (\<lambda>call s. None)\<rparr>"

definition edited_state :: monitor_state where
  "edited_state =
    \<lparr>mo_csv = Some (SUMMARY_HEADERS, [[(H_FILE_PATH, ''a.pdf''), (F_SELLER, ''x'')]]),
     mo_xlsx = Book [[VStr H_FILE_PATH, VStr F_SELLER], [VStr ''a.pdf'', VStr ''y'']],
     mo_processed = NoFile, mo_overrides = NoFile, mo_status = NoFile, mo_progress = NoFile,
     mo_cost = \<lparr>cf_detail = None, cf_book = NoCosts, cf_status = NoFile\<rparr>, mo_log = [], mo_events = [], mo_published = []\<rparr>"

lemma sample_columns: "F_SELLER \<noteq> H_FILE_PATH" "strip F_SELLER = F_SELLER" "strip H_FILE_PATH = H_FILE_PATH" "F_SELLER \<noteq> []" "H_FILE_PATH \<noteq> []"
  "strip ''a.pdf'' = ''a.pdf''" "strip ''x'' = ''x''" "strip ''y'' = ''y''"
  using headers_plain(1,2) [of F_SELLER] headers_plain(1,2) [of H_FILE_PATH]
  by (simp_all add: SUMMARY_HEADERS_def) (simp_all add: F_SELLER_def H_FILE_PATH_def strip_plain byte_def)

theorem manual_edits_survive_witness:
  "\<exists>n s'. sync_excel_manual_edits (sample_env (\<lambda>f. Inl OSError) []) edited_state = Inr (n, s') \<and> 0 < n
    \<and> cell_at (read_csv_rows (mo_csv s') ! 0) F_SELLER = ''y''"
proof -
  let ?env = "sample_env (\<lambda>f. Inl OSError) []"
  let ?x = "[(H_FILE_PATH, ''a.pdf''), (F_SELLER, ''y'')]"
  have rows: "read_summary_xlsx_rows (mo_xlsx edited_state) = Some ([] @ ?x # [])"
    using sample_columns by (simp add: edited_state_def read_summary_xlsx_rows_def header_cells_def sheet_row_def)
  have path: "row_of_path (sample_env (\<lambda>f. Inl OSError) []) (read_csv_rows (mo_csv edited_state)) ''a.pdf'' = Some 0"
    by (simp add: row_of_path_def read_csv_rows_def edited_state_def sample_env_def cell_at_def)
  have edit: "F_SELLER \<in> set EDITABLE_FIELDS" "strip (cell_at ?x F_SELLER) = ''y''" "cell_at ?x H_FILE_PATH = ''a.pdf''"
    "strip (cell_at (read_csv_rows (mo_csv edited_state) ! 0) F_SELLER) = ''x''"
    using sample_columns by (simp_all add: EDITABLE_FIELDS_def cell_at_def edited_state_def read_csv_rows_def)
  have load: "load_manual_overrides (sample_env (\<lambda>f. Inl OSError) []) (mo_overrides edited_state) = Inr []"
    by (simp add: load_manual_overrides_def edited_state_def status_file_payload_def get_val_def)
  have "\<forall>t. en_canonical ?env (en_canonical ?env t) = en_canonical ?env t" "en_canonical ?env (cell_at ?x H_FILE_PATH) = ''a.pdf''"
    using edit(3) by (simp_all add: sample_env_def)
  moreover have "mo_csv edited_state \<noteq> None" "mo_xlsx edited_state \<noteq> NoBook" by (simp_all add: edited_state_def)
  moreover have "strip (cell_at ?x F_SELLER) \<noteq> strip (cell_at (read_csv_rows (mo_csv edited_state) ! 0) F_SELLER)" using edit by simp
  ultimately obtain n s' where "sync_excel_manual_edits ?env edited_state = Inr (n, s')" "0 < n"
    "cell_at (read_csv_rows (mo_csv s') ! 0) F_SELLER = strip (cell_at ?x F_SELLER)"
    using manual_edits_survive [of ?env edited_state "[]" ?x "[]" "[]" "''a.pdf''" 0 F_SELLER] rows path edit(1) load
    by (metis append_Nil empty_iff list.set(1) list.distinct(1))
  then show ?thesis using edit(2) by auto
qed

end
