(* ===== verification/Monitor_Rounds.thy ===== *)
theory Monitor_Rounds
  imports Monitor_Sync Monitor_Edits
begin

text \<open>
  What a whole synchronization does to the files, to the progress and to the record of processed files. Each is a
  relation between the run before and after that every operation respects. \<open>quiet_relation\<close> carries a relation
  through the calls that only log, report the status or append an event; \<open>report_relation\<close> adds the
  publications of the progress, \<open>run_relation\<close> the writes of the tables. Interpreted on: nothing is published
  (\<open>silent\<close>), the files stay (\<open>same_files\<close>), the record of processed files stays (\<open>kept\<close>), and the
  snapshots of the progress climb (\<open>shown\<close>).
\<close>

section \<open>The files a run leaves behind\<close>

definition files_of :: "monitor_state \<Rightarrow> csv_file \<times> book_file \<times> store_file \<times> store_file \<times> cost_files" where
  "files_of s = (mo_csv s, mo_xlsx s, mo_processed s, mo_overrides s, mo_cost s)"

lemma files_of_eq:
  assumes "files_of s' = files_of s"
  shows "mo_csv s' = mo_csv s" "mo_xlsx s' = mo_xlsx s" "mo_processed s' = mo_processed s" "mo_overrides s' = mo_overrides s"
    "mo_cost s' = mo_cost s"
  using assms by (simp_all add: files_of_def)

definition unpublished :: "monitor_state \<Rightarrow> monitor_state \<Rightarrow> bool" where
  "unpublished s s' \<longleftrightarrow> mo_published s' = mo_published s \<and> mo_progress s' = mo_progress s"

definition quiet :: "(monitor_state \<Rightarrow> monitor_state) \<Rightarrow> bool" where
  "quiet f \<longleftrightarrow> (\<forall>s. files_of (f s) = files_of s \<and> unpublished s (f s))"

lemma quiet_steps [simp]:
  "quiet (log_event level action message)" "quiet (update_status env updates)" "quiet (notify_invoice_change env trigger counts)"
  "quiet (\<lambda>s. s\<lparr>mo_events := mo_events s @ es\<rparr>)"
  by (simp_all add: quiet_def unpublished_def files_of_def log_event_def update_status_def notify_invoice_change_def Let_def)

lemma if_three: "(if a then x else if b then y else z) \<in> {x, y, z}"
  by simp

lemma act_on_changes_cases:
  "\<exists>a b. act_on_changes env rq m changes r \<in> {nothing_to_do env rq (as_counts changes) m r,
     refresh_cost_schema env rq (as_counts changes) m r, rebuild_and_report env rq (as_counts changes) m a b r}"
  unfolding act_on_changes_def Let_def by (intro exI) (rule if_three)

section \<open>Relations that every call respects\<close>

locale quiet_relation =
  fixes rel :: "run \<Rightarrow> run \<Rightarrow> bool"
  assumes rel_refl: "rel r r"
    and rel_trans: "rel r r' \<Longrightarrow> rel r' r'' \<Longrightarrow> rel r r''"
    and rel_quiet: "files_of s = files_of (fst r) \<Longrightarrow> unpublished (fst r) s \<Longrightarrow> rel r (s, snd r)"
begin

lemma rel_on_state: "quiet f \<Longrightarrow> rel r (on_state f r)"
  by (rule rel_quiet) (simp_all add: quiet_def)

lemma rel_attempt: "quiet f \<Longrightarrow> rel r (snd (attempt_call env call f r))"
  by (simp add: attempt_call_def rel_on_state rel_refl split: option.split)

lemma rel_bind:
  assumes x: "rel r (snd x)" and k: "\<And>a r'. rel r' (snd (k a r'))"
  shows "rel r (snd (run_bind x k))"
proof -
  obtain a r' where p: "x = (a, r')" by (rule prod.exhaust)
  with x have r': "rel r r'" by simp
  show ?thesis using r' rel_trans [OF r' k] by (cases a) (simp_all add: p)
qed

lemma rel_except:
  assumes x: "rel r (snd x)" and h: "\<And>e r'. rel r' (snd (h e r'))"
  shows "rel r (snd (except x h))"
proof -
  obtain a r' where p: "x = (a, r')" by (rule prod.exhaust)
  with x have r': "rel r r'" by simp
  show ?thesis using r' rel_trans [OF r' h] by (cases a) (simp_all add: p)
qed

lemma rel_event: "rel r (snd (append_event env rq t p e r))"
  by (simp add: append_event_def rel_attempt rel_refl)

lemma rel_synced_edits: "rel r (snd (synced_edits env rq m r))"
  by (simp add: synced_edits_def rel_event rel_refl)

lemma rel_notified: "rel r (snd (notified env rq counts r))"
  by (simp add: notified_def rel_attempt rel_refl)

lemma rel_return: "rel r (snd (x, r))"
  by (simp add: rel_refl)

lemmas rel_calls = rel_event rel_synced_edits rel_notified rel_return

end

locale report_relation = quiet_relation +
  assumes rel_publish: "rel r (publish env u r)"
begin

lemma rel_report: "rel r (report env phase message percent r)" "rel r (report_fraction env phase message lo hi done all r)"
  "rel r (complete_progress env message r)" "rel r (fail_progress env message r)" "rel r (start_progress env r)"
  by (simp_all add: report_def report_fraction_def complete_progress_def fail_progress_def start_progress_def rel_publish)

lemma rel_fold: "(\<And>x r. rel r (f x r)) \<Longrightarrow> rel r (fold f xs r)"
proof (induction xs arbitrary: r)
  case (Cons x xs)
  show ?case using rel_trans [OF Cons.prems Cons.IH [OF Cons.prems]] by simp
qed (simp add: rel_refl)

lemma rel_steps: "rel r (progress_steps (report_fraction env phase message lo hi) done all r)"
  unfolding progress_steps_def by (rule rel_fold) (rule rel_report)

lemma rel_event_after: "(\<And>r. rel r (f r)) \<Longrightarrow> rel r (snd (append_event env rq t p e (f r)))"
  using rel_trans rel_event by blast

lemma rel_sync_failed: "rel r (snd (sync_failed env rq action e r))"
  unfolding sync_failed_def Let_def
  by (intro rel_bind rel_attempt rel_return rel_event_after rel_report quiet_steps)

lemma rel_nothing_to_do: "rel r (snd (nothing_to_do env rq counts m r))"
  unfolding nothing_to_do_def Let_def
  by (intro rel_bind rel_attempt rel_return rel_event_after rel_report quiet_steps)

lemma rel_completed: "rel r (snd (sync_completed env rq counts m a b result r))"
  unfolding sync_completed_def Let_def
  by (intro rel_bind rel_attempt rel_calls rel_event_after rel_report quiet_steps)

end

locale run_relation = report_relation +
  assumes rel_files: "mo_processed s = mo_processed (fst r) \<Longrightarrow> unpublished (fst r) s \<Longrightarrow> rel r (s, snd r)"
begin

lemma rel_extract_all:
  "(\<And>a b r. rel r (progress a b r)) \<Longrightarrow> rel r (snd (extract_all extract progress k n fs r))"
proof (induction fs arbitrary: k r)
  case (Cons f fs)
  have "rel r (snd (extract_all extract progress (k + 1) n fs (progress (k + 1) n r)))"
    by (rule rel_trans [OF Cons.prems Cons.IH]) (rule Cons.prems)
  then show ?case using rel_refl by (auto split: sum.splits prod.splits)
qed (simp add: rel_refl)

lemma rel_build_summary: "rel r (snd (build_summary extract suspicious reread (report_fraction env phase message lo hi) dir r))"
proof -
  let ?fs = "supported_invoice_files dir"
  let ?p = "report_fraction env phase message lo hi"
  have "snd (build_summary extract suspicious reread ?p dir r) = snd (extract_all extract ?p 0 (length ?fs) ?fs (?p 0 (length ?fs) r))"
    by (auto simp: build_summary_def Let_def split: sum.splits prod.splits)
  then show ?thesis
    using rel_trans [OF rel_report(2) rel_extract_all [OF rel_report(2)]] by simp
qed

lemma rel_write_summary: "rel r (snd (write_summary env files r))"
  by (simp add: write_summary_def Let_def rel_files unpublished_def split: option.split)

lemma rel_apply_edits: "rel r (snd (apply_edits env r))"
proof (cases "apply_manual_overrides_to_summary env (fst r)")
  case (Inr out)
  obtain n s where out: "out = (n, s)" by (rule prod.exhaust)
  have "rel r (s, snd r)"
    using Inr unfolding out
    by (intro rel_files) (auto simp: apply_manual_overrides_to_summary_def res_bind_eq_Inr Let_def log_event_def write_both_def
        unpublished_def split: if_splits)
  then show ?thesis by (simp add: apply_edits_def Inr out)
qed (simp add: apply_edits_def rel_refl)

lemma rel_take_over_edits: "rel r (snd (take_over_edits env r))"
proof (cases "sync_excel_manual_edits env (fst r)")
  case (Inr out)
  obtain n s where out: "out = (n, s)" by (rule prod.exhaust)
  have "rel r (s, snd r)"
    using Inr unfolding out
    by (intro rel_files) (auto simp: sync_excel_manual_edits_def res_bind_eq_Inr Let_def log_event_def write_both_def
        unpublished_def split: if_splits option.splits)
  then show ?thesis by (simp add: take_over_edits_def Inr out)
qed (simp add: take_over_edits_def rel_refl)

lemma rel_cost: "rel r ((fst r)\<lparr>mo_cost := c\<rparr>, snd r)"
  by (rule rel_files) (simp_all add: unpublished_def)

lemma rel_rebuild_costs: "rel r (snd (rebuild_costs env (report_fraction env phase message lo hi) r))"
proof -
  let ?told = "costs_told env (report_fraction env phase message lo hi) r"
  have told: "rel r ?told" by (simp add: costs_told_def split_beta Let_def rel_refl rel_steps)
  have "\<exists>c. snd (rebuild_costs env (report_fraction env phase message lo hi) r) = ((fst ?told)\<lparr>mo_cost := c\<rparr>, snd ?told)"
    by (auto simp: rebuild_costs_def Let_def split: sum.split)
  then obtain c where "snd (rebuild_costs env (report_fraction env phase message lo hi) r) = ((fst ?told)\<lparr>mo_cost := c\<rparr>, snd ?told)" ..
  then show ?thesis using rel_trans [OF told rel_cost] by simp
qed

lemma rel_rebuild_tables: "rel r (snd (rebuild_tables env r))"
proof -
  have build: "rel r (snd (build_summary a b c (report_fraction env p m l h) d (report env p' m' n r)))" for a b c d p m l h p' m' n r
    by (rule rel_trans [OF rel_report(1) rel_build_summary])
  have edits: "rel r (snd (apply_edits env (report env p m n r)))" for p m n r
    by (rule rel_trans [OF rel_report(1) rel_apply_edits])
  have costs: "rel r (snd (rebuild_costs env (report_fraction env p m l h) (report env p' m' n r)))" for p m l h p' m' n r
    by (rule rel_trans [OF rel_report(1) rel_rebuild_costs])
  have final: "rel r (snd (x, progress_steps (report_fraction env p m l h) i j (report env p' m' n r)))" for x p m l h i j p' m' n r
    unfolding snd_conv by (rule rel_trans [OF rel_report(1) rel_steps])
  show ?thesis
    unfolding rebuild_tables_def Let_def by (intro rel_bind build rel_write_summary edits costs final)
qed

lemma rel_schema_refreshed: "rel r (snd (schema_refreshed env rq counts m r))"
proof (cases "refresh_schema_from_current_detail (en_casefold env) (en_reread env) (en_markup_rate env) (mo_cost (fst r))")
  case (Inl e)
  then show ?thesis by (simp add: schema_refreshed_def rel_cost)
next
  case (Inr out)
  obtain b c where out: "out = (b, c)" by (rule prod.exhaust)
  have "rel (on_state (\<lambda>s. s\<lparr>mo_cost := c\<rparr>) r) (snd (schema_refreshed env rq counts m r))"
    unfolding schema_refreshed_def Inr out sum.case prod.case Let_def
    by (intro rel_bind rel_attempt rel_calls rel_event_after rel_report quiet_steps)
  then show ?thesis by (rule rel_trans [OF rel_cost])
qed

lemma rel_refresh: "rel r (snd (refresh_cost_schema env rq counts m r))"
proof -
  have refreshed: "rel r (snd (schema_refreshed env rq counts m (report env p t n r)))" for p t n r
    by (rule rel_trans [OF rel_report(1) rel_schema_refreshed])
  show ?thesis
    unfolding refresh_cost_schema_def
    by (intro rel_bind rel_attempt rel_except refreshed rel_sync_failed quiet_steps)
qed

end

section \<open>Nothing is published, and the files stay\<close>

definition silent :: "run \<Rightarrow> run \<Rightarrow> bool" where
  "silent r r' \<longleftrightarrow> mo_published (fst r') = mo_published (fst r)"

interpretation silent: quiet_relation silent
  by unfold_locales (simp_all add: silent_def unpublished_def)

definition same_files :: "run \<Rightarrow> run \<Rightarrow> bool" where
  "same_files r r' \<longleftrightarrow> files_of (fst r') = files_of (fst r)"

lemma files_of_publish [simp]: "files_of (fst (publish env u r)) = files_of (fst r)"
  by (simp add: files_of_def publish_def Let_def)

interpretation same_files: report_relation same_files
  by unfold_locales (simp_all add: same_files_def)

section \<open>The snapshots of the progress\<close>

definition snapshot_percent :: "vdict \<times> bool \<Rightarrow> int" where
  "snapshot_percent x = count_at (fst x) ''percent''"

definition snapshot_ok :: "vdict \<times> bool \<Rightarrow> bool" where
  "snapshot_ok x \<longleftrightarrow> 0 \<le> count_at (fst x) ''percent'' \<and> count_at (fst x) ''percent'' \<le> 100
     \<and> 0 \<le> count_at (fst x) ''processed_count''
     \<and> (count_at (fst x) ''total_count'' = 0 \<or> count_at (fst x) ''processed_count'' \<le> count_at (fst x) ''total_count'')"

definition progress_ok :: "sync_progress \<Rightarrow> bool" where
  "progress_ok p \<longleftrightarrow> 0 \<le> sp_percent p \<and> sp_percent p \<le> 100 \<and> 0 \<le> sp_processed_count p \<and> 0 \<le> sp_total_count p
     \<and> (sp_total_count p = 0 \<or> sp_processed_count p \<le> sp_total_count p)"

lemma published_ok: "progress_ok p \<Longrightarrow> progress_ok (published u p)"
  by (auto simp: progress_ok_def published_def counted_def Let_def split: option.splits)

lemma published_grows: "sp_percent p \<le> sp_percent (published u p)"
  by (simp add: published_def Let_def)

lemma payload_counts [simp]:
  "count_at (progress_payload env u p) ''percent'' = sp_percent p"
  "count_at (progress_payload env u p) ''processed_count'' = sp_processed_count p"
  "count_at (progress_payload env u p) ''total_count'' = sp_total_count p"
  "get_val (progress_payload env u p) ''status'' = VStr (pu_status u)"
  by (simp_all add: count_at_def get_val_def progress_payload_def)

text \<open>The progress file after the snapshots \<open>xs\<close>: the last one that could be written.\<close>

definition written_progress :: "(vdict \<times> bool) list \<Rightarrow> store_file \<Rightarrow> store_file" where
  "written_progress xs f = fold (\<lambda>x f. if snd x then plain_json_file (fst x) else f) xs f"

definition climbs :: "sync_progress \<Rightarrow> (vdict \<times> bool) list \<Rightarrow> sync_progress \<Rightarrow> bool" where
  "climbs p xs q \<longleftrightarrow> sp_percent p \<le> sp_percent q \<and> sorted (map snapshot_percent xs)
     \<and> (\<forall>x\<in>set xs. sp_percent p \<le> snapshot_percent x \<and> snapshot_percent x \<le> sp_percent q)
     \<and> (progress_ok p \<longrightarrow> progress_ok q \<and> (\<forall>x\<in>set xs. snapshot_ok x))"

definition shown :: "run \<Rightarrow> run \<Rightarrow> bool" where
  "shown r r' \<longleftrightarrow> (\<exists>xs. mo_published (fst r') = mo_published (fst r) @ xs
     \<and> mo_progress (fst r') = written_progress xs (mo_progress (fst r)) \<and> climbs (snd r) xs (snd r'))"

lemma shown_unpublished:
  assumes "unpublished (fst r) s" shows "shown r (s, snd r)"
  using assms unfolding shown_def unpublished_def by (intro exI [of _ "[]"]) (simp add: climbs_def written_progress_def)

lemma climbs_trans: "climbs p xs q \<Longrightarrow> climbs q ys o' \<Longrightarrow> climbs p (xs @ ys) o'"
  unfolding climbs_def by (auto simp: sorted_append intro: order_trans)

lemma shown_trans:
  assumes "shown r r'" and "shown r' r''"
  shows "shown r r''"
proof -
  obtain xs where xs: "mo_published (fst r') = mo_published (fst r) @ xs" "mo_progress (fst r') = written_progress xs (mo_progress (fst r))"
    "climbs (snd r) xs (snd r')" using assms(1) unfolding shown_def by blast
  obtain ys where ys: "mo_published (fst r'') = mo_published (fst r') @ ys" "mo_progress (fst r'') = written_progress ys (mo_progress (fst r'))"
    "climbs (snd r') ys (snd r'')" using assms(2) unfolding shown_def by blast
  show ?thesis unfolding shown_def
    using xs(1,2) ys(1,2) climbs_trans [OF xs(3) ys(3)] by (intro exI [of _ "xs @ ys"]) (simp add: written_progress_def)
qed

lemma publish_shows:
  "\<exists>x. mo_published (fst (publish env u r)) = mo_published (fst r) @ [x] \<and> snapshot_percent x = sp_percent (snd (publish env u r))
     \<and> get_val (fst x) ''status'' = VStr (pu_status u)
     \<and> mo_progress (fst (publish env u r)) = written_progress [x] (mo_progress (fst r)) \<and> climbs (snd r) [x] (snd (publish env u r))"
  using published_ok [of "snd r" u] published_grows [of "snd r" u]
  by (simp add: publish_def Let_def climbs_def snapshot_percent_def snapshot_ok_def written_progress_def progress_ok_def)

lemma shown_publish: "shown r (publish env u r)"
  using publish_shows unfolding shown_def by blast

interpretation shown: run_relation shown
proof
  show "shown r r" for r using shown_unpublished [of r "fst r"] by (simp add: unpublished_def)
qed (use shown_trans shown_publish shown_unpublished in blast)+

lemma shown_detect: "shown r (snd (detect_with_progress env r))"
proof -
  have "unpublished (fst r) (snd (detect_source_changes env (fst r)))"
    by (auto simp: detect_source_changes_def load_processed_def save_processed_def log_event_def unpublished_def split_beta Let_def
        split: store_file.splits option.splits pyval.splits)
  then show ?thesis
    unfolding detect_with_progress_def split_beta Let_def snd_conv
    by (intro shown_trans [OF shown_unpublished shown.rel_steps])
qed

lemma shown_record: "shown r (snd (record_processed env r))"
  using shown.rel_refl by (auto simp: record_processed_def attempt_call_def save_processed_def unpublished_def
      intro!: shown_unpublished [of r for r, simplified] split: option.split)

lemma shown_rebuild_all: "shown r (snd (rebuild_all env r))"
  unfolding rebuild_all_def by (intro shown.rel_bind shown.rel_rebuild_tables shown_record shown.rel_return)

lemma shown_act: "shown r (snd (act_on_changes env rq m changes r))"
proof -
  have "shown r (snd (rebuild_and_report env rq counts m a b r))" for counts a b
    unfolding rebuild_and_report_def
    by (intro shown.rel_bind shown.rel_attempt shown.rel_except shown_rebuild_all shown.rel_completed shown.rel_sync_failed quiet_steps)
  then show ?thesis
    using shown.rel_nothing_to_do [where r = r and env = env and rq = rq and counts = "as_counts changes" and m = m]
      shown.rel_refresh [where r = r and env = env and rq = rq and counts = "as_counts changes" and m = m] act_on_changes_cases [of env rq m changes r] by auto
qed

lemma shown_locked: "shown r (snd (run_sync_locked env rq r))"
proof -
  have edits: "shown r (snd (take_over_edits env (report env p t n r)))" for p t n r
    by (rule shown_trans [OF shown.rel_report(1) shown.rel_take_over_edits])
  have detect: "shown r (snd (detect_with_progress env (report env p t n r)))" for p t n r
    by (rule shown_trans [OF shown.rel_report(1) shown_detect])
  show ?thesis
    unfolding run_sync_locked_def by (intro shown.rel_bind shown.rel_attempt edits detect shown_act quiet_steps)
qed

lemma shown_fold: "shown r (fold (publish env) us r)"
  by (rule shown.rel_fold) (rule shown_publish)

lemma fold_publish_length: "length (mo_published (fst (fold (publish env) us r))) = length (mo_published (fst r)) + length us"
proof (induction us arbitrary: r)
  case (Cons u us)
  then show ?case by (simp add: publish_def Let_def)
qed simp

section \<open>The last snapshot\<close>

definition failed :: "exc + vdict \<Rightarrow> bool" where
  "failed result \<longleftrightarrow> (case result of Inl e \<Rightarrow> True | Inr payload \<Rightarrow> get_val payload ''ok'' \<noteq> VBool True)"

definition ends_with :: "publication \<Rightarrow> run \<Rightarrow> bool" where
  "ends_with u r \<longleftrightarrow> (\<exists>env r1. mo_published (fst r) = mo_published (fst (publish env u r1)))"

lemma ends_silent: "silent (publish env u r1) r \<Longrightarrow> ends_with u r"
  unfolding silent_def ends_with_def by blast

text \<open>The outcome of a part of the run that ends it: a failure was published as such, a success as complete.\<close>

definition told_outcome :: "vdict outcome \<Rightarrow> bool" where
  "told_outcome x \<longleftrightarrow> (\<forall>payload. fst x = Inr payload \<longrightarrow>
     (\<exists>u. ends_with u (snd x) \<and> pu_status u = (if failed (Inr payload) then ''failed'' else ''success'')
        \<and> (\<not> failed (Inr payload) \<longrightarrow> pu_percent u = 100)))"

lemma told_raise [simp]: "told_outcome (Inl e, r)"
  by (simp add: told_outcome_def)

lemma told_attempt: "(\<And>r'. told_outcome (k () r')) \<Longrightarrow> told_outcome (run_bind (attempt_call env call f r) k)"
  by (simp add: attempt_call_def split: option.split)

lemma told_bind: "(\<And>a r'. told_outcome (k a r')) \<Longrightarrow> told_outcome (run_bind x k)"
  by (cases x; cases "fst x") auto

lemma told_except: "told_outcome x \<Longrightarrow> (\<And>e r. told_outcome (h e r)) \<Longrightarrow> told_outcome (except x h)"
  by (cases x; cases "fst x") auto

lemma told_end:
  assumes "silent (publish env u r1) (snd x)" and "fst x = Inr payload \<or> isl (fst x)"
    and "pu_status u = (if failed (Inr payload) then ''failed'' else ''success'')" and "\<not> failed (Inr payload) \<Longrightarrow> pu_percent u = 100"
  shows "told_outcome x"
  using assms ends_silent [OF assms(1)] by (cases "fst x") (auto simp: told_outcome_def)

lemma bind_result: "(\<And>a r'. fst (k a r') = Inr y \<or> isl (fst (k a r'))) \<Longrightarrow> fst (run_bind x k) = Inr y \<or> isl (fst (run_bind x k))"
  by (cases x; cases "fst x") auto

lemma get_val_first [simp]: "get_val ((k, v) # d) k = v"
  by (simp add: get_val_def)

lemma told_sync_failed: "told_outcome (sync_failed env rq action e r)"
proof -
  have "told_outcome (run_bind (append_event env rq t p x (fail_progress env msg r')) (\<lambda>_ r3. (Inr [(''ok'', VBool False), q, q'], r3)))"
    for t p x msg r' q q'
    unfolding fail_progress_def
    by (rule told_end [where payload = "[(''ok'', VBool False), q, q']"], rule silent.rel_bind, rule silent.rel_event, rule silent.rel_return, rule bind_result)
      (simp_all add: failed_def)
  then show ?thesis
    unfolding sync_failed_def Let_def trigger_field_def by (intro told_attempt)
qed

lemma told_completed_end:
  assumes "silent (complete_progress env msg r1) (snd x)" and "fst x = Inr ((''ok'', VBool True) # d) \<or> isl (fst x)"
  shows "told_outcome x"
  using assms(1) unfolding complete_progress_def
  by (rule told_end [OF _ assms(2)]) (simp_all add: failed_def)

lemma told_nothing_to_do: "told_outcome (nothing_to_do env rq counts m r)"
  unfolding nothing_to_do_def Let_def
  by (intro told_attempt, rule told_completed_end, rule silent.rel_bind, rule silent.rel_event, rule silent.rel_return,
      rule bind_result) simp

lemma told_completed: "told_outcome (sync_completed env rq counts m a b result r)"
  unfolding sync_completed_def Let_def
  by (intro told_attempt, rule told_completed_end)
    ((rule silent.rel_bind silent.rel_event silent.rel_synced_edits silent.rel_notified silent.rel_return)+, (rule bind_result)+, simp)

lemma told_refresh: "told_outcome (refresh_cost_schema env rq counts m r)"
proof -
  have "told_outcome (schema_refreshed env rq counts m r)" for r
  proof (cases "refresh_schema_from_current_detail (en_casefold env) (en_reread env) (en_markup_rate env) (mo_cost (fst r))")
    case (Inr out)
    obtain b c where out: "out = (b, c)" by (rule prod.exhaust)
    show ?thesis
      unfolding schema_refreshed_def Inr out sum.case prod.case Let_def
      by (intro told_attempt, rule told_completed_end, rule silent.rel_bind, rule silent.rel_event, rule silent.rel_bind,
          rule silent.rel_event, rule silent.rel_return, rule bind_result, rule bind_result) simp
  qed (simp add: schema_refreshed_def)
  then show ?thesis
    unfolding refresh_cost_schema_def by (intro told_attempt told_except told_sync_failed)
qed

lemma told_act: "told_outcome (act_on_changes env rq m changes r)"
proof -
  have "told_outcome (rebuild_and_report env rq counts m a b r)" for counts a b
    unfolding rebuild_and_report_def by (intro told_attempt told_except told_bind told_completed told_sync_failed)
  then show ?thesis
    using told_nothing_to_do [of env rq "as_counts changes" m r] told_refresh [of env rq "as_counts changes" m r]
      act_on_changes_cases [of env rq m changes r] by auto
qed

lemma told_locked: "told_outcome (run_sync_locked env rq r)"
  unfolding run_sync_locked_def by (intro told_attempt told_bind told_act)

lemma ends_last:
  assumes "ends_with u r"
  shows "mo_published (fst r) \<noteq> [] \<and> get_val (fst (last (mo_published (fst r)))) ''status'' = VStr (pu_status u)
    \<and> min 100 (pu_percent u) \<le> snapshot_percent (last (mo_published (fst r)))"
proof -
  obtain env r1 where r: "mo_published (fst r) = mo_published (fst (publish env u r1))" using assms by (auto simp: ends_with_def)
  obtain x where "mo_published (fst (publish env u r1)) = mo_published (fst r1) @ [x]" "snapshot_percent x = sp_percent (snd (publish env u r1))"
    "get_val (fst x) ''status'' = VStr (pu_status u)"
    using publish_shows [of env u r1] by blast
  moreover have "min 100 (pu_percent u) \<le> sp_percent (snd (publish env u r1))" by (simp add: publish_def published_def Let_def)
  ultimately show ?thesis by (simp add: r)
qed

text \<open>C40: The progress shown during a synchronization never moves backwards. Whatever is asked of a \<open>SyncProgress\<close>,
  the percentages of the snapshots it publishes never fall below one another or below where it stood. A
  synchronization publishes a nonempty sequence of them; each percentage lies between 0 and 100 and no phase shows
  more files done than it has; the progress file holds the last snapshot that could be written; the last says
  failed exactly if the synchronization failed, and otherwise success, at 100 percent.\<close>

theorem progress_never_goes_back:
  assumes "run_sync env rq s = (result, s')"
  shows "(\<forall>us t p. \<exists>xs. mo_published (fst (fold (publish env) us (t, p))) = mo_published t @ xs \<and> length xs = length us
       \<and> sorted (sp_percent p # map (\<lambda>x. count_at (fst x) ''percent'') xs))
    \<and> (\<exists>xs. mo_published s' = mo_published s @ xs \<and> xs \<noteq> [] \<and> sorted (map (\<lambda>x. count_at (fst x) ''percent'') xs)
       \<and> (\<forall>x\<in>set xs. 0 \<le> count_at (fst x) ''percent'' \<and> count_at (fst x) ''percent'' \<le> 100
            \<and> (count_at (fst x) ''total_count'' = 0 \<or> count_at (fst x) ''processed_count'' \<le> count_at (fst x) ''total_count''))
       \<and> mo_progress s' = fold (\<lambda>x f. if snd x then plain_json_file (fst x) else f) xs (mo_progress s)
       \<and> get_val (fst (last xs)) ''status'' = VStr (if failed result then ''failed'' else ''success'')
       \<and> (\<not> failed result \<longrightarrow> count_at (fst (last xs)) ''percent'' = 100))"
proof
  show "\<forall>us t p. \<exists>xs. mo_published (fst (fold (publish env) us (t, p))) = mo_published t @ xs \<and> length xs = length us
       \<and> sorted (sp_percent p # map (\<lambda>x. count_at (fst x) ''percent'') xs)"
  proof (intro allI)
    fix us t p
    obtain xs where "mo_published (fst (fold (publish env) us (t, p))) = mo_published t @ xs" "climbs p xs (snd (fold (publish env) us (t, p)))"
      using shown_fold [of "(t, p)" env us] by (auto simp: shown_def)
    then show "\<exists>xs. mo_published (fst (fold (publish env) us (t, p))) = mo_published t @ xs \<and> length xs = length us
       \<and> sorted (sp_percent p # map (\<lambda>x. count_at (fst x) ''percent'') xs)"
      using fold_publish_length [of env us "(t, p)"] by (intro exI [of _ xs]) (simp add: climbs_def snapshot_percent_def [abs_def])
  qed
next
  let ?p = "new_sync_progress env (rq_trigger rq) (rq_task_id rq) (rq_operation_id rq)"
  define r0 where "r0 = start_progress env (s, ?p)"
  obtain res r where locked: "run_sync_locked env rq r0 = (res, r)" by (rule prod.exhaust)
  define r' where "r' = (case res of Inl e \<Rightarrow> fail_progress env (en_msg env e) r | Inr payload \<Rightarrow> r)"
  have out: "result = res" "s' = fst r'"
  proof -
    have "run_sync env rq s = (res, fst r')" unfolding run_sync_def r0_def [symmetric] locked by (cases res) (simp_all add: r'_def)
    then show "result = res" "s' = fst r'" using assms by simp_all
  qed
  have r: "shown (s, ?p) r" using shown_trans [OF shown.rel_report(5) shown_locked] locked unfolding r0_def by (metis snd_conv)
  have "shown (s, ?p) r'" using shown_trans [OF r shown.rel_report(4)] r by (simp add: r'_def split: sum.split)
  then obtain xs where xs: "mo_published s' = mo_published s @ xs" "mo_progress s' = written_progress xs (mo_progress s)" "climbs ?p xs (snd r')"
    by (auto simp: shown_def out)
  obtain u where u: "ends_with u r'" "pu_status u = (if failed result then ''failed'' else ''success'')" "\<not> failed result \<Longrightarrow> pu_percent u = 100"
  proof (cases res)
    case (Inl e)
    obtain v where v: "r' = publish env v r" "pu_status v = ''failed''" by (simp add: r'_def Inl fail_progress_def)
    then have "ends_with v r'" using ends_silent [OF silent.rel_refl] by simp
    then show ?thesis using that Inl out v(2) by (simp add: failed_def)
  next
    case (Inr payload)
    then show ?thesis using told_locked [of env rq r0] that by (auto simp: told_outcome_def locked out r'_def)
  qed
  have start: "progress_ok ?p" by (simp add: progress_ok_def new_sync_progress_def)
  have ne: "xs \<noteq> []"
  proof -
    obtain ys where "mo_published (fst r0) = mo_published s @ ys" "ys \<noteq> []"
      using publish_shows unfolding r0_def start_progress_def report_def by (metis fst_conv list.distinct(1))
    moreover obtain zs where "mo_published (fst r') = mo_published (fst r0) @ zs"
      using shown_locked [of r0 env rq] shown_trans [OF _ shown.rel_report(4)] unfolding locked snd_conv
      by (cases res) (simp add: r'_def shown_def, blast)+
    ultimately show ?thesis using xs(1) out(2) by auto
  qed
  then have last: "last (mo_published (fst r')) = last xs" using xs(1) out(2) by simp
  have ok: "\<forall>x\<in>set xs. snapshot_ok x" and mono: "sorted (map snapshot_percent xs)" using xs(3) start by (simp_all add: climbs_def)
  have "count_at (fst (last xs)) ''percent'' = 100" if "\<not> failed result"
  proof -
    have "snapshot_ok (last xs)" using ok ne by simp
    then show ?thesis using ends_last [OF u(1)] u(3) [OF that] by (simp add: last snapshot_ok_def snapshot_percent_def)
  qed
  then show "\<exists>xs. mo_published s' = mo_published s @ xs \<and> xs \<noteq> [] \<and> sorted (map (\<lambda>x. count_at (fst x) ''percent'') xs)
       \<and> (\<forall>x\<in>set xs. 0 \<le> count_at (fst x) ''percent'' \<and> count_at (fst x) ''percent'' \<le> 100
            \<and> (count_at (fst x) ''total_count'' = 0 \<or> count_at (fst x) ''processed_count'' \<le> count_at (fst x) ''total_count''))
       \<and> mo_progress s' = fold (\<lambda>x f. if snd x then plain_json_file (fst x) else f) xs (mo_progress s)
       \<and> get_val (fst (last xs)) ''status'' = VStr (if failed result then ''failed'' else ''success'')
       \<and> (\<not> failed result \<longrightarrow> count_at (fst (last xs)) ''percent'' = 100)"
    using xs ne ok mono ends_last [OF u(1)] u(2) unfolding last
    by (intro exI [of _ xs]) (simp add: written_progress_def snapshot_ok_def snapshot_percent_def [abs_def])
qed

section \<open>The record of processed files\<close>

interpretation kept: run_relation "\<lambda>r r'. mo_processed (fst r') = mo_processed (fst r)"
  by unfold_locales (simp_all add: publish_def files_of_def Let_def)

definition readable :: "monitor_state \<Rightarrow> bool" where
  "readable s \<longleftrightarrow> (\<forall>b. mo_processed s \<noteq> File b None)"

lemma load_readable:
  assumes "readable s" shows "snd (load_processed env s) = s"
  using assms by (auto simp: load_processed_def readable_def split: store_file.splits option.splits pyval.splits)

lemma load_same:
  assumes "readable s" "mo_processed s' = mo_processed s"
  shows "fst (load_processed env s') = fst (load_processed env s)"
  using assms by (auto simp: load_processed_def readable_def split: store_file.splits option.splits pyval.splits)

lemma detect_same:
  assumes "readable s" "mo_processed s' = mo_processed s"
  shows "fst (detect_source_changes env s') = fst (detect_source_changes env s)"
  using load_same [OF assms] by (simp add: detect_source_changes_def split_beta)

lemma kept_detect:
  assumes "readable (fst r)"
  shows "mo_processed (fst (snd (detect_with_progress env r))) = mo_processed (fst r)"
  using load_readable [OF assms] kept.rel_steps [where r = "(fst r, snd r)"]
  by (simp add: detect_with_progress_def detect_source_changes_def split_beta Let_def)

text \<open>A run that kept the record, or one that recorded after a rebuild of all tables and changed no file since.\<close>

definition rebuilt_last :: "monitor_env \<Rightarrow> run \<Rightarrow> bool" where
  "rebuilt_last env r' \<longleftrightarrow> (\<exists>r0 counts r1. rebuild_all env r0 = (Inr counts, r1) \<and> files_of (fst r') = files_of (fst r1))"

definition kept_or_rebuilt :: "monitor_env \<Rightarrow> run \<Rightarrow> vdict outcome \<Rightarrow> bool" where
  "kept_or_rebuilt env r x \<longleftrightarrow> mo_processed (fst (snd x)) = mo_processed (fst r) \<or> rebuilt_last env (snd x)"

lemma rebuild_all_kept:
  assumes "rebuild_all env r = (Inl e, r')"
  shows "mo_processed (fst r') = mo_processed (fst r)"
proof -
  obtain result r1 where t: "rebuild_tables env r = (result, r1)" by (rule prod.exhaust)
  have "mo_processed (fst r1) = mo_processed (fst r)" using kept.rel_rebuild_tables [of env r] by (simp add: t)
  then show ?thesis using assms
    by (cases result) (auto simp: rebuild_all_def t record_processed_def attempt_call_def split: option.splits)
qed

lemma rebuild_and_report_outcome: "kept_or_rebuilt env r (rebuild_and_report env rq counts m a b r)"
proof (cases "en_fails env ''log'' (fst r)")
  case None
  define r0 where "r0 = on_state (log_event ''INFO'' (sync_action (rq_trigger rq)) (counts_text counts (rq_force rq))) r"
  have r0: "mo_processed (fst r0) = mo_processed (fst r)" by (simp add: r0_def log_event_def)
  have report: "rebuild_and_report env rq counts m a b r
      = except (run_bind (rebuild_all env r0) (sync_completed env rq counts m a b)) (sync_failed env rq ''SYNC_FAILED'')"
    unfolding rebuild_and_report_def attempt_call_def None r0_def by simp
  obtain result r1 where rebuilt: "rebuild_all env r0 = (result, r1)" by (rule prod.exhaust)
  show ?thesis
  proof (cases result)
    case (Inl e)
    then show ?thesis using rebuild_all_kept [of env r0 e r1] rebuilt r0 kept.rel_sync_failed [where r = r1 and env = env and rq = rq and action = "''SYNC_FAILED''" and e = e]
      by (simp add: kept_or_rebuilt_def report)
  next
    case (Inr x)
    have "same_files r1 (snd (except (sync_completed env rq counts m a b x r1) (sync_failed env rq ''SYNC_FAILED'')))"
      by (intro same_files.rel_except same_files.rel_completed same_files.rel_sync_failed)
    then have "rebuilt_last env (snd (rebuild_and_report env rq counts m a b r))"
      unfolding rebuilt_last_def report rebuilt Inr run_bind_simps same_files_def using rebuilt Inr
      by (intro exI [of _ r0] exI [of _ x] exI [of _ r1]) simp
    then show ?thesis by (simp add: kept_or_rebuilt_def)
  qed
qed (simp add: rebuild_and_report_def attempt_call_def kept_or_rebuilt_def)

lemma act_outcome: "kept_or_rebuilt env r (act_on_changes env rq m changes r)"
proof -
  have "kept_or_rebuilt env r (nothing_to_do env rq c m r)" "kept_or_rebuilt env r (refresh_cost_schema env rq c m r)" for c
    using kept.rel_nothing_to_do [where r = r] kept.rel_refresh [where r = r] by (simp_all add: kept_or_rebuilt_def)
  then show ?thesis
    using act_on_changes_cases [of env rq m changes r] rebuild_and_report_outcome by (elim exE insertE emptyE) simp_all
qed

lemma outcome_raise: "mo_processed (fst r') = mo_processed (fst r) \<Longrightarrow> kept_or_rebuilt env r (Inl e, r')"
  by (simp add: kept_or_rebuilt_def)

lemma outcome_bind:
  assumes "mo_processed (fst (snd x)) = mo_processed (fst r)"
    and "\<And>a r'. x = (Inr a, r') \<Longrightarrow> mo_processed (fst r') = mo_processed (fst r) \<Longrightarrow> kept_or_rebuilt env r (k a r')"
  shows "kept_or_rebuilt env r (run_bind x k)"
proof -
  obtain a r' where "x = (a, r')" by (rule prod.exhaust)
  then show ?thesis using assms by (cases a) (simp_all add: outcome_raise)
qed

lemma locked_outcome:
  assumes "readable (fst r)"
  shows "kept_or_rebuilt env r (run_sync_locked env rq r)"
proof -
  have detect: "mo_processed (fst (snd (detect_with_progress env (report env p t n r')))) = mo_processed (fst r)"
    if "mo_processed (fst r') = mo_processed (fst r)" for p t n r'
    using kept_detect [of "report env p t n r'" env] kept.rel_report(1) [of env p t n r'] assms that by (simp add: readable_def)
  have edits: "mo_processed (fst (snd (take_over_edits env (report env p t n r')))) = mo_processed (fst r)"
    if "mo_processed (fst r') = mo_processed (fst r)" for p t n r'
    using kept.rel_take_over_edits kept.rel_report(1) that by metis
  have status: "mo_processed (fst (snd (attempt_call env ''status'' (update_status env u) r))) = mo_processed (fst r)" for u
    by (rule kept.rel_attempt) simp
  have act: "kept_or_rebuilt env r (act_on_changes env rq m c r')" if "mo_processed (fst r') = mo_processed (fst r)" for m c r'
    using act_outcome [of env r' rq m c] that by (simp add: kept_or_rebuilt_def)
  show ?thesis
    unfolding run_sync_locked_def
    by (rule outcome_bind [OF status], rule outcome_bind [OF edits], assumption, rule outcome_bind [OF detect], assumption, rule act)
qed

lemma run_sync_outcome:
  assumes "run_sync env rq s = (result, s')" and "readable s"
  shows "mo_processed s' = mo_processed s
    \<or> (\<exists>r0 counts r1. rebuild_all env r0 = (Inr counts, r1) \<and> files_of s' = files_of (fst r1))"
proof -
  define r0 where "r0 = start_progress env (s, new_sync_progress env (rq_trigger rq) (rq_task_id rq) (rq_operation_id rq))"
  have r0: "mo_processed (fst r0) = mo_processed s" using kept.rel_report(5) [where r = "(s, p)" and env = env for p] by (simp add: r0_def)
  obtain res r where locked: "run_sync_locked env rq r0 = (res, r)" by (rule prod.exhaust)
  have "run_sync env rq s = (res, case res of Inl e \<Rightarrow> fst (fail_progress env (en_msg env e) r) | Inr payload \<Rightarrow> fst r)"
    unfolding run_sync_def r0_def [symmetric] locked by (cases res) simp_all
  then have "files_of s' = files_of (fst r)"
    using assms(1) same_files.rel_report(4) [of r env] by (cases res) (auto simp: same_files_def)
  note same = this files_of_eq [OF this]
  have "readable (fst r0)" using assms(2) r0 by (simp add: readable_def)
  from locked_outcome [OF this, of env rq] show ?thesis
    using same r0 by (auto simp: locked kept_or_rebuilt_def rebuilt_last_def)
qed

end
