(* ===== verification/Monitor_Settles.thy ===== *)
theory Monitor_Settles
  imports Monitor_Rounds
begin

text \<open>
  A synchronization settles: after one that rebuilt everything, the next finds nothing to do. The two comparisons
  that would ask for work, of the invoice files with the record of processed files and of the workbook with the
  CSV file, find no difference in what the rebuild has just written.
\<close>

section \<open>The files a run leaves behind\<close>

lemma files_of_report [simp]:
  "files_of (fst (report env phase message percent r)) = files_of (fst r)"
  "files_of (fst (report_fraction env phase message lo hi done all r)) = files_of (fst r)"
  "files_of (fst (complete_progress env message r)) = files_of (fst r)" "files_of (fst (fail_progress env message r)) = files_of (fst r)"
  "files_of (fst (start_progress env r)) = files_of (fst r)"
  "files_of (fst (progress_steps (report_fraction env phase message lo hi) done all r)) = files_of (fst r)"
  using same_files.rel_report same_files.rel_steps by (simp_all add: same_files_def)

lemma files_of_quiet [simp]:
  "files_of (log_event level action message s) = files_of s" "files_of (update_status env updates s) = files_of s"
  by (simp_all add: files_of_def log_event_def update_status_def Let_def)

section \<open>What a rebuild leaves\<close>

definition paths_kept :: "monitor_env \<Rightarrow> bool" where
  "paths_kept env \<longleftrightarrow> (\<forall>f r. en_extract env f = Inr r \<longrightarrow> iv_source_path r = sf_path f)"

lemma summary_row_path: "cell_at (summary_row r) H_FILE_PATH = iv_source_path r"
  by (simp add: cell_at_def summary_row_def) (simp add: H_NAME_def H_FILE_PATH_def)

lemma build_summary_files:
  assumes "paths_kept env"
    and "build_summary (en_extract env) suspicious reread progress dir p = (Inr (records, files), q)"
  shows "\<exists>rows. path_cells rows = map sf_path (supported_invoice_files dir) \<and> su_csv files = write_csv_rows SUMMARY_HEADERS rows
    \<and> su_xlsx files = write_summary_xlsx reread rows"
proof -
  let ?fs = "supported_invoice_files dir"
  obtain rs where rs: "extract_all (en_extract env) progress 0 (length ?fs) ?fs (progress 0 (length ?fs) p) = (Inr rs, q)"
    and out: "records = summary_records suspicious ?fs rs"
      "files = \<lparr>su_csv = write_csv_rows SUMMARY_HEADERS (map summary_row records), su_xlsx = write_summary_xlsx reread (map summary_row records)\<rparr>"
    using assms(2) by (auto simp: build_summary_def Let_def split: sum.splits prod.splits)
  have len: "length rs = length ?fs" by (rule extract_all_length [OF rs])
  have "map iv_source_path rs = map sf_path ?fs"
    using extract_all_nth [OF rs] len assms(1) by - (rule nth_equalityI; simp add: paths_kept_def)
  then have "path_cells (map summary_row records) = map sf_path ?fs"
    using summary_records_paths [OF len] by (simp add: out(1) comp_def summary_row_path)
  then show ?thesis using out(2) by (intro exI [of _ "map summary_row records"]) simp
qed

lemma cell_at_written:
  assumes "h \<in> set SUMMARY_HEADERS"
  shows "map (\<lambda>r. cell_at r h) (read_csv_rows (write_csv_rows SUMMARY_HEADERS rows)) = map (\<lambda>r. cell_at r h) rows"
  using assms by (simp add: read_csv_rows_def write_csv_rows_def cell_at_def dget_map_pairs)

definition agree :: "monitor_env \<Rightarrow> csv_file \<Rightarrow> book_file \<Rightarrow> bool" where
  "agree env csv book \<longleftrightarrow> (\<exists>rows. path_cells rows = map sf_path (supported_invoice_files (en_dir env))
     \<and> csv = write_csv_rows SUMMARY_HEADERS rows \<and> book = write_summary_xlsx (reread_text env) rows)"

lemma apply_keeps_agreement:
  assumes "agree env (mo_csv s) (mo_xlsx s)" and "apply_manual_overrides_to_summary env s = Inr (n, s')"
  shows "agree env (mo_csv s') (mo_xlsx s') \<and> mo_overrides s' = mo_overrides s \<and> mo_cost s' = mo_cost s"
proof -
  obtain items where items: "load_manual_overrides env (mo_overrides s) = Inr items"
    using assms(2) by (auto simp: apply_manual_overrides_to_summary_def res_bind_eq_Inr)
  let ?results = "map (apply_override env items) (read_csv_rows (mo_csv s))"
  have "s' = s \<or> s' = log_event ''INFO'' ''MANUAL_EDIT_APPLIED'' (''applied='' @ int_text (int (length (filter snd ?results))))
      (write_both env (map fst ?results) s)"
    using assms(2) [unfolded apply_manual_overrides_to_summary_def items res_bind_simps Let_def sum.inject prod.inject] by (auto split: if_splits)
  moreover have "path_cells (map fst ?results) = map sf_path (supported_invoice_files (en_dir env))"
    using assms(1) cell_at_written [OF editable_headers(2)] by (auto simp: agree_def comp_def)
  ultimately show ?thesis
  proof (elim disjE)
    assume "s' = s"
    then show ?thesis using assms(1) by simp
  next
    assume paths: "path_cells (map fst ?results) = map sf_path (supported_invoice_files (en_dir env))"
      and s': "s' = log_event ''INFO'' ''MANUAL_EDIT_APPLIED'' (''applied='' @ int_text (int (length (filter snd ?results))))
        (write_both env (map fst ?results) s)"
    have "mo_csv s' = write_csv_rows SUMMARY_HEADERS (map fst ?results)" "mo_xlsx s' = write_summary_xlsx (reread_text env) (map fst ?results)"
      "mo_overrides s' = mo_overrides s" "mo_cost s' = mo_cost s"
      unfolding s' by (simp_all add: log_event_def write_both_def)
    then show ?thesis unfolding agree_def using paths by blast
  qed
qed

lemma rebuild_costs_files:
  assumes "rebuild_costs env (report_fraction env phase message lo hi) r = (Inr n, r')"
  shows "mo_csv (fst r') = mo_csv (fst r) \<and> mo_xlsx (fst r') = mo_xlsx (fst r) \<and> mo_overrides (fst r') = mo_overrides (fst r)
    \<and> cf_detail (mo_cost (fst r')) \<noteq> None \<and> cf_book (mo_cost (fst r')) \<noteq> NoCosts \<and> \<not> needs_schema_refresh (mo_cost (fst r'))"
proof -
  let ?told = "costs_told env (report_fraction env phase message lo hi) r"
  have "files_of (fst ?told) = files_of (fst r)" by (simp add: costs_told_def split_beta Let_def)
  note t = files_of_eq [OF this]
  obtain d where d: "cost_rebuild (en_casefold env) (en_canonical env) (en_analyze env) (en_reread env) (en_now env) (iter_cost_invoice_files env)
      (summary_metadata (mo_csv (fst r))) (en_markup_rate env) (mo_cost (fst r)) = Inr (n, d)" "fst r' = (fst ?told)\<lparr>mo_cost := d\<rparr>"
    using assms by (auto simp: rebuild_costs_def Let_def split: sum.splits)
  then show ?thesis using rebuilt_tables_are_current [OF d(1)] t by simp
qed

definition tables_done :: "monitor_env \<Rightarrow> monitor_state \<Rightarrow> bool" where
  "tables_done env s \<longleftrightarrow> agree env (mo_csv s) (mo_xlsx s) \<and> (\<exists>items. load_manual_overrides env (mo_overrides s) = Inr items)
     \<and> cf_detail (mo_cost s) \<noteq> None \<and> cf_book (mo_cost s) \<noteq> NoCosts \<and> \<not> needs_schema_refresh (mo_cost s)"

lemma tables_done_files: "files_of s' = files_of s \<Longrightarrow> tables_done env s' = tables_done env s"
  using files_of_eq [of s' s] by (simp add: tables_done_def)

lemma rebuild_tables_files:
  assumes "paths_kept env" and "rebuild_tables env r = (Inr result, r')"
  shows "tables_done env (fst r')"
proof -
  obtain built r1 r2 applied r3 n r4 where
    b: "build_summary (en_extract env) (en_suspicious env) (reread_text env) (report_fraction env ''summary'' PM_SUMMARY 8 52) (en_dir env)
      (report env ''summary'' PM_SUMMARY 8 r) = (Inr built, r1)"
    and w: "write_summary env (snd built) r1 = (Inr (), r2)"
    and a: "apply_edits env (report env ''summary'' PM_APPLY 52 r2) = (Inr applied, r3)"
    and c: "rebuild_costs env (report_fraction env ''cost'' PM_COST_FILES 52 92) (report env ''cost'' PM_COST 52 r3) = (Inr n, r4)"
    and final: "files_of (fst r') = files_of (fst r4)"
    using assms(2) unfolding rebuild_tables_def run_bind_eq_Inr Let_def by (elim exE conjE) (auto simp flip: unit_eq)
  obtain records files where built: "built = (records, files)" by (rule prod.exhaust)
  let ?r2 = "report env ''summary'' PM_APPLY 52 r2"
  have r2: "fst r2 = (fst r1)\<lparr>mo_csv := su_csv files, mo_xlsx := su_xlsx files\<rparr>"
    using w by (auto simp: write_summary_def built Let_def split: option.splits)
  have "files_of (fst ?r2) = files_of ((fst r1)\<lparr>mo_csv := su_csv files, mo_xlsx := su_xlsx files\<rparr>)" by (simp add: r2)
  note r2 = files_of_eq [OF this]
  have a': "apply_manual_overrides_to_summary env (fst ?r2) = Inr (applied, fst r3)"
    using a by (auto simp: apply_edits_def split: sum.splits)
  have "agree env (mo_csv (fst ?r2)) (mo_xlsx (fst ?r2))"
    using build_summary_files [OF assms(1) b [unfolded built]] r2(1,2) by (auto simp: agree_def)
  note a3 = apply_keeps_agreement [OF this a']
  obtain items where items: "load_manual_overrides env (mo_overrides (fst ?r2)) = Inr items"
    using a' by (auto simp: apply_manual_overrides_to_summary_def res_bind_eq_Inr)
  have "files_of (fst (report env ''cost'' PM_COST 52 r3)) = files_of (fst r3)" by simp
  note r3 = files_of_eq [OF this]
  note r4 = rebuild_costs_files [OF c, unfolded r3]
  have "tables_done env (fst r4)" using a3 r4 items by (simp add: tables_done_def)
  then show ?thesis by (simp add: tables_done_files [OF final])
qed

lemma rebuild_all_files:
  assumes "paths_kept env" and "rebuild_all env r = (Inr result, r')"
  shows "tables_done env (fst r')
    \<and> mo_processed (fst r') = plain_json_file (processed_payload env (rebuild_processed_from_summary env (mo_csv (fst r'))))"
proof -
  obtain r1 where t: "rebuild_tables env r = (Inr result, r1)" and r': "r' = on_state (\<lambda>s. save_processed env (rebuild_processed_from_summary env (mo_csv s)) s) r1"
    using assms(2) by (auto simp: rebuild_all_def run_bind_eq_Inr record_processed_def attempt_call_eq_Inr)
  then show ?thesis using rebuild_tables_files [OF assms(1) t] by (simp add: save_processed_def tables_done_def)
qed

section \<open>A run that rebuilt\<close>

definition not_rebuilt :: "vdict outcome \<Rightarrow> bool" where
  "not_rebuilt x \<longleftrightarrow> (\<forall>payload. fst x = Inr payload \<longrightarrow> get_val payload ''rebuilt'' \<noteq> VBool True)"

lemma not_rebuilt_payload: "fst x = Inr p \<or> isl (fst x) \<Longrightarrow> get_val p ''rebuilt'' \<noteq> VBool True \<Longrightarrow> not_rebuilt x"
  by (auto simp: not_rebuilt_def)

lemma not_rebuilt_bind: "(\<And>a r'. not_rebuilt (k a r')) \<Longrightarrow> not_rebuilt (run_bind x k)"
  by (cases x; cases "fst x") (auto simp: not_rebuilt_def)

lemma not_rebuilt_except: "not_rebuilt x \<Longrightarrow> (\<And>e r. not_rebuilt (h e r)) \<Longrightarrow> not_rebuilt (except x h)"
  by (cases x; cases "fst x") (auto simp: not_rebuilt_def)

lemma not_rebuilt_return: "get_val p ''rebuilt'' \<noteq> VBool True \<Longrightarrow> not_rebuilt (Inr p, r)"
  by (simp add: not_rebuilt_def)

lemma not_rebuilt_failed: "not_rebuilt (sync_failed env rq action e r)"
  unfolding sync_failed_def Let_def trigger_field_def
  by (intro not_rebuilt_bind not_rebuilt_return) (simp add: get_val_def)

lemma not_rebuilt_nothing: "not_rebuilt (nothing_to_do env rq (as_counts c) m r)"
  unfolding nothing_to_do_def Let_def trigger_field_def as_counts_def
  by (intro not_rebuilt_bind not_rebuilt_return) (simp add: get_val_def)

lemma not_rebuilt_refresh: "not_rebuilt (refresh_cost_schema env rq (as_counts c) m r)"
proof -
  have "not_rebuilt (schema_refreshed env rq (as_counts c) m r)" for r
  proof (cases "refresh_schema_from_current_detail (en_casefold env) (en_reread env) (en_markup_rate env) (mo_cost (fst r))")
    case (Inl e)
    then show ?thesis by (simp add: schema_refreshed_def not_rebuilt_def)
  next
    case (Inr out)
    obtain b d where out: "out = (b, d)" by (rule prod.exhaust)
    show ?thesis
      unfolding schema_refreshed_def Inr out sum.case prod.case Let_def trigger_field_def target_field_def as_counts_def
      by (intro not_rebuilt_bind not_rebuilt_return) (simp add: get_val_def)
  qed
  then show ?thesis
    unfolding refresh_cost_schema_def by (intro not_rebuilt_bind not_rebuilt_except not_rebuilt_failed)
qed

lemma rebuilt_payload:
  assumes "act_on_changes env rq m changes r = (Inr payload, r')" and "get_val payload ''rebuilt'' = VBool True"
  shows "rebuilt_last env r'"
proof -
  let ?c = "as_counts changes"
  have rebuild: "rebuilt_last env r'" if b: "rebuild_and_report env rq ?c m a b r = (Inr payload, r')" for a b
  proof -
    obtain r0 where r0: "except (run_bind (rebuild_all env r0) (sync_completed env rq ?c m a b)) (sync_failed env rq ''SYNC_FAILED'') = (Inr payload, r')"
      using b unfolding rebuild_and_report_def run_bind_eq_Inr by blast
    obtain x r1 where x: "rebuild_all env r0 = (x, r1)" by (rule prod.exhaust)
    have failure: "\<not> (sync_failed env rq ''SYNC_FAILED'' e r = (Inr payload, r'))" for e r
      using not_rebuilt_failed [of env rq "''SYNC_FAILED''" e r] assms(2) by (auto simp: not_rebuilt_def)
    obtain result where x': "x = Inr result" using r0 failure by (cases x) (auto simp: x)
    have "same_files r1 (snd (except (sync_completed env rq ?c m a b result r1) (sync_failed env rq ''SYNC_FAILED'')))"
      by (intro same_files.rel_except same_files.rel_completed same_files.rel_sync_failed)
    then have "files_of (fst r') = files_of (fst r1)" using r0 by (simp add: x x' same_files_def)
    then show ?thesis using x x' unfolding rebuilt_last_def by blast
  qed
  obtain a b where "act_on_changes env rq m changes r = nothing_to_do env rq ?c m r \<or> act_on_changes env rq m changes r = refresh_cost_schema env rq ?c m r
      \<or> act_on_changes env rq m changes r = rebuild_and_report env rq ?c m a b r"
    using act_on_changes_cases [of env rq m changes r] by auto
  then show ?thesis
  proof (elim disjE)
    assume "act_on_changes env rq m changes r = nothing_to_do env rq ?c m r"
    with assms(1) have "nothing_to_do env rq ?c m r = (Inr payload, r')" by simp
    then show ?thesis using not_rebuilt_nothing [of env rq changes m r] assms(2) by (simp add: not_rebuilt_def)
  next
    assume "act_on_changes env rq m changes r = refresh_cost_schema env rq ?c m r"
    with assms(1) have "refresh_cost_schema env rq ?c m r = (Inr payload, r')" by simp
    then show ?thesis using not_rebuilt_refresh [of env rq changes m r] assms(2) by (simp add: not_rebuilt_def)
  next
    assume "act_on_changes env rq m changes r = rebuild_and_report env rq ?c m a b r"
    with assms(1) show ?thesis by (intro rebuild [of a b]) simp
  qed
qed

lemma rebuilt_run:
  assumes "run_sync env rq s = (Inr payload, s')" and "get_val payload ''rebuilt'' = VBool True"
  shows "\<exists>r0 result r1. rebuild_all env r0 = (Inr result, r1) \<and> files_of s' = files_of (fst r1)"
proof -
  obtain r where r: "run_sync_locked env rq (start_progress env (s, new_sync_progress env (rq_trigger rq) (rq_task_id rq) (rq_operation_id rq)))
      = (Inr payload, r)" "s' = fst r"
    using assms(1) by (auto simp: run_sync_def split: prod.splits sum.splits)
  obtain m changes r3 where "act_on_changes env rq m changes r3 = (Inr payload, r)"
    using r(1) unfolding run_sync_locked_def run_bind_eq_Inr by blast
  from rebuilt_payload [OF this assms(2)] show ?thesis using r(2) by (simp add: rebuilt_last_def)
qed

section \<open>No edit is found\<close>

lemma headers_distinct: "distinct SUMMARY_HEADERS"
  by (simp add: SUMMARY_HEADERS_def)
    (simp add: H_NAME_def H_FILE_PATH_def H_INVOICE_TYPE_def H_BUSINESS_def H_CLASS_STATUS_def H_CLASS_ISSUE_def
      F_INVOICE_NO_def H_OPEN_TIME_def F_SELLER_def H_BUYER_def H_AMOUNT_def F_RATE_def H_EX_TAX_def F_TAX_def DUPLICATE_LABEL_def
      H_EDITED_def)

lemma sheet_row_cell:
  assumes "h \<in> set SUMMARY_HEADERS"
  shows "cell_at (sheet_row SUMMARY_HEADERS (map v SUMMARY_HEADERS)) h = strip (str_or_empty (v h))"
proof -
  let ?g = "\<lambda>p. strip (str_or_empty (v (SUMMARY_HEADERS ! fst p)))"
  have "sheet_row SUMMARY_HEADERS (map v SUMMARY_HEADERS) = fold (\<lambda>p. dput (snd p) (?g p)) (enumerate 0 SUMMARY_HEADERS) []"
    unfolding sheet_row_def
    by (rule fold_cong) (use headers_plain(2) in \<open>auto simp: in_set_enumerate_eq\<close>)
  moreover obtain i where i: "i < length SUMMARY_HEADERS" "SUMMARY_HEADERS ! i = h" using assms by (auto simp: in_set_conv_nth)
  moreover have "(i, h) \<in> set (enumerate 0 SUMMARY_HEADERS)" using i by (auto simp: in_set_enumerate_eq)
  ultimately have "dget (sheet_row SUMMARY_HEADERS (map v SUMMARY_HEADERS)) h = Some (?g (i, h))"
    using pd.get_fold_put_in [of snd "enumerate 0 SUMMARY_HEADERS" "(i, h)" ?g "[]"] headers_distinct by simp
  then show ?thesis using i by (simp add: cell_at_def)
qed

text \<open>What \<open>openpyxl\<close> documents: a text is read back, but the empty text as no value, and a formula (whose result
  nobody has computed) too.\<close>

definition rereads :: "monitor_env \<Rightarrow> bool" where
  "rereads env \<longleftrightarrow> (\<forall>t. en_reread env (VStr t) = (if t = [] \<or> hd t = CHR ''='' then VNone else VStr t))"

definition no_formula :: "string \<Rightarrow> bool" where
  "no_formula t \<longleftrightarrow> t = [] \<or> hd t \<noteq> CHR ''=''"

lemma reread_cell: "rereads env \<Longrightarrow> no_formula t \<Longrightarrow> strip (str_or_empty (reread_text env t)) = strip t"
  by (cases "t = []") (simp_all add: rereads_def no_formula_def reread_text_def)

lemma header_cells_written:
  assumes "rereads env"
  shows "header_cells (map (map (reread_text env)) (SUMMARY_HEADERS # grid)) = SUMMARY_HEADERS"
proof -
  have "strip (str_or_empty (reread_text env h)) = h" if "h \<in> set SUMMARY_HEADERS" for h
    using headers_plain [OF that] assms by (simp add: reread_text_def rereads_def)
  then show ?thesis by (simp add: header_cells_def map_idI comp_def)
qed

definition well_placed :: "monitor_env \<Rightarrow> text_row list \<Rightarrow> bool" where
  "well_placed env rows \<longleftrightarrow> distinct (map (en_canonical env) (path_cells rows))
     \<and> (\<forall>r\<in>set rows. en_canonical env (cell_at r H_FILE_PATH) \<noteq> [] \<and> cell_at r H_FILE_PATH \<noteq> [] \<and> strip (cell_at r H_FILE_PATH) = cell_at r H_FILE_PATH
          \<and> (\<forall>h\<in>set (H_FILE_PATH # EDITABLE_FIELDS). no_formula (cell_at r h)))"

lemma filter_one: "i < n \<Longrightarrow> filter (\<lambda>j. j = i) [0..<n] = [i]"
  by (induction n) (auto simp: less_Suc_eq filter_empty_conv)

lemma well_placed_row:
  assumes "well_placed env rows" and "i < length rows"
  shows "row_of_path env rows (en_canonical env (cell_at (rows ! i) H_FILE_PATH)) = Some i"
proof -
  let ?key = "\<lambda>j. en_canonical env (cell_at (rows ! j) H_FILE_PATH)"
  have "?key j = ?key i \<longleftrightarrow> j = i" if "j < length rows" for j
    using assms that nth_eq_iff_index_eq [of "map (en_canonical env) (path_cells rows)" j i] by (auto simp: well_placed_def)
  then have "filter (\<lambda>j. cell_at (rows ! j) H_FILE_PATH \<noteq> [] \<and> ?key j = ?key i) [0..<length rows] = filter (\<lambda>j. j = i) [0..<length rows]"
    using assms(1) by (intro filter_cong) (auto simp: well_placed_def)
  also have "\<dots> = [i]"
    using assms(2) by (rule filter_one)
  finally show ?thesis by (simp add: row_of_path_def)
qed

lemma read_written_rows:
  "path_cells (read_csv_rows (write_csv_rows SUMMARY_HEADERS rows)) = path_cells rows"
  "length (read_csv_rows (write_csv_rows SUMMARY_HEADERS rows)) = length rows"
  by (rule cell_at_written [OF editable_headers(2)]) (simp add: read_csv_rows_def write_csv_rows_def)

lemma written_row_cell:
  assumes "i < length rows" "h \<in> set SUMMARY_HEADERS"
  shows "cell_at (read_csv_rows (write_csv_rows SUMMARY_HEADERS rows) ! i) h = cell_at (rows ! i) h"
  using assms by (simp add: read_csv_rows_def write_csv_rows_def cell_at_def dget_map_pairs)

lemma no_edit_found:
  assumes book: "book = write_summary_xlsx (reread_text env) rows" and re: "rereads env" and placed: "well_placed env rows"
    and st: "es_rows st = read_csv_rows (write_csv_rows SUMMARY_HEADERS rows)"
  shows "\<exists>xrows. read_summary_xlsx_rows book = Some xrows \<and> fold (scan_row env) xrows st = st"
proof -
  let ?v = "\<lambda>r h. reread_text env (cell_at r h)"
  let ?sheet = "map (\<lambda>r. sheet_row SUMMARY_HEADERS (map (?v r) SUMMARY_HEADERS)) rows"
  have "header_cells (map (map (reread_text env)) (SUMMARY_HEADERS # map (\<lambda>row. map (cell_at row) SUMMARY_HEADERS) rows)) = SUMMARY_HEADERS"
    by (rule header_cells_written [OF re])
  then have xrows: "read_summary_xlsx_rows book = Some ?sheet"
    by (simp add: read_summary_xlsx_rows_def book write_summary_xlsx_def comp_def)
  have cell: "cell_at (?sheet ! i) h = strip (cell_at (rows ! i) h)" if "i < length rows" "h \<in> set (H_FILE_PATH # EDITABLE_FIELDS)" for i h
  proof -
    have "h \<in> set SUMMARY_HEADERS" using that(2) editable_headers by auto
    moreover have "no_formula (cell_at (rows ! i) h)" using placed that by (auto simp: well_placed_def)
    ultimately show ?thesis using that(1) re by (simp add: sheet_row_cell reread_cell)
  qed
  have none: "scan_row env (?sheet ! i) st = st" if i: "i < length rows" for i
  proof -
    have path: "cell_at (?sheet ! i) H_FILE_PATH = cell_at (rows ! i) H_FILE_PATH"
      using cell [OF i, of H_FILE_PATH] placed i by (simp add: well_placed_def)
    have "row_of_path env (es_rows st) (en_canonical env (cell_at (rows ! i) H_FILE_PATH)) = Some i"
      using well_placed_row [OF placed i] row_of_path_cong [OF read_written_rows(1) [of rows]] by (simp add: st)
    moreover have "edited_fields (?sheet ! i) (es_rows st ! i) = []"
      using cell [OF i] i editable_headers(1)
      by (auto simp: edited_fields_def filter_empty_conv st written_row_cell subset_iff)
    ultimately show ?thesis using path by (simp add: scan_row_def Let_def)
  qed
  have "fold (scan_row env) xs st = st" if "set xs \<subseteq> set ?sheet" for xs
    using that
  proof (induction xs)
    case (Cons x xs)
    then obtain i where "i < length rows" "x = ?sheet ! i" by (auto simp: in_set_conv_nth)
    then have "scan_row env x st = st" using none by blast
    then show ?case using Cons by simp
  qed simp
  then show ?thesis using xrows by blast
qed

lemma no_edit_synced:
  assumes files: "mo_csv s = write_csv_rows SUMMARY_HEADERS rows" "mo_xlsx s = write_summary_xlsx (reread_text env) rows"
    and re: "rereads env" and placed: "well_placed env rows" and load: "load_manual_overrides env (mo_overrides s) = Inr items"
  shows "sync_excel_manual_edits env s = Inr (0, s)"
proof -
  let ?st = "\<lparr>es_rows = read_csv_rows (mo_csv s), es_overrides = items, es_changed = 0, es_log = []\<rparr>"
  obtain xrows where x: "read_summary_xlsx_rows (mo_xlsx s) = Some xrows" "fold (scan_row env) xrows ?st = ?st"
    using no_edit_found [OF files(2) re placed, of ?st] files(1) by auto
  have "mo_csv s \<noteq> None" "mo_xlsx s \<noteq> NoBook" by (simp_all add: files write_csv_rows_def write_summary_xlsx_def)
  then show ?thesis by (simp add: sync_excel_manual_edits_def x load Let_def)
qed

section \<open>No changed file is found\<close>

definition sees_same :: "monitor_env \<Rightarrow> monitor_env \<Rightarrow> bool" where
  "sees_same env env' \<longleftrightarrow> en_dir env' = en_dir env \<and> en_stat env' = en_stat env \<and> en_canonical env' = en_canonical env
     \<and> en_reread env' = en_reread env"

lemma fold_dput_set: "p \<in> set (fold (\<lambda>x. dput (f x) (g x)) xs d) \<Longrightarrow> p \<in> set d \<or> (\<exists>x\<in>set xs. p = (f x, g x))"
proof (induction xs arbitrary: d)
  case (Cons x xs)
  then show ?case using set_dput [of p "f x" "g x" d] by auto
qed simp

lemma fold_dput_wf: "dict_wf d \<Longrightarrow> dict_wf (fold (\<lambda>x. dput (f x) (g x)) xs d)"
  by (induction xs arbitrary: d) simp_all

lemma no_change_between:
  assumes "\<forall>p\<in>set current. \<exists>old. dget previous (fst p) = Some old \<and> old \<noteq> [] \<and> stale old (snd p) = Inr False"
    and "\<forall>k\<in>set (dkeys previous). dget current k \<noteq> None"
  shows "source_changes_between previous current = Inr \<lparr>sc_added = [], sc_updated = [], sc_deleted = []\<rparr>"
proof -
  have "res_fold (compare_file previous) ps c = Inr c" if "set ps \<subseteq> set current" for ps c
    using that assms(1)
  proof (induction ps arbitrary: c)
    case (Cons p ps)
    then obtain old where "dget previous (fst p) = Some old" "old \<noteq> []" "stale old (snd p) = Inr False" by auto
    then show ?case using Cons by (simp add: compare_file_def)
  qed simp
  moreover have "filter (\<lambda>k. dget current k = None) (dkeys previous) = []" using assms(2) by (auto simp: filter_empty_conv)
  ultimately show ?thesis by (simp add: source_changes_between_def)
qed

lemma fresh_record:
  assumes same: "sees_same env env'" and idem: "\<forall>t. en_canonical env (en_canonical env t) = en_canonical env t"
    and paths: "path_cells rows = map sf_path (supported_invoice_files (en_dir env))" and placed: "well_placed env rows"
    and record_of: "mo_processed s = plain_json_file (processed_payload env (rebuild_processed_from_summary env (write_csv_rows SUMMARY_HEADERS rows)))"
  shows "load_processed env' s = (rebuild_processed_from_summary env (write_csv_rows SUMMARY_HEADERS rows), s)
    \<and> source_changes_between (rebuild_processed_from_summary env (write_csv_rows SUMMARY_HEADERS rows)) (source_snapshot env')
      = Inr \<lparr>sc_added = [], sc_updated = [], sc_deleted = []\<rparr>"
proof -
  let ?rows = "read_csv_rows (write_csv_rows SUMMARY_HEADERS rows)"
  let ?files = "supported_invoice_files (en_dir env)"
  let ?key = "\<lambda>r. en_canonical env (cell_at r H_FILE_PATH)"
  let ?item = "\<lambda>r. processed_item env (source_snapshot env) (?key r) r"
  define P where "P = rebuild_processed_from_summary env (write_csv_rows SUMMARY_HEADERS rows)"
  have len: "length rows = length ?files" using paths by (rule map_eq_imp_length_eq)
  have keys: "map ?key ?rows = map (\<lambda>f. en_canonical env (sf_path f)) ?files"
    using arg_cong [OF read_written_rows(1) [of rows], of "map (en_canonical env)"] paths by (simp add: comp_def)
  have distinct: "distinct (map ?key ?rows)"
    using placed arg_cong [OF read_written_rows(1) [of rows], of "map (en_canonical env)"] by (simp add: well_placed_def comp_def)
  have "?key r \<noteq> []" if "r \<in> set ?rows" for r
  proof -
    have "cell_at r H_FILE_PATH \<in> set (path_cells rows)" using that by (subst read_written_rows(1) [of rows, symmetric]) simp
    then show ?thesis using placed by (auto simp: well_placed_def)
  qed
  then have P: "P = fold (\<lambda>r. dput (?key r) (?item r)) ?rows []"
    unfolding P_def rebuild_processed_from_summary_def by (intro fold_cong) (auto simp: Let_def)
  have wf: "dict_wf P" unfolding P by (rule fold_dput_wf) simp
  have canon: "en_canonical env k = k" if "(k, v) \<in> set P" for k v
    using fold_dput_set [OF that [unfolded P]] idem by auto
  have loaded: "processed_files env' (processed_payload env P) = P"
  proof -
    have "fold (\<lambda>p files. case snd p of VDict item \<Rightarrow> dput (en_canonical env' (fst p)) item files | _ \<Rightarrow> files)
        (map (\<lambda>p. (fst p, VDict (snd p))) ps) acc = acc @ ps"
      if "set ps \<subseteq> set P" "distinct (map fst (acc @ ps))" for ps acc
      using that
    proof (induction ps arbitrary: acc)
      case (Cons p ps)
      have "en_canonical env' (fst p) = fst p" using canon [of "fst p" "snd p"] Cons.prems(1) same by (simp add: sees_same_def)
      moreover have "dput (fst p) (snd p) acc = acc @ [p]" using Cons.prems(2) by (subst dput_append_new) auto
      ultimately show ?case using Cons.IH [of "acc @ [p]"] Cons.prems by simp
    qed simp
    from this [of P "[]"] wf show ?thesis
      by (simp add: processed_files_def processed_payload_def get_val_def dict_wf_def)
  qed
  have load: "load_processed env' s = (P, s)"
    using record_of loaded by (simp add: load_processed_def plain_json_file_def P_def)
  have snap: "source_snapshot env' = source_snapshot env"
    using same by (simp add: source_snapshot_def snapshot_entry_def file_signature_def sees_same_def cong: fold_cong)
  have entry: "dget (source_snapshot env) (en_canonical env (sf_path f)) = Some (snapshot_entry env f)" if "f \<in> set ?files" for f
    unfolding source_snapshot_def
    by (rule pd.get_fold_put_in [of "\<lambda>f. en_canonical env (sf_path f)"]) (use distinct keys that in simp_all)
  have current: "\<exists>old. dget P (fst p) = Some old \<and> old \<noteq> [] \<and> stale old (snd p) = Inr False" if "p \<in> set (source_snapshot env)" for p
  proof -
    note entry_of = that
    obtain f where f: "f \<in> set ?files" "p = (en_canonical env (sf_path f), snapshot_entry env f)"
      using entry_of fold_dput_set [of p "\<lambda>f. en_canonical env (sf_path f)" "snapshot_entry env" ?files "[]"]
      unfolding source_snapshot_def by auto
    then have "en_canonical env (sf_path f) \<in> set (map ?key ?rows)" unfolding keys by simp
    then obtain r where r: "r \<in> set ?rows" "en_canonical env (sf_path f) = ?key r" by auto
    have "dget P (?key r) = Some (?item r)" unfolding P by (rule pd.get_fold_put_in [OF distinct r(1)])
    moreover have "stale (?item r) (snapshot_entry env f) = Inr False"
      using entry [OF f(1), unfolded r(2)]
      by (simp add: stale_def processed_item_def snapshot_entry_def get_val_def geti_or_def val_or_def Let_def)
    ultimately show ?thesis using f(2) r(2) by (simp add: processed_item_def Let_def)
  qed
  have "dget (source_snapshot env) k \<noteq> None" if "k \<in> set (dkeys P)" for k
  proof -
    have "k \<in> set (map ?key ?rows)" using that fold_dput_set unfolding P dkeys_def by fastforce
    then obtain f where "f \<in> set ?files" "k = en_canonical env (sf_path f)" unfolding keys by auto
    then show ?thesis using entry by simp
  qed
  then show ?thesis using load current no_change_between [of "source_snapshot env" P] by (simp add: snap flip: P_def)
qed

section \<open>The next synchronization\<close>

lemma current_summary:
  assumes "rereads env"
  shows "\<not> summary_schema_needs_refresh (write_csv_rows SUMMARY_HEADERS rows) (write_summary_xlsx (reread_text env) rows)"
  using header_cells_written [OF assms, of "map (\<lambda>row. map (cell_at row) SUMMARY_HEADERS) rows"] headers_plain(1)
  by (simp add: summary_schema_needs_refresh_def write_csv_rows_def write_summary_xlsx_def subset_iff)

lemma idle_run:
  assumes same: "sees_same env env'" and idem: "\<forall>t. en_canonical env (en_canonical env t) = en_canonical env t" and re: "rereads env"
    and paths: "path_cells rows = map sf_path (supported_invoice_files (en_dir env))" and placed: "well_placed env rows"
    and csv: "mo_csv s = write_csv_rows SUMMARY_HEADERS rows" and book: "mo_xlsx s = write_summary_xlsx (reread_text env) rows"
    and load: "load_manual_overrides env (mo_overrides s) = Inr items"
    and record_of: "mo_processed s = plain_json_file (processed_payload env (rebuild_processed_from_summary env (mo_csv s)))"
    and cost: "cf_detail (mo_cost s) \<noteq> None" "cf_book (mo_cost s) \<noteq> NoCosts" "\<not> needs_schema_refresh (mo_cost s)"
    and calm: "\<not> rq_force rq"
  shows "files_of (snd (run_sync env' rq s)) = files_of s
    \<and> ((\<forall>call t. en_fails env' call t = None) \<longrightarrow>
         (\<exists>payload. fst (run_sync env' rq s) = Inr payload \<and> get_val payload ''ok'' = VBool True \<and> get_val payload ''rebuilt'' = VBool False))"
proof -
  define r0 where "r0 = start_progress env' (s, new_sync_progress env' (rq_trigger rq) (rq_task_id rq) (rq_operation_id rq))"
  define start where "start = attempt_call env' ''status'' (update_status env'
      [(''status'', VStr ''syncing''), (''last_trigger'', VStr (rq_trigger rq)), (''last_event_paths'', VList (map VStr (rq_paths rq)))]) r0"
  have env': "rereads env'" "well_placed env' rows" "reread_text env' = reread_text env" "load_manual_overrides env' f = load_manual_overrides env f" for f
  proof -
    have eqs: "en_canonical env' = en_canonical env" "en_reread env' = en_reread env" "en_dir env' = en_dir env"
      using same by (simp_all add: sees_same_def fun_eq_iff)
    show "rereads env'" "reread_text env' = reread_text env"
      using re by (simp_all add: rereads_def reread_text_def eqs fun_eq_iff)
    have "well_placed env' rows = well_placed env rows" by (simp add: well_placed_def eqs comp_def)
    then show "well_placed env' rows" using placed by simp
    have "load_override env' = load_override env" unfolding load_override_def eqs by (rule refl)
    then show "load_manual_overrides env' f = load_manual_overrides env f" by (simp add: load_manual_overrides_def)
  qed
  have locked: "files_of (fst (snd (run_sync_locked env' rq r0))) = files_of s
    \<and> ((\<forall>call t. en_fails env' call t = None) \<longrightarrow>
         (\<exists>payload. fst (run_sync_locked env' rq r0) = Inr payload \<and> get_val payload ''ok'' = VBool True \<and> get_val payload ''rebuilt'' = VBool False))"
  proof (cases "en_fails env' ''status'' (fst r0)")
    case (Some e)
    then have "run_sync_locked env' rq r0 = (Inl e, r0)" by (simp add: run_sync_locked_def attempt_call_def)
    then show ?thesis using Some by (auto simp: r0_def)
  next
    case None
    then obtain r' where start: "start = (Inr (), r')" "files_of (fst r') = files_of (fst r0)" by (simp add: start_def attempt_call_def)
    define r1 where "r1 = report env' ''preparing'' PM_EDITS 0 r'"
    have f1: "files_of (fst r1) = files_of s" by (simp add: r1_def r0_def start)
    note s1 = files_of_eq [OF f1]
    have "sync_excel_manual_edits env' (fst r1) = Inr (0, fst r1)"
      by (rule no_edit_synced [of _ rows _ items]) (simp_all add: s1 csv book env' load)
    then have edits: "take_over_edits env' r1 = (Inr 0, r1)" by (simp add: take_over_edits_def)
    define r2 where "r2 = report env' ''scanning'' PM_SCAN 0 r1"
    have f2: "files_of (fst r2) = files_of s" using f1 by (simp add: r2_def)
    note s2 = files_of_eq [OF f2]
    have "mo_processed (fst r2) = plain_json_file (processed_payload env (rebuild_processed_from_summary env (write_csv_rows SUMMARY_HEADERS rows)))"
      using record_of s2 csv by simp
    note fresh = fresh_record [OF same idem paths placed this]
    let ?none = "\<lparr>sc_added = [], sc_updated = [], sc_deleted = []\<rparr>"
    let ?n = "length (supported_invoice_files (en_dir env'))"
    define r3 where "r3 = progress_steps (report_fraction env' ''scanning'' PM_SCAN 0 8) ?n ?n (fst r2, snd r2)"
    have detect: "detect_with_progress env' r2 = (Inr ?none, r3)"
      using fresh by (simp add: detect_with_progress_def detect_source_changes_def r3_def Let_def split_beta)
    have f3: "files_of (fst r3) = files_of s" using f2 by (simp add: r3_def)
    note s3 = files_of_eq [OF f3]
    have "act_on_changes env' rq 0 ?none r3 = nothing_to_do env' rq (as_counts ?none) 0 r3"
      using calm cost s3 csv book current_summary [OF re, of rows]
      by (simp add: act_on_changes_def Let_def changed_def write_csv_rows_def write_summary_xlsx_def)
    then have run: "run_sync_locked env' rq r0 = nothing_to_do env' rq (as_counts ?none) 0 r3"
      unfolding run_sync_locked_def start_def [symmetric] start(1) run_bind_simps r1_def [symmetric] edits r2_def [symmetric] detect .
    have "same_files r3 (snd (nothing_to_do env' rq (as_counts ?none) 0 r3))" by (rule same_files.rel_nothing_to_do)
    moreover have "\<exists>payload. fst (nothing_to_do env' rq (as_counts ?none) 0 r3) = Inr payload \<and> get_val payload ''ok'' = VBool True
        \<and> get_val payload ''rebuilt'' = VBool False" if "\<forall>call t. en_fails env' call t = None"
      using that by (simp add: nothing_to_do_def append_event_def attempt_call_def Let_def get_val_def trigger_field_def as_counts_def)
    ultimately show ?thesis using f3 unfolding run by (simp add: same_files_def)
  qed
  obtain res r where res: "run_sync_locked env' rq r0 = (res, r)" by (rule prod.exhaust)
  have "run_sync env' rq s = (res, case res of Inl e \<Rightarrow> fst (fail_progress env' (en_msg env' e) r) | Inr payload \<Rightarrow> fst r)"
    unfolding run_sync_def r0_def [symmetric] res by (cases res) simp_all
  then show ?thesis using locked by (cases res) (simp_all add: res)
qed

definition plain_path :: "monitor_env \<Rightarrow> source_file \<Rightarrow> bool" where
  "plain_path env f \<longleftrightarrow> sf_path f \<noteq> [] \<and> strip (sf_path f) = sf_path f \<and> no_formula (sf_path f) \<and> en_canonical env (sf_path f) \<noteq> []"

text \<open>C12: A synchronization settles. After one that rebuilt the tables, the next, of the same files and not forced,
  leaves the summary, the workbook, the record of processed files, the manual edits and the cost tables as they
  are, and reports success without a rebuild if none of its calls raises. (A reader keeps the path of its file;
  the paths are plain and differ; no cell the user may edit holds a formula; \<open>openpyxl\<close> reads texts back as
  documented.)\<close>

theorem sync_settles:
  assumes readers: "paths_kept env" "rereads env"
    and paths: "\<forall>t. en_canonical env (en_canonical env t) = en_canonical env t"
      "\<forall>f\<in>set (supported_invoice_files (en_dir env)). plain_path env f"
      "distinct (map (\<lambda>f. en_canonical env (sf_path f)) (supported_invoice_files (en_dir env)))"
    and first: "run_sync env rq s = (Inr payload, s')" "get_val payload ''rebuilt'' = VBool True"
    and cells: "\<forall>row\<in>set (read_csv_rows (mo_csv s')). \<forall>h\<in>set EDITABLE_FIELDS. no_formula (cell_at row h)"
    and next_run: "sees_same env env'" "\<not> rq_force rq'"
  shows "\<exists>result s''. run_sync env' rq' s' = (result, s'') \<and> files_of s'' = files_of s'
    \<and> ((\<forall>call t. en_fails env' call t = None) \<longrightarrow>
         (\<exists>payload'. result = Inr payload' \<and> get_val payload' ''ok'' = VBool True \<and> get_val payload' ''rebuilt'' = VBool False))"
proof -
  obtain r0 result r1 where r: "rebuild_all env r0 = (Inr result, r1)" "files_of s' = files_of (fst r1)"
    using rebuilt_run [OF first] by blast
  note left = rebuild_all_files [OF readers(1) r(1), folded files_of_eq [OF r(2)] tables_done_files [OF r(2)]]
  then obtain rows items where rows: "path_cells rows = map sf_path (supported_invoice_files (en_dir env))"
      "mo_csv s' = write_csv_rows SUMMARY_HEADERS rows" "mo_xlsx s' = write_summary_xlsx (reread_text env) rows"
    and items: "load_manual_overrides env (mo_overrides s') = Inr items"
    by (auto simp: agree_def tables_done_def)
  have path: "\<exists>f\<in>set (supported_invoice_files (en_dir env)). cell_at x H_FILE_PATH = sf_path f" if "x \<in> set rows" for x
  proof -
    have "cell_at x H_FILE_PATH \<in> set (path_cells rows)" using that by simp
    then show ?thesis unfolding rows(1) by auto
  qed
  have cell: "no_formula (cell_at x h)" if "x \<in> set rows" "h \<in> set EDITABLE_FIELDS" for x h
  proof -
    note in_rows = that(1)
    obtain i where i: "i < length rows" "rows ! i = x" using in_rows unfolding in_set_conv_nth by blast
    have "h \<in> set SUMMARY_HEADERS" using that(2) editable_headers(1) by blast
    then have "cell_at x h = cell_at (read_csv_rows (mo_csv s') ! i) h" using written_row_cell [OF i(1)] i(2) rows(2) by simp
    moreover have "read_csv_rows (mo_csv s') ! i \<in> set (read_csv_rows (mo_csv s'))"
      using i(1) by (intro nth_mem) (simp add: rows(2) read_written_rows(2))
    ultimately show ?thesis using cells that(2) by simp
  qed
  have "map (en_canonical env) (path_cells rows) = map (\<lambda>f. en_canonical env (sf_path f)) (supported_invoice_files (en_dir env))"
    unfolding rows(1) by simp
  then have "well_placed env rows"
    unfolding well_placed_def using paths(2,3) path cell by (fastforce simp: plain_path_def)
  then have "files_of (snd (run_sync env' rq' s')) = files_of s'
    \<and> ((\<forall>call t. en_fails env' call t = None) \<longrightarrow> (\<exists>payload'. fst (run_sync env' rq' s') = Inr payload'
         \<and> get_val payload' ''ok'' = VBool True \<and> get_val payload' ''rebuilt'' = VBool False))"
    by (rule idle_run [OF next_run(1) paths(1) readers(2) rows(1) _ rows(2,3) items _ _ _ _ next_run(2)])
      (use left in \<open>simp_all add: tables_done_def\<close>)
  then show ?thesis by (intro exI [of _ "fst (run_sync env' rq' s')"] exI [of _ "snd (run_sync env' rq' s')"]) simp
qed

text \<open>C17: The record of processed files never runs ahead of the tables. Whatever the outcome of a synchronization
  and whichever of its calls raise, either the record is the one before, so that every later comparison finds the
  changes it would have found without this run; or the run rebuilt the summary, the edits in it and the cost tables
  of all files of the directory, recorded them as processed, and changed no file since: then only the reporting
  after the rebuild failed, and nothing is left to retry. (The record before is readable; a reader keeps the path of
  its file.)\<close>

theorem record_never_runs_ahead:
  assumes "run_sync env rq s = (result, s')" and "readable s" and "paths_kept env"
  shows "mo_processed s' = mo_processed s \<and> (\<forall>env'. fst (detect_source_changes env' s') = fst (detect_source_changes env' s))
    \<or> (\<exists>rows. map (\<lambda>row. cell_at row H_FILE_PATH) rows = map sf_path (supported_invoice_files (en_dir env))
          \<and> mo_csv s' = write_csv_rows SUMMARY_HEADERS rows \<and> mo_xlsx s' = write_summary_xlsx (reread_text env) rows)
      \<and> cf_detail (mo_cost s') \<noteq> None \<and> cf_book (mo_cost s') \<noteq> NoCosts \<and> \<not> needs_schema_refresh (mo_cost s')
      \<and> mo_processed s' = plain_json_file (processed_payload env (rebuild_processed_from_summary env (mo_csv s')))
      \<and> (\<exists>r0 counts r1. rebuild_all env r0 = (Inr counts, r1) \<and> files_of s' = files_of (fst r1))"
  using run_sync_outcome [OF assms(1,2)]
proof
  assume "mo_processed s' = mo_processed s"
  then show ?thesis using detect_same [OF assms(2)] by blast
next
  assume "\<exists>r0 counts r1. rebuild_all env r0 = (Inr counts, r1) \<and> files_of s' = files_of (fst r1)"
  then obtain r0 counts r1 where r: "rebuild_all env r0 = (Inr counts, r1)" "files_of s' = files_of (fst r1)" by blast
  from rebuild_all_files [OF assms(3) r(1), folded files_of_eq [OF r(2)] tables_done_files [OF r(2)]] r show ?thesis
    unfolding tables_done_def agree_def by blast
qed

end
