(* ===== verification/Monitor_Sample.thy ===== *)
theory Monitor_Sample
  imports Monitor_Settles Cost_Stock
begin

text \<open>
  A first synchronization of a directory with one readable invoice, and what the summary tells the cost tables.
\<close>

section \<open>The metadata of the summary\<close>

text \<open>
  \<open>CostProjectionService._summary_metadata\<close> names the path of the file by the column of the detail table, and
  \<open>_normalize_metadata_index\<close> looks for the column of the summary: the analysis never sees the metadata.
\<close>

lemma metadata_columns:
  assumes "row \<in> set (summary_metadata csv)" and "k \<in> {H_FILE_PATH, ''file_path'', ''path''}"
  shows "get_val row k = VNone"
proof -
  have "fst ` set row = {F_FILE, F_SELLER, H_BUYER, F_INVOICE_NO, F_DATE, H_AMOUNT, H_EX_TAX, F_TAX, H_CATEGORY, H_BUSINESS,
      H_CLASS_STATUS, H_CLASS_ISSUE}"
    using assms(1) by (auto simp: summary_metadata_def)
  moreover have "\<forall>h\<in>set [F_FILE, F_SELLER, H_BUYER, F_INVOICE_NO, F_DATE, H_AMOUNT, H_EX_TAX, F_TAX, H_CATEGORY, H_BUSINESS,
      H_CLASS_STATUS, H_CLASS_ISSUE]. h \<notin> set [H_FILE_PATH, ''file_path'', ''path'']"
    by code_simp
  ultimately have "k \<notin> fst ` set row" using assms(2) by auto
  then have "dget row k = None" by (simp add: dget_None_iff)
  then show ?thesis by (simp add: get_val_def)
qed

lemma summary_metadata_is_lost: "normalize_metadata_index canonical (summary_metadata csv) = []"
proof -
  have no_path: "clean_text (val_or (val_or (get_val row H_FILE_PATH) (get_val row ''file_path'')) (get_val row ''path'')) = []"
    if "row \<in> set (summary_metadata csv)" for row
  proof -
    have "strip (replace1 nbsp '' '' []) = []" by code_simp
    then show ?thesis using metadata_columns [OF that] by (simp add: clean_text_def val_or_def)
  qed
  have "fold (\<lambda>row index.
      let path = clean_text (val_or (val_or (get_val row H_FILE_PATH) (get_val row ''file_path'')) (get_val row ''path''))
      in if path = [] then index else dput (canonical path) row index) rows [] = []" if "set rows \<subseteq> set (summary_metadata csv)" for rows
    using that by (induction rows) (simp_all add: no_path)
  then show ?thesis unfolding normalize_metadata_index_def by blast
qed

section \<open>A first synchronization\<close>

lemma no_costs_rebuilt:
  "\<exists>d. cost_rebuild (\<lambda>t. t) canonical analyze reread now [] (summary_metadata csv) ''0.08''
    \<lparr>cf_detail = None, cf_book = NoCosts, cf_status = NoFile\<rparr> = Inr (0, d)"
proof -
  have rate: "default_rate_text = ''0.08''" by (simp add: DEFAULT_REFERENCE_MARKUP_RATE_def markup_texts)
  have text_of: "dec_or_empty (Fin False 8 (-2)) = ''0.08''" using rate by (simp add: DEFAULT_REFERENCE_MARKUP_RATE_def)
  have payload: "status_file_payload NoFile = []" by (simp add: status_file_payload_def)
  have meta: "service_markup_meta (\<lambda>t. t) NoFile ''0.08'' = Inr stock_markup"
    by (simp add: service_markup_meta_def payload rate default_rate default_markup service_truthy_def get_default_def)
  have mk: "mk_rate stock_markup = Fin False 8 (-2)" by (simp add: stock_markup_def)
  have groups: "source_groups index [] = []" for index by (simp add: source_groups_def dedup_def)
  have sheet: "read_workbook_sheet NoCosts name = []" for name by (simp add: read_workbook_sheet_def)
  have group_none: "group_by k [] = []" for k :: "vdict \<Rightarrow> 'k::linorder" by (simp add: group_by_def dedup_def)
  obtain out where "build_cost_analysis_outputs (\<lambda>t. t) canonical analyze now [] (summary_metadata csv) ''0.08'' NoFile [] = Inr out"
    "co_detail out = []"
    unfolding build_cost_analysis_outputs_def
    by (simp add: Let_def groups payload check_rows_def rate default_rate text_of load_workbook_reference_status_def merge_reference_status_def
      load_reference_status_def detail_rows_with_tax_average_def seller_summary_def project_spec_summary_def invoice_reference_summary_def group_none)
  then show ?thesis unfolding cost_rebuild_def by (simp add: meta mk text_of sheet)
qed

definition sample_invoice :: invoice_record where
  "sample_invoice =
    \<lparr>iv_invoice_key = [], iv_source_file = ''a.pdf'', iv_source_path = ''a.pdf'', iv_file_type = ''pdf'', iv_invoice_number = [],
     iv_invoice_type = [], iv_business_type = [], iv_classification_status = [], iv_classification_issue = [], iv_invoice_date = [],
     iv_seller = ''x'', iv_buyer = ''y'', iv_amount = ''106.00'', iv_pretax_amount = ''100.00'', iv_tax_rate = ''6%'',
     iv_tax_amount = ''6.00'', iv_duplicate = False, iv_duplicate_label = [], iv_updated_at = []\<rparr>"

definition sample_file :: source_file where
  "sample_file = \<lparr>sf_path = ''a.pdf'', sf_name = ''a.pdf'', sf_stem = ''a'', sf_suffix = ''.pdf'', sf_canonical = ''a.pdf'', sf_folded = ''a.pdf''\<rparr>"

definition sample_request :: sync_request where
  "sample_request = \<lparr>rq_trigger = ''event_sync'', rq_force = False, rq_paths = [], rq_emit = True, rq_notify = True, rq_task_id = [],
     rq_operation_id = ''o''\<rparr>"

definition new_state :: monitor_state where
  "new_state = edited_state\<lparr>mo_csv := None, mo_xlsx := NoBook\<rparr>"

text \<open>The events can be appended, or not; every other call succeeds.\<close>

definition read_env :: "bool \<Rightarrow> monitor_env" where
  "read_env events = (sample_env (\<lambda>f. Inr (sample_invoice\<lparr>iv_source_path := sf_path f\<rparr>)) [sample_file])
     \<lparr>en_fails := (\<lambda>call s. if call = ''event'' \<and> \<not> events then Some OSError else None)\<rparr>"

lemma read_env_fields [simp]:
  "en_dir (read_env events) = [sample_file]" "en_extract (read_env events) = (\<lambda>f. Inr (sample_invoice\<lparr>iv_source_path := sf_path f\<rparr>))"
  "en_canonical (read_env events) = (\<lambda>t. t)" "en_casefold (read_env events) = (\<lambda>t. t)" "en_markup_rate (read_env events) = ''0.08''"
  "en_fails (read_env events) call s = (if call = ''event'' \<and> \<not> events then Some OSError else None)"
  "en_reread (read_env events) = (\<lambda>v. case v of VStr t \<Rightarrow> if t = [] \<or> hd t = CHR ''='' then VNone else v | _ \<Rightarrow> v)"
  "en_runtime_dir (read_env events) f" "en_stat (read_env events) = (\<lambda>t. Some (7, 9))"
  by (simp_all add: read_env_def sample_env_def)

lemma sample_dir_files: "supported_invoice_files [sample_file] = [sample_file]"
  by (simp add: supported_invoice_files_def SUPPORTED_EXTS_def sample_file_def)

lemma sample_changes:
  "source_changes_between [] (source_snapshot (read_env events)) = Inr \<lparr>sc_added = [''a.pdf''], sc_updated = [], sc_deleted = []\<rparr>"
proof -
  have "source_snapshot (read_env events) = [(''a.pdf'', snapshot_entry (read_env events) sample_file)]"
    using sample_dir_files by (simp add: source_snapshot_def) (simp add: sample_file_def)
  then show ?thesis by (simp add: source_changes_between_def compare_file_def dkeys_def)
qed

lemma sample_records: "summary_records suspicious [sample_file] [sample_invoice] = [sample_invoice]"
proof -
  have "digit_runs (uchars ''a'') = []" "uchars [] = []" by code_simp+
  then show ?thesis
    by (simp add: summary_records_def apply_invoice_family_corrections_def family_key_def sample_invoice_def sample_file_def
      mark_duplicates_def Let_def)
qed

lemma sample_summary:
  "build_summary (\<lambda>f. Inr (sample_invoice\<lparr>iv_source_path := sf_path f\<rparr>)) suspicious reread progress [sample_file] p
    = (Inr ([sample_invoice], \<lparr>su_csv = write_csv_rows SUMMARY_HEADERS [summary_row sample_invoice],
        su_xlsx = write_summary_xlsx reread [summary_row sample_invoice]\<rparr>), progress 1 1 (progress 0 1 p))"
proof -
  have "sample_invoice\<lparr>iv_source_path := sf_path sample_file\<rparr> = sample_invoice" by (simp add: sample_invoice_def sample_file_def)
  then show ?thesis by (simp add: build_summary_def sample_dir_files sample_records Let_def)
qed

lemma sample_no_edits: "load_manual_overrides (read_env events) NoFile = Inr []"
  by (simp add: load_manual_overrides_def status_file_payload_def get_val_def)

lemma sample_cost_files: "iter_cost_invoice_files (read_env events) = []"
  by (simp add: iter_cost_invoice_files_def)

lemma sample_rebuild:
  assumes "mo_overrides (fst r) = NoFile" and "mo_cost (fst r) = \<lparr>cf_detail = None, cf_book = NoCosts, cf_status = NoFile\<rparr>"
  shows "\<exists>result r'. rebuild_all (read_env events) r = (Inr result, r')
    \<and> mo_csv (fst r') = write_csv_rows SUMMARY_HEADERS [summary_row sample_invoice] \<and> mo_processed (fst r') \<noteq> NoFile"
proof -
  let ?env = "read_env events"
  let ?csv = "write_csv_rows SUMMARY_HEADERS [summary_row sample_invoice]"
  let ?book = "write_summary_xlsx (reread_text ?env) [summary_row sample_invoice]"
  let ?step = "report_fraction ?env ''summary'' PM_SUMMARY 8 52"
  define r1 where "r1 = ?step 1 1 (?step 0 1 (report ?env ''summary'' PM_SUMMARY 8 r))"
  have f1: "files_of (fst r1) = files_of (fst r)" by (simp add: r1_def)
  have build: "build_summary (en_extract ?env) (en_suspicious ?env) (reread_text ?env) ?step (en_dir ?env)
      (report ?env ''summary'' PM_SUMMARY 8 r) = (Inr ([sample_invoice], \<lparr>su_csv = ?csv, su_xlsx = ?book\<rparr>), r1)"
    unfolding r1_def read_env_fields by (rule sample_summary)
  define w where "w = on_state (\<lambda>s. s\<lparr>mo_csv := ?csv, mo_xlsx := ?book\<rparr>) r1"
  have wrote: "write_summary ?env \<lparr>su_csv = ?csv, su_xlsx = ?book\<rparr> r1 = (Inr (), w)" by (simp add: write_summary_def w_def)
  define r2 where "r2 = report ?env ''summary'' PM_APPLY 52 w"
  have "files_of (fst r2) = files_of ((fst r1)\<lparr>mo_csv := ?csv, mo_xlsx := ?book\<rparr>)" by (simp add: r2_def w_def)
  note r2 = files_of_eq [OF this, simplified]
  note f1 = files_of_eq [OF f1]
  have "apply_manual_overrides_to_summary ?env (fst r2) = Inr (0, fst r2)"
    by (simp add: apply_manual_overrides_to_summary_def r2 f1 assms sample_no_edits apply_override_def Let_def)
  then have edits: "apply_edits ?env r2 = (Inr 0, r2)" by (simp add: apply_edits_def)
  define r3 where "r3 = report ?env ''cost'' PM_COST 52 r2"
  have "files_of (fst r3) = files_of (fst r2)" by (simp add: r3_def)
  note r3 = files_of_eq [OF this]
  obtain d where d: "cost_rebuild (\<lambda>t. t) (\<lambda>t. t) (en_analyze ?env) (en_reread ?env) (en_now ?env) [] (summary_metadata ?csv) ''0.08''
      \<lparr>cf_detail = None, cf_book = NoCosts, cf_status = NoFile\<rparr> = Inr (0, d)"
    using no_costs_rebuilt by blast
  define told where "told = costs_told ?env (report_fraction ?env ''cost'' PM_COST_FILES 52 92) r3"
  have costs: "rebuild_costs ?env (report_fraction ?env ''cost'' PM_COST_FILES 52 92) r3 = (Inr 0, on_state (\<lambda>s. s\<lparr>mo_cost := d\<rparr>) told)"
    using d r3 r2 f1 assms unfolding rebuild_costs_def told_def [symmetric] by (simp add: sample_cost_files)
  have "files_of (fst told) = files_of (fst r3)" by (simp add: told_def costs_told_def split_beta Let_def)
  note told = files_of_eq [OF this]
  let ?n = "length (supported_invoice_files (en_dir ?env))"
  define r5 where "r5 = progress_steps (report_fraction ?env ''finalizing'' PM_FINAL 92 99) ?n ?n
      (report ?env ''finalizing'' PM_FINAL 92 (on_state (\<lambda>s. s\<lparr>mo_cost := d\<rparr>) told))"
  have "files_of (fst r5) = files_of ((fst told)\<lparr>mo_cost := d\<rparr>)" by (simp add: r5_def)
  note r5 = files_of_eq [OF this, simplified]
  have "rebuild_tables ?env r = (Inr (length [sample_invoice], 0, 0), r5)"
    unfolding rebuild_tables_def build run_bind_simps prod.sel wrote r2_def [symmetric] edits r3_def [symmetric] costs Let_def r5_def [symmetric] ..
  then have "rebuild_all ?env r = (Inr (length [sample_invoice], 0, 0),
      on_state (\<lambda>s. save_processed ?env (rebuild_processed_from_summary ?env (mo_csv s)) s) r5)"
    by (simp add: rebuild_all_def record_processed_def attempt_call_ok)
  moreover have "mo_csv (fst r5) = ?csv" using r5 told r3 r2 by simp
  ultimately show ?thesis by (auto simp: save_processed_def plain_json_file_def)
qed

text \<open>The first run, in a state without files, up to the reports after the rebuild.\<close>

lemma sample_locked:
  "\<exists>result r. run_sync_locked (read_env events) sample_request
        (start_progress (read_env events) (new_state, new_sync_progress (read_env events) (rq_trigger sample_request) (rq_task_id sample_request)
          (rq_operation_id sample_request)))
      = except (sync_completed (read_env events) sample_request (as_counts \<lparr>sc_added = [''a.pdf''], sc_updated = [], sc_deleted = []\<rparr>) 0 False False result r)
          (sync_failed (read_env events) sample_request ''SYNC_FAILED'')
    \<and> mo_csv (fst r) = write_csv_rows SUMMARY_HEADERS [summary_row sample_invoice] \<and> mo_processed (fst r) \<noteq> NoFile"
proof -
  let ?env = "read_env events"
  let ?rq = sample_request
  define r0 where "r0 = start_progress ?env (new_state, new_sync_progress ?env (rq_trigger ?rq) (rq_task_id ?rq) (rq_operation_id ?rq))"
  define s0 where "s0 = on_state (update_status ?env
    [(''status'', VStr ''syncing''), (''last_trigger'', VStr (rq_trigger ?rq)), (''last_event_paths'', VList (map VStr (rq_paths ?rq)))]) r0"
  have start: "attempt_call ?env ''status'' (update_status ?env
    [(''status'', VStr ''syncing''), (''last_trigger'', VStr (rq_trigger ?rq)), (''last_event_paths'', VList (map VStr (rq_paths ?rq)))]) r0 = (Inr (), s0)"
    by (simp add: attempt_call_ok s0_def)
  define r1 where "r1 = report ?env ''preparing'' PM_EDITS 0 s0"
  have "files_of (fst r1) = files_of new_state" by (simp add: r1_def s0_def r0_def)
  note r1 = files_of_eq [OF this]
  have edits: "take_over_edits ?env r1 = (Inr 0, r1)"
    by (simp add: take_over_edits_def sync_excel_manual_edits_def r1 new_state_def)
  define r2 where "r2 = report ?env ''scanning'' PM_SCAN 0 r1"
  have "files_of (fst r2) = files_of (fst r1)" by (simp add: r2_def)
  note r2 = files_of_eq [OF this]
  let ?changes = "\<lparr>sc_added = [''a.pdf''], sc_updated = [], sc_deleted = []\<rparr>"
  define r3 where "r3 = progress_steps (report_fraction ?env ''scanning'' PM_SCAN 0 8) 1 1 (fst r2, snd r2)"
  have "mo_processed (fst r2) = NoFile" by (simp add: r2 r1 new_state_def edited_state_def)
  then have detect: "detect_with_progress ?env r2 = (Inr ?changes, r3)"
    using sample_changes by (simp add: detect_with_progress_def detect_source_changes_def load_processed_def r3_def sample_dir_files Let_def)
  have "files_of (fst r3) = files_of (fst r2)" by (simp add: r3_def)
  note r3 = files_of_eq [OF this]
  let ?counts = "as_counts ?changes"
  define r4 where "r4 = on_state (log_event ''INFO'' (sync_action (rq_trigger ?rq)) (counts_text ?counts (rq_force ?rq))) r3"
  have "files_of (fst r4) = files_of (fst r3)" by (simp add: r4_def)
  note r4 = files_of_eq [OF this]
  have "mo_overrides (fst r4) = NoFile" "mo_cost (fst r4) = \<lparr>cf_detail = None, cf_book = NoCosts, cf_status = NoFile\<rparr>"
    by (simp_all add: r4 r3 r2 r1 new_state_def edited_state_def)
  from sample_rebuild [OF this, of events] obtain result r5 where r5: "rebuild_all ?env r4 = (Inr result, r5)"
      "mo_csv (fst r5) = write_csv_rows SUMMARY_HEADERS [summary_row sample_invoice]" "mo_processed (fst r5) \<noteq> NoFile"
    by blast
  have "act_on_changes ?env ?rq 0 ?changes r3 = rebuild_and_report ?env ?rq ?counts 0 False False r3"
    by (simp add: act_on_changes_def changed_def Let_def r3 r2 r1 new_state_def edited_state_def)
  also have "\<dots> = except (sync_completed ?env ?rq ?counts 0 False False result r5) (sync_failed ?env ?rq ''SYNC_FAILED'')"
    by (simp add: rebuild_and_report_def attempt_call_ok r5 flip: r4_def)
  finally have "run_sync_locked ?env ?rq r0 = except (sync_completed ?env ?rq ?counts 0 False False result r5) (sync_failed ?env ?rq ''SYNC_FAILED'')"
    unfolding run_sync_locked_def start run_bind_simps r1_def [symmetric] edits r2_def [symmetric] detect .
  then show ?thesis using r5(2,3) unfolding r0_def by blast
qed

lemma sample_run:
  "\<exists>payload s'. run_sync (read_env True) sample_request new_state = (Inr payload, s') \<and> get_val payload ''rebuilt'' = VBool True
    \<and> get_val payload ''ok'' = VBool True \<and> mo_csv s' = write_csv_rows SUMMARY_HEADERS [summary_row sample_invoice]"
proof -
  let ?env = "read_env True"
  let ?done = "\<lambda>result r. sync_completed ?env sample_request (as_counts \<lparr>sc_added = [''a.pdf''], sc_updated = [], sc_deleted = []\<rparr>) 0 False False result r"
  obtain result r where r: "run_sync_locked ?env sample_request (start_progress ?env (new_state, new_sync_progress ?env (rq_trigger sample_request)
      (rq_task_id sample_request) (rq_operation_id sample_request))) = except (?done result r) (sync_failed ?env sample_request ''SYNC_FAILED'')"
    "mo_csv (fst r) = write_csv_rows SUMMARY_HEADERS [summary_row sample_invoice]"
    using sample_locked [of True] by blast
  have "\<exists>payload. fst (?done result r) = Inr payload \<and> get_val payload ''rebuilt'' = VBool True \<and> get_val payload ''ok'' = VBool True"
    by (simp add: sync_completed_def append_event_def synced_edits_def notified_def attempt_call_def Let_def get_val_def trigger_field_def as_counts_def)
  then obtain payload r' where ok: "?done result r = (Inr payload, r')" "get_val payload ''rebuilt'' = VBool True" "get_val payload ''ok'' = VBool True"
    by (metis prod.collapse)
  have "same_files r (snd (?done result r))" by (rule same_files.rel_completed)
  then have "mo_csv (fst r') = mo_csv (fst r)" using ok(1) files_of_eq [of "fst r'" "fst r"] by (simp add: same_files_def)
  then show ?thesis using r ok by (simp add: run_sync_def)
qed

lemma sample_failure:
  "\<exists>result s'. run_sync (read_env False) sample_request new_state = (result, s') \<and> failed result \<and> mo_processed s' \<noteq> NoFile"
proof -
  let ?env = "read_env False"
  let ?done = "\<lambda>result r. sync_completed ?env sample_request (as_counts \<lparr>sc_added = [''a.pdf''], sc_updated = [], sc_deleted = []\<rparr>) 0 False False result r"
  let ?x = "\<lambda>result r. except (?done result r) (sync_failed ?env sample_request ''SYNC_FAILED'')"
  obtain result r where r: "run_sync_locked ?env sample_request (start_progress ?env (new_state, new_sync_progress ?env (rq_trigger sample_request)
      (rq_task_id sample_request) (rq_operation_id sample_request))) = ?x result r" "mo_processed (fst r) \<noteq> NoFile"
    using sample_locked [of False] by blast
  have emit: "rq_emit sample_request" by (simp add: sample_request_def)
  have "isl (fst (?done result r))"
    by (simp add: sync_completed_def append_event_def attempt_call_def Let_def emit)
  then obtain e r1 where e: "?done result r = (Inl e, r1)" by (metis isl_def prod.collapse)
  have "isl (fst (?x result r))"
    by (simp add: e sync_failed_def append_event_def attempt_call_def Let_def emit)
  then obtain e' r2 where e': "?x result r = (Inl e', r2)" by (metis isl_def prod.collapse)
  have "same_files r (snd (?x result r))"
    by (intro same_files.rel_except same_files.rel_completed same_files.rel_sync_failed)
  then have "files_of (fst (fail_progress ?env (en_msg ?env e') r2)) = files_of (fst r)" by (simp add: e' same_files_def)
  from files_of_eq(3) [OF this] show ?thesis using r e' by (auto simp: run_sync_def failed_def)
qed

text \<open>The events cannot be appended: the first synchronization fails after the rebuild, and has recorded the file.\<close>

theorem record_never_runs_ahead_witness:
  "\<exists>result s'. run_sync (read_env False) sample_request new_state = (result, s') \<and> failed result \<and> mo_processed s' \<noteq> mo_processed new_state
    \<and> map (\<lambda>row. cell_at row H_FILE_PATH) (read_csv_rows (mo_csv s')) = [''a.pdf'']"
proof -
  obtain result s' where run: "run_sync (read_env False) sample_request new_state = (result, s')" "failed result" "mo_processed s' \<noteq> NoFile"
    using sample_failure by blast
  have new: "mo_processed new_state = NoFile" "readable new_state" by (simp_all add: new_state_def edited_state_def readable_def)
  have kept: "paths_kept (read_env False)" by (auto simp: paths_kept_def)
  obtain rows where "map (\<lambda>row. cell_at row H_FILE_PATH) rows = map sf_path (supported_invoice_files (en_dir (read_env False)))"
      "mo_csv s' = write_csv_rows SUMMARY_HEADERS rows"
    using record_never_runs_ahead [OF run(1) new(2) kept] run(3) new(1) by auto
  then have "map (\<lambda>row. cell_at row H_FILE_PATH) (read_csv_rows (mo_csv s')) = [''a.pdf'']"
    using read_written_rows(1) [of rows] by (simp add: sample_dir_files) (simp add: sample_file_def)
  then show ?thesis using run new(1) by auto
qed

theorem progress_never_goes_back_witness:
  "\<exists>result s' xs. run_sync (read_env True) sample_request new_state = (result, s') \<and> mo_published s' = mo_published new_state @ xs
    \<and> get_val (fst (last xs)) ''status'' = VStr ''success'' \<and> count_at (fst (last xs)) ''percent'' = 100"
proof -
  obtain payload s' where run: "run_sync (read_env True) sample_request new_state = (Inr payload, s')" "get_val payload ''ok'' = VBool True"
    using sample_run by blast
  have "\<not> failed (Inr payload)" using run(2) by (simp add: failed_def)
  with progress_never_goes_back [OF run(1)] obtain xs where "mo_published s' = mo_published new_state @ xs"
      "get_val (fst (last xs)) ''status'' = VStr ''success''" "count_at (fst (last xs)) ''percent'' = 100"
    by auto
  then show ?thesis using run(1) by blast
qed

theorem sync_settles_witness:
  "\<exists>payload s' payload' s''. run_sync (read_env True) sample_request new_state = (Inr payload, s') \<and> get_val payload ''rebuilt'' = VBool True
    \<and> run_sync (read_env True) sample_request s' = (Inr payload', s'') \<and> get_val payload' ''rebuilt'' = VBool False \<and> files_of s'' = files_of s'"
proof -
  obtain payload s' where run: "run_sync (read_env True) sample_request new_state = (Inr payload, s')" "get_val payload ''rebuilt'' = VBool True"
    and csv: "mo_csv s' = write_csv_rows SUMMARY_HEADERS [summary_row sample_invoice]"
    using sample_run by blast
  have kept: "paths_kept (read_env True)" by (auto simp: paths_kept_def)
  have re: "rereads (read_env True)" by (simp add: rereads_def)
  have canonical: "\<forall>t. en_canonical (read_env True) (en_canonical (read_env True) t) = en_canonical (read_env True) t" by simp
  have path: "sf_path sample_file = ''a.pdf''" "en_canonical (read_env True) ''a.pdf'' = ''a.pdf''" by (simp_all add: sample_file_def)
  have plain: "\<forall>f\<in>set (supported_invoice_files (en_dir (read_env True))). plain_path (read_env True) f"
    by (simp add: sample_dir_files plain_path_def path sample_columns no_formula_def)
  have distinct: "distinct (map (\<lambda>f. en_canonical (read_env True) (sf_path f)) (supported_invoice_files (en_dir (read_env True))))"
    by (simp add: sample_dir_files)
  have row: "no_formula (cell_at (summary_row sample_invoice) h)" if "h \<in> set EDITABLE_FIELDS" for h
    using that by (auto simp: EDITABLE_FIELDS_def cell_at_def summary_row_def sample_invoice_def no_formula_def)
  have cells: "\<forall>row\<in>set (read_csv_rows (mo_csv s')). \<forall>h\<in>set EDITABLE_FIELDS. no_formula (cell_at row h)"
  proof (intro ballI)
    fix row h assume "row \<in> set (read_csv_rows (mo_csv s'))" and h: "h \<in> set EDITABLE_FIELDS"
    then have "row = map (\<lambda>h. (h, cell_at (summary_row sample_invoice) h)) SUMMARY_HEADERS"
      by (simp add: csv write_csv_rows_def read_csv_rows_def)
    then have "cell_at row h = cell_at (summary_row sample_invoice) h"
      using h editable_headers(1) by (auto simp: cell_at_def dget_map_pairs)
    then show "no_formula (cell_at row h)" using row [OF h] by simp
  qed
  have "sees_same (read_env True) (read_env True)" "\<not> rq_force sample_request" by (simp_all add: sees_same_def sample_request_def)
  from sync_settles [OF kept re canonical plain distinct run cells this] show ?thesis using run by auto
qed

end
