(* ===== verification/Spec2Isabelle.thy ===== *)
theory Spec2Isabelle
  imports Canonical_Json Py_Decimal Py_Date Proposal_Hash Status_Migration Import_Batches Mapping_Writes Rule_Matching
    Ledger_Catalogs Draft_Checks Executable_Vouchers Write_Lock Migration_Replay Cost_Stock Classification_Checks Monitor_Sample
begin

text \<open>
  InvoiceHub watches a directory of Chinese tax invoices, keeps a summary and cost tables of them, and turns the
  invoice index into vouchers that are reviewed, exported and imported into a ledger. This development models the
  core of the Python package \<open>src/src/invoice_hub/\<close> (paths below are relative to it) and proves what makes it correct.

  \<^bold>\<open>How the parts interact.\<close> The monitor (\<open>monitoring/\<close>) compares the invoice files with its record, reads them
  (\<open>extraction/\<close>), writes the summary (\<open>projections/summary.py\<close>), applies the edits of the user and rebuilds the cost
  tables (\<open>projections/cost_analysis.py\<close>, \<open>projections/costs.py\<close>). The bookkeeping package takes the rows of the index:
  \<open>vouchers.py\<close> groups them into drafts with the account rules of \<open>mapping.py\<close> and the catalogs of \<open>catalogs.py\<close>;
  \<open>status.py\<close> keeps each voucher with its history and revision; \<open>decisions.py\<close> saves what a reviewer decides;
  \<open>validator.py\<close> says whether a voucher can be executed; \<open>batches.py\<close> and \<open>import_file.py\<close> export approved vouchers and
  reconcile what the ledger reports. \<open>repository.py\<close> gives all of them state files, digests and the write lock.
  Old state files are migrated explicitly (\<open>mapping_migration.py\<close>, the migration of \<open>status.py\<close>).

  \<^bold>\<open>Theories.\<close> Definitions keep the names of the code; a method \<open>m\<close> is the function \<open>m\<close> on an explicit state.

  \<^item> Python: \<open>Prelude\<close> (results, dictionaries, the locale \<open>dict_like\<close>), \<open>Py_Text\<close> (a \<open>str\<close> is the list of its UTF-8
    bytes), \<open>Py_Value\<close> (JSON values), \<open>Canonical_Json\<close> (the canonical text is injective), \<open>Digest\<close> (SHA-256 and SHA-1 on
    32-bit words), \<open>Py_Decimal\<close> and \<open>Dec_Arith\<close> (\<open>decimal.Decimal\<close> with 28 digits, floats as their \<open>repr\<close>),
    \<open>Cent_Arithmetic\<close> (sums of whole cents are exact), \<open>Py_Date\<close>.
  \<^item> \<open>bookkeeping/repository.py\<close>: \<open>State_Files\<close> (files, revisions; the locale \<open>versioned_store\<close> of compare and swap,
    interpreted for the status store in \<open>Voucher_Status\<close> and for the mapping in \<open>Mapping_Writes\<close>), \<open>Write_Lock\<close>.
  \<^item> \<open>domain/models.py\<close>: \<open>Domain_Models\<close>, one record per model and its \<open>model_dump\<close>.
  \<^item> \<open>bookkeeping/status.py\<close>: \<open>Voucher_Status\<close>, \<open>Voucher_Lifecycle\<close> (the life of one voucher as a step relation, which
    every operation refines), \<open>Proposal_Hash\<close>, \<open>Status_Migration\<close>.
  \<^item> \<open>bookkeeping/mapping.py\<close>, \<open>mapping_migration.py\<close>: \<open>Account_Mapping\<close>, \<open>Rule_Scopes\<close>, \<open>Rule_Matching\<close>, \<open>Mapping_Writes\<close>;
    \<open>Mapping_Migration\<close>, \<open>Migration_Texts\<close>, \<open>Migration_Replay\<close>.
  \<^item> \<open>bookkeeping/catalogs.py\<close>: \<open>Ledger_Catalogs\<close>. \<open>bookkeeping/vouchers.py\<close>: \<open>Voucher_Texts\<close>, \<open>Voucher_Drafts\<close>,
    \<open>Draft_Groups\<close>, \<open>Draft_Checks\<close>. \<open>bookkeeping/decisions.py\<close>: \<open>Voucher_Decisions\<close>, \<open>Decision_Balance\<close>.
  \<^item> \<open>bookkeeping/validator.py\<close>: \<open>Validation_Context\<close>, \<open>Voucher_Validator\<close>, \<open>Voucher_Executability\<close>, \<open>Validator_Soundness\<close>,
    \<open>Executable_Vouchers\<close>.
  \<^item> \<open>bookkeeping/batches.py\<close>, \<open>import_file.py\<close>: \<open>Import_Batches\<close>, \<open>Import_File\<close>.
  \<^item> \<open>extraction/classification.py\<close>, the families of \<open>extraction/parsers.py\<close>, \<open>projections/summary.py\<close>: \<open>Class_Texts\<close>,
    \<open>Invoice_Classification\<close>, \<open>Classification_Checks\<close>, \<open>Invoice_Summary\<close>.
  \<^item> \<open>projections/cost_analysis.py\<close>, \<open>projections/costs.py\<close>: \<open>Cost_Texts\<close>, \<open>Cost_Numbers\<close>, \<open>Cost_Reports\<close>, \<open>Cost_Build\<close>,
    \<open>Cost_Service\<close>, \<open>Cost_Tables\<close>; \<open>Cost_Checks\<close> and \<open>Cost_Stock\<close> hold what the tables promise.
  \<^item> \<open>monitoring/state.py\<close>, \<open>monitoring/sync.py\<close>: \<open>Monitor_Texts\<close>, \<open>Monitor_State\<close>, \<open>Monitor_Sync\<close>; \<open>Monitor_Edits\<close>,
    \<open>Monitor_Rounds\<close> (the locales \<open>quiet_relation\<close>, \<open>report_relation\<close> and \<open>run_relation\<close> of what the calls of a run keep,
    interpreted for the files, the published progress and the record of processed files), \<open>Monitor_Settles\<close> and
    \<open>Monitor_Sample\<close> hold what a synchronization promises.

  \<^bold>\<open>What the lemmas show.\<close> State files: no lost update, what was written reads back, migrations keep everything and can be
  repeated. Vouchers: every row is in one draft, drafts balance and those of the tier \<open>auto\<close> passed
  every check, the totals of a decision are exact and its flag tells whether they agree (a treatment left pending is
  accepted and recorded as unbalanced), a decision is one step of the life of its voucher, an executable voucher balances, is current and is posted once, an export holds approved
  vouchers only, and a confirmed one is never changed. Rules: matching meets its declarative specification. Invoices: the
  classification follows its evidence, passed invoices add up, references stay within the stock, edits of the user
  survive every rebuild, the record of processed files never runs ahead of the tables whichever call of a synchronization
  raises, the progress shown never falls, and a finished synchronization settles. The lock excludes; every agent
  finishes and every lock is released, also where acquisitions raise, and an agent none of whose acquisitions raised ran
  all its blocks.

  \<^bold>\<open>Calls that may raise.\<close> \<open>en_fails\<close> of \<open>Monitor_State\<close> says which calls of a synchronization raise, by name and state: the
  log, the status, an event (SQLite), a notification, the summary, the record of processed files and a snapshot of the
  progress; reading files and the cost tables may raise too. \<open>os_lock_fails\<close> of \<open>Write_Lock\<close> says when the lock file is
  refused: on Windows, where \<open>_acquire_os_lock\<close> reads the byte before it locks it and \<open>LK_LOCK\<close> gives up after ten tries,
  any acquisition that meets a holder may raise (\<open>contention_refuses_on_windows\<close>); elsewhere it waits.

  \<^bold>\<open>Conventions.\<close> A raised exception is \<open>Inl\<close> of an \<open>exc\<close>; the texts of messages are modelled where the code stores or
  hashes them (then by the bytes of their UTF-8 encoding), else an English tag stands for them. \<open>msg\<close> is \<open>str(exc)\<close>.
  An operation reads the clock once (\<open>now\<close>). A JSON file holds its bytes and what \<open>json.loads\<close> makes of them.
  Files an operation only reads do not change while it runs, and have no byte order mark. \<open>int\<close> of an infinite float is a
  \<open>ValueError\<close> and a missing attribute a \<open>TypeError\<close> of the model.

  \<^bold>\<open>Parameters\<close> stand for code that is not part of the repository or that is not modelled: \<open>model_validate\<close> of pydantic (\<open>vitem\<close>,
  \<open>vrule\<close> and others), NFKC normalization and \<open>casefold\<close> of Unicode, \<open>Path.resolve\<close> and the directory tree (\<open>source_tree\<close>,
  \<open>source_file\<close>), the workbook library (\<open>xlsx\<close>, \<open>reread\<close>), the readers of PDF, OFD and XML files (\<open>extract\<close>, \<open>analyze\<close>), the test
  of a company name (\<open>suspicious\<close>), the calls that raise (\<open>en_fails\<close>), and the files after a failed write (\<open>en_torn\<close>,
  \<open>en_torn_summary\<close>).

  \<^bold>\<open>Bounds and fuel.\<close> \<open>shortest_from\<close> tries 1 to 17 digits: 17 digits determine a double. The loops that cut labels are
  \<open>while_option\<close>, proved to end. Sums of cents are exact below \<open>10 ^ 26\<close>; \<open>huge_amount_raises\<close> shows the exception
  beyond it. Exponents of decimals are not limited. All other loops are structural, or have a measure.

  \<^bold>\<open>Not modelled.\<close> \<open>services/app_state.py\<close> and \<open>api/app.py\<close> (HTTP routes, threads, and the orchestration of the operations
  above), \<open>projections/documents.py\<close> and \<open>services/file_preview.py\<close>, \<open>ofd_rendering.py\<close>, \<open>invoice_printing.py\<close> (rendering by
  third-party libraries), the readers of \<open>extraction/parsers.py\<close> and of \<open>cost_analysis.py\<close> (word boxes and regular expressions over
  what PDF libraries return), \<open>services/update_service.py\<close> (network), \<open>services/skins.py\<close> (assets), \<open>targets/paths.py\<close> and
  \<open>storage/repository.py\<close> (paths, SQLite), \<open>platform/host_rpc.py\<close>, \<open>release/\<close> and \<open>scripts/\<close> (build tooling), the process loop
  and the pid file of the monitor (\<open>daemon.py\<close>, \<open>control.py\<close>, \<open>polling_observer.py\<close>), the diagnostic copies that corrupt
  state files leave, exceptions of the writes inside \<open>sync_excel_manual_edits\<close>, \<open>apply_manual_overrides_to_summary\<close> and
  \<open>load_processed\<close>, fonts and column widths, and the float totals of \<open>_reference_stats\<close>.
\<close>

end
